(* ===== verification/Prelude.thy ===== *)
theory Prelude
  imports Complex_Main "HOL-Library.AList" "HOL-Library.Sublist"
begin

text \<open>
  What the components share: Python exceptions as values, insertion-ordered dictionaries with
  string keys, dynamic values (\<open>Any\<close>), the string methods the code uses, and two interfaces
  stated as locales (a keyed store; a guarded check). The collections \<open>dict_simps\<close>,
  \<open>str_simps\<close> and \<open>res_simps\<close> carry the automation of the component theories.
\<close>

named_theorems dict_simps \<open>equations of insertion-ordered dictionaries\<close>
named_theorems str_simps \<open>equations of the string methods\<close>
named_theorems res_simps \<open>equations of results that may be an exception\<close>

section \<open>Exceptions and results\<close>

text \<open>
  An exception is its class name and its text, which is what the code reads of one
  (\<open>exc.__class__.__name__\<close>, \<open>str(exc)\<close>) beside the class test of \<open>except\<close>.
  A computation that may raise returns a sum: \<open>Inl\<close> the exception, \<open>Inr\<close> the value.
\<close>

datatype exc = Exc (exc_class: string) (exc_text: string)

type_synonym 'a res = "exc + 'a"

definition res_bind :: "'a res \<Rightarrow> ('a \<Rightarrow> 'b res) \<Rightarrow> 'b res" where
  "res_bind m f = (case m of Inl e \<Rightarrow> Inl e | Inr a \<Rightarrow> f a)"

lemma res_bind_simps [simp, res_simps]:
  "res_bind (Inl e) f = Inl e"
  "res_bind (Inr a) f = f a"
  by (simp_all add: res_bind_def)

lemma res_bind_Inr_iff [res_simps]:
  "res_bind m f = Inr b \<longleftrightarrow> (\<exists>a. m = Inr a \<and> f a = Inr b)"
  by (cases m) simp_all

lemma res_bind_Inl_iff:
  "res_bind m f = Inl e \<longleftrightarrow> m = Inl e \<or> (\<exists>a. m = Inr a \<and> f a = Inl e)"
  by (cases m) simp_all

lemma res_bind_cong [fundef_cong]:
  "m = m' \<Longrightarrow> (\<And>a. m' = Inr a \<Longrightarrow> f a = g a) \<Longrightarrow> res_bind m f = res_bind m' g"
  by (cases m') simp_all

fun is_ret :: "'a res \<Rightarrow> bool" where
  "is_ret (Inl e) = False"
| "is_ret (Inr a) = True"

text \<open>\<open>[f(x) for x in xs]\<close> where \<open>f\<close> may raise: the first exception stops the loop.\<close>

fun res_map :: "('a \<Rightarrow> 'b res) \<Rightarrow> 'a list \<Rightarrow> 'b list res" where
  "res_map f [] = Inr []"
| "res_map f (x # xs) =
     res_bind (f x) (\<lambda>y. res_bind (res_map f xs) (\<lambda>ys. Inr (y # ys)))"

lemma res_map_cong [fundef_cong]:
  "xs = ys \<Longrightarrow> (\<And>x. x \<in> set ys \<Longrightarrow> f x = g x) \<Longrightarrow> res_map f xs = res_map g ys"
  by (induction ys arbitrary: xs) (auto intro!: res_bind_cong)

lemma res_map_Inr: "(\<And>x. x \<in> set xs \<Longrightarrow> f x = Inr (g x)) \<Longrightarrow> res_map f xs = Inr (map g xs)"
  by (induction xs) simp_all

lemma res_map_ret: "(\<And>x. x \<in> set xs \<Longrightarrow> \<exists>y. f x = Inr y) \<Longrightarrow> \<exists>ys. res_map f xs = Inr ys"
proof (induction xs)
  case Nil
  then show ?case by simp
next
  case (Cons x xs)
  from Cons.prems obtain y where y: "f x = Inr y" by auto
  from Cons.IH Cons.prems obtain ys where "res_map f xs = Inr ys" by auto
  with y show ?case by simp
qed

lemma res_map_Inr_all:
  "res_map f xs = Inr ys \<Longrightarrow> list_all2 (\<lambda>x y. f x = Inr y) xs ys"
  by (induction xs arbitrary: ys) (auto simp: res_bind_Inr_iff)

section \<open>Dictionaries\<close>

text \<open>
  A \<open>dict\<close> with string keys is an association list in insertion order. \<open>AList.update\<close>
  is \<open>d[k] = v\<close>: a known key keeps its position, a new one is appended.
\<close>

type_synonym 'v dict = "(string \<times> 'v) list"

definition dget :: "'v dict \<Rightarrow> string \<Rightarrow> 'v option" where
  "dget d k = map_of d k"

definition dput :: "string \<Rightarrow> 'v \<Rightarrow> 'v dict \<Rightarrow> 'v dict" where
  "dput k v d = AList.update k v d"

definition dhas :: "'v dict \<Rightarrow> string \<Rightarrow> bool" where
  "dhas d k = (map_of d k \<noteq> None)"

definition dget_default :: "'v dict \<Rightarrow> string \<Rightarrow> 'v \<Rightarrow> 'v" where
  "dget_default d k v = (case map_of d k of None \<Rightarrow> v | Some w \<Rightarrow> w)"

definition dkeys :: "'v dict \<Rightarrow> string list" where
  "dkeys d = map fst d"

definition dvalues :: "'v dict \<Rightarrow> 'v list" where
  "dvalues d = map snd d"

definition ddelete :: "string \<Rightarrow> 'v dict \<Rightarrow> 'v dict" where
  "ddelete k d = filter (\<lambda>p. fst p \<noteq> k) d"

text \<open>\<open>d.update(e)\<close>, and \<open>{k(x): v(x) for x in xs}\<close>: later entries win.\<close>

definition dupdate :: "'v dict \<Rightarrow> 'v dict \<Rightarrow> 'v dict" where
  "dupdate d e = fold (\<lambda>(k, v). dput k v) e d"

definition dict_by :: "('a \<Rightarrow> string) \<Rightarrow> ('a \<Rightarrow> 'v) \<Rightarrow> 'a list \<Rightarrow> 'v dict" where
  "dict_by kf vf xs = fold (\<lambda>x. dput (kf x) (vf x)) xs []"

definition dict_ok :: "'v dict \<Rightarrow> bool" where
  "dict_ok d = distinct (map fst d)"

lemma dget_nil [simp, dict_simps]: "dget [] k = None"
  by (simp add: dget_def)

lemma dget_cons [simp, dict_simps]: "dget ((k, v) # d) k' = (if k = k' then Some v else dget d k')"
  by (simp add: dget_def)

lemma dget_dput [simp, dict_simps]:
  "dget (dput k v d) k' = (if k = k' then Some v else dget d k')"
  by (simp add: dget_def dput_def update_conv)

lemma dput_nil [simp]: "dput k v [] = [(k, v)]"
  by (simp add: dput_def)

lemma dput_cons [simp]:
  "dput k v ((k', v') # d) = (if k' = k then (k, v) # d else (k', v') # dput k v d)"
  by (simp add: dput_def)

lemma dhas_iff [dict_simps]: "dhas d k \<longleftrightarrow> k \<in> set (map fst d)"
  by (induction d) (auto simp: dhas_def)

lemma dhas_dget: "dhas d k \<longleftrightarrow> dget d k \<noteq> None"
  by (simp add: dhas_def dget_def)

lemma dhas_simps [simp]:
  "dhas [] k = False"
  "dhas ((k', v) # d) k = (k' = k \<or> dhas d k)"
  by (auto simp: dhas_def)

lemma dhas_dput [simp]: "dhas (dput k v d) k' \<longleftrightarrow> k = k' \<or> dhas d k'"
  by (simp add: dhas_dget)

lemma dget_default_dget: "dget_default d k v = (case dget d k of None \<Rightarrow> v | Some w \<Rightarrow> w)"
  by (simp add: dget_default_def dget_def)

lemma dget_default_simps [simp]:
  "dget_default [] k v = v"
  "dget_default ((k', w) # d) k v = (if k' = k then w else dget_default d k v)"
  by (simp_all add: dget_default_def)

lemma dkeys_simps [simp]: "dkeys [] = []" "dkeys ((k, v) # d) = k # dkeys d"
  by (simp_all add: dkeys_def)

lemma dvalues_simps [simp]: "dvalues [] = []" "dvalues ((k, v) # d) = v # dvalues d"
  by (simp_all add: dvalues_def)

lemma dput_keys_new: "\<not> dhas d k \<Longrightarrow> dput k v d = d @ [(k, v)]"
  by (induction d) (auto simp: dhas_def split: if_splits)

lemma dvalues_append: "dvalues (d @ e) = dvalues d @ dvalues e"
  by (simp add: dvalues_def)

lemma dkeys_append: "dkeys (d @ e) = dkeys d @ dkeys e"
  by (simp add: dkeys_def)

lemma dkeys_set: "set (dkeys d) = {k. dhas d k}"
  by (auto simp: dkeys_def dhas_iff)

lemma dict_ok_nil [simp]: "dict_ok []"
  by (simp add: dict_ok_def)

lemma dict_ok_dput [simp, intro]: "dict_ok d \<Longrightarrow> dict_ok (dput k v d)"
  by (simp add: dict_ok_def dput_def distinct_update)

lemma ddelete_dget [simp]: "dget (ddelete k d) k' = (if k = k' then None else dget d k')"
  by (induction d) (auto simp: ddelete_def)

lemma ddelete_dhas [simp]: "dhas (ddelete k d) k' \<longleftrightarrow> k \<noteq> k' \<and> dhas d k'"
  by (simp add: dhas_dget)

lemma dict_by_snoc: "dict_by kf vf (xs @ [x]) = dput (kf x) (vf x) (dict_by kf vf xs)"
  by (simp add: dict_by_def)

lemma dict_by_dget_Some:
  "dget (dict_by kf vf xs) k = Some v \<Longrightarrow> \<exists>x \<in> set xs. kf x = k \<and> vf x = v"
  by (induction xs rule: rev_induct) (auto simp: dict_by_snoc dict_by_def split: if_splits)

lemma dict_by_dget_None: "dget (dict_by kf vf xs) k = None \<longleftrightarrow> k \<notin> kf ` set xs"
  by (induction xs rule: rev_induct) (auto simp: dict_by_snoc dict_by_def)

lemma dict_by_distinct:
  "distinct (map kf xs) \<Longrightarrow> x \<in> set xs \<Longrightarrow> dget (dict_by kf vf xs) (kf x) = Some (vf x)"
proof (induction xs rule: rev_induct)
  case Nil
  then show ?case by simp
next
  case (snoc y ys)
  then show ?case by (auto simp: dict_by_snoc image_iff)
qed
end
