(* ===== verification/PyValue.thy ===== *)
theory PyValue
  imports Prelude
begin

text \<open>
  Strings and dynamic values of the source language. A \<open>str\<close> is a list of characters with
  code points 0 to 255 (Latin-1). \<open>pyval\<close> is what a variable of type \<open>Any\<close> holds in
  this program: the JSON values, tuples, and instances of dataclasses. A float is the rational it
  denotes (NaN and the infinities are not values of the model).
\<close>

section \<open>String methods\<close>

fun digit_char :: "nat \<Rightarrow> char" where
  "digit_char n = ''0123456789'' ! (n mod 10)"

text \<open>\<open>str(n)\<close> of a natural number and of an integer.\<close>

fun nat_str :: "nat \<Rightarrow> string" where
  "nat_str n = (if n < 10 then [digit_char n] else nat_str (n div 10) @ [digit_char (n mod 10)])"

declare nat_str.simps [simp del]

definition int_str :: "int \<Rightarrow> string" where
  "int_str i = (if i < 0 then ''-'' @ nat_str (nat (- i)) else nat_str (nat i))"

text \<open>\<open>s.startswith(p)\<close>, \<open>sub in s\<close>, \<open>s.split(c)\<close> for a one-character
  separator, \<open>sep.join(xs)\<close>, \<open>s.lstrip(c)\<close>, \<open>s.strip()\<close>, \<open>s.lower()\<close>.\<close>

definition py_startswith :: "string \<Rightarrow> string \<Rightarrow> bool" where
  "py_startswith s p = (take (length p) s = p)"

fun py_contains :: "string \<Rightarrow> string \<Rightarrow> bool" where
  "py_contains sub [] = (sub = [])"
| "py_contains sub (c # cs) = (py_startswith (c # cs) sub \<or> py_contains sub cs)"

fun py_split :: "char \<Rightarrow> string \<Rightarrow> string list" where
  "py_split c [] = [[]]"
| "py_split c (x # xs) =
     (if x = c then [] # py_split c xs
      else (case py_split c xs of [] \<Rightarrow> [[x]] | w # ws \<Rightarrow> (x # w) # ws))"

fun py_join :: "string \<Rightarrow> string list \<Rightarrow> string" where
  "py_join sep [] = []"
| "py_join sep [w] = w"
| "py_join sep (w # v # ws) = w @ sep @ py_join sep (v # ws)"

definition py_lstrip :: "char \<Rightarrow> string \<Rightarrow> string" where
  "py_lstrip c s = dropWhile (\<lambda>x. x = c) s"

definition py_isspace :: "char \<Rightarrow> bool" where
  "py_isspace c = (let n = (of_char c :: nat) in
     n = 32 \<or> 9 \<le> n \<and> n \<le> 13 \<or> 28 \<le> n \<and> n \<le> 31 \<or> n = 133 \<or> n = 160)"

definition py_strip :: "string \<Rightarrow> string" where
  "py_strip s = rev (dropWhile py_isspace (rev (dropWhile py_isspace s)))"

definition py_lower_char :: "char \<Rightarrow> char" where
  "py_lower_char c = (let n = (of_char c :: nat) in
     if 65 \<le> n \<and> n \<le> 90 \<or> 192 \<le> n \<and> n \<le> 222 \<and> n \<noteq> 215 then char_of (n + 32) else c)"

definition py_lower :: "string \<Rightarrow> string" where
  "py_lower s = map py_lower_char s"

definition newline :: char where
  "newline = char_of (10 :: nat)"

definition nl :: string where
  "nl = [char_of (10 :: nat)]"

text \<open>\<open>s.splitlines()\<close>: a carriage return and the line feed after it are one break.\<close>

definition line_break :: "char \<Rightarrow> bool" where
  "line_break c = ((of_char c :: nat) \<in> {10, 11, 12, 13, 28, 29, 30, 133})"

fun split_lines :: "bool \<Rightarrow> string \<Rightarrow> string \<Rightarrow> string list" where
  "split_lines after_cr cur [] = (if cur = [] then [] else [rev cur])"
| "split_lines after_cr cur (c # cs) =
     (if line_break c
      then (if after_cr \<and> (of_char c :: nat) = 10 then split_lines False [] cs
            else rev cur # split_lines ((of_char c :: nat) = 13) [] cs)
      else split_lines False (c # cur) cs)"

definition py_rstrip :: "string \<Rightarrow> string" where
  "py_rstrip s = rev (dropWhile py_isspace (rev s))"

text \<open>\<open>s.split()\<close>: the words between runs of white space; the first argument is the word read so far, reversed.\<close>

fun py_words :: "string \<Rightarrow> string \<Rightarrow> string list" where
  "py_words cur [] = (if cur = [] then [] else [rev cur])"
| "py_words cur (c # cs) =
     (if py_isspace c then (if cur = [] then py_words [] cs else rev cur # py_words [] cs)
      else py_words (c # cur) cs)"

text \<open>\<open>xs[:limit]\<close>: a negative limit counts from the end.\<close>

definition py_slice_to :: "int \<Rightarrow> 'a list \<Rightarrow> 'a list" where
  "py_slice_to limit xs = (if 0 \<le> limit then take (nat limit) xs else take (length xs - nat (- limit)) xs)"

lemma py_startswith_prefix: "py_startswith s p \<longleftrightarrow> prefix p s"
  by (auto simp: py_startswith_def prefix_def) (metis append_take_drop_id)

lemma py_startswith_simps [simp, str_simps]:
  "py_startswith s []"
  "py_startswith [] (c # cs) = False"
  "py_startswith (d # ds) (c # cs) = (d = c \<and> py_startswith ds cs)"
  by (auto simp: py_startswith_def)

lemma py_split_nonempty [simp]: "py_split c s \<noteq> []"
  by (induction s) (auto split: list.splits)

lemma py_split_no_sep [simp, str_simps]: "c \<notin> set s \<Longrightarrow> py_split c s = [s]"
  by (induction s) auto

lemma py_split_append_sep [str_simps]:
  "c \<notin> set w \<Longrightarrow> py_split c (w @ c # s) = w # py_split c s"
  by (induction w) (auto split: list.splits)

lemma py_split_pieces: "w \<in> set (py_split c s) \<Longrightarrow> c \<notin> set w"
proof (induction s arbitrary: w)
  case Nil
  then show ?case by simp
next
  case (Cons x xs)
  obtain v vs where s: "py_split c xs = v # vs"
    by (cases "py_split c xs") simp_all
  with Cons show ?case by (auto split: if_splits)
qed

lemma py_split_join:
  "ws \<noteq> [] \<Longrightarrow> (\<And>w. w \<in> set ws \<Longrightarrow> c \<notin> set w) \<Longrightarrow> py_split c (py_join [c] ws) = ws"
  by (induction "[c]" ws rule: py_join.induct) (simp_all add: py_split_append_sep)

lemma py_split_append2:
  "c \<notin> set w \<Longrightarrow> py_split c (w @ s) = (w @ hd (py_split c s)) # tl (py_split c s)"
  by (induction w) (auto split: list.splits simp: hd_Cons_tl)

lemma py_split_append:
  "py_split c (s @ c # t) = py_split c s @ py_split c t"
  by (induction s) (auto split: list.splits)

lemma py_strip_nil [simp]: "py_strip [] = []"
  by (simp add: py_strip_def)

lemma py_contains_nil [simp]: "py_contains [] s"
  by (cases s) simp_all

lemma nat_str_nonempty [simp]: "nat_str n \<noteq> []"
  by (subst nat_str.simps) simp

lemma nat_str_digits: "c \<in> set (nat_str n) \<Longrightarrow> c \<in> set ''0123456789''"
proof (induction n rule: nat_str.induct)
  case (1 n)
  have d: "digit_char k \<in> set ''0123456789''" for k
    unfolding digit_char.simps by (rule nth_mem) simp
  show ?case
  proof (cases "n < 10")
    case True
    with "1.prems" d[of n] show ?thesis by (simp add: nat_str.simps[of n] del: digit_char.simps)
  next
    case False
    with "1.prems" have "c \<in> set (nat_str (n div 10)) \<or> c = digit_char (n mod 10)"
      by (auto simp: nat_str.simps[of n] simp del: digit_char.simps)
    with "1.IH"[OF False] d show ?thesis by blast
  qed
qed

section \<open>Dynamic values\<close>

datatype pyval =
    PNone
  | PBool bool
  | PInt int
  | PFloat rat
  | PStr string
  | PList "pyval list"
  | PTuple "pyval list"
  | PDict "(string \<times> pyval) list"
  | PObj string "(string \<times> pyval) list"

text \<open>\<open>bool(v)\<close>: an instance of a dataclass is true.\<close>

fun py_truthy :: "pyval \<Rightarrow> bool" where
  "py_truthy PNone = False"
| "py_truthy (PBool b) = b"
| "py_truthy (PInt i) = (i \<noteq> 0)"
| "py_truthy (PFloat q) = (q \<noteq> 0)"
| "py_truthy (PStr s) = (s \<noteq> [])"
| "py_truthy (PList xs) = (xs \<noteq> [])"
| "py_truthy (PTuple xs) = (xs \<noteq> [])"
| "py_truthy (PDict d) = (d \<noteq> [])"
| "py_truthy (PObj c fs) = True"

text \<open>\<open>bool\<close> is a subclass of \<open>int\<close>: a truth value is a number, and equal to 0 or 1.\<close>

fun py_number :: "pyval \<Rightarrow> rat option" where
  "py_number (PBool b) = Some (if b then 1 else 0)"
| "py_number (PInt i) = Some (of_int i)"
| "py_number (PFloat q) = Some q"
| "py_number _ = None"

text \<open>\<open>x == y\<close>. Dictionaries compare without order, dataclass instances by class and fields.\<close>

function py_eq :: "pyval \<Rightarrow> pyval \<Rightarrow> bool"
  and py_eq_list :: "pyval list \<Rightarrow> pyval list \<Rightarrow> bool"
  and py_eq_items :: "(string \<times> pyval) list \<Rightarrow> (string \<times> pyval) list \<Rightarrow> bool"
where
  "py_eq x y =
     (case (x, y) of
        (PNone, PNone) \<Rightarrow> True
      | (PStr s, PStr t) \<Rightarrow> s = t
      | (PList xs, PList ys) \<Rightarrow> py_eq_list xs ys
      | (PTuple xs, PTuple ys) \<Rightarrow> py_eq_list xs ys
      | (PDict d, PDict e) \<Rightarrow> length d = length e \<and> py_eq_items d e
      | (PObj c fs, PObj c' gs) \<Rightarrow> c = c' \<and> length fs = length gs \<and> py_eq_items fs gs
      | _ \<Rightarrow> (case (py_number x, py_number y) of (Some p, Some q) \<Rightarrow> p = q | _ \<Rightarrow> False))"
| "py_eq_list [] ys = (ys = [])"
| "py_eq_list (x # xs) ys = (case ys of [] \<Rightarrow> False | y # ys' \<Rightarrow> py_eq x y \<and> py_eq_list xs ys')"
| "py_eq_items [] e = True"
| "py_eq_items ((k, v) # d) e =
     ((case map_of e k of None \<Rightarrow> False | Some w \<Rightarrow> py_eq v w) \<and> py_eq_items d e)"
  by pat_completeness auto
termination
  by (relation "measure (case_sum (\<lambda>(x, y). size x)
        (case_sum (\<lambda>(xs, ys). size_list size xs) (\<lambda>(d, e). size_list (size_prod (\<lambda>_. 0) size) d)))") auto

text \<open>\<open>v in xs\<close> for a list.\<close>

definition py_in_list :: "pyval \<Rightarrow> pyval list \<Rightarrow> bool" where
  "py_in_list v xs = list_ex (\<lambda>x. py_eq v x) xs"

lemma py_eq_simps [simp]:
  "py_eq PNone PNone"
  "py_eq (PStr s) (PStr t) = (s = t)"
  "py_eq (PInt i) (PInt j) = (i = j)"
  "py_eq (PBool b) (PBool c) = (b = c)"
  "py_eq (PList xs) (PList ys) = py_eq_list xs ys"
  "py_eq (PTuple xs) (PTuple ys) = py_eq_list xs ys"
  "py_eq (PDict d) (PDict e) = (length d = length e \<and> py_eq_items d e)"
  "py_eq (PStr s) PNone = False"
  "py_eq PNone (PStr s) = False"
  "py_eq (PBool b) (PInt i) = (i = (if b then 1 else 0))"
  by (auto simp: py_eq.simps)

declare py_eq.simps [simp del]

lemma py_in_list_simps [simp]:
  "py_in_list v [] = False"
  "py_in_list v (x # xs) = (py_eq v x \<or> py_in_list v xs)"
  by (simp_all add: py_in_list_def)

text \<open>\<open>d.get(key)\<close> and \<open>d.get(key, default)\<close>, where a missing key gives \<open>None\<close>.\<close>

definition pget :: "pyval dict \<Rightarrow> string \<Rightarrow> pyval" where
  "pget d k = dget_default d k PNone"

lemma pget_simps [simp]:
  "pget [] k = PNone"
  "pget ((k', v) # d) k = (if k' = k then v else pget d k)"
  by (simp_all add: pget_def)

text \<open>\<open>x or y\<close>.\<close>

definition py_or :: "pyval \<Rightarrow> pyval \<Rightarrow> pyval" where
  "py_or x y = (if py_truthy x then x else y)"

text \<open>An optional string of the source (\<open>str | None\<close>) as a value.\<close>

fun opt_str :: "string option \<Rightarrow> pyval" where
  "opt_str None = PNone"
| "opt_str (Some s) = PStr s"

definition py_strs :: "string list \<Rightarrow> pyval" where
  "py_strs xs = PList (map PStr xs)"

end
