(* ===== verification/Interfaces.thy ===== *)
theory Interfaces
  imports PyValue
begin

text \<open>
  The registries of the program share one contract, stated here as a locale: what a lookup
  returns after a registration, and the invariant registration keeps. Two kinds extend it: a
  registry that refuses a known key, and one that overwrites it. \<open>register_all\<close> is the loop
  \<open>for x in xs: registry.register(x)\<close> every factory of the program runs.
\<close>

fun register_all :: "('v \<Rightarrow> 's \<Rightarrow> 's res) \<Rightarrow> 'v list \<Rightarrow> 's \<Rightarrow> 's res" where
  "register_all register [] s = Inr s"
| "register_all register (v # vs) s = res_bind (register v s) (register_all register vs)"

locale keyed_registry =
  fixes lookup :: "'s \<Rightarrow> string \<Rightarrow> 'v option"
    and register :: "'v \<Rightarrow> 's \<Rightarrow> 's res"
    and key :: "'v \<Rightarrow> string"
    and inv :: "'s \<Rightarrow> bool"
  assumes register_lookup: "inv s \<Longrightarrow> register v s = Inr s' \<Longrightarrow>
      lookup s' k = (if k = key v then Some v else lookup s k)"
    and register_inv: "inv s \<Longrightarrow> register v s = Inr s' \<Longrightarrow> inv s'"
begin

lemma register_all_inv: "inv s \<Longrightarrow> register_all register vs s = Inr s' \<Longrightarrow> inv s'"
  by (induction vs arbitrary: s) (auto simp: res_bind_Inr_iff dest: register_inv)

lemma register_all_other:
  "inv s \<Longrightarrow> register_all register vs s = Inr s' \<Longrightarrow> k \<notin> key ` set vs \<Longrightarrow> lookup s' k = lookup s k"
proof (induction vs arbitrary: s)
  case Nil
  then show ?case by simp
next
  case (Cons v vs)
  then obtain t where t: "register v s = Inr t" "register_all register vs t = Inr s'"
    by (auto simp: res_bind_Inr_iff)
  from Cons.prems t have "lookup s' k = lookup t k"
    by (intro Cons.IH) (auto dest: register_inv)
  with Cons.prems register_lookup [OF Cons.prems(1) t(1)] show ?case by simp
qed

lemma register_all_keys:
  assumes "inv s" "register_all register vs s = Inr s'"
  shows "lookup s' k \<noteq> None \<longleftrightarrow> k \<in> key ` set vs \<or> lookup s k \<noteq> None"
  using assms
proof (induction vs arbitrary: s)
  case Nil
  then show ?case by simp
next
  case (Cons v vs)
  then obtain t where t: "register v s = Inr t" "register_all register vs t = Inr s'"
    by (auto simp: res_bind_Inr_iff)
  from Cons.prems t have "lookup s' k \<noteq> None \<longleftrightarrow> k \<in> key ` set vs \<or> lookup t k \<noteq> None"
    by (intro Cons.IH) (auto dest: register_inv)
  with register_lookup [OF Cons.prems(1) t(1)] show ?case by auto
qed

lemma register_all_distinct_lookup:
  "inv s \<Longrightarrow> register_all register vs s = Inr s' \<Longrightarrow> distinct (map key vs) \<Longrightarrow> v \<in> set vs \<Longrightarrow>
     lookup s' (key v) = Some v"
proof (induction vs arbitrary: s)
  case Nil
  then show ?case by simp
next
  case (Cons w vs)
  then obtain t where t: "register w s = Inr t" "register_all register vs t = Inr s'"
    by (auto simp: res_bind_Inr_iff)
  have inv_t: "inv t" using register_inv [OF Cons.prems(1) t(1)] .
  show ?case
  proof (cases "v = w")
    case True
    have "lookup s' (key w) = lookup t (key w)"
      using Cons.prems(3) by (intro register_all_other [OF inv_t t(2)]) auto
    with True register_lookup [OF Cons.prems(1) t(1)] show ?thesis by simp
  next
    case False
    with Cons.prems t(2) inv_t show ?thesis by (intro Cons.IH) auto
  qed
qed

end

locale once_registry = keyed_registry +
  assumes register_once: "inv s \<Longrightarrow> register v s = Inr s' \<Longrightarrow> lookup s (key v) = None"
begin

lemma register_keeps: "inv s \<Longrightarrow> register v s = Inr s' \<Longrightarrow> lookup s k = Some w \<Longrightarrow> lookup s' k = Some w"
  using register_once register_lookup by fastforce

lemma register_all_fresh:
  "inv s \<Longrightarrow> register_all register vs s = Inr s' \<Longrightarrow>
     distinct (map key vs) \<and> (\<forall>v \<in> set vs. lookup s (key v) = None)"
proof (induction vs arbitrary: s)
  case Nil
  then show ?case by simp
next
  case (Cons v vs)
  then obtain t where t: "register v s = Inr t" "register_all register vs t = Inr s'"
    by (auto simp: res_bind_Inr_iff)
  have "distinct (map key vs) \<and> (\<forall>w \<in> set vs. lookup t (key w) = None)"
    using Cons.prems t by (intro Cons.IH) (auto dest: register_inv)
  then show ?case
    using register_once [OF Cons.prems(1) t(1)] register_lookup [OF Cons.prems(1) t(1)]
    by (auto split: if_splits)
qed

lemma register_all_lookup:
  "inv s \<Longrightarrow> register_all register vs s = Inr s' \<Longrightarrow> v \<in> set vs \<Longrightarrow> lookup s' (key v) = Some v"
  using register_all_fresh register_all_distinct_lookup by blast

end

locale overwriting_registry = keyed_registry +
  assumes register_total: "\<exists>s'. register v s = Inr s'"
begin

lemma register_all_total: "\<exists>s'. register_all register vs s = Inr s'"
proof (induction vs arbitrary: s)
  case Nil
  then show ?case by simp
next
  case (Cons v vs)
  obtain t where "register v s = Inr t" using register_total by blast
  moreover obtain s' where "register_all register vs t = Inr s'" using Cons.IH by blast
  ultimately show ?case by auto
qed

end

end
