(* ===== verification/SchemaValidation.thy ===== *)
theory SchemaValidation
  imports PyValue "HOL-Library.List_Lexorder" "HOL-Library.Char_ord"
begin

text \<open>
  The payload checker of \<open>capability/schema_validation.py\<close>: \<open>_validate\<close>,
  \<open>_resolve_ref\<close> and \<open>validate_payload_against_schema\<close>, line by line over dynamic
  values, exceptions of malformed schemas included. The recursion of the source may be infinite
  (a \<open>$ref\<close> under an \<open>anyOf\<close> may name itself): the first argument of \<open>validate\<close>
  is the number of frames the interpreter grants, and running out is \<open>RecursionError\<close>.
  \<open>wf_schema\<close> describes the schemas the program emits, \<open>conforms\<close> is the declarative
  meaning of their keywords, and the theorems say that on them the checker always returns
  (with \<open>size schema\<close> frames) and accepts exactly the conforming payloads.
\<close>

section \<open>Operations of dynamic values that may raise\<close>

text \<open>
  The class of an exception raised by the interpreter is modelled, its wording (which varies
  with the interpreter's version) is not.
\<close>

abbreviation TypeError :: exc where "TypeError \<equiv> Exc ''TypeError'' []"
abbreviation AttributeError :: exc where "AttributeError \<equiv> Exc ''AttributeError'' []"
abbreviation KeyError :: exc where "KeyError \<equiv> Exc ''KeyError'' []"
abbreviation RecursionError :: exc where "RecursionError \<equiv> Exc ''RecursionError'' []"

fun py_hashable :: "pyval \<Rightarrow> bool" where
  "py_hashable (PList xs) = False"
| "py_hashable (PDict d) = False"
| "py_hashable (PObj c fs) = False"
| "py_hashable (PTuple xs) = list_all py_hashable xs"
| "py_hashable _ = True"

text \<open>\<open>x in c\<close>\<close>

fun py_in :: "pyval \<Rightarrow> pyval \<Rightarrow> bool res" where
  "py_in x (PList ys) = Inr (py_in_list x ys)"
| "py_in x (PTuple ys) = Inr (py_in_list x ys)"
| "py_in x (PDict d) =
     (if py_hashable x then Inr (case x of PStr s \<Rightarrow> dhas d s | _ \<Rightarrow> False) else Inl TypeError)"
| "py_in x (PStr t) = (case x of PStr s \<Rightarrow> Inr (py_contains s t) | _ \<Rightarrow> Inl TypeError)"
| "py_in x _ = Inl TypeError"

text \<open>\<open>c[k]\<close> and \<open>c.get(k, default)\<close> for a string \<open>k\<close>, and \<open>for x in c\<close>\<close>

fun py_item :: "pyval \<Rightarrow> string \<Rightarrow> pyval res" where
  "py_item (PDict d) k = (case dget d k of None \<Rightarrow> Inl KeyError | Some v \<Rightarrow> Inr v)"
| "py_item _ k = Inl TypeError"

fun py_get :: "pyval \<Rightarrow> string \<Rightarrow> pyval \<Rightarrow> pyval res" where
  "py_get (PDict d) k v = Inr (dget_default d k v)"
| "py_get _ k v = Inl AttributeError"

fun py_iter :: "pyval \<Rightarrow> pyval list res" where
  "py_iter (PList xs) = Inr xs"
| "py_iter (PTuple xs) = Inr xs"
| "py_iter (PDict d) = Inr (map PStr (dkeys d))"
| "py_iter (PStr s) = Inr (map (\<lambda>c. PStr [c]) s)"
| "py_iter _ = Inl TypeError"

text \<open>
  \<open>dict(v)\<close>: a copy of a mapping, or the pairs of an iterable of pairs. A pair whose key is not a
  string has no counterpart in \<open>PDict\<close>; it raises here.
\<close>

definition py_pair :: "pyval \<Rightarrow> (string \<times> pyval) res" where
  "py_pair v = res_bind (py_iter v) (\<lambda>xs.
     case xs of
       [k, x] \<Rightarrow> (case k of PStr s \<Rightarrow> Inr (s, x) | _ \<Rightarrow> Inl TypeError)
     | _ \<Rightarrow> Inl (Exc ''ValueError'' ''dictionary update sequence element has the wrong length''))"

definition py_dict :: "pyval \<Rightarrow> pyval dict res" where
  "py_dict v =
     (case v of
        PDict d \<Rightarrow> Inr d
      | _ \<Rightarrow> res_bind (py_iter v) (\<lambda>xs. res_bind (res_map py_pair xs) (\<lambda>ps. Inr (dupdate [] ps))))"

text \<open>\<open>getattr(v, name, default)\<close> of a dataclass instance; other values have no such attribute.\<close>

definition py_getattr :: "pyval \<Rightarrow> string \<Rightarrow> pyval \<Rightarrow> pyval" where
  "py_getattr v name d = (case v of PObj c fs \<Rightarrow> dget_default fs name d | _ \<Rightarrow> d)"

text \<open>\<open>set(c)\<close>: as \<open>for\<close>, but every element must be hashable.\<close>

definition py_set :: "pyval \<Rightarrow> pyval list res" where
  "py_set c = res_bind (py_iter c) (\<lambda>xs. if list_all py_hashable xs then Inr xs else Inl TypeError)"

text \<open>\<open>x < y\<close> where \<open>x\<close> is a number\<close>

definition py_less_num :: "rat \<Rightarrow> pyval \<Rightarrow> bool res" where
  "py_less_num p y = (case py_number y of None \<Rightarrow> Inl TypeError | Some q \<Rightarrow> Inr (p < q))"

definition py_greater_num :: "rat \<Rightarrow> pyval \<Rightarrow> bool res" where
  "py_greater_num p y = (case py_number y of None \<Rightarrow> Inl TypeError | Some q \<Rightarrow> Inr (q < p))"

text \<open>
  \<open>isinstance\<close> with the classes the checker names. A \<open>bool\<close> is an \<open>int\<close>.
\<close>

fun is_str :: "pyval \<Rightarrow> bool" where
  "is_str (PStr s) = True" | "is_str _ = False"

fun is_int :: "pyval \<Rightarrow> bool" where
  "is_int (PInt i) = True" | "is_int (PBool b) = True" | "is_int _ = False"

fun is_int_or_float :: "pyval \<Rightarrow> bool" where
  "is_int_or_float (PFloat q) = True" | "is_int_or_float v = is_int v"

fun is_bool :: "pyval \<Rightarrow> bool" where
  "is_bool (PBool b) = True" | "is_bool _ = False"

lemma is_int_or_float_number: "is_int_or_float v \<longleftrightarrow> py_number v \<noteq> None"
  by (cases v) simp_all

text \<open>
  An f-string renders a key of the schema. The keys of this model are strings; the other
  scalars a \<open>required\<close> list might hold are rendered too, a float or a tuple by its class.
\<close>

fun py_format :: "pyval \<Rightarrow> string" where
  "py_format (PStr s) = s"
| "py_format (PInt i) = int_str i"
| "py_format (PBool b) = (if b then ''True'' else ''False'')"
| "py_format PNone = ''None''"
| "py_format (PFloat q) = ''<float>''"
| "py_format (PTuple xs) = ''<tuple>''"
| "py_format (PList xs) = ''<list>''"
| "py_format (PDict d) = ''<dict>''"
| "py_format (PObj c fs) = c"

section \<open>Errors of the checker\<close>

text \<open>
  The source builds each error as one f-string \<open>path: text\<close>. An error here keeps the path as
  a string and names the text by a constructor that holds the values the f-string interpolates.
\<close>

datatype schema_error_text =
    DoesNotMatchAny
  | ExpectedOneOf pyval
  | ExpectedNull
  | ExpectedObject
  | MissingRequired
  | AdditionalProperty
  | ExpectedArray
  | ExpectedAtLeast pyval
  | ExpectedString
  | ExpectedInteger
  | ExpectedNumber
  | ExpectedBoolean
  | BelowMinimum pyval
  | AboveMaximum pyval

datatype schema_error = SchemaError (err_path: string) (err_text: schema_error_text)

section \<open>The checker\<close>

definition resolve_ref :: "pyval \<Rightarrow> pyval \<Rightarrow> pyval res" where
  "resolve_ref ref root_schema =
     (let pre = ''#/$defs/'' in
      case ref of
        PStr s \<Rightarrow>
          (if py_startswith s pre
           then res_bind (py_get root_schema ''$defs'' (PDict []))
                  (\<lambda>defs. py_get defs (drop (length pre) s) (PDict []))
           else Inr (PDict []))
      | _ \<Rightarrow> Inl AttributeError)"

text \<open>The first errors of the \<open>object\<close> branch: missing and additional properties.\<close>

fun required_errors :: "string \<Rightarrow> pyval \<Rightarrow> pyval list \<Rightarrow> schema_error list res" where
  "required_errors path v [] = Inr []"
| "required_errors path v (key # keys) =
     res_bind (py_in key v) (\<lambda>present.
     res_bind (required_errors path v keys) (\<lambda>errs.
       Inr (if present then errs
            else SchemaError (path @ ''.'' @ py_format key) MissingRequired # errs)))"

definition additional_errors :: "string \<Rightarrow> pyval dict \<Rightarrow> pyval \<Rightarrow> schema_error list res" where
  "additional_errors path d properties =
     res_bind (py_set properties) (\<lambda>known.
       Inr (map (\<lambda>k. SchemaError (path @ ''.'' @ k) AdditionalProperty)
              (sort (filter (\<lambda>k. \<not> py_in_list (PStr k) known) (dkeys d)))))"

text \<open>The checks of a scalar after its type: \<open>minimum\<close>, then \<open>maximum\<close>.\<close>

definition range_errors :: "string \<Rightarrow> pyval \<Rightarrow> pyval \<Rightarrow> schema_error list res" where
  "range_errors path v schema =
     (case py_number v of
        None \<Rightarrow> Inr []
      | Some p \<Rightarrow>
          res_bind (py_in (PStr ''minimum'') schema) (\<lambda>has_min.
          res_bind (if has_min then res_bind (py_item schema ''minimum'') (py_less_num p)
                    else Inr False) (\<lambda>below.
          if below
          then res_bind (py_item schema ''minimum'') (\<lambda>m. Inr [SchemaError path (BelowMinimum m)])
          else
            res_bind (py_in (PStr ''maximum'') schema) (\<lambda>has_max.
            res_bind (if has_max then res_bind (py_item schema ''maximum'') (py_greater_num p)
                      else Inr False) (\<lambda>above.
            if above
            then res_bind (py_item schema ''maximum'') (\<lambda>m. Inr [SchemaError path (AboveMaximum m)])
            else Inr [])))))"

definition scalar_errors :: "string \<Rightarrow> pyval \<Rightarrow> pyval \<Rightarrow> pyval \<Rightarrow> schema_error list res" where
  "scalar_errors path v expected_type schema =
     (if expected_type = PStr ''string'' \<and> \<not> is_str v then Inr [SchemaError path ExpectedString]
      else if expected_type = PStr ''integer'' \<and> \<not> is_int v then Inr [SchemaError path ExpectedInteger]
      else if expected_type = PStr ''number'' \<and> \<not> is_int_or_float v then Inr [SchemaError path ExpectedNumber]
      else if expected_type = PStr ''boolean'' \<and> \<not> is_bool v then Inr [SchemaError path ExpectedBoolean]
      else range_errors path v schema)"

definition index_path :: "string \<Rightarrow> nat \<Rightarrow> string" where
  "index_path path i = path @ ''['' @ nat_str i @ '']''"

text \<open>
  \<open>validate_object\<close> and \<open>validate_array\<close> are the two container branches of
  \<open>_validate\<close>, with the recursive call \<open>rec value schema path\<close> as an argument.
\<close>

definition validate_object ::
  "(pyval \<Rightarrow> pyval \<Rightarrow> string \<Rightarrow> schema_error list res) \<Rightarrow> pyval \<Rightarrow> pyval \<Rightarrow> string \<Rightarrow> schema_error list res" where
  "validate_object rec v schema path =
     (case v of
        PDict d \<Rightarrow>
          res_bind (py_get schema ''required'' (PList [])) (\<lambda>required.
          res_bind (py_iter required) (\<lambda>keys.
          res_bind (required_errors path v keys) (\<lambda>missing.
          res_bind (py_get schema ''properties'' (PDict [])) (\<lambda>properties.
          res_bind (py_get schema ''additionalProperties'' PNone) (\<lambda>additional.
          res_bind (if additional = PBool False then additional_errors path d properties else Inr [])
            (\<lambda>extra.
          res_bind (res_map (\<lambda>(key, sub_value).
              res_bind (py_in (PStr key) properties) (\<lambda>known.
                if known
                then res_bind (py_item properties key) (\<lambda>sub_schema.
                       rec sub_value sub_schema (path @ ''.'' @ key))
                else Inr [])) d) (\<lambda>subs.
          Inr (missing @ extra @ concat subs))))))))
      | _ \<Rightarrow> Inr [SchemaError path ExpectedObject])"

definition validate_array ::
  "(pyval \<Rightarrow> pyval \<Rightarrow> string \<Rightarrow> schema_error list res) \<Rightarrow> pyval \<Rightarrow> pyval \<Rightarrow> string \<Rightarrow> schema_error list res" where
  "validate_array rec v schema path =
     (case v of
        PList xs \<Rightarrow>
          res_bind (py_get schema ''minItems'' PNone) (\<lambda>min_items.
          res_bind (if min_items = PNone then Inr False
                    else py_less_num (of_nat (length xs)) min_items) (\<lambda>short.
          if short then Inr [SchemaError path (ExpectedAtLeast min_items)]
          else
            res_bind (py_get schema ''items'' (PDict [])) (\<lambda>item_schema.
            res_bind (res_map (\<lambda>(i, item). rec item item_schema (index_path path i))
                (enumerate 0 xs)) (\<lambda>subs.
            Inr (concat subs)))))
      | _ \<Rightarrow> Inr [SchemaError path ExpectedArray])"

text \<open>\<open>_validate\<close>: the fuel is the number of frames left, \<open>defs_root\<close> the root schema.\<close>

fun validate :: "nat \<Rightarrow> pyval \<Rightarrow> pyval \<Rightarrow> pyval \<Rightarrow> string \<Rightarrow> schema_error list res" where
  "validate 0 defs_root v schema path = Inl RecursionError"
| "validate (Suc fuel) defs_root v schema0 path =
     (if \<not> py_truthy schema0 then Inr []
      else
        res_bind (py_in (PStr ''$ref'') schema0) (\<lambda>has_ref.
        res_bind (if has_ref then res_bind (py_item schema0 ''$ref'') (\<lambda>r. resolve_ref r defs_root)
                  else Inr schema0) (\<lambda>schema.
        res_bind (py_in (PStr ''anyOf'') schema) (\<lambda>has_any.
        if has_any then
          res_bind (py_item schema ''anyOf'') (\<lambda>any_of.
          res_bind (py_iter any_of) (\<lambda>branches.
          res_bind (res_map (\<lambda>branch. validate fuel defs_root v branch path) branches) (\<lambda>branch_errors.
            if list_ex (\<lambda>errs. errs = []) branch_errors then Inr []
            else Inr [SchemaError path DoesNotMatchAny])))
        else
          res_bind (py_in (PStr ''enum'') schema) (\<lambda>has_enum.
          res_bind (if has_enum then res_bind (py_item schema ''enum'') (py_in v) else Inr True)
            (\<lambda>listed.
          if \<not> listed
          then res_bind (py_item schema ''enum'') (\<lambda>en. Inr [SchemaError path (ExpectedOneOf en)])
          else
            res_bind (py_get schema ''type'' PNone) (\<lambda>expected_type.
            if expected_type = PStr ''null''
            then Inr (if v = PNone then [] else [SchemaError path ExpectedNull])
            else if expected_type = PStr ''object''
            then validate_object (validate fuel defs_root) v schema path
            else if expected_type = PStr ''array''
            then validate_array (validate fuel defs_root) v schema path
            else scalar_errors path v expected_type schema)))))))"

definition validate_payload_against_schema :: "nat \<Rightarrow> pyval \<Rightarrow> pyval \<Rightarrow> schema_error list res" where
  "validate_payload_against_schema fuel payload schema = validate fuel schema payload schema ''$''"

section \<open>Emitted schemas and their meaning\<close>

text \<open>
  The keywords of one schema that only make sense together with a \<open>type\<close>, and the shape of
  the argument of each keyword.
\<close>

definition assertion_keywords :: "string list" where
  "assertion_keywords = [''enum'', ''type'', ''required'', ''properties'', ''additionalProperties'',
     ''items'', ''minItems'', ''minimum'', ''maximum'']"

definition known_types :: "pyval list" where
  "known_types = map PStr [''null'', ''object'', ''array'', ''string'', ''integer'', ''number'', ''boolean'']"

definition schema_shape :: "pyval dict \<Rightarrow> bool" where
  "schema_shape d \<longleftrightarrow>
     dict_ok d
     \<and> (dhas d ''anyOf'' \<longrightarrow> list_all (\<lambda>k. \<not> dhas d k) assertion_keywords)
     \<and> (list_ex (dhas d) [''required'', ''properties'', ''additionalProperties''] \<longrightarrow>
          dget d ''type'' = Some (PStr ''object''))
     \<and> (list_ex (dhas d) [''items'', ''minItems''] \<longrightarrow> dget d ''type'' = Some (PStr ''array''))"

fun is_list :: "pyval \<Rightarrow> bool" where
  "is_list (PList xs) = True" | "is_list _ = False"

definition keyword_shape :: "string \<Rightarrow> pyval \<Rightarrow> bool" where
  "keyword_shape k v =
     (if k = ''$ref'' then False
      else if k = ''enum'' then is_list v
      else if k = ''type'' then v \<in> set known_types
      else if k = ''required'' then (case v of PList xs \<Rightarrow> list_all is_str xs | _ \<Rightarrow> False)
      else if k \<in> set [''minItems'', ''minimum'', ''maximum''] then py_number v \<noteq> None
      else True)"

lemma size_dict_item:
  "(k, v) \<in> set d \<Longrightarrow> size (v :: pyval) < Suc (size_list (size_prod (\<lambda>_. 0) size) d)"
  by (induction d) auto

lemma size_list_item: "v \<in> set xs \<Longrightarrow> size (v :: pyval) < Suc (size_list size xs)"
  by (induction xs) auto

lemma map_of_size:
  "map_of d k = Some v \<Longrightarrow> size (v :: pyval) < Suc (size_list (size_prod (\<lambda>_. 0) size) d)"
  by (rule size_dict_item [OF map_of_SomeD])

function wf_schema :: "pyval \<Rightarrow> bool" where
  "wf_schema s =
     (case s of
        PDict d \<Rightarrow>
          schema_shape d \<and>
          list_all (\<lambda>(k, v).
            if k = ''anyOf'' then (case v of PList ss \<Rightarrow> list_all wf_schema ss | _ \<Rightarrow> False)
            else if k = ''properties''
            then (case v of PDict ps \<Rightarrow> dict_ok ps \<and> list_all (\<lambda>(_, t). wf_schema t) ps | _ \<Rightarrow> False)
            else if k = ''items'' then wf_schema v
            else keyword_shape k v) d
      | _ \<Rightarrow> False)"
  by pat_completeness auto
termination
  by (relation "measure size") (auto dest!: size_dict_item size_list_item)

declare wf_schema.simps [simp del]

text \<open>
  The meaning of the keywords that need no recursion, in the reading of JSON Schema: every
  keyword is an assertion of its own, and one about objects, arrays or numbers holds of every
  other value. (An \<open>integer\<close> is what the language calls one: truth values included.)
\<close>

definition has_type :: "pyval \<Rightarrow> pyval \<Rightarrow> bool" where
  "has_type t v =
     (if t = PStr ''null'' then v = PNone
      else if t = PStr ''object'' then (case v of PDict _ \<Rightarrow> True | _ \<Rightarrow> False)
      else if t = PStr ''array'' then is_list v
      else if t = PStr ''string'' then is_str v
      else if t = PStr ''integer'' then is_int v
      else if t = PStr ''number'' then is_int_or_float v
      else if t = PStr ''boolean'' then is_bool v
      else True)"

definition schema_properties :: "pyval dict \<Rightarrow> pyval dict" where
  "schema_properties d = (case dget d ''properties'' of Some (PDict ps) \<Rightarrow> ps | _ \<Rightarrow> [])"

definition keyword_holds :: "pyval dict \<Rightarrow> string \<Rightarrow> pyval \<Rightarrow> pyval \<Rightarrow> bool" where
  "keyword_holds d k kv v =
     (if k = ''enum'' then (case kv of PList xs \<Rightarrow> py_in_list v xs | _ \<Rightarrow> False)
      else if k = ''type'' then has_type kv v
      else if k = ''required'' then
        (case (kv, v) of (PList keys, PDict obj) \<Rightarrow> list_all (\<lambda>x. list_ex (\<lambda>q. x = PStr (fst q)) obj) keys
                       | _ \<Rightarrow> True)
      else if k = ''additionalProperties'' then
        (case v of PDict obj \<Rightarrow> kv = PBool False \<longrightarrow> list_all (\<lambda>q. dhas (schema_properties d) (fst q)) obj
                 | _ \<Rightarrow> True)
      else if k = ''minItems'' then
        (case (v, py_number kv) of (PList xs, Some m) \<Rightarrow> m \<le> of_nat (length xs) | _ \<Rightarrow> True)
      else if k = ''minimum'' then
        (case (py_number v, py_number kv) of (Some p, Some m) \<Rightarrow> m \<le> p | _ \<Rightarrow> True)
      else if k = ''maximum'' then
        (case (py_number v, py_number kv) of (Some p, Some m) \<Rightarrow> p \<le> m | _ \<Rightarrow> True)
      else True)"

function conforms :: "pyval \<Rightarrow> pyval \<Rightarrow> bool" where
  "conforms s v =
     (case s of
        PDict d \<Rightarrow>
          list_all (\<lambda>(k, kv).
            if k = ''anyOf'' then (case kv of PList ss \<Rightarrow> list_ex (\<lambda>t. conforms t v) ss | _ \<Rightarrow> False)
            else if k = ''properties'' then
              (case (kv, v) of
                 (PDict ps, PDict obj) \<Rightarrow>
                   list_all (\<lambda>(key, sub). case map_of ps key of None \<Rightarrow> True | Some t \<Rightarrow> conforms t sub) obj
               | _ \<Rightarrow> True)
            else if k = ''items'' then (case v of PList xs \<Rightarrow> list_all (conforms kv) xs | _ \<Rightarrow> True)
            else keyword_holds d k kv v) d
      | _ \<Rightarrow> True)"
  by pat_completeness auto
termination
  by (relation "measure (\<lambda>(s, v). size s)") (auto dest!: size_dict_item size_list_item map_of_size)

declare conforms.simps [simp del]

section \<open>The checker is exact on emitted schemas\<close>

text \<open>The two predicates, read through \<open>dget\<close>.\<close>

definition keyword_sem :: "pyval dict \<Rightarrow> string \<Rightarrow> pyval \<Rightarrow> pyval \<Rightarrow> bool" where
  "keyword_sem d k kv v =
     (if k = ''anyOf'' then (case kv of PList ss \<Rightarrow> list_ex (\<lambda>t. conforms t v) ss | _ \<Rightarrow> False)
      else if k = ''properties'' then
        (case (kv, v) of
           (PDict ps, PDict obj) \<Rightarrow>
             list_all (\<lambda>(key, sub). case map_of ps key of None \<Rightarrow> True | Some t \<Rightarrow> conforms t sub) obj
         | _ \<Rightarrow> True)
      else if k = ''items'' then (case v of PList xs \<Rightarrow> list_all (conforms kv) xs | _ \<Rightarrow> True)
      else keyword_holds d k kv v)"

definition keyword_wf :: "string \<Rightarrow> pyval \<Rightarrow> bool" where
  "keyword_wf k v =
     (if k = ''anyOf'' then (case v of PList ss \<Rightarrow> list_all wf_schema ss | _ \<Rightarrow> False)
      else if k = ''properties''
      then (case v of PDict ps \<Rightarrow> dict_ok ps \<and> list_all (\<lambda>(_, t). wf_schema t) ps | _ \<Rightarrow> False)
      else if k = ''items'' then wf_schema v
      else keyword_shape k v)"

lemma list_all_dget:
  "dict_ok d \<Longrightarrow> list_all (\<lambda>(k, v). P k v) d \<longleftrightarrow> (\<forall>k v. dget d k = Some v \<longrightarrow> P k v)"
  by (auto simp: list_all_iff dict_ok_def dget_def dest: map_of_SomeD)

lemma conforms_dict:
  assumes "dict_ok d"
  shows "conforms (PDict d) v \<longleftrightarrow> (\<forall>k kv. dget d k = Some kv \<longrightarrow> keyword_sem d k kv v)"
  by (simp add: conforms.simps [of "PDict d" v] list_all_dget [OF assms, symmetric] keyword_sem_def)

lemma wf_schema_PDict:
  "wf_schema (PDict d) \<longleftrightarrow> schema_shape d \<and> list_all (\<lambda>(k, v). keyword_wf k v) d"
  by (simp add: wf_schema.simps [of "PDict d"] keyword_wf_def)

lemma wf_schema_is_dict: "wf_schema s \<Longrightarrow> \<exists>d. s = PDict d"
  by (subst (asm) wf_schema.simps) (simp split: pyval.splits)

lemma wf_schema_dict:
  "wf_schema (PDict d) \<Longrightarrow> schema_shape d \<and> (\<forall>k v. dget d k = Some v \<longrightarrow> keyword_wf k v)"
  unfolding wf_schema_PDict by (auto simp: schema_shape_def simp flip: list_all_dget)

lemma dget_size: "dget d k = Some (v :: pyval) \<Longrightarrow> size v < size (PDict d)"
  using map_of_size [of d k v] by (simp add: dget_def)

text \<open>A list of recursive calls that return.\<close>

lemma res_map_exact:
  assumes "\<And>x. x \<in> set xs \<Longrightarrow> \<exists>errs. f x = Inr errs \<and> (errs = [] \<longleftrightarrow> c x)"
  shows "\<exists>ess. res_map f xs = Inr ess \<and> list_all2 (\<lambda>x errs. (errs = []) = c x) xs ess"
  using assms
proof (induction xs)
  case Nil
  then show ?case by simp
next
  case (Cons x xs)
  from Cons.prems obtain e where "f x = Inr e" "(e = []) = c x" by auto
  moreover from Cons obtain es where "res_map f xs = Inr es"
    "list_all2 (\<lambda>x errs. (errs = []) = c x) xs es" by auto
  ultimately show ?case by simp
qed

lemma exact_concat:
  "list_all2 (\<lambda>x errs. (errs = []) = c x) xs ess \<Longrightarrow> (concat ess = []) = list_all c xs"
  by (induction xs ess rule: list_all2_induct) auto

lemma exact_any:
  "list_all2 (\<lambda>x errs. (errs = []) = c x) xs ess \<Longrightarrow>
     list_ex (\<lambda>errs. errs = []) ess = list_ex c xs"
  by (induction xs ess rule: list_all2_induct) auto

lemma required_errors_exact:
  "list_all is_str keys \<Longrightarrow>
     \<exists>errs. required_errors path (PDict obj) keys = Inr errs \<and>
       (errs = [] \<longleftrightarrow> list_all (\<lambda>x. list_ex (\<lambda>q. x = PStr (fst q)) obj) keys)"
proof (induction keys)
  case Nil
  then show ?case by simp
next
  case (Cons key keys)
  then obtain s where s: "key = PStr s" by (cases key) auto
  have "dhas obj s \<longleftrightarrow> list_ex (\<lambda>q. key = PStr (fst q)) obj"
    by (auto simp: s dhas_iff list_ex_iff)
  with Cons s show ?case by auto
qed

lemma py_in_keys: "py_in_list (PStr k) (map PStr (dkeys ps)) \<longleftrightarrow> dhas ps k"
  by (induction ps) (auto simp: dkeys_def)

lemma additional_errors_exact:
  "\<exists>errs. additional_errors path obj (PDict ps) = Inr errs \<and>
     (errs = [] \<longleftrightarrow> list_all (\<lambda>q. dhas ps (fst q)) obj)"
proof -
  have "sort (filter (\<lambda>k. \<not> dhas ps k) (dkeys obj)) = [] \<longleftrightarrow> list_all (\<lambda>q. dhas ps (fst q)) obj"
    by (simp add: filter_empty_conv dkeys_def list_all_iff flip: set_empty)
      (auto simp: dkeys_def)
  then show ?thesis
    by (simp add: additional_errors_def py_set_def list_all_iff py_in_keys)
qed

text \<open>The \<open>object\<close> branch, given that the recursive calls are exact.\<close>

definition exact_call :: "(pyval \<Rightarrow> pyval \<Rightarrow> string \<Rightarrow> schema_error list res) \<Rightarrow> pyval \<Rightarrow> bool" where
  "exact_call rec s \<longleftrightarrow> (\<forall>v path. \<exists>errs. rec v s path = Inr errs \<and> (errs = [] \<longleftrightarrow> conforms s v))"

lemma properties_exact:
  assumes "\<forall>key t. dget ps key = Some t \<longrightarrow> exact_call rec t"
  shows "\<exists>ess. res_map (\<lambda>(key, sub_value).
              res_bind (py_in (PStr key) (PDict ps)) (\<lambda>known.
                if known
                then res_bind (py_item (PDict ps) key) (\<lambda>sub_schema.
                       rec sub_value sub_schema (path @ ''.'' @ key))
                else Inr [])) obj = Inr ess
       \<and> (concat ess = [] \<longleftrightarrow>
            list_all (\<lambda>(key, sub). case map_of ps key of None \<Rightarrow> True | Some t \<Rightarrow> conforms t sub) obj)"
proof -
  let ?f = "\<lambda>(key, sub_value).
              res_bind (py_in (PStr key) (PDict ps)) (\<lambda>known.
                if known
                then res_bind (py_item (PDict ps) key) (\<lambda>sub_schema.
                       rec sub_value sub_schema (path @ ''.'' @ key))
                else Inr [])"
  let ?c = "\<lambda>(key, sub). case map_of ps key of None \<Rightarrow> True | Some t \<Rightarrow> conforms t sub"
  have "\<exists>errs. ?f x = Inr errs \<and> (errs = [] \<longleftrightarrow> ?c x)" for x
    using assms [rule_format, of "fst x"]
    by (cases x; cases "dget ps (fst x)")
      (auto simp: dhas_dget exact_call_def dget_def [symmetric])
  then obtain ess where "res_map ?f obj = Inr ess" "list_all2 (\<lambda>x errs. (errs = []) = ?c x) obj ess"
    using res_map_exact [of obj ?f ?c] by auto
  then show ?thesis using exact_concat by blast
qed

definition conforms_but_enum :: "pyval dict \<Rightarrow> pyval \<Rightarrow> bool" where
  "conforms_but_enum d v \<longleftrightarrow> (\<forall>k kv. k \<noteq> ''enum'' \<longrightarrow> dget d k = Some kv \<longrightarrow> keyword_sem d k kv v)"

definition checked_keywords :: "string list" where
  "checked_keywords = [''anyOf'', ''type'', ''required'', ''properties'', ''additionalProperties'',
     ''items'', ''minItems'', ''minimum'', ''maximum'']"

lemma keyword_sem_unchecked: "k \<notin> set (''enum'' # checked_keywords) \<Longrightarrow> keyword_sem d k kv v"
  by (simp add: keyword_sem_def keyword_holds_def checked_keywords_def)

lemma conforms_but_enum_iff:
  "conforms_but_enum d v \<longleftrightarrow>
     list_all (\<lambda>k. case dget d k of None \<Rightarrow> True | Some kv \<Rightarrow> keyword_sem d k kv v) checked_keywords"
proof
  have "''enum'' \<notin> set checked_keywords" by (simp add: checked_keywords_def)
  moreover assume "conforms_but_enum d v"
  ultimately show "list_all (\<lambda>k. case dget d k of None \<Rightarrow> True | Some kv \<Rightarrow> keyword_sem d k kv v) checked_keywords"
    unfolding conforms_but_enum_def list_all_iff by (metis (no_types, lifting) option.case_eq_if option.collapse)
next
  assume all: "list_all (\<lambda>k. case dget d k of None \<Rightarrow> True | Some kv \<Rightarrow> keyword_sem d k kv v) checked_keywords"
  show "conforms_but_enum d v"
    unfolding conforms_but_enum_def
  proof (intro allI impI)
    fix k kv
    assume k: "k \<noteq> ''enum''" "dget d k = Some kv"
    show "keyword_sem d k kv v"
    proof (cases "k \<in> set checked_keywords")
      case True
      with all have "case dget d k of None \<Rightarrow> True | Some kv \<Rightarrow> keyword_sem d k kv v"
        unfolding list_all_iff by blast
      with k show ?thesis by simp
    next
      case False
      with k have "k \<notin> set (''enum'' # checked_keywords)" by simp
      then show ?thesis by (rule keyword_sem_unchecked)
    qed
  qed
qed

lemma conforms_enum_split:
  assumes "dict_ok d"
  shows "conforms (PDict d) v \<longleftrightarrow>
     (\<forall>kv. dget d ''enum'' = Some kv \<longrightarrow> keyword_sem d ''enum'' kv v) \<and> conforms_but_enum d v"
  unfolding conforms_dict [OF assms] conforms_but_enum_def by metis

lemma keyword_wf_simps:
  "keyword_wf ''anyOf'' v \<longleftrightarrow> (\<exists>ss. v = PList ss \<and> list_all wf_schema ss)"
  "keyword_wf ''properties'' v \<longleftrightarrow> (\<exists>ps. v = PDict ps \<and> dict_ok ps \<and> list_all (\<lambda>(_, t). wf_schema t) ps)"
  "keyword_wf ''items'' v \<longleftrightarrow> wf_schema v"
  "keyword_wf ''$ref'' v \<longleftrightarrow> False"
  "keyword_wf ''enum'' v \<longleftrightarrow> is_list v"
  "keyword_wf ''type'' v \<longleftrightarrow> v \<in> set known_types"
  "keyword_wf ''required'' v \<longleftrightarrow> (\<exists>keys. v = PList keys \<and> list_all is_str keys)"
  "keyword_wf ''minItems'' v \<longleftrightarrow> py_number v \<noteq> None"
  "keyword_wf ''minimum'' v \<longleftrightarrow> py_number v \<noteq> None"
  "keyword_wf ''maximum'' v \<longleftrightarrow> py_number v \<noteq> None"
  by (auto simp: keyword_wf_def keyword_shape_def split: pyval.splits)

lemma keyword_sem_simps:
  "keyword_sem d ''type'' kv v = has_type kv v"
  "keyword_sem d ''required'' (PList keys) (PDict obj) =
     list_all (\<lambda>x. list_ex (\<lambda>q. x = PStr (fst q)) obj) keys"
  "keyword_sem d ''properties'' (PDict ps) (PDict obj) =
     list_all (\<lambda>(key, sub). case map_of ps key of None \<Rightarrow> True | Some t \<Rightarrow> conforms t sub) obj"
  "keyword_sem d ''additionalProperties'' kv (PDict obj) =
     (kv = PBool False \<longrightarrow> list_all (\<lambda>q. dhas (schema_properties d) (fst q)) obj)"
  "keyword_sem d ''items'' kv (PList xs) = list_all (conforms kv) xs"
  "keyword_sem d ''minItems'' kv (PList xs) =
     (case py_number kv of Some m \<Rightarrow> m \<le> of_nat (length xs) | None \<Rightarrow> True)"
  "keyword_sem d ''minimum'' kv v =
     (case (py_number v, py_number kv) of (Some p, Some m) \<Rightarrow> m \<le> p | _ \<Rightarrow> True)"
  "keyword_sem d ''maximum'' kv v =
     (case (py_number v, py_number kv) of (Some p, Some m) \<Rightarrow> p \<le> m | _ \<Rightarrow> True)"
  by (simp_all add: keyword_sem_def keyword_holds_def)

text \<open>What the shape of a schema with \<open>type\<close> excludes.\<close>

lemma schema_shape_type:
  assumes "schema_shape d" "dget d ''type'' = Some t"
  shows "dget d ''anyOf'' = None"
    "t \<noteq> PStr ''object'' \<Longrightarrow>
       dget d ''required'' = None \<and> dget d ''properties'' = None \<and> dget d ''additionalProperties'' = None"
    "t \<noteq> PStr ''array'' \<Longrightarrow> dget d ''items'' = None \<and> dget d ''minItems'' = None"
  using assms by (auto simp: schema_shape_def assertion_keywords_def dhas_dget)

lemma validate_object_exact:
  assumes shape: "schema_shape d" and wf: "\<forall>k v. dget d k = Some v \<longrightarrow> keyword_wf k v"
    and ty: "dget d ''type'' = Some (PStr ''object'')"
    and rec: "\<And>ps key t. dget d ''properties'' = Some (PDict ps) \<Longrightarrow> dget ps key = Some t \<Longrightarrow> exact_call rec t"
  shows "\<exists>errs. validate_object rec v (PDict d) path = Inr errs \<and> (errs = [] \<longleftrightarrow> conforms_but_enum d v)"
proof (cases "\<exists>obj. v = PDict obj")
  case False
  then have "\<not> has_type (PStr ''object'') v" by (cases v) (auto simp: has_type_def)
  with ty have "\<not> conforms_but_enum d v"
    by (simp add: conforms_but_enum_iff checked_keywords_def keyword_sem_simps)
  with False show ?thesis by (cases v) (auto simp: validate_object_def)
next
  case True
  then obtain obj where v: "v = PDict obj" by blast
  obtain keys where keys: "dget_default d ''required'' (PList []) = PList keys" "list_all is_str keys"
      "dget d ''required'' = None \<Longrightarrow> keys = []"
      "\<And>kv. dget d ''required'' = Some kv \<Longrightarrow> kv = PList keys"
    using wf [rule_format, of "''required''"]
    by (cases "dget d ''required''") (auto simp: dget_default_dget keyword_wf_simps)
  obtain ps where ps: "dget_default d ''properties'' (PDict []) = PDict ps" "schema_properties d = ps"
      "\<forall>key t. dget ps key = Some t \<longrightarrow> exact_call rec t"
      "dget d ''properties'' = None \<Longrightarrow> ps = []"
      "\<And>kv. dget d ''properties'' = Some kv \<Longrightarrow> kv = PDict ps"
    using wf [rule_format, of "''properties''"] rec
    by (cases "dget d ''properties''") (auto simp: dget_default_dget keyword_wf_simps schema_properties_def)
  obtain missing where missing: "required_errors path (PDict obj) keys = Inr missing"
      "missing = [] \<longleftrightarrow> list_all (\<lambda>x. list_ex (\<lambda>q. x = PStr (fst q)) obj) keys"
    using required_errors_exact [OF keys(2)] by blast
  let ?add = "dget_default d ''additionalProperties'' PNone = PBool False"
  obtain extra where extra: "(if ?add then additional_errors path obj (PDict ps) else Inr []) = Inr extra"
      "extra = [] \<longleftrightarrow> (?add \<longrightarrow> list_all (\<lambda>q. dhas ps (fst q)) obj)"
    using additional_errors_exact [of path obj ps] by (cases ?add) auto
  obtain subs where subs: "res_map (\<lambda>(key, sub_value).
              res_bind (py_in (PStr key) (PDict ps)) (\<lambda>known.
                if known
                then res_bind (py_item (PDict ps) key) (\<lambda>sub_schema.
                       rec sub_value sub_schema (path @ ''.'' @ key))
                else Inr [])) obj = Inr subs"
      "concat subs = [] \<longleftrightarrow>
         list_all (\<lambda>(key, sub). case map_of ps key of None \<Rightarrow> True | Some t \<Rightarrow> conforms t sub) obj"
    using properties_exact [OF ps(3)] by blast
  have res: "validate_object rec v (PDict d) path = Inr (missing @ extra @ concat subs)"
    unfolding validate_object_def v using keys(1) ps(1) missing(1) extra(1) subs(1) by simp
  have req: "(case dget d ''required'' of None \<Rightarrow> True | Some kv \<Rightarrow> keyword_sem d ''required'' kv v)
      \<longleftrightarrow> missing = []"
    unfolding missing(2) v using keys(3,4)
    by (cases "dget d ''required''") (simp_all add: keyword_sem_simps)
  have props: "(case dget d ''properties'' of None \<Rightarrow> True | Some kv \<Rightarrow> keyword_sem d ''properties'' kv v)
      \<longleftrightarrow> concat subs = []"
    unfolding subs(2) v using ps(4,5)
    by (cases "dget d ''properties''") (simp_all add: keyword_sem_simps list_all_iff)
  have addl: "(case dget d ''additionalProperties'' of None \<Rightarrow> True
       | Some kv \<Rightarrow> keyword_sem d ''additionalProperties'' kv v) \<longleftrightarrow> extra = []"
    unfolding extra(2) v using ps(2)
    by (cases "dget d ''additionalProperties''") (simp_all add: keyword_sem_simps dget_default_dget)
  have num: "(case dget d ''minimum'' of None \<Rightarrow> True | Some kv \<Rightarrow> keyword_sem d ''minimum'' kv v)"
      "(case dget d ''maximum'' of None \<Rightarrow> True | Some kv \<Rightarrow> keyword_sem d ''maximum'' kv v)"
    by (simp_all add: keyword_sem_simps v split: option.split)
  have tyok: "keyword_sem d ''type'' (PStr ''object'') v"
    by (simp add: keyword_sem_simps has_type_def v)
  have "conforms_but_enum d v \<longleftrightarrow> missing = [] \<and> extra = [] \<and> concat subs = []"
    unfolding conforms_but_enum_iff checked_keywords_def list.pred_inject
    using schema_shape_type [OF shape ty] ty num tyok by (simp add: req props addl conj_commute)
  with res show ?thesis by auto
qed

text \<open>The \<open>array\<close> branch, and the scalars.\<close>

lemma list_all_enumerate: "list_all (\<lambda>(i, x). c x) (enumerate n xs) = list_all c xs"
  by (induction xs arbitrary: n) simp_all

lemma items_exact:
  assumes "exact_call rec t"
  shows "\<exists>ess. res_map (\<lambda>(i, item). rec item t (index_path path i)) (enumerate 0 xs) = Inr ess
       \<and> (concat ess = [] \<longleftrightarrow> list_all (conforms t) xs)"
proof -
  let ?f = "\<lambda>(i, item). rec item t (index_path path i)"
  have "\<exists>errs. ?f x = Inr errs \<and> (errs = [] \<longleftrightarrow> (\<lambda>(i, item). conforms t item) x)" for x
    using assms by (cases x) (simp add: exact_call_def)
  then obtain ess where "res_map ?f (enumerate 0 xs) = Inr ess"
      "list_all2 (\<lambda>x errs. (errs = []) = (\<lambda>(i, item). conforms t item) x) (enumerate 0 xs) ess"
    using res_map_exact [of "enumerate 0 xs" ?f "\<lambda>(i, item). conforms t item"] by blast
  then show ?thesis
    using exact_concat [of "\<lambda>(i, item). conforms t item"] list_all_enumerate [of "conforms t" 0 xs] by blast
qed

lemma conforms_empty [simp]: "conforms (PDict []) v"
  by (simp add: conforms.simps)

lemma validate_array_exact:
  assumes shape: "schema_shape d" and wf: "\<forall>k v. dget d k = Some v \<longrightarrow> keyword_wf k v"
    and ty: "dget d ''type'' = Some (PStr ''array'')"
    and rec: "exact_call rec (dget_default d ''items'' (PDict []))"
  shows "\<exists>errs. validate_array rec v (PDict d) path = Inr errs \<and> (errs = [] \<longleftrightarrow> conforms_but_enum d v)"
proof (cases "\<exists>xs. v = PList xs")
  case False
  then have "\<not> has_type (PStr ''array'') v" by (cases v) (auto simp: has_type_def)
  with ty have "\<not> conforms_but_enum d v"
    by (simp add: conforms_but_enum_iff checked_keywords_def keyword_sem_simps)
  with False show ?thesis by (cases v) (auto simp: validate_array_def)
next
  case True
  then obtain xs where v: "v = PList xs" by blast
  let ?min = "dget_default d ''minItems'' PNone"
  let ?short = "case dget d ''minItems'' of None \<Rightarrow> False
     | Some m \<Rightarrow> (case py_number m of None \<Rightarrow> False | Some q \<Rightarrow> of_nat (length xs) < q)"
  have short: "(if ?min = PNone then Inr False else py_less_num (of_nat (length xs)) ?min) = Inr ?short"
    using wf [rule_format, of "''minItems''"]
    by (auto simp: dget_default_dget keyword_wf_simps py_less_num_def split: option.splits)
  let ?items = "dget_default d ''items'' (PDict [])"
  obtain ess where ess: "res_map (\<lambda>(i, item). rec item ?items (index_path path i)) (enumerate 0 xs) = Inr ess"
      "concat ess = [] \<longleftrightarrow> list_all (conforms ?items) xs"
    using items_exact [OF rec] by blast
  have res: "validate_array rec v (PDict d) path =
      Inr (if ?short then [SchemaError path (ExpectedAtLeast ?min)] else concat ess)"
    unfolding validate_array_def v using short ess(1) by simp
  have sem: "conforms_but_enum d v \<longleftrightarrow> \<not> ?short \<and> list_all (conforms ?items) xs"
    unfolding v conforms_but_enum_iff checked_keywords_def
    using schema_shape_type [OF shape ty] ty
    by (auto simp: keyword_sem_simps has_type_def dget_default_dget list_all_iff split: option.splits)
  show ?thesis unfolding res sem ess(2) [symmetric] by simp
qed

lemma range_errors_exact:
  assumes wf: "\<forall>k v. dget d k = Some v \<longrightarrow> keyword_wf k v"
  shows "\<exists>errs. range_errors path v (PDict d) = Inr errs \<and>
     (errs = [] \<longleftrightarrow>
       (\<forall>kv. dget d ''minimum'' = Some kv \<longrightarrow> keyword_sem d ''minimum'' kv v) \<and>
       (\<forall>kv. dget d ''maximum'' = Some kv \<longrightarrow> keyword_sem d ''maximum'' kv v))"
  using wf [rule_format, of "''minimum''"] wf [rule_format, of "''maximum''"]
  by (cases "dget d ''minimum''"; cases "dget d ''maximum''"; cases "py_number v")
    (auto simp: range_errors_def keyword_wf_simps keyword_sem_simps dhas_dget py_less_num_def
      py_greater_num_def)

lemma scalar_errors_exact:
  assumes shape: "schema_shape d" and wf: "\<forall>k v. dget d k = Some v \<longrightarrow> keyword_wf k v"
    and any: "dget d ''anyOf'' = None"
    and ty: "t = dget_default d ''type'' PNone" "t \<notin> PStr ` {''null'', ''object'', ''array''}"
  shows "\<exists>errs. scalar_errors path v t (PDict d) = Inr errs \<and> (errs = [] \<longleftrightarrow> conforms_but_enum d v)"
proof -
  have none: "dget d ''required'' = None" "dget d ''properties'' = None"
      "dget d ''additionalProperties'' = None" "dget d ''items'' = None" "dget d ''minItems'' = None"
    using shape ty by (auto simp: schema_shape_def dhas_dget dget_default_dget)
  obtain errs where errs: "range_errors path v (PDict d) = Inr errs"
     "errs = [] \<longleftrightarrow>
       (\<forall>kv. dget d ''minimum'' = Some kv \<longrightarrow> keyword_sem d ''minimum'' kv v) \<and>
       (\<forall>kv. dget d ''maximum'' = Some kv \<longrightarrow> keyword_sem d ''maximum'' kv v)"
    using range_errors_exact [OF wf] by blast
  have sem: "conforms_but_enum d v \<longleftrightarrow> has_type t v \<and> errs = []"
    unfolding conforms_but_enum_iff checked_keywords_def errs(2)
    using none any ty(1)
    by (auto simp: keyword_sem_simps has_type_def dget_default_dget split: option.splits)
  show ?thesis
    unfolding sem scalar_errors_def using errs(1) ty(2) by (auto simp: has_type_def)
qed

text \<open>Putting the branches together, by induction on the frames left.\<close>

lemma enum_exact:
  assumes wf: "\<forall>k v. dget d k = Some v \<longrightarrow> keyword_wf k v"
  shows "(if dhas d ''enum'' then res_bind (py_item (PDict d) ''enum'') (py_in v) else Inr True)
     = Inr (\<forall>kv. dget d ''enum'' = Some kv \<longrightarrow> keyword_sem d ''enum'' kv v)"
proof (cases "dget d ''enum''")
  case None
  then show ?thesis by (simp add: dhas_dget)
next
  case (Some kv)
  with wf have "keyword_wf ''enum'' kv" by blast
  then have "is_list kv" by (simp add: keyword_wf_simps)
  with Some show ?thesis
    by (cases kv) (simp_all add: dhas_dget keyword_sem_def keyword_holds_def)
qed

lemma validate_exact:
  "wf_schema s \<Longrightarrow> size s < fuel \<Longrightarrow>
     \<exists>errs. validate fuel rt v s path = Inr errs \<and> (errs = [] \<longleftrightarrow> conforms s v)"
proof (induction fuel arbitrary: s v path)
  case 0
  then show ?case by simp
next
  case (Suc fuel)
  obtain d where d: "s = PDict d" using wf_schema_is_dict [OF Suc.prems(1)] by blast
  have shape: "schema_shape d" and wf: "\<forall>k v. dget d k = Some v \<longrightarrow> keyword_wf k v"
    using wf_schema_dict Suc.prems(1) d by blast+
  have ok: "dict_ok d" using shape by (simp add: schema_shape_def)
  have rec: "exact_call (validate fuel rt) t" if "wf_schema t" "size t < size s" for t
    unfolding exact_call_def using Suc.IH that Suc.prems(2) by auto
  have no_ref: "\<not> dhas d ''$ref''"
    using wf [rule_format, of "''$ref''"]
    by (cases "dget d ''$ref''") (simp_all add: dhas_dget keyword_wf_simps)
  let ?enum_ok = "\<forall>kv. dget d ''enum'' = Some kv \<longrightarrow> keyword_sem d ''enum'' kv v"
  consider (empty) "d = []" | (any) "d \<noteq> []" "dhas d ''anyOf''"
    | (enum) "d \<noteq> []" "\<not> dhas d ''anyOf''" "\<not> ?enum_ok"
    | (typed) "d \<noteq> []" "\<not> dhas d ''anyOf''" "?enum_ok" by blast
  then show ?case
  proof cases
    case empty
    then show ?thesis by (simp add: d)
  next
    case any
    then obtain ss where ss: "dget d ''anyOf'' = Some (PList ss)" "list_all wf_schema ss"
      using wf [rule_format, of "''anyOf''"] by (auto simp: dhas_dget keyword_wf_simps)
    have "\<exists>errs. validate fuel rt v t path = Inr errs \<and> (errs = [] \<longleftrightarrow> conforms t v)" if "t \<in> set ss" for t
    proof -
      have "size t < size (PList ss)" using size_list_item [OF that] by simp
      moreover have "size (PList ss) < size (PDict d)" by (rule dget_size [OF ss(1)])
      moreover have "wf_schema t" using ss(2) that by (simp add: list_all_iff)
      ultimately show ?thesis using rec [of t] d by (simp add: exact_call_def)
    qed
    then obtain ess where ess: "res_map (\<lambda>branch. validate fuel rt v branch path) ss = Inr ess"
        "list_all2 (\<lambda>t errs. (errs = []) = conforms t v) ss ess"
      using res_map_exact [of ss "\<lambda>branch. validate fuel rt v branch path" "\<lambda>t. conforms t v"] by blast
    have none: "dget d k = None" if "k \<in> set assertion_keywords" for k
      using shape any(2) that by (auto simp: schema_shape_def list_all_iff dhas_dget)
    have "conforms s v \<longleftrightarrow> list_ex (\<lambda>t. conforms t v) ss"
      unfolding d conforms_enum_split [OF ok] conforms_but_enum_iff checked_keywords_def
      by (simp add: none assertion_keywords_def ss(1) keyword_sem_def)
    with any ess(1) exact_any [OF ess(2)] show ?thesis
      by (simp add: d no_ref ss(1))
  next
    case enum
    then have "\<not> conforms s v" by (simp add: d conforms_enum_split [OF ok])
    moreover obtain kv where "dget d ''enum'' = Some kv" using enum(3) by auto
    ultimately show ?thesis using enum enum_exact [OF wf, of v] by (simp add: d no_ref)
  next
    case typed
    then have any_none: "dget d ''anyOf'' = None" by (simp add: dhas_dget)
    have conf: "conforms s v \<longleftrightarrow> conforms_but_enum d v"
      using typed(3) by (simp add: d conforms_enum_split [OF ok])
    define t where "t = dget_default d ''type'' PNone"
    have step: "validate (Suc fuel) rt v s path =
       (if t = PStr ''null'' then Inr (if v = PNone then [] else [SchemaError path ExpectedNull])
        else if t = PStr ''object'' then validate_object (validate fuel rt) v s path
        else if t = PStr ''array'' then validate_array (validate fuel rt) v s path
        else scalar_errors path v t s)"
      using typed enum_exact [OF wf, of v] by (simp add: d no_ref t_def)
    have dt: "dget d ''type'' = Some t" if "t \<noteq> PNone"
      using that by (auto simp: t_def dget_default_dget split: option.splits)
    consider "t = PStr ''null''" | "t = PStr ''object''" | "t = PStr ''array''"
      | "t \<notin> PStr ` {''null'', ''object'', ''array''}" by auto
    then show ?thesis
    proof cases
      case 1
      then show ?thesis unfolding step conf conforms_but_enum_iff checked_keywords_def
        using schema_shape_type [OF shape dt]
        by (auto simp: keyword_sem_simps has_type_def dt split: option.splits)
    next
      case 2
      have "exact_call (validate fuel rt) u"
        if "dget d ''properties'' = Some (PDict ps)" "dget ps key = Some u" for ps key u
      proof (rule rec)
        show "wf_schema u" using wf [rule_format, OF that(1)] that(2)
          by (fastforce simp: keyword_wf_simps list_all_iff dget_def dest: map_of_SomeD)
        show "size u < size s" unfolding d using dget_size [OF that(1)] dget_size [OF that(2)] by (rule less_trans [rotated])
      qed
      then show ?thesis unfolding step conf
        using validate_object_exact [OF shape wf, of "validate fuel rt" v path] dt 2 d by simp
    next
      case 3
      have "exact_call (validate fuel rt) (dget_default d ''items'' (PDict []))"
      proof (cases "dget d ''items''")
        case None
        have "0 < fuel" using Suc.prems(2) d by simp
        then obtain n where "fuel = Suc n" by (cases fuel) auto
        with None show ?thesis by (simp add: exact_call_def dget_default_dget)
      next
        case (Some u)
        then show ?thesis
          using wf [rule_format, OF Some] dget_size [OF Some] d
          by (auto simp: dget_default_dget keyword_wf_simps intro!: rec)
      qed
      then show ?thesis unfolding step conf
        using validate_array_exact [OF shape wf, of "validate fuel rt" v path] dt 3 d by simp
    next
      case 4
      then show ?thesis unfolding step conf
        using scalar_errors_exact [OF shape wf any_none t_def 4, where v = v and path = path] d by auto
    qed
  qed
qed

section \<open>Properties\<close>

text \<open>
  C1: on every emitted schema the payload checker returns (it raises nothing and its recursion
  ends within as many frames as the schema has nodes), and it reports no error exactly for the
  payloads that satisfy every keyword of the schema in the reading of JSON Schema.
\<close>

theorem schema_check_exact:
  assumes "wf_schema schema" and "size schema < fuel"
  shows "\<exists>errs. validate_payload_against_schema fuel payload schema = Inr errs
           \<and> (errs = [] \<longleftrightarrow> conforms schema payload)"
  unfolding validate_payload_against_schema_def using assms by (rule validate_exact)

definition sample_schema :: pyval where
  "sample_schema = PDict
     [(''type'', PStr ''object''),
      (''properties'', PDict
         [(''cmd'', PDict [(''type'', PStr ''array''), (''items'', PDict [(''type'', PStr ''string'')]),
                           (''minItems'', PInt 1)]),
          (''cwd'', PDict [(''anyOf'', PList [PDict [(''type'', PStr ''string'')], PDict [(''type'', PStr ''null'')]])])]),
      (''required'', PList [PStr ''cmd'']),
      (''additionalProperties'', PBool False)]"

lemma sample_schema_wf: "wf_schema sample_schema"
  by (simp add: sample_schema_def wf_schema_PDict keyword_wf_def keyword_shape_def schema_shape_def
      known_types_def assertion_keywords_def dict_ok_def)

theorem schema_check_exact_witness:
  "\<exists>errs. validate_payload_against_schema 40 (PDict [(''cmd'', PList [PStr ''ls''])]) sample_schema = Inr errs
     \<and> (errs = [] \<longleftrightarrow> conforms sample_schema (PDict [(''cmd'', PList [PStr ''ls''])]))"
proof (rule schema_check_exact)
  show "wf_schema sample_schema" by (rule sample_schema_wf)
  show "size sample_schema < 40" by (simp add: sample_schema_def)
qed

definition cyclic_schema :: pyval where
  "cyclic_schema = PDict
     [(''$ref'', PStr ''#/$defs/A''),
      (''$defs'', PDict [(''A'', PDict [(''anyOf'', PList [PDict [(''$ref'', PStr ''#/$defs/A'')]])])])]"

lemma validate_cyclic_branch:
  "validate fuel cyclic_schema v (PDict [(''$ref'', PStr ''#/$defs/A'')]) path = Inl RecursionError"
proof (induction fuel)
  case 0
  then show ?case by simp
next
  case (Suc fuel)
  have "resolve_ref (PStr ''#/$defs/A'') cyclic_schema =
      Inr (PDict [(''anyOf'', PList [PDict [(''$ref'', PStr ''#/$defs/A'')]])])"
    by (simp add: resolve_ref_def cyclic_schema_def)
  with Suc show ?case by simp
qed

text \<open>
  A schema whose definition refers to itself under an \<open>anyOf\<close> makes the checker recurse
  without end: with any number of frames it raises \<open>RecursionError\<close>, for every payload.
\<close>

theorem cyclic_schema_never_returns:
  "validate_payload_against_schema fuel payload cyclic_schema = Inl RecursionError"
proof (cases fuel)
  case 0
  then show ?thesis by (simp add: validate_payload_against_schema_def)
next
  case (Suc n)
  have "resolve_ref (PStr ''#/$defs/A'') cyclic_schema =
      Inr (PDict [(''anyOf'', PList [PDict [(''$ref'', PStr ''#/$defs/A'')]])])"
    by (simp add: resolve_ref_def cyclic_schema_def)
  moreover have "py_truthy cyclic_schema" "py_in (PStr ''$ref'') cyclic_schema = Inr True"
      "py_item cyclic_schema ''$ref'' = Inr (PStr ''#/$defs/A'')"
    by (simp_all add: cyclic_schema_def)
  ultimately show ?thesis
    using validate_cyclic_branch [of n payload "''$''"]
    by (simp add: Suc validate_payload_against_schema_def)
qed

text \<open>
  The checker takes a truth value for an integer: a schema of type \<open>integer\<close> accepts
  \<open>True\<close> and \<open>False\<close>, and \<open>True\<close> passes a \<open>minimum\<close> of 1.
\<close>

theorem boolean_passes_integer_schema:
  "validate_payload_against_schema (Suc fuel) (PBool b) (PDict [(''type'', PStr ''integer'')]) = Inr []
   \<and> validate_payload_against_schema (Suc fuel) (PBool True)
        (PDict [(''type'', PStr ''integer''), (''minimum'', PInt 1), (''maximum'', PInt 300)]) = Inr []"
  by (simp add: validate_payload_against_schema_def scalar_errors_def range_errors_def
      py_less_num_def py_greater_num_def)

end
