(* ===== verification/Capability.thy ===== *)
theory Capability
  imports Interfaces SchemaValidation
begin

text \<open>
  The action space of the planner: \<open>capability/capability_enums.py\<close>,
  \<open>capability_models.py\<close>, \<open>capability_registry.py\<close>, \<open>capability_panel.py\<close> and
  \<open>trace_models.py\<close>. Enumerations are datatypes, pydantic models are records (their fields
  prefixed, since several models use the same name), the registry is its two dictionaries.
  SHA-256 over the canonical JSON dump is the argument \<open>digest\<close>; identifiers drawn from
  \<open>uuid4\<close> and the time are arguments too.
\<close>

section \<open>Enumerations\<close>

datatype capability_status = ENABLED | DISABLED | UNAVAILABLE | PLACEHOLDER | DEPRECATED

fun status_value :: "capability_status \<Rightarrow> string" where
  "status_value ENABLED = ''enabled''"
| "status_value DISABLED = ''disabled''"
| "status_value UNAVAILABLE = ''unavailable''"
| "status_value PLACEHOLDER = ''placeholder''"
| "status_value DEPRECATED = ''deprecated''"

definition all_statuses :: "capability_status list" where
  "all_statuses = [ENABLED, DISABLED, UNAVAILABLE, PLACEHOLDER, DEPRECATED]"

datatype capability_risk_level = LOW | MEDIUM | HIGH | CRITICAL

fun risk_value :: "capability_risk_level \<Rightarrow> string" where
  "risk_value LOW = ''low''"
| "risk_value MEDIUM = ''medium''"
| "risk_value HIGH = ''high''"
| "risk_value CRITICAL = ''critical''"

fun RISK_ORDER :: "capability_risk_level \<Rightarrow> int" where
  "RISK_ORDER LOW = 0"
| "RISK_ORDER MEDIUM = 1"
| "RISK_ORDER HIGH = 2"
| "RISK_ORDER CRITICAL = 3"

datatype capability_visibility = PLANNER_VISIBLE | VALIDATOR_ONLY | INTERNAL

fun visibility_value :: "capability_visibility \<Rightarrow> string" where
  "visibility_value PLANNER_VISIBLE = ''planner_visible''"
| "visibility_value VALIDATOR_ONLY = ''validator_only''"
| "visibility_value INTERNAL = ''internal''"

section \<open>Models\<close>

record capability_descriptor =
  cd_capability_id :: string
  cd_version :: string
  cd_step_kind :: string
  cd_owner_module :: string
  cd_name :: string
  cd_description :: string
  cd_executor_name :: "string option"
  cd_input_model_ref :: "string option"
  cd_output_model_ref :: "string option"
  cd_input_schema :: "pyval dict"
  cd_output_schema :: "pyval dict"
  cd_required_context_keys :: "string list"
  cd_required_capabilities :: "string list"
  cd_risk_level :: capability_risk_level
  cd_visibility :: capability_visibility
  cd_default_enabled :: bool
  cd_is_placeholder :: bool
  cd_is_deprecated :: bool
  cd_examples :: "pyval dict list"
  cd_tags :: "string list"
  cd_metadata :: "pyval dict"

record build_capability_snapshot_input =
  bi_task_id :: "string option"
  bi_task_type :: "string option"
  bi_available_context_keys :: "string list"
  bi_required_capability_ids :: "string list"
  bi_recommended_capability_ids :: "string list"
  bi_forbidden_capability_ids :: "string list"
  bi_max_risk_level :: capability_risk_level
  bi_allow_placeholder :: bool
  bi_allow_deprecated :: bool
  bi_feature_flags :: "bool dict"
  bi_metadata :: "pyval dict"

record capability_availability =
  ca_capability_id :: string
  ca_step_kind :: string
  ca_status :: capability_status
  ca_reason :: "string option"
  ca_missing_context_keys :: "string list"
  ca_blocked_by_policy :: bool
  ca_blocked_by_skill :: bool
  ca_blocked_by_feature_flag :: bool
  ca_effective_risk_level :: capability_risk_level

record capability_snapshot =
  cs_snapshot_id :: string
  cs_capabilities :: "capability_descriptor list"
  cs_availability :: "capability_availability list"
  cs_available_step_kinds :: "string list"
  cs_unavailable_step_kinds :: "string list"
  cs_capability_digest :: string
  cs_task_id :: "string option"
  cs_metadata :: "pyval dict"

record capability_resolution_record =
  cr_record_id :: string
  cr_input_payload :: "pyval dict"
  cr_output_snapshot_id :: string
  cr_output_capability_digest :: string
  cr_descriptor_ids :: "string list"
  cr_enabled_capability_ids :: "string list"
  cr_disabled_capability_ids :: "string list"
  cr_unavailable_capability_ids :: "string list"
  cr_placeholder_capability_ids :: "string list"
  cr_deprecated_capability_ids :: "string list"
  cr_availability_records :: "pyval dict list"
  cr_created_at :: rat
  cr_task_id :: "string option"
  cr_action_name :: string
  cr_prompt_artifact_id :: "string option"
  cr_snapshot_artifact_id :: "string option"
  cr_metadata :: "pyval dict"

section \<open>Registry\<close>

record capability_registry =
  by_id :: "capability_descriptor dict"
  by_step_kind :: "capability_descriptor dict"

definition new_capability_registry :: capability_registry where
  "new_capability_registry = \<lparr>by_id = [], by_step_kind = []\<rparr>"

definition register_capability :: "capability_descriptor \<Rightarrow> capability_registry \<Rightarrow> capability_registry res" where
  "register_capability desc reg =
     (if dhas (by_id reg) (cd_capability_id desc)
      then Inl (Exc ''ValueError'' (''duplicated capability_id: '' @ cd_capability_id desc))
      else if dhas (by_step_kind reg) (cd_step_kind desc)
      then Inl (Exc ''ValueError'' (''duplicated step_kind: '' @ cd_step_kind desc))
      else Inr (reg\<lparr>by_id := dput (cd_capability_id desc) desc (by_id reg),
                    by_step_kind := dput (cd_step_kind desc) desc (by_step_kind reg)\<rparr>))"

definition get_by_id :: "capability_registry \<Rightarrow> string \<Rightarrow> capability_descriptor res" where
  "get_by_id reg k = (case dget (by_id reg) k of None \<Rightarrow> Inl KeyError | Some d \<Rightarrow> Inr d)"

definition get_by_step_kind :: "capability_registry \<Rightarrow> string \<Rightarrow> capability_descriptor res" where
  "get_by_step_kind reg k = (case dget (by_step_kind reg) k of None \<Rightarrow> Inl KeyError | Some d \<Rightarrow> Inr d)"

definition maybe_get_by_step_kind :: "capability_registry \<Rightarrow> string \<Rightarrow> capability_descriptor option" where
  "maybe_get_by_step_kind reg k = dget (by_step_kind reg) k"

definition list_all_capabilities :: "capability_registry \<Rightarrow> capability_descriptor list" where
  "list_all_capabilities reg = dvalues (by_id reg)"

definition registry_step_kinds :: "capability_registry \<Rightarrow> string list" where
  "registry_step_kinds reg = dkeys (by_step_kind reg)"

section \<open>Panel\<close>

record availability_flags =
  missing_keys :: "string list"
  by_policy :: bool
  by_skill :: bool
  by_flag :: bool

definition no_flags :: availability_flags where
  "no_flags = \<lparr>missing_keys = [], by_policy = False, by_skill = False, by_flag = False\<rparr>"

definition make_availability ::
  "capability_descriptor \<Rightarrow> capability_status \<Rightarrow> string option \<Rightarrow> availability_flags \<Rightarrow> capability_availability" where
  "make_availability desc status reason flags =
     \<lparr>ca_capability_id = cd_capability_id desc,
      ca_step_kind = cd_step_kind desc,
      ca_status = status,
      ca_reason = reason,
      ca_missing_context_keys = missing_keys flags,
      ca_blocked_by_policy = by_policy flags,
      ca_blocked_by_skill = by_skill flags,
      ca_blocked_by_feature_flag = by_flag flags,
      ca_effective_risk_level = cd_risk_level desc\<rparr>"

definition resolve_descriptor ::
  "capability_descriptor \<Rightarrow> build_capability_snapshot_input \<Rightarrow> capability_availability" where
  "resolve_descriptor desc request =
     (let available_context = set (bi_available_context_keys request);
          missing_context = filter (\<lambda>k. k \<notin> available_context) (cd_required_context_keys desc);
          flag_name = ''capability.'' @ cd_capability_id desc @ ''.enabled''
      in
      if cd_is_placeholder desc \<and> \<not> bi_allow_placeholder request
      then make_availability desc PLACEHOLDER (Some ''placeholder capability is disabled by default'') no_flags
      else if cd_is_deprecated desc \<and> \<not> bi_allow_deprecated request
      then make_availability desc DEPRECATED (Some ''deprecated capability is not allowed'') no_flags
      else if \<not> cd_default_enabled desc
      then make_availability desc DISABLED (Some ''capability is disabled by default'') no_flags
      else if cd_capability_id desc \<in> set (bi_forbidden_capability_ids request)
      then make_availability desc DISABLED (Some ''capability is forbidden by skill or policy'')
             (no_flags\<lparr>by_skill := True\<rparr>)
      else if (case dget (bi_feature_flags request) flag_name of None \<Rightarrow> False | Some on \<Rightarrow> \<not> on)
      then make_availability desc DISABLED (Some ''capability is disabled by feature flag'')
             (no_flags\<lparr>by_flag := True\<rparr>)
      else if missing_context \<noteq> []
      then make_availability desc UNAVAILABLE (Some ''required execution context is unavailable'')
             (no_flags\<lparr>missing_keys := missing_context\<rparr>)
      else if RISK_ORDER (cd_risk_level desc) > RISK_ORDER (bi_max_risk_level request)
      then make_availability desc DISABLED (Some ''capability risk exceeds task policy'')
             (no_flags\<lparr>by_policy := True\<rparr>)
      else make_availability desc ENABLED None no_flags)"

definition py_str_tuple :: "string list \<Rightarrow> pyval" where
  "py_str_tuple xs = PTuple (map PStr xs)"

definition descriptor_digest_payload :: "capability_descriptor \<Rightarrow> pyval" where
  "descriptor_digest_payload d = PDict
     [(''capability_id'', PStr (cd_capability_id d)),
      (''version'', PStr (cd_version d)),
      (''step_kind'', PStr (cd_step_kind d)),
      (''input_schema'', PDict (cd_input_schema d)),
      (''output_schema'', PDict (cd_output_schema d)),
      (''required_context_keys'', py_str_tuple (cd_required_context_keys d)),
      (''risk_level'', PStr (risk_value (cd_risk_level d))),
      (''visibility'', PStr (visibility_value (cd_visibility d))),
      (''default_enabled'', PBool (cd_default_enabled d)),
      (''is_placeholder'', PBool (cd_is_placeholder d)),
      (''is_deprecated'', PBool (cd_is_deprecated d))]"

definition availability_digest_payload :: "capability_availability \<Rightarrow> pyval" where
  "availability_digest_payload a = PDict
     [(''capability_id'', PStr (ca_capability_id a)),
      (''step_kind'', PStr (ca_step_kind a)),
      (''status'', PStr (status_value (ca_status a))),
      (''reason'', opt_str (ca_reason a)),
      (''missing_context_keys'', py_str_tuple (ca_missing_context_keys a))]"

definition snapshot_payload ::
  "capability_descriptor list \<Rightarrow> capability_availability list \<Rightarrow> string list \<Rightarrow> string list \<Rightarrow> pyval" where
  "snapshot_payload caps avail available unavailable = PDict
     [(''capabilities'', PList (map descriptor_digest_payload caps)),
      (''availability'', PList (map availability_digest_payload avail)),
      (''available_step_kinds'', py_str_tuple available),
      (''unavailable_step_kinds'', py_str_tuple unavailable)]"

definition digest_payload :: "capability_snapshot \<Rightarrow> pyval" where
  "digest_payload s = snapshot_payload (cs_capabilities s) (cs_availability s)
     (cs_available_step_kinds s) (cs_unavailable_step_kinds s)"

definition recompute_digest :: "(pyval \<Rightarrow> string) \<Rightarrow> capability_snapshot \<Rightarrow> string" where
  "recompute_digest digest s = digest (digest_payload s)"

definition enabled_kinds :: "capability_availability list \<Rightarrow> string list" where
  "enabled_kinds avail = map ca_step_kind (filter (\<lambda>a. ca_status a = ENABLED) avail)"

definition not_enabled_kinds :: "capability_availability list \<Rightarrow> string list" where
  "not_enabled_kinds avail = map ca_step_kind (filter (\<lambda>a. ca_status a \<noteq> ENABLED) avail)"

definition build_snapshot ::
  "(pyval \<Rightarrow> string) \<Rightarrow> string \<Rightarrow> capability_registry \<Rightarrow> build_capability_snapshot_input \<Rightarrow> capability_snapshot" where
  "build_snapshot digest snapshot_id reg request =
     (let descriptors = list_all_capabilities reg;
          availability = map (\<lambda>d. resolve_descriptor d request) descriptors;
          available = enabled_kinds availability;
          unavailable = not_enabled_kinds availability
      in \<lparr>cs_snapshot_id = snapshot_id,
          cs_capabilities = descriptors,
          cs_availability = availability,
          cs_available_step_kinds = available,
          cs_unavailable_step_kinds = unavailable,
          cs_capability_digest = digest (snapshot_payload descriptors availability available unavailable),
          cs_task_id = bi_task_id request,
          cs_metadata =
            [(''task_type'', opt_str (bi_task_type request)),
             (''required_capability_ids'', py_strs (bi_required_capability_ids request)),
             (''recommended_capability_ids'', py_strs (bi_recommended_capability_ids request)),
             (''max_risk_level'', PStr (risk_value (bi_max_risk_level request)))]\<rparr>)"

text \<open>
  \<open>_dump_value\<close>: instances become dictionaries and tuples lists, at every depth; and
  \<open>model_dump\<close> of the two models the resolution record stores.
\<close>

function dump_value :: "pyval \<Rightarrow> pyval" where
  "dump_value v =
     (case v of
        PObj c fs \<Rightarrow> PDict (map (\<lambda>(k, x). (k, dump_value x)) fs)
      | PDict d \<Rightarrow> PDict (map (\<lambda>(k, x). (k, dump_value x)) d)
      | PList xs \<Rightarrow> PList (map dump_value xs)
      | PTuple xs \<Rightarrow> PList (map dump_value xs)
      | _ \<Rightarrow> v)"
  by pat_completeness auto
termination
  by (relation "measure size") (auto dest!: size_dict_item size_list_item)

declare dump_value.simps [simp del]

definition dump_dict :: "pyval dict \<Rightarrow> pyval dict" where
  "dump_dict d = map (\<lambda>(k, x). (k, dump_value x)) d"

definition dump_request :: "build_capability_snapshot_input \<Rightarrow> pyval dict" where
  "dump_request r =
     [(''task_id'', opt_str (bi_task_id r)),
      (''task_type'', opt_str (bi_task_type r)),
      (''available_context_keys'', py_strs (bi_available_context_keys r)),
      (''required_capability_ids'', py_strs (bi_required_capability_ids r)),
      (''recommended_capability_ids'', py_strs (bi_recommended_capability_ids r)),
      (''forbidden_capability_ids'', py_strs (bi_forbidden_capability_ids r)),
      (''max_risk_level'', PStr (risk_value (bi_max_risk_level r))),
      (''allow_placeholder'', PBool (bi_allow_placeholder r)),
      (''allow_deprecated'', PBool (bi_allow_deprecated r)),
      (''feature_flags'', PDict (map (\<lambda>(k, b). (k, PBool b)) (bi_feature_flags r))),
      (''metadata'', PDict (dump_dict (bi_metadata r)))]"

definition dump_availability :: "capability_availability \<Rightarrow> pyval dict" where
  "dump_availability a =
     [(''capability_id'', PStr (ca_capability_id a)),
      (''step_kind'', PStr (ca_step_kind a)),
      (''status'', PStr (status_value (ca_status a))),
      (''reason'', opt_str (ca_reason a)),
      (''missing_context_keys'', py_strs (ca_missing_context_keys a)),
      (''blocked_by_policy'', PBool (ca_blocked_by_policy a)),
      (''blocked_by_skill'', PBool (ca_blocked_by_skill a)),
      (''blocked_by_feature_flag'', PBool (ca_blocked_by_feature_flag a)),
      (''effective_risk_level'', PStr (risk_value (ca_effective_risk_level a)))]"

definition ids_with_status :: "capability_status \<Rightarrow> capability_availability list \<Rightarrow> string list" where
  "ids_with_status st avail = map ca_capability_id (filter (\<lambda>a. ca_status a = st) avail)"

definition build_resolution_record ::
  "string \<Rightarrow> rat \<Rightarrow> build_capability_snapshot_input \<Rightarrow> capability_snapshot \<Rightarrow>
     string option \<Rightarrow> string option \<Rightarrow> rat option \<Rightarrow> capability_resolution_record" where
  "build_resolution_record record_id now request snapshot prompt_artifact_id snapshot_artifact_id created_at =
     \<lparr>cr_record_id = record_id,
      cr_input_payload = dump_request request,
      cr_output_snapshot_id = cs_snapshot_id snapshot,
      cr_output_capability_digest = cs_capability_digest snapshot,
      cr_descriptor_ids = map cd_capability_id (cs_capabilities snapshot),
      cr_enabled_capability_ids = ids_with_status ENABLED (cs_availability snapshot),
      cr_disabled_capability_ids = ids_with_status DISABLED (cs_availability snapshot),
      cr_unavailable_capability_ids = ids_with_status UNAVAILABLE (cs_availability snapshot),
      cr_placeholder_capability_ids = ids_with_status PLACEHOLDER (cs_availability snapshot),
      cr_deprecated_capability_ids = ids_with_status DEPRECATED (cs_availability snapshot),
      cr_availability_records = map dump_availability (cs_availability snapshot),
      cr_created_at = (case created_at of None \<Rightarrow> now | Some t \<Rightarrow> t),
      cr_task_id = bi_task_id request,
      cr_action_name = ''capability.build_snapshot'',
      cr_prompt_artifact_id = prompt_artifact_id,
      cr_snapshot_artifact_id = snapshot_artifact_id,
      cr_metadata = []\<rparr>"

definition build_snapshot_and_record ::
  "(pyval \<Rightarrow> string) \<Rightarrow> string \<Rightarrow> string \<Rightarrow> rat \<Rightarrow> capability_registry \<Rightarrow> build_capability_snapshot_input \<Rightarrow>
     capability_snapshot \<times> capability_resolution_record" where
  "build_snapshot_and_record digest snapshot_id record_id now reg request =
     (let snapshot = build_snapshot digest snapshot_id reg request
      in (snapshot, build_resolution_record record_id now request snapshot None None None))"


section \<open>Registry invariant and its interfaces\<close>

definition registry_inv :: "capability_registry \<Rightarrow> bool" where
  "registry_inv reg \<longleftrightarrow>
     dict_ok (by_id reg) \<and> dict_ok (by_step_kind reg)
     \<and> list_all (\<lambda>(k, d). k = cd_capability_id d) (by_id reg)
     \<and> list_all (\<lambda>(k, d). k = cd_step_kind d) (by_step_kind reg)
     \<and> dvalues (by_id reg) = dvalues (by_step_kind reg)"

definition lookup_by_id :: "capability_registry \<Rightarrow> string \<Rightarrow> capability_descriptor option" where
  "lookup_by_id reg k = dget (by_id reg) k"

lemma new_registry_inv [simp]: "registry_inv new_capability_registry"
  by (simp add: registry_inv_def new_capability_registry_def)

lemma register_capability_Inr:
  "register_capability d reg = Inr reg' \<Longrightarrow>
     \<not> dhas (by_id reg) (cd_capability_id d) \<and> \<not> dhas (by_step_kind reg) (cd_step_kind d) \<and>
     by_id reg' = by_id reg @ [(cd_capability_id d, d)] \<and>
     by_step_kind reg' = by_step_kind reg @ [(cd_step_kind d, d)]"
  by (auto simp: register_capability_def dput_keys_new split: if_splits)

lemma dict_ok_snoc: "dict_ok (d @ [(k, v)]) \<longleftrightarrow> dict_ok d \<and> \<not> dhas d k"
  by (auto simp: dict_ok_def dhas_iff)

lemma dget_append: "dget (d @ e) k = (case dget d k of None \<Rightarrow> dget e k | Some v \<Rightarrow> Some v)"
  by (simp add: dget_def map_add_def split: option.split)

lemma register_capability_inv:
  "registry_inv reg \<Longrightarrow> register_capability d reg = Inr reg' \<Longrightarrow> registry_inv reg'"
  by (drule register_capability_Inr) (simp add: registry_inv_def dict_ok_snoc dvalues_append)

interpretation cap_ids: once_registry lookup_by_id register_capability cd_capability_id registry_inv
  by unfold_locales
    (auto simp: lookup_by_id_def dget_append dhas_dget register_capability_inv
          dest!: register_capability_Inr split: option.splits)

interpretation cap_kinds: once_registry maybe_get_by_step_kind register_capability cd_step_kind registry_inv
  by unfold_locales
    (auto simp: maybe_get_by_step_kind_def dget_append dhas_dget register_capability_inv
          dest!: register_capability_Inr split: option.splits)

lemma register_all_list:
  "register_all register_capability ds reg = Inr reg' \<Longrightarrow>
     list_all_capabilities reg' = list_all_capabilities reg @ ds"
  by (induction ds arbitrary: reg)
    (auto simp: res_bind_Inr_iff list_all_capabilities_def dvalues_append dest!: register_capability_Inr)

lemma register_all_succeeds:
  "distinct (map cd_capability_id ds) \<Longrightarrow> distinct (map cd_step_kind ds) \<Longrightarrow>
   (\<forall>d \<in> set ds. \<not> dhas (by_id reg) (cd_capability_id d) \<and> \<not> dhas (by_step_kind reg) (cd_step_kind d)) \<Longrightarrow>
   \<exists>reg'. register_all register_capability ds reg = Inr reg'"
proof (induction ds arbitrary: reg)
  case Nil
  then show ?case by simp
next
  case (Cons d ds)
  let ?reg = "reg\<lparr>by_id := dput (cd_capability_id d) d (by_id reg),
                  by_step_kind := dput (cd_step_kind d) d (by_step_kind reg)\<rparr>"
  have "register_capability d reg = Inr ?reg"
    using Cons.prems(3) by (simp add: register_capability_def)
  moreover have "\<exists>reg'. register_all register_capability ds ?reg = Inr reg'"
    using Cons.prems by (intro Cons.IH) (auto simp: image_iff)
  ultimately show ?case by auto
qed

section \<open>Properties\<close>

text \<open>
  Registering a list of descriptors in an empty registry succeeds exactly when their ids are
  distinct and their step kinds are distinct; then the registry lists them in order of
  registration and finds each of them under its id and under its step kind.
\<close>

theorem register_capabilities_correct:
  "((\<exists>reg. register_all register_capability ds new_capability_registry = Inr reg)
      = (distinct (map cd_capability_id ds) \<and> distinct (map cd_step_kind ds)))
   \<and> (\<forall>reg. register_all register_capability ds new_capability_registry = Inr reg \<longrightarrow>
        list_all_capabilities reg = ds \<and>
        (\<forall>d \<in> set ds. get_by_id reg (cd_capability_id d) = Inr d
                     \<and> get_by_step_kind reg (cd_step_kind d) = Inr d))"
proof (intro conjI iffI allI impI ballI)
  assume "\<exists>reg. register_all register_capability ds new_capability_registry = Inr reg"
  then obtain reg where r: "register_all register_capability ds new_capability_registry = Inr reg" by blast
  show "distinct (map cd_capability_id ds)"
    using cap_ids.register_all_fresh [OF new_registry_inv r] by blast
  show "distinct (map cd_step_kind ds)"
    using cap_kinds.register_all_fresh [OF new_registry_inv r] by blast
next
  assume "distinct (map cd_capability_id ds) \<and> distinct (map cd_step_kind ds)"
  then show "\<exists>reg. register_all register_capability ds new_capability_registry = Inr reg"
    by (intro register_all_succeeds) (auto simp: new_capability_registry_def)
next
  fix reg
  assume r: "register_all register_capability ds new_capability_registry = Inr reg"
  show "list_all_capabilities reg = ds"
    using register_all_list [OF r] by (simp add: list_all_capabilities_def new_capability_registry_def)
  fix d
  assume d: "d \<in> set ds"
  show "get_by_id reg (cd_capability_id d) = Inr d"
    using cap_ids.register_all_lookup [OF new_registry_inv r d]
    by (simp add: lookup_by_id_def get_by_id_def)
  show "get_by_step_kind reg (cd_step_kind d) = Inr d"
    using cap_kinds.register_all_lookup [OF new_registry_inv r d]
    by (simp add: maybe_get_by_step_kind_def get_by_step_kind_def)
qed

text \<open>The one status a descriptor gets, as a condition.\<close>

definition may_enable :: "capability_descriptor \<Rightarrow> build_capability_snapshot_input \<Rightarrow> bool" where
  "may_enable d r \<longleftrightarrow>
     (cd_is_placeholder d \<longrightarrow> bi_allow_placeholder r)
     \<and> (cd_is_deprecated d \<longrightarrow> bi_allow_deprecated r)
     \<and> cd_default_enabled d
     \<and> cd_capability_id d \<notin> set (bi_forbidden_capability_ids r)
     \<and> dget (bi_feature_flags r) (''capability.'' @ cd_capability_id d @ ''.enabled'') \<noteq> Some False
     \<and> set (cd_required_context_keys d) \<subseteq> set (bi_available_context_keys r)
     \<and> RISK_ORDER (cd_risk_level d) \<le> RISK_ORDER (bi_max_risk_level r)"

lemma resolve_enabled_iff: "ca_status (resolve_descriptor d r) = ENABLED \<longleftrightarrow> may_enable d r"
  by (auto simp: resolve_descriptor_def may_enable_def make_availability_def Let_def filter_empty_conv
      split: option.splits)

lemma resolve_identity [simp]:
  "ca_capability_id (resolve_descriptor d r) = cd_capability_id d"
  "ca_step_kind (resolve_descriptor d r) = cd_step_kind d"
  "ca_effective_risk_level (resolve_descriptor d r) = cd_risk_level d"
  by (simp_all add: resolve_descriptor_def make_availability_def Let_def)

lemma resolve_reason:
  "ca_reason (resolve_descriptor d r) = None \<longleftrightarrow> ca_status (resolve_descriptor d r) = ENABLED"
  by (simp add: resolve_descriptor_def make_availability_def Let_def)

text \<open>
  The panel enables a capability exactly when it is default enabled, neither a placeholder nor
  deprecated unless the request allows that, not forbidden, not switched off by its feature flag,
  its required context keys are all available and its risk does not exceed the request's maximum;
  an enabled capability carries no reason, every other one does, and a context key is reported
  missing only when the status is unavailable, and then all missing keys are.
\<close>

theorem resolve_descriptor_correct:
  "(ca_status (resolve_descriptor d r) = ENABLED) = may_enable d r
   \<and> (ca_reason (resolve_descriptor d r) = None) = may_enable d r
   \<and> ca_missing_context_keys (resolve_descriptor d r) =
       (if ca_status (resolve_descriptor d r) = UNAVAILABLE
        then filter (\<lambda>k. k \<notin> set (bi_available_context_keys r)) (cd_required_context_keys d) else [])
   \<and> (ca_status (resolve_descriptor d r) = UNAVAILABLE) = (ca_missing_context_keys (resolve_descriptor d r) \<noteq> [])"
  using resolve_enabled_iff [of d r] resolve_reason [of d r]
  by (simp add: resolve_descriptor_def make_availability_def Let_def no_flags_def)

lemma available_kinds_iff:
  "k \<in> set (cs_available_step_kinds (build_snapshot digest sid reg r)) \<longleftrightarrow>
     (\<exists>d \<in> set (list_all_capabilities reg). k = cd_step_kind d \<and> may_enable d r)"
  by (force simp: build_snapshot_def enabled_kinds_def Let_def simp flip: resolve_enabled_iff)

definition relaxes :: "build_capability_snapshot_input \<Rightarrow> build_capability_snapshot_input \<Rightarrow> bool" where
  "relaxes r' r \<longleftrightarrow>
     set (bi_available_context_keys r) \<subseteq> set (bi_available_context_keys r')
     \<and> RISK_ORDER (bi_max_risk_level r) \<le> RISK_ORDER (bi_max_risk_level r')
     \<and> set (bi_forbidden_capability_ids r') \<subseteq> set (bi_forbidden_capability_ids r)
     \<and> (bi_allow_placeholder r \<longrightarrow> bi_allow_placeholder r')
     \<and> (bi_allow_deprecated r \<longrightarrow> bi_allow_deprecated r')
     \<and> bi_feature_flags r' = bi_feature_flags r"

text \<open>
  Relaxing a request (more context keys, a higher risk limit, fewer forbidden ids, the same
  feature flags, placeholders or deprecated capabilities allowed) never takes a step kind out of
  the available ones of the snapshot.
\<close>

theorem snapshot_monotone:
  assumes "relaxes r' r"
  shows "set (cs_available_step_kinds (build_snapshot digest sid reg r))
       \<subseteq> set (cs_available_step_kinds (build_snapshot digest' sid' reg r'))"
proof -
  have "may_enable d r'" if "may_enable d r" for d
    using assms that by (auto simp: relaxes_def may_enable_def)
  then show ?thesis by (simp add: subset_iff available_kinds_iff) blast
qed

lemma registry_kinds_distinct:
  "registry_inv reg \<Longrightarrow> distinct (map cd_step_kind (list_all_capabilities reg))"
proof -
  assume inv: "registry_inv reg"
  then have "map cd_step_kind (dvalues (by_step_kind reg)) = map fst (by_step_kind reg)"
    by (auto simp: registry_inv_def dvalues_def list_all_iff)
  with inv show ?thesis by (simp add: registry_inv_def list_all_capabilities_def dict_ok_def)
qed

lemma distinct_filter_split:
  "distinct (map f xs) \<Longrightarrow>
     distinct (map f (filter P xs)) \<and>
     set (map f (filter P xs)) \<inter> set (map f (filter (\<lambda>x. \<not> P x) xs)) = {}"
  by (induction xs) auto

text \<open>
  Whatever the request, the available and the unavailable step kinds of the snapshot of a
  registry built by registration split the registered step kinds: every registered kind is in one
  of the two, none is in both, and neither lists a kind twice.
\<close>

theorem snapshot_partition:
  assumes "register_all register_capability ds new_capability_registry = Inr reg"
  shows "let s = build_snapshot digest sid reg r in
    set (cs_available_step_kinds s) \<union> set (cs_unavailable_step_kinds s) = cd_step_kind ` set ds
    \<and> set (cs_available_step_kinds s) \<inter> set (cs_unavailable_step_kinds s) = {}
    \<and> distinct (cs_available_step_kinds s) \<and> distinct (cs_unavailable_step_kinds s)"
proof -
  let ?av = "map (\<lambda>d. resolve_descriptor d r) (list_all_capabilities reg)"
  have inv: "registry_inv reg" by (rule cap_ids.register_all_inv [OF new_registry_inv assms])
  have ds: "list_all_capabilities reg = ds"
    using register_all_list [OF assms] by (simp add: list_all_capabilities_def new_capability_registry_def)
  have d: "distinct (map ca_step_kind ?av)"
    using registry_kinds_distinct [OF inv] by (simp add: o_def)
  have "set (enabled_kinds ?av) \<union> set (not_enabled_kinds ?av) = ca_step_kind ` set ?av"
    by (auto simp: enabled_kinds_def not_enabled_kinds_def)
  then show ?thesis
    using distinct_filter_split [OF d, of "\<lambda>a. ca_status a = ENABLED"]
      distinct_filter_split [OF d, of "\<lambda>a. ca_status a \<noteq> ENABLED"] ds
    by (simp add: build_snapshot_def Let_def enabled_kinds_def not_enabled_kinds_def image_image)
qed

text \<open>Concrete inputs for the properties that have hypotheses.\<close>

definition sample_descriptor :: capability_descriptor where
  "sample_descriptor =
     \<lparr>cd_capability_id = ''cap.probe.v1'', cd_version = ''1.0.0'', cd_step_kind = ''execute_probe'',
      cd_owner_module = ''cmd_ctrl'', cd_name = ''probe'', cd_description = [],
      cd_executor_name = None, cd_input_model_ref = None, cd_output_model_ref = None,
      cd_input_schema = [], cd_output_schema = [],
      cd_required_context_keys = [''command_controller''], cd_required_capabilities = [],
      cd_risk_level = MEDIUM, cd_visibility = PLANNER_VISIBLE, cd_default_enabled = True,
      cd_is_placeholder = False, cd_is_deprecated = False, cd_examples = [], cd_tags = [],
      cd_metadata = []\<rparr>"

definition sample_request :: build_capability_snapshot_input where
  "sample_request =
     \<lparr>bi_task_id = None, bi_task_type = None, bi_available_context_keys = [''command_controller''],
      bi_required_capability_ids = [], bi_recommended_capability_ids = [],
      bi_forbidden_capability_ids = [], bi_max_risk_level = MEDIUM, bi_allow_placeholder = False,
      bi_allow_deprecated = False, bi_feature_flags = [], bi_metadata = []\<rparr>"

definition sample_registry :: capability_registry where
  "sample_registry =
     \<lparr>by_id = [(''cap.probe.v1'', sample_descriptor)],
      by_step_kind = [(''execute_probe'', sample_descriptor)]\<rparr>"

lemma sample_registration:
  "register_all register_capability [sample_descriptor] new_capability_registry = Inr sample_registry"
  by (simp add: register_capability_def new_capability_registry_def sample_descriptor_def sample_registry_def)

theorem register_capabilities_correct_witness:
  "get_by_step_kind sample_registry ''execute_probe'' = Inr sample_descriptor"
  using register_capabilities_correct [of "[sample_descriptor]"] sample_registration
  by (simp add: sample_descriptor_def)

theorem snapshot_monotone_witness:
  "set (cs_available_step_kinds (build_snapshot (\<lambda>p. ''d'') ''s1'' sample_registry
       (sample_request\<lparr>bi_max_risk_level := MEDIUM\<rparr>)))
     \<subseteq> set (cs_available_step_kinds (build_snapshot (\<lambda>p. ''d'') ''s1'' sample_registry
       (sample_request\<lparr>bi_max_risk_level := HIGH\<rparr>)))"
  by (rule snapshot_monotone) (simp add: relaxes_def sample_request_def)

theorem snapshot_partition_witness:
  "let s = build_snapshot (\<lambda>p. ''d'') ''s1'' sample_registry sample_request in
    set (cs_available_step_kinds s) \<union> set (cs_unavailable_step_kinds s) = {''execute_probe''}"
  using snapshot_partition [OF sample_registration, of "\<lambda>p. ''d''" "''s1''" sample_request]
  by (simp add: Let_def sample_descriptor_def)

end
