(* ===== verification/Plan.thy ===== *)
theory Plan
  imports Capability "HOL-Library.Product_Lexorder"
begin

text \<open>
  Plans: \<open>plan/plan_enums.py\<close>, \<open>plan_models.py\<close>, \<open>plan_context.py\<close>,
  \<open>plan_finalizer.py\<close>, \<open>plan_memory.py\<close> and the deterministic planners of
  \<open>plan/planners/\<close>. The enumerations of this package are classes of string constants, so a
  status or a kind is a string, as in the source. Generated identifiers and the clock are
  arguments. A float (a similarity, a score) is the rational it denotes.
\<close>

section \<open>Constants\<close>

abbreviation (input) "PLANNER_FAST \<equiv> ''fast''"
abbreviation (input) "PLANNER_LLM \<equiv> ''llm''"
abbreviation (input) "PLANNER_RULE_FALLBACK \<equiv> ''rule_fallback''"
abbreviation (input) "PLANNER_DEMO \<equiv> ''demo''"

abbreviation (input) "PLAN_DRAFT \<equiv> ''draft''"
abbreviation (input) "PLAN_VALIDATED \<equiv> ''validated''"

abbreviation (input) "INSPECT_PACKAGE \<equiv> ''inspect_package''"
abbreviation (input) "PARSE_TEXT \<equiv> ''parse_text''"
abbreviation (input) "BUILD_IMAGE \<equiv> ''build_image''"
abbreviation (input) "CREATE_RUNTIME \<equiv> ''create_runtime''"
abbreviation (input) "INSPECT_ENVIRONMENT \<equiv> ''inspect_environment''"
abbreviation (input) "RUN_COMMAND \<equiv> ''run_command''"
abbreviation (input) "EXECUTE_PROBE \<equiv> ''execute_probe''"
abbreviation (input) "GENERATE_SCRIPT \<equiv> ''generate_script''"
abbreviation (input) "RUN_TEST \<equiv> ''run_test''"
abbreviation (input) "COLLECT_ARTIFACT \<equiv> ''collect_artifact''"
abbreviation (input) "SUMMARIZE_REPORT \<equiv> ''summarize_report''"

abbreviation (input) "RISK_LOW \<equiv> ''low''"
abbreviation (input) "RISK_MEDIUM \<equiv> ''medium''"
abbreviation (input) "RISK_HIGH \<equiv> ''high''"

abbreviation (input) "FAIL_ABORT \<equiv> ''abort''"
abbreviation (input) "FAIL_CONTINUE \<equiv> ''continue''"
abbreviation (input) "FAIL_FALLBACK \<equiv> ''fallback''"
abbreviation (input) "FAIL_REQUEST_REPLAN \<equiv> ''request_replan''"

definition SUPPORTED_PLAN_STEP_KINDS :: "string list" where
  "SUPPORTED_PLAN_STEP_KINDS =
     [INSPECT_PACKAGE, PARSE_TEXT, BUILD_IMAGE, CREATE_RUNTIME, INSPECT_ENVIRONMENT, RUN_COMMAND,
      EXECUTE_PROBE, GENERATE_SCRIPT, RUN_TEST, COLLECT_ARTIFACT, SUMMARIZE_REPORT]"

definition VALID_RISK_LEVELS :: "string list" where
  "VALID_RISK_LEVELS = [RISK_LOW, RISK_MEDIUM, RISK_HIGH]"

definition VALID_FAILURE_POLICIES :: "string list" where
  "VALID_FAILURE_POLICIES = [FAIL_ABORT, FAIL_CONTINUE, FAIL_FALLBACK, FAIL_REQUEST_REPLAN]"

section \<open>Models\<close>

record plan_step =
  ps_step_id :: string
  ps_title :: string
  ps_kind :: string
  ps_intent :: string
  ps_depends_on :: "string list"
  ps_branch_group :: "string option"
  ps_branch_condition :: "string option"
  ps_inputs :: "pyval dict"
  ps_expected_outputs :: "string list"
  ps_required_capabilities :: "string list"
  ps_timeout_sec :: "int option"
  ps_retryable :: bool
  ps_optional :: bool
  ps_risk_level :: string
  ps_on_failure :: string
  ps_on_success :: "string option"
  ps_metadata :: "pyval dict"

record execution_plan =
  ep_plan_id :: string
  ep_task_id :: string
  ep_task_type :: string
  ep_goal :: string
  ep_planner_kind :: string
  ep_planner_name :: string
  ep_planner_version :: string
  ep_status :: string
  ep_steps :: "plan_step list"
  ep_assumptions :: "string list"
  ep_missing_information :: "string list"
  ep_risk_notes :: "string list"
  ep_global_constraints :: "pyval dict"
  ep_plan_metadata :: "pyval dict"
  ep_parent_plan_id :: "string option"
  ep_revision_no :: int
  ep_created_at :: "int option"

record execution_plan_draft =
  ed_task_id :: string
  ed_task_type :: string
  ed_goal :: string
  ed_planner_name :: string
  ed_planner_version :: string
  ed_plan_summary :: string
  ed_steps :: "plan_step list"
  ed_assumptions :: "string list"
  ed_missing_information :: "string list"
  ed_risk_notes :: "string list"
  ed_raw_llm_output :: "string option"
  ed_metadata :: "pyval dict"

definition plan_step_with_defaults :: "string \<Rightarrow> string \<Rightarrow> string \<Rightarrow> string \<Rightarrow> plan_step" where
  "plan_step_with_defaults step_id title kind intent =
     \<lparr>ps_step_id = step_id, ps_title = title, ps_kind = kind, ps_intent = intent,
      ps_depends_on = [], ps_branch_group = None, ps_branch_condition = None, ps_inputs = [],
      ps_expected_outputs = [], ps_required_capabilities = [], ps_timeout_sec = None,
      ps_retryable = False, ps_optional = False, ps_risk_level = RISK_LOW,
      ps_on_failure = FAIL_ABORT, ps_on_success = None, ps_metadata = []\<rparr>"

record plan_context_base =
  pc_task_id :: string
  pc_task_type :: string
  pc_goal :: string
  pc_package_report :: pyval
  pc_env_report :: pyval
  pc_text_parse_result :: pyval
  pc_runtime_target :: "string option"
  pc_constraints :: "pyval dict"
  pc_available_capabilities :: "string list"
  pc_prior_artifacts :: "string dict"
  pc_metadata :: "pyval dict"

section \<open>Finalizer\<close>

text \<open>
  \<open>PlanFinalizer.finalize\<close>. The snapshot and the resolution record enter only by the three
  fields the code reads. \<open>or {}\<close> and the truth tests on the optional dictionaries are the
  \<open>None\<close> and the empty case.
\<close>

definition finalize_metadata ::
  "execution_plan_draft \<Rightarrow> capability_snapshot option \<Rightarrow> capability_resolution_record option \<Rightarrow>
     string dict option \<Rightarrow> pyval dict option \<Rightarrow> pyval dict" where
  "finalize_metadata draft snapshot record artifact_refs metadata =
     (let m0 = [(''plan_summary'', PStr (ed_plan_summary draft)),
                (''draft_metadata'', PDict (ed_metadata draft)),
                (''raw_llm_output'', opt_str (ed_raw_llm_output draft))];
          m1 = (case snapshot of None \<Rightarrow> m0
                | Some s \<Rightarrow> dput ''capability_digest'' (PStr (cs_capability_digest s))
                              (dput ''capability_snapshot_id'' (PStr (cs_snapshot_id s)) m0));
          m2 = (case record of None \<Rightarrow> m1
                | Some r \<Rightarrow> dput ''capability_resolution_record_id'' (PStr (cr_record_id r)) m1);
          m3 = (case artifact_refs of None \<Rightarrow> m2
                | Some refs \<Rightarrow> if refs = [] then m2
                    else dput ''artifact_refs'' (PDict (map (\<lambda>(k, v). (k, PStr v)) refs)) m2)
      in (case metadata of None \<Rightarrow> m3 | Some m \<Rightarrow> dupdate m3 m))"

definition finalize_plan ::
  "string \<Rightarrow> int \<Rightarrow> execution_plan_draft \<Rightarrow> string \<Rightarrow> pyval dict option \<Rightarrow> string option \<Rightarrow> int \<Rightarrow>
     capability_snapshot option \<Rightarrow> capability_resolution_record option \<Rightarrow>
     string dict option \<Rightarrow> pyval dict option \<Rightarrow> execution_plan" where
  "finalize_plan plan_id now draft planner_kind global_constraints parent_plan_id revision_no
     snapshot record artifact_refs metadata =
     \<lparr>ep_plan_id = plan_id,
      ep_task_id = ed_task_id draft,
      ep_task_type = ed_task_type draft,
      ep_goal = ed_goal draft,
      ep_planner_kind = planner_kind,
      ep_planner_name = ed_planner_name draft,
      ep_planner_version = ed_planner_version draft,
      ep_status = PLAN_DRAFT,
      ep_steps = ed_steps draft,
      ep_assumptions = ed_assumptions draft,
      ep_missing_information = ed_missing_information draft,
      ep_risk_notes = ed_risk_notes draft,
      ep_global_constraints = (case global_constraints of None \<Rightarrow> [] | Some c \<Rightarrow> c),
      ep_plan_metadata = finalize_metadata draft snapshot record artifact_refs metadata,
      ep_parent_plan_id = parent_plan_id,
      ep_revision_no = revision_no,
      ep_created_at = Some now\<rparr>"

section \<open>Plan memory\<close>

text \<open>\<open>dataclasses.asdict\<close>: dataclass instances become dictionaries at every depth, lists and tuples keep their class.\<close>

function asdict_value :: "pyval \<Rightarrow> pyval" where
  "asdict_value v =
     (case v of
        PObj c fs \<Rightarrow> PDict (map (\<lambda>(k, x). (k, asdict_value x)) fs)
      | PDict d \<Rightarrow> PDict (map (\<lambda>(k, x). (k, asdict_value x)) d)
      | PList xs \<Rightarrow> PList (map asdict_value xs)
      | PTuple xs \<Rightarrow> PTuple (map asdict_value xs)
      | _ \<Rightarrow> v)"
  by pat_completeness auto
termination
  by (relation "measure size") (auto dest!: size_dict_item size_list_item)

declare asdict_value.simps [simp del]

definition asdict_dict :: "pyval dict \<Rightarrow> pyval dict" where
  "asdict_dict d = map (\<lambda>(k, x). (k, asdict_value x)) d"

fun opt_int :: "int option \<Rightarrow> pyval" where
  "opt_int None = PNone"
| "opt_int (Some i) = PInt i"

definition asdict_step :: "plan_step \<Rightarrow> pyval dict" where
  "asdict_step s =
     [(''step_id'', PStr (ps_step_id s)), (''title'', PStr (ps_title s)), (''kind'', PStr (ps_kind s)),
      (''intent'', PStr (ps_intent s)), (''depends_on'', py_strs (ps_depends_on s)),
      (''branch_group'', opt_str (ps_branch_group s)),
      (''branch_condition'', opt_str (ps_branch_condition s)),
      (''inputs'', PDict (asdict_dict (ps_inputs s))),
      (''expected_outputs'', py_strs (ps_expected_outputs s)),
      (''required_capabilities'', py_strs (ps_required_capabilities s)),
      (''timeout_sec'', opt_int (ps_timeout_sec s)), (''retryable'', PBool (ps_retryable s)),
      (''optional'', PBool (ps_optional s)), (''risk_level'', PStr (ps_risk_level s)),
      (''on_failure'', PStr (ps_on_failure s)), (''on_success'', opt_str (ps_on_success s)),
      (''metadata'', PDict (asdict_dict (ps_metadata s)))]"

definition asdict_plan :: "execution_plan \<Rightarrow> pyval dict" where
  "asdict_plan p =
     [(''plan_id'', PStr (ep_plan_id p)), (''task_id'', PStr (ep_task_id p)),
      (''task_type'', PStr (ep_task_type p)), (''goal'', PStr (ep_goal p)),
      (''planner_kind'', PStr (ep_planner_kind p)), (''planner_name'', PStr (ep_planner_name p)),
      (''planner_version'', PStr (ep_planner_version p)), (''status'', PStr (ep_status p)),
      (''steps'', PList (map (\<lambda>s. PDict (asdict_step s)) (ep_steps p))),
      (''assumptions'', py_strs (ep_assumptions p)),
      (''missing_information'', py_strs (ep_missing_information p)),
      (''risk_notes'', py_strs (ep_risk_notes p)),
      (''global_constraints'', PDict (asdict_dict (ep_global_constraints p))),
      (''plan_metadata'', PDict (asdict_dict (ep_plan_metadata p))),
      (''parent_plan_id'', opt_str (ep_parent_plan_id p)), (''revision_no'', PInt (ep_revision_no p)),
      (''created_at'', opt_int (ep_created_at p))]"

record retrieved_plan_memory =
  mem_memory_id :: string
  mem_task_type :: string
  mem_similarity :: rat
  mem_plan_summary :: string
  mem_plan_json :: "pyval dict"
  mem_success_score :: "rat option"
  mem_source_task_id :: "string option"
  mem_metadata :: "pyval dict"

type_synonym plan_memory_store = "retrieved_plan_memory list"

definition save_successful_plan ::
  "string \<Rightarrow> string \<Rightarrow> string \<Rightarrow> string \<Rightarrow> execution_plan \<Rightarrow> rat option \<Rightarrow> pyval dict option \<Rightarrow>
     plan_memory_store \<Rightarrow> plan_memory_store \<times> string" where
  "save_successful_plan memory_id task_id task_type goal plan success_score metadata items =
     (items @ [\<lparr>mem_memory_id = memory_id, mem_task_type = task_type, mem_similarity = 1,
                mem_plan_summary = goal, mem_plan_json = asdict_plan plan,
                mem_success_score = success_score, mem_source_task_id = Some task_id,
                mem_metadata = (case metadata of None \<Rightarrow> [] | Some m \<Rightarrow> m)\<rparr>],
      memory_id)"

text \<open>\<open>set(text.lower().split())\<close>: the words between runs of white space, without repetition.\<close>

definition word_set :: "string \<Rightarrow> string list" where
  "word_set s = remdups (py_words [] (py_lower s))"

definition word_similarity :: "string list \<Rightarrow> string list \<Rightarrow> rat" where
  "word_similarity q w =
     (if q \<noteq> [] \<or> w \<noteq> []
      then of_nat (length (filter (\<lambda>x. x \<in> set w) q))
             / of_nat (max (length (remdups (q @ w))) 1)
      else 0)"

definition score_item :: "string list \<Rightarrow> retrieved_plan_memory \<Rightarrow> retrieved_plan_memory" where
  "score_item q m = m\<lparr>mem_similarity := word_similarity q (word_set (mem_plan_summary m))\<rparr>"

definition rank_key :: "retrieved_plan_memory \<Rightarrow> rat \<times> rat" where
  "rank_key m = (mem_similarity m, case mem_success_score m of None \<Rightarrow> 0 | Some s \<Rightarrow> s)"

text \<open>
  \<open>sorted(..., reverse=True)\<close> keeps the order of equal elements, as sorting by the negated key
  does.
\<close>

definition search_similar_plans :: "plan_memory_store \<Rightarrow> string \<Rightarrow> string \<Rightarrow> int \<Rightarrow> retrieved_plan_memory list" where
  "search_similar_plans items task_type query_text limit =
     (let scored = map (score_item (word_set query_text)) (filter (\<lambda>m. mem_task_type m = task_type) items)
      in py_slice_to limit (sort_key (\<lambda>m. (- fst (rank_key m), - snd (rank_key m))) scored))"

section \<open>Planners\<close>

text \<open>
  \<open>PlanStep(**kwargs)\<close>: an unknown or a missing keyword is a \<open>TypeError\<close>. The constructor
  does not check the classes of the values; \<open>None\<close> stands for a step whose fields do not
  have their annotated classes, which this model does not represent.
\<close>

definition step_field_names :: "string list" where
  "step_field_names =
     [''step_id'', ''title'', ''kind'', ''intent'', ''depends_on'', ''branch_group'', ''branch_condition'',
      ''inputs'', ''expected_outputs'', ''required_capabilities'', ''timeout_sec'', ''retryable'',
      ''optional'', ''risk_level'', ''on_failure'', ''on_success'', ''metadata'']"

fun get_str :: "pyval option \<Rightarrow> string option" where
  "get_str (Some (PStr s)) = Some s"
| "get_str _ = None"

fun get_opt_str :: "pyval option \<Rightarrow> string option option" where
  "get_opt_str (Some (PStr s)) = Some (Some s)"
| "get_opt_str (Some PNone) = Some None"
| "get_opt_str None = Some None"
| "get_opt_str _ = None"

fun get_strs :: "pyval option \<Rightarrow> string list option" where
  "get_strs None = Some []"
| "get_strs (Some (PList xs)) =
     (if list_all is_str xs then Some (map (\<lambda>x. case x of PStr s \<Rightarrow> s | _ \<Rightarrow> []) xs) else None)"
| "get_strs _ = None"

fun get_dict :: "pyval option \<Rightarrow> pyval dict option" where
  "get_dict None = Some []"
| "get_dict (Some (PDict d)) = Some d"
| "get_dict _ = None"

fun get_opt_int :: "pyval option \<Rightarrow> int option option" where
  "get_opt_int None = Some None"
| "get_opt_int (Some PNone) = Some None"
| "get_opt_int (Some (PInt i)) = Some (Some i)"
| "get_opt_int _ = None"

fun get_bool :: "bool \<Rightarrow> pyval option \<Rightarrow> bool option" where
  "get_bool b None = Some b"
| "get_bool b (Some (PBool c)) = Some c"
| "get_bool b _ = None"

definition get_str_default :: "string \<Rightarrow> pyval option \<Rightarrow> string option" where
  "get_str_default s v = (case v of None \<Rightarrow> Some s | Some _ \<Rightarrow> get_str v)"

definition typed_step :: "pyval dict \<Rightarrow> plan_step option" where
  "typed_step d =
     (case (get_str (dget d ''step_id''), get_str (dget d ''title''), get_str (dget d ''kind''),
            get_str (dget d ''intent'')) of
        (Some step_id, Some title, Some kind, Some intent) \<Rightarrow>
     (case (get_strs (dget d ''depends_on''), get_opt_str (dget d ''branch_group''),
            get_opt_str (dget d ''branch_condition''), get_dict (dget d ''inputs'')) of
        (Some deps, Some bgroup, Some bcond, Some inputs) \<Rightarrow>
     (case (get_strs (dget d ''expected_outputs''), get_strs (dget d ''required_capabilities''),
            get_opt_int (dget d ''timeout_sec''), get_bool False (dget d ''retryable''),
            get_bool False (dget d ''optional'')) of
        (Some outputs, Some caps, Some timeout, Some retry, Some opt) \<Rightarrow>
     (case (get_str_default RISK_LOW (dget d ''risk_level''),
            get_str_default FAIL_ABORT (dget d ''on_failure''),
            get_opt_str (dget d ''on_success''), get_dict (dget d ''metadata'')) of
        (Some risk, Some fail, Some succ, Some meta) \<Rightarrow>
          Some \<lparr>ps_step_id = step_id, ps_title = title, ps_kind = kind, ps_intent = intent,
             ps_depends_on = deps, ps_branch_group = bgroup, ps_branch_condition = bcond,
             ps_inputs = inputs, ps_expected_outputs = outputs, ps_required_capabilities = caps,
             ps_timeout_sec = timeout, ps_retryable = retry, ps_optional = opt,
             ps_risk_level = risk, ps_on_failure = fail, ps_on_success = succ, ps_metadata = meta\<rparr>
      | _ \<Rightarrow> None) | _ \<Rightarrow> None) | _ \<Rightarrow> None) | _ \<Rightarrow> None)"

definition plan_step_of_kwargs :: "pyval \<Rightarrow> plan_step option res" where
  "plan_step_of_kwargs v =
     (case v of
        PDict d \<Rightarrow>
          (if list_all (\<lambda>k. k \<in> set step_field_names) (dkeys d)
              \<and> list_all (dhas d) [''step_id'', ''title'', ''kind'', ''intent'']
           then Inr (typed_step d) else Inl TypeError)
      | _ \<Rightarrow> Inl TypeError)"

definition steps_of_json :: "pyval dict \<Rightarrow> plan_step list option res" where
  "steps_of_json d =
     res_bind (py_iter (dget_default d ''steps'' (PList []))) (\<lambda>vs.
     res_bind (res_map plan_step_of_kwargs vs)
       (\<lambda>ss. Inr (if list_all (\<lambda>s. s \<noteq> None) ss then Some (map the ss) else None)))"

definition fast_planner_plan :: "plan_memory_store \<Rightarrow> plan_context_base \<Rightarrow> execution_plan_draft option option res" where
  "fast_planner_plan store ctx =
     (case search_similar_plans store (pc_task_type ctx) (pc_goal ctx) 5 of
        [] \<Rightarrow> Inr (Some None)
      | memory # _ \<Rightarrow>
          res_bind (steps_of_json (mem_plan_json memory)) (\<lambda>r.
            Inr (case r of None \<Rightarrow> None | Some steps \<Rightarrow> Some (Some
              \<lparr>ed_task_id = pc_task_id ctx, ed_task_type = pc_task_type ctx, ed_goal = pc_goal ctx,
               ed_planner_name = ''fast_planner'', ed_planner_version = ''0.1.0'',
               ed_plan_summary = ''Recalled plan from '' @ mem_memory_id memory @ '': '' @ mem_plan_summary memory,
               ed_steps = steps, ed_assumptions = [], ed_missing_information = [], ed_risk_notes = [],
               ed_raw_llm_output = None,
               ed_metadata = [(''memory_id'', PStr (mem_memory_id memory)),
                              (''similarity'', PFloat (mem_similarity memory))]\<rparr>))))"

definition demo_steps :: "plan_step list" where
  "demo_steps =
     [(plan_step_with_defaults ''step_001'' ''Inspect Java package input''
         INSPECT_PACKAGE ''Read or run Java package inspection before deployment.'')
      \<lparr>ps_inputs := [(''language'', PStr ''java'')],
       ps_expected_outputs := [''PackageInspectionReport''],
       ps_required_capabilities := [''inspection.package.java''],
       ps_timeout_sec := Some 30,
       ps_risk_level := RISK_LOW,
       ps_on_failure := FAIL_ABORT\<rparr>,
      (plan_step_with_defaults ''step_002'' ''Build runtime image''
         BUILD_IMAGE ''Build a conservative Docker image for the provided Java jar.'')
      \<lparr>ps_depends_on := [''step_001''],
       ps_inputs := [(''strategy'', PStr ''conservative_java_jar_runtime'')],
       ps_expected_outputs := [''BuildImageResult'', ''image_id''],
       ps_required_capabilities := [''docker.build_image''],
       ps_timeout_sec := Some 300,
       ps_retryable := True,
       ps_risk_level := RISK_MEDIUM,
       ps_on_failure := FAIL_ABORT\<rparr>,
      (plan_step_with_defaults ''step_003'' ''Create runtime container''
         CREATE_RUNTIME ''Create and start a Docker container for the built image.'')
      \<lparr>ps_depends_on := [''step_002''],
       ps_inputs := [(''runtime'', PStr ''docker'')],
       ps_expected_outputs := [''container_id'', ''deployment_record''],
       ps_required_capabilities := [''runtime.create_container''],
       ps_timeout_sec := Some 120,
       ps_retryable := True,
       ps_risk_level := RISK_MEDIUM,
       ps_on_failure := FAIL_ABORT\<rparr>,
      (plan_step_with_defaults ''step_004'' ''Inspect runtime environment''
         INSPECT_ENVIRONMENT ''Run read-only probes inside the container to verify runtime basics.'')
      \<lparr>ps_depends_on := [''step_003''],
       ps_inputs := [(''probes'', PList [PStr ''java -version'', PStr ''pwd'', PStr ''ls''])],
       ps_expected_outputs := [''EnvInspectionReport''],
       ps_required_capabilities := [''inspection.env.docker''],
       ps_timeout_sec := Some 60,
       ps_retryable := True,
       ps_risk_level := RISK_LOW,
       ps_on_failure := FAIL_REQUEST_REPLAN\<rparr>,
      (plan_step_with_defaults ''step_005'' ''Collect deployment artifacts''
         COLLECT_ARTIFACT ''Collect plan, build, probe and deployment metadata references.'')
      \<lparr>ps_depends_on := [''step_004''],
       ps_expected_outputs := [''artifact_refs''],
       ps_required_capabilities := [''artifact.collect''],
       ps_timeout_sec := Some 60,
       ps_risk_level := RISK_LOW,
       ps_on_failure := FAIL_CONTINUE\<rparr>]"

definition demo_java_plan :: "string \<Rightarrow> int \<Rightarrow> plan_context_base \<Rightarrow> execution_plan" where
  "demo_java_plan plan_id now ctx =
     \<lparr>ep_plan_id = plan_id, ep_task_id = pc_task_id ctx, ep_task_type = pc_task_type ctx,
      ep_goal = pc_goal ctx, ep_planner_kind = PLANNER_DEMO, ep_planner_name = ''demo_java_planner'',
      ep_planner_version = ''0.1.0'', ep_status = PLAN_VALIDATED, ep_steps = demo_steps,
      ep_assumptions = [''The input jar is already compiled.'', ''The MVP does not run Maven source builds.''],
      ep_missing_information = [],
      ep_risk_notes = [''Deployment uses a conservative runtime image and may need later refinement.''],
      ep_global_constraints = pc_constraints ctx, ep_plan_metadata = [], ep_parent_plan_id = None,
      ep_revision_no = 0, ep_created_at = Some now\<rparr>"

definition rule_fallback_plan :: "string \<Rightarrow> int \<Rightarrow> plan_context_base \<Rightarrow> execution_plan" where
  "rule_fallback_plan plan_id now ctx =
     (demo_java_plan plan_id now ctx)
     \<lparr>ep_planner_kind := PLANNER_RULE_FALLBACK,
      ep_planner_name := ''rule_fallback_planner'',
      ep_planner_version := ''0.1.0''\<rparr>"

section \<open>Round trip of a remembered plan\<close>

lemma get_opt_str_inverse [simp]: "get_opt_str (Some (opt_str x)) = Some x"
  by (cases x) simp_all

lemma get_opt_int_inverse [simp]: "get_opt_int (Some (opt_int i)) = Some i"
  by (cases i) simp_all

lemma get_strs_inverse [simp]: "get_strs (Some (py_strs xs)) = Some xs"
  by (simp add: py_strs_def list_all_iff o_def)

definition dumped_step :: "plan_step \<Rightarrow> plan_step" where
  "dumped_step s = s\<lparr>ps_inputs := asdict_dict (ps_inputs s), ps_metadata := asdict_dict (ps_metadata s)\<rparr>"

lemma step_roundtrip: "plan_step_of_kwargs (PDict (asdict_step s)) = Inr (Some (dumped_step s))"
  by (simp add: plan_step_of_kwargs_def asdict_step_def step_field_names_def typed_step_def
      get_str_default_def dumped_step_def)

lemma steps_roundtrip: "steps_of_json (asdict_plan p) = Inr (Some (map dumped_step (ep_steps p)))"
proof -
  have "res_map plan_step_of_kwargs (map (\<lambda>s. PDict (asdict_step s)) ss) = Inr (map (\<lambda>s. Some (dumped_step s)) ss)" for ss
    by (induction ss) (simp_all add: step_roundtrip)
  then show ?thesis
    by (simp add: steps_of_json_def asdict_plan_def list_all_iff o_def)
qed

section \<open>Search\<close>

lemma word_similarity_bounds: "distinct q \<Longrightarrow> 0 \<le> word_similarity q w \<and> word_similarity q w \<le> 1"
proof -
  assume d: "distinct q"
  have "length (filter (\<lambda>x. x \<in> set w) q) \<le> length q" by simp
  also have "\<dots> = card (set q)" using d by (simp add: distinct_card)
  also have "\<dots> \<le> card (set (q @ w))" by (intro card_mono) auto
  also have "\<dots> = length (remdups (q @ w))" by (simp add: length_remdups_card_conv)
  finally have "length (filter (\<lambda>x. x \<in> set w) q) \<le> max (length (remdups (q @ w))) 1" by simp
  then have "(of_nat (length (filter (\<lambda>x. x \<in> set w) q)) :: rat) \<le> of_nat (max (length (remdups (q @ w))) 1)"
    by (simp only: of_nat_le_iff)
  then show ?thesis by (simp add: word_similarity_def field_simps del: of_nat_max)
qed

lemma score_item_simps [simp]:
  "mem_task_type (score_item q m) = mem_task_type m"
  "mem_plan_json (score_item q m) = mem_plan_json m"
  "mem_memory_id (score_item q m) = mem_memory_id m"
  by (simp_all add: score_item_def)

definition scored_items :: "plan_memory_store \<Rightarrow> string \<Rightarrow> string \<Rightarrow> retrieved_plan_memory list" where
  "scored_items items t q = map (score_item (word_set q)) (filter (\<lambda>m. mem_task_type m = t) items)"

definition ranked :: "plan_memory_store \<Rightarrow> string \<Rightarrow> string \<Rightarrow> retrieved_plan_memory list" where
  "ranked items t q = sort_key (\<lambda>m. (- fst (rank_key m), - snd (rank_key m))) (scored_items items t q)"

lemma search_ranked: "0 \<le> limit \<Longrightarrow> search_similar_plans items t q limit = take (nat limit) (ranked items t q)"
  by (simp add: search_similar_plans_def ranked_def scored_items_def Let_def py_slice_to_def)

lemma ranked_sorted: "sorted_wrt (\<lambda>a b. rank_key b \<le> rank_key a) (ranked items t q)"
proof -
  have "sorted (map (\<lambda>m. (- fst (rank_key m), - snd (rank_key m))) (ranked items t q))"
    by (simp add: ranked_def)
  then show ?thesis
    by (simp add: sorted_wrt_map) (erule sorted_wrt_mono_rel [rotated], auto simp: less_eq_prod_def)
qed

lemma sorted_wrt_take_drop:
  "sorted_wrt P xs \<Longrightarrow> a \<in> set (take n xs) \<Longrightarrow> b \<in> set (drop n xs) \<Longrightarrow> P a b"
  by (metis append_take_drop_id sorted_wrt_append)

section \<open>Properties\<close>

text \<open>
  A search of the plan memory with a non-negative limit returns at most that many memories, all
  of the asked task type and with a similarity between 0 and 1, best first by similarity and then
  success score; and every matching memory it leaves out ranks no higher than those it returns.
\<close>

theorem search_returns_best:
  assumes "0 \<le> limit"
  shows "let found = search_similar_plans items t q limit in
     length found \<le> nat limit
     \<and> (\<forall>m \<in> set found. mem_task_type m = t \<and> 0 \<le> mem_similarity m \<and> mem_similarity m \<le> 1)
     \<and> sorted_wrt (\<lambda>a b. rank_key b \<le> rank_key a) found
     \<and> (\<forall>m \<in> set items. mem_task_type m = t \<longrightarrow>
          score_item (word_set q) m \<in> set found
          \<or> (length found = nat limit \<and> (\<forall>f \<in> set found. rank_key (score_item (word_set q) m) \<le> rank_key f)))"
proof -
  let ?r = "ranked items t q" and ?n = "nat limit"
  have s: "search_similar_plans items t q limit = take ?n ?r" using assms by (rule search_ranked)
  have mem: "mem_task_type m = t \<and> 0 \<le> mem_similarity m \<and> mem_similarity m \<le> 1" if "m \<in> set ?r" for m
    using that word_similarity_bounds [of "word_set q"]
    by (auto simp: ranked_def scored_items_def score_item_def word_set_def)
  have "score_item (word_set q) m \<in> set (take ?n ?r)
      \<or> (length (take ?n ?r) = ?n \<and> (\<forall>f \<in> set (take ?n ?r). rank_key (score_item (word_set q) m) \<le> rank_key f))"
    if "m \<in> set items" "mem_task_type m = t" for m
  proof (cases "score_item (word_set q) m \<in> set (take ?n ?r)")
    case False
    have "score_item (word_set q) m \<in> set ?r" using that by (simp add: ranked_def scored_items_def)
    with False have d: "score_item (word_set q) m \<in> set (drop ?n ?r)"
      by (metis append_take_drop_id Un_iff set_append)
    then have "?n \<le> length ?r" by (cases "?n \<le> length ?r") simp_all
    moreover have "\<forall>f \<in> set (take ?n ?r). rank_key (score_item (word_set q) m) \<le> rank_key f"
      using sorted_wrt_take_drop [OF ranked_sorted _ d] by blast
    ultimately show ?thesis by simp
  qed simp
  then show ?thesis
    unfolding s Let_def using mem ranked_sorted
    by (auto dest: in_set_takeD intro: sorted_wrt_take)
qed

text \<open>A store in which every memory holds a plan, as \<open>save_successful_plan\<close> makes it.\<close>

definition store_ok :: "plan_memory_store \<Rightarrow> bool" where
  "store_ok store \<longleftrightarrow> (\<forall>m \<in> set store. \<exists>p. mem_plan_json m = asdict_plan p)"

lemma save_store_ok:
  "store_ok store \<Longrightarrow> store_ok (fst (save_successful_plan mid tid t g p score meta store))"
  by (auto simp: store_ok_def save_successful_plan_def)

text \<open>
  C13: over a store filled by saving plans, the fast planner returns no draft exactly when no plan of
  the task type was saved; otherwise its draft carries the steps of a saved plan of that type which
  no other ranks above, unchanged by the trip through \<open>asdict\<close> and \<open>PlanStep(**step)\<close>
  except that dataclass values inside inputs and metadata have become dictionaries.
\<close>

theorem fast_planner_recalls_best:
  assumes "store_ok store"
  shows "(fast_planner_plan store ctx = Inr (Some None) \<and> (\<forall>m \<in> set store. mem_task_type m \<noteq> pc_task_type ctx))
     \<or> (\<exists>m \<in> set store. \<exists>p draft.
          fast_planner_plan store ctx = Inr (Some (Some draft))
          \<and> mem_task_type m = pc_task_type ctx \<and> mem_plan_json m = asdict_plan p
          \<and> ed_steps draft = map dumped_step (ep_steps p) \<and> ed_goal draft = pc_goal ctx
          \<and> (\<forall>m' \<in> set store. mem_task_type m' = pc_task_type ctx \<longrightarrow>
               rank_key (score_item (word_set (pc_goal ctx)) m') \<le> rank_key (score_item (word_set (pc_goal ctx)) m)))"
proof (cases "ranked store (pc_task_type ctx) (pc_goal ctx)")
  case Nil
  have "set (ranked store (pc_task_type ctx) (pc_goal ctx)) = set (scored_items store (pc_task_type ctx) (pc_goal ctx))"
    by (simp add: ranked_def)
  with Nil have "\<forall>m \<in> set store. mem_task_type m \<noteq> pc_task_type ctx"
    by (auto simp: scored_items_def filter_empty_conv)
  with Nil show ?thesis by (simp add: fast_planner_plan_def search_ranked)
next
  case (Cons b rest)
  have mem: "x \<in> set (b # rest) \<longleftrightarrow> x \<in> score_item (word_set (pc_goal ctx)) ` {m \<in> set store. mem_task_type m = pc_task_type ctx}" for x
    unfolding Cons [symmetric] by (simp add: ranked_def scored_items_def)
  obtain m where m: "m \<in> set store" "mem_task_type m = pc_task_type ctx" "b = score_item (word_set (pc_goal ctx)) m"
    using mem [of b] by auto
  obtain p where p: "mem_plan_json m = asdict_plan p" using assms m(1) by (auto simp: store_ok_def)
  have top: "rank_key x \<le> rank_key b" if "x \<in> set (b # rest)" for x
    using ranked_sorted [of store "pc_task_type ctx" "pc_goal ctx"] that by (auto simp: Cons)
  have search: "search_similar_plans store (pc_task_type ctx) (pc_goal ctx) 5 = b # take 4 rest"
    by (simp add: search_ranked Cons)
  have "\<forall>m' \<in> set store. mem_task_type m' = pc_task_type ctx \<longrightarrow>
      rank_key (score_item (word_set (pc_goal ctx)) m') \<le> rank_key (score_item (word_set (pc_goal ctx)) m)"
    using top mem m(3) by (metis (mono_tags, lifting) image_eqI mem_Collect_eq)
  moreover have "\<exists>draft. fast_planner_plan store ctx = Inr (Some (Some draft))
      \<and> ed_steps draft = map dumped_step (ep_steps p) \<and> ed_goal draft = pc_goal ctx"
    by (simp add: fast_planner_plan_def search m(3) p steps_roundtrip)
  ultimately show ?thesis using m p by blast
qed

definition sample_context :: plan_context_base where
  "sample_context =
     \<lparr>pc_task_id = ''t1'', pc_task_type = ''java_deploy'', pc_goal = ''deploy the jar'',
      pc_package_report = PNone, pc_env_report = PNone, pc_text_parse_result = PNone,
      pc_runtime_target = None, pc_constraints = [], pc_available_capabilities = [],
      pc_prior_artifacts = [], pc_metadata = []\<rparr>"

definition sample_store :: plan_memory_store where
  "sample_store = fst (save_successful_plan ''memory_1'' ''t0'' ''java_deploy'' ''deploy a jar''
     (demo_java_plan ''plan_1'' 0 sample_context) (Some 1) None [])"

theorem search_returns_best_witness:
  "length (search_similar_plans sample_store ''java_deploy'' ''deploy the jar'' 5) \<le> 5"
  using search_returns_best [of 5 sample_store "''java_deploy''" "''deploy the jar''"]
  by (simp add: Let_def)

theorem fast_planner_recalls_best_witness:
  "\<exists>draft. fast_planner_plan sample_store sample_context = Inr (Some (Some draft))
     \<and> ed_steps draft = map dumped_step demo_steps"
proof -
  have ok: "store_ok sample_store" by (auto simp: store_ok_def sample_store_def save_successful_plan_def)
  have s: "m \<in> set sample_store \<Longrightarrow>
      mem_task_type m = ''java_deploy'' \<and> mem_plan_json m = asdict_plan (demo_java_plan ''plan_1'' 0 sample_context)" for m
    by (simp add: sample_store_def save_successful_plan_def)
  have ne: "\<exists>m \<in> set sample_store. mem_task_type m = pc_task_type sample_context"
    by (simp add: sample_store_def save_successful_plan_def sample_context_def)
  from fast_planner_recalls_best [OF ok, of sample_context] ne
  obtain m p draft where "m \<in> set sample_store"
      "fast_planner_plan sample_store sample_context = Inr (Some (Some draft))"
      "mem_plan_json m = asdict_plan p" "ed_steps draft = map dumped_step (ep_steps p)"
    by blast
  moreover have "asdict_plan p = asdict_plan q \<Longrightarrow> map dumped_step (ep_steps p) = map dumped_step (ep_steps q)" for q
    using steps_roundtrip [of p] steps_roundtrip [of q] by simp
  ultimately show ?thesis
    using s [of m] by (metis demo_java_plan_def execution_plan.select_convs(9))
qed

end
