(* ===== verification/StateExc.thy ===== *)
theory StateExc
  imports PyValue
begin

text \<open>
  Computations that read and change a state and may raise: what the calls of a service object are.
  An exception keeps the changes made before it. \<open>run_clean\<close> collects the equations that
  evaluate a sequence of such calls.
\<close>

named_theorems run_clean \<open>equations of stateful computations\<close>

type_synonym ('s, 'a) sx = "'s \<Rightarrow> 'a res \<times> 's"

definition sx_return :: "'a \<Rightarrow> ('s, 'a) sx" where
  "sx_return a = (\<lambda>s. (Inr a, s))"

definition sx_raise :: "exc \<Rightarrow> ('s, 'a) sx" where
  "sx_raise e = (\<lambda>s. (Inl e, s))"

definition sx_bind :: "('s, 'a) sx \<Rightarrow> ('a \<Rightarrow> ('s, 'b) sx) \<Rightarrow> ('s, 'b) sx" where
  "sx_bind m f = (\<lambda>s. case m s of (Inl e, s') \<Rightarrow> (Inl e, s') | (Inr a, s') \<Rightarrow> f a s')"

definition sx_get :: "('s, 's) sx" where
  "sx_get = (\<lambda>s. (Inr s, s))"

definition sx_modify :: "('s \<Rightarrow> 's) \<Rightarrow> ('s, unit) sx" where
  "sx_modify f = (\<lambda>s. (Inr (), f s))"

text \<open>\<open>try: m except E as exc: h(exc)\<close>, for the exceptions \<open>p\<close> selects.\<close>

definition sx_try :: "('s, 'a) sx \<Rightarrow> (exc \<Rightarrow> bool) \<Rightarrow> (exc \<Rightarrow> ('s, 'a) sx) \<Rightarrow> ('s, 'a) sx" where
  "sx_try m p h = (\<lambda>s. case m s of (Inl e, s') \<Rightarrow> if p e then h e s' else (Inl e, s') | r \<Rightarrow> r)"

text \<open>\<open>try: m finally: f\<close>\<close>

definition sx_finally :: "('s, 'a) sx \<Rightarrow> ('s, unit) sx \<Rightarrow> ('s, 'a) sx" where
  "sx_finally m f =
     sx_bind (sx_try m (\<lambda>_. True) (\<lambda>e. sx_bind f (\<lambda>_. sx_raise e))) (\<lambda>a. sx_bind f (\<lambda>_. sx_return a))"

definition sx_lift :: "'a res \<Rightarrow> ('s, 'a) sx" where
  "sx_lift r = (\<lambda>s. (r, s))"

fun sx_map :: "('a \<Rightarrow> ('s, 'b) sx) \<Rightarrow> 'a list \<Rightarrow> ('s, 'b list) sx" where
  "sx_map f [] = sx_return []"
| "sx_map f (x # xs) = sx_bind (f x) (\<lambda>y. sx_bind (sx_map f xs) (\<lambda>ys. sx_return (y # ys)))"

text \<open>Run a computation on a part of the state.\<close>

definition sx_zoom :: "('s \<Rightarrow> 't) \<Rightarrow> ('t \<Rightarrow> 's \<Rightarrow> 's) \<Rightarrow> ('t, 'a) sx \<Rightarrow> ('s, 'a) sx" where
  "sx_zoom rd wr m = (\<lambda>s. case m (rd s) of (r, t) \<Rightarrow> (r, wr t s))"

lemma sx_simps [run_clean]:
  "sx_return a s = (Inr a, s)"
  "sx_raise e s = (Inl e, s)"
  "sx_get s = (Inr s, s)"
  "sx_modify g s = (Inr (), g s)"
  "sx_lift r s = (r, s)"
  by (simp_all add: sx_return_def sx_raise_def sx_get_def sx_modify_def sx_lift_def)

lemma sx_bind_Inr [run_clean]: "m s = (Inr a, s') \<Longrightarrow> sx_bind m f s = f a s'"
  by (simp add: sx_bind_def)

lemma sx_bind_Inl [run_clean]: "m s = (Inl e, s') \<Longrightarrow> sx_bind m f s = (Inl e, s')"
  by (simp add: sx_bind_def)

lemma sx_bind_step [run_clean]:
  "sx_bind (sx_return a) f s = f a s"
  "sx_bind (sx_raise e) g s = (Inl e, s)"
  "sx_bind sx_get h s = h s s"
  "sx_bind (sx_modify u) k s = k () (u s)"
  by (simp_all add: sx_bind_def sx_simps)

lemma sx_bind_result:
  "sx_bind m f s = (Inr b, t) \<Longrightarrow> \<exists>a s'. m s = (Inr a, s') \<and> f a s' = (Inr b, t)"
  by (auto simp: sx_bind_def split: prod.splits sum.splits)

lemma sx_bind_cases:
  "sx_bind m f s = r \<Longrightarrow>
     (\<exists>e s'. m s = (Inl e, s') \<and> r = (Inl e, s')) \<or> (\<exists>a s'. m s = (Inr a, s') \<and> f a s' = r)"
  by (auto simp: sx_bind_def split: prod.splits sum.splits)

lemma sx_try_Inr [run_clean]: "m s = (Inr a, s') \<Longrightarrow> sx_try m p h s = (Inr a, s')"
  by (simp add: sx_try_def)

lemma sx_try_Inl [run_clean]: "m s = (Inl e, s') \<Longrightarrow> sx_try m p h s = (if p e then h e s' else (Inl e, s'))"
  by (simp add: sx_try_def)

lemma sx_finally_runs:
  "m w = (r, w1) \<Longrightarrow> f w1 = (Inr (), w2) \<Longrightarrow> sx_finally m f w = (r, w2)"
  by (cases r) (simp_all add: sx_finally_def sx_bind_def sx_try_def sx_simps)

text \<open>A relation between the states before and after every call that a sequence keeps.\<close>

definition sx_keeps :: "('s \<Rightarrow> bool) \<Rightarrow> ('s, 'a) sx \<Rightarrow> bool" where
  "sx_keeps I m \<longleftrightarrow> (\<forall>s. I s \<longrightarrow> I (snd (m s)))"

lemma sx_keeps_bind: "sx_keeps I m \<Longrightarrow> (\<And>a. sx_keeps I (f a)) \<Longrightarrow> sx_keeps I (sx_bind m f)"
  by (fastforce simp: sx_keeps_def sx_bind_def split: prod.splits sum.splits)

lemma sx_keeps_basic [intro]:
  "sx_keeps I (sx_return a)" "sx_keeps I (sx_raise e)" "sx_keeps I sx_get" "sx_keeps I (sx_lift r)"
  by (simp_all add: sx_keeps_def sx_simps)

text \<open>A computation that never raises.\<close>

definition sx_total :: "('s, 'a) sx \<Rightarrow> bool" where
  "sx_total m \<longleftrightarrow> (\<forall>s. \<exists>a s'. m s = (Inr a, s'))"

lemma sx_totalD: "sx_total m \<Longrightarrow> \<exists>a s'. m s = (Inr a, s')"
  by (simp add: sx_total_def)

lemma sx_total_bind: "sx_total m \<Longrightarrow> (\<And>a. sx_total (f a)) \<Longrightarrow> sx_total (sx_bind m f)"
  unfolding sx_total_def sx_bind_def by (metis (no_types, lifting) old.prod.case sum.case(2))

lemma sx_total_basic:
  "sx_total (sx_return a)" "sx_total sx_get" "sx_total (sx_modify g)"
  by (simp_all add: sx_total_def sx_simps)

lemma sx_total_lift: "sx_total (sx_lift r) \<longleftrightarrow> (\<exists>a. r = Inr a)"
  by (auto simp: sx_total_def sx_simps)

lemma sx_total_try: "(\<And>e. sx_total (h e)) \<Longrightarrow> sx_total (sx_try m (\<lambda>_. True) h)"
  by (auto simp: sx_total_def sx_try_def split: prod.splits sum.splits)

lemma sx_total_try_total: "sx_total m \<Longrightarrow> sx_total (sx_try m p h)"
  unfolding sx_total_def sx_try_def by (metis (no_types, lifting) old.prod.case sum.case(2))

lemma sx_total_option: "(\<And>a. sx_total (f a)) \<Longrightarrow> sx_total g \<Longrightarrow> sx_total (case x of None \<Rightarrow> g | Some a \<Rightarrow> f a)"
  by (cases x) simp_all

lemma sx_total_if: "sx_total a \<Longrightarrow> sx_total b \<Longrightarrow> sx_total (if P then a else b)"
  by simp

section \<open>Contracts of computations\<close>

text \<open>What holds after a computation that starts where \<open>P\<close> holds: \<open>Q\<close> when it returns, \<open>E\<close> when it raises.\<close>

definition sx_valid :: "('s \<Rightarrow> bool) \<Rightarrow> ('s, 'a) sx \<Rightarrow> ('a \<Rightarrow> 's \<Rightarrow> bool) \<Rightarrow> (exc \<Rightarrow> 's \<Rightarrow> bool) \<Rightarrow> bool" where
  "sx_valid P m Q E \<longleftrightarrow> (\<forall>s. P s \<longrightarrow> (case m s of (Inl e, t) \<Rightarrow> E e t | (Inr a, t) \<Rightarrow> Q a t))"

lemma sx_valid_bind:
  "sx_valid P m R E \<Longrightarrow> (\<And>a. sx_valid (R a) (f a) Q E) \<Longrightarrow> sx_valid P (sx_bind m f) Q E"
  by (fastforce simp: sx_valid_def sx_bind_def split: prod.splits sum.splits)

lemma sx_valid_seq:
  "sx_valid P m (\<lambda>_. R) E \<Longrightarrow> (\<And>a. sx_valid R (f a) Q E) \<Longrightarrow> sx_valid P (sx_bind m f) Q E"
  by (rule sx_valid_bind)

lemma sx_valid_weaken:
  "sx_valid P' m Q' E' \<Longrightarrow> (\<And>s. P s \<Longrightarrow> P' s) \<Longrightarrow> (\<And>a s. Q' a s \<Longrightarrow> Q a s) \<Longrightarrow> (\<And>e s. E' e s \<Longrightarrow> E e s)
     \<Longrightarrow> sx_valid P m Q E"
  by (fastforce simp: sx_valid_def split: prod.splits sum.splits)

lemma sx_valid_try:
  "sx_valid P m Q F \<Longrightarrow> (\<And>e. p e \<Longrightarrow> sx_valid (F e) (h e) Q E) \<Longrightarrow> (\<And>e s. \<not> p e \<Longrightarrow> F e s \<Longrightarrow> E e s)
     \<Longrightarrow> sx_valid P (sx_try m p h) Q E"
  by (fastforce simp: sx_valid_def sx_try_def split: prod.splits sum.splits)

lemma sx_valid_basic:
  "(\<And>s. P s \<Longrightarrow> Q a s) \<Longrightarrow> sx_valid P (sx_return a) Q E"
  "(\<And>s. P s \<Longrightarrow> F e s) \<Longrightarrow> sx_valid P (sx_raise e) Q' F"
  "(\<And>s. P s \<Longrightarrow> R s s) \<Longrightarrow> sx_valid P sx_get R E'"
  "(\<And>s. P s \<Longrightarrow> U () (g s)) \<Longrightarrow> sx_valid P (sx_modify g) U E''"
  by (simp_all add: sx_valid_def sx_simps)

lemma sx_valid_lift:
  "(\<And>s a. r = Inr a \<Longrightarrow> P s \<Longrightarrow> Q a s) \<Longrightarrow> (\<And>s e. r = Inl e \<Longrightarrow> P s \<Longrightarrow> E e s) \<Longrightarrow> sx_valid P (sx_lift r) Q E"
  by (cases r) (simp_all add: sx_valid_def sx_simps)

lemma sx_valid_if:
  "(b \<Longrightarrow> sx_valid P m Q E) \<Longrightarrow> (\<not> b \<Longrightarrow> sx_valid P m' Q E) \<Longrightarrow> sx_valid P (if b then m else m') Q E"
  by simp

lemma sx_valid_option:
  "(x = None \<Longrightarrow> sx_valid P m Q E) \<Longrightarrow> (\<And>a. x = Some a \<Longrightarrow> sx_valid P (f a) Q E)
     \<Longrightarrow> sx_valid P (case x of None \<Rightarrow> m | Some a \<Rightarrow> f a) Q E"
  by (cases x) simp_all

lemma sx_valid_pure: "(A \<Longrightarrow> sx_valid P m Q E) \<Longrightarrow> sx_valid (\<lambda>s. P s \<and> A) m Q E"
  by (auto simp: sx_valid_def)

lemma sx_validD:
  "sx_valid P m Q E \<Longrightarrow> P s \<Longrightarrow> m s = (Inr a, t) \<Longrightarrow> Q a t"
  "sx_valid P m Q E \<Longrightarrow> P s \<Longrightarrow> m s = (Inl e, t) \<Longrightarrow> E e t"
  by (auto simp: sx_valid_def)

lemma sx_valid_conj:
  "sx_valid P m Q E \<Longrightarrow> sx_valid P' m Q' (\<lambda>_ _. True) \<Longrightarrow>
     sx_valid (\<lambda>s. P s \<and> P' s) m (\<lambda>a s. Q a s \<and> Q' a s) E"
  by (fastforce simp: sx_valid_def split: prod.splits sum.splits)

lemma sx_valid_returns:
  "sx_valid P m Q (\<lambda>_ _. False) \<Longrightarrow> P s \<Longrightarrow> \<exists>a t. m s = (Inr a, t) \<and> Q a t"
  unfolding sx_valid_def by (cases "m s"; cases "fst (m s)") fastforce+

lemma sx_valid_value:
  "sx_valid P m (\<lambda>x u. R u \<and> x = a) E \<Longrightarrow> sx_valid R (f a) Q E \<Longrightarrow> sx_valid P (sx_bind m f) Q E"
  by (fastforce simp: sx_valid_def sx_bind_def split: prod.splits sum.splits)

end
