(* ===== verification/Execution.thy ===== *)
theory Execution
  imports Plan StateExc
begin

text \<open>
  The serial interpreter of plans: \<open>execution/execution_engine.py\<close> with the models of
  \<open>execution_models.py\<close>, \<open>execution_enums.py\<close>, \<open>execution_context.py\<close>,
  \<open>execution_errors.py\<close>, \<open>policies/failure_policy.py\<close> and \<open>step_executor_registry.py\<close>.
  The service objects a context carries (clock, identifiers, artifact manager, JSON printer) are
  the operations of \<open>engine_services\<close> on a state \<open>'w\<close> the context holds.
\<close>

section \<open>Models\<close>

abbreviation (input) "RUNNING \<equiv> ''running''"
abbreviation (input) "SUCCEEDED \<equiv> ''succeeded''"
abbreviation (input) "EXEC_FAILED \<equiv> ''failed''"
abbreviation (input) "SKIPPED \<equiv> ''skipped''"
abbreviation (input) "WAITING_REPLAN \<equiv> ''waiting_replan''"

record execution_step_run =
  sr_step_run_id :: string
  sr_run_id :: string
  sr_step_id :: string
  sr_step_kind :: string
  sr_status :: string
  sr_started_at :: "int option"
  sr_finished_at :: "int option"
  sr_duration_ms :: "int option"
  sr_inputs_snapshot :: "pyval dict"
  sr_outputs :: "pyval dict"
  sr_artifact_refs :: "string list"
  sr_stdout_ref :: "string option"
  sr_stderr_ref :: "string option"
  sr_log_ref :: "string option"
  sr_error_type :: "string option"
  sr_error_message :: "string option"
  sr_metadata :: "pyval dict"

record execution_run =
  xr_run_id :: string
  xr_task_id :: string
  xr_plan_id :: string
  xr_status :: string
  xr_started_at :: "int option"
  xr_finished_at :: "int option"
  xr_step_runs :: "execution_step_run list"
  xr_result_summary :: "string option"
  xr_metadata :: "pyval dict"

record step_execution_result =
  er_status :: string
  er_outputs :: "pyval dict"
  er_artifact_refs :: "string list"
  er_stdout :: "string option"
  er_stderr :: "string option"
  er_log_text :: "string option"
  er_error_type :: "string option"
  er_error_message :: "string option"
  er_metadata :: "pyval dict"

record replan_request =
  rp_task_id :: string
  rp_parent_plan_id :: string
  rp_reason :: string
  rp_failed_step_id :: "string option"
  rp_execution_observations :: "string list"
  rp_latest_env_report_ref :: "string option"
  rp_latest_artifact_refs :: "string list"
  rp_metadata :: "pyval dict"
  rp_created_at :: "int option"

record execution_run_result =
  rr_run :: execution_run
  rr_status :: string
  rr_step_results :: "step_execution_result dict"
  rr_replan_request :: "replan_request option"
  rr_artifact_refs :: "string list"
  rr_metadata :: "pyval dict"

record 'w execution_context =
  cx_task_id :: string
  cx_plan_id :: string
  cx_run_id :: string
  cx_artifact_manager :: bool
  cx_runtime_manager :: bool
  cx_docker_driver :: bool
  cx_command_controller :: bool
  cx_package_inspector :: bool
  cx_env_inspector :: bool
  cx_variables :: "pyval dict"
  cx_step_outputs :: "pyval dict dict"
  cx_artifact_refs :: "string dict"
  cx_runtime_refs :: "pyval dict"
  cx_metadata :: "pyval dict"
  cx_world :: 'w

definition step_result :: "string \<Rightarrow> step_execution_result" where
  "step_result status =
     \<lparr>er_status = status, er_outputs = [], er_artifact_refs = [], er_stdout = None, er_stderr = None,
      er_log_text = None, er_error_type = None, er_error_message = None, er_metadata = []\<rparr>"

section \<open>Services\<close>

text \<open>
  The two forms of \<open>persist_artifact_bytes\<close> the engine calls, and what it reads of the record
  returned: \<open>artifact_id\<close> and \<open>storage_path\<close> where present, else \<open>str(record)\<close>. The
  bytes are the UTF-8 encoding of the text, which stands for them.
\<close>

datatype persist_call =
    PersistKeywords (pc_task: string) (pc_kind: string) (pc_name: string) (pc_content: string)
      (pc_subdir: string) (pc_mime: string) (pc_action: string)
  | PersistPositional (pc_task: string) (pc_kind: string) (pc_name: string) (pc_content: string)
      (pc_subdir: string)

record stored_record =
  st_artifact_id :: "string option"
  st_storage_path :: "string option"
  st_text :: string

record 'w engine_services =
  sv_clock :: "('w, int) sx"
  sv_uuid :: "('w, string) sx"
  sv_persist :: "persist_call \<Rightarrow> ('w, stored_record) sx"
  sv_json :: "pyval \<Rightarrow> string res"

type_synonym ('w, 'a) cx = "('w execution_context, 'a) sx"

definition on_world :: "('w, 'a) sx \<Rightarrow> ('w, 'a) cx" where
  "on_world = sx_zoom cx_world (\<lambda>w c. c\<lparr>cx_world := w\<rparr>)"

section \<open>Registry\<close>

record 'w step_executor =
  ex_step_kind :: string
  ex_execute :: "plan_step \<Rightarrow> ('w, step_execution_result) cx"

type_synonym 'w step_executor_registry = "'w step_executor dict"

definition register_executor :: "'w step_executor \<Rightarrow> 'w step_executor_registry \<Rightarrow> 'w step_executor_registry res" where
  "register_executor ex reg = Inr (dput (ex_step_kind ex) ex reg)"

definition get_executor :: "'w step_executor_registry \<Rightarrow> string \<Rightarrow> 'w step_executor res" where
  "get_executor reg kind =
     (case dget reg kind of
        Some ex \<Rightarrow> Inr ex
      | None \<Rightarrow> Inl (Exc ''ExecutionUnsupportedStepKindError'' (''unsupported execution step kind: '' @ kind)))"

definition supported_step_kinds :: "'w step_executor_registry \<Rightarrow> string list" where
  "supported_step_kinds reg = dkeys reg"

section \<open>Failure policy\<close>

record failure_policy_decision =
  fp_action :: string
  fp_should_stop :: bool
  fp_should_request_replan :: bool

definition decide_failure_action :: "string \<Rightarrow> failure_policy_decision" where
  "decide_failure_action on_failure =
     (if on_failure = FAIL_CONTINUE
      then \<lparr>fp_action = on_failure, fp_should_stop = False, fp_should_request_replan = False\<rparr>
      else if on_failure = FAIL_REQUEST_REPLAN
      then \<lparr>fp_action = on_failure, fp_should_stop = True, fp_should_request_replan = True\<rparr>
      else \<lparr>fp_action = on_failure, fp_should_stop = True, fp_should_request_replan = False\<rparr>)"

section \<open>Engine\<close>

definition truthy_or :: "string option \<Rightarrow> string \<Rightarrow> string" where
  "truthy_or x y = (case x of None \<Rightarrow> y | Some s \<Rightarrow> if s = [] then y else s)"

definition str_or :: "string \<Rightarrow> string \<Rightarrow> string" where
  "str_or s y = (if s = [] then y else s)"

definition record_ref :: "stored_record \<Rightarrow> string" where
  "record_ref r = truthy_or (st_artifact_id r) (truthy_or (st_storage_path r) (st_text r))"

definition persist_text_engine ::
  "'w engine_services \<Rightarrow> string \<Rightarrow> string \<Rightarrow> string \<Rightarrow> string \<Rightarrow> ('w, string option) cx" where
  "persist_text_engine sv kind name text mime_type =
     sx_bind sx_get (\<lambda>c.
       if \<not> cx_artifact_manager c then sx_return None
       else sx_bind
         (sx_try
            (on_world (sv_persist sv (PersistKeywords (cx_task_id c) kind name text ''outputs'' mime_type ''execution'')))
            (\<lambda>e. exc_class e = ''TypeError'')
            (\<lambda>e. on_world (sv_persist sv (PersistPositional (cx_task_id c) kind name text ''outputs''))))
         (\<lambda>record. let ref = record_ref record in
            sx_bind (sx_modify (\<lambda>c. c\<lparr>cx_artifact_refs := dput name ref (cx_artifact_refs c)\<rparr>))
              (\<lambda>_. sx_return (Some ref))))"

definition persist_optional ::
  "'w engine_services \<Rightarrow> string \<Rightarrow> string \<Rightarrow> string option \<Rightarrow> ('w, string option) cx" where
  "persist_optional sv kind name text =
     (case text of None \<Rightarrow> sx_return None | Some t \<Rightarrow> persist_text_engine sv kind name t ''text/plain'')"

definition dependencies_satisfied :: "plan_step \<Rightarrow> string dict \<Rightarrow> bool" where
  "dependencies_satisfied step step_status =
     list_all (\<lambda>dep. dget step_status dep = Some SUCCEEDED) (ps_depends_on step)"

definition result_from_exception :: "exc \<Rightarrow> step_execution_result" where
  "result_from_exception e =
     (step_result EXEC_FAILED)\<lparr>er_error_type := Some (exc_class e), er_error_message := Some (exc_text e)\<rparr>"

definition create_run :: "'w engine_services \<Rightarrow> execution_plan \<Rightarrow> ('w, execution_run) cx" where
  "create_run sv plan =
     sx_bind (on_world (sv_clock sv)) (\<lambda>started_at. sx_bind sx_get (\<lambda>c.
       sx_return
         \<lparr>xr_run_id = cx_run_id c,
          xr_task_id = str_or (cx_task_id c) (ep_task_id plan),
          xr_plan_id = str_or (cx_plan_id c) (ep_plan_id plan),
          xr_status = RUNNING, xr_started_at = Some started_at, xr_finished_at = None,
          xr_step_runs = [], xr_result_summary = None,
          xr_metadata = [(''planner_name'', PStr (ep_planner_name plan)),
                         (''planner_version'', PStr (ep_planner_version plan))]\<rparr>))"

definition blank_step_run :: "string \<Rightarrow> string \<Rightarrow> plan_step \<Rightarrow> string \<Rightarrow> int \<Rightarrow> execution_step_run" where
  "blank_step_run step_run_id run_id step status started_at =
     \<lparr>sr_step_run_id = step_run_id, sr_run_id = run_id, sr_step_id = ps_step_id step,
      sr_step_kind = ps_kind step, sr_status = status, sr_started_at = Some started_at,
      sr_finished_at = None, sr_duration_ms = None, sr_inputs_snapshot = ps_inputs step,
      sr_outputs = [], sr_artifact_refs = [], sr_stdout_ref = None, sr_stderr_ref = None,
      sr_log_ref = None, sr_error_type = None, sr_error_message = None, sr_metadata = []\<rparr>"

definition mark_skipped_due_to_dependency ::
  "'w engine_services \<Rightarrow> plan_step \<Rightarrow> execution_run \<Rightarrow> ('w, execution_step_run) cx" where
  "mark_skipped_due_to_dependency sv step run =
     sx_bind (on_world (sv_clock sv)) (\<lambda>now. sx_bind (on_world (sv_uuid sv)) (\<lambda>u.
       sx_return ((blank_step_run (''step_run_'' @ u) (xr_run_id run) step SKIPPED now)
         \<lparr>sr_finished_at := Some now, sr_duration_ms := Some 0,
          sr_error_type := Some ''DependencyNotSatisfied'',
          sr_error_message := Some ''one or more dependencies did not succeed''\<rparr>)))"

definition start_step_run :: "'w engine_services \<Rightarrow> plan_step \<Rightarrow> execution_run \<Rightarrow> ('w, execution_step_run) cx" where
  "start_step_run sv step run =
     sx_bind (on_world (sv_uuid sv)) (\<lambda>u. sx_bind (on_world (sv_clock sv)) (\<lambda>now.
       sx_return (blank_step_run (''step_run_'' @ u) (xr_run_id run) step RUNNING now)))"

fun option_list :: "'a option \<Rightarrow> 'a list" where
  "option_list None = []"
| "option_list (Some a) = [a]"

text \<open>
  \<open>_finish_step_run\<close> changes the step run and appends the references of the stored streams
  to the result too; both are returned.
\<close>

definition finish_step_run ::
  "'w engine_services \<Rightarrow> execution_step_run \<Rightarrow> step_execution_result \<Rightarrow>
     ('w, execution_step_run \<times> step_execution_result) cx" where
  "finish_step_run sv sr result =
     sx_bind (on_world (sv_clock sv)) (\<lambda>finished.
     sx_bind (persist_optional sv ''exec.stdout'' (sr_step_id sr @ ''.stdout.txt'') (er_stdout result)) (\<lambda>out_ref.
     sx_bind (persist_optional sv ''exec.stderr'' (sr_step_id sr @ ''.stderr.txt'') (er_stderr result)) (\<lambda>err_ref.
     sx_bind (persist_optional sv ''exec.log'' (sr_step_id sr @ ''.log.txt'') (er_log_text result)) (\<lambda>log_ref.
       let refs = filter (\<lambda>r. r \<noteq> []) (option_list out_ref @ option_list err_ref @ option_list log_ref)
       in sx_return
         (sr\<lparr>sr_finished_at := Some finished,
             sr_duration_ms := (case sr_started_at sr of None \<Rightarrow> sr_duration_ms sr
                                | Some t \<Rightarrow> Some (max 0 (finished - t))),
             sr_status := er_status result,
             sr_outputs := er_outputs result,
             sr_artifact_refs := er_artifact_refs result @ refs,
             sr_stdout_ref := out_ref, sr_stderr_ref := err_ref, sr_log_ref := log_ref,
             sr_error_type := er_error_type result,
             sr_error_message := er_error_message result,
             sr_metadata := er_metadata result\<rparr>,
          result\<lparr>er_artifact_refs := er_artifact_refs result @ refs\<rparr>)))))"

definition outputs_value :: "pyval dict dict \<Rightarrow> pyval" where
  "outputs_value d = PDict (map (\<lambda>(k, outs). (k, PDict outs)) d)"

definition build_replan_request ::
  "'w engine_services \<Rightarrow> execution_plan \<Rightarrow> plan_step \<Rightarrow> step_execution_result \<Rightarrow> ('w, replan_request) cx" where
  "build_replan_request sv plan step result =
     sx_bind sx_get (\<lambda>c. sx_bind (on_world (sv_clock sv)) (\<lambda>now.
       sx_return
         \<lparr>rp_task_id = str_or (cx_task_id c) (ep_task_id plan),
          rp_parent_plan_id = ep_plan_id plan,
          rp_reason = truthy_or (er_error_message result) (''step '' @ ps_step_id step @ '' requested replan''),
          rp_failed_step_id = Some (ps_step_id step),
          rp_execution_observations =
            [py_strip (''step '' @ ps_step_id step @ '' ('' @ ps_kind step @ '') failed with ''
               @ truthy_or (er_error_type result) (er_status result) @ '': ''
               @ truthy_or (er_error_message result) [])],
          rp_latest_env_report_ref = dget (cx_artifact_refs c) ''latest_env_report'',
          rp_latest_artifact_refs = dvalues (cx_artifact_refs c),
          rp_metadata = [(''step_outputs'', outputs_value (cx_step_outputs c)), (''run_id'', PStr (cx_run_id c))],
          rp_created_at = Some now\<rparr>))"

text \<open>The summary payload: \<open>asdict\<close> of the run and of the results by step.\<close>

definition step_run_value :: "execution_step_run \<Rightarrow> pyval" where
  "step_run_value r = PDict
     [(''step_run_id'', PStr (sr_step_run_id r)), (''run_id'', PStr (sr_run_id r)),
      (''step_id'', PStr (sr_step_id r)), (''step_kind'', PStr (sr_step_kind r)),
      (''status'', PStr (sr_status r)), (''started_at'', opt_int (sr_started_at r)),
      (''finished_at'', opt_int (sr_finished_at r)), (''duration_ms'', opt_int (sr_duration_ms r)),
      (''inputs_snapshot'', PDict (asdict_dict (sr_inputs_snapshot r))),
      (''outputs'', PDict (asdict_dict (sr_outputs r))), (''artifact_refs'', py_strs (sr_artifact_refs r)),
      (''stdout_ref'', opt_str (sr_stdout_ref r)), (''stderr_ref'', opt_str (sr_stderr_ref r)),
      (''log_ref'', opt_str (sr_log_ref r)), (''error_type'', opt_str (sr_error_type r)),
      (''error_message'', opt_str (sr_error_message r)), (''metadata'', PDict (asdict_dict (sr_metadata r)))]"

definition run_value :: "execution_run \<Rightarrow> pyval" where
  "run_value r = PDict
     [(''run_id'', PStr (xr_run_id r)), (''task_id'', PStr (xr_task_id r)), (''plan_id'', PStr (xr_plan_id r)),
      (''status'', PStr (xr_status r)), (''started_at'', opt_int (xr_started_at r)),
      (''finished_at'', opt_int (xr_finished_at r)),
      (''step_runs'', PList (map step_run_value (xr_step_runs r))),
      (''result_summary'', opt_str (xr_result_summary r)), (''metadata'', PDict (asdict_dict (xr_metadata r)))]"

definition result_value :: "step_execution_result \<Rightarrow> pyval" where
  "result_value r = PDict
     [(''status'', PStr (er_status r)), (''outputs'', PDict (asdict_dict (er_outputs r))),
      (''artifact_refs'', py_strs (er_artifact_refs r)), (''stdout'', opt_str (er_stdout r)),
      (''stderr'', opt_str (er_stderr r)), (''log_text'', opt_str (er_log_text r)),
      (''error_type'', opt_str (er_error_type r)), (''error_message'', opt_str (er_error_message r)),
      (''metadata'', PDict (asdict_dict (er_metadata r)))]"

definition finish_artifact_recording ::
  "'w engine_services \<Rightarrow> execution_run \<Rightarrow> step_execution_result dict \<Rightarrow> ('w, string list) cx" where
  "finish_artifact_recording sv run results =
     sx_bind (sx_lift (sv_json sv (PDict
         [(''run'', run_value run),
          (''step_results'', PDict (map (\<lambda>(k, r). (k, result_value r)) results))]))) (\<lambda>text.
     sx_bind (persist_text_engine sv ''report.json'' (xr_run_id run @ ''.execution_summary.json'') text ''application/json'')
       (\<lambda>ref. sx_return (case ref of None \<Rightarrow> [] | Some r \<Rightarrow> if r = [] then [] else [r])))"

text \<open>The end of a run: status, end time and summary are set, then the summary is recorded.\<close>

definition finish_run ::
  "'w engine_services \<Rightarrow> execution_run \<Rightarrow> step_execution_result dict \<Rightarrow> replan_request option \<Rightarrow>
     string \<Rightarrow> string \<Rightarrow> ('w, execution_run_result) cx" where
  "finish_run sv run results replan status summary =
     sx_bind (on_world (sv_clock sv)) (\<lambda>now.
       let run' = run\<lparr>xr_status := status, xr_finished_at := Some now, xr_result_summary := Some summary\<rparr> in
       sx_bind (finish_artifact_recording sv run' results) (\<lambda>refs.
         sx_return \<lparr>rr_run = run', rr_status = status, rr_step_results = results,
                    rr_replan_request = replan, rr_artifact_refs = refs, rr_metadata = []\<rparr>))"

definition append_step_run :: "execution_step_run \<Rightarrow> execution_run \<Rightarrow> execution_run" where
  "append_step_run sr run = run\<lparr>xr_step_runs := xr_step_runs run @ [sr]\<rparr>"

text \<open>
  The loop of \<open>run\<close> over the remaining steps, with the run, the results and the statuses so
  far. \<open>registry.get\<close> is outside the \<open>try\<close>, as in the source: an unsupported kind
  raises out of the engine.
\<close>

fun run_steps ::
  "'w engine_services \<Rightarrow> 'w step_executor_registry \<Rightarrow> execution_plan \<Rightarrow> plan_step list \<Rightarrow>
     execution_run \<Rightarrow> step_execution_result dict \<Rightarrow> string dict \<Rightarrow> ('w, execution_run_result) cx" where
  "run_steps sv reg plan [] run results status =
     finish_run sv run results None SUCCEEDED
       (''Execution succeeded with '' @ nat_str (length (xr_step_runs run)) @ '' step run(s).'')"
| "run_steps sv reg plan (step # rest) run results status =
     (if \<not> dependencies_satisfied step status
      then sx_bind (mark_skipped_due_to_dependency sv step run)
        (\<lambda>sr. run_steps sv reg plan rest (append_step_run sr run) results (dput (ps_step_id step) SKIPPED status))
      else sx_bind (sx_lift (get_executor reg (ps_kind step))) (\<lambda>ex.
       sx_bind (start_step_run sv step run) (\<lambda>sr0.
       sx_bind (sx_try (ex_execute ex step) (\<lambda>_. True) (\<lambda>e. sx_return (result_from_exception e))) (\<lambda>res0.
       sx_bind (finish_step_run sv sr0 res0) (\<lambda>(sr, res).
         let results' = dput (ps_step_id step) res results;
             status' = dput (ps_step_id step) (er_status res) status
         in if er_status res = SUCCEEDED
            then sx_bind (sx_modify (\<lambda>c. c\<lparr>cx_step_outputs := dput (ps_step_id step) (er_outputs res) (cx_step_outputs c)\<rparr>))
              (\<lambda>_. run_steps sv reg plan rest (append_step_run sr run) results' status')
            else if ps_on_failure step = FAIL_CONTINUE
            then run_steps sv reg plan rest (append_step_run sr run) results' status'
            else if ps_on_failure step = FAIL_REQUEST_REPLAN
            then
             (let res' = res\<lparr>er_status := WAITING_REPLAN\<rparr>; sr' = sr\<lparr>sr_status := WAITING_REPLAN\<rparr> in
              sx_bind (build_replan_request sv plan step res') (\<lambda>request.
                finish_run sv (append_step_run sr' run) (dput (ps_step_id step) res' results') (Some request)
                  WAITING_REPLAN (''Execution waiting for replan after step '' @ ps_step_id step @ ''.'')))
            else finish_run sv (append_step_run sr run) results' None EXEC_FAILED
              (''Execution failed at step '' @ ps_step_id step @ '': ''
                @ truthy_or (er_error_message res) (er_status res)))))))"

definition engine_run ::
  "'w engine_services \<Rightarrow> 'w step_executor_registry \<Rightarrow> execution_plan \<Rightarrow> ('w, execution_run_result) cx" where
  "engine_run sv reg plan =
     sx_bind (create_run sv plan) (\<lambda>run. run_steps sv reg plan (ep_steps plan) run [] [])"

section \<open>The registry meets its interface\<close>

interpretation executors: overwriting_registry
  "dget :: 'w step_executor_registry \<Rightarrow> string \<Rightarrow> 'w step_executor option"
  register_executor ex_step_kind "\<lambda>_. True"
  by unfold_locales (auto simp: register_executor_def)

section \<open>Traces of a run\<close>

text \<open>
  The order discipline the interpreter promises: one step run per processed step, in plan order,
  and a step whose run is not skipped had a succeeded run of each of its dependencies before it.
  A run that goes on after a step that neither succeeded nor was skipped needs the step's policy
  \<open>continue\<close>.
\<close>

inductive engine_trace :: "plan_step list \<Rightarrow> execution_step_run list \<Rightarrow> bool" where
  trace_nil: "engine_trace [] []"
| trace_step: "engine_trace ds rs \<Longrightarrow> sr_step_id r = ps_step_id d \<Longrightarrow> sr_step_kind r = ps_kind d \<Longrightarrow>
     (sr_status r \<noteq> SKIPPED \<Longrightarrow>
        \<forall>dep \<in> set (ps_depends_on d). \<exists>q \<in> set rs. sr_step_id q = dep \<and> sr_status q = SUCCEEDED) \<Longrightarrow>
     engine_trace (ds @ [d]) (rs @ [r])"

inductive_cases engine_trace_nilE: "engine_trace [] rs"

lemma engine_trace_ids: "engine_trace ds rs \<Longrightarrow> map sr_step_id rs = map ps_step_id ds"
  by (induction rule: engine_trace.induct) simp_all

lemma engine_trace_kinds: "engine_trace ds rs \<Longrightarrow> map sr_step_kind rs = map ps_kind ds"
  by (induction rule: engine_trace.induct) simp_all

lemma engine_trace_dependency:
  "engine_trace ds rs \<Longrightarrow> i < length rs \<Longrightarrow> sr_status (rs ! i) \<noteq> SKIPPED \<Longrightarrow>
     dep \<in> set (ps_depends_on (ds ! i)) \<Longrightarrow> \<exists>j < i. sr_step_id (rs ! j) = dep \<and> sr_status (rs ! j) = SUCCEEDED"
proof (induction rule: engine_trace.induct)
  case trace_nil
  then show ?case by simp
next
  case (trace_step ds rs r d)
  have len: "length ds = length rs" using engine_trace_ids [OF trace_step.hyps(1)] by (metis length_map)
  show ?case
  proof (cases "i < length rs")
    case True
    then obtain j where "j < i" "sr_step_id (rs ! j) = dep" "sr_status (rs ! j) = SUCCEEDED"
      using trace_step.IH trace_step.prems len by (auto simp: nth_append)
    with True show ?thesis by (intro exI [of _ j]) (simp add: nth_append)
  next
    case False
    with trace_step.prems(1) have i: "i = length rs" by simp
    then obtain q where "q \<in> set rs" "sr_step_id q = dep" "sr_status q = SUCCEEDED"
      using trace_step.hyps(4) trace_step.prems len by (auto simp: nth_append)
    then obtain j where "j < length rs" "rs ! j = q" by (auto simp: in_set_conv_nth)
    with i \<open>sr_step_id q = dep\<close> \<open>sr_status q = SUCCEEDED\<close> show ?thesis
      by (intro exI [of _ j]) (simp add: nth_append)
  qed
qed

definition status_sound :: "string dict \<Rightarrow> execution_step_run list \<Rightarrow> bool" where
  "status_sound status rs \<longleftrightarrow>
     (\<forall>k. dget status k = Some SUCCEEDED \<longrightarrow> (\<exists>q \<in> set rs. sr_step_id q = k \<and> sr_status q = SUCCEEDED))"

lemma status_sound_snoc:
  "status_sound status rs \<Longrightarrow> (st = SUCCEEDED \<Longrightarrow> sr_step_id r = k \<and> sr_status r = SUCCEEDED) \<Longrightarrow>
     status_sound (dput k st status) (rs @ [r])"
  by (auto simp: status_sound_def)

lemma status_sound_dependencies:
  "status_sound status rs \<Longrightarrow> dependencies_satisfied step status \<Longrightarrow> dep \<in> set (ps_depends_on step) \<Longrightarrow>
     \<exists>q \<in> set rs. sr_step_id q = dep \<and> sr_status q = SUCCEEDED"
  by (auto simp: status_sound_def dependencies_satisfied_def list_all_iff)

text \<open>How a run may end, given the steps it processed and their runs.\<close>

definition run_continues :: "plan_step \<Rightarrow> execution_step_run \<Rightarrow> bool" where
  "run_continues d r \<longleftrightarrow> sr_status r = SUCCEEDED \<or> sr_status r = SKIPPED \<or> ps_on_failure d = FAIL_CONTINUE"

lemma run_continuesI:
  "sr_status r = SKIPPED \<Longrightarrow> run_continues d r"
  "sr_status r = SUCCEEDED \<Longrightarrow> run_continues d r"
  "ps_on_failure d = FAIL_CONTINUE \<Longrightarrow> run_continues d r"
  by (simp_all add: run_continues_def)

definition ended_well :: "plan_step list \<Rightarrow> execution_step_run list \<Rightarrow> execution_run_result \<Rightarrow> bool" where
  "ended_well ds rs rr \<longleftrightarrow>
     rr_status rr = SUCCEEDED \<and> xr_status (rr_run rr) = SUCCEEDED \<and> rr_replan_request rr = None
     \<and> list_all2 run_continues ds rs"

definition ended_at :: "plan_step \<Rightarrow> execution_step_run \<Rightarrow> execution_run_result \<Rightarrow> bool" where
  "ended_at d r rr \<longleftrightarrow>
     sr_status r \<noteq> SUCCEEDED \<and> ps_on_failure d \<noteq> FAIL_CONTINUE \<and> xr_status (rr_run rr) = rr_status rr \<and>
     (if ps_on_failure d = FAIL_REQUEST_REPLAN
      then rr_status rr = WAITING_REPLAN \<and> sr_status r = WAITING_REPLAN
        \<and> map_option rp_failed_step_id (rr_replan_request rr) = Some (Some (ps_step_id d))
      else rr_status rr = EXEC_FAILED \<and> rr_replan_request rr = None)"

lemma finish_run_Inr:
  "finish_run sv run results replan status summary c = (Inr rr, c') \<Longrightarrow>
     rr_status rr = status \<and> rr_replan_request rr = replan \<and> rr_step_results rr = results
     \<and> xr_step_runs (rr_run rr) = xr_step_runs run \<and> xr_status (rr_run rr) = status"
  by (auto simp: finish_run_def Let_def sx_simps dest!: sx_bind_result)

lemma finish_step_run_Inr:
  "finish_step_run sv sr0 res0 c = (Inr (sr, res), c') \<Longrightarrow>
     sr_step_id sr = sr_step_id sr0 \<and> sr_step_kind sr = sr_step_kind sr0 \<and> sr_status sr = er_status res0
     \<and> er_status res = er_status res0"
  by (auto simp: finish_step_run_def Let_def sx_simps dest!: sx_bind_result)

lemma start_step_run_Inr:
  "start_step_run sv step run c = (Inr sr, c') \<Longrightarrow> sr_step_id sr = ps_step_id step \<and> sr_step_kind sr = ps_kind step"
  by (auto simp: start_step_run_def blank_step_run_def sx_simps dest!: sx_bind_result)

lemma mark_skipped_Inr:
  "mark_skipped_due_to_dependency sv step run c = (Inr sr, c') \<Longrightarrow>
     sr_step_id sr = ps_step_id step \<and> sr_step_kind sr = ps_kind step \<and> sr_status sr = SKIPPED"
  by (auto simp: mark_skipped_due_to_dependency_def blank_step_run_def sx_simps dest!: sx_bind_result)

lemma build_replan_request_Inr:
  "build_replan_request sv plan step res c = (Inr rp, c') \<Longrightarrow> rp_failed_step_id rp = Some (ps_step_id step)"
  by (auto simp: build_replan_request_def sx_simps dest!: sx_bind_result)

definition run_outcome ::
  "plan_step list \<Rightarrow> plan_step list \<Rightarrow> execution_run_result \<Rightarrow> bool" where
  "run_outcome ds steps rr \<longleftrightarrow>
     (let rs = xr_step_runs (rr_run rr) in
      engine_trace (ds @ steps) rs \<and> ended_well (ds @ steps) rs rr
      \<or> (\<exists>k < length steps. engine_trace (ds @ take (Suc k) steps) rs \<and> ended_at (steps ! k) (last rs) rr
            \<and> list_all2 run_continues (ds @ take k steps) (butlast rs)))"

lemma run_outcome_Cons: "run_outcome (ds @ [d]) steps rr \<Longrightarrow> run_outcome ds (d # steps) rr"
  unfolding run_outcome_def Let_def
proof (elim disjE exE conjE)
  fix k
  assume "k < length steps" "engine_trace ((ds @ [d]) @ take (Suc k) steps) (xr_step_runs (rr_run rr))"
    "ended_at (steps ! k) (last (xr_step_runs (rr_run rr))) rr"
    "list_all2 run_continues ((ds @ [d]) @ take k steps) (butlast (xr_step_runs (rr_run rr)))"
  then show "engine_trace (ds @ d # steps) (xr_step_runs (rr_run rr)) \<and>
      ended_well (ds @ d # steps) (xr_step_runs (rr_run rr)) rr \<or>
      (\<exists>k<length (d # steps). engine_trace (ds @ take (Suc k) (d # steps)) (xr_step_runs (rr_run rr)) \<and>
        ended_at ((d # steps) ! k) (last (xr_step_runs (rr_run rr))) rr \<and>
        list_all2 run_continues (ds @ take k (d # steps)) (butlast (xr_step_runs (rr_run rr))))"
    by (intro disjI2 exI [of _ "Suc k"]) simp
qed simp

lemma run_outcome_stop:
  assumes "engine_trace ds rs" "list_all2 run_continues ds rs" "engine_trace (ds @ [d]) (rs @ [r])"
    and "xr_step_runs (rr_run rr) = rs @ [r]" "ended_at d r rr"
  shows "run_outcome ds (d # steps) rr"
  unfolding run_outcome_def Let_def assms(4)
  using assms by (intro disjI2 exI [of _ 0]) simp

lemma list_all2_snoc: "list_all2 P xs ys \<Longrightarrow> P x y \<Longrightarrow> list_all2 P (xs @ [x]) (ys @ [y])"
  by (simp add: list_all2_appendI)

lemma append_step_run_runs [simp]: "xr_step_runs (append_step_run sr run) = xr_step_runs run @ [sr]"
  by (simp add: append_step_run_def)

lemma run_steps_outcome:
  "run_steps sv reg plan steps run results status c = (Inr rr, c') \<Longrightarrow>
     engine_trace ds (xr_step_runs run) \<Longrightarrow> status_sound status (xr_step_runs run) \<Longrightarrow>
     list_all2 run_continues ds (xr_step_runs run) \<Longrightarrow> run_outcome ds steps rr"
proof (induction steps arbitrary: run results status c ds)
  case Nil
  then show ?case
    by (auto dest!: finish_run_Inr simp: run_outcome_def Let_def ended_well_def)
next
  case (Cons step rest)
  note trace = Cons.prems(2) and sound = Cons.prems(3) and cont = Cons.prems(4)
  show ?case
  proof (cases "dependencies_satisfied step status")
    case False
    then obtain sr c1 where sr: "mark_skipped_due_to_dependency sv step run c = (Inr sr, c1)"
      "run_steps sv reg plan rest (append_step_run sr run) results (dput (ps_step_id step) SKIPPED status) c1 = (Inr rr, c')"
      using Cons.prems(1) by (auto dest!: sx_bind_result)
    note f = mark_skipped_Inr [OF sr(1)]
    have "run_outcome (ds @ [step]) rest rr"
      using f by (intro Cons.IH [OF sr(2)])
        (auto intro!: trace_step trace list_all2_snoc cont status_sound_snoc sound intro: run_continuesI)
    then show ?thesis by (rule run_outcome_Cons)
  next
    case True
    then obtain ex sr0 res0 sr res c1 c2 c3 where st:
      "start_step_run sv step run c = (Inr sr0, c1)"
      "finish_step_run sv sr0 res0 c2 = (Inr (sr, res), c3)"
      and go: "(let results' = dput (ps_step_id step) res results;
             status' = dput (ps_step_id step) (er_status res) status
         in if er_status res = SUCCEEDED
            then sx_bind (sx_modify (\<lambda>c. c\<lparr>cx_step_outputs := dput (ps_step_id step) (er_outputs res) (cx_step_outputs c)\<rparr>))
              (\<lambda>_. run_steps sv reg plan rest (append_step_run sr run) results' status')
            else if ps_on_failure step = FAIL_CONTINUE
            then run_steps sv reg plan rest (append_step_run sr run) results' status'
            else if ps_on_failure step = FAIL_REQUEST_REPLAN
            then
             (let res' = res\<lparr>er_status := WAITING_REPLAN\<rparr>; sr' = sr\<lparr>sr_status := WAITING_REPLAN\<rparr> in
              sx_bind (build_replan_request sv plan step res') (\<lambda>request.
                finish_run sv (append_step_run sr' run) (dput (ps_step_id step) res' results') (Some request)
                  WAITING_REPLAN (''Execution waiting for replan after step '' @ ps_step_id step @ ''.'')))
            else finish_run sv (append_step_run sr run) results' None EXEC_FAILED
              (''Execution failed at step '' @ ps_step_id step @ '': ''
                @ truthy_or (er_error_message res) (er_status res))) c3 = (Inr rr, c')"
      using Cons.prems(1) by (auto dest!: sx_bind_result simp: sx_simps)
    have f: "sr_step_id sr = ps_step_id step" "sr_step_kind sr = ps_kind step" "er_status res = sr_status sr"
      using start_step_run_Inr [OF st(1)] finish_step_run_Inr [OF st(2)] by simp_all
    have deps: "\<forall>dep \<in> set (ps_depends_on step). \<exists>q \<in> set (xr_step_runs run). sr_step_id q = dep \<and> sr_status q = SUCCEEDED"
      using status_sound_dependencies [OF sound True] by blast
    have tr: "engine_trace (ds @ [step]) (xr_step_runs run @ [r])"
      if "sr_step_id r = ps_step_id step" "sr_step_kind r = ps_kind step" for r
      using trace that deps by (intro trace_step) auto
    have sound': "status_sound (dput (ps_step_id step) (er_status res) status) (xr_step_runs run @ [sr])"
      using f by (intro status_sound_snoc sound) simp
    show ?thesis
    proof (cases "er_status res = SUCCEEDED \<or> ps_on_failure step = FAIL_CONTINUE")
      case True
      then obtain c4 where "run_steps sv reg plan rest (append_step_run sr run) (dput (ps_step_id step) res results)
          (dput (ps_step_id step) (er_status res) status) c4 = (Inr rr, c')"
        using go by (auto simp: Let_def sx_bind_step split: if_splits)
      then have "run_outcome (ds @ [step]) rest rr"
        using True f tr [OF f(1,2)] sound'
        by (intro Cons.IH) (auto intro!: list_all2_snoc cont intro: run_continuesI)
      then show ?thesis by (rule run_outcome_Cons)
    next
      case False
      show ?thesis
      proof (cases "ps_on_failure step = FAIL_REQUEST_REPLAN")
        case True
        then obtain request c4 where rq: "build_replan_request sv plan step (res\<lparr>er_status := WAITING_REPLAN\<rparr>) c3 = (Inr request, c4)"
          and fin: "finish_run sv (append_step_run (sr\<lparr>sr_status := WAITING_REPLAN\<rparr>) run)
              (dput (ps_step_id step) (res\<lparr>er_status := WAITING_REPLAN\<rparr>) (dput (ps_step_id step) res results)) (Some request)
              WAITING_REPLAN (''Execution waiting for replan after step '' @ ps_step_id step @ ''.'') c4 = (Inr rr, c')"
          using False go by (auto simp: Let_def dest!: sx_bind_result)
        have "ended_at step (sr\<lparr>sr_status := WAITING_REPLAN\<rparr>) rr"
          using True finish_run_Inr [OF fin] build_replan_request_Inr [OF rq] by (simp add: ended_at_def)
        then show ?thesis
          using f finish_run_Inr [OF fin]
          by (intro run_outcome_stop [OF trace cont tr]) simp_all
      next
        case abort: False
        then have fin: "finish_run sv (append_step_run sr run) (dput (ps_step_id step) res results) None EXEC_FAILED
              (''Execution failed at step '' @ ps_step_id step @ '': ''
                @ truthy_or (er_error_message res) (er_status res)) c3 = (Inr rr, c')"
          using False go by (simp add: Let_def)
        have "ended_at step sr rr"
          using False abort finish_run_Inr [OF fin] f by (simp add: ended_at_def)
        then show ?thesis
          using f finish_run_Inr [OF fin]
          by (intro run_outcome_stop [OF trace cont tr]) simp_all
      qed
    qed
  qed
qed

section \<open>Totality\<close>

text \<open>Services that never raise, and the engine with them.\<close>

definition services_total :: "'w engine_services \<Rightarrow> bool" where
  "services_total sv \<longleftrightarrow>
     (\<forall>w. \<exists>t w'. sv_clock sv w = (Inr t, w')) \<and> (\<forall>w. \<exists>u w'. sv_uuid sv w = (Inr u, w'))
     \<and> (\<forall>call w. \<exists>r w'. sv_persist sv call w = (Inr r, w')) \<and> (\<forall>v. \<exists>t. sv_json sv v = Inr t)"

lemma on_world_total: "(\<And>w. \<exists>a w'. m w = (Inr a, w')) \<Longrightarrow> sx_total (on_world m)"
  unfolding sx_total_def on_world_def sx_zoom_def by (metis (no_types, lifting) old.prod.case)

lemma services_totalD:
  assumes "services_total sv"
  shows "sx_total (on_world (sv_clock sv))" "sx_total (on_world (sv_uuid sv))"
    "sx_total (on_world (sv_persist sv call))" "\<exists>t. sv_json sv v = Inr t"
  using assms by (auto simp: services_total_def intro!: on_world_total)

lemmas engine_total_intros =
  sx_total_bind sx_total_basic sx_total_if sx_total_try_total services_totalD

lemma persist_total: "services_total sv \<Longrightarrow> sx_total (persist_text_engine sv kind name text mime)"
  unfolding persist_text_engine_def Let_def by (intro engine_total_intros)

lemma persist_optional_total: "services_total sv \<Longrightarrow> sx_total (persist_optional sv kind name text)"
  unfolding persist_optional_def by (intro sx_total_option engine_total_intros persist_total)

lemma finish_run_total:
  assumes "services_total sv"
  shows "sx_total (finish_run sv run results replan status summary)"
  unfolding finish_run_def finish_artifact_recording_def Let_def sx_total_lift
  by (intro engine_total_intros persist_total assms; simp add: sx_total_lift services_totalD [OF assms])

lemma run_steps_total:
  assumes "services_total sv"
  shows "list_all (\<lambda>s. ps_kind s \<in> set (supported_step_kinds reg)) steps \<Longrightarrow>
     sx_total (run_steps sv reg plan steps run results status)"
proof (induction steps arbitrary: run results status)
  case Nil
  show ?case by (simp add: finish_run_total [OF assms])
next
  case (Cons step rest)
  then obtain ex where ex: "get_executor reg (ps_kind step) = Inr ex"
    by (auto simp: get_executor_def supported_step_kinds_def dkeys_set dhas_dget split: option.splits)
  have skipped: "sx_total (mark_skipped_due_to_dependency sv step run)"
    unfolding mark_skipped_due_to_dependency_def by (intro engine_total_intros assms)
  have started: "sx_total (start_step_run sv step run)"
    unfolding start_step_run_def by (intro engine_total_intros assms)
  have finished: "sx_total (finish_step_run sv sr res)" for sr res
    unfolding finish_step_run_def Let_def by (intro engine_total_intros persist_optional_total assms)
  have replan: "sx_total (build_replan_request sv plan step res)" for res
    unfolding build_replan_request_def by (intro engine_total_intros assms)
  show ?case
    using Cons
    by (auto simp: Let_def ex sx_total_lift split: prod.splits
        intro!: sx_total_bind sx_total_basic sx_total_try skipped started finished replan finish_run_total [OF assms])
qed

lemma engine_total:
  assumes "services_total sv" "list_all (\<lambda>s. ps_kind s \<in> set (supported_step_kinds reg)) (ep_steps plan)"
  shows "\<exists>rr c'. engine_run sv reg plan c = (Inr rr, c')"
proof -
  have "sx_total (engine_run sv reg plan)"
    unfolding engine_run_def create_run_def
    by (intro sx_total_bind run_steps_total assms engine_total_intros)
  then show ?thesis by (rule sx_totalD)
qed

section \<open>Properties\<close>

lemma engine_outcome:
  assumes "engine_run sv reg plan c = (Inr rr, c')"
  shows "run_outcome [] (ep_steps plan) rr"
proof -
  obtain run c1 where run: "create_run sv plan c = (Inr run, c1)"
    "run_steps sv reg plan (ep_steps plan) run [] [] c1 = (Inr rr, c')"
    using assms by (auto simp: engine_run_def dest!: sx_bind_result)
  have "xr_step_runs run = []" using run(1) by (auto simp: create_run_def sx_simps dest!: sx_bind_result)
  then show ?thesis
    using run_steps_outcome [OF run(2), of "[]"] by (simp add: trace_nil status_sound_def)
qed

text \<open>
  C3: whenever the engine returns a result, its step runs are those of the first steps of the plan,
  in order, one for each; a step that was not skipped ran only after a succeeded run of each of its
  dependencies; and either all steps were processed and the run succeeded, or the run stopped at
  a step that did not succeed and whose policy is not \<open>continue\<close>, waiting for a replan that names
  that step when its policy asks for one, and failed otherwise.
\<close>

theorem engine_run_outcome:
  assumes "engine_run sv reg plan c = (Inr rr, c')"
  shows "run_outcome [] (ep_steps plan) rr"
  using assms by (rule engine_outcome)

text \<open>
  In every returned run, a step run that was not skipped stands after a succeeded run of each
  dependency of its step: no step ever runs before its dependencies have succeeded.
\<close>

theorem executed_after_dependencies:
  assumes "engine_run sv reg plan c = (Inr rr, c')"
    and "i < length (xr_step_runs (rr_run rr))" "sr_status (xr_step_runs (rr_run rr) ! i) \<noteq> SKIPPED"
    and "dep \<in> set (ps_depends_on (ep_steps plan ! i))"
  shows "\<exists>j < i. sr_step_id (xr_step_runs (rr_run rr) ! j) = dep \<and> sr_status (xr_step_runs (rr_run rr) ! j) = SUCCEEDED"
proof -
  let ?rs = "xr_step_runs (rr_run rr)"
  obtain n where tr: "engine_trace (take n (ep_steps plan)) ?rs"
    using engine_outcome [OF assms(1)] by (auto simp: run_outcome_def Let_def) (metis take_all_iff le_refl)
  have "length ?rs = length (take n (ep_steps plan))" using engine_trace_ids [OF tr] by (metis length_map)
  then have "take n (ep_steps plan) ! i = ep_steps plan ! i" using assms(2) by simp
  with engine_trace_dependency [OF tr assms(2,3)] assms(4) show ?thesis by simp
qed

text \<open>
  The stand-alone failure policy and the engine agree: after a step run that did not succeed the
  engine goes on exactly when the policy does not stop, and ends waiting for a replan exactly when
  the policy requests one.
\<close>

lemma failure_policy_agrees:
  assumes "finish_step_run sv sr0 res0 c2 = (Inr (sr, res), c3)" "er_status res \<noteq> SUCCEEDED"
    and "dependencies_satisfied step status" "get_executor reg (ps_kind step) = Inr ex"
    and "start_step_run sv step run c = (Inr sr0, c1)"
    and "sx_try (ex_execute ex step) (\<lambda>_. True) (\<lambda>e. sx_return (result_from_exception e)) c1 = (Inr res0, c2)"
    and "run_steps sv reg plan (step # rest) run results status c = (Inr rr, c')"
  shows "if fp_should_stop (decide_failure_action (ps_on_failure step))
    then length (xr_step_runs (rr_run rr)) = Suc (length (xr_step_runs run))
      \<and> (rr_status rr = WAITING_REPLAN) = fp_should_request_replan (decide_failure_action (ps_on_failure step))
    else run_steps sv reg plan rest (append_step_run sr run) (dput (ps_step_id step) res results)
           (dput (ps_step_id step) (er_status res) status) c3 = (Inr rr, c')"
proof (cases "ps_on_failure step = FAIL_CONTINUE \<or> ps_on_failure step \<noteq> FAIL_REQUEST_REPLAN")
  case True
  with assms show ?thesis
    by (auto simp: decide_failure_action_def run_clean Let_def dest!: finish_run_Inr)
next
  case False
  with assms show ?thesis
    by (auto simp: decide_failure_action_def run_clean Let_def dest!: sx_bind_result finish_run_Inr)
qed

lemma run_steps_all_dependent:
  "run_steps sv reg plan steps run results status c = (Inr rr, c') \<Longrightarrow>
   list_all (\<lambda>step. ps_depends_on step \<noteq> []) steps \<Longrightarrow> (\<And>k. dget status k \<noteq> Some SUCCEEDED) \<Longrightarrow>
     rr_status rr = SUCCEEDED \<and> rr_step_results rr = results
     \<and> (\<exists>new. xr_step_runs (rr_run rr) = xr_step_runs run @ new \<and> length new = length steps
          \<and> list_all (\<lambda>r. sr_status r = SKIPPED) new)"
proof (induction steps arbitrary: run status c)
  case Nil
  then show ?case by (auto dest!: finish_run_Inr)
next
  case (Cons step rest)
  have "\<not> dependencies_satisfied step status"
    using Cons.prems(2,3) by (cases "ps_depends_on step") (auto simp: dependencies_satisfied_def)
  then obtain sr c1 where sr: "mark_skipped_due_to_dependency sv step run c = (Inr sr, c1)"
    "run_steps sv reg plan rest (append_step_run sr run) results (dput (ps_step_id step) SKIPPED status) c1 = (Inr rr, c')"
    using Cons.prems(1) by (auto dest!: sx_bind_result)
  have rest_dep: "list_all (\<lambda>step. ps_depends_on step \<noteq> []) rest" using Cons.prems(2) by simp
  have no_success: "dget (dput (ps_step_id step) SKIPPED status) k \<noteq> Some SUCCEEDED" for k
    using Cons.prems(3) by simp
  obtain new where new: "rr_status rr = SUCCEEDED" "rr_step_results rr = results"
    "xr_step_runs (rr_run rr) = (xr_step_runs run @ [sr]) @ new" "length new = length rest"
    "list_all (\<lambda>r. sr_status r = SKIPPED) new"
    using Cons.IH [OF sr(2) rest_dep no_success] by auto
  show ?case
    using new mark_skipped_Inr [OF sr(1)] by (auto intro!: exI [of _ "sr # new"])
qed

lemma engine_all_dependent:
  assumes "engine_run sv reg plan c = (Inr rr, c')" "list_all (\<lambda>step. ps_depends_on step \<noteq> []) (ep_steps plan)"
  shows "rr_status rr = SUCCEEDED \<and> rr_step_results rr = []
     \<and> length (xr_step_runs (rr_run rr)) = length (ep_steps plan)
     \<and> list_all (\<lambda>r. sr_status r = SKIPPED) (xr_step_runs (rr_run rr))"
proof -
  obtain run c1 where run: "create_run sv plan c = (Inr run, c1)"
    "run_steps sv reg plan (ep_steps plan) run [] [] c1 = (Inr rr, c')"
    using assms(1) by (auto simp: engine_run_def dest!: sx_bind_result)
  have "xr_step_runs run = []" using run(1) by (auto simp: create_run_def sx_simps dest!: sx_bind_result)
  with run_steps_all_dependent [OF run(2) assms(2)] show ?thesis by auto
qed

text \<open>
  A plan in which every step depends on some step (a cycle of dependencies, for one) reports
  success although no executor is ever called: all its steps are skipped and no result is recorded.
\<close>

theorem all_steps_dependent_reports_success:
  assumes "engine_run sv reg plan c = (Inr rr, c')" "list_all (\<lambda>step. ps_depends_on step \<noteq> []) (ep_steps plan)"
  shows "rr_status rr = SUCCEEDED \<and> rr_step_results rr = []
     \<and> length (xr_step_runs (rr_run rr)) = length (ep_steps plan)
     \<and> list_all (\<lambda>r. sr_status r = SKIPPED) (xr_step_runs (rr_run rr))"
  using assms by (rule engine_all_dependent)

text \<open>
  When a step is reached whose dependencies have succeeded and whose kind has no executor, the
  engine itself raises, with the state as the earlier steps left it: no run result, no summary, and
  the step's failure policy is not consulted.
\<close>

theorem unsupported_kind_raises:
  assumes "dependencies_satisfied step status" "dget reg (ps_kind step) = None"
  shows "run_steps sv reg plan (step # rest) run results status c =
     (Inl (Exc ''ExecutionUnsupportedStepKindError'' (''unsupported execution step kind: '' @ ps_kind step)), c)"
  using assms by (simp add: get_executor_def sx_bind_def sx_simps)

section \<open>Concrete inputs\<close>

definition sample_services :: "unit engine_services" where
  "sample_services =
     \<lparr>sv_clock = sx_return 7, sv_uuid = sx_return ''0'',
      sv_persist = (\<lambda>_. sx_return \<lparr>st_artifact_id = Some ''artifact_1'', st_storage_path = None, st_text = []\<rparr>),
      sv_json = (\<lambda>_. Inr ''{}'')\<rparr>"

definition sample_execution_context :: "unit execution_context" where
  "sample_execution_context =
     \<lparr>cx_task_id = ''t1'', cx_plan_id = ''p1'', cx_run_id = ''r1'', cx_artifact_manager = True,
      cx_runtime_manager = False, cx_docker_driver = False, cx_command_controller = False,
      cx_package_inspector = False, cx_env_inspector = False, cx_variables = [], cx_step_outputs = [],
      cx_artifact_refs = [], cx_runtime_refs = [], cx_metadata = [], cx_world = ()\<rparr>"

definition sample_executor :: "unit step_executor" where
  "sample_executor = \<lparr>ex_step_kind = RUN_COMMAND, ex_execute = (\<lambda>step. sx_return (step_result SUCCEEDED))\<rparr>"

definition two_steps :: "string list \<Rightarrow> string list \<Rightarrow> plan_step list" where
  "two_steps deps1 deps2 =
     [(plan_step_with_defaults ''a'' ''first'' RUN_COMMAND ''i'')\<lparr>ps_depends_on := deps1\<rparr>,
      (plan_step_with_defaults ''b'' ''second'' RUN_COMMAND ''i'')\<lparr>ps_depends_on := deps2\<rparr>]"

definition sample_plan :: "string list \<Rightarrow> string list \<Rightarrow> execution_plan" where
  "sample_plan deps1 deps2 = (demo_java_plan ''p1'' 0 sample_context)\<lparr>ep_steps := two_steps deps1 deps2\<rparr>"

lemma on_world_return: "on_world (sx_return a) c = (Inr a, c)"
  by (simp add: on_world_def sx_zoom_def sx_simps)

lemmas engine_eval = engine_run_def create_run_def sample_services_def on_world_return sx_bind_def sx_simps
  sx_try_def start_step_run_def blank_step_run_def finish_step_run_def persist_optional_def step_result_def
  dependencies_satisfied_def get_executor_def mark_skipped_due_to_dependency_def finish_run_def
  finish_artifact_recording_def persist_text_engine_def record_ref_def truthy_or_def append_step_run_def

lemma sample_run_returns:
  "\<exists>rr c'. engine_run sample_services [(RUN_COMMAND, sample_executor)] (sample_plan [] [''a''])
     sample_execution_context = (Inr rr, c') \<and> length (xr_step_runs (rr_run rr)) = 2
     \<and> sr_status (xr_step_runs (rr_run rr) ! 1) = SUCCEEDED"
  by (simp add: engine_eval sample_plan_def two_steps_def plan_step_with_defaults_def
      sample_executor_def sample_execution_context_def Let_def)

lemma cyclic_run_returns:
  "\<exists>rr c'. engine_run sample_services [(RUN_COMMAND, sample_executor)] (sample_plan [''b''] [''a''])
     sample_execution_context = (Inr rr, c')"
  by (simp add: engine_eval sample_plan_def two_steps_def plan_step_with_defaults_def
      sample_executor_def sample_execution_context_def Let_def)

theorem engine_run_outcome_witness:
  "\<exists>rr c'. engine_run sample_services [(RUN_COMMAND, sample_executor)] (sample_plan [] [''a''])
     sample_execution_context = (Inr rr, c') \<and> run_outcome [] (two_steps [] [''a'']) rr"
proof -
  obtain rr c' where r: "engine_run sample_services [(RUN_COMMAND, sample_executor)] (sample_plan [] [''a''])
     sample_execution_context = (Inr rr, c')" using sample_run_returns by blast
  show ?thesis using engine_run_outcome [OF r] r by (auto simp: sample_plan_def)
qed

theorem executed_after_dependencies_witness:
  "\<exists>rr c'. engine_run sample_services [(RUN_COMMAND, sample_executor)] (sample_plan [] [''a''])
     sample_execution_context = (Inr rr, c')
     \<and> (\<exists>j < 1. sr_step_id (xr_step_runs (rr_run rr) ! j) = ''a'' \<and> sr_status (xr_step_runs (rr_run rr) ! j) = SUCCEEDED)"
proof -
  obtain rr c' where r: "engine_run sample_services [(RUN_COMMAND, sample_executor)] (sample_plan [] [''a''])
     sample_execution_context = (Inr rr, c')" "length (xr_step_runs (rr_run rr)) = 2"
     "sr_status (xr_step_runs (rr_run rr) ! 1) = SUCCEEDED" using sample_run_returns by blast
  have "\<exists>j < 1. sr_step_id (xr_step_runs (rr_run rr) ! j) = ''a'' \<and> sr_status (xr_step_runs (rr_run rr) ! j) = SUCCEEDED"
    by (rule executed_after_dependencies [OF r(1)])
      (simp_all add: r(2,3) [simplified] sample_plan_def two_steps_def)
  with r(1) show ?thesis by blast
qed

theorem all_steps_dependent_reports_success_witness:
  "\<exists>rr c'. engine_run sample_services [(RUN_COMMAND, sample_executor)] (sample_plan [''b''] [''a''])
     sample_execution_context = (Inr rr, c') \<and> rr_status rr = SUCCEEDED
     \<and> list_all (\<lambda>r. sr_status r = SKIPPED) (xr_step_runs (rr_run rr))"
proof -
  obtain rr c' where r: "engine_run sample_services [(RUN_COMMAND, sample_executor)] (sample_plan [''b''] [''a''])
     sample_execution_context = (Inr rr, c')" using cyclic_run_returns by blast
  have "list_all (\<lambda>step. ps_depends_on step \<noteq> []) (ep_steps (sample_plan [''b''] [''a'']))"
    by (simp add: sample_plan_def two_steps_def)
  from all_steps_dependent_reports_success [OF r this] r show ?thesis by blast
qed

definition parse_text_step :: plan_step where
  "parse_text_step = plan_step_with_defaults ''a'' ''parse'' PARSE_TEXT ''i''"

theorem unsupported_kind_raises_witness:
  "fst (run_steps sample_services [(RUN_COMMAND, sample_executor)] (sample_plan [] []) [parse_text_step]
     (\<lparr>xr_run_id = ''r'', xr_task_id = ''t'', xr_plan_id = ''p'', xr_status = RUNNING, xr_started_at = None,
       xr_finished_at = None, xr_step_runs = [], xr_result_summary = None, xr_metadata = []\<rparr>) [] []
     sample_execution_context)
   = Inl (Exc ''ExecutionUnsupportedStepKindError'' ''unsupported execution step kind: parse_text'')"
proof -
  have "dependencies_satisfied parse_text_step []" "dget [(RUN_COMMAND, sample_executor)] (ps_kind parse_text_step) = None"
    and kind: "ps_kind parse_text_step = ''parse_text''"
    by (simp_all add: parse_text_step_def plan_step_with_defaults_def dependencies_satisfied_def)
  from unsupported_kind_raises [OF this(1,2)] show ?thesis by (simp add: kind del: run_steps.simps)
qed

end
