(* ===== verification/PydanticCompat.thy ===== *)
theory PydanticCompat
  imports SchemaValidation
begin

text \<open>
  The fallback models of \<open>capability/_pydantic_compat.py\<close>: JSON-schema generation
  (\<open>model_json_schema\<close>, \<open>_schema_for_type\<close>, \<open>_json_type\<close>) and coercion
  (\<open>model_validate\<close>, \<open>__post_init__\<close>, \<open>_coerce_value\<close>). A type annotation is a
  value of \<open>annot\<close>; a model is its class name, its \<open>extra\<close> policy and its fields
  (name, annotation, default, constraints of \<open>Field\<close>).
\<close>

section \<open>Annotations\<close>

datatype extra_policy = Forbid | Allow | Ignore

datatype constraints = Constraints (min_length: "int option") (field_ge: "int option") (field_le: "int option")

datatype annot =
    AnyT
  | NoneT
  | StrT
  | IntT
  | FloatT
  | BoolT
  | ListT annot
  | TupleT annot
  | DictT
  | UnionT "annot list"
  | LiteralT "pyval list"
  | EnumT string "string list"
  | ModelT string extra_policy "(string \<times> annot \<times> pyval option \<times> constraints) list"

type_synonym model_field = "string \<times> annot \<times> pyval option \<times> constraints"

definition no_constraints :: constraints where
  "no_constraints = Constraints None None None"

lemma size_field_annot:
  "(n, a, d, c) \<in> set fs \<Longrightarrow>
     size a < Suc (size_list (size_prod (\<lambda>_. 0) (size_prod size (\<lambda>_. 0))) (fs :: model_field list))"
  by (induction fs) auto

lemma size_union_annot: "a \<in> set as \<Longrightarrow> size a < Suc (size_list size (as :: annot list))"
  by (induction as) auto

section \<open>Schema generation\<close>

fun json_type :: "pyval \<Rightarrow> string" where
  "json_type (PStr s) = ''string''"
| "json_type (PInt i) = ''integer''"
| "json_type (PBool b) = ''boolean''"
| "json_type (PFloat q) = ''number''"
| "json_type _ = ''object''"

definition put_opt :: "string \<Rightarrow> int option \<Rightarrow> pyval dict \<Rightarrow> pyval dict" where
  "put_opt k x d = (case x of None \<Rightarrow> d | Some i \<Rightarrow> dput k (PInt i) d)"

definition add_constraints :: "constraints \<Rightarrow> pyval dict \<Rightarrow> pyval dict" where
  "add_constraints c schema =
     put_opt ''maximum'' (field_le c) (put_opt ''minimum'' (field_ge c) (put_opt ''minItems'' (min_length c) schema))"

definition required_fields :: "model_field list \<Rightarrow> string list" where
  "required_fields fs = map fst (filter (\<lambda>(n, a, d, c). d = None) fs)"

definition object_schema :: "string \<Rightarrow> extra_policy \<Rightarrow> pyval dict \<Rightarrow> string list \<Rightarrow> pyval dict" where
  "object_schema title extra properties required =
     [(''title'', PStr title), (''type'', PStr ''object''), (''properties'', PDict properties)]
     @ (if required = [] then [] else [(''required'', PList (map PStr required))])
     @ (case extra of Forbid \<Rightarrow> [(''additionalProperties'', PBool False)]
                    | Allow \<Rightarrow> [(''additionalProperties'', PBool True)]
                    | Ignore \<Rightarrow> [])"

function schema_for_type :: "annot \<Rightarrow> constraints \<Rightarrow> pyval dict" where
  "schema_for_type a c = add_constraints c
     (case a of
        AnyT \<Rightarrow> []
      | UnionT as \<Rightarrow>
          [(''anyOf'', PList (map (\<lambda>b. if b = NoneT then PDict [(''type'', PStr ''null'')]
                                      else PDict (schema_for_type b no_constraints)) as))]
      | ListT b \<Rightarrow> [(''type'', PStr ''array''), (''items'', PDict (schema_for_type b no_constraints))]
      | TupleT b \<Rightarrow> [(''type'', PStr ''array''), (''items'', PDict (schema_for_type b no_constraints))]
      | DictT \<Rightarrow> [(''type'', PStr ''object'')]
      | LiteralT args \<Rightarrow>
          (''enum'', PList args) # (case args of [] \<Rightarrow> [] | x # _ \<Rightarrow> [(''type'', PStr (json_type x))])
      | ModelT name extra fields \<Rightarrow>
          object_schema name extra
            (map (\<lambda>(n, b, d, k). (n, PDict (schema_for_type b k))) fields) (required_fields fields)
      | EnumT name vals \<Rightarrow> [(''type'', PStr ''string''), (''enum'', PList (map PStr vals))]
      | StrT \<Rightarrow> [(''type'', PStr ''string'')]
      | IntT \<Rightarrow> [(''type'', PStr ''integer'')]
      | BoolT \<Rightarrow> [(''type'', PStr ''boolean'')]
      | FloatT \<Rightarrow> [(''type'', PStr ''number'')]
      | NoneT \<Rightarrow> [])"
  by pat_completeness auto
termination
  by (relation "measure (\<lambda>(a, c). size a)") (auto dest!: size_union_annot size_field_annot)

declare schema_for_type.simps [simp del]

text \<open>\<open>Model.model_json_schema()\<close>\<close>

definition model_json_schema :: "annot \<Rightarrow> pyval dict" where
  "model_json_schema m = schema_for_type m no_constraints"

section \<open>Coercion\<close>

text \<open>The message of a \<open>ValidationError\<close>, with the values its f-string interpolates.\<close>

datatype coerce_error =
    NoAllowedType string "coerce_error list list"
  | ExpectedClass string string
  | NotInLiteral string "pyval list"
  | InvalidEnumValue string pyval
  | ExpectedModelObject string
  | ExtraFields "string list"
  | MissingField string

fun err_sum_map :: "('a \<Rightarrow> 'e + 'b) \<Rightarrow> 'a list \<Rightarrow> 'e + 'b list" where
  "err_sum_map f [] = Inr []"
| "err_sum_map f (x # xs) =
     (case f x of Inl e \<Rightarrow> Inl e
      | Inr y \<Rightarrow> (case err_sum_map f xs of Inl e \<Rightarrow> Inl e | Inr ys \<Rightarrow> Inr (y # ys)))"

lemma err_sum_map_cong [fundef_cong]:
  "xs = ys \<Longrightarrow> (\<And>x. x \<in> set ys \<Longrightarrow> f x = g x) \<Longrightarrow> err_sum_map f xs = err_sum_map g ys"
  by (induction ys arbitrary: xs) (auto split: sum.splits)

text \<open>The loop over the members of a union: the first that coerces wins.\<close>

fun first_ok :: "('a \<Rightarrow> 'e + 'b) \<Rightarrow> 'a list \<Rightarrow> 'e list \<Rightarrow> 'e list + 'b" where
  "first_ok f [] errs = Inl errs"
| "first_ok f (x # xs) errs =
     (case f x of Inr y \<Rightarrow> Inr y | Inl e \<Rightarrow> first_ok f xs (errs @ [e]))"

lemma first_ok_cong [fundef_cong]:
  "xs = ys \<Longrightarrow> es = es' \<Longrightarrow> (\<And>x. x \<in> set ys \<Longrightarrow> f x = g x) \<Longrightarrow> first_ok f xs es = first_ok g ys es'"
  by (induction ys arbitrary: xs es es') (auto split: sum.splits)

text \<open>\<open>__post_init__\<close>: every field is coerced and the errors of all fields are collected.\<close>

fun collect_fields :: "('a \<Rightarrow> 'e list + 'b) \<Rightarrow> 'a list \<Rightarrow> 'e list + 'b list" where
  "collect_fields f [] = Inr []"
| "collect_fields f (x # xs) =
     (case (f x, collect_fields f xs) of
        (Inr y, Inr ys) \<Rightarrow> Inr (y # ys)
      | (Inl e, Inl es) \<Rightarrow> Inl (e @ es)
      | (Inl e, Inr _) \<Rightarrow> Inl e
      | (Inr _, Inl es) \<Rightarrow> Inl es)"

lemma collect_fields_cong [fundef_cong]:
  "xs = ys \<Longrightarrow> (\<And>x. x \<in> set ys \<Longrightarrow> f x = g x) \<Longrightarrow> collect_fields f xs = collect_fields g ys"
  by (induction ys arbitrary: xs) (auto split: sum.splits)

text \<open>
  The checks of \<open>model_validate\<close> before the instance is made: unknown fields under
  \<open>extra = "forbid"\<close>, then missing ones.
\<close>

definition model_precheck :: "string list \<Rightarrow> extra_policy \<Rightarrow> string list \<Rightarrow> pyval dict \<Rightarrow> coerce_error list" where
  "model_precheck allowed extra required payload =
     (let unknown = sort (filter (\<lambda>k. k \<notin> set allowed) (dkeys payload));
          missing = filter (\<lambda>n. \<not> dhas payload n) required
      in if extra = Forbid \<and> unknown \<noteq> [] then [ExtraFields unknown]
         else map MissingField missing)"

definition extra_values :: "string list \<Rightarrow> extra_policy \<Rightarrow> pyval dict \<Rightarrow> pyval dict" where
  "extra_values allowed extra payload =
     (if extra = Allow then filter (\<lambda>(k, v). k \<notin> set allowed) payload else [])"

function coerce_value :: "pyval \<Rightarrow> annot \<Rightarrow> string \<Rightarrow> coerce_error list + pyval" where
  "coerce_value v a path =
     (case a of
        AnyT \<Rightarrow> Inr v
      | NoneT \<Rightarrow> Inr v
      | UnionT as \<Rightarrow>
          (case first_ok (\<lambda>b. if b = NoneT \<and> v = PNone then Inr PNone else coerce_value v b path) as [] of
             Inr w \<Rightarrow> Inr w
           | Inl errs \<Rightarrow> Inl [NoAllowedType path errs])
      | ListT b \<Rightarrow>
          (case v of
             PList xs \<Rightarrow>
               (case err_sum_map (\<lambda>x. coerce_value x b (path @ ''[]'')) xs of
                  Inl e \<Rightarrow> Inl e | Inr ys \<Rightarrow> Inr (PList ys))
           | _ \<Rightarrow> Inl [ExpectedClass path ''list''])
      | TupleT b \<Rightarrow>
          (case v of
             PList xs \<Rightarrow>
               (case err_sum_map (\<lambda>x. coerce_value x b (path @ ''[]'')) xs of
                  Inl e \<Rightarrow> Inl e | Inr ys \<Rightarrow> Inr (PTuple ys))
           | PTuple xs \<Rightarrow>
               (case err_sum_map (\<lambda>x. coerce_value x b (path @ ''[]'')) xs of
                  Inl e \<Rightarrow> Inl e | Inr ys \<Rightarrow> Inr (PTuple ys))
           | _ \<Rightarrow> Inl [ExpectedClass path ''tuple''])
      | DictT \<Rightarrow> (case v of PDict d \<Rightarrow> Inr v | _ \<Rightarrow> Inl [ExpectedClass path ''object''])
      | LiteralT args \<Rightarrow> (if py_in_list v args then Inr v else Inl [NotInLiteral path args])
      | ModelT name extra fields \<Rightarrow>
          (case v of
             PDict payload \<Rightarrow>
               (let allowed = map fst fields in
                case model_precheck allowed extra (required_fields fields) payload of
                  [] \<Rightarrow>
                    (case collect_fields (\<lambda>(n, b, d, k).
                         case coerce_value (case dget payload n of
                                              Some x \<Rightarrow> x
                                            | None \<Rightarrow> (case d of Some x \<Rightarrow> x | None \<Rightarrow> PNone)) b n of
                           Inl e \<Rightarrow> Inl e | Inr w \<Rightarrow> Inr (n, w)) fields of
                       Inl errs \<Rightarrow> Inl errs
                     | Inr vals \<Rightarrow> Inr (PObj name (vals @ extra_values allowed extra payload)))
                | errs \<Rightarrow> Inl errs)
           | PObj c fs \<Rightarrow> (if c = name then Inr v else Inl [ExpectedModelObject name])
           | _ \<Rightarrow> Inl [ExpectedModelObject name])
      | EnumT name vals \<Rightarrow>
          (case v of PStr s \<Rightarrow> if s \<in> set vals then Inr v else Inl [InvalidEnumValue path v]
                   | _ \<Rightarrow> Inl [InvalidEnumValue path v])
      | StrT \<Rightarrow> (if is_str v then Inr v else Inl [ExpectedClass path ''str''])
      | IntT \<Rightarrow> (if is_int v then Inr v else Inl [ExpectedClass path ''int''])
      | BoolT \<Rightarrow> (if is_bool v then Inr v else Inl [ExpectedClass path ''bool''])
      | FloatT \<Rightarrow> (case v of PFloat q \<Rightarrow> Inr v | _ \<Rightarrow> Inl [ExpectedClass path ''float'']))"
  by pat_completeness auto
termination
  by (relation "measure (\<lambda>(v, a, path). size a)") (auto dest!: size_union_annot size_field_annot)

declare coerce_value.simps [simp del]

text \<open>\<open>Model.model_validate(payload)\<close>\<close>

definition model_validate :: "annot \<Rightarrow> pyval \<Rightarrow> coerce_error list + pyval" where
  "model_validate m payload = coerce_value payload m []"

section \<open>Generated schemas are well-formed\<close>

lemma wf_schema_dget:
  "wf_schema (PDict d) \<longleftrightarrow> schema_shape d \<and> (\<forall>k v. dget d k = Some v \<longrightarrow> keyword_wf k v)"
proof (cases "schema_shape d")
  case True
  then have "dict_ok d" by (simp add: schema_shape_def)
  from list_all_dget [OF this, of keyword_wf] show ?thesis by (simp add: wf_schema_PDict)
qed (simp add: wf_schema_PDict)

lemma put_opt_None [simp]: "put_opt k None d = d"
  by (simp add: put_opt_def)

lemma wf_schema_dput:
  assumes "wf_schema (PDict d)" "schema_shape (dput k v d)" "keyword_wf k v"
  shows "wf_schema (PDict (dput k v d))"
  unfolding wf_schema_dget
proof (intro conjI allI impI)
  show "schema_shape (dput k v d)" by (rule assms(2))
  fix k' v'
  assume "dget (dput k v d) k' = Some v'"
  then show "keyword_wf k' v'"
    using assms(3) wf_schema_dict [OF assms(1)] by (cases "k = k'") simp_all
qed

lemma wf_put_range:
  assumes "wf_schema (PDict d)" "k = ''minimum'' \<or> k = ''maximum''" "\<not> dhas d ''anyOf''"
  shows "wf_schema (PDict (put_opt k x d))"
proof (cases x)
  case (Some i)
  have "schema_shape (dput k (PInt i) d)"
    using assms wf_schema_dict [OF assms(1)] by (elim disjE) (simp_all add: schema_shape_def)
  moreover have "keyword_wf k (PInt i)" using assms(2) by (elim disjE) (simp_all add: keyword_wf_simps)
  ultimately show ?thesis by (simp add: Some put_opt_def wf_schema_dput [OF assms(1)])
qed (simp add: assms(1))

lemma wf_put_min_items:
  assumes "wf_schema (PDict d)" "dget d ''type'' = Some (PStr ''array'')"
  shows "wf_schema (PDict (put_opt ''minItems'' x d))"
proof (cases x)
  case (Some i)
  have "\<not> dhas d ''anyOf''"
    using schema_shape_type(1) [of d] wf_schema_dict [OF assms(1)] assms(2) by (simp add: dhas_dget)
  then have "schema_shape (dput ''minItems'' (PInt i) d)"
    using assms(2) wf_schema_dict [OF assms(1)] by (simp add: schema_shape_def)
  then show ?thesis by (simp add: Some put_opt_def wf_schema_dput [OF assms(1)] keyword_wf_simps)
qed (simp add: assms(1))

lemma dhas_put_opt: "dhas (put_opt k x d) k' \<longleftrightarrow> (k = k' \<and> x \<noteq> None) \<or> dhas d k'"
  by (cases x) (auto simp: put_opt_def)

lemma wf_add_constraints:
  assumes "wf_schema (PDict d)" "\<not> dhas d ''anyOf''"
    and "min_length c \<noteq> None \<longrightarrow> dget d ''type'' = Some (PStr ''array'')"
  shows "wf_schema (PDict (add_constraints c d))"
proof -
  have "wf_schema (PDict (put_opt ''minItems'' (min_length c) d))"
    using assms wf_put_min_items by (cases "min_length c") auto
  then show ?thesis
    unfolding add_constraints_def using assms(2) by (auto intro!: wf_put_range simp: dhas_put_opt)
qed

lemma add_no_constraints [simp]: "add_constraints no_constraints d = d"
  by (simp add: add_constraints_def no_constraints_def)

text \<open>
  What the models of the program satisfy: field names are distinct, a \<open>min_length\<close> stands on a
  list only and no constraint on a union.
\<close>

function annot_ok :: "annot \<Rightarrow> constraints \<Rightarrow> bool" where
  "annot_ok a c \<longleftrightarrow>
     (case a of
        UnionT as \<Rightarrow> c = no_constraints \<and> list_all (\<lambda>b. b = NoneT \<or> annot_ok b no_constraints) as
      | ListT b \<Rightarrow> annot_ok b no_constraints
      | TupleT b \<Rightarrow> annot_ok b no_constraints
      | ModelT name extra fields \<Rightarrow>
          min_length c = None \<and> distinct (map fst fields) \<and> list_all (\<lambda>(n, b, d, k). annot_ok b k) fields
      | _ \<Rightarrow> min_length c = None)"
  by pat_completeness auto
termination
  by (relation "measure (\<lambda>(a, c). size a)") (auto dest!: size_union_annot size_field_annot)

declare annot_ok.simps [simp del]

lemmas wf_concrete =
  wf_schema_PDict keyword_wf_simps schema_shape_def dict_ok_def assertion_keywords_def known_types_def

lemma keyword_wf_title: "keyword_wf ''title'' v" "keyword_wf ''additionalProperties'' v"
  by (simp_all add: keyword_wf_def keyword_shape_def)

lemma json_type_known: "PStr (json_type x) \<in> set known_types"
  by (cases x) (simp_all add: known_types_def)

lemma wf_object_schema:
  assumes "dict_ok props" "list_all (\<lambda>(_, t). wf_schema t) props"
  shows "wf_schema (PDict (object_schema title extra props required))"
  using assms
  by (cases extra)
    (auto simp: object_schema_def wf_concrete keyword_wf_title list_all_iff split: if_splits)

lemma wf_base_schemas:
  "wf_schema (PDict [])"
  "PStr t \<in> set known_types \<Longrightarrow> wf_schema (PDict [(''type'', PStr t)])"
  "wf_schema s \<Longrightarrow> wf_schema (PDict [(''type'', PStr ''array''), (''items'', s)])"
  "list_all wf_schema ss \<Longrightarrow> wf_schema (PDict [(''anyOf'', PList ss)])"
  "wf_schema (PDict [(''enum'', PList xs)])"
  "PStr t \<in> set known_types \<Longrightarrow> wf_schema (PDict [(''enum'', PList xs), (''type'', PStr t)])"
  "wf_schema (PDict [(''type'', PStr ''string''), (''enum'', PList xs)])"
  by (simp_all add: wf_schema_PDict keyword_wf_simps schema_shape_def dict_ok_def
      assertion_keywords_def) (simp_all add: known_types_def)

lemma known_type_names:
  "PStr ''string'' \<in> set known_types" "PStr ''integer'' \<in> set known_types"
  "PStr ''boolean'' \<in> set known_types" "PStr ''number'' \<in> set known_types"
  "PStr ''object'' \<in> set known_types" "PStr ''null'' \<in> set known_types"
  by (simp_all add: known_types_def)

lemma wf_union_member:
  assumes "list_all (\<lambda>b. b = NoneT \<or> annot_ok b no_constraints) as"
    and "\<And>b. b \<in> set as \<Longrightarrow> b \<noteq> NoneT \<Longrightarrow> annot_ok b no_constraints \<Longrightarrow>
           wf_schema (PDict (schema_for_type b no_constraints))"
  shows "list_all wf_schema (map (\<lambda>b. if b = NoneT then PDict [(''type'', PStr ''null'')]
                                      else PDict (schema_for_type b no_constraints)) as)"
  using assms by (fastforce simp: list_all_iff wf_base_schemas known_type_names)

text \<open>The equations by constructor.\<close>

lemma schema_for_type_eqs [simp]:
  "schema_for_type AnyT c = add_constraints c []"
  "schema_for_type NoneT c = add_constraints c []"
  "schema_for_type StrT c = add_constraints c [(''type'', PStr ''string'')]"
  "schema_for_type IntT c = add_constraints c [(''type'', PStr ''integer'')]"
  "schema_for_type FloatT c = add_constraints c [(''type'', PStr ''number'')]"
  "schema_for_type BoolT c = add_constraints c [(''type'', PStr ''boolean'')]"
  "schema_for_type DictT c = add_constraints c [(''type'', PStr ''object'')]"
  "schema_for_type (ListT b) c =
     add_constraints c [(''type'', PStr ''array''), (''items'', PDict (schema_for_type b no_constraints))]"
  "schema_for_type (TupleT b) c =
     add_constraints c [(''type'', PStr ''array''), (''items'', PDict (schema_for_type b no_constraints))]"
  "schema_for_type (UnionT as) c = add_constraints c
     [(''anyOf'', PList (map (\<lambda>b. if b = NoneT then PDict [(''type'', PStr ''null'')]
                                 else PDict (schema_for_type b no_constraints)) as))]"
  "schema_for_type (LiteralT []) c = add_constraints c [(''enum'', PList [])]"
  "schema_for_type (LiteralT (x # xs)) c =
     add_constraints c [(''enum'', PList (x # xs)), (''type'', PStr (json_type x))]"
  "schema_for_type (EnumT name vals) c =
     add_constraints c [(''type'', PStr ''string''), (''enum'', PList (map PStr vals))]"
  "schema_for_type (ModelT name extra fields) c = add_constraints c
     (object_schema name extra
        (map (\<lambda>(n, b, d, k). (n, PDict (schema_for_type b k))) fields) (required_fields fields))"
  by (subst schema_for_type.simps, simp)+

lemma annot_ok_eqs [simp]:
  "annot_ok AnyT c = (min_length c = None)"
  "annot_ok NoneT c = (min_length c = None)"
  "annot_ok StrT c = (min_length c = None)"
  "annot_ok IntT c = (min_length c = None)"
  "annot_ok FloatT c = (min_length c = None)"
  "annot_ok BoolT c = (min_length c = None)"
  "annot_ok DictT c = (min_length c = None)"
  "annot_ok (LiteralT args) c = (min_length c = None)"
  "annot_ok (EnumT name vals) c = (min_length c = None)"
  "annot_ok (ListT b) c = annot_ok b no_constraints"
  "annot_ok (TupleT b) c = annot_ok b no_constraints"
  "annot_ok (UnionT as) c =
     (c = no_constraints \<and> list_all (\<lambda>b. b = NoneT \<or> annot_ok b no_constraints) as)"
  "annot_ok (ModelT name extra fields) c =
     (min_length c = None \<and> distinct (map fst fields) \<and> list_all (\<lambda>(n, b, d, k). annot_ok b k) fields)"
  by (subst annot_ok.simps, simp)+

lemma generated_schema_wf:
  "annot_ok a c \<Longrightarrow> wf_schema (PDict (schema_for_type a c))"
proof (induction a c rule: schema_for_type.induct)
  case (1 a c)
  note IH = "1.IH" and ok = "1.prems"
  show ?case
  proof (cases a)
    case (UnionT as)
    from ok have "c = no_constraints" "list_all (\<lambda>b. b = NoneT \<or> annot_ok b no_constraints) as"
      by (simp_all add: UnionT)
    with wf_union_member [OF this(2) IH(3) [OF UnionT]] show ?thesis
      by (simp add: UnionT wf_base_schemas)
  next
    case (ListT b)
    with ok IH(1) [OF ListT] show ?thesis
      by (simp add: wf_add_constraints wf_base_schemas)
  next
    case (TupleT b)
    with ok IH(2) [OF TupleT] show ?thesis
      by (simp add: wf_add_constraints wf_base_schemas)
  next
    case (ModelT name extra fields)
    let ?props = "map (\<lambda>(n, b, d, k). (n, PDict (schema_for_type b k))) fields"
    have fst: "map fst ?props = map fst fields" by (induction fields) auto
    have dk: "dict_ok ?props" unfolding dict_ok_def fst using ok by (simp add: ModelT)
    have "wf_schema (PDict (schema_for_type b k))" if "(n, b, d, k) \<in> set fields" for n b d k
      using ok that IH(4) [OF ModelT that] by (auto simp: ModelT list_all_iff)
    then have "wf_schema (PDict (object_schema name extra ?props (required_fields fields)))"
      using dk by (intro wf_object_schema) (auto simp: list_all_iff)
    moreover have "\<not> dhas (object_schema name extra ?props (required_fields fields)) ''anyOf''"
      by (cases extra) (simp_all add: object_schema_def)
    ultimately show ?thesis
      using ok by (simp add: ModelT wf_add_constraints)
  next
    case (LiteralT args)
    with ok show ?thesis
      by (cases args) (simp_all add: wf_add_constraints wf_base_schemas json_type_known)
  qed (use ok in \<open>simp_all add: wf_add_constraints wf_base_schemas known_type_names\<close>)
qed

section \<open>Coercion and the generated schema\<close>

text \<open>
  A JSON value has no tuple and no instance in it. A plain annotation has no \<open>None\<close> in a
  union, only string literals, and no constraint (\<open>_coerce_value\<close> does not read the
  constraints of \<open>Field\<close>, and lets every value pass a union with \<open>None\<close>).
\<close>

function json_value :: "pyval \<Rightarrow> bool" where
  "json_value v =
     (case v of
        PTuple xs \<Rightarrow> False
      | PObj c fs \<Rightarrow> False
      | PList xs \<Rightarrow> list_all json_value xs
      | PDict d \<Rightarrow> dict_ok d \<and> list_all (\<lambda>(k, x). json_value x) d
      | _ \<Rightarrow> True)"
  by pat_completeness auto
termination
  by (relation "measure size") (auto dest!: size_dict_item size_list_item)

declare json_value.simps [simp del]

lemma json_value_eqs [simp]:
  "json_value PNone" "json_value (PBool b)" "json_value (PInt i)" "json_value (PFloat q)"
  "json_value (PStr s)"
  "json_value (PTuple xs) = False" "json_value (PObj c fs) = False"
  "json_value (PList xs) = list_all json_value xs"
  "json_value (PDict d) = (dict_ok d \<and> list_all (\<lambda>(k, x). json_value x) d)"
  by (subst json_value.simps, simp)+

function plain_annot :: "annot \<Rightarrow> bool" where
  "plain_annot a =
     (case a of
        UnionT as \<Rightarrow> list_all (\<lambda>b. b \<noteq> NoneT \<and> plain_annot b) as
      | ListT b \<Rightarrow> plain_annot b
      | TupleT b \<Rightarrow> plain_annot b
      | LiteralT args \<Rightarrow> list_all is_str args
      | ModelT name extra fields \<Rightarrow>
          distinct (map fst fields) \<and>
          list_all (\<lambda>(n, b, d, k). k = no_constraints \<and> plain_annot b) fields
      | NoneT \<Rightarrow> False
      | _ \<Rightarrow> True)"
  by pat_completeness auto
termination
  by (relation "measure size") (auto dest!: size_union_annot size_field_annot)

declare plain_annot.simps [simp del]

lemma plain_annot_eqs [simp]:
  "plain_annot (UnionT as) = list_all (\<lambda>b. b \<noteq> NoneT \<and> plain_annot b) as"
  "plain_annot (ListT b) = plain_annot b"
  "plain_annot (TupleT b) = plain_annot b"
  "plain_annot (LiteralT args) = list_all is_str args"
  "plain_annot (ModelT name extra fields) =
     (distinct (map fst fields) \<and> list_all (\<lambda>(n, b, d, k). k = no_constraints \<and> plain_annot b) fields)"
  "plain_annot NoneT = False"
  "plain_annot AnyT" "plain_annot StrT" "plain_annot IntT" "plain_annot FloatT" "plain_annot BoolT"
  "plain_annot DictT" "plain_annot (EnumT name vals)"
  by (subst plain_annot.simps, simp)+

lemma plain_annot_ok: "plain_annot a \<Longrightarrow> annot_ok a no_constraints"
proof (induction a rule: plain_annot.induct)
  case (1 a)
  have [simp]: "min_length no_constraints = None" by (simp add: no_constraints_def)
  show ?case
  proof (cases a)
    case (UnionT as)
    with 1 show ?thesis by (auto simp: list_all_iff)
  next
    case (ModelT name extra fields)
    with 1 show ?thesis by (fastforce simp: list_all_iff)
  qed (use 1 in simp_all)
qed

lemma err_sum_map_ok: "err_sum_map f xs = Inr ys \<Longrightarrow> x \<in> set xs \<Longrightarrow> \<exists>y. f x = Inr y"
  by (induction xs arbitrary: ys) (auto split: sum.splits)

lemma first_ok_ok: "first_ok f xs es = Inr y \<Longrightarrow> \<exists>x \<in> set xs. f x = Inr y"
  by (induction xs arbitrary: es) (auto split: sum.splits)

lemma collect_fields_ok: "collect_fields f xs = Inr ys \<Longrightarrow> x \<in> set xs \<Longrightarrow> \<exists>y. f x = Inr y"
  by (induction xs arbitrary: ys) (auto split: sum.splits)

lemma conforms_simple:
  "conforms (PDict [(''type'', PStr t)]) v \<longleftrightarrow> has_type (PStr t) v"
  "conforms (PDict [(''anyOf'', PList ss)]) v \<longleftrightarrow> list_ex (\<lambda>t. conforms t v) ss"
  "conforms (PDict [(''enum'', PList xs)]) v \<longleftrightarrow> py_in_list v xs"
  "conforms (PDict [(''enum'', PList xs), (''type'', PStr t)]) v \<longleftrightarrow> py_in_list v xs \<and> has_type (PStr t) v"
  "conforms (PDict [(''type'', PStr t), (''enum'', PList xs)]) v \<longleftrightarrow> has_type (PStr t) v \<and> py_in_list v xs"
  "conforms (PDict [(''type'', PStr ''array''), (''items'', s)]) v \<longleftrightarrow>
     is_list v \<and> (case v of PList xs \<Rightarrow> list_all (conforms s) xs | _ \<Rightarrow> True)"
  by (auto simp: conforms.simps [of "PDict _"] keyword_holds_def has_type_def)

lemma conforms_object_schema:
  assumes "json_value (PDict obj)" "dict_ok props"
  shows "conforms (PDict (object_schema title extra props required)) (PDict obj) \<longleftrightarrow>
     list_all (dhas obj) required
     \<and> (extra = Forbid \<longrightarrow> list_all (dhas props) (dkeys obj))
     \<and> list_all (\<lambda>(key, sub). case map_of props key of None \<Rightarrow> True | Some t \<Rightarrow> conforms t sub) obj"
proof -
  have req: "list_all (\<lambda>x. list_ex (\<lambda>q. x = PStr (fst q)) obj) (map PStr required)
      \<longleftrightarrow> list_all (dhas obj) required"
    by (auto simp: list_all_iff list_ex_iff dhas_iff)
  have keys: "list_all (\<lambda>q. dhas props (fst q)) obj \<longleftrightarrow> list_all (dhas props) (dkeys obj)"
    by (auto simp: list_all_iff dkeys_def)
  show ?thesis
    by (cases extra)
      (auto simp: conforms.simps [of "PDict _"] object_schema_def keyword_holds_def has_type_def
        schema_properties_def req keys)
qed

lemma json_type_str: "is_str v \<Longrightarrow> json_type v = ''string''"
  by (cases v) simp_all

lemma py_eq_str: "py_eq v (PStr s) \<longleftrightarrow> v = PStr s"
  by (cases v) (simp_all add: py_eq.simps)

lemma py_in_strs: "list_all is_str args \<Longrightarrow> py_in_list v args \<Longrightarrow> \<exists>s. v = PStr s"
proof (induction args)
  case Nil
  then show ?case by simp
next
  case (Cons a as)
  then obtain s where "a = PStr s" by (cases a) auto
  with Cons show ?case by (auto simp: py_eq_str)
qed

lemma coerce_value_eqs [simp]:
  "coerce_value v AnyT p = Inr v"
  "coerce_value v NoneT p = Inr v"
  "coerce_value v (UnionT as) p =
     (case first_ok (\<lambda>b. if b = NoneT \<and> v = PNone then Inr PNone else coerce_value v b p) as [] of
        Inr w \<Rightarrow> Inr w | Inl errs \<Rightarrow> Inl [NoAllowedType p errs])"
  "coerce_value v (LiteralT args) p = (if py_in_list v args then Inr v else Inl [NotInLiteral p args])"
  "coerce_value v StrT p = (if is_str v then Inr v else Inl [ExpectedClass p ''str''])"
  "coerce_value v IntT p = (if is_int v then Inr v else Inl [ExpectedClass p ''int''])"
  "coerce_value v BoolT p = (if is_bool v then Inr v else Inl [ExpectedClass p ''bool''])"
  by (subst coerce_value.simps, simp)+

lemma coerce_list_ok:
  "coerce_value v (ListT b) p = Inr w \<Longrightarrow>
     \<exists>xs. v = PList xs \<and> (\<forall>x \<in> set xs. \<exists>y. coerce_value x b (p @ ''[]'') = Inr y)"
  by (auto simp: coerce_value.simps [of v "ListT b"] split: pyval.splits sum.splits
      dest: err_sum_map_ok)

lemma coerce_tuple_ok:
  "coerce_value v (TupleT b) p = Inr w \<Longrightarrow> json_value v \<Longrightarrow>
     \<exists>xs. v = PList xs \<and> (\<forall>x \<in> set xs. \<exists>y. coerce_value x b (p @ ''[]'') = Inr y)"
  by (auto simp: coerce_value.simps [of v "TupleT b"] split: pyval.splits sum.splits
      dest: err_sum_map_ok)

lemma coerce_enum_ok: "coerce_value v (EnumT n vals) p = Inr w \<Longrightarrow> \<exists>s \<in> set vals. v = PStr s"
  by (auto simp: coerce_value.simps [of v "EnumT n vals"] split: pyval.splits if_splits)

lemma coerce_dict_ok: "coerce_value v DictT p = Inr w \<Longrightarrow> \<exists>d. v = PDict d"
  by (auto simp: coerce_value.simps [of v DictT] split: pyval.splits)

lemma coerce_float_ok: "coerce_value v FloatT p = Inr w \<Longrightarrow> \<exists>q. v = PFloat q"
  by (auto simp: coerce_value.simps [of v FloatT] split: pyval.splits)

lemma coerce_model_ok:
  assumes "coerce_value v (ModelT name extra fields) p = Inr w" "json_value v"
  shows "\<exists>payload. v = PDict payload
     \<and> model_precheck (map fst fields) extra (required_fields fields) payload = []
     \<and> (\<forall>(n, b, d, k) \<in> set fields. \<forall>x. dget payload n = Some x \<longrightarrow> (\<exists>y. coerce_value x b n = Inr y))"
  using assms
  by (auto simp: coerce_value.simps [of v "ModelT name extra fields"] Let_def
      split: pyval.splits sum.splits list.splits dest!: collect_fields_ok split: sum.splits)

lemma sort_nil_iff: "sort xs = [] \<longleftrightarrow> xs = []"
  by (metis length_0_conv length_sort)

lemma model_precheck_nil:
  assumes "model_precheck allowed extra required payload = []"
  shows "list_all (dhas payload) required" "extra = Forbid \<longrightarrow> set (dkeys payload) \<subseteq> set allowed"
  using assms by (auto simp: model_precheck_def Let_def list_all_iff filter_empty_conv sort_nil_iff split: if_splits)

lemma sum_case_Inr: "(case x of Inl e \<Rightarrow> Inl (f e) | Inr w \<Rightarrow> Inr w) = Inr y \<longleftrightarrow> x = Inr y"
  by (cases x) simp_all

definition coerces :: "pyval \<Rightarrow> annot \<Rightarrow> bool" where
  "coerces v a \<longleftrightarrow> (\<exists>p w. coerce_value v a p = Inr w)"

lemma coercesI: "coerce_value v a p = Inr w \<Longrightarrow> coerces v a"
  by (auto simp: coerces_def)

lemma coerces_union:
  assumes "coerces v (UnionT as)" "NoneT \<notin> set as"
  shows "\<exists>b \<in> set as. coerces v b"
proof -
  obtain p w where "first_ok (\<lambda>b. if b = NoneT \<and> v = PNone then Inr PNone else coerce_value v b p) as [] = Inr w"
    using assms(1) by (auto simp: coerces_def sum_case_Inr)
  from first_ok_ok [OF this] obtain b where "b \<in> set as"
    "(if b = NoneT \<and> v = PNone then Inr PNone else coerce_value v b p) = Inr w" by blast
  moreover have "b \<noteq> NoneT" using assms(2) calculation(1) by auto
  ultimately show ?thesis by (auto simp: coerces_def intro!: bexI [of _ b])
qed

lemma coerces_list: "coerces v (ListT b) \<Longrightarrow> \<exists>xs. v = PList xs \<and> (\<forall>x \<in> set xs. coerces x b)"
  unfolding coerces_def [of v] by (auto dest!: coerce_list_ok) (drule (1) bspec, auto intro: coercesI)

lemma coerces_tuple:
  "coerces v (TupleT b) \<Longrightarrow> json_value v \<Longrightarrow> \<exists>xs. v = PList xs \<and> (\<forall>x \<in> set xs. coerces x b)"
  unfolding coerces_def [of v] by (auto dest!: coerce_tuple_ok) (drule (1) bspec, auto intro: coercesI)

lemma coerces_model:
  assumes "coerces v (ModelT name extra fields)" "json_value v"
  shows "\<exists>payload. v = PDict payload
     \<and> model_precheck (map fst fields) extra (required_fields fields) payload = []
     \<and> (\<forall>(n, b, d, k) \<in> set fields. \<forall>x. dget payload n = Some x \<longrightarrow> coerces x b)"
proof -
  obtain p w where "coerce_value v (ModelT name extra fields) p = Inr w"
    using assms(1) by (auto simp: coerces_def)
  from coerce_model_ok [OF this assms(2)] obtain payload where "v = PDict payload"
    "model_precheck (map fst fields) extra (required_fields fields) payload = []"
    and f: "\<forall>(n, b, d, k) \<in> set fields. \<forall>x. dget payload n = Some x \<longrightarrow> (\<exists>y. coerce_value x b n = Inr y)"
    by (elim exE conjE)
  moreover have "coerces x b" if "(n, b, d, k) \<in> set fields" "dget payload n = Some x" for n b d k x
    using bspec [OF f that(1)] that(2) by (auto simp: coerces_def)
  ultimately show ?thesis by auto
qed

lemma json_dict_ok: "json_value (PDict d) \<Longrightarrow> dget d k = Some x \<Longrightarrow> json_value x"
  by (auto simp: list_all_iff dget_def dest!: map_of_SomeD)

lemma conforms_any: "conforms (PDict []) v"
  by (simp add: conforms.simps [of "PDict _"])

lemma coerce_sound:
  "plain_annot a \<Longrightarrow> json_value v \<Longrightarrow> coerces v a \<Longrightarrow> conforms (PDict (schema_for_type a no_constraints)) v"
proof (induction a arbitrary: v rule: plain_annot.induct)
  case (1 a)
  note IH = "1.IH" and prems = "1.prems"
  show ?case
  proof (cases a)
    case (UnionT as)
    have nn: "NoneT \<notin> set as" using prems(1) by (auto simp: UnionT list_all_iff)
    obtain b where b: "b \<in> set as" "coerces v b"
      using coerces_union [OF prems(3) [unfolded UnionT] nn] by blast
    moreover have "b \<noteq> NoneT" "plain_annot b"
      using prems(1) b by (auto simp: UnionT list_all_iff)
    ultimately have "conforms (PDict (schema_for_type b no_constraints)) v"
      using IH(3) [OF UnionT b(1)] prems(2) by simp
    with b \<open>b \<noteq> NoneT\<close> show ?thesis
      by (auto simp: UnionT conforms_simple list_ex_iff intro!: bexI [of _ b])
  next
    case (ListT b)
    then show ?thesis
      using coerces_list [OF prems(3) [unfolded ListT]] IH(1) [OF ListT] prems(1,2)
      by (auto simp: conforms_simple list_all_iff)
  next
    case (TupleT b)
    then show ?thesis
      using coerces_tuple [OF prems(3) [unfolded TupleT] prems(2)] IH(2) [OF TupleT] prems(1,2)
      by (auto simp: conforms_simple list_all_iff)
  next
    case (LiteralT args)
    then show ?thesis
      using prems py_in_strs [of args v]
      by (cases args) (auto simp: coerces_def conforms_simple has_type_def json_type_str split: if_splits)
  next
    case (EnumT name vals)
    then show ?thesis
      using prems coerce_enum_ok
      by (auto simp: coerces_def conforms_simple has_type_def py_in_list_def list_ex_iff dest!: coerce_enum_ok)
  next
    case (ModelT name extra fields)
    let ?props = "map (\<lambda>(n, b, d, k). (n, PDict (schema_for_type b k))) fields"
    have fst: "map fst ?props = map fst fields" by (induction fields) auto
    have dk: "dict_ok ?props" unfolding dict_ok_def fst using prems by (simp add: ModelT)
    obtain payload where v: "v = PDict payload"
      and pre: "model_precheck (map fst fields) extra (required_fields fields) payload = []"
      and sub: "\<And>n b d k x. (n, b, d, k) \<in> set fields \<Longrightarrow> dget payload n = Some x \<Longrightarrow> coerces x b"
      using coerces_model [OF prems(3) [unfolded ModelT] prems(2)] by blast
    have ok: "dict_ok payload" using prems(2) by (simp add: v)
    have "conforms t x" if kx: "(key, x) \<in> set payload" and t: "map_of ?props key = Some t" for key x t
    proof -
      obtain b d k where f: "(key, b, d, k) \<in> set fields" "t = PDict (schema_for_type b k)"
        using map_of_SomeD [OF t] by auto
      have x: "dget payload key = Some x" using ok kx by (simp add: dget_def dict_ok_def)
      have k: "k = no_constraints" "plain_annot b" using prems(1) f by (auto simp: ModelT list_all_iff)
      show ?thesis
        using IH(4) [OF ModelT f(1) refl refl refl k(2) json_dict_ok [OF _ x] sub [OF f(1) x]] prems(2)
        by (simp add: f k v)
    qed
    moreover have "list_all (dhas payload) (required_fields fields)"
      "extra = Forbid \<longrightarrow> list_all (dhas ?props) (dkeys payload)"
      using model_precheck_nil [OF pre] fst by (auto simp: list_all_iff dhas_iff)
    ultimately show ?thesis
      using conforms_object_schema [OF prems(2) [unfolded v] dk]
      by (auto simp: ModelT v list_all_iff split: option.splits)
  next
    case DictT
    then show ?thesis using prems by (auto simp: coerces_def conforms_simple has_type_def dest!: coerce_dict_ok)
  next
    case FloatT
    then show ?thesis using prems by (auto simp: coerces_def conforms_simple has_type_def dest!: coerce_float_ok)
  qed (use prems in \<open>auto simp: coerces_def conforms_simple conforms_any has_type_def split: if_splits\<close>)
qed

lemma first_ok_member: "x \<in> set xs \<Longrightarrow> f x = Inr y \<Longrightarrow> \<exists>w. first_ok f xs es = Inr w"
  by (induction xs arbitrary: es) (auto split: sum.splits)

section \<open>Properties\<close>

text \<open>
  C12: every payload a plain input model accepts (\<open>model_validate\<close> returns) passes the
  checker on the JSON schema the same model emits: the two ways the program validates a step's
  inputs cannot disagree in that direction.
\<close>

theorem accepted_payload_passes_emitted_schema:
  assumes "plain_annot m" "json_value v" "model_validate m v = Inr w"
    and "size (PDict (model_json_schema m)) < fuel"
  shows "validate_payload_against_schema fuel v (PDict (model_json_schema m)) = Inr []"
proof -
  have "conforms (PDict (model_json_schema m)) v"
    using assms coerce_sound [of m v] by (auto simp: coerces_def model_validate_def model_json_schema_def)
  moreover have "wf_schema (PDict (model_json_schema m))"
    unfolding model_json_schema_def using plain_annot_ok [OF assms(1)] by (rule generated_schema_wf)
  ultimately show ?thesis
    using validate_exact [of "PDict (model_json_schema m)" fuel] assms(4)
    unfolding validate_payload_against_schema_def by auto
qed

text \<open>
  A field annotated with a union that has \<open>None\<close> as a member accepts every value
  whatever: the branch for the class \<open>NoneType\<close> falls through to the final
  \<open>return value\<close>.
\<close>

theorem optional_accepts_anything:
  assumes "NoneT \<in> set as"
  shows "\<exists>w. coerce_value v (UnionT as) path = Inr w"
  using first_ok_member [OF assms, of "\<lambda>b. if b = NoneT \<and> v = PNone then Inr PNone else coerce_value v b path"
    PNone "[]"]
    first_ok_member [OF assms, of "\<lambda>b. if b = NoneT \<and> v = PNone then Inr PNone else coerce_value v b path"
    v "[]"]
  by (cases "v = PNone") (auto split: sum.splits)

theorem optional_accepts_anything_witness:
  "\<exists>w. coerce_value (PInt 5) (UnionT [StrT, NoneT]) ''cwd'' = Inr w"
  by (rule optional_accepts_anything) simp

definition sample_model :: annot where
  "sample_model = ModelT ''RunCommandStepInput'' Forbid
     [(''cmd'', ListT StrT, None, no_constraints),
      (''shell'', BoolT, Some (PBool False), no_constraints)]"

theorem accepted_payload_passes_emitted_schema_witness:
  "validate_payload_against_schema 100 (PDict [(''cmd'', PList [PStr ''ls''])])
     (PDict (model_json_schema sample_model)) = Inr []"
proof (rule accepted_payload_passes_emitted_schema)
  show "plain_annot sample_model" by (simp add: sample_model_def)
  show "json_value (PDict [(''cmd'', PList [PStr ''ls''])])" by (simp add: dict_ok_def)
  show "model_validate sample_model (PDict [(''cmd'', PList [PStr ''ls''])]) =
      Inr (PObj ''RunCommandStepInput'' [(''cmd'', PList [PStr ''ls'']), (''shell'', PBool False)])"
    by (simp add: model_validate_def sample_model_def coerce_value.simps [of _ "ModelT _ _ _"]
        coerce_value.simps [of _ "ListT _"] Let_def model_precheck_def required_fields_def extra_values_def)
  show "size (PDict (model_json_schema sample_model)) < 100"
    by (simp add: model_json_schema_def sample_model_def object_schema_def required_fields_def)
qed

end
