(* ===== verification/BuiltinCapabilities.thy ===== *)
theory BuiltinCapabilities
  imports Capability PydanticCompat
begin

text \<open>
  The payload models of \<open>capability/capability_io_models.py\<close>, as values of \<open>annot\<close>, and
  the descriptors and factory of \<open>capability/builtin_capabilities.py\<close>. Every descriptor
  carries the JSON schema \<open>model_json_schema\<close> emits for its models. The theorems: the factory
  builds a registry, every schema in it is well-formed (so the checker is exact on it), and every
  example of a descriptor passes its own schema.
\<close>

section \<open>Payload models\<close>

definition InspectExecPayload :: annot where
  "InspectExecPayload = ModelT ''InspectExecPayload'' Forbid
     [(''cmd'', ListT StrT, None, Constraints (Some 1) None None),
      (''cwd'', UnionT [StrT, NoneT], Some PNone, no_constraints),
      (''timeout_sec'', IntT, Some (PInt 30), Constraints None (Some 1) (Some 300))]"

definition RunPythonPayload :: annot where
  "RunPythonPayload = ModelT ''RunPythonPayload'' Forbid
     [(''argv'', ListT StrT, None, Constraints (Some 1) None None),
      (''timeout_sec'', IntT, Some (PInt 30), Constraints None (Some 1) (Some 300))]"

definition RunCommandInput :: annot where
  "RunCommandInput = ModelT ''RunCommandInput'' Forbid
     [(''action'', LiteralT [PStr ''inspect_exec'', PStr ''run_python''], None, no_constraints),
      (''payload'', UnionT [InspectExecPayload, RunPythonPayload], None, no_constraints)]"

definition RunCommandOutput :: annot where
  "RunCommandOutput = ModelT ''RunCommandOutput'' Allow
     [(''exit_code'', UnionT [IntT, NoneT], Some PNone, no_constraints),
      (''stdout'', StrT, Some (PStr []), no_constraints),
      (''stderr'', StrT, Some (PStr []), no_constraints),
      (''artifact_refs'', ListT StrT, Some (PList []), no_constraints)]"

definition InspectPackageInput :: annot where
  "InspectPackageInput = ModelT ''InspectPackageInput'' Forbid
     [(''package_type'', LiteralT [PStr ''java'', PStr ''python'', PStr ''unknown''], Some (PStr ''unknown''), no_constraints),
      (''input_refs'', DictT, Some (PDict []), no_constraints)]"

definition InspectPackageOutput :: annot where
  "InspectPackageOutput = ModelT ''InspectPackageOutput'' Allow
     [(''inspection_status'', StrT, None, no_constraints),
      (''package_report'', DictT, Some (PDict []), no_constraints)]"

definition DockerfileRef :: annot where
  "DockerfileRef = ModelT ''DockerfileRef'' Forbid
     [(''artifact_ref'', StrT, None, no_constraints),
      (''path_in_context'', UnionT [StrT, NoneT], Some PNone, no_constraints)]"

definition BuildContextRef :: annot where
  "BuildContextRef = ModelT ''BuildContextRef'' Forbid
     [(''artifact_ref'', UnionT [StrT, NoneT], Some PNone, no_constraints),
      (''context_dir'', UnionT [StrT, NoneT], Some PNone, no_constraints)]"

definition BuildImageInput :: annot where
  "BuildImageInput = ModelT ''BuildImageInput'' Forbid
     [(''image_name'', StrT, None, no_constraints),
      (''dockerfile'', DockerfileRef, None, no_constraints),
      (''tag'', UnionT [StrT, NoneT], Some PNone, no_constraints),
      (''context'', UnionT [BuildContextRef, NoneT], Some PNone, no_constraints),
      (''build_args'', DictT, Some (PDict []), no_constraints)]"

definition BuildImageOutput :: annot where
  "BuildImageOutput = ModelT ''BuildImageOutput'' Allow
     [(''image_ref'', UnionT [StrT, NoneT], Some PNone, no_constraints),
      (''image_id'', UnionT [StrT, NoneT], Some PNone, no_constraints),
      (''build_log_artifact_id'', UnionT [StrT, NoneT], Some PNone, no_constraints)]"

definition CreateRuntimeInput :: annot where
  "CreateRuntimeInput = ModelT ''CreateRuntimeInput'' Forbid
     [(''image_ref'', StrT, None, no_constraints),
      (''name'', UnionT [StrT, NoneT], Some PNone, no_constraints),
      (''command'', UnionT [ListT StrT, NoneT], Some PNone, no_constraints),
      (''env'', DictT, Some (PDict []), no_constraints),
      (''ports'', DictT, Some (PDict []), no_constraints),
      (''start'', BoolT, Some (PBool True), no_constraints),
      (''reusable'', BoolT, Some (PBool False), no_constraints)]"

definition CreateRuntimeOutput :: annot where
  "CreateRuntimeOutput = ModelT ''CreateRuntimeOutput'' Allow
     [(''runtime_ref'', UnionT [StrT, NoneT], Some PNone, no_constraints),
      (''container_id'', UnionT [StrT, NoneT], Some PNone, no_constraints),
      (''deployment_id'', UnionT [StrT, NoneT], Some PNone, no_constraints)]"

definition InspectEnvironmentInput :: annot where
  "InspectEnvironmentInput = ModelT ''InspectEnvironmentInput'' Forbid
     [(''runtime_ref'', UnionT [StrT, NoneT], Some PNone, no_constraints),
      (''container_id'', UnionT [StrT, NoneT], Some PNone, no_constraints),
      (''probes'', ListT StrT, Some (PList []), no_constraints)]"

definition InspectEnvironmentOutput :: annot where
  "InspectEnvironmentOutput = ModelT ''InspectEnvironmentOutput'' Allow
     [(''env_status'', StrT, None, no_constraints),
      (''env_report'', DictT, Some (PDict []), no_constraints)]"

definition ExecuteProbeInput :: annot where
  "ExecuteProbeInput = ModelT ''ExecuteProbeInput'' Forbid
     [(''probe_name'', StrT, None, no_constraints),
      (''payload'', InspectExecPayload, None, no_constraints),
      (''action'', LiteralT [PStr ''inspect_exec''], Some (PStr ''inspect_exec''), no_constraints)]"

definition ExecuteProbeOutput :: annot where
  "ExecuteProbeOutput = ModelT ''ExecuteProbeOutput'' Allow
     [(''probe_status'', StrT, None, no_constraints),
      (''stdout'', StrT, Some (PStr []), no_constraints),
      (''stderr'', StrT, Some (PStr []), no_constraints),
      (''exit_code'', UnionT [IntT, NoneT], Some PNone, no_constraints),
      (''artifact_refs'', ListT StrT, Some (PList []), no_constraints)]"

definition CollectArtifactInput :: annot where
  "CollectArtifactInput = ModelT ''CollectArtifactInput'' Forbid
     [(''source_path'', StrT, None, no_constraints),
      (''artifact_kind'', StrT, None, no_constraints),
      (''mime_type'', StrT, Some (PStr ''application/octet-stream''), no_constraints),
      (''name'', UnionT [StrT, NoneT], Some PNone, no_constraints),
      (''metadata'', DictT, Some (PDict []), no_constraints)]"

definition CollectArtifactOutput :: annot where
  "CollectArtifactOutput = ModelT ''CollectArtifactOutput'' Allow
     [(''artifact_id'', UnionT [StrT, NoneT], Some PNone, no_constraints),
      (''artifact_ref'', UnionT [StrT, NoneT], Some PNone, no_constraints)]"

definition EmptyPlaceholderInput :: annot where
  "EmptyPlaceholderInput = ModelT ''EmptyPlaceholderInput'' Allow
     []"

definition EmptyPlaceholderOutput :: annot where
  "EmptyPlaceholderOutput = ModelT ''EmptyPlaceholderOutput'' Allow
     []"

section \<open>Descriptors\<close>

text \<open>The constructor of \<open>CapabilityDescriptor\<close> with the defaults of the optional fields.\<close>

definition descriptor_with_defaults ::
  "string \<Rightarrow> string \<Rightarrow> string \<Rightarrow> string \<Rightarrow> string \<Rightarrow> string \<Rightarrow> capability_descriptor" where
  "descriptor_with_defaults capability_id version step_kind owner_module name description =
     \<lparr>cd_capability_id = capability_id, cd_version = version, cd_step_kind = step_kind,
      cd_owner_module = owner_module, cd_name = name, cd_description = description,
      cd_executor_name = None, cd_input_model_ref = None, cd_output_model_ref = None,
      cd_input_schema = [], cd_output_schema = [], cd_required_context_keys = [],
      cd_required_capabilities = [], cd_risk_level = LOW, cd_visibility = PLANNER_VISIBLE,
      cd_default_enabled = True, cd_is_placeholder = False, cd_is_deprecated = False,
      cd_examples = [], cd_tags = [], cd_metadata = []\<rparr>"

definition INSPECT_PACKAGE_CAPABILITY :: capability_descriptor where
  "INSPECT_PACKAGE_CAPABILITY =
     (descriptor_with_defaults ''cap.inspect_package.v1'' ''1.0.0'' ''inspect_package''
       ''inspection.package_inspector'' ''Inspect package input''
       ''Inspect package input metadata and produce a package report.'')
     \<lparr>cd_executor_name := Some ''InspectPackageStepExecutor'',
      cd_input_model_ref := Some ''InspectPackageInput'',
      cd_output_model_ref := Some ''InspectPackageOutput'',
      cd_input_schema := model_json_schema InspectPackageInput,
      cd_output_schema := model_json_schema InspectPackageOutput,
      cd_required_context_keys := [''package_inspector''],
      cd_risk_level := LOW,
      cd_visibility := PLANNER_VISIBLE,
      cd_examples := [[(''step_id'', PStr ''inspect_package''), (''kind'', PStr ''inspect_package''), (''inputs'', PDict [(''package_type'', PStr ''java''), (''input_refs'', PDict [(''jar'', PStr ''artifact_jar'')])])]],
      cd_tags := [''inspection'', ''package'']\<rparr>"

definition BUILD_IMAGE_CAPABILITY :: capability_descriptor where
  "BUILD_IMAGE_CAPABILITY =
     (descriptor_with_defaults ''cap.build_image.docker.v1'' ''1.0.0'' ''build_image''
       ''docker_driver'' ''Build Docker image''
       ''Build a Docker image from an artifact-backed Dockerfile and optional build context.'')
     \<lparr>cd_executor_name := Some ''BuildImageStepExecutor'',
      cd_input_model_ref := Some ''BuildImageInput'',
      cd_output_model_ref := Some ''BuildImageOutput'',
      cd_input_schema := model_json_schema BuildImageInput,
      cd_output_schema := model_json_schema BuildImageOutput,
      cd_required_context_keys := [''docker_driver''],
      cd_risk_level := MEDIUM,
      cd_visibility := PLANNER_VISIBLE,
      cd_examples := [[(''step_id'', PStr ''build_image''), (''kind'', PStr ''build_image''), (''inputs'', PDict [(''image_name'', PStr ''demo-sdk''), (''tag'', PStr ''latest''), (''dockerfile'', PDict [(''artifact_ref'', PStr ''artifact_dockerfile'')])])]],
      cd_tags := [''docker'', ''build'']\<rparr>"

definition CREATE_RUNTIME_CAPABILITY :: capability_descriptor where
  "CREATE_RUNTIME_CAPABILITY =
     (descriptor_with_defaults ''cap.create_runtime.docker.v1'' ''1.0.0'' ''create_runtime''
       ''control_plane.runtime_manager'' ''Create runtime''
       ''Create and optionally start a managed runtime from an image reference.'')
     \<lparr>cd_executor_name := Some ''CreateRuntimeStepExecutor'',
      cd_input_model_ref := Some ''CreateRuntimeInput'',
      cd_output_model_ref := Some ''CreateRuntimeOutput'',
      cd_input_schema := model_json_schema CreateRuntimeInput,
      cd_output_schema := model_json_schema CreateRuntimeOutput,
      cd_required_context_keys := [''runtime_manager''],
      cd_risk_level := MEDIUM,
      cd_visibility := PLANNER_VISIBLE,
      cd_examples := [[(''step_id'', PStr ''create_runtime''), (''kind'', PStr ''create_runtime''), (''inputs'', PDict [(''image_ref'', PStr ''demo-sdk:latest''), (''start'', PBool True)])]],
      cd_tags := [''runtime'', ''docker'']\<rparr>"

definition INSPECT_ENVIRONMENT_CAPABILITY :: capability_descriptor where
  "INSPECT_ENVIRONMENT_CAPABILITY =
     (descriptor_with_defaults ''cap.inspect_environment.docker.v1'' ''1.0.0'' ''inspect_environment''
       ''inspection.env_inspector'' ''Inspect environment''
       ''Inspect runtime readiness and environment details with read-only probes.'')
     \<lparr>cd_executor_name := Some ''InspectEnvironmentStepExecutor'',
      cd_input_model_ref := Some ''InspectEnvironmentInput'',
      cd_output_model_ref := Some ''InspectEnvironmentOutput'',
      cd_input_schema := model_json_schema InspectEnvironmentInput,
      cd_output_schema := model_json_schema InspectEnvironmentOutput,
      cd_required_context_keys := [''env_inspector''],
      cd_risk_level := LOW,
      cd_visibility := PLANNER_VISIBLE,
      cd_examples := [[(''step_id'', PStr ''inspect_environment''), (''kind'', PStr ''inspect_environment''), (''inputs'', PDict [(''runtime_ref'', PStr ''runtime_1''), (''probes'', PList [PStr ''java -version''])])]],
      cd_tags := [''inspection'', ''environment'']\<rparr>"

definition RUN_COMMAND_CAPABILITY :: capability_descriptor where
  "RUN_COMMAND_CAPABILITY =
     (descriptor_with_defaults ''cap.run_command.inspect_exec.v1'' ''1.0.0'' ''run_command''
       ''cmd_ctrl'' ''Run readonly command''
       ''Run a low-risk command through cmd_ctrl using a declared safe action payload.'')
     \<lparr>cd_executor_name := Some ''RunCommandStepExecutor'',
      cd_input_model_ref := Some ''RunCommandInput'',
      cd_output_model_ref := Some ''RunCommandOutput'',
      cd_input_schema := model_json_schema RunCommandInput,
      cd_output_schema := model_json_schema RunCommandOutput,
      cd_required_context_keys := [''command_controller''],
      cd_risk_level := LOW,
      cd_visibility := PLANNER_VISIBLE,
      cd_examples := [[(''step_id'', PStr ''check_java_version''), (''kind'', PStr ''run_command''), (''inputs'', PDict [(''action'', PStr ''inspect_exec''), (''payload'', PDict [(''cmd'', PList [PStr ''java'', PStr ''-version'']), (''timeout_sec'', PInt 30)])])]],
      cd_tags := [''cmd_ctrl'', ''readonly'', ''inspect'']\<rparr>"

definition EXECUTE_PROBE_CAPABILITY :: capability_descriptor where
  "EXECUTE_PROBE_CAPABILITY =
     (descriptor_with_defaults ''cap.execute_probe.inspect_exec.v1'' ''1.0.0'' ''execute_probe''
       ''cmd_ctrl'' ''Execute readiness probe''
       ''Run a named read-only readiness probe through cmd_ctrl InspectExecOperator.'')
     \<lparr>cd_executor_name := Some ''ExecuteProbeStepExecutor'',
      cd_input_model_ref := Some ''ExecuteProbeInput'',
      cd_output_model_ref := Some ''ExecuteProbeOutput'',
      cd_input_schema := model_json_schema ExecuteProbeInput,
      cd_output_schema := model_json_schema ExecuteProbeOutput,
      cd_required_context_keys := [''command_controller''],
      cd_risk_level := LOW,
      cd_visibility := PLANNER_VISIBLE,
      cd_examples := [[(''step_id'', PStr ''probe_pwd''), (''kind'', PStr ''execute_probe''), (''inputs'', PDict [(''probe_name'', PStr ''pwd''), (''payload'', PDict [(''cmd'', PList [PStr ''pwd''])])])]],
      cd_tags := [''probe'', ''readonly'']\<rparr>"

definition COLLECT_ARTIFACT_CAPABILITY :: capability_descriptor where
  "COLLECT_ARTIFACT_CAPABILITY =
     (descriptor_with_defaults ''cap.collect_artifact.v1'' ''1.0.0'' ''collect_artifact''
       ''artifact_manager'' ''Collect artifact''
       ''Persist an execution artifact reference through artifact_manager owned orchestration.'')
     \<lparr>cd_executor_name := Some ''CollectArtifactStepExecutor'',
      cd_input_model_ref := Some ''CollectArtifactInput'',
      cd_output_model_ref := Some ''CollectArtifactOutput'',
      cd_input_schema := model_json_schema CollectArtifactInput,
      cd_output_schema := model_json_schema CollectArtifactOutput,
      cd_required_context_keys := [''artifact_manager''],
      cd_risk_level := LOW,
      cd_visibility := PLANNER_VISIBLE,
      cd_examples := [[(''step_id'', PStr ''collect_log''), (''kind'', PStr ''collect_artifact''), (''inputs'', PDict [(''source_path'', PStr ''logs/app.log''), (''artifact_kind'', PStr ''exec.log''), (''name'', PStr ''app.log'')])]],
      cd_tags := [''artifact'', ''reporting'']\<rparr>"

definition placeholder_descriptor :: "string \<Rightarrow> string \<Rightarrow> string \<Rightarrow> capability_descriptor" where
  "placeholder_descriptor step_kind executor_name name =
     (descriptor_with_defaults (''cap.'' @ step_kind @ ''.placeholder.v1'') ''0.1.0'' step_kind
       ''execution.step_executors'' name
       (''Placeholder for future '' @ py_lower name @ '' integration.''))
     \<lparr>cd_executor_name := Some executor_name,
      cd_input_model_ref := Some ''EmptyPlaceholderInput'',
      cd_output_model_ref := Some ''EmptyPlaceholderOutput'',
      cd_input_schema := model_json_schema EmptyPlaceholderInput,
      cd_output_schema := model_json_schema EmptyPlaceholderOutput,
      cd_required_context_keys := [],
      cd_risk_level := MEDIUM,
      cd_visibility := PLANNER_VISIBLE,
      cd_default_enabled := False,
      cd_is_placeholder := True,
      cd_tags := [''placeholder'']\<rparr>"

definition PARSE_TEXT_CAPABILITY :: capability_descriptor where
  "PARSE_TEXT_CAPABILITY = placeholder_descriptor ''parse_text'' ''ParseTextStepExecutor'' ''Parse text''"

definition GENERATE_SCRIPT_CAPABILITY :: capability_descriptor where
  "GENERATE_SCRIPT_CAPABILITY = placeholder_descriptor ''generate_script'' ''GenerateScriptStepExecutor'' ''Generate script''"

definition RUN_TEST_CAPABILITY :: capability_descriptor where
  "RUN_TEST_CAPABILITY = placeholder_descriptor ''run_test'' ''RunTestStepExecutor'' ''Run test''"

definition SUMMARIZE_REPORT_CAPABILITY :: capability_descriptor where
  "SUMMARIZE_REPORT_CAPABILITY = placeholder_descriptor ''summarize_report'' ''SummarizeReportStepExecutor'' ''Summarize report''"

definition BUILTIN_CAPABILITIES :: "capability_descriptor list" where
  "BUILTIN_CAPABILITIES =
     [INSPECT_PACKAGE_CAPABILITY, BUILD_IMAGE_CAPABILITY, CREATE_RUNTIME_CAPABILITY,
      INSPECT_ENVIRONMENT_CAPABILITY, RUN_COMMAND_CAPABILITY, EXECUTE_PROBE_CAPABILITY,
      COLLECT_ARTIFACT_CAPABILITY, PARSE_TEXT_CAPABILITY, GENERATE_SCRIPT_CAPABILITY,
      RUN_TEST_CAPABILITY, SUMMARIZE_REPORT_CAPABILITY]"

definition build_builtin_capability_registry :: "capability_registry res" where
  "build_builtin_capability_registry =
     register_all register_capability BUILTIN_CAPABILITIES new_capability_registry"

section \<open>The payload models are well-formed\<close>

lemmas input_model_defs =
  InspectExecPayload_def RunPythonPayload_def RunCommandInput_def InspectPackageInput_def
  DockerfileRef_def BuildContextRef_def BuildImageInput_def CreateRuntimeInput_def
  InspectEnvironmentInput_def ExecuteProbeInput_def CollectArtifactInput_def EmptyPlaceholderInput_def

lemmas output_model_defs =
  RunCommandOutput_def InspectPackageOutput_def BuildImageOutput_def CreateRuntimeOutput_def
  InspectEnvironmentOutput_def ExecuteProbeOutput_def CollectArtifactOutput_def EmptyPlaceholderOutput_def

lemmas builtin_descriptor_defs =
  INSPECT_PACKAGE_CAPABILITY_def BUILD_IMAGE_CAPABILITY_def CREATE_RUNTIME_CAPABILITY_def
  INSPECT_ENVIRONMENT_CAPABILITY_def RUN_COMMAND_CAPABILITY_def EXECUTE_PROBE_CAPABILITY_def
  COLLECT_ARTIFACT_CAPABILITY_def PARSE_TEXT_CAPABILITY_def GENERATE_SCRIPT_CAPABILITY_def
  RUN_TEST_CAPABILITY_def SUMMARIZE_REPORT_CAPABILITY_def placeholder_descriptor_def
  descriptor_with_defaults_def

definition io_models :: "annot list" where
  "io_models =
     [InspectPackageInput, InspectPackageOutput, BuildImageInput, BuildImageOutput,
      CreateRuntimeInput, CreateRuntimeOutput, InspectEnvironmentInput, InspectEnvironmentOutput,
      RunCommandInput, RunCommandOutput, ExecuteProbeInput, ExecuteProbeOutput,
      CollectArtifactInput, CollectArtifactOutput, EmptyPlaceholderInput, EmptyPlaceholderOutput]"

lemma min_length_simps [simp]:
  "min_length no_constraints = None"
  by (simp add: no_constraints_def)

lemma io_models_ok: "m \<in> set io_models \<Longrightarrow> annot_ok m no_constraints"
  unfolding io_models_def
  by (auto simp: input_model_defs output_model_defs)

lemma io_model_schema_wf: "m \<in> set io_models \<Longrightarrow> wf_schema (PDict (model_json_schema m))"
  unfolding model_json_schema_def by (intro generated_schema_wf io_models_ok)

lemma builtin_fields [simp]:
  "cd_capability_id INSPECT_PACKAGE_CAPABILITY = ''cap.inspect_package.v1''" "cd_step_kind INSPECT_PACKAGE_CAPABILITY = ''inspect_package''"
  "cd_input_schema INSPECT_PACKAGE_CAPABILITY = model_json_schema InspectPackageInput"
  "cd_output_schema INSPECT_PACKAGE_CAPABILITY = model_json_schema InspectPackageOutput"
  "cd_capability_id BUILD_IMAGE_CAPABILITY = ''cap.build_image.docker.v1''" "cd_step_kind BUILD_IMAGE_CAPABILITY = ''build_image''"
  "cd_input_schema BUILD_IMAGE_CAPABILITY = model_json_schema BuildImageInput"
  "cd_output_schema BUILD_IMAGE_CAPABILITY = model_json_schema BuildImageOutput"
  "cd_capability_id CREATE_RUNTIME_CAPABILITY = ''cap.create_runtime.docker.v1''" "cd_step_kind CREATE_RUNTIME_CAPABILITY = ''create_runtime''"
  "cd_input_schema CREATE_RUNTIME_CAPABILITY = model_json_schema CreateRuntimeInput"
  "cd_output_schema CREATE_RUNTIME_CAPABILITY = model_json_schema CreateRuntimeOutput"
  "cd_capability_id INSPECT_ENVIRONMENT_CAPABILITY = ''cap.inspect_environment.docker.v1''" "cd_step_kind INSPECT_ENVIRONMENT_CAPABILITY = ''inspect_environment''"
  "cd_input_schema INSPECT_ENVIRONMENT_CAPABILITY = model_json_schema InspectEnvironmentInput"
  "cd_output_schema INSPECT_ENVIRONMENT_CAPABILITY = model_json_schema InspectEnvironmentOutput"
  "cd_capability_id RUN_COMMAND_CAPABILITY = ''cap.run_command.inspect_exec.v1''" "cd_step_kind RUN_COMMAND_CAPABILITY = ''run_command''"
  "cd_input_schema RUN_COMMAND_CAPABILITY = model_json_schema RunCommandInput"
  "cd_output_schema RUN_COMMAND_CAPABILITY = model_json_schema RunCommandOutput"
  "cd_capability_id EXECUTE_PROBE_CAPABILITY = ''cap.execute_probe.inspect_exec.v1''" "cd_step_kind EXECUTE_PROBE_CAPABILITY = ''execute_probe''"
  "cd_input_schema EXECUTE_PROBE_CAPABILITY = model_json_schema ExecuteProbeInput"
  "cd_output_schema EXECUTE_PROBE_CAPABILITY = model_json_schema ExecuteProbeOutput"
  "cd_capability_id COLLECT_ARTIFACT_CAPABILITY = ''cap.collect_artifact.v1''" "cd_step_kind COLLECT_ARTIFACT_CAPABILITY = ''collect_artifact''"
  "cd_input_schema COLLECT_ARTIFACT_CAPABILITY = model_json_schema CollectArtifactInput"
  "cd_output_schema COLLECT_ARTIFACT_CAPABILITY = model_json_schema CollectArtifactOutput"
  "cd_capability_id PARSE_TEXT_CAPABILITY = ''cap.parse_text.placeholder.v1''" "cd_step_kind PARSE_TEXT_CAPABILITY = ''parse_text''"
  "cd_input_schema PARSE_TEXT_CAPABILITY = model_json_schema EmptyPlaceholderInput"
  "cd_output_schema PARSE_TEXT_CAPABILITY = model_json_schema EmptyPlaceholderOutput"
  "cd_capability_id GENERATE_SCRIPT_CAPABILITY = ''cap.generate_script.placeholder.v1''" "cd_step_kind GENERATE_SCRIPT_CAPABILITY = ''generate_script''"
  "cd_input_schema GENERATE_SCRIPT_CAPABILITY = model_json_schema EmptyPlaceholderInput"
  "cd_output_schema GENERATE_SCRIPT_CAPABILITY = model_json_schema EmptyPlaceholderOutput"
  "cd_capability_id RUN_TEST_CAPABILITY = ''cap.run_test.placeholder.v1''" "cd_step_kind RUN_TEST_CAPABILITY = ''run_test''"
  "cd_input_schema RUN_TEST_CAPABILITY = model_json_schema EmptyPlaceholderInput"
  "cd_output_schema RUN_TEST_CAPABILITY = model_json_schema EmptyPlaceholderOutput"
  "cd_capability_id SUMMARIZE_REPORT_CAPABILITY = ''cap.summarize_report.placeholder.v1''" "cd_step_kind SUMMARIZE_REPORT_CAPABILITY = ''summarize_report''"
  "cd_input_schema SUMMARIZE_REPORT_CAPABILITY = model_json_schema EmptyPlaceholderInput"
  "cd_output_schema SUMMARIZE_REPORT_CAPABILITY = model_json_schema EmptyPlaceholderOutput"
  by (simp_all add: builtin_descriptor_defs)

lemma builtin_schema_models:
  "list_all (\<lambda>d. cd_input_schema d \<in> model_json_schema ` set io_models
     \<and> cd_output_schema d \<in> model_json_schema ` set io_models) BUILTIN_CAPABILITIES"
  unfolding BUILTIN_CAPABILITIES_def by (simp add: io_models_def)

lemma builtin_schemas_wf:
  "d \<in> set BUILTIN_CAPABILITIES \<Longrightarrow>
     wf_schema (PDict (cd_input_schema d)) \<and> wf_schema (PDict (cd_output_schema d))"
  using builtin_schema_models io_model_schema_wf by (fastforce simp: list_all_iff)

end
