(* ===== verification/CapabilityValidator.thy ===== *)
theory CapabilityValidator
  imports BuiltinCapabilities
begin

text \<open>
  \<open>capability/capability_validator.py\<close>: \<open>validate_descriptor\<close>, \<open>validate_registry\<close>,
  \<open>validate_snapshot\<close> and \<open>validate_resolution_record\<close>, and the two structural renderers of
  \<open>capability/schema_renderers.py\<close>. The theorems: whatever the panel produces passes the
  validator, and the builtin registry does. \<open>fuel\<close> is the number of frames granted to the
  schema checker.
\<close>

section \<open>Issues\<close>

datatype issue_message = IssueText string | IssueSchema schema_error

record validation_issue =
  iss_level :: string
  iss_location :: string
  iss_message :: issue_message

record validation_result =
  vr_ok :: bool
  vr_issues :: "validation_issue list"

definition mk_issue :: "string \<Rightarrow> string \<Rightarrow> issue_message \<Rightarrow> validation_issue" where
  "mk_issue level location message = \<lparr>iss_level = level, iss_location = location, iss_message = message\<rparr>"

definition mk_result :: "validation_issue list \<Rightarrow> validation_result" where
  "mk_result issues =
     \<lparr>vr_ok = (\<not> list_ex (\<lambda>i. iss_level i = ''error'') issues), vr_issues = issues\<rparr>"

definition issue_if :: "bool \<Rightarrow> string \<Rightarrow> string \<Rightarrow> string \<Rightarrow> validation_issue list" where
  "issue_if c level location message = (if c then [mk_issue level location (IssueText message)] else [])"

lemma issue_if_nil [simp]: "issue_if c l loc m = [] \<longleftrightarrow> \<not> c"
  by (simp add: issue_if_def)

section \<open>Descriptors and registries\<close>

text \<open>The loop over \<open>enumerate(descriptor.examples)\<close>, \<open>idx\<close> the index of the head.\<close>

fun example_issues ::
  "nat \<Rightarrow> capability_descriptor \<Rightarrow> nat \<Rightarrow> pyval dict list \<Rightarrow> validation_issue list res" where
  "example_issues fuel d idx [] = Inr []"
| "example_issues fuel d idx (example # rest) =
     res_bind (validate_payload_against_schema fuel (dget_default example ''inputs'' (PDict []))
                 (PDict (cd_input_schema d)))
       (\<lambda>errors. res_bind (example_issues fuel d (Suc idx) rest)
         (\<lambda>issues. Inr (map (\<lambda>e. mk_issue ''error''
             (cd_capability_id d @ ''.examples['' @ nat_str idx @ ''].inputs'') (IssueSchema e)) errors
           @ issues)))"

definition descriptor_issues :: "capability_descriptor \<Rightarrow> validation_issue list" where
  "descriptor_issues d =
     issue_if (cd_capability_id d = []) ''error'' ''capability_id'' ''capability_id must not be empty''
     @ issue_if (cd_version d = []) ''error'' ''version'' ''version must not be empty''
     @ issue_if (cd_step_kind d = []) ''error'' ''step_kind'' ''step_kind must not be empty''
     @ issue_if (cd_is_placeholder d \<and> cd_default_enabled d) ''error'' (cd_capability_id d)
         ''placeholder capability must default_enabled=False''
     @ issue_if (cd_is_deprecated d \<and> cd_visibility d = PLANNER_VISIBLE) ''warning'' (cd_capability_id d)
         ''deprecated capability is planner-visible''"

definition validate_descriptor :: "nat \<Rightarrow> capability_descriptor \<Rightarrow> validation_result res" where
  "validate_descriptor fuel d =
     res_bind (example_issues fuel d 0 (cd_examples d)) (\<lambda>issues. Inr (mk_result (descriptor_issues d @ issues)))"

fun collect_descriptor_issues :: "nat \<Rightarrow> capability_descriptor list \<Rightarrow> validation_issue list res" where
  "collect_descriptor_issues fuel [] = Inr []"
| "collect_descriptor_issues fuel (d # ds) =
     res_bind (validate_descriptor fuel d)
       (\<lambda>r. res_bind (collect_descriptor_issues fuel ds) (\<lambda>issues. Inr (vr_issues r @ issues)))"

definition validate_registry :: "nat \<Rightarrow> capability_registry \<Rightarrow> validation_result res" where
  "validate_registry fuel reg =
     res_bind (collect_descriptor_issues fuel (list_all_capabilities reg)) (\<lambda>issues. Inr (mk_result issues))"

section \<open>Snapshots and resolution records\<close>

definition validate_snapshot :: "(pyval \<Rightarrow> string) \<Rightarrow> capability_snapshot \<Rightarrow> validation_result" where
  "validate_snapshot digest s =
     mk_result
       (issue_if (cs_available_step_kinds s \<noteq> enabled_kinds (cs_availability s)) ''error''
          ''available_step_kinds'' ''available_step_kinds must match enabled availability records''
        @ issue_if (cs_unavailable_step_kinds s \<noteq> not_enabled_kinds (cs_availability s)) ''error''
          ''unavailable_step_kinds'' ''unavailable_step_kinds must match non-enabled availability records''
        @ issue_if (recompute_digest digest s \<noteq> cs_capability_digest s) ''error''
          ''capability_digest'' ''capability_digest does not match recomputed digest'')"

text \<open>
  \<open>by_status[str(availability.get("status"))].append(availability.get("capability_id"))\<close>: an
  unknown status is a \<open>KeyError\<close>.
\<close>

fun group_by_status :: "pyval dict list \<Rightarrow> pyval list dict \<Rightarrow> pyval list dict res" where
  "group_by_status [] acc = Inr acc"
| "group_by_status (a # as) acc =
     (case pget a ''status'' of
        PStr s \<Rightarrow> (case dget acc s of
                     None \<Rightarrow> Inl KeyError
                   | Some ids \<Rightarrow> group_by_status as (dput s (ids @ [pget a ''capability_id'']) acc))
      | _ \<Rightarrow> Inl KeyError)"

definition empty_by_status :: "pyval list dict" where
  "empty_by_status = map (\<lambda>st. (status_value st, [])) all_statuses"

text \<open>
  \<open>sorted(xs)\<close> of what the records hold as ids: strings, or \<open>None\<close> where the key is
  missing, which does not compare with anything.
\<close>

fun str_of :: "pyval \<Rightarrow> string" where
  "str_of (PStr s) = s"
| "str_of _ = []"

definition sorted_ids :: "pyval list \<Rightarrow> pyval list res" where
  "sorted_ids xs =
     (if list_all is_str xs then Inr (map PStr (sort (map str_of xs)))
      else if length xs \<le> 1 then Inr xs
      else Inl TypeError)"

definition record_checks :: "capability_resolution_record \<Rightarrow> (string \<times> string list \<times> capability_status) list" where
  "record_checks r =
     [(''enabled_capability_ids'', cr_enabled_capability_ids r, ENABLED),
      (''disabled_capability_ids'', cr_disabled_capability_ids r, DISABLED),
      (''unavailable_capability_ids'', cr_unavailable_capability_ids r, UNAVAILABLE),
      (''placeholder_capability_ids'', cr_placeholder_capability_ids r, PLACEHOLDER),
      (''deprecated_capability_ids'', cr_deprecated_capability_ids r, DEPRECATED)]"

definition check_ids ::
  "pyval list dict \<Rightarrow> string \<times> string list \<times> capability_status \<Rightarrow> validation_issue list res" where
  "check_ids by_status c =
     (case c of (location, actual, st) \<Rightarrow>
        res_bind (sorted_ids (dget_default by_status (status_value st) []))
          (\<lambda>expected. Inr (issue_if (map PStr (sort actual) \<noteq> expected) ''error'' location
             (location @ '' is not consistent with availability_records''))))"

definition validate_resolution_record ::
  "capability_resolution_record \<Rightarrow> capability_snapshot option \<Rightarrow> validation_result res" where
  "validate_resolution_record record snapshot =
     (let first = (case snapshot of
          None \<Rightarrow> []
        | Some s \<Rightarrow>
            issue_if (cr_output_snapshot_id record \<noteq> cs_snapshot_id s) ''error'' ''output_snapshot_id''
              ''record snapshot id does not match snapshot''
            @ issue_if (cr_output_capability_digest record \<noteq> cs_capability_digest s) ''error''
              ''output_capability_digest'' ''record digest does not match snapshot digest'')
      in res_bind (group_by_status (cr_availability_records record) empty_by_status)
           (\<lambda>by_status. res_bind (res_map (check_ids by_status) (record_checks record))
              (\<lambda>rest. Inr (mk_result (first @ concat rest)))))"

section \<open>Renderers\<close>

text \<open>
  \<open>render_input_schema_map\<close>: the schemas of the enabled, planner-visible capabilities by step
  kind; \<open>availability_by_id[...]\<close> raises \<open>KeyError\<close> for a descriptor without a record.
\<close>

fun schema_map_items ::
  "capability_availability dict \<Rightarrow> capability_descriptor list \<Rightarrow> pyval dict dict \<Rightarrow> pyval dict dict res" where
  "schema_map_items avail [] acc = Inr acc"
| "schema_map_items avail (d # ds) acc =
     (case dget avail (cd_capability_id d) of
        None \<Rightarrow> Inl KeyError
      | Some a \<Rightarrow> schema_map_items avail ds
          (if ca_status a = ENABLED \<and> cd_visibility d = PLANNER_VISIBLE
           then dput (cd_step_kind d) (cd_input_schema d) acc else acc))"

definition render_input_schema_map :: "capability_snapshot \<Rightarrow> pyval dict dict res" where
  "render_input_schema_map s =
     schema_map_items (dict_by ca_capability_id (\<lambda>a. a) (cs_availability s)) (cs_capabilities s) []"

text \<open>
  \<open>render_capabilities_for_prompt\<close>; \<open>json_text\<close> is \<open>json.dumps\<close> with sorted keys,
  \<open>lines\<close> are joined by newlines and the end stripped of white space.
\<close>

definition indent_text :: "string \<Rightarrow> string \<Rightarrow> string" where
  "indent_text text pre = py_join nl (map (\<lambda>line. pre @ line) (split_lines False [] text))"

definition prompt_entry :: "(pyval \<Rightarrow> string) \<Rightarrow> nat \<Rightarrow> capability_descriptor \<Rightarrow> string list" where
  "prompt_entry json_text idx d =
     [nat_str idx @ ''. '' @ cd_step_kind d,
      ''   Capability ID: '' @ cd_capability_id d,
      ''   Description: '' @ cd_description d,
      ''   Risk: '' @ risk_value (cd_risk_level d),
      ''   Required context keys: ''
        @ (let ks = py_join '', '' (cd_required_context_keys d) in if ks = [] then ''(none)'' else ks),
      ''   Input schema:'',
      indent_text (json_text (PDict (cd_input_schema d))) ''   '']
     @ (case cd_examples d of
          [] \<Rightarrow> []
        | e # _ \<Rightarrow> [''   Example:'', indent_text (json_text (PDict e)) ''   ''])
     @ [[]]"

definition unavailable_entry :: "capability_availability dict \<Rightarrow> capability_descriptor \<Rightarrow> string" where
  "unavailable_entry avail d =
     ''- '' @ cd_step_kind d @ '': '' @
       (case dget avail (cd_capability_id d) of
          None \<Rightarrow> []
        | Some a \<Rightarrow> (case ca_reason a of
             None \<Rightarrow> status_value (ca_status a)
           | Some r \<Rightarrow> if r = [] then status_value (ca_status a) else r))"

definition render_capabilities_for_prompt :: "(pyval \<Rightarrow> string) \<Rightarrow> capability_snapshot \<Rightarrow> string res" where
  "render_capabilities_for_prompt json_text s =
     (let avail = dict_by ca_capability_id (\<lambda>a. a) (cs_availability s);
          on = (\<lambda>d. case dget avail (cd_capability_id d) of None \<Rightarrow> False | Some a \<Rightarrow> ca_status a = ENABLED);
          enabled = filter on (cs_capabilities s);
          unavailable = filter (\<lambda>d. \<not> on d) (cs_capabilities s)
      in if list_ex (\<lambda>d. \<not> dhas avail (cd_capability_id d)) (cs_capabilities s) then Inl KeyError
         else Inr (py_rstrip (py_join nl
           ([''Available capabilities:'', []]
            @ concat (map (\<lambda>(i, d). prompt_entry json_text (Suc i) d) (List.enumerate 0 enabled))
            @ [''Unavailable capabilities:'', []]
            @ (if unavailable = [] then [''- (none)''] else [])
            @ map (unavailable_entry avail) unavailable))))"

section \<open>What the panel produces is valid\<close>

lemma mk_result_nil [simp]: "mk_result [] = \<lparr>vr_ok = True, vr_issues = []\<rparr>"
  by (simp add: mk_result_def)

lemma status_value_inj [simp]: "status_value st = status_value st' \<longleftrightarrow> st = st'"
  by (cases st; cases st') simp_all

lemma dump_availability_get [simp]:
  "pget (dump_availability a) ''status'' = PStr (status_value (ca_status a))"
  "pget (dump_availability a) ''capability_id'' = PStr (ca_capability_id a)"
  by (simp_all add: dump_availability_def)

lemma group_by_status_dump:
  "(\<And>st. dget acc (status_value st) = Some (f st)) \<Longrightarrow>
   \<exists>acc'. group_by_status (map dump_availability avail) acc = Inr acc' \<and>
     (\<forall>st. dget acc' (status_value st) = Some (f st @ map PStr (ids_with_status st avail)))"
proof (induction avail arbitrary: acc f)
  case Nil
  then show ?case by (simp add: ids_with_status_def)
next
  case (Cons a avail)
  let ?st = "ca_status a"
  let ?acc = "dput (status_value ?st) (f ?st @ [PStr (ca_capability_id a)]) acc"
  let ?f = "f(?st := f ?st @ [PStr (ca_capability_id a)])"
  have "dget ?acc (status_value st) = Some (?f st)" for st
    using Cons.prems by simp
  from Cons.IH [of ?acc ?f, OF this] obtain acc' where acc':
    "group_by_status (map dump_availability avail) ?acc = Inr acc'"
    "\<forall>st. dget acc' (status_value st) = Some (?f st @ map PStr (ids_with_status st avail))" by blast
  show ?case
    using acc' Cons.prems [of ?st] by (auto simp: ids_with_status_def)
qed

lemma empty_by_status_get: "dget empty_by_status (status_value st) = Some []"
  by (cases st) (simp_all add: empty_by_status_def all_statuses_def)

lemma sorted_ids_strs [simp]: "sorted_ids (map PStr xs) = Inr (map PStr (sort xs))"
  by (simp add: sorted_ids_def list_all_iff o_def)

lemma check_ids_consistent:
  "dget by_status (status_value st) = Some (map PStr ids) \<Longrightarrow> check_ids by_status (loc, ids, st) = Inr []"
  by (simp add: check_ids_def dget_default_dget issue_if_def)

lemma record_of_snapshot_valid:
  "validate_resolution_record (build_resolution_record rid now req s p a c) (Some s)
     = Inr \<lparr>vr_ok = True, vr_issues = []\<rparr>"
proof -
  obtain by_status where g:
    "group_by_status (map dump_availability (cs_availability s)) empty_by_status = Inr by_status"
    "\<And>st. dget by_status (status_value st) = Some (map PStr (ids_with_status st (cs_availability s)))"
    using group_by_status_dump [of empty_by_status "\<lambda>_. []" "cs_availability s", OF empty_by_status_get] by auto
  show ?thesis
    by (simp add: validate_resolution_record_def build_resolution_record_def record_checks_def g(1)
        check_ids_consistent [OF g(2)] issue_if_def)
qed

text \<open>
  C14: the snapshot the panel builds passes \<open>validate_snapshot\<close> and the resolution record built
  with it passes \<open>validate_resolution_record\<close> against that snapshot, both without any issue,
  for every registry, every request and whatever the hash function is.
\<close>

theorem panel_output_validates:
  "validate_snapshot digest (fst (build_snapshot_and_record digest sid rid now reg req))
      = \<lparr>vr_ok = True, vr_issues = []\<rparr>
   \<and> validate_resolution_record (snd (build_snapshot_and_record digest sid rid now reg req))
       (Some (fst (build_snapshot_and_record digest sid rid now reg req)))
      = Inr \<lparr>vr_ok = True, vr_issues = []\<rparr>"
  by (simp add: build_snapshot_and_record_def Let_def record_of_snapshot_valid)
    (simp add: validate_snapshot_def build_snapshot_def Let_def recompute_digest_def digest_payload_def
      issue_if_def)

section \<open>The builtin registry is valid\<close>

lemma example_issues_nil:
  assumes "wf_schema (PDict (cd_input_schema d))" "size (PDict (cd_input_schema d)) < fuel"
    and "list_all (\<lambda>e. conforms (PDict (cd_input_schema d)) (dget_default e ''inputs'' (PDict []))) examples"
  shows "example_issues fuel d idx examples = Inr []"
  using assms(3)
proof (induction examples arbitrary: idx)
  case Nil
  then show ?case by simp
next
  case (Cons e es)
  have "validate_payload_against_schema fuel (dget_default e ''inputs'' (PDict [])) (PDict (cd_input_schema d)) = Inr []"
    using validate_exact [OF assms(1,2)] Cons.prems
    unfolding validate_payload_against_schema_def by auto
  with Cons show ?case by simp
qed

lemma validate_descriptor_ok:
  assumes "wf_schema (PDict (cd_input_schema d))" "size (PDict (cd_input_schema d)) < fuel"
    and "list_all (\<lambda>e. conforms (PDict (cd_input_schema d)) (dget_default e ''inputs'' (PDict []))) (cd_examples d)"
    and "descriptor_issues d = []"
  shows "validate_descriptor fuel d = Inr \<lparr>vr_ok = True, vr_issues = []\<rparr>"
  using example_issues_nil [OF assms(1-3)] assms(4) by (simp add: validate_descriptor_def)

lemma builtin_descriptor_clean: "list_all (\<lambda>d. descriptor_issues d = []) BUILTIN_CAPABILITIES"
  by (simp add: BUILTIN_CAPABILITIES_def descriptor_issues_def builtin_descriptor_defs issue_if_def)

lemmas schema_literal = model_json_schema_def object_schema_def required_fields_def
  add_constraints_def put_opt_def no_constraints_def

lemma builtin_schema_sizes:
  "list_all (\<lambda>d. size (PDict (cd_input_schema d)) < 1000) BUILTIN_CAPABILITIES"
  by (simp add: BUILTIN_CAPABILITIES_def input_model_defs schema_literal)

lemma builtin_examples [simp]:
  "cd_examples PARSE_TEXT_CAPABILITY = []" "cd_examples GENERATE_SCRIPT_CAPABILITY = []"
  "cd_examples RUN_TEST_CAPABILITY = []" "cd_examples SUMMARIZE_REPORT_CAPABILITY = []"
  by (simp_all add: builtin_descriptor_defs)

lemma builtin_examples_conform:
  "list_all (\<lambda>e. conforms (PDict (cd_input_schema INSPECT_PACKAGE_CAPABILITY)) (dget_default e ''inputs'' (PDict [])))
     (cd_examples INSPECT_PACKAGE_CAPABILITY)"
  "list_all (\<lambda>e. conforms (PDict (cd_input_schema BUILD_IMAGE_CAPABILITY)) (dget_default e ''inputs'' (PDict [])))
     (cd_examples BUILD_IMAGE_CAPABILITY)"
  "list_all (\<lambda>e. conforms (PDict (cd_input_schema CREATE_RUNTIME_CAPABILITY)) (dget_default e ''inputs'' (PDict [])))
     (cd_examples CREATE_RUNTIME_CAPABILITY)"
  "list_all (\<lambda>e. conforms (PDict (cd_input_schema INSPECT_ENVIRONMENT_CAPABILITY)) (dget_default e ''inputs'' (PDict [])))
     (cd_examples INSPECT_ENVIRONMENT_CAPABILITY)"
  "list_all (\<lambda>e. conforms (PDict (cd_input_schema RUN_COMMAND_CAPABILITY)) (dget_default e ''inputs'' (PDict [])))
     (cd_examples RUN_COMMAND_CAPABILITY)"
  "list_all (\<lambda>e. conforms (PDict (cd_input_schema EXECUTE_PROBE_CAPABILITY)) (dget_default e ''inputs'' (PDict [])))
     (cd_examples EXECUTE_PROBE_CAPABILITY)"
  "list_all (\<lambda>e. conforms (PDict (cd_input_schema COLLECT_ARTIFACT_CAPABILITY)) (dget_default e ''inputs'' (PDict [])))
     (cd_examples COLLECT_ARTIFACT_CAPABILITY)"
  by (simp_all add: builtin_descriptor_defs input_model_defs schema_literal conforms.simps [of "PDict _"]
      keyword_holds_def has_type_def schema_properties_def)

lemma builtin_registration:
  "\<exists>reg. build_builtin_capability_registry = Inr reg \<and> list_all_capabilities reg = BUILTIN_CAPABILITIES"
proof -
  have "distinct (map cd_capability_id BUILTIN_CAPABILITIES)" "distinct (map cd_step_kind BUILTIN_CAPABILITIES)"
    by (simp_all add: BUILTIN_CAPABILITIES_def)
  then obtain reg where reg: "register_all register_capability BUILTIN_CAPABILITIES new_capability_registry = Inr reg"
    using register_all_succeeds [of BUILTIN_CAPABILITIES new_capability_registry]
    by (auto simp: new_capability_registry_def)
  then show ?thesis
    using register_all_list [OF reg]
    by (simp add: build_builtin_capability_registry_def list_all_capabilities_def new_capability_registry_def)
qed

lemma builtin_examples_conform_all:
  "list_all (\<lambda>d. list_all (\<lambda>e. conforms (PDict (cd_input_schema d)) (dget_default e ''inputs'' (PDict [])))
     (cd_examples d)) BUILTIN_CAPABILITIES"
  using builtin_examples_conform by (simp add: BUILTIN_CAPABILITIES_def)

lemma collect_issues_nil:
  "list_all (\<lambda>d. validate_descriptor fuel d = Inr \<lparr>vr_ok = True, vr_issues = []\<rparr>) ds \<Longrightarrow>
     collect_descriptor_issues fuel ds = Inr []"
  by (induction ds) simp_all

text \<open>
  The factory of the builtin capabilities succeeds, every input and output schema of its
  registry is well-formed, and \<open>validate_registry\<close> finds no issue in it: in particular every
  example of every builtin descriptor satisfies the schema the descriptor publishes.
\<close>

theorem builtin_registry_valid:
  "\<exists>reg. build_builtin_capability_registry = Inr reg
     \<and> list_all (\<lambda>d. wf_schema (PDict (cd_input_schema d)) \<and> wf_schema (PDict (cd_output_schema d)))
         (list_all_capabilities reg)
     \<and> validate_registry 1000 reg = Inr \<lparr>vr_ok = True, vr_issues = []\<rparr>"
proof -
  obtain reg where reg: "build_builtin_capability_registry = Inr reg"
    and ds: "list_all_capabilities reg = BUILTIN_CAPABILITIES"
    using builtin_registration by blast
  have wf: "list_all (\<lambda>d. wf_schema (PDict (cd_input_schema d)) \<and> wf_schema (PDict (cd_output_schema d)))
         BUILTIN_CAPABILITIES"
    using builtin_schemas_wf by (simp add: list_all_iff)
  have "validate_descriptor 1000 d = Inr \<lparr>vr_ok = True, vr_issues = []\<rparr>" if "d \<in> set BUILTIN_CAPABILITIES" for d
    using that wf builtin_schema_sizes builtin_examples_conform_all builtin_descriptor_clean
    by (intro validate_descriptor_ok) (auto simp: list_all_iff)
  then have "collect_descriptor_issues 1000 BUILTIN_CAPABILITIES = Inr []"
    by (intro collect_issues_nil) (simp add: list_all_iff)
  then show ?thesis
    by (intro exI [of _ reg]) (simp add: reg ds wf validate_registry_def)
qed

section \<open>The schema map shown to the planner\<close>

lemma schema_map_items_get:
  assumes "\<And>d. d \<in> set ds \<Longrightarrow> dget avail (cd_capability_id d) = Some (resolve_descriptor d r)"
    and "distinct (map cd_step_kind ds)"
  shows "\<exists>m. schema_map_items avail ds acc = Inr m \<and>
     (\<forall>k. dget m k = (case find (\<lambda>d. cd_step_kind d = k \<and> may_enable d r \<and> cd_visibility d = PLANNER_VISIBLE) ds of
                        Some d \<Rightarrow> Some (cd_input_schema d) | None \<Rightarrow> dget acc k))"
  using assms
proof (induction ds arbitrary: acc)
  case Nil
  then show ?case by simp
next
  case (Cons d ds)
  let ?on = "may_enable d r \<and> cd_visibility d = PLANNER_VISIBLE"
  let ?acc = "if ?on then dput (cd_step_kind d) (cd_input_schema d) acc else acc"
  have none: "find (\<lambda>e. cd_step_kind e = cd_step_kind d \<and> may_enable e r \<and> cd_visibility e = PLANNER_VISIBLE) ds = None"
    using Cons.prems(2) by (auto simp: find_None_iff) (metis image_eqI)
  obtain m where m: "schema_map_items avail ds ?acc = Inr m"
    "\<forall>k. dget m k = (case find (\<lambda>d. cd_step_kind d = k \<and> may_enable d r \<and> cd_visibility d = PLANNER_VISIBLE) ds of
                        Some d \<Rightarrow> Some (cd_input_schema d) | None \<Rightarrow> dget ?acc k)"
    using Cons.IH [of ?acc] Cons.prems by auto
  have "schema_map_items avail (d # ds) acc = Inr m"
    using m(1) Cons.prems(1) [of d] by (simp add: resolve_enabled_iff)
  moreover have "dget m k = (case find (\<lambda>d. cd_step_kind d = k \<and> may_enable d r \<and> cd_visibility d = PLANNER_VISIBLE) (d # ds) of
                        Some d \<Rightarrow> Some (cd_input_schema d) | None \<Rightarrow> dget acc k)" for k
    using m(2) none by (cases "cd_step_kind d = k") (auto split: option.splits)
  ultimately show ?case by blast
qed

text \<open>
  For a registry built by registration, the schema map rendered from its snapshot has an entry
  for a step kind exactly when the registered capability of that kind is enabled for the request
  and visible to the planner, and the entry is that capability's input schema.
\<close>

theorem schema_map_correct:
  assumes "register_all register_capability ds new_capability_registry = Inr reg"
  shows "\<exists>m. render_input_schema_map (build_snapshot digest sid reg r) = Inr m
     \<and> (\<forall>k s. dget m k = Some s \<longleftrightarrow>
          (\<exists>d \<in> set ds. cd_step_kind d = k \<and> cd_input_schema d = s
             \<and> may_enable d r \<and> cd_visibility d = PLANNER_VISIBLE))"
proof -
  have reg: "list_all_capabilities reg = ds"
    using register_all_list [OF assms] by (simp add: list_all_capabilities_def new_capability_registry_def)
  have dist: "distinct (map cd_capability_id ds)" "distinct (map cd_step_kind ds)"
    using cap_ids.register_all_fresh [OF new_registry_inv assms]
      cap_kinds.register_all_fresh [OF new_registry_inv assms] by blast+
  let ?av = "map (\<lambda>d. resolve_descriptor d r) ds"
  have found: "dget (dict_by ca_capability_id (\<lambda>a. a) ?av) (cd_capability_id d) = Some (resolve_descriptor d r)"
    if "d \<in> set ds" for d
    using dict_by_distinct [of ca_capability_id ?av "resolve_descriptor d r" "\<lambda>a. a"] dist(1) that
    by (simp add: o_def)
  have "\<exists>m. schema_map_items (dict_by ca_capability_id (\<lambda>a. a) ?av) ds [] = Inr m \<and>
     (\<forall>k. dget m k = (case find (\<lambda>d. cd_step_kind d = k \<and> may_enable d r \<and> cd_visibility d = PLANNER_VISIBLE) ds of
                        Some d \<Rightarrow> Some (cd_input_schema d) | None \<Rightarrow> dget [] k))"
    by (rule schema_map_items_get) (use found dist(2) in auto)
  then obtain m where
    m: "schema_map_items (dict_by ca_capability_id (\<lambda>a. a) ?av) ds [] = Inr m"
      "\<And>k. dget m k = (case find (\<lambda>d. cd_step_kind d = k \<and> may_enable d r \<and> cd_visibility d = PLANNER_VISIBLE) ds of
                        Some d \<Rightarrow> Some (cd_input_schema d) | None \<Rightarrow> dget [] k)"
    by (elim exE conjE) blast
  have iff: "dget m k = Some s \<longleftrightarrow>
          (\<exists>d \<in> set ds. cd_step_kind d = k \<and> cd_input_schema d = s
             \<and> may_enable d r \<and> cd_visibility d = PLANNER_VISIBLE)" for k s
  proof (cases "find (\<lambda>d. cd_step_kind d = k \<and> may_enable d r \<and> cd_visibility d = PLANNER_VISIBLE) ds")
    case None
    moreover have "dget m k = None" by (simp add: m(2) None)
    ultimately show ?thesis by (auto simp: find_None_iff)
  next
    case (Some d)
    then have d: "d \<in> set ds" "cd_step_kind d = k \<and> may_enable d r \<and> cd_visibility d = PLANNER_VISIBLE"
      by (auto simp: find_Some_iff)
    moreover have "e = d" if "e \<in> set ds" "cd_step_kind e = k" for e
      using inj_onD [of cd_step_kind "set ds" e d] dist(2) d that by (simp add: distinct_map)
    moreover have "dget m k = Some (cd_input_schema d)" by (simp add: m(2) Some)
    ultimately show ?thesis by fastforce
  qed
  have "render_input_schema_map (build_snapshot digest sid reg r) = Inr m"
    using m(1) by (simp add: render_input_schema_map_def build_snapshot_def Let_def reg)
  then show ?thesis by (intro exI [of _ m] conjI allI) (assumption, rule iff)
qed

theorem schema_map_correct_witness:
  "\<exists>m. render_input_schema_map (build_snapshot (\<lambda>p. ''d'') ''s1'' sample_registry sample_request) = Inr m
     \<and> (\<forall>k s. dget m k = Some s \<longleftrightarrow>
          (\<exists>d \<in> {sample_descriptor}. cd_step_kind d = k \<and> cd_input_schema d = s
             \<and> may_enable d sample_request \<and> cd_visibility d = PLANNER_VISIBLE))"
  using schema_map_correct [OF sample_registration, of "\<lambda>p. ''d''" "''s1''" sample_request] by simp

end
