(* ===== verification/PlanValidation.thy ===== *)
theory PlanValidation
  imports Plan CapabilityValidator
begin

text \<open>
  \<open>plan/plan_validation.py\<close>: \<open>PlanValidator\<close> with every check it makes and every issue
  it emits. A message is its f-string with the values that the string interpolates kept as
  constructor arguments where their rendering depends on the interpreter version (an enumeration
  member) or is itself an issue of the schema checker. \<open>fuel\<close> is the number of frames granted
  to the schema checker, \<open>now\<close> the clock.
\<close>

section \<open>Issues and results\<close>

datatype plan_message =
    MsgText string
  | MsgSchema schema_error
  | MsgRequiredIs string capability_status
  | MsgKindIs string capability_status string

record plan_issue =
  pi_code :: string
  pi_severity :: string
  pi_message :: plan_message
  pi_location :: "string option"
  pi_metadata :: "pyval dict"
  pi_step_id :: "string option"
  pi_step_kind :: "string option"
  pi_path :: "string option"

abbreviation (input) "SEV_WARNING \<equiv> ''warning''"
abbreviation (input) "SEV_ERROR \<equiv> ''error''"
abbreviation (input) "PASSED \<equiv> ''passed''"
abbreviation (input) "FAILED \<equiv> ''failed''"

record plan_validation_result =
  pv_status :: string
  pv_issues :: "plan_issue list"
  pv_checked_at :: "int option"
  pv_metadata :: "pyval dict"

definition pv_passed :: "plan_validation_result \<Rightarrow> bool" where
  "pv_passed r = (pv_status r = PASSED)"

definition pv_errors :: "plan_validation_result \<Rightarrow> plan_issue list" where
  "pv_errors r = filter (\<lambda>i. pi_severity i = SEV_ERROR) (pv_issues r)"

definition pv_warnings :: "plan_validation_result \<Rightarrow> plan_issue list" where
  "pv_warnings r = filter (\<lambda>i. pi_severity i = SEV_WARNING) (pv_issues r)"

text \<open>\<open>path or location\<close>: no path given, or an empty one, gives the location.\<close>

definition plan_issue_of ::
  "string \<Rightarrow> string \<Rightarrow> plan_message \<Rightarrow> string option \<Rightarrow> plan_step option \<Rightarrow> string option \<Rightarrow> pyval dict \<Rightarrow> plan_issue" where
  "plan_issue_of code severity message location step path metadata =
     \<lparr>pi_code = code, pi_severity = severity, pi_message = message, pi_location = location,
      pi_metadata = metadata, pi_step_id = map_option ps_step_id step,
      pi_step_kind = map_option ps_kind step,
      pi_path = (case path of None \<Rightarrow> location | Some p \<Rightarrow> if p = [] then location else path)\<rparr>"

section \<open>Configuration\<close>

record plan_validator =
  va_supported_step_kinds :: "string list"
  va_available_capabilities :: "string list option"
  va_max_step_count :: "int option"
  va_capability_registry :: "capability_registry option"
  va_strict_required_capabilities :: bool
  va_require_capability_digest :: bool
  va_fail_on_warning :: bool
  va_allow_deprecated_capability :: bool

text \<open>\<open>PlanValidator(...)\<close>: an empty set of kinds counts as none given.\<close>

definition new_plan_validator ::
  "string list option \<Rightarrow> string list option \<Rightarrow> int option \<Rightarrow> capability_registry option \<Rightarrow>
     bool \<Rightarrow> bool \<Rightarrow> bool \<Rightarrow> bool \<Rightarrow> plan_validator" where
  "new_plan_validator supported available max_steps registry strict require_digest fail_on_warning allow_deprecated =
     \<lparr>va_supported_step_kinds =
        (case supported of None \<Rightarrow> SUPPORTED_PLAN_STEP_KINDS
         | Some ks \<Rightarrow> if ks = [] then SUPPORTED_PLAN_STEP_KINDS else ks),
      va_available_capabilities = available, va_max_step_count = max_steps,
      va_capability_registry = registry, va_strict_required_capabilities = strict,
      va_require_capability_digest = require_digest, va_fail_on_warning = fail_on_warning,
      va_allow_deprecated_capability = allow_deprecated\<rparr>"

text \<open>A final plan or a draft: the validator reads the steps, and the metadata of a final plan.\<close>

datatype any_plan = FinalPlan execution_plan | DraftPlan execution_plan_draft

fun plan_steps_of :: "any_plan \<Rightarrow> plan_step list" where
  "plan_steps_of (FinalPlan p) = ep_steps p"
| "plan_steps_of (DraftPlan d) = ed_steps d"

fun plan_metadata_of :: "any_plan \<Rightarrow> pyval dict" where
  "plan_metadata_of (FinalPlan p) = ep_plan_metadata p"
| "plan_metadata_of (DraftPlan d) = []"

section \<open>Checks\<close>

definition loc_of :: "nat \<Rightarrow> string" where
  "loc_of idx = ''steps['' @ nat_str idx @ '']''"

text \<open>The first loop of \<open>validate\<close>: empty and repeated step ids.\<close>

fun step_id_issues :: "nat \<Rightarrow> string list \<Rightarrow> plan_step list \<Rightarrow> plan_issue list" where
  "step_id_issues idx seen [] = []"
| "step_id_issues idx seen (step # rest) =
     (if ps_step_id step = []
      then [plan_issue_of ''PLAN_STEP_ID_EMPTY'' SEV_ERROR (MsgText ''step_id is required'') (Some (loc_of idx)) (Some step) None [],
            plan_issue_of ''step.id.empty'' SEV_ERROR (MsgText ''step_id is required'') (Some (loc_of idx)) (Some step) None []]
      else [])
     @ (if ps_step_id step \<in> set seen
        then [plan_issue_of ''PLAN_DUPLICATE_STEP_ID'' SEV_ERROR (MsgText (''duplicate step_id '' @ ps_step_id step)) (Some (loc_of idx)) (Some step) None [],
              plan_issue_of ''step.id.duplicate'' SEV_ERROR (MsgText (''duplicate step_id '' @ ps_step_id step)) (Some (loc_of idx)) (Some step) None []]
        else [])
     @ step_id_issues (Suc idx) (ps_step_id step # seen) rest"

definition dependency_issues :: "plan_step \<Rightarrow> string \<Rightarrow> string list \<Rightarrow> plan_issue list" where
  "dependency_issues step loc known =
     concat (map (\<lambda>dep. if dep \<in> set known then [] else
       [plan_issue_of ''PLAN_UNKNOWN_DEPENDENCY'' SEV_ERROR (MsgText (''unknown dependency '' @ dep)) (Some loc) (Some step) (Some (loc @ ''.depends_on'')) [],
        plan_issue_of ''step.depends_on.missing'' SEV_ERROR (MsgText (''unknown dependency '' @ dep)) (Some loc) (Some step) None []])
       (ps_depends_on step))"

definition kind_issues :: "plan_validator \<Rightarrow> plan_step \<Rightarrow> string \<Rightarrow> plan_issue list" where
  "kind_issues va step loc =
     (if ps_kind step = []
      then [plan_issue_of ''PLAN_STEP_KIND_EMPTY'' SEV_ERROR (MsgText ''step.kind is required'') (Some loc) (Some step) (Some (loc @ ''.kind'')) []]
      else if ps_kind step \<notin> set (va_supported_step_kinds va)
      then [plan_issue_of ''PLAN_UNSUPPORTED_STEP_KIND'' SEV_ERROR (MsgText (''unsupported step kind '' @ ps_kind step)) (Some loc) (Some step) (Some (loc @ ''.kind'')) [],
            plan_issue_of ''step.kind.unsupported'' SEV_ERROR (MsgText (''unsupported step kind '' @ ps_kind step)) (Some loc) (Some step) None []]
      else [])"

definition available_issues :: "plan_validator \<Rightarrow> plan_step \<Rightarrow> string \<Rightarrow> plan_issue list" where
  "available_issues va step loc =
     (case va_available_capabilities va of
        None \<Rightarrow> []
      | Some caps \<Rightarrow>
          map (\<lambda>cap. plan_issue_of ''step.capability.missing'' SEV_ERROR (MsgText (''missing capability '' @ cap)) (Some loc) (Some step) None [])
            (filter (\<lambda>cap. cap \<notin> set caps) (ps_required_capabilities step)))"

definition risk_issues :: "plan_step \<Rightarrow> string \<Rightarrow> plan_issue list" where
  "risk_issues step loc =
     (if ps_risk_level step \<notin> set VALID_RISK_LEVELS
      then [plan_issue_of ''PLAN_INVALID_RISK_LEVEL'' SEV_ERROR (MsgText (''invalid risk_level '' @ ps_risk_level step)) (Some loc) (Some step) (Some (loc @ ''.risk_level'')) [],
            plan_issue_of ''step.risk.invalid'' SEV_ERROR (MsgText (''invalid risk_level '' @ ps_risk_level step)) (Some loc) (Some step) None []]
      else [])
     @ (if ps_risk_level step = RISK_HIGH
        then [plan_issue_of ''step.risk.high'' SEV_WARNING (MsgText ''high risk step requires review'') (Some loc) (Some step) None []]
        else [])"

definition failure_issues :: "plan_step \<Rightarrow> string \<Rightarrow> plan_issue list" where
  "failure_issues step loc =
     (if ps_on_failure step \<notin> set VALID_FAILURE_POLICIES
      then [plan_issue_of ''PLAN_INVALID_ON_FAILURE'' SEV_ERROR (MsgText (''invalid on_failure '' @ ps_on_failure step)) (Some loc) (Some step) (Some (loc @ ''.on_failure'')) [],
            plan_issue_of ''step.on_failure.invalid'' SEV_ERROR (MsgText (''invalid on_failure '' @ ps_on_failure step)) (Some loc) (Some step) None []]
      else [])
     @ (case ps_timeout_sec step of
          None \<Rightarrow> []
        | Some t \<Rightarrow> if t \<le> 0
            then [plan_issue_of ''PLAN_INVALID_TIMEOUT'' SEV_ERROR (MsgText ''timeout_sec must be positive'') (Some loc) (Some step) (Some (loc @ ''.timeout_sec'')) []]
            else [])"

definition validate_step_base :: "plan_validator \<Rightarrow> plan_step \<Rightarrow> nat \<Rightarrow> string list \<Rightarrow> plan_issue list" where
  "validate_step_base va step idx known =
     (let loc = loc_of idx in
      dependency_issues step loc known @ kind_issues va step loc @ available_issues va step loc
      @ risk_issues step loc @ failure_issues step loc)"

definition validate_capability_digest :: "plan_validator \<Rightarrow> pyval dict \<Rightarrow> capability_snapshot \<Rightarrow> plan_issue list" where
  "validate_capability_digest va metadata snapshot =
     (let digest = pget metadata ''capability_digest'' in
      if \<not> py_truthy digest
      then [plan_issue_of ''CAPABILITY_DIGEST_MISSING''
              (if va_require_capability_digest va then SEV_ERROR else SEV_WARNING)
              (MsgText ''plan_metadata.capability_digest is missing'') None None
              (Some ''plan_metadata.capability_digest'')
              [(''snapshot_digest'', PStr (cs_capability_digest snapshot))]]
      else if \<not> py_eq digest (PStr (cs_capability_digest snapshot))
      then [plan_issue_of ''CAPABILITY_DIGEST_MISMATCH'' SEV_ERROR
              (MsgText ''plan capability_digest does not match capability snapshot'') None None
              (Some ''plan_metadata.capability_digest'')
              [(''plan_digest'', digest), (''snapshot_digest'', PStr (cs_capability_digest snapshot))]]
      else [])"

record snapshot_index =
  si_descriptor_by_step_kind :: "capability_descriptor dict"
  si_availability_by_step_kind :: "capability_availability dict"
  si_descriptor_by_capability_id :: "capability_descriptor dict"
  si_availability_by_capability_id :: "capability_availability dict"
  si_enabled_step_kinds :: "string list"

definition build_snapshot_index :: "capability_snapshot \<Rightarrow> snapshot_index" where
  "build_snapshot_index s =
     \<lparr>si_descriptor_by_step_kind = dict_by cd_step_kind (\<lambda>d. d) (cs_capabilities s),
      si_availability_by_step_kind = dict_by ca_step_kind (\<lambda>a. a) (cs_availability s),
      si_descriptor_by_capability_id = dict_by cd_capability_id (\<lambda>d. d) (cs_capabilities s),
      si_availability_by_capability_id = dict_by ca_capability_id (\<lambda>a. a) (cs_availability s),
      si_enabled_step_kinds = cs_available_step_kinds s\<rparr>"

text \<open>
  \<open>_schema_error_path\<close>: every error of the checker starts with its path, the path with a
  dollar sign; the path ends at the first colon.
\<close>

definition schema_error_path :: "string \<Rightarrow> schema_error \<Rightarrow> string" where
  "schema_error_path loc e =
     (if py_startswith (err_path e) ''$''
      then loc @ ''.inputs'' @ drop 1 (takeWhile (\<lambda>c. c \<noteq> CHR '':'') (err_path e))
      else loc @ ''.inputs'')"

definition unavailable_code :: "plan_validator \<Rightarrow> capability_status \<Rightarrow> string \<times> string" where
  "unavailable_code va st =
     (case st of
        PLACEHOLDER \<Rightarrow> (''CAPABILITY_PLACEHOLDER_USED'', SEV_ERROR)
      | DISABLED \<Rightarrow> (''CAPABILITY_DISABLED_USED'', SEV_ERROR)
      | DEPRECATED \<Rightarrow> (''CAPABILITY_DEPRECATED_USED'',
                      if va_allow_deprecated_capability va then SEV_WARNING else SEV_ERROR)
      | _ \<Rightarrow> (''CAPABILITY_STEP_KIND_UNAVAILABLE'', SEV_ERROR))"

definition issue_for_unavailable_capability ::
  "plan_validator \<Rightarrow> plan_step \<Rightarrow> string \<Rightarrow> capability_availability \<Rightarrow> plan_issue" where
  "issue_for_unavailable_capability va step loc a =
     (case unavailable_code va (ca_status a) of (code, severity) \<Rightarrow>
        plan_issue_of code severity
          (MsgKindIs (ps_kind step) (ca_status a)
             (case ca_reason a of None \<Rightarrow> ''not enabled'' | Some r \<Rightarrow> if r = [] then ''not enabled'' else r))
          (Some loc) (Some step) (Some (loc @ ''.kind''))
          [(''capability_id'', PStr (ca_capability_id a)), (''status'', PStr (status_value (ca_status a))),
           (''missing_context_keys'', py_str_tuple (ca_missing_context_keys a))])"

definition declared_issue :: "plan_step \<Rightarrow> string \<Rightarrow> snapshot_index \<Rightarrow> string \<Rightarrow> plan_issue list" where
  "declared_issue step loc idx cid =
     (case (dget (si_descriptor_by_capability_id idx) cid, dget (si_availability_by_capability_id idx) cid) of
        (Some d, Some a) \<Rightarrow>
          (if ca_status a \<noteq> ENABLED
           then [plan_issue_of ''CAPABILITY_REQUIRED_UNAVAILABLE'' SEV_ERROR (MsgRequiredIs cid (ca_status a))
                   (Some loc) (Some step) (Some (loc @ ''.required_capabilities''))
                   [(''capability_id'', PStr cid), (''status'', PStr (status_value (ca_status a)))]]
           else [])
      | _ \<Rightarrow> [plan_issue_of ''CAPABILITY_REQUIRED_UNKNOWN'' SEV_ERROR
                (MsgText (''required capability '' @ cid @ '' is not present in capability snapshot''))
                (Some loc) (Some step) (Some (loc @ ''.required_capabilities''))
                [(''capability_id'', PStr cid)]])"

definition validate_required_capabilities ::
  "plan_validator \<Rightarrow> plan_step \<Rightarrow> string \<Rightarrow> capability_descriptor \<Rightarrow> snapshot_index \<Rightarrow> plan_issue list" where
  "validate_required_capabilities va step loc d idx =
     (let severity = (if va_strict_required_capabilities va then SEV_ERROR else SEV_WARNING) in
      if ps_required_capabilities step = []
      then [plan_issue_of ''CAPABILITY_REQUIRED_MISSING'' severity
              (MsgText (''step '' @ ps_step_id step @ '' does not declare required_capabilities''))
              (Some loc) (Some step) (Some (loc @ ''.required_capabilities''))
              [(''expected_capability_id'', PStr (cd_capability_id d))]]
      else concat (map (declared_issue step loc idx) (ps_required_capabilities step))
           @ (if cd_capability_id d \<notin> set (ps_required_capabilities step)
              then [plan_issue_of ''CAPABILITY_REQUIRED_MISMATCH'' severity
                      (MsgText (''required_capabilities does not include capability for step kind '' @ ps_kind step))
                      (Some loc) (Some step) (Some (loc @ ''.required_capabilities''))
                      [(''expected_capability_id'', PStr (cd_capability_id d)),
                       (''declared_capability_ids'', py_strs (ps_required_capabilities step))]]
              else []))"

definition schema_issues :: "plan_step \<Rightarrow> string \<Rightarrow> pyval dict \<Rightarrow> schema_error list \<Rightarrow> plan_issue list" where
  "schema_issues step loc metadata errors =
     concat (map (\<lambda>e.
       [plan_issue_of ''STEP_INPUT_SCHEMA_INVALID'' SEV_ERROR (MsgSchema e) (Some loc) (Some step)
          (Some (schema_error_path loc e)) metadata,
        plan_issue_of ''step.inputs.schema_invalid'' SEV_ERROR (MsgSchema e) (Some loc) (Some step) None []]) errors)"

definition validate_step_against_capability_snapshot ::
  "plan_validator \<Rightarrow> nat \<Rightarrow> plan_step \<Rightarrow> nat \<Rightarrow> snapshot_index \<Rightarrow> plan_issue list res" where
  "validate_step_against_capability_snapshot va fuel step idx index =
     (let loc = loc_of idx;
          descriptor = dget (si_descriptor_by_step_kind index) (ps_kind step);
          availability = dget (si_availability_by_step_kind index) (ps_kind step);
          enabled = ps_kind step \<in> set (si_enabled_step_kinds index)
      in if enabled \<and> descriptor = None
         then Inr [plan_issue_of ''CAPABILITY_DESCRIPTOR_MISSING'' SEV_ERROR
                 (MsgText (''enabled step kind '' @ ps_kind step @ '' has no capability descriptor''))
                 (Some loc) (Some step) None []]
         else (case (descriptor, availability) of
           (Some d, Some a) \<Rightarrow>
             (if \<not> enabled \<or> ca_status a \<noteq> ENABLED
              then Inr [issue_for_unavailable_capability va step loc a]
              else res_bind (validate_payload_against_schema fuel (PDict (ps_inputs step)) (PDict (cd_input_schema d)))
                (\<lambda>errors. Inr (schema_issues step loc [(''capability_id'', PStr (cd_capability_id d))] errors
                               @ validate_required_capabilities va step loc d index)))
         | _ \<Rightarrow> Inr [plan_issue_of ''CAPABILITY_DESCRIPTOR_MISSING'' SEV_ERROR
                 (MsgText (''step kind '' @ ps_kind step @ '' is not present in capability snapshot''))
                 (Some loc) (Some step) None []]))"

definition validate_step_against_registry ::
  "capability_registry \<Rightarrow> nat \<Rightarrow> plan_step \<Rightarrow> nat \<Rightarrow> plan_issue list res" where
  "validate_step_against_registry reg fuel step idx =
     (let loc = loc_of idx in
      case maybe_get_by_step_kind reg (ps_kind step) of
        None \<Rightarrow> Inr [plan_issue_of ''step.capability.unknown'' SEV_ERROR
                  (MsgText (''step kind '' @ ps_kind step @ '' is not registered as a capability''))
                  (Some loc) (Some step) None []]
      | Some d \<Rightarrow> res_bind (validate_payload_against_schema fuel (PDict (ps_inputs step)) (PDict (cd_input_schema d)))
          (\<lambda>errors. Inr (schema_issues step loc [] errors)))"

section \<open>The validator\<close>

definition plan_result :: "plan_validator \<Rightarrow> int \<Rightarrow> plan_issue list \<Rightarrow> capability_snapshot option \<Rightarrow> plan_validation_result" where
  "plan_result va now issues snapshot =
     (let has_error = list_ex (\<lambda>i. pi_severity i = SEV_ERROR) issues;
          has_warning = list_ex (\<lambda>i. pi_severity i = SEV_WARNING) issues;
          failed = has_error \<or> (va_fail_on_warning va \<and> has_warning)
      in \<lparr>pv_status = (if failed then FAILED else PASSED), pv_issues = issues, pv_checked_at = Some now,
          pv_metadata = (case snapshot of None \<Rightarrow> []
             | Some s \<Rightarrow> [(''capability_snapshot_id'', PStr (cs_snapshot_id s)),
                         (''capability_digest'', PStr (cs_capability_digest s))])\<rparr>)"

fun validate_steps ::
  "plan_validator \<Rightarrow> nat \<Rightarrow> string list \<Rightarrow> snapshot_index option \<Rightarrow> nat \<Rightarrow> plan_step list \<Rightarrow> plan_issue list res" where
  "validate_steps va fuel known index idx [] = Inr []"
| "validate_steps va fuel known index idx (step # rest) =
     res_bind
       (case index of
          Some si \<Rightarrow> validate_step_against_capability_snapshot va fuel step idx si
        | None \<Rightarrow> (case va_capability_registry va of
                     Some reg \<Rightarrow> validate_step_against_registry reg fuel step idx
                   | None \<Rightarrow> Inr []))
       (\<lambda>issues. res_bind (validate_steps va fuel known index (Suc idx) rest)
          (\<lambda>more. Inr (validate_step_base va step idx known @ issues @ more)))"

definition validate_plan ::
  "plan_validator \<Rightarrow> nat \<Rightarrow> int \<Rightarrow> any_plan \<Rightarrow> capability_snapshot option \<Rightarrow> plan_validation_result res" where
  "validate_plan va fuel now plan snapshot =
     (let steps = plan_steps_of plan in
      if steps = []
      then Inr (plan_result va now
             [plan_issue_of ''PLAN_EMPTY_STEPS'' SEV_ERROR (MsgText ''plan must contain at least one step'') None None None [],
              plan_issue_of ''plan.steps.empty'' SEV_ERROR (MsgText ''plan must contain at least one step'') None None None []]
             snapshot)
      else
       (let count = (case va_max_step_count va of
               None \<Rightarrow> []
             | Some m \<Rightarrow> if int (length steps) > m
                 then [plan_issue_of ''PLAN_TOO_MANY_STEPS'' SEV_ERROR
                         (MsgText (''plan has '' @ nat_str (length steps) @ '' steps, max is '' @ int_str m)) None None (Some ''steps'') []]
                 else []);
            ids = step_id_issues 0 [] steps;
            digest = (case snapshot of None \<Rightarrow> []
               | Some s \<Rightarrow> validate_capability_digest va (plan_metadata_of plan) s);
            index = map_option build_snapshot_index snapshot
        in res_bind (validate_steps va fuel (map ps_step_id steps) index 0 steps)
             (\<lambda>rest. Inr (plan_result va now (count @ ids @ digest @ rest) snapshot))))"

section \<open>What an accepted plan satisfies\<close>

definition step_acceptable :: "plan_validator \<Rightarrow> string list \<Rightarrow> plan_step \<Rightarrow> bool" where
  "step_acceptable va known step \<longleftrightarrow>
     set (ps_depends_on step) \<subseteq> set known
     \<and> ps_kind step \<noteq> [] \<and> ps_kind step \<in> set (va_supported_step_kinds va)
     \<and> (case va_available_capabilities va of None \<Rightarrow> True | Some caps \<Rightarrow> set (ps_required_capabilities step) \<subseteq> set caps)
     \<and> ps_risk_level step \<in> set VALID_RISK_LEVELS
     \<and> ps_on_failure step \<in> set VALID_FAILURE_POLICIES
     \<and> (case ps_timeout_sec step of None \<Rightarrow> True | Some t \<Rightarrow> 0 < t)"

text \<open>
  What the capabilities \<open>ds\<close> resolved for the request \<open>r\<close> demand of a step: the step's
  kind is enabled and its inputs conform to the schema, and it declares only enabled capabilities
  (its own among them under the strict policy); or the kind is deprecated and the validator lets
  deprecated capabilities pass with a warning.
\<close>

definition step_permitted ::
  "plan_validator \<Rightarrow> capability_descriptor list \<Rightarrow> build_capability_snapshot_input \<Rightarrow> plan_step \<Rightarrow> bool" where
  "step_permitted va ds r step \<longleftrightarrow>
     (\<exists>d \<in> set ds. cd_step_kind d = ps_kind step \<and>
        (may_enable d r
           \<and> conforms (PDict (cd_input_schema d)) (PDict (ps_inputs step))
           \<and> (\<forall>c \<in> set (ps_required_capabilities step). \<exists>e \<in> set ds. cd_capability_id e = c \<and> may_enable e r)
           \<and> (va_strict_required_capabilities va \<longrightarrow> cd_capability_id d \<in> set (ps_required_capabilities step))
         \<or> va_allow_deprecated_capability va \<and> ca_status (resolve_descriptor d r) = DEPRECATED))"

definition digest_permitted :: "plan_validator \<Rightarrow> pyval dict \<Rightarrow> string \<Rightarrow> bool" where
  "digest_permitted va metadata expected \<longleftrightarrow>
     (if py_truthy (pget metadata ''capability_digest'')
      then pget metadata ''capability_digest'' = PStr expected
      else \<not> va_require_capability_digest va)"

definition plan_acceptable ::
  "plan_validator \<Rightarrow> capability_descriptor list \<Rightarrow> build_capability_snapshot_input \<Rightarrow> string \<Rightarrow> any_plan \<Rightarrow> bool" where
  "plan_acceptable va ds r expected plan \<longleftrightarrow>
     (let steps = plan_steps_of plan in
      steps \<noteq> []
      \<and> (case va_max_step_count va of None \<Rightarrow> True | Some m \<Rightarrow> int (length steps) \<le> m)
      \<and> distinct (map ps_step_id steps) \<and> [] \<notin> set (map ps_step_id steps)
      \<and> digest_permitted va (plan_metadata_of plan) expected
      \<and> (\<forall>step \<in> set steps. step_acceptable va (map ps_step_id steps) step \<and> step_permitted va ds r step))"

definition no_errors :: "plan_issue list \<Rightarrow> bool" where
  "no_errors issues = (\<not> list_ex (\<lambda>i. pi_severity i = SEV_ERROR) issues)"

lemma no_errors_simps [simp]:
  "no_errors []"
  "no_errors (i # is) = (pi_severity i \<noteq> SEV_ERROR \<and> no_errors is)"
  "no_errors (xs @ ys) = (no_errors xs \<and> no_errors ys)"
  by (simp_all add: no_errors_def)

lemma no_errors_concat_map: "no_errors (concat (map f xs)) \<longleftrightarrow> (\<forall>x \<in> set xs. no_errors (f x))"
  by (induction xs) simp_all

lemma plan_issue_of_severity [simp]: "pi_severity (plan_issue_of c s m l st p d) = s"
  by (simp add: plan_issue_of_def)

lemma no_step_id_errors:
  "no_errors (step_id_issues idx seen steps) \<longleftrightarrow>
     [] \<notin> set (map ps_step_id steps) \<and> distinct (map ps_step_id steps)
     \<and> set (map ps_step_id steps) \<inter> set seen = {}"
  by (induction steps arbitrary: idx seen) auto

lemma no_base_errors:
  "no_errors (validate_step_base va step idx known) \<longleftrightarrow> step_acceptable va known step"
proof -
  have deps: "no_errors (dependency_issues step loc known) \<longleftrightarrow> set (ps_depends_on step) \<subseteq> set known" for loc
    by (auto simp: dependency_issues_def no_errors_concat_map)
  have kind: "no_errors (kind_issues va step loc) \<longleftrightarrow>
      ps_kind step \<noteq> [] \<and> ps_kind step \<in> set (va_supported_step_kinds va)" for loc
    by (simp add: kind_issues_def)
  have avail: "no_errors (available_issues va step loc) \<longleftrightarrow>
      (case va_available_capabilities va of None \<Rightarrow> True | Some caps \<Rightarrow> set (ps_required_capabilities step) \<subseteq> set caps)" for loc
    by (auto simp: available_issues_def no_errors_def list_ex_iff split: option.split)
  have risk: "no_errors (risk_issues step loc) \<longleftrightarrow> ps_risk_level step \<in> set VALID_RISK_LEVELS" for loc
    by (simp add: risk_issues_def)
  have fail: "no_errors (failure_issues step loc) \<longleftrightarrow>
      ps_on_failure step \<in> set VALID_FAILURE_POLICIES \<and>
      (case ps_timeout_sec step of None \<Rightarrow> True | Some t \<Rightarrow> 0 < t)" for loc
    by (auto simp: failure_issues_def split: option.split)
  show ?thesis
    by (simp add: validate_step_base_def Let_def step_acceptable_def deps kind avail risk fail)
qed

lemma py_eq_str_iff: "py_eq v (PStr s) \<longleftrightarrow> v = PStr s"
  by (cases v) (simp_all add: py_eq.simps)

lemma no_digest_errors:
  "no_errors (validate_capability_digest va md s) \<longleftrightarrow> digest_permitted va md (cs_capability_digest s)"
  by (simp add: validate_capability_digest_def digest_permitted_def Let_def py_eq_str_iff)

section \<open>The index of a snapshot\<close>

lemma find_map_option: "find P (map f xs) = map_option f (find (\<lambda>x. P (f x)) xs)"
  by (induction xs) simp_all

lemma dict_by_find:
  assumes "distinct (map kf xs)"
  shows "dget (dict_by kf vf xs) k = map_option vf (find (\<lambda>x. kf x = k) xs)"
proof (cases "find (\<lambda>x. kf x = k) xs")
  case None
  then have "k \<notin> kf ` set xs" by (auto simp: find_None_iff)
  with None show ?thesis using dict_by_dget_None [of kf vf xs k] by simp
next
  case (Some x)
  then have "x \<in> set xs" "kf x = k" by (auto simp: find_Some_iff)
  with Some show ?thesis using dict_by_distinct [OF assms, of x vf] by simp
qed

lemma find_in_distinct:
  assumes "distinct (map kf xs)" "find (\<lambda>x. kf x = k) xs = Some x"
  shows "y \<in> set xs \<and> kf y = k \<longleftrightarrow> y = x"
proof -
  have x: "x \<in> set xs" "kf x = k" using assms(2) by (auto simp: find_Some_iff)
  then show ?thesis using inj_onD [of kf "set xs" y x] assms(1) by (auto simp: distinct_map)
qed

lemma unique_member:
  "(\<And>e. e \<in> S \<and> f e = k \<longleftrightarrow> e = d) \<Longrightarrow> (\<exists>e \<in> S. f e = k \<and> P e) \<longleftrightarrow> P d"
  by (metis (no_types))

lemma snapshot_index_lookups:
  assumes "list_all_capabilities reg = ds" "distinct (map cd_capability_id ds)" "distinct (map cd_step_kind ds)"
    and index_def: "index = build_snapshot_index (build_snapshot digest sid reg r)"
  shows "dget (si_descriptor_by_step_kind index) k = find (\<lambda>d. cd_step_kind d = k) ds"
    and "dget (si_availability_by_step_kind index) k
           = map_option (\<lambda>d. resolve_descriptor d r) (find (\<lambda>d. cd_step_kind d = k) ds)"
    and "dget (si_descriptor_by_capability_id index) k = find (\<lambda>d. cd_capability_id d = k) ds"
    and "dget (si_availability_by_capability_id index) k
           = map_option (\<lambda>d. resolve_descriptor d r) (find (\<lambda>d. cd_capability_id d = k) ds)"
    and "k \<in> set (si_enabled_step_kinds index) \<longleftrightarrow> (\<exists>d \<in> set ds. k = cd_step_kind d \<and> may_enable d r)"
proof -
  have "map ca_step_kind (map (\<lambda>d. resolve_descriptor d r) ds) = map cd_step_kind ds"
    "map ca_capability_id (map (\<lambda>d. resolve_descriptor d r) ds) = map cd_capability_id ds" by simp_all
  then have d: "distinct (map ca_step_kind (map (\<lambda>d. resolve_descriptor d r) ds))"
    "distinct (map ca_capability_id (map (\<lambda>d. resolve_descriptor d r) ds))"
    using assms(2,3) by (simp_all only:)
  note defs = index_def build_snapshot_index_def build_snapshot_def Let_def
  show "dget (si_descriptor_by_step_kind index) k = find (\<lambda>d. cd_step_kind d = k) ds"
    by (simp add: defs assms(1) dict_by_find [OF assms(3)] option.map_ident)
  show "dget (si_descriptor_by_capability_id index) k = find (\<lambda>d. cd_capability_id d = k) ds"
    by (simp add: defs assms(1) dict_by_find [OF assms(2)] option.map_ident)
  show "dget (si_availability_by_step_kind index) k
      = map_option (\<lambda>d. resolve_descriptor d r) (find (\<lambda>d. cd_step_kind d = k) ds)"
    using dict_by_find [OF d(1), of "\<lambda>a. a" k] by (simp add: defs assms(1) find_map_option option.map_ident)
  show "dget (si_availability_by_capability_id index) k
      = map_option (\<lambda>d. resolve_descriptor d r) (find (\<lambda>d. cd_capability_id d = k) ds)"
    using dict_by_find [OF d(2), of "\<lambda>a. a" k] by (simp add: defs assms(1) find_map_option option.map_ident)
  show "k \<in> set (si_enabled_step_kinds index) \<longleftrightarrow> (\<exists>d \<in> set ds. k = cd_step_kind d \<and> may_enable d r)"
    using available_kinds_iff [of k digest sid reg r]
    by (simp add: index_def build_snapshot_index_def assms(1))
qed

lemma no_schema_errors [simp]: "no_errors (schema_issues step loc md errs) \<longleftrightarrow> errs = []"
  by (cases errs) (simp_all add: schema_issues_def)

lemma unavailable_severity:
  "pi_severity (issue_for_unavailable_capability va step loc a) \<noteq> SEV_ERROR \<longleftrightarrow>
     va_allow_deprecated_capability va \<and> ca_status a = DEPRECATED"
  by (cases "ca_status a") (simp_all add: issue_for_unavailable_capability_def unavailable_code_def)

lemma no_declared_errors:
  assumes "list_all_capabilities reg = ds" "distinct (map cd_capability_id ds)" "distinct (map cd_step_kind ds)"
  shows "no_errors (declared_issue step loc (build_snapshot_index (build_snapshot digest sid reg r)) c) \<longleftrightarrow>
     (\<exists>e \<in> set ds. cd_capability_id e = c \<and> may_enable e r)"
proof (cases "find (\<lambda>d. cd_capability_id d = c) ds")
  case None
  then have "\<forall>d \<in> set ds. cd_capability_id d \<noteq> c" by (auto simp: find_None_iff)
  with None show ?thesis
    by (simp add: declared_issue_def snapshot_index_lookups [OF assms refl])
next
  case (Some d)
  then show ?thesis
    using unique_member [of "set ds" cd_capability_id c d "\<lambda>e. may_enable e r", OF find_in_distinct [OF assms(2) Some]]
    by (simp add: declared_issue_def snapshot_index_lookups [OF assms refl] resolve_enabled_iff)
qed

lemma no_required_errors:
  assumes "list_all_capabilities reg = ds" "distinct (map cd_capability_id ds)" "distinct (map cd_step_kind ds)"
  shows "no_errors (validate_required_capabilities va step loc d (build_snapshot_index (build_snapshot digest sid reg r))) \<longleftrightarrow>
     (\<forall>c \<in> set (ps_required_capabilities step). \<exists>e \<in> set ds. cd_capability_id e = c \<and> may_enable e r)
     \<and> (va_strict_required_capabilities va \<longrightarrow> cd_capability_id d \<in> set (ps_required_capabilities step))"
proof (cases "ps_required_capabilities step = []")
  case True
  then show ?thesis by (simp add: validate_required_capabilities_def Let_def)
next
  case False
  then show ?thesis
    by (auto simp: validate_required_capabilities_def Let_def no_errors_concat_map no_declared_errors [OF assms])
qed

lemma snapshot_step_exact:
  assumes reg: "list_all_capabilities reg = ds" "distinct (map cd_capability_id ds)" "distinct (map cd_step_kind ds)"
    and wf: "\<forall>d \<in> set ds. wf_schema (PDict (cd_input_schema d)) \<and> size (PDict (cd_input_schema d)) < fuel"
  shows "\<exists>issues. validate_step_against_capability_snapshot va fuel step idx
            (build_snapshot_index (build_snapshot digest sid reg r)) = Inr issues
          \<and> (no_errors issues \<longleftrightarrow> step_permitted va ds r step)"
proof (cases "find (\<lambda>d. cd_step_kind d = ps_kind step) ds")
  case None
  then have none: "\<forall>d \<in> set ds. cd_step_kind d \<noteq> ps_kind step" by (auto simp: find_None_iff)
  then have "\<not> step_permitted va ds r step" by (auto simp: step_permitted_def)
  with None show ?thesis
    by (simp add: validate_step_against_capability_snapshot_def Let_def snapshot_index_lookups [OF reg refl])
next
  case (Some d)
  have uniq: "e \<in> set ds \<and> cd_step_kind e = ps_kind step \<longleftrightarrow> e = d" for e
    by (rule find_in_distinct [OF reg(3) Some])
  have enabled: "(\<exists>e \<in> set ds. ps_kind step = cd_step_kind e \<and> may_enable e r) \<longleftrightarrow> may_enable d r"
    using unique_member [of "set ds" cd_step_kind "ps_kind step" d "\<lambda>e. may_enable e r", OF uniq]
    by (simp add: eq_commute [of "ps_kind step"])
  have d: "d \<in> set ds" "cd_step_kind d = ps_kind step" using uniq [of d] by auto
  let ?errs = "validate_payload_against_schema fuel (PDict (ps_inputs step)) (PDict (cd_input_schema d))"
  have perm: "step_permitted va ds r step \<longleftrightarrow>
      may_enable d r \<and> conforms (PDict (cd_input_schema d)) (PDict (ps_inputs step))
        \<and> (\<forall>c \<in> set (ps_required_capabilities step). \<exists>e \<in> set ds. cd_capability_id e = c \<and> may_enable e r)
        \<and> (va_strict_required_capabilities va \<longrightarrow> cd_capability_id d \<in> set (ps_required_capabilities step))
      \<or> va_allow_deprecated_capability va \<and> ca_status (resolve_descriptor d r) = DEPRECATED"
    unfolding step_permitted_def by (rule unique_member) (rule uniq)
  show ?thesis
  proof (cases "may_enable d r")
    case True
    then have st: "ca_status (resolve_descriptor d r) = ENABLED" by (simp add: resolve_enabled_iff)
    obtain errs where errs: "?errs = Inr errs"
      "errs = [] \<longleftrightarrow> conforms (PDict (cd_input_schema d)) (PDict (ps_inputs step))"
      using validate_exact [of "PDict (cd_input_schema d)" fuel] wf d(1)
      unfolding validate_payload_against_schema_def by blast
    show ?thesis
      by (simp add: validate_step_against_capability_snapshot_def Let_def snapshot_index_lookups [OF reg refl]
          Some enabled True st errs no_required_errors [OF reg] perm)
  next
    case False
    then show ?thesis
      using unavailable_severity [of va step "loc_of idx" "resolve_descriptor d r"]
      by (simp add: validate_step_against_capability_snapshot_def Let_def snapshot_index_lookups [OF reg refl]
          Some enabled perm)
  qed
qed

lemma validate_steps_exact:
  assumes reg: "list_all_capabilities reg = ds" "distinct (map cd_capability_id ds)" "distinct (map cd_step_kind ds)"
    and wf: "\<forall>d \<in> set ds. wf_schema (PDict (cd_input_schema d)) \<and> size (PDict (cd_input_schema d)) < fuel"
  shows "\<exists>issues. validate_steps va fuel known (Some (build_snapshot_index (build_snapshot digest sid reg r))) idx steps
            = Inr issues
          \<and> (no_errors issues \<longleftrightarrow> (\<forall>step \<in> set steps. step_acceptable va known step \<and> step_permitted va ds r step))"
proof (induction steps arbitrary: idx)
  case Nil
  then show ?case by simp
next
  case (Cons step steps)
  obtain is1 where is1:
    "validate_step_against_capability_snapshot va fuel step idx (build_snapshot_index (build_snapshot digest sid reg r)) = Inr is1"
    "no_errors is1 \<longleftrightarrow> step_permitted va ds r step"
    using snapshot_step_exact [OF reg wf] by blast
  obtain is2 where is2:
    "validate_steps va fuel known (Some (build_snapshot_index (build_snapshot digest sid reg r))) (Suc idx) steps = Inr is2"
    "no_errors is2 \<longleftrightarrow> (\<forall>step \<in> set steps. step_acceptable va known step \<and> step_permitted va ds r step)"
    using Cons.IH by blast
  show ?case by (simp add: is1 is2 no_base_errors)
qed

lemma passed_iff:
  "\<not> va_fail_on_warning va \<Longrightarrow> pv_passed (plan_result va now issues s) \<longleftrightarrow> no_errors issues"
  by (simp add: plan_result_def pv_passed_def no_errors_def Let_def)

lemma snapshot_digest_simp:
  "cs_capability_digest (build_snapshot digest sid reg r) = recompute_digest digest (build_snapshot digest sid reg r)"
  by (simp add: build_snapshot_def recompute_digest_def digest_payload_def Let_def)

lemma validate_plan_exact:
  assumes "register_all register_capability ds new_capability_registry = Inr reg"
    and "\<forall>d \<in> set ds. wf_schema (PDict (cd_input_schema d)) \<and> size (PDict (cd_input_schema d)) < fuel"
    and "\<not> va_fail_on_warning va"
  shows "\<exists>res. validate_plan va fuel now plan (Some (build_snapshot digest sid reg r)) = Inr res
     \<and> (pv_passed res \<longleftrightarrow>
          plan_acceptable va ds r (cs_capability_digest (build_snapshot digest sid reg r)) plan)"
proof -
  have reg: "list_all_capabilities reg = ds"
    using register_all_list [OF assms(1)] by (simp add: list_all_capabilities_def new_capability_registry_def)
  have dist: "distinct (map cd_capability_id ds)" "distinct (map cd_step_kind ds)"
    using cap_ids.register_all_fresh [OF new_registry_inv assms(1)]
      cap_kinds.register_all_fresh [OF new_registry_inv assms(1)] by blast+
  let ?s = "build_snapshot digest sid reg r" and ?steps = "plan_steps_of plan"
  obtain rest where rest:
    "validate_steps va fuel (map ps_step_id ?steps) (Some (build_snapshot_index ?s)) 0 ?steps = Inr rest"
    "no_errors rest \<longleftrightarrow> (\<forall>step \<in> set ?steps. step_acceptable va (map ps_step_id ?steps) step \<and> step_permitted va ds r step)"
    using validate_steps_exact [OF reg dist assms(2)] by blast
  show ?thesis
    by (auto simp: validate_plan_def Let_def rest passed_iff [OF assms(3)] plan_acceptable_def
        no_step_id_errors no_digest_errors split: option.splits)
qed

text \<open>
  C2: against the snapshot the panel builds of a registry whose schemas are well-formed, the plan
  validator (warnings not counted as failures) returns, and it passes exactly the acceptable plans:
  non-empty, within the step limit, step ids distinct and non-empty, dependencies among the step
  ids, kinds supported, risk levels, failure policies and timeouts valid, the capability digest that
  of the snapshot, and every step of an enabled kind with conforming inputs and enabled required
  capabilities.
\<close>

theorem plan_passes_iff_acceptable:
  assumes "register_all register_capability ds new_capability_registry = Inr reg"
    and "\<forall>d \<in> set ds. wf_schema (PDict (cd_input_schema d)) \<and> size (PDict (cd_input_schema d)) < fuel"
    and "\<not> va_fail_on_warning va"
  shows "\<exists>res. validate_plan va fuel now plan (Some (build_snapshot digest sid reg r)) = Inr res
     \<and> (pv_passed res \<longleftrightarrow>
          plan_acceptable va ds r (cs_capability_digest (build_snapshot digest sid reg r)) plan)"
  by (rule validate_plan_exact [OF assms])

section \<open>The deterministic planners against the validator\<close>

definition default_plan_validator :: plan_validator where
  "default_plan_validator = new_plan_validator None None None None False False False False"

lemma demo_steps_clean:
  "step_id_issues 0 [] demo_steps = []"
  "list_all (\<lambda>step. step_acceptable default_plan_validator (map ps_step_id demo_steps) step
       \<and> ps_risk_level step \<noteq> RISK_HIGH) demo_steps"
  by (simp_all add: demo_steps_def plan_step_with_defaults_def step_acceptable_def
      default_plan_validator_def new_plan_validator_def SUPPORTED_PLAN_STEP_KINDS_def
      VALID_RISK_LEVELS_def VALID_FAILURE_POLICIES_def)

lemma validate_step_base_nil:
  "step_acceptable va known step \<Longrightarrow> ps_risk_level step \<noteq> RISK_HIGH \<Longrightarrow>
     validate_step_base va step idx known = []"
  by (auto simp: step_acceptable_def validate_step_base_def Let_def dependency_issues_def kind_issues_def
      available_issues_def risk_issues_def failure_issues_def filter_empty_conv split: option.splits)

lemma validate_steps_clean:
  "va_capability_registry va = None \<Longrightarrow>
   list_all (\<lambda>step. step_acceptable va known step \<and> ps_risk_level step \<noteq> RISK_HIGH) steps \<Longrightarrow>
     validate_steps va fuel known None idx steps = Inr []"
  by (induction steps arbitrary: idx) (simp_all add: validate_step_base_nil)

lemma validate_plan_demo:
  assumes "ep_steps p = demo_steps"
  shows "\<exists>res. validate_plan default_plan_validator fuel now (FinalPlan p) None = Inr res
     \<and> pv_passed res \<and> pv_issues res = []"
proof -
  have "va_capability_registry default_plan_validator = None"
    "va_max_step_count default_plan_validator = None"
    by (simp_all add: default_plan_validator_def new_plan_validator_def)
  moreover have "demo_steps \<noteq> []" by (simp add: demo_steps_def)
  ultimately show ?thesis
    by (simp add: validate_plan_def Let_def assms demo_steps_clean(1) validate_steps_clean [OF _ demo_steps_clean(2)]
        plan_result_def pv_passed_def)
qed

lemma demo_step_not_permitted:
  "hd demo_steps \<in> set demo_steps"
  "\<not> step_permitted va BUILTIN_CAPABILITIES r (hd demo_steps)"
proof -
  show "hd demo_steps \<in> set demo_steps" by (simp add: demo_steps_def)
  let ?step = "hd demo_steps"
  have kind: "ps_kind ?step = ''inspect_package''" "ps_inputs ?step = [(''language'', PStr ''java'')]"
    by (simp_all add: demo_steps_def plan_step_with_defaults_def)
  have only: "d = INSPECT_PACKAGE_CAPABILITY" if "d \<in> set BUILTIN_CAPABILITIES" "cd_step_kind d = ''inspect_package''" for d
    using that by (auto simp: BUILTIN_CAPABILITIES_def)
  have "\<not> conforms (PDict (cd_input_schema INSPECT_PACKAGE_CAPABILITY)) (PDict [(''language'', PStr ''java'')])"
    by (simp add: InspectPackageInput_def schema_literal conforms.simps [of "PDict _"]
        keyword_holds_def has_type_def schema_properties_def)
  moreover have "ca_status (resolve_descriptor INSPECT_PACKAGE_CAPABILITY r) \<noteq> DEPRECATED"
    by (simp add: resolve_descriptor_def make_availability_def Let_def INSPECT_PACKAGE_CAPABILITY_def
        descriptor_with_defaults_def)
  ultimately show "\<not> step_permitted va BUILTIN_CAPABILITIES r ?step"
    unfolding step_permitted_def kind using only by blast
qed

text \<open>
  The plan of the demo planner, and of the rule fallback planner built on it, passes the plain
  validator without any issue whatever the context is; but against any snapshot the panel builds
  from the builtin registry both are rejected, for their first step has an input the schema of its
  capability forbids.
\<close>

theorem demo_plan_plain_but_not_capability_valid:
  "(\<exists>res. validate_plan default_plan_validator fuel now (FinalPlan (demo_java_plan pid t ctx)) None = Inr res
       \<and> pv_passed res \<and> pv_issues res = [])
   \<and> (\<exists>res. validate_plan default_plan_validator fuel now (FinalPlan (rule_fallback_plan pid t ctx)) None = Inr res
       \<and> pv_passed res \<and> pv_issues res = [])
   \<and> (\<exists>reg res. build_builtin_capability_registry = Inr reg
       \<and> validate_plan default_plan_validator 1000 now (FinalPlan (demo_java_plan pid t ctx))
            (Some (build_snapshot digest sid reg r)) = Inr res
       \<and> \<not> pv_passed res)"
proof (intro conjI)
  show "\<exists>res. validate_plan default_plan_validator fuel now (FinalPlan (demo_java_plan pid t ctx)) None = Inr res
       \<and> pv_passed res \<and> pv_issues res = []"
    by (rule validate_plan_demo) (simp add: demo_java_plan_def)
  show "\<exists>res. validate_plan default_plan_validator fuel now (FinalPlan (rule_fallback_plan pid t ctx)) None = Inr res
       \<and> pv_passed res \<and> pv_issues res = []"
    by (rule validate_plan_demo) (simp add: rule_fallback_plan_def demo_java_plan_def)
  obtain reg where reg: "build_builtin_capability_registry = Inr reg"
    "list_all_capabilities reg = BUILTIN_CAPABILITIES" using builtin_registration by blast
  then have built: "register_all register_capability BUILTIN_CAPABILITIES new_capability_registry = Inr reg"
    by (simp add: build_builtin_capability_registry_def)
  have dist: "distinct (map cd_capability_id BUILTIN_CAPABILITIES)" "distinct (map cd_step_kind BUILTIN_CAPABILITIES)"
    using cap_ids.register_all_fresh [OF new_registry_inv built]
      cap_kinds.register_all_fresh [OF new_registry_inv built] by blast+
  have wf: "\<forall>d \<in> set BUILTIN_CAPABILITIES. wf_schema (PDict (cd_input_schema d)) \<and> size (PDict (cd_input_schema d)) < 1000"
    using builtin_schemas_wf builtin_schema_sizes by (auto simp: list_all_iff)
  let ?plan = "demo_java_plan pid t ctx" and ?s = "build_snapshot digest sid reg r"
  have steps: "ep_steps ?plan = demo_steps" by (simp add: demo_java_plan_def)
  obtain rest where rest:
    "validate_steps default_plan_validator 1000 (map ps_step_id demo_steps) (Some (build_snapshot_index ?s)) 0 demo_steps = Inr rest"
    "\<not> no_errors rest"
    using validate_steps_exact [OF reg(2) dist wf] demo_step_not_permitted by blast
  have "\<not> va_fail_on_warning default_plan_validator"
    by (simp add: default_plan_validator_def new_plan_validator_def)
  then show "\<exists>reg res. build_builtin_capability_registry = Inr reg
       \<and> validate_plan default_plan_validator 1000 now (FinalPlan ?plan) (Some (build_snapshot digest sid reg r)) = Inr res
       \<and> \<not> pv_passed res"
    using rest reg(1)
    by (auto simp: validate_plan_def Let_def steps passed_iff plan_result_def pv_passed_def no_errors_def)
qed

theorem plan_passes_iff_acceptable_witness:
  "\<exists>res. validate_plan default_plan_validator 10 0 (FinalPlan (demo_java_plan ''p1'' 0 sample_context))
        (Some (build_snapshot (\<lambda>p. ''d'') ''s1'' sample_registry sample_request)) = Inr res
     \<and> (pv_passed res \<longleftrightarrow> plan_acceptable default_plan_validator [sample_descriptor] sample_request
          (cs_capability_digest (build_snapshot (\<lambda>p. ''d'') ''s1'' sample_registry sample_request))
          (FinalPlan (demo_java_plan ''p1'' 0 sample_context)))"
  by (rule plan_passes_iff_acceptable [OF sample_registration])
    (simp_all add: sample_descriptor_def wf_base_schemas default_plan_validator_def new_plan_validator_def)

end
