(* ===== verification/StepExecutors.thy ===== *)
theory StepExecutors
  imports Execution PlanValidation
begin

text \<open>
  The step executors of \<open>execution/step_executors/\<close> with \<open>_utils.py\<close>, and the default
  registry of \<open>execution/__init__.py\<close>. The Docker driver, the runtime manager, the command
  controller and the inspectors are operations on the world of the context; requests and answers are
  dynamic values, as in the source. \<open>sv_str\<close> is \<open>str\<close> of a log entry of the Docker client.
\<close>

section \<open>Services\<close>

record build_image_result =
  br_image_id :: string
  br_tags :: "string list"
  br_logs :: "pyval list"

record 'w executor_services = "'w engine_services" +
  sv_build_image :: "pyval dict \<Rightarrow> ('w, build_image_result) sx"
  sv_create_container :: "pyval dict \<Rightarrow> string \<Rightarrow> ('w, pyval) sx"
  sv_create_deployment :: "pyval dict \<Rightarrow> ('w, pyval) sx"
  sv_execute_action :: "pyval \<Rightarrow> pyval dict \<Rightarrow> ('w, pyval) sx"
  sv_inspect_java :: "pyval \<Rightarrow> ('w, pyval) sx"
  sv_inspect_env :: "pyval dict \<Rightarrow> ('w, pyval) sx"
  sv_str :: "pyval \<Rightarrow> string"

section \<open>Utilities\<close>

function jsonable :: "pyval \<Rightarrow> pyval" where
  "jsonable v =
     (case v of
        PObj c fs \<Rightarrow> asdict_value v
      | PDict d \<Rightarrow> PDict (map (\<lambda>(k, x). (k, jsonable x)) d)
      | PList xs \<Rightarrow> PList (map jsonable xs)
      | _ \<Rightarrow> v)"
  by pat_completeness auto
termination
  by (relation "measure size") (auto dest!: size_dict_item size_list_item)

declare jsonable.simps [simp del]

definition get_input_or_variable :: "pyval dict \<Rightarrow> 'w execution_context \<Rightarrow> string \<Rightarrow> pyval \<Rightarrow> pyval" where
  "get_input_or_variable inputs c key d =
     (case dget inputs key of Some v \<Rightarrow> v | None \<Rightarrow> dget_default (cx_variables c) key d)"

fun first_output :: "pyval dict list \<Rightarrow> string \<Rightarrow> pyval" where
  "first_output [] key = PNone"
| "first_output (outputs # rest) key =
     (case dget outputs key of Some v \<Rightarrow> v | None \<Rightarrow> first_output rest key)"

definition find_output :: "'w execution_context \<Rightarrow> string \<Rightarrow> pyval" where
  "find_output c key = first_output (rev (dvalues (cx_step_outputs c))) key"

definition persist_text ::
  "'w executor_services \<Rightarrow> string \<Rightarrow> string \<Rightarrow> string \<Rightarrow> string \<Rightarrow> ('w, string option) cx" where
  "persist_text sv kind name text mime_type =
     sx_bind sx_get (\<lambda>c.
       if \<not> cx_artifact_manager c then sx_return None
       else sx_bind
         (on_world (sv_persist sv (PersistKeywords (cx_task_id c) kind name text ''outputs'' mime_type ''execution'')))
         (\<lambda>record. let ref = record_ref record in
            sx_bind (sx_modify (\<lambda>c. c\<lparr>cx_artifact_refs := dput name ref (cx_artifact_refs c)\<rparr>))
              (\<lambda>_. sx_return (Some ref))))"

definition persist_json :: "'w executor_services \<Rightarrow> string \<Rightarrow> string \<Rightarrow> pyval \<Rightarrow> ('w, string option) cx" where
  "persist_json sv kind name payload =
     sx_bind (sx_lift (sv_json sv (jsonable payload)))
       (\<lambda>text. persist_text sv kind name text ''application/json'')"

text \<open>\<open>refs.append(ref)\<close> when the reference is true.\<close>

definition ref_list :: "string option \<Rightarrow> string list" where
  "ref_list r = filter (\<lambda>s. s \<noteq> []) (option_list r)"

definition failed_result :: "string \<Rightarrow> string \<Rightarrow> step_execution_result" where
  "failed_result error_type error_message =
     (step_result EXEC_FAILED)\<lparr>er_error_type := Some error_type, er_error_message := Some error_message\<rparr>"

section \<open>Splitting a shell word list\<close>

text \<open>
  \<open>shlex.split\<close> in POSIX mode: the state is between words, in a word, in a quotation or after a
  backslash (with the state to go back to); a word is kept when it is non-empty or was quoted.
\<close>

datatype shlex_state = ShSpace | ShWord | ShQuote char | ShEscape shlex_state

fun shlex_split :: "shlex_state \<Rightarrow> bool \<Rightarrow> string \<Rightarrow> string \<Rightarrow> string list res" where
  "shlex_split st quoted tok [] =
     (case st of
        ShSpace \<Rightarrow> Inr (if quoted \<or> tok \<noteq> [] then [rev tok] else [])
      | ShWord \<Rightarrow> Inr (if quoted \<or> tok \<noteq> [] then [rev tok] else [])
      | ShQuote q \<Rightarrow> Inl (Exc ''ValueError'' ''No closing quotation'')
      | ShEscape s \<Rightarrow> Inl (Exc ''ValueError'' ''No escaped character''))"
| "shlex_split st quoted tok (c # cs) =
     (let ws = (of_char c :: nat) \<in> {9, 10, 13, 32};
          quote = (of_char c :: nat) \<in> {34, 39};
          bs = (of_char c :: nat) = 92
      in case st of
           ShSpace \<Rightarrow>
             if ws then shlex_split ShSpace False [] cs
             else if bs then shlex_split (ShEscape ShWord) quoted tok cs
             else if quote then shlex_split (ShQuote c) quoted tok cs
             else shlex_split ShWord quoted (c # tok) cs
         | ShWord \<Rightarrow>
             if ws then (if quoted \<or> tok \<noteq> []
                         then res_bind (shlex_split ShSpace False [] cs) (\<lambda>ws. Inr (rev tok # ws))
                         else shlex_split ShSpace False [] cs)
             else if quote then shlex_split (ShQuote c) quoted tok cs
             else if bs then shlex_split (ShEscape ShWord) quoted tok cs
             else shlex_split ShWord quoted (c # tok) cs
         | ShQuote q \<Rightarrow>
             if c = q then shlex_split ShWord True tok cs
             else if bs \<and> (of_char q :: nat) = 34 then shlex_split (ShEscape (ShQuote q)) True tok cs
             else shlex_split (ShQuote q) True (c # tok) cs
         | ShEscape (ShQuote q) \<Rightarrow>
             if bs \<or> c = q then shlex_split (ShQuote q) quoted (c # tok) cs
             else shlex_split (ShQuote q) quoted (c # char_of (92 :: nat) # tok) cs
         | ShEscape s \<Rightarrow> shlex_split s quoted (c # tok) cs)"

section \<open>Executors\<close>

definition build_spec_fields :: "string list" where
  "build_spec_fields =
     [''tag'', ''dockerfile_text'', ''dockerfile_path_in_context'', ''context_dir'', ''context_tar_bytes'',
      ''context_files'', ''pull'', ''nocache'', ''rm'', ''forcerm'', ''timeout'', ''buildargs'', ''encoding'']"

definition container_spec_fields :: "string list" where
  "container_spec_fields =
     [''image'', ''command'', ''working_dir'', ''environment'', ''detach'', ''mem_limit'', ''nano_cpus'',
      ''network_disabled'', ''read_only'', ''user'', ''auto_remove'', ''labels'']"

definition keep_fields :: "string list \<Rightarrow> pyval dict \<Rightarrow> pyval dict" where
  "keep_fields names d = filter (\<lambda>(k, v). k \<in> set names) d"

definition execute_build_image :: "'w executor_services \<Rightarrow> plan_step \<Rightarrow> ('w, step_execution_result) cx" where
  "execute_build_image sv step = sx_bind sx_get (\<lambda>c.
     if \<not> cx_docker_driver c then sx_return (failed_result ''MissingDependency'' ''docker_driver is not configured'')
     else
       let raw = dget_default (ps_inputs step) ''build_spec'' (PDict (ps_inputs step)) in
       sx_bind (sx_lift (case raw of
           PObj cls fs \<Rightarrow> if cls = ''BuildImageSpec'' then Inr fs else Inl TypeError
         | _ \<Rightarrow> res_bind (py_dict raw) (\<lambda>d. Inr (keep_fields build_spec_fields d)))) (\<lambda>spec.
       sx_bind (on_world (sv_build_image sv spec)) (\<lambda>result.
       let logs = py_join nl (map (sv_str sv) (br_logs result)) in
       sx_bind (persist_text sv ''build.log'' (ps_step_id step @ ''.build.log'') logs ''text/plain'') (\<lambda>ref.
       sx_return ((step_result SUCCEEDED)
         \<lparr>er_outputs := [(''image_id'', PStr (br_image_id result)), (''tags'', py_strs (br_tags result)),
                         (''tag'', pget spec ''tag''), (''build_logs'', PStr logs)],
          er_artifact_refs := ref_list ref,
          er_log_text := (if logs = [] then None else Some logs)\<rparr>)))))"

text \<open>One item of \<open>items\<close>; its name, kind and MIME type are strings, other classes are not modelled.\<close>

definition collect_item :: "'w executor_services \<Rightarrow> pyval \<Rightarrow> ('w, string list) cx" where
  "collect_item sv item =
     sx_bind (sx_lift (py_get item ''name'' (PStr ''artifact.txt''))) (\<lambda>name.
     sx_bind (sx_lift (py_get item ''kind'' (PStr ''exec.log''))) (\<lambda>kind.
     sx_bind (sx_lift (py_get item ''content'' (PStr []))) (\<lambda>content.
     sx_bind (sx_lift (py_get item ''mime_type'' (PStr ''text/plain''))) (\<lambda>mime.
       case (name, kind, content, mime) of
         (PStr n, PStr k, PStr t, PStr m) \<Rightarrow>
           sx_bind (persist_text sv k n t m) (\<lambda>ref. sx_return (ref_list ref))
       | _ \<Rightarrow> sx_raise AttributeError))))"

definition string_dict_value :: "string dict \<Rightarrow> pyval" where
  "string_dict_value d = PDict (map (\<lambda>(k, s). (k, PStr s)) d)"

definition execute_collect_artifact :: "'w executor_services \<Rightarrow> plan_step \<Rightarrow> ('w, step_execution_result) cx" where
  "execute_collect_artifact sv step = sx_bind sx_get (\<lambda>c.
     if \<not> cx_artifact_manager c
     then sx_return (failed_result ''MissingDependency'' ''artifact_manager is not configured'')
     else
       sx_bind (sx_lift (py_iter (dget_default (ps_inputs step) ''items'' (PList [])))) (\<lambda>items.
       sx_bind (sx_map (collect_item sv) items) (\<lambda>refs.
       sx_bind sx_get (\<lambda>c'.
       sx_bind (persist_json sv ''report.json'' (ps_step_id step @ ''.collected_context.json'')
           (PDict [(''step_outputs'', outputs_value (cx_step_outputs c')),
                   (''artifact_refs'', string_dict_value (cx_artifact_refs c')),
                   (''runtime_refs'', PDict (cx_runtime_refs c'))])) (\<lambda>summary_ref.
       let all = concat refs @ ref_list summary_ref in
       sx_return ((step_result SUCCEEDED)
         \<lparr>er_outputs := [(''artifact_refs'', py_strs all)], er_artifact_refs := all\<rparr>))))))"

definition set_default :: "string \<Rightarrow> pyval \<Rightarrow> pyval dict \<Rightarrow> pyval dict" where
  "set_default k v d = (if dhas d k then d else dput k v d)"

definition execute_create_runtime :: "'w executor_services \<Rightarrow> plan_step \<Rightarrow> ('w, step_execution_result) cx" where
  "execute_create_runtime sv step = sx_bind sx_get (\<lambda>c.
     if \<not> cx_runtime_manager c then sx_return (failed_result ''MissingDependency'' ''runtime_manager is not configured'')
     else
      (let inputs = ps_inputs step;
           image = py_or (pget inputs ''image'') (py_or (pget inputs ''image_id'') (find_output c ''image_id''));
           raw = pget inputs ''container_spec''
       in if \<not> py_truthy image then sx_return (failed_result ''MissingInput'' ''image_id is required to create runtime'')
       else
         sx_bind (sx_lift (case raw of
             PObj cls fs \<Rightarrow> if cls = ''ContainerCreateSpec'' then Inr fs else Inl TypeError
           | _ \<Rightarrow> res_bind (py_dict (py_or raw (PDict []))) (\<lambda>payload. Inr (keep_fields container_spec_fields
               (set_default ''command'' (dget_default inputs ''command'' (PList [PStr ''sleep'', PStr ''3600'']))
                 (set_default ''image'' image payload)))))) (\<lambda>spec.
         sx_bind (on_world (sv_create_container sv spec (cx_task_id c))) (\<lambda>container.
         let container_id = py_getattr container ''container_id'' PNone;
             outputs = [(''container_id'', container_id), (''engine_id'', py_getattr container ''engine_id'' PNone),
                        (''runtime_metadata'', py_getattr container ''metadata_json'' PNone)] in
         sx_bind (sx_modify (\<lambda>c. c\<lparr>cx_runtime_refs :=
             dput ''latest_container_id'' container_id (dput (ps_step_id step) container (cx_runtime_refs c))\<rparr>)) (\<lambda>_.
         if py_truthy (pget inputs ''create_deployment'')
         then sx_bind (sx_lift (case pget inputs ''create_deployment'' of
                PDict d \<Rightarrow> if list_ex (dhas d) [''image_id'', ''container_id'', ''task_id''] then Inl TypeError
                  else Inr (d @ [(''image_id'', image), (''container_id'', container_id),
                                 (''task_id'', PStr (cx_task_id c))])
              | _ \<Rightarrow> Inl TypeError)) (\<lambda>args.
            sx_bind (on_world (sv_create_deployment sv args)) (\<lambda>deployment.
            sx_return ((step_result SUCCEEDED)
              \<lparr>er_outputs := outputs @ [(''deployment_id'', py_getattr deployment ''deployment_id'' PNone)]\<rparr>)))
         else sx_return ((step_result SUCCEEDED)\<lparr>er_outputs := outputs\<rparr>))))))"

definition inspection_fields :: "pyval dict \<Rightarrow> 'w execution_context \<Rightarrow> pyval" where
  "inspection_fields inputs c = PObj ''JavaPackageInspectionInput''
     [(''sdk_name'', get_input_or_variable inputs c ''sdk_name'' (PStr ''sdk'')),
      (''sdk_version'', get_input_or_variable inputs c ''sdk_version'' PNone),
      (''jar_bytes'', get_input_or_variable inputs c ''jar_bytes'' (PStr [])),
      (''pom_xml_bytes'', get_input_or_variable inputs c ''pom_xml_bytes'' PNone),
      (''settings_xml_bytes'', get_input_or_variable inputs c ''settings_xml_bytes'' PNone),
      (''jdk_bytes'', get_input_or_variable inputs c ''jdk_bytes'' PNone)]"

definition execute_inspect_package :: "'w executor_services \<Rightarrow> plan_step \<Rightarrow> ('w, step_execution_result) cx" where
  "execute_inspect_package sv step = sx_bind sx_get (\<lambda>c.
     if \<not> cx_package_inspector c
     then sx_return (failed_result ''MissingDependency'' ''package_inspector is not configured'')
     else
      (let inputs = ps_inputs step;
           language = get_input_or_variable inputs c ''language'' (PStr ''java'')
       in if \<not> py_eq language (PStr ''java'')
       then sx_return (failed_result ''UnsupportedPackageLanguage'' (''unsupported package language: '' @ sv_str sv language))
       else
        (let given = get_input_or_variable inputs c ''inspection_input'' PNone;
             data = (if given = PNone then inspection_fields inputs c else given) in
         sx_bind (on_world (sv_inspect_java sv data)) (\<lambda>report.
         sx_bind (persist_json sv ''report.json'' (ps_step_id step @ ''.package_report.json'') report) (\<lambda>ref.
         sx_return ((step_result SUCCEEDED)
           \<lparr>er_outputs :=
              [(''package_report'', jsonable report), (''language'', jsonable (py_getattr report ''language'' language)),
               (''package_name'', jsonable (py_getattr report ''package_name'' PNone)),
               (''version'', jsonable (py_getattr report ''version'' PNone))],
            er_artifact_refs := ref_list ref\<rparr>))))))"

definition execute_inspect_environment :: "'w executor_services \<Rightarrow> plan_step \<Rightarrow> ('w, step_execution_result) cx" where
  "execute_inspect_environment sv step = sx_bind sx_get (\<lambda>c.
     if \<not> cx_env_inspector c
     then sx_return (failed_result ''MissingDependency'' ''env_inspector is not configured'')
     else
      (let inputs = ps_inputs step;
           container_id = py_or (pget inputs ''container_id'')
             (py_or (find_output c ''container_id'') (pget (cx_runtime_refs c) ''latest_container_id''))
       in if \<not> py_truthy container_id
       then sx_return (failed_result ''MissingInput'' ''container_id is required to inspect environment'')
       else
         sx_bind (on_world (sv_inspect_env sv
             [(''engine_id'', py_or (pget inputs ''engine_id'') (py_or (find_output c ''engine_id'')
                 (dget_default (cx_metadata c) ''engine_id'' (PStr ''unknown'')))),
              (''image_id'', py_or (pget inputs ''image_id'') (find_output c ''image_id'')),
              (''container_id'', container_id),
              (''runtime_name'', dget_default inputs ''runtime_name'' (PStr ''docker''))])) (\<lambda>report.
         sx_bind (persist_json sv ''report.json'' (ps_step_id step @ ''.env_report.json'') report) (\<lambda>ref.
         sx_bind (sx_modify (\<lambda>c. case ref_list ref of
             [] \<Rightarrow> c | r # _ \<Rightarrow> c\<lparr>cx_artifact_refs := dput ''latest_env_report'' r (cx_artifact_refs c)\<rparr>)) (\<lambda>_.
         sx_return ((step_result SUCCEEDED)
           \<lparr>er_outputs := [(''env_report'', jsonable report),
                           (''readiness'', jsonable (py_getattr report ''readiness'' (PStr ''unknown'')))],
            er_artifact_refs := ref_list ref\<rparr>))))))"

text \<open>\<open>exit_code in (None, 0)\<close>\<close>

definition no_failure_code :: "pyval \<Rightarrow> bool" where
  "no_failure_code v = py_in_list v [PNone, PInt 0]"

definition opt_text :: "pyval \<Rightarrow> string option" where
  "opt_text v = (case v of PStr s \<Rightarrow> Some s | _ \<Rightarrow> None)"

text \<open>
  A response of the controller is a dictionary whose \<open>data\<close> has string or missing streams
  (\<open>opt_text\<close>).
\<close>

definition move_cmd :: "pyval dict \<Rightarrow> pyval dict" where
  "move_cmd payload =
     (case dget payload ''cmd'' of
        Some v \<Rightarrow> if dhas payload ''argv'' then payload else dput ''argv'' v (ddelete ''cmd'' payload)
      | None \<Rightarrow> payload)"

definition execute_run_command :: "'w executor_services \<Rightarrow> plan_step \<Rightarrow> ('w, step_execution_result) cx" where
  "execute_run_command sv step = sx_bind sx_get (\<lambda>c.
     if \<not> cx_command_controller c
     then sx_return (failed_result ''MissingDependency'' ''command_controller is not configured'')
     else
      (let action = dget_default (ps_inputs step) ''action'' (PStr ''inspect_exec'') in
       sx_bind (sx_lift (py_dict (dget_default (ps_inputs step) ''payload'' (PDict [])))) (\<lambda>payload.
       sx_bind (on_world (sv_execute_action sv action (move_cmd payload))) (\<lambda>response.
       sx_bind (sx_lift (py_get response ''data'' (PDict []))) (\<lambda>data.
       sx_bind (sx_lift (py_get data ''exit_code'' PNone)) (\<lambda>exit_code.
       sx_bind (sx_lift (py_get response ''ok'' PNone)) (\<lambda>ok.
       sx_bind (sx_lift (py_get data ''stdout'' PNone)) (\<lambda>out.
       sx_bind (sx_lift (py_get data ''stderr'' PNone)) (\<lambda>err.
       sx_bind (sx_lift (py_get response ''error'' PNone)) (\<lambda>error.
       let good = (py_truthy ok \<and> no_failure_code exit_code) in
       sx_return ((step_result (if good then SUCCEEDED else EXEC_FAILED))
         \<lparr>er_outputs := [(''action'', action), (''response'', response), (''exit_code'', exit_code)],
          er_stdout := opt_text out, er_stderr := opt_text err,
          er_error_type := (if good then None else Some ''CommandFailed''),
          er_error_message := (if good then None
             else Some (if py_truthy error then sv_str sv error
                        else ''command action '' @ sv_str sv action @ '' failed''))\<rparr>)))))))))))"

record probe_run =
  pr_argv :: "pyval list"
  pr_response :: pyval
  pr_stdout :: pyval
  pr_stderr :: pyval
  pr_failed :: bool

definition run_probe :: "'w executor_services \<Rightarrow> plan_step \<Rightarrow> pyval \<Rightarrow> ('w, probe_run) cx" where
  "run_probe sv step probe =
     sx_bind (sx_lift (case probe of
         PStr s \<Rightarrow> res_bind (shlex_split ShSpace False [] s) (\<lambda>ws. Inr (map PStr ws))
       | _ \<Rightarrow> py_iter probe)) (\<lambda>argv.
     sx_bind (on_world (sv_execute_action sv (PStr ''inspect_exec'')
         [(''argv'', PList argv), (''timeout_sec'', opt_int (ps_timeout_sec step))])) (\<lambda>response.
     sx_bind (sx_lift (py_get response ''data'' (PDict []))) (\<lambda>data.
     sx_bind (sx_lift (py_get data ''stdout'' PNone)) (\<lambda>out.
     sx_bind (sx_lift (py_get data ''stderr'' PNone)) (\<lambda>err.
     sx_bind (sx_lift (py_get response ''ok'' PNone)) (\<lambda>ok.
     sx_bind (sx_lift (py_get data ''exit_code'' PNone)) (\<lambda>code.
     sx_return \<lparr>pr_argv = argv, pr_response = response, pr_stdout = out, pr_stderr = err,
                pr_failed = (\<not> py_truthy ok \<or> \<not> no_failure_code code)\<rparr>)))))))"

definition joined :: "pyval list \<Rightarrow> string option" where
  "joined parts = (let s = py_join nl (map str_of (filter py_truthy parts)) in if s = [] then None else Some s)"

definition execute_probes :: "'w executor_services \<Rightarrow> plan_step \<Rightarrow> ('w, step_execution_result) cx" where
  "execute_probes sv step = sx_bind sx_get (\<lambda>c.
     if \<not> cx_command_controller c
     then sx_return (failed_result ''MissingDependency'' ''command_controller is not configured'')
     else
       sx_bind (sx_lift (py_iter (py_or (pget (ps_inputs step) ''probes'') (PList [pget (ps_inputs step) ''probe''])))) (\<lambda>probes.
       sx_bind (sx_map (run_probe sv step) (filter py_truthy probes)) (\<lambda>runs.
       let results = PList (map (\<lambda>r. PDict [(''argv'', PList (pr_argv r)), (''response'', pr_response r)]) runs);
           failed = filter pr_failed runs in
       sx_bind (persist_json sv ''probe.result'' (ps_step_id step @ ''.probe_result.json'') results) (\<lambda>ref.
       sx_return ((step_result (if failed = [] then SUCCEEDED else EXEC_FAILED))
         \<lparr>er_outputs := [(''probe_result'', results), (''failed_count'', PInt (int (length failed)))],
          er_artifact_refs := ref_list ref,
          er_stdout := joined (map pr_stdout runs), er_stderr := joined (map pr_stderr runs),
          er_error_type := (if failed = [] then None else Some ''ProbeFailed''),
          er_error_message := (if failed = [] then None
             else Some (nat_str (length failed) @ '' probe(s) failed''))\<rparr>)))))"

definition placeholder_result :: "string \<Rightarrow> step_execution_result" where
  "placeholder_result message =
     (step_result SKIPPED)\<lparr>er_error_type := Some ''TemporarilyNotImplemented'', er_error_message := Some message\<rparr>"

definition execute_generate_script :: "plan_step \<Rightarrow> ('w, step_execution_result) cx" where
  "execute_generate_script step = sx_return (placeholder_result
     ''Temporarily not implemented in v1. Reserved for future script-agent integration.'')"

definition execute_run_test :: "plan_step \<Rightarrow> ('w, step_execution_result) cx" where
  "execute_run_test step = sx_return (placeholder_result
     ''Temporarily not implemented in v1. Reserved for future test-agent integration.'')"

definition execute_summarize_report :: "plan_step \<Rightarrow> ('w, step_execution_result) cx" where
  "execute_summarize_report step = sx_return (placeholder_result
     ''Temporarily not implemented in v1. Reserved for future report integration.'')"

section \<open>Default registry\<close>

definition default_executors :: "'w executor_services \<Rightarrow> 'w step_executor list" where
  "default_executors sv =
     [\<lparr>ex_step_kind = INSPECT_PACKAGE, ex_execute = execute_inspect_package sv\<rparr>,
      \<lparr>ex_step_kind = BUILD_IMAGE, ex_execute = execute_build_image sv\<rparr>,
      \<lparr>ex_step_kind = CREATE_RUNTIME, ex_execute = execute_create_runtime sv\<rparr>,
      \<lparr>ex_step_kind = INSPECT_ENVIRONMENT, ex_execute = execute_inspect_environment sv\<rparr>,
      \<lparr>ex_step_kind = RUN_COMMAND, ex_execute = execute_run_command sv\<rparr>,
      \<lparr>ex_step_kind = EXECUTE_PROBE, ex_execute = execute_probes sv\<rparr>,
      \<lparr>ex_step_kind = COLLECT_ARTIFACT, ex_execute = execute_collect_artifact sv\<rparr>,
      \<lparr>ex_step_kind = GENERATE_SCRIPT, ex_execute = execute_generate_script\<rparr>,
      \<lparr>ex_step_kind = RUN_TEST, ex_execute = execute_run_test\<rparr>,
      \<lparr>ex_step_kind = SUMMARIZE_REPORT, ex_execute = execute_summarize_report\<rparr>]"

definition create_default_step_executor_registry :: "'w executor_services \<Rightarrow> 'w step_executor_registry res" where
  "create_default_step_executor_registry sv = register_all register_executor (default_executors sv) []"

section \<open>Properties\<close>

lemma default_registry:
  "create_default_step_executor_registry sv = Inr (map (\<lambda>ex. (ex_step_kind ex, ex)) (default_executors sv))"
  by (simp add: create_default_step_executor_registry_def default_executors_def register_executor_def)

text \<open>
  The default registry has an executor for every step kind the plan validator supports except
  \<open>parse_text\<close>, and for no other kind.
\<close>

theorem default_registry_kinds:
  "\<exists>reg. create_default_step_executor_registry sv = Inr reg
     \<and> set (supported_step_kinds reg) = set SUPPORTED_PLAN_STEP_KINDS - {PARSE_TEXT}
     \<and> PARSE_TEXT \<in> set SUPPORTED_PLAN_STEP_KINDS"
  by (auto simp: default_registry default_executors_def supported_step_kinds_def SUPPORTED_PLAN_STEP_KINDS_def)

lemma default_executor_found:
  "create_default_step_executor_registry sv = Inr reg \<Longrightarrow> ex \<in> set (default_executors sv) \<Longrightarrow>
     dget reg (ex_step_kind ex) = Some ex"
  unfolding create_default_step_executor_registry_def
  using executors.register_all_distinct_lookup [where s = "[]" and vs = "default_executors sv" and s' = reg and v = ex]
  by (simp add: default_executors_def)

text \<open>Keys of a payload an object schema with \<open>additionalProperties: false\<close> admits.\<close>

lemma conforms_forbid_keys:
  "conforms (PDict (object_schema title Forbid props required)) (PDict obj) \<Longrightarrow>
     k \<in> set (dkeys obj) \<Longrightarrow> dhas props k"
  by (auto simp: conforms.simps [of "PDict _"] object_schema_def keyword_holds_def has_type_def
      schema_properties_def list_all_iff dkeys_def split: if_splits)

lemma conforms_model_keys:
  assumes "conforms (PDict (model_json_schema (ModelT name Forbid flds))) (PDict obj)" "dhas obj k"
  shows "k \<in> set (map fst flds)"
proof -
  have "k \<in> set (dkeys obj)" using assms(2) by (simp add: dkeys_set)
  from conforms_forbid_keys [OF _ this] assms(1)
  have "dhas (map (\<lambda>(n, b, d, k). (n, PDict (schema_for_type b k))) flds) k"
    by (simp add: model_json_schema_def)
  then show ?thesis by (force simp: dhas_iff)
qed

lemma probe_inputs_without_probes:
  "conforms (PDict (model_json_schema ExecuteProbeInput)) (PDict inputs) \<Longrightarrow>
     \<not> dhas inputs ''probes'' \<and> \<not> dhas inputs ''probe''"
  unfolding ExecuteProbeInput_def using conforms_model_keys by fastforce

lemma pget_missing: "\<not> dhas d k \<Longrightarrow> pget d k = PNone"
  by (simp add: pget_def dget_default_dget dhas_dget split: option.split)

text \<open>
  A probe step whose inputs satisfy the published schema of its capability runs no probe: the
  command controller is never called and, with no artifact manager, the state is left as it was, yet
  the step reports success.
\<close>

theorem valid_probe_step_runs_nothing:
  assumes "conforms (PDict (model_json_schema ExecuteProbeInput)) (PDict (ps_inputs step))"
    and "cx_command_controller c" "\<not> cx_artifact_manager c" "sv_json sv (PList []) = Inr text"
  shows "\<exists>r. execute_probes sv step c = (Inr r, c) \<and> er_status r = SUCCEEDED
     \<and> dget (er_outputs r) ''probe_result'' = Some (PList [])"
proof -
  have "pget (ps_inputs step) ''probes'' = PNone" "pget (ps_inputs step) ''probe'' = PNone"
    using probe_inputs_without_probes [OF assms(1)] by (auto simp: pget_missing)
  then show ?thesis
    using assms(2-4)
    by (simp add: execute_probes_def sx_bind_def sx_simps py_or_def persist_json_def persist_text_def
        jsonable.simps step_result_def Let_def)
qed

lemma create_inputs_without_image:
  "conforms (PDict (model_json_schema CreateRuntimeInput)) (PDict inputs) \<Longrightarrow>
     \<not> dhas inputs ''image'' \<and> \<not> dhas inputs ''image_id''"
  unfolding CreateRuntimeInput_def using conforms_model_keys by fastforce

text \<open>
  A create-runtime step whose inputs satisfy the published schema of its capability never uses
  the image it names: without an image id among the earlier outputs it fails for a missing input,
  without any call to the runtime manager.
\<close>

theorem valid_create_runtime_ignores_image_ref:
  assumes "conforms (PDict (model_json_schema CreateRuntimeInput)) (PDict (ps_inputs step))"
    and "cx_runtime_manager c" "\<not> py_truthy (find_output c ''image_id'')"
  shows "execute_create_runtime sv step c
     = (Inr (failed_result ''MissingInput'' ''image_id is required to create runtime''), c)"
proof -
  have "pget (ps_inputs step) ''image'' = PNone" "pget (ps_inputs step) ''image_id'' = PNone"
    using create_inputs_without_image [OF assms(1)] by (auto simp: pget_missing)
  then show ?thesis
    using assms(2,3) by (simp add: execute_create_runtime_def sx_bind_def sx_simps py_or_def)
qed

text \<open>
  A step without its service fails with \<open>MissingDependency\<close> and changes nothing, whichever of
  the seven service-backed executors runs it.
\<close>

theorem missing_service_fails_cleanly:
  assumes "\<not> cx_artifact_manager c" "\<not> cx_runtime_manager c" "\<not> cx_docker_driver c"
    "\<not> cx_command_controller c" "\<not> cx_package_inspector c" "\<not> cx_env_inspector c"
    and "ex \<in> set (take 7 (default_executors sv))"
  shows "\<exists>msg. ex_execute ex step c = (Inr (failed_result ''MissingDependency'' msg), c)"
proof -
  have "list_all (\<lambda>ex. \<exists>msg. ex_execute ex step c = (Inr (failed_result ''MissingDependency'' msg), c))
      (take 7 (default_executors sv))"
    using assms(1-6)
    by (simp add: default_executors_def execute_inspect_package_def execute_build_image_def
        execute_create_runtime_def execute_inspect_environment_def execute_run_command_def execute_probes_def
        execute_collect_artifact_def sx_bind_def sx_simps) blast
  with assms(7) show ?thesis by (simp only: list_all_iff)
qed

section \<open>Concrete inputs\<close>

definition sample_executor_services :: "unit executor_services" where
  "sample_executor_services =
     \<lparr>sv_clock = sx_return 7, sv_uuid = sx_return ''0'',
      sv_persist = (\<lambda>_. sx_return \<lparr>st_artifact_id = Some ''artifact_1'', st_storage_path = None, st_text = []\<rparr>),
      sv_json = (\<lambda>_. Inr ''[]''),
      sv_build_image = (\<lambda>_. sx_return \<lparr>br_image_id = ''i1'', br_tags = [], br_logs = []\<rparr>),
      sv_create_container = (\<lambda>_ _. sx_return PNone), sv_create_deployment = (\<lambda>_. sx_return PNone),
      sv_execute_action = (\<lambda>_ _. sx_return (PDict [(''ok'', PBool False)])),
      sv_inspect_java = (\<lambda>_. sx_return PNone), sv_inspect_env = (\<lambda>_. sx_return PNone), sv_str = (\<lambda>_. [])\<rparr>"

definition bare_context :: "unit execution_context" where
  "bare_context = sample_execution_context\<lparr>cx_artifact_manager := False\<rparr>"

definition probe_step :: plan_step where
  "probe_step = (plan_step_with_defaults ''p'' ''probe'' EXECUTE_PROBE ''i'')\<lparr>ps_inputs :=
     [(''probe_name'', PStr ''java''),
      (''payload'', PDict [(''cmd'', PList [PStr ''java'', PStr ''-version''])])]\<rparr>"

definition runtime_step :: plan_step where
  "runtime_step = (plan_step_with_defaults ''r'' ''runtime'' CREATE_RUNTIME ''i'')\<lparr>ps_inputs :=
     [(''image_ref'', PStr ''sdk:latest'')]\<rparr>"

theorem valid_probe_step_runs_nothing_witness:
  "\<exists>r. execute_probes sample_executor_services probe_step (bare_context\<lparr>cx_command_controller := True\<rparr>)
       = (Inr r, bare_context\<lparr>cx_command_controller := True\<rparr>)
     \<and> er_status r = SUCCEEDED \<and> dget (er_outputs r) ''probe_result'' = Some (PList [])"
proof (rule valid_probe_step_runs_nothing)
  show "conforms (PDict (model_json_schema ExecuteProbeInput)) (PDict (ps_inputs probe_step))"
    by (simp add: probe_step_def plan_step_with_defaults_def input_model_defs schema_literal
        conforms.simps [of "PDict _"] keyword_holds_def has_type_def schema_properties_def)
qed (simp_all add: sample_executor_services_def bare_context_def sample_execution_context_def)

theorem valid_create_runtime_ignores_image_ref_witness:
  "execute_create_runtime sample_executor_services runtime_step (bare_context\<lparr>cx_runtime_manager := True\<rparr>)
     = (Inr (failed_result ''MissingInput'' ''image_id is required to create runtime''),
        bare_context\<lparr>cx_runtime_manager := True\<rparr>)"
proof (rule valid_create_runtime_ignores_image_ref)
  show "conforms (PDict (model_json_schema CreateRuntimeInput)) (PDict (ps_inputs runtime_step))"
    by (simp add: runtime_step_def plan_step_with_defaults_def input_model_defs schema_literal
        conforms.simps [of "PDict _"] keyword_holds_def has_type_def schema_properties_def)
qed (simp_all add: bare_context_def sample_execution_context_def find_output_def dvalues_def)

theorem missing_service_fails_cleanly_witness:
  "\<exists>msg. execute_build_image sample_executor_services probe_step bare_context
     = (Inr (failed_result ''MissingDependency'' msg), bare_context)"
  using missing_service_fails_cleanly [of bare_context
      "\<lparr>ex_step_kind = BUILD_IMAGE, ex_execute = execute_build_image sample_executor_services\<rparr>"
      sample_executor_services probe_step]
  by (simp add: bare_context_def sample_execution_context_def default_executors_def)

end
