(* ===== verification/Paths.thy ===== *)
theory Paths
  imports PyValue
begin

text \<open>
  Paths: \<open>normpath\<close> of \<open>posixpath\<close> (written out from the standard library) and
  \<open>sandbox/utils/paths.py\<close>. The theorem: whatever the working directory and the path asked for,
  \<open>safe_join\<close> either raises or returns a path whose components extend those of the working
  directory by components none of which is a parent reference.
\<close>

section \<open>Normalisation\<close>

text \<open>
  The loop of \<open>normpath\<close> over the components: \<open>ab\<close> whether the path starts with a slash, the
  stack the components kept so far, last first.
\<close>

fun norm_stack :: "bool \<Rightarrow> string list \<Rightarrow> string list \<Rightarrow> string list" where
  "norm_stack ab st [] = st"
| "norm_stack ab st (c # cs) =
     (if c = [] \<or> c = ''.'' then norm_stack ab st cs
      else if c \<noteq> ''..'' \<or> (\<not> ab \<and> st = []) \<or> (st \<noteq> [] \<and> hd st = ''..'')
      then norm_stack ab (c # st) cs
      else norm_stack ab (tl st) cs)"

definition initial_slashes :: "string \<Rightarrow> nat" where
  "initial_slashes p =
     (if py_startswith p ''//'' \<and> \<not> py_startswith p ''///'' then 2
      else if py_startswith p ''/'' then 1 else 0)"

definition norm_comps :: "string \<Rightarrow> string list" where
  "norm_comps p = rev (norm_stack (0 < initial_slashes p) [] (py_split (CHR ''/'') p))"

definition normpath :: "string \<Rightarrow> string" where
  "normpath p =
     (if p = [] then ''.''
      else let r = replicate (initial_slashes p) (CHR ''/'') @ py_join ''/'' (norm_comps p)
           in if r = [] then ''.'' else r)"

definition ValueError :: "string \<Rightarrow> exc" where
  "ValueError msg = Exc ''ValueError'' msg"

definition safe_join :: "string \<Rightarrow> string \<Rightarrow> string res" where
  "safe_join workdir rel_path =
     (let clean = py_lstrip (CHR ''/'') (normpath rel_path) in
      if py_startswith clean ''..'' then Inl (ValueError ''path escapes workdir'')
      else Inr (normpath (workdir @ ''/'' @ clean)))"

section \<open>Components\<close>

definition proper_comp :: "string \<Rightarrow> bool" where
  "proper_comp c \<longleftrightarrow> c \<noteq> [] \<and> c \<noteq> ''.'' \<and> CHR ''/'' \<notin> set c"

definition down_comp :: "string \<Rightarrow> bool" where
  "down_comp c \<longleftrightarrow> proper_comp c \<and> c \<noteq> ''..''"

definition path_comps :: "string \<Rightarrow> string list" where
  "path_comps p = filter (\<lambda>c. c \<noteq> [] \<and> c \<noteq> ''.'') (py_split (CHR ''/'') p)"

lemma norm_stack_append: "norm_stack ab st (xs @ ys) = norm_stack ab (norm_stack ab st xs) ys"
  by (induction ab st xs rule: norm_stack.induct) auto

lemma norm_stack_down: "list_all down_comp cs \<Longrightarrow> norm_stack ab st cs = rev cs @ st"
  by (induction cs arbitrary: st) (auto simp: down_comp_def proper_comp_def)

text \<open>The stack is a run of ordinary components above a run of parent references, the latter empty for an absolute path.\<close>

definition stack_shape :: "bool \<Rightarrow> string list \<Rightarrow> bool" where
  "stack_shape ab st \<longleftrightarrow> (\<exists>g n. st = g @ replicate n ''..'' \<and> list_all down_comp g \<and> (ab \<longrightarrow> n = 0))"

lemma stack_shape_nil: "stack_shape ab []"
  unfolding stack_shape_def by (intro exI [of _ "[]"] exI [of _ 0]) simp

lemma stack_shape_push:
  assumes "stack_shape ab st" "proper_comp c" "c \<noteq> ''..'' \<or> (\<not> ab \<and> st = []) \<or> (st \<noteq> [] \<and> hd st = ''..'')"
  shows "stack_shape ab (c # st)"
proof -
  obtain g n where st: "st = g @ replicate n ''..''" "list_all down_comp g" "ab \<longrightarrow> n = 0"
    using assms(1) by (auto simp: stack_shape_def)
  show ?thesis
  proof (cases "c = ''..''")
    case False
    with assms(2) st show ?thesis
      unfolding stack_shape_def by (intro exI [of _ "c # g"] exI [of _ n]) (simp add: down_comp_def)
  next
    case True
    have "g = []" using True assms(3) st by (cases g) (auto simp: down_comp_def)
    moreover have "ab \<longrightarrow> False" using True assms(3) st calculation by auto
    ultimately show ?thesis
      using st True unfolding stack_shape_def by (intro exI [of _ "[]"] exI [of _ "Suc n"]) simp
  qed
qed

lemma stack_shape_pop: "stack_shape ab st \<Longrightarrow> stack_shape ab (tl st)"
proof -
  assume "stack_shape ab st"
  then obtain g n where st: "st = g @ replicate n ''..''" "list_all down_comp g" "ab \<longrightarrow> n = 0"
    by (auto simp: stack_shape_def)
  show ?thesis
  proof (cases g)
    case Nil
    with st show ?thesis
      unfolding stack_shape_def by (intro exI [of _ "[]"] exI [of _ "n - 1"]) (cases n; simp)
  next
    case (Cons a g')
    with st show ?thesis
      unfolding stack_shape_def by (intro exI [of _ g'] exI [of _ n]) simp
  qed
qed

lemma norm_stack_shape:
  "stack_shape ab st \<Longrightarrow> (\<And>c. c \<in> set cs \<Longrightarrow> CHR ''/'' \<notin> set c) \<Longrightarrow> stack_shape ab (norm_stack ab st cs)"
proof (induction ab st cs rule: norm_stack.induct)
  case (1 ab st)
  then show ?case by simp
next
  case (2 ab st c cs)
  then show ?case by (auto simp: stack_shape_push stack_shape_pop proper_comp_def)
qed

lemma norm_comps_shape: "stack_shape (0 < initial_slashes p) (rev (norm_comps p))"
  unfolding norm_comps_def rev_rev_ident
  by (rule norm_stack_shape [OF stack_shape_nil]) (erule py_split_pieces)

lemma stack_shape_proper: "stack_shape ab st \<Longrightarrow> c \<in> set st \<Longrightarrow> proper_comp c"
proof -
  assume "stack_shape ab st" and c: "c \<in> set st"
  then obtain g n where st: "st = g @ replicate n ''..''" "list_all down_comp g" by (auto simp: stack_shape_def)
  show "proper_comp c"
  proof (cases "c \<in> set g")
    case True
    with st show ?thesis by (simp add: list_all_iff down_comp_def)
  next
    case False
    with c st have "c = ''..''" by simp
    then show ?thesis by (simp add: proper_comp_def)
  qed
qed

lemma norm_comps_proper: "list_all proper_comp (norm_comps p)"
  using stack_shape_proper [OF norm_comps_shape, of _ p] by (simp add: list_all_iff)

lemma stack_shape_first:
  "stack_shape ab st \<Longrightarrow> st = [] \<or> last st \<noteq> ''..'' \<Longrightarrow> list_all down_comp st"
proof -
  assume "stack_shape ab st" and l: "st = [] \<or> last st \<noteq> ''..''"
  then obtain g n where st: "st = g @ replicate n ''..''" "list_all down_comp g" by (auto simp: stack_shape_def)
  have "n = 0"
  proof (rule ccontr)
    assume "n \<noteq> 0"
    with st have "st \<noteq> [] \<and> last st = ''..''" by simp
    with l show False by blast
  qed
  with st show ?thesis by simp
qed

lemma path_comps_slash [simp]: "path_comps (CHR ''/'' # p) = path_comps p"
  by (simp add: path_comps_def)

lemma path_comps_slashes [simp]: "path_comps (replicate n (CHR ''/'') @ p) = path_comps p"
  by (induction n) simp_all

lemma path_comps_join: "list_all proper_comp cs \<Longrightarrow> path_comps (py_join ''/'' cs) = cs"
proof (cases "cs = []")
  case False
  assume "list_all proper_comp cs"
  then have "py_split (CHR ''/'') (py_join ''/'' cs) = cs" "filter (\<lambda>c. c \<noteq> [] \<and> c \<noteq> ''.'') cs = cs"
    using False by (auto simp: proper_comp_def list_all_iff intro!: py_split_join filter_True)
  then show ?thesis by (simp add: path_comps_def)
qed (simp add: path_comps_def)

lemma path_comps_dot [simp]: "path_comps ''.'' = []"
  by (simp add: path_comps_def)

lemma path_comps_normpath: "path_comps (normpath p) = norm_comps p"
proof -
  have j: "path_comps (replicate n (CHR ''/'') @ py_join ''/'' (norm_comps p)) = norm_comps p" for n
    by (simp add: path_comps_join norm_comps_proper)
  show ?thesis
  proof (cases "p = []")
    case True
    then show ?thesis by (simp add: normpath_def norm_comps_def)
  next
    case False
    show ?thesis
    proof (cases "replicate (initial_slashes p) (CHR ''/'') @ py_join ''/'' (norm_comps p) = []")
      case True
      then have "norm_comps p = []" using j [of "initial_slashes p"] by (simp add: path_comps_def)
      with True False show ?thesis by (simp add: normpath_def Let_def)
    next
      case f: False
      then have "normpath p = replicate (initial_slashes p) (CHR ''/'') @ py_join ''/'' (norm_comps p)"
        using False by (simp only: normpath_def Let_def if_False)
      then show ?thesis by (simp only: j)
    qed
  qed
qed

lemma path_comps_lstrip: "path_comps (py_lstrip (CHR ''/'') p) = path_comps p"
  by (induction p) (auto simp: py_lstrip_def)

lemma norm_stack_filter:
  "norm_stack ab st (filter (\<lambda>c. c \<noteq> [] \<and> c \<noteq> ''.'') cs) = norm_stack ab st cs"
  by (induction ab st cs rule: norm_stack.induct) auto

lemma norm_stack_comps: "norm_stack ab st (py_split (CHR ''/'') p) = norm_stack ab st (path_comps p)"
  by (simp add: path_comps_def norm_stack_filter)

lemma initial_slashes_append: "p \<noteq> [] \<Longrightarrow> 0 < initial_slashes (p @ q) \<longleftrightarrow> 0 < initial_slashes p"
  by (cases p) (auto simp: initial_slashes_def)

lemma safe_join_below:
  assumes "safe_join workdir rel_path = Inr p" "workdir \<noteq> []"
  shows "\<exists>cs. path_comps p = path_comps (normpath workdir) @ cs \<and> list_all down_comp cs"
proof -
  let ?clean = "py_lstrip (CHR ''/'') (normpath rel_path)"
  let ?cs = "norm_comps rel_path"
  have p: "p = normpath (workdir @ ''/'' @ ?clean)" and up: "\<not> py_startswith ?clean ''..''"
    using assms(1) by (auto simp: safe_join_def Let_def split: if_splits)
  have cs: "path_comps ?clean = ?cs" by (simp add: path_comps_lstrip path_comps_normpath)
  have down: "list_all down_comp (rev ?cs)"
  proof (rule stack_shape_first [OF norm_comps_shape])
    show "rev ?cs = [] \<or> last (rev ?cs) \<noteq> ''..''"
    proof (rule ccontr)
      assume "\<not> (rev ?cs = [] \<or> last (rev ?cs) \<noteq> ''..'')"
      then obtain ds where ds: "?cs = ''..'' # ds" by (cases ?cs) simp_all
      have "initial_slashes rel_path = 0"
        using norm_comps_shape [of rel_path] ds by (cases "initial_slashes rel_path")
          (auto simp: stack_shape_def down_comp_def list_all_iff)
      moreover have "py_startswith (py_join ''/'' (''..'' # ds)) ''..''" by (cases ds) simp_all
      moreover have "py_join ''/'' (''..'' # ds) \<noteq> []" by (cases ds) simp_all
      moreover have "py_lstrip (CHR ''/'') (py_join ''/'' (''..'' # ds)) = py_join ''/'' (''..'' # ds)"
        by (cases ds) (simp_all add: py_lstrip_def)
      moreover have "rel_path \<noteq> []" using ds by (auto simp: norm_comps_def)
      ultimately have "py_startswith ?clean ''..''" by (simp add: normpath_def Let_def ds)
      with up show False by simp
    qed
  qed
  have "norm_comps (workdir @ ''/'' @ ?clean) = norm_comps workdir @ ?cs"
  proof -
    have "py_split (CHR ''/'') (workdir @ ''/'' @ ?clean)
        = py_split (CHR ''/'') workdir @ py_split (CHR ''/'') ?clean"
      using py_split_append [of "CHR ''/''" workdir ?clean] by simp
    then show ?thesis
      using initial_slashes_append [OF assms(2), of "''/'' @ ?clean"] down
      by (simp add: norm_comps_def [of "workdir @ _"] norm_stack_append norm_stack_comps [of _ _ ?clean] cs
          norm_stack_down list_all_rev norm_comps_def [of workdir])
  qed
  with down show ?thesis
    by (intro exI [of _ ?cs]) (simp add: p path_comps_normpath list_all_rev)
qed

text \<open>
  \<open>safe_join\<close> never leaves the working directory: whatever the two paths, when it returns a
  path, the components of the result are those of the normalised working directory followed by
  ordinary components only, none of them empty, a dot or a parent reference.
\<close>

theorem safe_join_stays_below:
  assumes "safe_join workdir rel_path = Inr p" "workdir \<noteq> []"
  shows "\<exists>cs. path_comps p = path_comps (normpath workdir) @ cs \<and> list_all down_comp cs"
  using assms by (rule safe_join_below)

theorem safe_join_stays_below_witness:
  "\<exists>cs. path_comps ''/workspace/a/c'' = path_comps (normpath ''/workspace'') @ cs \<and> list_all down_comp cs"
proof (rule safe_join_stays_below [of "''/workspace''" "''/a/b/../c''"])
  show "safe_join ''/workspace'' ''/a/b/../c'' = Inr ''/workspace/a/c''"
    by (simp add: safe_join_def normpath_def norm_comps_def initial_slashes_def py_lstrip_def Let_def)
qed simp

text \<open>
  \<open>safe_join\<close> refuses some paths that stay inside: a plain file name that starts with two
  dots is reported as leaving the working directory.
\<close>

theorem safe_join_refuses_dotdot_names:
  "safe_join workdir ''..data/x'' = Inl (ValueError ''path escapes workdir'')"
  by (simp add: safe_join_def normpath_def norm_comps_def initial_slashes_def py_lstrip_def Let_def)

end
