(* ===== verification/Sandbox.thy ===== *)
theory Sandbox
  imports Paths StateExc
begin

text \<open>
  \<open>sandbox/python/docker_sandbox.py\<close> with the models of \<open>sandbox/sandbox_models.py\<close>,
  \<open>docker_driver/docker_driver_models.py\<close> and \<open>sandbox/python/artifact_codec.py\<close>. The
  driver behind \<open>BaseDockerDriver\<close> is a record of operations on a state \<open>'d\<close> that may raise.
  Bytes are strings of characters 0 to 255; the tar archive of one text file is the value
  \<open>TarText\<close> of its member name and content.
\<close>

section \<open>Models\<close>

record sandbox_spec =
  sp_sandbox_id :: string
  sp_language :: string
  sp_image :: string
  sp_workdir :: string
  sp_env :: "string dict"
  sp_mem_limit :: pyval
  sp_nano_cpus :: "int option"
  sp_network_disabled :: bool
  sp_read_only_rootfs :: bool
  sp_user :: "string option"
  sp_auto_remove :: bool
  sp_pull_policy :: string
  sp_keep_alive_cmd :: "string list"
  sp_labels :: "string dict"

record exec_spec =
  es_argv :: "string list"
  es_workdir :: "string option"
  es_env :: "string dict"
  es_user :: "string option"
  es_tty :: bool
  es_stream :: bool
  es_demux :: bool

definition exec_argv :: "string list \<Rightarrow> string option \<Rightarrow> exec_spec" where
  "exec_argv argv workdir =
     \<lparr>es_argv = argv, es_workdir = workdir, es_env = [], es_user = None, es_tty = False,
      es_stream = False, es_demux = True\<rparr>"

record exec_result =
  xe_exit_code :: "int option"
  xe_stdout :: "string option"
  xe_stderr :: "string option"
  xe_combined :: "string option"
  xe_duration_sec :: rat
  xe_timed_out :: bool
  xe_meta :: "pyval dict"

record sandbox_snapshot =
  sn_sandbox_id :: string
  sn_status :: string
  sn_image :: string
  sn_container_id :: "string option"
  sn_workdir :: string
  sn_attrs :: "pyval dict"

record container_create_spec =
  cc_image :: string
  cc_command :: "string list"
  cc_working_dir :: string
  cc_environment :: "string dict"
  cc_detach :: bool
  cc_mem_limit :: pyval
  cc_nano_cpus :: "int option"
  cc_network_disabled :: bool
  cc_read_only :: bool
  cc_user :: "string option"
  cc_auto_remove :: bool
  cc_labels :: "string dict"

record container_ref =
  cf_container_id :: string
  cf_name :: "string option"
  cf_status :: "string option"
  cf_attrs :: "pyval dict"

record exec_create_spec =
  ec_container_id :: string
  ec_argv :: "string list"
  ec_workdir :: "string option"
  ec_environment :: "string dict"
  ec_user :: "string option"
  ec_tty :: bool
  ec_stream :: bool
  ec_demux :: bool

datatype archive = TarText string string | RawBytes string

definition pack_text_file :: "string \<Rightarrow> string \<Rightarrow> archive" where
  "pack_text_file path content = TarText (py_lstrip (CHR ''/'') path) content"

record 'd docker_driver =
  dd_ensure_image :: "string \<Rightarrow> string \<Rightarrow> ('d, string) sx"
  dd_create_container :: "container_create_spec \<Rightarrow> ('d, container_ref) sx"
  dd_start_container :: "string \<Rightarrow> ('d, unit) sx"
  dd_exec :: "exec_create_spec \<Rightarrow> int option \<Rightarrow> ('d, exec_result) sx"
  dd_put_archive :: "string \<Rightarrow> string \<Rightarrow> archive \<Rightarrow> ('d, unit) sx"
  dd_get_archive :: "string \<Rightarrow> string \<Rightarrow> ('d, string \<times> pyval dict) sx"
  dd_logs :: "string \<Rightarrow> int \<Rightarrow> ('d, string) sx"
  dd_inspect_container :: "string \<Rightarrow> ('d, container_ref) sx"
  dd_stop_container :: "string \<Rightarrow> int \<Rightarrow> ('d, unit) sx"
  dd_remove_container :: "string \<Rightarrow> bool \<Rightarrow> bool \<Rightarrow> ('d, unit) sx"

record 'd sandbox =
  sb_spec :: sandbox_spec
  sb_status :: string
  sb_container_id :: "string option"
  sb_image_id :: "string option"
  sb_driver :: 'd

abbreviation (input) "ST_CREATED \<equiv> ''created''"
abbreviation (input) "ST_IMAGE_READY \<equiv> ''image_ready''"
abbreviation (input) "ST_CONTAINER_RUNNING \<equiv> ''container_running''"
abbreviation (input) "ST_WORKSPACE_READY \<equiv> ''workspace_ready''"
abbreviation (input) "ST_READY \<equiv> ''ready''"
abbreviation (input) "ST_STOPPED \<equiv> ''stopped''"
abbreviation (input) "ST_REMOVED \<equiv> ''removed''"

definition new_sandbox :: "sandbox_spec \<Rightarrow> 'd \<Rightarrow> 'd sandbox" where
  "new_sandbox spec d =
     \<lparr>sb_spec = spec, sb_status = ST_CREATED, sb_container_id = None, sb_image_id = None, sb_driver = d\<rparr>"

section \<open>Operations\<close>

type_synonym ('d, 'a) sbx = "('d sandbox, 'a) sx"

definition on_driver :: "('d, 'a) sx \<Rightarrow> ('d, 'a) sbx" where
  "on_driver = sx_zoom sb_driver (\<lambda>d s. s\<lparr>sb_driver := d\<rparr>)"

definition set_status :: "string \<Rightarrow> ('d, unit) sbx" where
  "set_status st = sx_modify (\<lambda>s. s\<lparr>sb_status := st\<rparr>)"

definition SandboxNotReadyError :: "string \<Rightarrow> exc" where
  "SandboxNotReadyError msg = Exc ''SandboxNotReadyError'' msg"

definition SandboxStateError :: "string \<Rightarrow> exc" where
  "SandboxStateError msg = Exc ''SandboxStateError'' msg"

text \<open>\<open>_require_running\<close>, and the container id the callers read after it.\<close>

definition require_running :: "('d, string) sbx" where
  "require_running = sx_bind sx_get (\<lambda>s.
     if sb_status s \<notin> {ST_CONTAINER_RUNNING, ST_WORKSPACE_READY, ST_READY}
     then sx_raise (SandboxNotReadyError (''sandbox not running, status='' @ sb_status s))
     else (case sb_container_id s of
             None \<Rightarrow> sx_raise (SandboxNotReadyError ''missing container_id'')
           | Some cid \<Rightarrow> sx_return cid))"

text \<open>
  \<open>snapshot\<close>: any exception of \<open>inspect_container\<close> is swallowed. An empty container id
  counts as none.
\<close>

definition sandbox_snapshot_of :: "'d docker_driver \<Rightarrow> ('d, sandbox_snapshot) sbx" where
  "sandbox_snapshot_of dd = sx_bind sx_get (\<lambda>s.
     sx_bind
       (case sb_container_id s of
          None \<Rightarrow> sx_return []
        | Some cid \<Rightarrow>
            if cid = [] then sx_return []
            else sx_try
              (sx_bind (on_driver (dd_inspect_container dd cid)) (\<lambda>ref. sx_return
                 [(''container_status'', opt_str (cf_status ref)), (''container_name'', opt_str (cf_name ref)),
                  (''container_attrs'', PDict (cf_attrs ref))]))
              (\<lambda>_. True) (\<lambda>_. sx_return []))
       (\<lambda>more. sx_return
          \<lparr>sn_sandbox_id = sp_sandbox_id (sb_spec s), sn_status = sb_status s,
           sn_image = sp_image (sb_spec s), sn_container_id = sb_container_id s,
           sn_workdir = sp_workdir (sb_spec s),
           sn_attrs = (''image_id'', opt_str (sb_image_id s)) # more\<rparr>))"

definition sandbox_create :: "'d docker_driver \<Rightarrow> ('d, sandbox_snapshot) sbx" where
  "sandbox_create dd = sx_bind (set_status ST_CREATED) (\<lambda>_. sandbox_snapshot_of dd)"

definition sandbox_prepare_image :: "'d docker_driver \<Rightarrow> ('d, string) sbx" where
  "sandbox_prepare_image dd = sx_bind sx_get (\<lambda>s.
     sx_bind (on_driver (dd_ensure_image dd (sp_image (sb_spec s)) (sp_pull_policy (sb_spec s)))) (\<lambda>image_id.
     sx_bind (sx_modify (\<lambda>s. s\<lparr>sb_image_id := Some image_id, sb_status := ST_IMAGE_READY\<rparr>)) (\<lambda>_.
     sx_return image_id)))"

text \<open>\<open>x or y\<close> for an optional string: the empty one gives \<open>y\<close>.\<close>

definition opt_or :: "string option \<Rightarrow> string \<Rightarrow> string" where
  "opt_or x y = (case x of None \<Rightarrow> y | Some s \<Rightarrow> if s = [] then y else s)"

definition sandbox_exec :: "'d docker_driver \<Rightarrow> exec_spec \<Rightarrow> int option \<Rightarrow> ('d, exec_result) sbx" where
  "sandbox_exec dd spec timeout_sec =
     sx_bind require_running (\<lambda>cid. sx_bind sx_get (\<lambda>s.
       on_driver (dd_exec dd
         \<lparr>ec_container_id = cid, ec_argv = es_argv spec,
          ec_workdir = Some (opt_or (es_workdir spec) (sp_workdir (sb_spec s))),
          ec_environment = es_env spec, ec_user = es_user spec, ec_tty = es_tty spec,
          ec_stream = es_stream spec, ec_demux = es_demux spec\<rparr>
         timeout_sec)))"

definition container_spec_of :: "sandbox_spec \<Rightarrow> container_create_spec" where
  "container_spec_of sp =
     \<lparr>cc_image = sp_image sp, cc_command = sp_keep_alive_cmd sp, cc_working_dir = sp_workdir sp,
      cc_environment = sp_env sp, cc_detach = True, cc_mem_limit = sp_mem_limit sp,
      cc_nano_cpus = sp_nano_cpus sp, cc_network_disabled = sp_network_disabled sp,
      cc_read_only = sp_read_only_rootfs sp, cc_user = sp_user sp,
      cc_auto_remove = sp_auto_remove sp, cc_labels = sp_labels sp\<rparr>"

definition sandbox_start :: "'d docker_driver \<Rightarrow> ('d, sandbox_snapshot) sbx" where
  "sandbox_start dd = sx_bind sx_get (\<lambda>s.
     if sb_status s \<notin> {ST_IMAGE_READY, ST_CREATED}
     then sx_raise (SandboxStateError (''cannot start from status='' @ sb_status s))
     else if sb_status s = ST_CREATED
     then sx_raise (SandboxStateError ''prepare_image must be called before start'')
     else
       sx_bind (on_driver (dd_create_container dd (container_spec_of (sb_spec s)))) (\<lambda>ref.
       sx_bind (sx_modify (\<lambda>s. s\<lparr>sb_container_id := Some (cf_container_id ref)\<rparr>)) (\<lambda>_.
       sx_bind (on_driver (dd_start_container dd (cf_container_id ref))) (\<lambda>_.
       sx_bind (set_status ST_CONTAINER_RUNNING) (\<lambda>_.
       sx_bind (sandbox_exec dd (exec_argv [''mkdir'', ''-p'', sp_workdir (sb_spec s)] None) None) (\<lambda>_.
       sx_bind (set_status ST_WORKSPACE_READY) (\<lambda>_.
       sx_bind (set_status ST_READY) (\<lambda>_.
       sandbox_snapshot_of dd))))))))"

definition put_workspace_bytes :: "'d docker_driver \<Rightarrow> archive \<Rightarrow> string option \<Rightarrow> ('d, unit) sbx" where
  "put_workspace_bytes dd data dest =
     sx_bind require_running (\<lambda>cid. sx_bind sx_get (\<lambda>s.
       on_driver (dd_put_archive dd cid (opt_or dest (sp_workdir (sb_spec s))) data)))"

definition put_text :: "'d docker_driver \<Rightarrow> string \<Rightarrow> string \<Rightarrow> ('d, unit) sbx" where
  "put_text dd path content = sx_bind sx_get (\<lambda>s.
     sx_bind (sx_lift (safe_join (sp_workdir (sb_spec s)) path)) (\<lambda>abs_path.
       put_workspace_bytes dd (pack_text_file (py_lstrip (CHR ''/'') abs_path) content) (Some ''/'')))"

definition run_python :: "'d docker_driver \<Rightarrow> string list \<Rightarrow> ('d, exec_result) sbx" where
  "run_python dd argv = sandbox_exec dd (exec_argv (''python'' # argv) None) None"

definition run_pip :: "'d docker_driver \<Rightarrow> string list \<Rightarrow> ('d, exec_result) sbx" where
  "run_pip dd argv = sandbox_exec dd (exec_argv ([''python'', ''-m'', ''pip''] @ argv) None) None"

definition run_pytest :: "'d docker_driver \<Rightarrow> string list \<Rightarrow> string list \<Rightarrow> ('d, exec_result) sbx" where
  "run_pytest dd targets extra_args =
     sandbox_exec dd (exec_argv ([''python'', ''-m'', ''pytest''] @ targets @ extra_args) None) None"

definition sandbox_get_archive :: "'d docker_driver \<Rightarrow> string \<Rightarrow> ('d, string \<times> pyval dict) sbx" where
  "sandbox_get_archive dd path =
     sx_bind require_running (\<lambda>cid. sx_bind sx_get (\<lambda>s.
     sx_bind (sx_lift (safe_join (sp_workdir (sb_spec s)) path)) (\<lambda>abs_path.
       on_driver (dd_get_archive dd cid abs_path))))"

definition sandbox_logs :: "'d docker_driver \<Rightarrow> int \<Rightarrow> ('d, string) sbx" where
  "sandbox_logs dd tail = sx_bind require_running (\<lambda>cid. on_driver (dd_logs dd cid tail))"

definition sandbox_stop :: "'d docker_driver \<Rightarrow> int \<Rightarrow> ('d, unit) sbx" where
  "sandbox_stop dd timeout_sec = sx_bind sx_get (\<lambda>s.
     case sb_container_id s of
       None \<Rightarrow> sx_return ()
     | Some cid \<Rightarrow>
         if cid = [] \<or> sb_status s \<in> {ST_STOPPED, ST_REMOVED} then sx_return ()
         else sx_bind (on_driver (dd_stop_container dd cid timeout_sec)) (\<lambda>_. set_status ST_STOPPED))"

text \<open>\<open>try: ... finally: self._status = "removed"\<close>: the status is set in both cases.\<close>

definition sandbox_destroy :: "'d docker_driver \<Rightarrow> bool \<Rightarrow> bool \<Rightarrow> ('d, unit) sbx" where
  "sandbox_destroy dd force remove_volumes = sx_bind sx_get (\<lambda>s.
     case sb_container_id s of
       None \<Rightarrow> set_status ST_REMOVED
     | Some cid \<Rightarrow>
         if cid = [] then set_status ST_REMOVED
         else (\<lambda>s0. case on_driver (dd_remove_container dd cid force remove_volumes) s0 of
                 (r, s1) \<Rightarrow> (r, s1\<lparr>sb_status := ST_REMOVED\<rparr>)))"

section \<open>Life cycle\<close>

definition running_statuses :: "string set" where
  "running_statuses = {ST_CONTAINER_RUNNING, ST_WORKSPACE_READY, ST_READY}"

definition sandbox_inv :: "'d sandbox \<Rightarrow> bool" where
  "sandbox_inv s \<longleftrightarrow>
     sb_status s \<in> {ST_CREATED, ST_IMAGE_READY, ST_STOPPED, ST_REMOVED} \<union> running_statuses
     \<and> (sb_status s \<in> running_statuses \<longrightarrow> sb_container_id s \<noteq> None)
     \<and> (sb_status s = ST_IMAGE_READY \<longrightarrow> sb_image_id s \<noteq> None)"

datatype sandbox_op =
    OpCreate | OpPrepareImage | OpStart | OpSnapshot | OpExec exec_spec "int option"
  | OpPutText string string | OpPutBytes archive "string option" | OpGetArchive string | OpLogs int
  | OpStop int | OpDestroy bool bool

text \<open>The state after a call, whether it returned or raised.\<close>

fun after_op :: "'d docker_driver \<Rightarrow> sandbox_op \<Rightarrow> 'd sandbox \<Rightarrow> 'd sandbox" where
  "after_op dd OpCreate s = snd (sandbox_create dd s)"
| "after_op dd OpPrepareImage s = snd (sandbox_prepare_image dd s)"
| "after_op dd OpStart s = snd (sandbox_start dd s)"
| "after_op dd OpSnapshot s = snd (sandbox_snapshot_of dd s)"
| "after_op dd (OpExec e t) s = snd (sandbox_exec dd e t s)"
| "after_op dd (OpPutText p c) s = snd (put_text dd p c s)"
| "after_op dd (OpPutBytes a d) s = snd (put_workspace_bytes dd a d s)"
| "after_op dd (OpGetArchive p) s = snd (sandbox_get_archive dd p s)"
| "after_op dd (OpLogs n) s = snd (sandbox_logs dd n s)"
| "after_op dd (OpStop t) s = snd (sandbox_stop dd t s)"
| "after_op dd (OpDestroy f v) s = snd (sandbox_destroy dd f v s)"

inductive sandbox_reachable :: "'d docker_driver \<Rightarrow> 'd sandbox \<Rightarrow> bool" for dd where
  reach_new: "sandbox_reachable dd (new_sandbox spec d)"
| reach_op: "sandbox_reachable dd s \<Longrightarrow> sandbox_reachable dd (after_op dd op s)"

text \<open>Only the driver state changes in a driver call, and in the operations that only make one.\<close>

definition same_control :: "'d sandbox \<Rightarrow> 'd sandbox \<Rightarrow> bool" where
  "same_control s t \<longleftrightarrow> sb_spec t = sb_spec s \<and> sb_status t = sb_status s
     \<and> sb_container_id t = sb_container_id s \<and> sb_image_id t = sb_image_id s"

lemma same_control_inv: "same_control s t \<Longrightarrow> sandbox_inv s \<Longrightarrow> sandbox_inv t"
  by (simp add: same_control_def sandbox_inv_def)

lemma same_control_refl [simp]: "same_control s s"
  by (simp add: same_control_def)

lemma same_control_trans: "same_control s t \<Longrightarrow> same_control t u \<Longrightarrow> same_control s u"
  by (simp add: same_control_def)

definition keeps_control :: "('d, 'a) sbx \<Rightarrow> bool" where
  "keeps_control m \<longleftrightarrow> (\<forall>s. same_control s (snd (m s)))"

lemma keeps_bind: "keeps_control m \<Longrightarrow> (\<And>a. keeps_control (f a)) \<Longrightarrow> keeps_control (sx_bind m f)"
  unfolding keeps_control_def sx_bind_def
  by (auto split: prod.split sum.split) (metis same_control_trans snd_conv)+

lemma keeps_basic [simp]:
  "keeps_control (sx_return a)" "keeps_control (sx_raise e)" "keeps_control sx_get"
  "keeps_control (sx_lift r)" "keeps_control (on_driver m)"
  by (simp_all add: keeps_control_def sx_simps on_driver_def sx_zoom_def same_control_def split: prod.split)

lemma keeps_try: "keeps_control m \<Longrightarrow> (\<And>e. keeps_control (h e)) \<Longrightarrow> keeps_control (sx_try m p h)"
  unfolding keeps_control_def sx_try_def
  by (auto split: prod.split sum.split) (metis same_control_trans snd_conv)+

lemma keeps_require_running [simp]: "keeps_control require_running"
  unfolding require_running_def by (intro keeps_bind) (auto split: option.split)

lemma keeps_snapshot: "keeps_control (sandbox_snapshot_of dd)"
  unfolding sandbox_snapshot_of_def by (intro keeps_bind keeps_try) (auto split: option.split intro!: keeps_bind keeps_try)

lemma keeps_calls:
  "keeps_control (sandbox_exec dd e t)" "keeps_control (put_workspace_bytes dd a d)"
  "keeps_control (put_text dd p c)" "keeps_control (sandbox_get_archive dd p)" "keeps_control (sandbox_logs dd n)"
proof -
  show bytes: "keeps_control (put_workspace_bytes dd a d)" for a d
    unfolding put_workspace_bytes_def by (intro keeps_bind) simp_all
  show "keeps_control (sandbox_exec dd e t)" unfolding sandbox_exec_def by (intro keeps_bind) simp_all
  show "keeps_control (put_text dd p c)" unfolding put_text_def by (intro keeps_bind bytes) simp_all
  show "keeps_control (sandbox_get_archive dd p)" unfolding sandbox_get_archive_def by (intro keeps_bind) simp_all
  show "keeps_control (sandbox_logs dd n)" unfolding sandbox_logs_def by (intro keeps_bind) simp_all
qed

lemma keeps_inv: "keeps_control m \<Longrightarrow> sandbox_inv s \<Longrightarrow> sandbox_inv (snd (m s))"
  unfolding keeps_control_def using same_control_inv by blast

text \<open>From \<open>P\<close>, the invariant after an exception and \<open>Q\<close> after a return.\<close>

definition leads :: "('d sandbox \<Rightarrow> bool) \<Rightarrow> ('d, 'a) sbx \<Rightarrow> ('d sandbox \<Rightarrow> bool) \<Rightarrow> bool" where
  "leads P m Q \<longleftrightarrow> (\<forall>s. P s \<longrightarrow> (case m s of (Inl e, t) \<Rightarrow> sandbox_inv t | (Inr a, t) \<Rightarrow> Q t))"

definition has_container :: "'d sandbox \<Rightarrow> bool" where
  "has_container s \<longleftrightarrow> sandbox_inv s \<and> sb_container_id s \<noteq> None"

lemma leads_bind: "leads P m Q \<Longrightarrow> (\<And>a. leads Q (f a) R) \<Longrightarrow> leads P (sx_bind m f) R"
  by (fastforce simp: leads_def sx_bind_def split: prod.splits sum.splits)

lemma leads_inv: "leads sandbox_inv m sandbox_inv \<Longrightarrow> sandbox_inv s \<Longrightarrow> sandbox_inv (snd (m s))"
  unfolding leads_def by (drule spec [of _ s]) (auto split: prod.splits sum.splits)

lemma leads_weaken: "leads P m Q \<Longrightarrow> (\<And>s. Q s \<Longrightarrow> R s) \<Longrightarrow> leads P m R"
  by (fastforce simp: leads_def split: prod.splits sum.splits)

lemma leads_keeps:
  assumes "keeps_control (m :: ('d, 'a) sbx)"
  shows "leads sandbox_inv m sandbox_inv" "leads has_container m has_container"
proof -
  have k: "same_control s (snd (m s))" for s using assms by (simp add: keeps_control_def)
  show "leads sandbox_inv m sandbox_inv"
    unfolding leads_def using k same_control_inv by (fastforce split: prod.splits sum.splits)
  show "leads has_container m has_container"
    unfolding leads_def
  proof (intro allI impI)
    fix s :: "'d sandbox"
    assume "has_container s"
    then have "has_container (snd (m s))" using same_control_inv [OF k [of s]] k [of s]
      by (simp add: has_container_def same_control_def)
    then show "case m s of (Inl e, t) \<Rightarrow> sandbox_inv t | (Inr a, t) \<Rightarrow> has_container t"
      by (cases "m s") (auto simp: has_container_def split: sum.split)
  qed
qed

lemma leads_status:
  "st \<in> running_statuses \<Longrightarrow> leads has_container (set_status st) has_container"
  "st \<in> {ST_CREATED, ST_STOPPED, ST_REMOVED} \<Longrightarrow> leads sandbox_inv (set_status st) sandbox_inv"
  by (auto simp: leads_def set_status_def sx_simps has_container_def sandbox_inv_def running_statuses_def)

lemma inv_create: "sandbox_inv s \<Longrightarrow> sandbox_inv (snd (sandbox_create dd s))"
  unfolding sandbox_create_def
  by (erule leads_inv [rotated], rule leads_bind [where Q = sandbox_inv])
    (simp_all add: leads_status leads_keeps keeps_snapshot)

lemma inv_prepare: "sandbox_inv s \<Longrightarrow> sandbox_inv (snd (sandbox_prepare_image dd s))"
  unfolding sandbox_prepare_image_def
proof (erule leads_inv [rotated], intro leads_bind [where Q = sandbox_inv])
  show "leads sandbox_inv (sx_modify (\<lambda>s. s\<lparr>sb_image_id := Some i, sb_status := ST_IMAGE_READY\<rparr>)) sandbox_inv" for i
    by (auto simp: leads_def sx_simps sandbox_inv_def running_statuses_def)
qed (auto intro: leads_keeps)

lemma leads_start_tail:
  "leads sandbox_inv
     (sx_bind (on_driver (dd_create_container dd spec)) (\<lambda>ref.
       sx_bind (sx_modify (\<lambda>s. s\<lparr>sb_container_id := Some (cf_container_id ref)\<rparr>)) (\<lambda>_.
       sx_bind (on_driver (dd_start_container dd (cf_container_id ref))) (\<lambda>_.
       sx_bind (set_status ST_CONTAINER_RUNNING) (\<lambda>_.
       sx_bind (sandbox_exec dd e None) (\<lambda>_.
       sx_bind (set_status ST_WORKSPACE_READY) (\<lambda>_.
       sx_bind (set_status ST_READY) (\<lambda>_.
       sandbox_snapshot_of dd)))))))) has_container"
proof (intro leads_bind)
  show "leads sandbox_inv (on_driver (dd_create_container dd spec)) sandbox_inv" by (rule leads_keeps) simp
  show "leads sandbox_inv (sx_modify (\<lambda>s. s\<lparr>sb_container_id := Some cid\<rparr>)) has_container" for cid
    by (auto simp: leads_def sx_simps has_container_def sandbox_inv_def)
qed (auto intro!: leads_keeps leads_status keeps_calls keeps_snapshot simp: running_statuses_def)

lemma inv_start: "sandbox_inv s \<Longrightarrow> sandbox_inv (snd (sandbox_start dd s))"
proof -
  assume inv: "sandbox_inv s"
  show ?thesis
  proof (cases "sb_status s = ST_IMAGE_READY")
    case True
    then show ?thesis
      using leads_inv [OF leads_weaken [OF leads_start_tail] inv]
      by (simp add: sandbox_start_def sx_bind_step has_container_def)
  next
    case False
    with inv show ?thesis by (simp add: sandbox_start_def sx_bind_step sx_simps)
  qed
qed

lemma inv_stop: "sandbox_inv s \<Longrightarrow> sandbox_inv (snd (sandbox_stop dd t s))"
proof -
  assume inv: "sandbox_inv s"
  have "leads sandbox_inv (sx_bind (on_driver (dd_stop_container dd cid t)) (\<lambda>_. set_status ST_STOPPED)) sandbox_inv" for cid
    by (rule leads_bind [where Q = sandbox_inv]) (simp_all add: leads_status leads_keeps)
  from leads_inv [OF this inv] inv show ?thesis
    by (auto simp: sandbox_stop_def sx_bind_step sx_simps split: option.split)
qed

lemma inv_removed: "sandbox_inv s \<Longrightarrow> sandbox_inv (s\<lparr>sb_status := ST_REMOVED\<rparr>)"
  by (auto simp: sandbox_inv_def running_statuses_def)

lemma inv_destroy: "sandbox_inv s \<Longrightarrow> sandbox_inv (snd (sandbox_destroy dd f v s))"
proof -
  assume inv: "sandbox_inv s"
  have "sandbox_inv (snd (on_driver (dd_remove_container dd cid f v) s))" for cid
    by (rule keeps_inv [OF _ inv]) simp
  then show ?thesis
    using inv by (auto simp: sandbox_destroy_def sx_bind_step set_status_def sx_simps inv_removed
        split: option.split prod.split) (metis inv_removed snd_conv)
qed

lemma sandbox_reachable_inv: "sandbox_reachable dd s \<Longrightarrow> sandbox_inv s"
proof (induction rule: sandbox_reachable.induct)
  case (reach_new spec d)
  then show ?case by (simp add: new_sandbox_def sandbox_inv_def running_statuses_def)
next
  case (reach_op s op)
  then show ?case
    by (cases op) (simp_all add: inv_create inv_prepare inv_start inv_stop inv_destroy
        keeps_inv [OF keeps_snapshot] keeps_inv [OF keeps_calls(1)] keeps_inv [OF keeps_calls(2)]
        keeps_inv [OF keeps_calls(3)] keeps_inv [OF keeps_calls(4)] keeps_inv [OF keeps_calls(5)])
qed

section \<open>Properties\<close>

text \<open>
  C7: in every state a sandbox can reach by any sequence of calls to any driver, whether they raised
  or not, a running status means that a container is known: a command is refused exactly when the
  status is not a running one (the check for a missing container never fires), and is otherwise
  handed to the driver for that container.
\<close>

theorem reachable_exec_behaviour:
  assumes "sandbox_reachable dd s"
  shows "if sb_status s \<in> running_statuses
    then \<exists>cid. sb_container_id s = Some cid
      \<and> sandbox_exec dd e t s = on_driver (dd_exec dd
          \<lparr>ec_container_id = cid, ec_argv = es_argv e,
           ec_workdir = Some (opt_or (es_workdir e) (sp_workdir (sb_spec s))), ec_environment = es_env e,
           ec_user = es_user e, ec_tty = es_tty e, ec_stream = es_stream e, ec_demux = es_demux e\<rparr> t) s
    else sandbox_exec dd e t s = (Inl (SandboxNotReadyError (''sandbox not running, status='' @ sb_status s)), s)"
  using sandbox_reachable_inv [OF assms]
  by (auto simp: sandbox_inv_def sandbox_exec_def require_running_def running_statuses_def sx_bind_def sx_simps)

lemma put_text_below:
  assumes "put_text dd path content s = (Inr (), s')" "sp_workdir (sb_spec s) \<noteq> []"
  shows "\<exists>cid name cs. sb_container_id s = Some cid
     \<and> on_driver (dd_put_archive dd cid ''/'' (TarText name content)) s = (Inr (), s')
     \<and> path_comps name = path_comps (normpath (sp_workdir (sb_spec s))) @ cs \<and> list_all down_comp cs"
proof -
  obtain abs_path where p: "safe_join (sp_workdir (sb_spec s)) path = Inr abs_path"
    using assms(1) by (cases "safe_join (sp_workdir (sb_spec s)) path") (auto simp: put_text_def sx_bind_def sx_simps)
  obtain cid where cid: "sb_container_id s = Some cid"
    "on_driver (dd_put_archive dd cid ''/'' (pack_text_file (py_lstrip (CHR ''/'') abs_path) content)) s = (Inr (), s')"
    using assms(1) p
    by (auto simp: put_text_def put_workspace_bytes_def require_running_def sx_bind_def sx_simps opt_or_def
        split: if_splits option.splits)
  obtain cs where "path_comps abs_path = path_comps (normpath (sp_workdir (sb_spec s))) @ cs" "list_all down_comp cs"
    using safe_join_below [OF p assms(2)] by blast
  then show ?thesis
    using cid by (auto simp: pack_text_file_def path_comps_lstrip)
qed

text \<open>
  C8: when a text file is stored, the driver receives one archive for the root directory whose
  member name has the components of the working directory followed by ordinary components only: no
  path given to \<open>put_text\<close> writes outside the working directory.
\<close>

theorem put_text_stays_below:
  assumes "put_text dd path content s = (Inr (), s')" "sp_workdir (sb_spec s) \<noteq> []"
  shows "\<exists>cid name cs. sb_container_id s = Some cid
     \<and> on_driver (dd_put_archive dd cid ''/'' (TarText name content)) s = (Inr (), s')
     \<and> path_comps name = path_comps (normpath (sp_workdir (sb_spec s))) @ cs \<and> list_all down_comp cs"
  using assms by (rule put_text_below)

section \<open>A driver that records its calls\<close>

datatype driver_event =
    EvEnsureImage string | EvCreate string | EvStart string | EvExec string "string list"
  | EvPutArchive string string archive | EvGetArchive string string | EvStop string | EvRemove string

type_synonym driver_log = "driver_event list"

definition record_event :: "driver_event \<Rightarrow> 'a \<Rightarrow> (driver_log, 'a) sx" where
  "record_event ev a = (\<lambda>evs. (Inr a, evs @ [ev]))"

definition created_count :: "driver_log \<Rightarrow> nat" where
  "created_count evs = length (filter (\<lambda>ev. case ev of EvCreate c \<Rightarrow> True | _ \<Rightarrow> False) evs)"

definition recording_ref :: "string \<Rightarrow> container_ref" where
  "recording_ref cid = \<lparr>cf_container_id = cid, cf_name = None, cf_status = Some ''running'', cf_attrs = []\<rparr>"

definition ok_result :: exec_result where
  "ok_result = \<lparr>xe_exit_code = Some 0, xe_stdout = None, xe_stderr = None, xe_combined = None,
     xe_duration_sec = 0, xe_timed_out = False, xe_meta = []\<rparr>"

definition recording_driver :: "driver_log docker_driver" where
  "recording_driver =
     \<lparr>dd_ensure_image = (\<lambda>image policy. record_event (EvEnsureImage image) ''img''),
      dd_create_container = (\<lambda>spec evs. let cid = ''c'' @ nat_str (created_count evs) in
         record_event (EvCreate cid) (recording_ref cid) evs),
      dd_start_container = (\<lambda>cid. record_event (EvStart cid) ()),
      dd_exec = (\<lambda>spec t. record_event (EvExec (ec_container_id spec) (ec_argv spec)) ok_result),
      dd_put_archive = (\<lambda>cid dest a. record_event (EvPutArchive cid dest a) ()),
      dd_get_archive = (\<lambda>cid p. record_event (EvGetArchive cid p) ([], [])),
      dd_logs = (\<lambda>cid n. sx_return []),
      dd_inspect_container = (\<lambda>cid. sx_return (recording_ref cid)),
      dd_stop_container = (\<lambda>cid t. record_event (EvStop cid) ()),
      dd_remove_container = (\<lambda>cid f v. record_event (EvRemove cid) ())\<rparr>"

definition sample_spec :: sandbox_spec where
  "sample_spec =
     \<lparr>sp_sandbox_id = ''sbx'', sp_language = ''python'', sp_image = ''python:3.11-slim'',
      sp_workdir = ''/workspace'', sp_env = [], sp_mem_limit = PStr ''1g'', sp_nano_cpus = None,
      sp_network_disabled = False, sp_read_only_rootfs = False, sp_user = None, sp_auto_remove = False,
      sp_pull_policy = ''if_missing'', sp_keep_alive_cmd = [''sleep'', ''infinity''], sp_labels = []\<rparr>"

definition sample_sandbox :: "driver_log sandbox" where
  "sample_sandbox = after_op recording_driver OpStart
     (after_op recording_driver OpPrepareImage (new_sandbox sample_spec []))"

lemma sample_sandbox_reachable: "sandbox_reachable recording_driver sample_sandbox"
  unfolding sample_sandbox_def by (intro reach_op reach_new)

lemmas sandbox_eval = sandbox_prepare_image_def sandbox_start_def sandbox_exec_def sandbox_snapshot_of_def
  sandbox_create_def sandbox_stop_def sandbox_destroy_def set_status_def require_running_def
  on_driver_def sx_zoom_def sx_bind_def sx_simps sx_try_def record_event_def created_count_def
  recording_ref_def new_sandbox_def container_spec_of_def exec_argv_def opt_or_def

lemma sample_sandbox_ready:
  "sb_status sample_sandbox = ST_READY" "sb_container_id sample_sandbox = Some ''c0''"
  "sp_workdir (sb_spec sample_sandbox) = ''/workspace''"
  by (simp_all add: sample_sandbox_def sandbox_eval recording_driver_def sample_spec_def Let_def nat_str.simps)

theorem reachable_exec_behaviour_witness:
  "\<exists>cid. sb_container_id sample_sandbox = Some cid
      \<and> sandbox_exec recording_driver (exec_argv [''pwd''] None) None sample_sandbox
        = on_driver (dd_exec recording_driver
          \<lparr>ec_container_id = cid, ec_argv = [''pwd''], ec_workdir = Some ''/workspace'', ec_environment = [],
           ec_user = None, ec_tty = False, ec_stream = False, ec_demux = True\<rparr> None) sample_sandbox"
  using reachable_exec_behaviour [OF sample_sandbox_reachable, of "exec_argv [''pwd''] None" None]
  by (simp add: sample_sandbox_ready running_statuses_def exec_argv_def opt_or_def)

lemma sample_put_text:
  "\<exists>s'. put_text recording_driver ''/a/../b.txt'' ''hi'' sample_sandbox = (Inr (), s')"
  using sample_sandbox_ready
  by (simp add: put_text_def put_workspace_bytes_def sandbox_eval recording_driver_def safe_join_def normpath_def
      norm_comps_def initial_slashes_def py_lstrip_def Let_def)

theorem put_text_stays_below_witness:
  "\<exists>name cs. path_comps name = path_comps (normpath ''/workspace'') @ cs \<and> list_all down_comp cs
     \<and> (\<exists>s'. on_driver (dd_put_archive recording_driver ''c0'' ''/'' (TarText name ''hi'')) sample_sandbox = (Inr (), s'))"
proof -
  obtain s' where s: "put_text recording_driver ''/a/../b.txt'' ''hi'' sample_sandbox = (Inr (), s')"
    using sample_put_text by blast
  from put_text_stays_below [OF s] show ?thesis by (auto simp: sample_sandbox_ready)
qed

end
