(* ===== verification/CmdCtrl.thy ===== *)
theory CmdCtrl
  imports Sandbox "HOL-Library.Char_ord" "HOL-Library.List_Lexorder"
begin

text \<open>
  The command controller: \<open>cmd_ctrl/policies.py\<close>, \<open>operator.py\<close>, \<open>dispatcher.py\<close>,
  \<open>controller.py\<close> and the models and errors of \<open>cmd_ctrl_models.py\<close>,
  \<open>cmd_ctrl_errors.py\<close>, over the Docker sandbox. A payload is a record whose optional fields
  are the keys the operators read, each with the class the code expects of its value. Decoding of
  output bytes is the argument \<open>dec\<close>.
\<close>

section \<open>Errors\<close>

definition PolicyViolationError :: "string \<Rightarrow> exc" where
  "PolicyViolationError msg = Exc ''PolicyViolationError'' msg"

text \<open>The subclasses of \<open>CommandControlError\<close>.\<close>

definition command_control_errors :: "string list" where
  "command_control_errors =
     [''CommandControlError'', ''ActionDispatchError'', ''OperatorExecutionError'', ''PolicyViolationError'',
      ''GuardDeniedError'', ''GuardEscalationRequired'']"

section \<open>Policies\<close>

definition validate_action :: "string list \<Rightarrow> string \<Rightarrow> unit res" where
  "validate_action allowed_actions action =
     (if action \<in> set allowed_actions then Inr ()
      else Inl (PolicyViolationError (''action not allowed: '' @ action)))"

definition validate_relative_path :: "string \<Rightarrow> unit res" where
  "validate_relative_path path =
     (let clean = py_lstrip (CHR ''/'') (normpath path) in
      if py_startswith clean ''..'' then Inl (PolicyViolationError ''path escapes workdir'') else Inr ())"

definition default_allowed_binaries :: "string list" where
  "default_allowed_binaries =
     [''pwd'', ''ls'', ''find'', ''cat'', ''tail'', ''head'', ''grep'', ''env'', ''python'', ''pip'', ''which'',
      ''java'', ''mvn'', ''gradle'']"

definition interactive_binaries :: "string list" where
  "interactive_binaries = [''vi'', ''vim'', ''nano'', ''top'', ''less'', ''more'', ''bash'', ''sh'']"

definition deny_tokens :: "string list" where
  "deny_tokens = [''rm'', ''mv'', ''chmod'', ''chown'', ''-i'', ''--in-place'']"

definition tool_version_argv :: "string \<Rightarrow> string list" where
  "tool_version_argv bin_name =
     (if bin_name = ''java'' then [''java'', ''-version'']
      else if bin_name = ''mvn'' then [''mvn'', ''-v''] else [''gradle'', ''-v''])"

definition validate_argv :: "string list \<Rightarrow> string list \<Rightarrow> unit res" where
  "validate_argv allowed_binaries argv =
     (case argv of
        [] \<Rightarrow> Inl (PolicyViolationError ''inspect argv cannot be empty'')
      | bin_name # _ \<Rightarrow>
          if bin_name \<in> set interactive_binaries
          then Inl (PolicyViolationError (''interactive binary not allowed: '' @ bin_name))
          else if bin_name \<notin> set allowed_binaries
          then Inl (PolicyViolationError (''binary not allowed for inspect: '' @ bin_name))
          else if list_ex (\<lambda>token. token \<in> set argv) deny_tokens
          then Inl (PolicyViolationError ''mutating or risky token not allowed in inspect command'')
          else if py_contains '' rm '' ('' '' @ py_join '' '' argv @ '' '')
          then Inl (PolicyViolationError ''potentially destructive command pattern detected'')
          else if bin_name = ''python''
            \<and> argv \<notin> {[''python'', ''-V''], [''python'', ''--version''], [''python'', ''-m'', ''pip'', ''list'']}
          then Inl (PolicyViolationError ''python inspect only allows version and pip list checks'')
          else if bin_name = ''pip'' \<and> argv \<notin> {[''pip'', ''list''], [''pip'', ''-V''], [''pip'', ''--version'']}
          then Inl (PolicyViolationError ''pip inspect only allows `pip list` or `pip -V`'')
          else if bin_name = ''which'' \<and> length argv \<noteq> 2
          then Inl (PolicyViolationError ''which inspect expects one target'')
          else if bin_name \<in> {''java'', ''mvn'', ''gradle''} \<and> argv \<noteq> tool_version_argv bin_name
          then Inl (PolicyViolationError
            (bin_name @ '' inspect only allows '' @ py_join '' '' (tool_version_argv bin_name)))
          else Inr ())"

section \<open>Payloads and guards\<close>

record action_payload =
  pl_argv :: "string list option"
  pl_workdir :: "string option"
  pl_timeout_sec :: "int option"
  pl_mode :: "string option"
  pl_path :: "string option"
  pl_content :: "string option"
  pl_targets :: "string list option"
  pl_extra_args :: "string list option"

definition or_default :: "'a option \<Rightarrow> 'a \<Rightarrow> 'a" where
  "or_default x d = (case x of None \<Rightarrow> d | Some v \<Rightarrow> v)"

definition payload_keys :: "action_payload \<Rightarrow> string list" where
  "payload_keys p = sort (concat
     [(if pl_argv p = None then [] else [''argv'']), (if pl_workdir p = None then [] else [''workdir'']),
      (if pl_timeout_sec p = None then [] else [''timeout_sec'']), (if pl_mode p = None then [] else [''mode'']),
      (if pl_path p = None then [] else [''path'']), (if pl_content p = None then [] else [''content'']),
      (if pl_targets p = None then [] else [''targets'']),
      (if pl_extra_args p = None then [] else [''extra_args''])])"

record guard_decision =
  gd_decision :: string
  gd_reason :: "string option"
  gd_meta :: "pyval dict"

definition default_command_guard :: "string list \<Rightarrow> action_payload \<Rightarrow> guard_decision" where
  "default_command_guard argv payload =
     \<lparr>gd_decision = ''escalate'', gd_reason = Some ''no concrete guard policy configured'',
      gd_meta = [(''argv'', py_strs argv), (''payload_keys'', py_strs (payload_keys payload))]\<rparr>"

section \<open>Operators\<close>

text \<open>The dictionaries the operators return; the archive bytes are in \<open>DataArchive\<close>.\<close>

datatype action_data =
    DataExec "int option" "string option" "string option" "string option" rat bool "pyval dict"
  | DataWritten string nat
  | DataArchive string nat "pyval dict" string

definition decode_opt :: "(string \<Rightarrow> string) \<Rightarrow> string option \<Rightarrow> string option" where
  "decode_opt dec b = (case b of None \<Rightarrow> None | Some s \<Rightarrow> if s = [] then None else Some (dec s))"

definition exec_to_dict :: "(string \<Rightarrow> string) \<Rightarrow> exec_result \<Rightarrow> action_data" where
  "exec_to_dict dec r =
     DataExec (xe_exit_code r) (decode_opt dec (xe_stdout r)) (decode_opt dec (xe_stderr r))
       (decode_opt dec (xe_combined r)) (xe_duration_sec r) (xe_timed_out r) (xe_meta r)"

definition payload_to_exec_spec :: "action_payload \<Rightarrow> exec_spec \<times> int option" where
  "payload_to_exec_spec p = (exec_argv (or_default (pl_argv p) []) (pl_workdir p), pl_timeout_sec p)"

text \<open>\<open>len(content.encode("utf-8"))\<close> for characters up to 255.\<close>

definition utf8_len :: "string \<Rightarrow> nat" where
  "utf8_len s = sum_list (map (\<lambda>c. if (of_char c :: nat) < 128 then 1 else 2) s)"

datatype op_kind =
    InstallSdk | WriteFile | RunPython | RunPytest | CollectArtifacts
  | InspectExec "string list" | GuardedExec "string list \<Rightarrow> action_payload \<Rightarrow> guard_decision"

definition return_exec :: "(string \<Rightarrow> string) \<Rightarrow> ('d, exec_result) sbx \<Rightarrow> ('d, action_data) sbx" where
  "return_exec dec m = sx_bind m (\<lambda>r. sx_return (exec_to_dict dec r))"

definition install_sdk_run :: "(string \<Rightarrow> string) \<Rightarrow> 'd docker_driver \<Rightarrow> action_payload \<Rightarrow> ('d, action_data) sbx" where
  "install_sdk_run dec dd p =
     (let mode = or_default (pl_mode p) ''editable'' in
      if mode = ''editable'' then return_exec dec (run_pip dd [''install'', ''-e'', or_default (pl_path p) ''.''])
      else if mode = ''requirements''
      then return_exec dec (run_pip dd [''install'', ''-r'', or_default (pl_path p) ''requirements.txt''])
      else if mode = ''wheel''
      then return_exec dec (run_pip dd [''install'', or_default (pl_path p) ''package.whl''])
      else sx_raise (ValueError (''unsupported install mode: '' @ mode)))"

definition write_file_run :: "'d docker_driver \<Rightarrow> action_payload \<Rightarrow> ('d, action_data) sbx" where
  "write_file_run dd p =
     (case pl_path p of
        None \<Rightarrow> sx_raise (Exc ''KeyError'' ''path'')
      | Some path \<Rightarrow>
          (case pl_content p of
             None \<Rightarrow> sx_raise (Exc ''KeyError'' ''content'')
           | Some content \<Rightarrow>
               sx_bind (put_text dd path content) (\<lambda>_. sx_return (DataWritten path (utf8_len content)))))"

definition collect_artifacts_run :: "'d docker_driver \<Rightarrow> action_payload \<Rightarrow> ('d, action_data) sbx" where
  "collect_artifacts_run dd p =
     (let path = or_default (pl_path p) ''.'' in
      sx_bind (sandbox_get_archive dd path) (\<lambda>(data, stat). sx_return (DataArchive path (length data) stat data)))"

definition inspect_exec_run ::
  "(string \<Rightarrow> string) \<Rightarrow> string list \<Rightarrow> 'd docker_driver \<Rightarrow> action_payload \<Rightarrow> ('d, action_data) sbx" where
  "inspect_exec_run dec allowed dd p =
     (case payload_to_exec_spec p of (spec, timeout_sec) \<Rightarrow>
        sx_bind (sx_lift (validate_argv allowed (es_argv spec)))
          (\<lambda>_. return_exec dec (sandbox_exec dd spec timeout_sec)))"

definition guarded_exec_run ::
  "(string \<Rightarrow> string) \<Rightarrow> (string list \<Rightarrow> action_payload \<Rightarrow> guard_decision) \<Rightarrow> 'd docker_driver \<Rightarrow>
     action_payload \<Rightarrow> ('d, action_data) sbx" where
  "guarded_exec_run dec guard dd p =
     (case payload_to_exec_spec p of (spec, timeout_sec) \<Rightarrow>
        let decision = guard (es_argv spec) p in
        if gd_decision decision = ''deny''
        then sx_raise (Exc ''GuardDeniedError'' (opt_or (gd_reason decision) ''guard denied execution''))
        else if gd_decision decision = ''escalate''
        then sx_raise (Exc ''GuardEscalationRequired'' (opt_or (gd_reason decision) ''guard escalation required''))
        else return_exec dec (sandbox_exec dd spec timeout_sec))"

fun operator_run :: "(string \<Rightarrow> string) \<Rightarrow> op_kind \<Rightarrow> 'd docker_driver \<Rightarrow> action_payload \<Rightarrow> ('d, action_data) sbx" where
  "operator_run dec InstallSdk dd p = install_sdk_run dec dd p"
| "operator_run dec WriteFile dd p = write_file_run dd p"
| "operator_run dec RunPython dd p = return_exec dec (run_python dd (or_default (pl_argv p) []))"
| "operator_run dec RunPytest dd p =
     return_exec dec (run_pytest dd (or_default (pl_targets p) []) (or_default (pl_extra_args p) []))"
| "operator_run dec CollectArtifacts dd p = collect_artifacts_run dd p"
| "operator_run dec (InspectExec allowed) dd p = inspect_exec_run dec allowed dd p"
| "operator_run dec (GuardedExec guard) dd p = guarded_exec_run dec guard dd p"

section \<open>Dispatcher and controller\<close>

definition dispatch ::
  "(string \<Rightarrow> string) \<Rightarrow> op_kind dict \<Rightarrow> 'd docker_driver \<Rightarrow> string \<Rightarrow> action_payload \<Rightarrow> ('d, action_data) sbx" where
  "dispatch dec operators dd action payload =
     (case dget operators action of
        None \<Rightarrow> sx_raise (Exc ''ActionDispatchError'' (''unknown action: '' @ action))
      | Some op \<Rightarrow> operator_run dec op dd payload)"

record command_controller =
  ct_operators :: "op_kind dict"
  ct_action_policy :: "string list option"
  ct_path_policy :: bool

record action_response =
  ar_ok :: bool
  ar_action :: string
  ar_data :: action_data
  ar_error :: "string option"

definition execute_action ::
  "(string \<Rightarrow> string) \<Rightarrow> command_controller \<Rightarrow> 'd docker_driver \<Rightarrow> string \<Rightarrow> action_payload \<Rightarrow> ('d, action_response) sbx" where
  "execute_action dec ct dd action payload =
     sx_try
       (sx_bind (sx_lift (case ct_action_policy ct of None \<Rightarrow> Inr () | Some allowed \<Rightarrow> validate_action allowed action)) (\<lambda>_.
        sx_bind (sx_lift (if ct_path_policy ct \<and> action \<in> {''write_file'', ''collect_artifacts''}
                          then validate_relative_path (or_default (pl_path payload) []) else Inr ())) (\<lambda>_.
        sx_bind (dispatch dec (ct_operators ct) dd action payload) (\<lambda>data.
        sx_return \<lparr>ar_ok = True, ar_action = action, ar_data = data, ar_error = None\<rparr>))))
       (\<lambda>e. exc_class e \<notin> set command_control_errors)
       (\<lambda>e. sx_raise (Exc ''OperatorExecutionError'' (''action='' @ action @ '' failed: '' @ exc_text e)))"

definition open_session :: "'d docker_driver \<Rightarrow> ('d, sandbox_snapshot \<times> string \<times> sandbox_snapshot) sbx" where
  "open_session dd =
     sx_bind (sandbox_create dd) (\<lambda>created. sx_bind (sandbox_prepare_image dd) (\<lambda>image_id.
     sx_bind (sandbox_start dd) (\<lambda>started. sx_return (created, image_id, started))))"

definition close_session :: "'d docker_driver \<Rightarrow> ('d, sandbox_snapshot) sbx" where
  "close_session dd =
     sx_bind (sandbox_stop dd 10) (\<lambda>_. sx_bind (sandbox_destroy dd False False) (\<lambda>_. sandbox_snapshot_of dd))"

section \<open>Properties\<close>

definition only_policy_error :: "unit res \<Rightarrow> bool" where
  "only_policy_error r \<longleftrightarrow> (\<forall>e. r = Inl e \<longrightarrow> exc_class e = ''PolicyViolationError'')"

lemma only_policy_errorI:
  "only_policy_error (Inl (PolicyViolationError m))" "only_policy_error (Inr ())"
  "only_policy_error x \<Longrightarrow> only_policy_error y \<Longrightarrow> only_policy_error (if b then x else y)"
  by (simp_all add: only_policy_error_def PolicyViolationError_def)

lemma validate_argv_policy_error: "only_policy_error (validate_argv binaries argv)"
proof (cases argv)
  case Nil
  then show ?thesis by (simp add: validate_argv_def only_policy_errorI)
next
  case (Cons b bs)
  show ?thesis unfolding validate_argv_def Cons list.case by (intro only_policy_errorI)
qed

lemma try_raise_class:
  assumes "sx_try m (\<lambda>e. exc_class e \<notin> S) (\<lambda>e. sx_raise (Exc c (f e))) s = (Inl e, s')" "c \<in> S"
  shows "exc_class e \<in> S"
  using assms by (cases "m s") (auto simp: sx_try_def sx_simps split: sum.splits if_splits)

text \<open>
  C9: whatever the policies, the operators and the driver do, an exception that leaves
  \<open>execute_action\<close> is one of the command control errors: no driver or validation error leaks out
  under its own class.
\<close>

theorem execute_action_errors:
  assumes "execute_action dec ct dd action payload s = (Inl e, s')"
  shows "exc_class e \<in> set command_control_errors"
  using assms unfolding execute_action_def by (rule try_raise_class) (simp add: command_control_errors_def)

text \<open>The action passes the action policy of the controller, and its path (when it has one) the path policy.\<close>

definition action_permitted :: "command_controller \<Rightarrow> string \<Rightarrow> bool" where
  "action_permitted ct action = (case ct_action_policy ct of None \<Rightarrow> True | Some allowed \<Rightarrow> action \<in> set allowed)"

definition path_escapes :: "string \<Rightarrow> bool" where
  "path_escapes path = (\<exists>rest. py_lstrip (CHR ''/'') (normpath path) = ''..'' @ rest)"

definition path_refused :: "command_controller \<Rightarrow> string \<Rightarrow> action_payload \<Rightarrow> bool" where
  "path_refused ct action payload \<longleftrightarrow>
     ct_path_policy ct \<and> action \<in> {''write_file'', ''collect_artifacts''} \<and> path_escapes (or_default (pl_path payload) [])"

lemma validate_relative_path_escapes:
  "validate_relative_path p = (if path_escapes p then Inl (PolicyViolationError ''path escapes workdir'') else Inr ())"
  by (auto simp: validate_relative_path_def path_escapes_def py_startswith_prefix prefix_def Let_def)

lemma refused_by_policy:
  "\<not> action_permitted ct action \<Longrightarrow>
     execute_action dec ct dd action payload s = (Inl (PolicyViolationError (''action not allowed: '' @ action)), s)"
  "action_permitted ct action \<Longrightarrow> path_refused ct action payload \<Longrightarrow>
     execute_action dec ct dd action payload s = (Inl (PolicyViolationError ''path escapes workdir''), s)"
  by (auto simp: action_permitted_def path_refused_def execute_action_def sx_try_def sx_bind_def sx_simps validate_action_def
      validate_relative_path_escapes PolicyViolationError_def command_control_errors_def split: option.splits)

lemma dispatched_action:
  assumes "action_permitted ct action" "\<not> path_refused ct action payload" "dispatch dec (ct_operators ct) dd action payload s = (Inl e, s)"
    "exc_class e \<in> set command_control_errors"
  shows "execute_action dec ct dd action payload s = (Inl e, s)"
proof -
  have "(case ct_action_policy ct of None \<Rightarrow> Inr () | Some allowed \<Rightarrow> validate_action allowed action) = Inr ()"
    using assms(1) by (auto simp: action_permitted_def validate_action_def split: option.splits)
  moreover have "(if ct_path_policy ct \<and> action \<in> {''write_file'', ''collect_artifacts''}
      then validate_relative_path (or_default (pl_path payload) []) else Inr ()) = Inr ()"
    using assms(2) by (auto simp: path_refused_def validate_relative_path_escapes)
  ultimately show ?thesis
    using assms(3,4) by (simp add: execute_action_def sx_try_def sx_bind_def sx_simps)
qed

text \<open>
  C10: a refused action touches nothing. Whatever the operators and the driver are: an action outside the action policy is
  refused; of the permitted ones, a file action whose path climbs out of the working directory is refused by the path
  policy; and of those that pass, an inspect command whose argument vector the inspect policy rejects, and a guarded
  command its guard denies or escalates, are refused. Each raises the error of what refused it, and the sandbox and the
  engine are left exactly as they were.
\<close>

theorem refused_actions_touch_nothing:
  "(\<not> action_permitted ct action \<longrightarrow>
      execute_action dec ct dd action payload s
        = (Inl (PolicyViolationError (''action not allowed: '' @ action)), s))
   \<and> (action_permitted ct action \<and> path_refused ct action payload \<longrightarrow>
      execute_action dec ct dd action payload s = (Inl (PolicyViolationError ''path escapes workdir''), s))
   \<and> (action_permitted ct action \<and> \<not> path_refused ct action payload
      \<and> dget (ct_operators ct) action = Some (InspectExec binaries)
      \<and> validate_argv binaries (or_default (pl_argv payload) []) = Inl e \<longrightarrow>
      execute_action dec ct dd action payload s = (Inl e, s))
   \<and> (action_permitted ct action \<and> \<not> path_refused ct action payload
      \<and> dget (ct_operators ct) action = Some (GuardedExec guard)
      \<and> gd_decision (guard (or_default (pl_argv payload) []) payload) \<in> {''deny'', ''escalate''} \<longrightarrow>
      (\<exists>m. execute_action dec ct dd action payload s
        = (Inl (Exc (if gd_decision (guard (or_default (pl_argv payload) []) payload) = ''deny'' then ''GuardDeniedError''
             else ''GuardEscalationRequired'') m), s)))"
proof (intro conjI impI)
  assume "\<not> action_permitted ct action"
  then show "execute_action dec ct dd action payload s
        = (Inl (PolicyViolationError (''action not allowed: '' @ action)), s)"
    by (rule refused_by_policy)
next
  assume "action_permitted ct action \<and> path_refused ct action payload"
  then show "execute_action dec ct dd action payload s = (Inl (PolicyViolationError ''path escapes workdir''), s)"
    by (auto intro: refused_by_policy)
next
  assume a: "action_permitted ct action \<and> \<not> path_refused ct action payload
      \<and> dget (ct_operators ct) action = Some (InspectExec binaries)
      \<and> validate_argv binaries (or_default (pl_argv payload) []) = Inl e"
  then have "exc_class e = ''PolicyViolationError''"
    using validate_argv_policy_error [of binaries "or_default (pl_argv payload) []"]
    by (simp add: only_policy_error_def)
  with a show "execute_action dec ct dd action payload s = (Inl e, s)"
    by (intro dispatched_action) (simp_all add: dispatch_def inspect_exec_run_def payload_to_exec_spec_def exec_argv_def
        sx_bind_def sx_simps command_control_errors_def)
next
  assume a: "action_permitted ct action \<and> \<not> path_refused ct action payload
      \<and> dget (ct_operators ct) action = Some (GuardedExec guard)
      \<and> gd_decision (guard (or_default (pl_argv payload) []) payload) \<in> {''deny'', ''escalate''}"
  let ?d = "guard (or_default (pl_argv payload) []) payload"
  let ?c = "if gd_decision ?d = ''deny'' then ''GuardDeniedError'' else ''GuardEscalationRequired''"
  have "\<exists>m. dispatch dec (ct_operators ct) dd action payload s = (Inl (Exc ?c m), s)"
    using a by (auto simp: dispatch_def guarded_exec_run_def payload_to_exec_spec_def exec_argv_def Let_def sx_simps)
  then obtain m where m: "dispatch dec (ct_operators ct) dd action payload s = (Inl (Exc ?c m), s)" by blast
  have "execute_action dec ct dd action payload s = (Inl (Exc ?c m), s)"
    using a m by (intro dispatched_action) (simp_all add: command_control_errors_def)
  then show "\<exists>m. execute_action dec ct dd action payload s = (Inl (Exc ?c m), s)" by blast
qed

lemma validate_relative_path_safe_join:
  "is_ret (validate_relative_path p) \<longleftrightarrow> is_ret (safe_join workdir p)"
  by (simp add: validate_relative_path_def safe_join_def Let_def)

text \<open>
  The path policy of the controller and the path check of the sandbox agree: a relative path
  passes the policy exactly when \<open>safe_join\<close> accepts it below any working directory.
\<close>

theorem path_policy_agrees_with_sandbox:
  "is_ret (validate_relative_path p) = is_ret (safe_join workdir p)"
  by (rule validate_relative_path_safe_join)

definition tool_commands :: "string list list" where
  "tool_commands =
     [[''python'', ''-V''], [''python'', ''--version''], [''python'', ''-m'', ''pip'', ''list''],
      [''pip'', ''list''], [''pip'', ''-V''], [''pip'', ''--version''],
      [''java'', ''-version''], [''mvn'', ''-v''], [''gradle'', ''-v'']]"

lemma if_raise_iff: "(if c then Inl e else r) = Inr a \<longleftrightarrow> \<not> c \<and> r = Inr a"
  by simp

definition python_commands :: "string list set" where
  "python_commands = {[''python'', ''-V''], [''python'', ''--version''], [''python'', ''-m'', ''pip'', ''list'']}"

definition pip_commands :: "string list set" where
  "pip_commands = {[''pip'', ''list''], [''pip'', ''-V''], [''pip'', ''--version'']}"

lemma validate_argv_accepts:
  "validate_argv binaries (b # bs) = Inr () \<longleftrightarrow>
     b \<notin> set interactive_binaries \<and> b \<in> set binaries
     \<and> \<not> (\<exists>token \<in> set deny_tokens. token \<in> set (b # bs))
     \<and> \<not> py_contains '' rm '' ('' '' @ py_join '' '' (b # bs) @ '' '')
     \<and> \<not> (b = ''python'' \<and> b # bs \<notin> python_commands)
     \<and> \<not> (b = ''pip'' \<and> b # bs \<notin> pip_commands)
     \<and> \<not> (b = ''which'' \<and> length (b # bs) \<noteq> 2)
     \<and> \<not> (b \<in> {''java'', ''mvn'', ''gradle''} \<and> b # bs \<noteq> tool_version_argv b)"
  unfolding validate_argv_def list.case if_raise_iff list_ex_iff python_commands_def pip_commands_def
  by (simp only: not_not simp_thms)

lemma listed_commands: "python_commands \<subseteq> set tool_commands" "pip_commands \<subseteq> set tool_commands"
  "tool_version_argv b \<in> set tool_commands"
  by (simp_all add: python_commands_def pip_commands_def tool_commands_def tool_version_argv_def)

text \<open>
  The inspect policy restricts tools that run code to fixed commands: an argument vector it
  accepts does not start with an interactive binary, and if it starts with \<open>python\<close>,
  \<open>pip\<close>, \<open>java\<close>, \<open>mvn\<close> or \<open>gradle\<close> it is one of the listed version and listing
  commands.
\<close>

theorem inspect_policy_restricts_tools:
  assumes "validate_argv binaries (b # bs) = Inr ()"
  shows "b \<in> set binaries \<and> b \<notin> set interactive_binaries
     \<and> (b \<in> {''python'', ''pip'', ''java'', ''mvn'', ''gradle''} \<longrightarrow> b # bs \<in> set tool_commands)"
proof -
  note acc = assms [unfolded validate_argv_accepts]
  have "b # bs \<in> set tool_commands" if "b \<in> {''python'', ''pip'', ''java'', ''mvn'', ''gradle''}"
  proof -
    from that consider "b = ''python''" | "b = ''pip''" | "b \<in> {''java'', ''mvn'', ''gradle''}" by blast
    then show ?thesis
    proof cases
      case 1
      with acc have "b # bs \<in> python_commands" by (simp only: simp_thms)
      then show ?thesis using listed_commands(1) by (rule set_rev_mp)
    next
      case 2
      with acc have "b # bs \<in> pip_commands" by (simp only: simp_thms)
      then show ?thesis using listed_commands(2) by (rule set_rev_mp)
    next
      case 3
      with acc have e: "b # bs = tool_version_argv b" by (simp only: simp_thms)
      show ?thesis unfolding e by (rule listed_commands(3))
    qed
  qed
  moreover have "b \<in> set binaries" "b \<notin> set interactive_binaries" using acc by (simp_all only: simp_thms)
  ultimately show ?thesis by (intro conjI impI)
qed

text \<open>
  The inspect policy is not read-only: with the default binaries it accepts a command that
  deletes files through \<open>find\<close> and one that runs an arbitrary shell script through \<open>env\<close>.
\<close>

theorem inspect_policy_not_read_only:
  "validate_argv default_allowed_binaries [''find'', ''.'', ''-delete''] = Inr ()
   \<and> validate_argv default_allowed_binaries [''env'', ''sh'', ''-c'', ''truncate -s0 data''] = Inr ()"
  by (simp add: validate_argv_accepts interactive_binaries_def default_allowed_binaries_def deny_tokens_def)

text \<open>
  C11: a file write through a controller with the path policy reaches the driver as one archive whose
  member lies below the working directory, and the response reports the size of the content.
\<close>

theorem write_file_stays_below:
  assumes "execute_action dec ct dd ''write_file'' payload s = (Inr resp, s')"
    and "dget (ct_operators ct) ''write_file'' = Some WriteFile" "sp_workdir (sb_spec s) \<noteq> []"
  shows "\<exists>path content cid name cs. pl_path payload = Some path \<and> pl_content payload = Some content
     \<and> ar_data resp = DataWritten path (utf8_len content)
     \<and> sb_container_id s = Some cid
     \<and> on_driver (dd_put_archive dd cid ''/'' (TarText name content)) s = (Inr (), s')
     \<and> path_comps name = path_comps (normpath (sp_workdir (sb_spec s))) @ cs \<and> list_all down_comp cs"
proof -
  obtain d where d: "dispatch dec (ct_operators ct) dd ''write_file'' payload s = (Inr d, s')" "ar_data resp = d"
    using assms(1) by (auto simp: execute_action_def sx_try_def sx_simps split: prod.splits sum.splits if_splits
        dest!: sx_bind_result)
  obtain path content where p: "pl_path payload = Some path" "pl_content payload = Some content"
    using d(1) assms(2) by (auto simp: dispatch_def write_file_run_def sx_simps split: option.splits)
  have "put_text dd path content s = (Inr (), s') \<and> d = DataWritten path (utf8_len content)"
    using d(1) assms(2) p by (auto simp: dispatch_def write_file_run_def sx_simps dest!: sx_bind_result)
  with p d(2) put_text_below [OF _ assms(3)] show ?thesis by blast
qed

definition stopped_or_removed :: "string \<Rightarrow> driver_event \<Rightarrow> bool" where
  "stopped_or_removed cid ev \<longleftrightarrow> ev = EvStop cid \<or> ev = EvRemove cid"

text \<open>
  Opening a session twice on one sandbox loses the first container: after both sessions are
  opened and the session is closed, the driver has created and started two containers, has stopped and
  removed the second one, and was never asked to stop or remove the first.
\<close>

theorem reopened_session_leaks_container:
  "let s1 = snd (open_session recording_driver (new_sandbox sample_spec []));
       s2 = snd (open_session recording_driver s1);
       evs = sb_driver (snd (close_session recording_driver s2))
   in EvStart ''c0'' \<in> set evs \<and> EvStart ''c1'' \<in> set evs
      \<and> EvStop ''c1'' \<in> set evs \<and> EvRemove ''c1'' \<in> set evs
      \<and> list_all (\<lambda>ev. \<not> stopped_or_removed ''c0'' ev) evs"
  by (simp add: open_session_def close_session_def sandbox_eval recording_driver_def sample_spec_def
      Let_def nat_str.simps stopped_or_removed_def)

definition sample_payload :: action_payload where
  "sample_payload =
     \<lparr>pl_argv = Some [''bash'', ''-c'', ''id''], pl_workdir = None, pl_timeout_sec = None, pl_mode = None,
      pl_path = Some ''out/report.txt'', pl_content = Some ''hello'', pl_targets = None, pl_extra_args = None\<rparr>"

definition sample_controller :: command_controller where
  "sample_controller =
     \<lparr>ct_operators = [(''inspect_exec'', InspectExec default_allowed_binaries), (''write_file'', WriteFile)],
      ct_action_policy = None, ct_path_policy = True\<rparr>"

theorem execute_action_errors_witness:
  "exc_class (Exc ''ActionDispatchError'' ''unknown action: deploy'') \<in> set command_control_errors"
proof (rule execute_action_errors)
  show "execute_action (\<lambda>b. b) sample_controller recording_driver ''deploy'' sample_payload sample_sandbox
      = (Inl (Exc ''ActionDispatchError'' ''unknown action: deploy''), sample_sandbox)"
    by (simp add: execute_action_def sx_try_def sx_bind_def sx_simps sample_controller_def dispatch_def
        command_control_errors_def)
qed

lemma sample_argv_refused:
  "validate_argv default_allowed_binaries [''bash'', ''-c'', ''id'']
     = Inl (PolicyViolationError ''interactive binary not allowed: bash'')"
  by (simp add: validate_argv_def interactive_binaries_def)

theorem refused_actions_touch_nothing_witness:
  "execute_action (\<lambda>b. b) sample_controller recording_driver ''inspect_exec'' sample_payload sample_sandbox
     = (Inl (PolicyViolationError ''interactive binary not allowed: bash''), sample_sandbox)
   \<and> execute_action (\<lambda>b. b) sample_controller recording_driver ''write_file'' (sample_payload\<lparr>pl_path := Some ''../x''\<rparr>) sample_sandbox
     = (Inl (PolicyViolationError ''path escapes workdir''), sample_sandbox)"
proof
  have "action_permitted sample_controller ''inspect_exec'' \<and> \<not> path_refused sample_controller ''inspect_exec'' sample_payload
      \<and> dget (ct_operators sample_controller) ''inspect_exec'' = Some (InspectExec default_allowed_binaries)
      \<and> validate_argv default_allowed_binaries (or_default (pl_argv sample_payload) [])
        = Inl (PolicyViolationError ''interactive binary not allowed: bash'')"
    by (simp add: sample_controller_def sample_payload_def or_default_def sample_argv_refused action_permitted_def path_refused_def)
  then show "execute_action (\<lambda>b. b) sample_controller recording_driver ''inspect_exec'' sample_payload sample_sandbox
     = (Inl (PolicyViolationError ''interactive binary not allowed: bash''), sample_sandbox)"
    using refused_actions_touch_nothing [of sample_controller "''inspect_exec''" "\<lambda>b. b" recording_driver sample_payload
      sample_sandbox default_allowed_binaries "PolicyViolationError ''interactive binary not allowed: bash''"] by blast
next
  let ?p = "sample_payload\<lparr>pl_path := Some ''../x''\<rparr>"
  have "action_permitted sample_controller ''write_file'' \<and> path_refused sample_controller ''write_file'' ?p"
    by (simp add: sample_controller_def sample_payload_def or_default_def action_permitted_def path_refused_def path_escapes_def
        normpath_def norm_comps_def initial_slashes_def py_lstrip_def Let_def)
  then show "execute_action (\<lambda>b. b) sample_controller recording_driver ''write_file'' ?p sample_sandbox
     = (Inl (PolicyViolationError ''path escapes workdir''), sample_sandbox)"
    using refused_actions_touch_nothing [of sample_controller "''write_file''" "\<lambda>b. b" recording_driver ?p
      sample_sandbox] by blast
qed

theorem inspect_policy_restricts_tools_witness:
  "[''java'', ''-version''] \<in> set tool_commands"
proof -
  have "validate_argv default_allowed_binaries [''java'', ''-version''] = Inr ()"
    by (simp add: validate_argv_accepts interactive_binaries_def default_allowed_binaries_def deny_tokens_def
        tool_version_argv_def)
  from inspect_policy_restricts_tools [OF this] show ?thesis by simp
qed

lemma sample_write_returns:
  "\<exists>resp s'. execute_action (\<lambda>b. b) sample_controller recording_driver ''write_file'' sample_payload sample_sandbox
     = (Inr resp, s')"
  using sample_sandbox_ready
  by (simp add: execute_action_def sample_controller_def dispatch_def write_file_run_def sample_payload_def
      or_default_def validate_relative_path_def put_text_def put_workspace_bytes_def sandbox_eval
      recording_driver_def safe_join_def normpath_def norm_comps_def initial_slashes_def py_lstrip_def Let_def)

theorem write_file_stays_below_witness:
  "\<exists>resp s' name cs. execute_action (\<lambda>b. b) sample_controller recording_driver ''write_file'' sample_payload sample_sandbox
       = (Inr resp, s')
     \<and> ar_data resp = DataWritten ''out/report.txt'' (utf8_len ''hello'')
     \<and> on_driver (dd_put_archive recording_driver ''c0'' ''/'' (TarText name ''hello'')) sample_sandbox = (Inr (), s')
     \<and> path_comps name = path_comps (normpath ''/workspace'') @ cs \<and> list_all down_comp cs"
proof -
  obtain resp s' where r: "execute_action (\<lambda>b. b) sample_controller recording_driver ''write_file'' sample_payload sample_sandbox
     = (Inr resp, s')" using sample_write_returns by blast
  have "dget (ct_operators sample_controller) ''write_file'' = Some WriteFile"
    "sp_workdir (sb_spec sample_sandbox) \<noteq> []" by (simp_all add: sample_controller_def sample_sandbox_ready)
  from write_file_stays_below [OF r this] r show ?thesis
    by (auto simp: sample_sandbox_ready sample_payload_def)
qed

end
