(* ===== verification/LlmClient.thy ===== *)
theory LlmClient
  imports Plan StateExc
begin

text \<open>
  The LLM layer: \<open>llm/llm_models.py\<close>, \<open>llm_config.py\<close>, \<open>model_registry.py\<close>,
  \<open>response_parser.py\<close> and \<open>clients/openai_compatible_client.py\<close>. The vendor SDK (its client
  constructor and the two \<open>create\<close> calls), the environment and the monotonic clock are the
  operations of \<open>openai_sdk\<close> on a state \<open>'w\<close>. A float is the rational it denotes. The
  enumerations of this package are string classes, so a protocol or a format is a string.
\<close>

section \<open>Models\<close>

record llm_content_part =
  lp_type :: string
  lp_text :: "string option"
  lp_image_url :: "string option"
  lp_file_id :: "string option"
  lp_file_url :: "string option"
  lp_detail :: "string option"
  lp_data :: "pyval dict"

datatype llm_content = TextContent string | PartsContent "llm_content_part list"

record llm_message =
  lm_role :: string
  lm_content :: llm_content
  lm_name :: "string option"
  lm_metadata :: "pyval dict"

record llm_structured_output_config =
  so_response_format :: string
  so_schema_name :: "string option"
  so_json_schema :: "pyval dict option"
  so_strict :: bool

record llm_request =
  lq_model_alias :: "string option"
  lq_model :: "string option"
  lq_messages :: "llm_message list"
  lq_instructions :: "string option"
  lq_api_protocol :: "string option"
  lq_temperature :: "rat option"
  lq_top_p :: "rat option"
  lq_max_output_tokens :: "int option"
  lq_timeout_sec :: "rat option"
  lq_response_format :: "string option"
  lq_json_schema :: "pyval dict option"
  lq_strict_json_schema :: bool
  lq_tools :: "pyval dict list"
  lq_tool_choice :: pyval
  lq_reasoning_effort :: "string option"
  lq_stream :: bool
  lq_metadata :: "pyval dict"
  lq_extra_body :: "pyval dict"

record llm_usage =
  lu_input_tokens :: pyval
  lu_output_tokens :: pyval
  lu_total_tokens :: pyval
  lu_reasoning_tokens :: pyval
  lu_cached_input_tokens :: pyval
  lu_raw :: "pyval dict"

record llm_response =
  ls_content :: pyval
  ls_model :: "string option"
  ls_model_alias :: "string option"
  ls_provider_name :: "string option"
  ls_provider_type :: "string option"
  ls_raw :: pyval
  ls_usage :: "llm_usage option"
  ls_finish_reason :: pyval
  ls_response_id :: pyval
  ls_request_id :: pyval
  ls_latency_ms :: "int option"
  ls_parsed_json :: "pyval dict option"
  ls_metadata :: "pyval dict"

definition llm_request_defaults :: llm_request where
  "llm_request_defaults =
     \<lparr>lq_model_alias = None, lq_model = None, lq_messages = [], lq_instructions = None,
      lq_api_protocol = None, lq_temperature = None, lq_top_p = None, lq_max_output_tokens = None,
      lq_timeout_sec = None, lq_response_format = None, lq_json_schema = None,
      lq_strict_json_schema = False, lq_tools = [], lq_tool_choice = PNone, lq_reasoning_effort = None,
      lq_stream = False, lq_metadata = [], lq_extra_body = []\<rparr>"

definition user_message :: "string \<Rightarrow> llm_message" where
  "user_message content = \<lparr>lm_role = ''user'', lm_content = TextContent content, lm_name = None, lm_metadata = []\<rparr>"

section \<open>Configuration and registry\<close>

abbreviation (input) "PROTO_RESPONSES \<equiv> ''responses''"
abbreviation (input) "PROTO_CHAT \<equiv> ''chat_completions''"
abbreviation (input) "FORMAT_JSON_OBJECT \<equiv> ''json_object''"
abbreviation (input) "FORMAT_JSON_SCHEMA \<equiv> ''json_schema''"

record llm_provider_config =
  pc_provider_name :: string
  pc_provider_type :: string
  pc_base_url :: "string option"
  pc_api_key_env :: "string option"
  pc_timeout_sec :: rat
  pc_max_retries :: int
  pc_extra_headers :: "string dict"
  pc_extra_client_kwargs :: "pyval dict"
  pc_enabled :: bool
  pc_provider_metadata :: "pyval dict"

record llm_model_config =
  mc_alias :: string
  mc_provider_name :: string
  mc_model :: string
  mc_api_protocol :: string
  mc_temperature :: rat
  mc_top_p :: "rat option"
  mc_max_output_tokens :: "int option"
  mc_supports_streaming :: bool
  mc_supports_tools :: bool
  mc_supports_structured_output :: bool
  mc_supports_reasoning :: bool
  mc_reasoning_effort :: "string option"
  mc_default_response_format :: "llm_structured_output_config option"
  mc_metadata :: "pyval dict"

record llm_route_config =
  rc_route_name :: string
  rc_primary_model_alias :: string
  rc_fallback_model_aliases :: "string list"
  rc_metadata :: "pyval dict"

record model_registry =
  mr_providers :: "llm_provider_config dict"
  mr_models :: "llm_model_config dict"
  mr_routes :: "llm_route_config dict"

definition new_model_registry :: model_registry where
  "new_model_registry = \<lparr>mr_providers = [], mr_models = [], mr_routes = []\<rparr>"

definition register_provider :: "llm_provider_config \<Rightarrow> model_registry \<Rightarrow> model_registry res" where
  "register_provider config reg = Inr (reg\<lparr>mr_providers := dput (pc_provider_name config) config (mr_providers reg)\<rparr>)"

definition register_model :: "llm_model_config \<Rightarrow> model_registry \<Rightarrow> model_registry res" where
  "register_model config reg = Inr (reg\<lparr>mr_models := dput (mc_alias config) config (mr_models reg)\<rparr>)"

definition register_route :: "llm_route_config \<Rightarrow> model_registry \<Rightarrow> model_registry res" where
  "register_route config reg = Inr (reg\<lparr>mr_routes := dput (rc_route_name config) config (mr_routes reg)\<rparr>)"

definition get_provider :: "model_registry \<Rightarrow> string \<Rightarrow> llm_provider_config res" where
  "get_provider reg name =
     (case dget (mr_providers reg) name of
        Some c \<Rightarrow> Inr c
      | None \<Rightarrow> Inl (Exc ''LlmProviderNotFoundError'' (''provider not found: '' @ name)))"

definition get_model :: "model_registry \<Rightarrow> string \<Rightarrow> llm_model_config res" where
  "get_model reg alias =
     (case dget (mr_models reg) alias of
        Some c \<Rightarrow> Inr c
      | None \<Rightarrow> Inl (Exc ''LlmModelNotFoundError'' (''model alias not found: '' @ alias)))"

definition get_route :: "model_registry \<Rightarrow> string \<Rightarrow> llm_route_config option" where
  "get_route reg name = dget (mr_routes reg) name"

interpretation providers: overwriting_registry
  "\<lambda>reg. dget (mr_providers reg)" register_provider pc_provider_name "\<lambda>_. True"
  by unfold_locales (auto simp: register_provider_def)

interpretation models: overwriting_registry
  "\<lambda>reg. dget (mr_models reg)" register_model mc_alias "\<lambda>_. True"
  by unfold_locales (auto simp: register_model_def)

interpretation routes: overwriting_registry get_route register_route rc_route_name "\<lambda>_. True"
  by unfold_locales (auto simp: register_route_def get_route_def)

record resolved_llm_target =
  rt_provider_config :: llm_provider_config
  rt_model_config :: llm_model_config
  rt_model :: string
  rt_api_protocol :: string
  rt_request_defaults :: "pyval dict"

fun opt_float :: "rat option \<Rightarrow> pyval" where
  "opt_float None = PNone"
| "opt_float (Some q) = PFloat q"

fun opt_dict :: "pyval dict option \<Rightarrow> pyval" where
  "opt_dict None = PNone"
| "opt_dict (Some d) = PDict d"

text \<open>\<open>{k: v for k, v in d.items() if v is not None}\<close>\<close>

definition drop_none :: "pyval dict \<Rightarrow> pyval dict" where
  "drop_none d = filter (\<lambda>(k, v). v \<noteq> PNone) d"

definition config_defaults :: "llm_model_config \<Rightarrow> pyval dict" where
  "config_defaults c = drop_none
     ([(''temperature'', PFloat (mc_temperature c)), (''top_p'', opt_float (mc_top_p c)),
       (''max_output_tokens'', opt_int (mc_max_output_tokens c)),
       (''reasoning_effort'', opt_str (mc_reasoning_effort c))]
      @ (case mc_default_response_format c of
           None \<Rightarrow> []
         | Some f \<Rightarrow> [(''response_format'', PStr (so_response_format f)),
                     (''json_schema'', opt_dict (so_json_schema f)),
                     (''strict_json_schema'', PBool (so_strict f))]))"

definition resolve_target :: "model_registry \<Rightarrow> string \<Rightarrow> resolved_llm_target res" where
  "resolve_target reg alias =
     res_bind (get_model reg alias) (\<lambda>c. res_bind (get_provider reg (mc_provider_name c)) (\<lambda>p.
       Inr \<lparr>rt_provider_config = p, rt_model_config = c, rt_model = mc_model c,
            rt_api_protocol = mc_api_protocol c, rt_request_defaults = config_defaults c\<rparr>))"

section \<open>Parsing a reply\<close>

text \<open>
  \<open>parse_json_object\<close>; \<open>loads\<close> is \<open>json.loads\<close>, whose \<open>JSONDecodeError\<close> is turned
  into the parse error (any other exception passes).
\<close>

definition parse_json_object :: "(string \<Rightarrow> pyval res) \<Rightarrow> llm_response \<Rightarrow> pyval dict res" where
  "parse_json_object loads response =
     (case ls_parsed_json response of
        Some d \<Rightarrow> Inr d
      | None \<Rightarrow>
         (case ls_content response of
            PStr s \<Rightarrow>
             (case loads s of
                Inl e \<Rightarrow> if exc_class e = ''JSONDecodeError''
                         then Inl (Exc ''LlmResponseParseError''
                                (''failed to parse LLM response as JSON object: '' @ exc_text e))
                         else Inl e
              | Inr (PDict d) \<Rightarrow> Inr d
              | Inr _ \<Rightarrow> Inl (Exc ''LlmResponseParseError'' ''LLM response is not a JSON object''))
          | _ \<Rightarrow> Inl TypeError))"

section \<open>The OpenAI-compatible client\<close>

record 'w openai_sdk =
  sdk_environ :: "string \<Rightarrow> string option"
  sdk_monotonic :: "'w \<Rightarrow> rat \<times> 'w"
  sdk_new_client :: "pyval dict \<Rightarrow> ('w, string) sx"
  sdk_responses_create :: "string \<Rightarrow> pyval dict \<Rightarrow> ('w, pyval) sx"
  sdk_chat_create :: "string \<Rightarrow> pyval dict \<Rightarrow> ('w, pyval) sx"

text \<open>The client object: its configuration, the SDK client built so far (by its handle) and the world.\<close>

record 'w llm_client =
  lc_provider_config :: llm_provider_config
  lc_model_registry :: "model_registry option"
  lc_client :: "string option"
  lc_world :: 'w

type_synonym ('w, 'a) lcx = "('w llm_client, 'a) sx"

definition on_sdk :: "('w, 'a) sx \<Rightarrow> ('w, 'a) lcx" where
  "on_sdk = sx_zoom lc_world (\<lambda>w c. c\<lparr>lc_world := w\<rparr>)"

definition monotonic :: "'w openai_sdk \<Rightarrow> ('w, rat) lcx" where
  "monotonic sdk = on_sdk (\<lambda>w. case sdk_monotonic sdk w of (t, w') \<Rightarrow> (Inr t, w'))"

fun given :: "string option \<Rightarrow> bool" where
  "given None = False"
| "given (Some s) = (s \<noteq> [])"

definition ad_hoc_model_config :: "string \<Rightarrow> string \<Rightarrow> llm_model_config" where
  "ad_hoc_model_config model provider =
     \<lparr>mc_alias = model, mc_provider_name = provider, mc_model = model, mc_api_protocol = PROTO_RESPONSES,
      mc_temperature = 0, mc_top_p = None, mc_max_output_tokens = None, mc_supports_streaming = False,
      mc_supports_tools = False, mc_supports_structured_output = True, mc_supports_reasoning = False,
      mc_reasoning_effort = None, mc_default_response_format = None, mc_metadata = []\<rparr>"

definition resolve_request ::
  "llm_provider_config \<Rightarrow> model_registry option \<Rightarrow> llm_request \<Rightarrow> resolved_llm_target res" where
  "resolve_request provider registry rq =
     (case (lq_model_alias rq, registry) of
        (Some (a # as), Some reg) \<Rightarrow> resolve_target reg (a # as)
      | _ \<Rightarrow>
         (case lq_model rq of
            Some (m # ms) \<Rightarrow>
              Inr \<lparr>rt_provider_config = provider,
                   rt_model_config = ad_hoc_model_config (m # ms) (pc_provider_name provider),
                   rt_model = m # ms,
                   rt_api_protocol = (if given (lq_api_protocol rq) then the (lq_api_protocol rq) else PROTO_RESPONSES),
                   rt_request_defaults = []\<rparr>
          | _ \<Rightarrow> Inl (Exc ''LlmConfigError'' ''request must include model or resolvable model_alias'')))"

subsection \<open>Messages\<close>

definition put_given :: "string \<Rightarrow> string option \<Rightarrow> pyval dict \<Rightarrow> pyval dict" where
  "put_given k v d = (case v of None \<Rightarrow> d | Some s \<Rightarrow> dput k (PStr s) d)"

definition part_text :: "llm_content_part \<Rightarrow> pyval" where
  "part_text part = PStr (case lp_text part of None \<Rightarrow> [] | Some s \<Rightarrow> s)"

definition content_part_to_responses :: "llm_content_part \<Rightarrow> pyval" where
  "content_part_to_responses part =
     (if lp_type part = ''text'' \<or> lp_type part = ''input_text''
      then PDict [(''type'', PStr ''input_text''), (''text'', part_text part)]
      else PDict
        (put_given ''detail'' (lp_detail part)
        (put_given ''file_url'' (lp_file_url part)
        (put_given ''file_id'' (lp_file_id part)
        (put_given ''image_url'' (lp_image_url part)
        (put_given ''text'' (lp_text part)
          (dupdate [(''type'', PStr (lp_type part))] (lp_data part))))))))"

definition content_part_to_chat :: "llm_content_part \<Rightarrow> pyval" where
  "content_part_to_chat part =
     (if lp_type part = ''text'' \<or> lp_type part = ''input_text''
      then PDict [(''type'', PStr ''text''), (''text'', part_text part)]
      else content_part_to_responses part)"

fun content_to_responses_parts :: "llm_content \<Rightarrow> pyval" where
  "content_to_responses_parts (TextContent s) = PList [PDict [(''type'', PStr ''input_text''), (''text'', PStr s)]]"
| "content_to_responses_parts (PartsContent ps) = PList (map content_part_to_responses ps)"

fun content_to_chat_content :: "llm_content \<Rightarrow> pyval" where
  "content_to_chat_content (TextContent s) = PStr s"
| "content_to_chat_content (PartsContent ps) = PList (map content_part_to_chat ps)"

definition message_to_responses_input :: "llm_message \<Rightarrow> pyval" where
  "message_to_responses_input m =
     PDict [(''role'', PStr (lm_role m)), (''content'', content_to_responses_parts (lm_content m))]"

definition message_to_chat :: "llm_message \<Rightarrow> pyval" where
  "message_to_chat m = PDict [(''role'', PStr (lm_role m)), (''content'', content_to_chat_content (lm_content m))]"

subsection \<open>Request arguments\<close>

definition request_format :: "llm_request \<Rightarrow> resolved_llm_target \<Rightarrow> pyval" where
  "request_format rq t = py_or (opt_str (lq_response_format rq)) (pget (rt_request_defaults t) ''response_format'')"

definition request_schema :: "llm_request \<Rightarrow> resolved_llm_target \<Rightarrow> pyval" where
  "request_schema rq t = py_or (opt_dict (lq_json_schema rq)) (pget (rt_request_defaults t) ''json_schema'')"

definition request_strict :: "llm_request \<Rightarrow> resolved_llm_target \<Rightarrow> bool" where
  "request_strict rq t \<longleftrightarrow>
     lq_strict_json_schema rq \<or> py_truthy (pget (rt_request_defaults t) ''strict_json_schema'')"

definition responses_text_format :: "llm_request \<Rightarrow> resolved_llm_target \<Rightarrow> pyval" where
  "responses_text_format rq t =
     (if request_format rq t = PStr FORMAT_JSON_SCHEMA
      then PDict [(''format'', PDict [(''type'', PStr ''json_schema''), (''name'', PStr ''structured_output''),
             (''schema'', py_or (request_schema rq t) (PDict [])), (''strict'', PBool (request_strict rq t))])]
      else if request_format rq t = PStr FORMAT_JSON_OBJECT
      then PDict [(''format'', PDict [(''type'', PStr ''json_object'')])]
      else PNone)"

definition chat_response_format :: "llm_request \<Rightarrow> resolved_llm_target \<Rightarrow> pyval" where
  "chat_response_format rq t =
     (if request_format rq t = PStr FORMAT_JSON_SCHEMA
      then PDict [(''type'', PStr ''json_schema''),
             (''json_schema'', PDict [(''name'', PStr ''structured_output''),
                (''schema'', py_or (request_schema rq t) (PDict [])), (''strict'', PBool (request_strict rq t))])]
      else if request_format rq t = PStr FORMAT_JSON_OBJECT
      then PDict [(''type'', PStr ''json_object'')]
      else PNone)"

definition put_if :: "bool \<Rightarrow> string \<Rightarrow> pyval \<Rightarrow> pyval dict \<Rightarrow> pyval dict" where
  "put_if b k v d = (if b then dput k v d else d)"

definition tools_value :: "llm_request \<Rightarrow> pyval" where
  "tools_value rq = PList (map PDict (lq_tools rq))"

definition max_tokens_value :: "llm_request \<Rightarrow> resolved_llm_target \<Rightarrow> pyval" where
  "max_tokens_value rq t =
     py_or (opt_int (lq_max_output_tokens rq)) (pget (rt_request_defaults t) ''max_output_tokens'')"

definition build_responses_kwargs :: "llm_request \<Rightarrow> resolved_llm_target \<Rightarrow> pyval dict" where
  "build_responses_kwargs rq t =
     (let reasoning = py_or (opt_str (lq_reasoning_effort rq)) (pget (rt_request_defaults t) ''reasoning_effort'');
          text = responses_text_format rq t;
          k0 = [(''model'', PStr (rt_model t)),
                (''input'', PList (map message_to_responses_input (lq_messages rq))),
                (''metadata'', py_or (PDict (lq_metadata rq)) PNone)];
          k1 = put_if (given (lq_instructions rq)) ''instructions'' (opt_str (lq_instructions rq)) k0;
          k2 = put_if (lq_tools rq \<noteq> []) ''tools'' (tools_value rq) k1;
          k3 = put_if (lq_tool_choice rq \<noteq> PNone) ''tool_choice'' (lq_tool_choice rq) k2;
          k4 = put_if (max_tokens_value rq t \<noteq> PNone) ''max_output_tokens'' (max_tokens_value rq t) k3;
          k5 = put_if (py_truthy reasoning) ''reasoning'' (PDict [(''effort'', reasoning)]) k4;
          k6 = put_if (py_truthy text) ''text'' text k5
      in drop_none (dupdate k6 (lq_extra_body rq)))"

definition build_chat_kwargs :: "llm_request \<Rightarrow> resolved_llm_target \<Rightarrow> pyval dict" where
  "build_chat_kwargs rq t =
     (let system = (if given (lq_instructions rq)
                    then [PDict [(''role'', PStr ''system''), (''content'', opt_str (lq_instructions rq))]] else []);
          format = chat_response_format rq t;
          k0 = [(''model'', PStr (rt_model t)),
                (''messages'', PList (system @ map message_to_chat (lq_messages rq))),
                (''temperature'', case lq_temperature rq of Some q \<Rightarrow> PFloat q
                   | None \<Rightarrow> pget (rt_request_defaults t) ''temperature''),
                (''top_p'', case lq_top_p rq of Some q \<Rightarrow> PFloat q
                   | None \<Rightarrow> pget (rt_request_defaults t) ''top_p''),
                (''max_tokens'', max_tokens_value rq t), (''stream'', PBool False)];
          k1 = put_if (py_truthy format) ''response_format'' format k0;
          k2 = put_if (lq_tools rq \<noteq> []) ''tools'' (tools_value rq) k1;
          k3 = put_if (lq_tool_choice rq \<noteq> PNone) ''tool_choice'' (lq_tool_choice rq) k2
      in drop_none (dupdate k3 (lq_extra_body rq)))"

subsection \<open>Normalising a reply\<close>

text \<open>\<open>value[0] if value else None\<close>\<close>

definition py_first :: "pyval \<Rightarrow> pyval res" where
  "py_first v =
     (if \<not> py_truthy v then Inr PNone
      else case v of
        PList (x # xs) \<Rightarrow> Inr x
      | PTuple (x # xs) \<Rightarrow> Inr x
      | PStr (c # cs) \<Rightarrow> Inr (PStr [c])
      | PDict d \<Rightarrow> Inl KeyError
      | _ \<Rightarrow> Inl TypeError)"

definition text_chunks :: "pyval \<Rightarrow> pyval list res" where
  "text_chunks item =
     res_bind (py_iter (py_or (py_getattr item ''content'' (PList [])) (PList []))) (\<lambda>contents.
       Inr (filter py_truthy (map (\<lambda>c. py_getattr c ''text'' PNone) contents)))"

definition extract_response_output_text :: "pyval \<Rightarrow> string res" where
  "extract_response_output_text raw =
     res_bind (py_iter (py_or (py_getattr raw ''output'' (PList [])) (PList []))) (\<lambda>items.
     res_bind (res_map text_chunks items) (\<lambda>chunks.
       if list_all is_str (concat chunks)
       then Inr (concat (map (\<lambda>c. case c of PStr s \<Rightarrow> s | _ \<Rightarrow> []) (concat chunks)))
       else Inl TypeError))"

definition usage_field :: "string \<times> pyval \<Rightarrow> bool" where
  "usage_field f = (\<not> py_startswith (fst f) ''_'' \<and>
     (case snd f of PInt i \<Rightarrow> True | PBool b \<Rightarrow> True | PDict d \<Rightarrow> True | PNone \<Rightarrow> True | _ \<Rightarrow> False))"

text \<open>
  The attributes of a usage object are the fields of an instance, in the order of \<open>dir\<close>. An object
  without such fields has no usage data (a bare number, which has attributes of its own, is not
  distinguished).
\<close>

definition usage_data :: "pyval \<Rightarrow> pyval dict" where
  "usage_data v =
     (case v of
        PDict d \<Rightarrow> d
      | PObj c fs \<Rightarrow> sort_key fst (filter usage_field fs)
      | _ \<Rightarrow> [])"

definition detail_field :: "pyval dict \<Rightarrow> string \<Rightarrow> string \<Rightarrow> pyval" where
  "detail_field data key field =
     (case pget data key of PDict d \<Rightarrow> pget d field | _ \<Rightarrow> PNone)"

definition normalize_usage :: "pyval \<Rightarrow> llm_usage option" where
  "normalize_usage raw =
     (if raw = PNone then None
      else let data = usage_data raw in Some
        \<lparr>lu_input_tokens = py_or (pget data ''input_tokens'') (pget data ''prompt_tokens''),
         lu_output_tokens = py_or (pget data ''output_tokens'') (pget data ''completion_tokens''),
         lu_total_tokens = pget data ''total_tokens'',
         lu_reasoning_tokens = detail_field data ''output_tokens_details'' ''reasoning_tokens'',
         lu_cached_input_tokens = detail_field data ''input_tokens_details'' ''cached_tokens'',
         lu_raw = data\<rparr>)"

definition base_response :: "llm_request \<Rightarrow> resolved_llm_target \<Rightarrow> pyval \<Rightarrow> pyval \<Rightarrow> llm_response" where
  "base_response rq t raw content =
     \<lparr>ls_content = py_or content (PStr []), ls_model = Some (rt_model t), ls_model_alias = lq_model_alias rq,
      ls_provider_name = Some (pc_provider_name (rt_provider_config t)),
      ls_provider_type = Some (pc_provider_type (rt_provider_config t)), ls_raw = raw,
      ls_usage = normalize_usage (py_getattr raw ''usage'' PNone), ls_finish_reason = PNone,
      ls_response_id = py_getattr raw ''id'' PNone, ls_request_id = PNone, ls_latency_ms = None,
      ls_parsed_json = None, ls_metadata = []\<rparr>"

definition normalize_responses :: "pyval \<Rightarrow> llm_request \<Rightarrow> resolved_llm_target \<Rightarrow> llm_response res" where
  "normalize_responses raw rq t =
     (let finish = (\<lambda>content. (base_response rq t raw content)\<lparr>ls_finish_reason := py_getattr raw ''status'' PNone\<rparr>) in
      if py_truthy (py_getattr raw ''output_text'' PNone)
      then Inr (finish (py_getattr raw ''output_text'' PNone))
      else res_bind (extract_response_output_text raw) (\<lambda>s. Inr (finish (PStr s))))"

definition normalize_chat :: "pyval \<Rightarrow> llm_request \<Rightarrow> resolved_llm_target \<Rightarrow> llm_response res" where
  "normalize_chat raw rq t =
     res_bind (py_first (py_getattr raw ''choices'' PNone)) (\<lambda>choice.
       let message = py_getattr choice ''message'' PNone;
           content = (if message = PNone then PStr [] else py_getattr message ''content'' PNone)
       in Inr ((base_response rq t raw content)\<lparr>ls_finish_reason := py_getattr choice ''finish_reason'' PNone\<rparr>))"

subsection \<open>Calls\<close>

definition client_kwargs :: "'w openai_sdk \<Rightarrow> llm_provider_config \<Rightarrow> pyval dict" where
  "client_kwargs sdk p =
     (let api_key = (case pc_api_key_env p of
             Some (c # cs) \<Rightarrow> opt_str (sdk_environ sdk (c # cs))
           | _ \<Rightarrow> PNone);
          headers = PDict (map (\<lambda>(k, s). (k, PStr s)) (pc_extra_headers p))
      in drop_none (dupdate
           [(''api_key'', api_key), (''base_url'', opt_str (pc_base_url p)),
            (''timeout'', PFloat (pc_timeout_sec p)), (''max_retries'', PInt (pc_max_retries p)),
            (''default_headers'', py_or headers PNone)]
           (pc_extra_client_kwargs p)))"

definition get_client :: "'w openai_sdk \<Rightarrow> ('w, string) lcx" where
  "get_client sdk =
     sx_bind sx_get (\<lambda>c.
       case lc_client c of
         Some h \<Rightarrow> sx_return h
       | None \<Rightarrow>
           sx_bind (on_sdk (sdk_new_client sdk (client_kwargs sdk (lc_provider_config c)))) (\<lambda>h.
           sx_bind (sx_modify (\<lambda>c. c\<lparr>lc_client := Some h\<rparr>)) (\<lambda>_. sx_return h)))"

definition validate_structured_output :: "llm_request \<Rightarrow> resolved_llm_target \<Rightarrow> unit res" where
  "validate_structured_output rq t =
     (if (request_format rq t = PStr FORMAT_JSON_OBJECT \<or> request_format rq t = PStr FORMAT_JSON_SCHEMA)
         \<and> \<not> mc_supports_structured_output (rt_model_config t)
      then Inl (Exc ''LlmCapabilityError''
             (''model alias '' @ mc_alias (rt_model_config t) @ '' does not support structured output''))
      else Inr ())"

definition complete_responses :: "'w openai_sdk \<Rightarrow> llm_request \<Rightarrow> resolved_llm_target \<Rightarrow> ('w, llm_response) lcx" where
  "complete_responses sdk rq t =
     sx_bind (sx_lift (validate_structured_output rq t)) (\<lambda>_.
     sx_bind (get_client sdk) (\<lambda>h.
     sx_bind (on_sdk (sdk_responses_create sdk h (build_responses_kwargs rq t))) (\<lambda>raw.
     sx_lift (normalize_responses raw rq t))))"

definition complete_chat_completions ::
  "'w openai_sdk \<Rightarrow> llm_request \<Rightarrow> resolved_llm_target \<Rightarrow> ('w, llm_response) lcx" where
  "complete_chat_completions sdk rq t =
     sx_bind (sx_lift (validate_structured_output rq t)) (\<lambda>_.
     sx_bind (get_client sdk) (\<lambda>h.
     sx_bind (on_sdk (sdk_chat_create sdk h (build_chat_kwargs rq t))) (\<lambda>raw.
     sx_lift (normalize_chat raw rq t))))"

text \<open>\<open>LlmCapabilityError\<close>, and \<open>LlmConfigError\<close> with its subclasses.\<close>

definition own_llm_errors :: "string list" where
  "own_llm_errors =
     [''LlmCapabilityError'', ''LlmConfigError'', ''LlmProviderNotFoundError'', ''LlmModelNotFoundError'']"

text \<open>\<open>int(q)\<close> of a float: towards zero.\<close>

definition trunc :: "rat \<Rightarrow> int" where
  "trunc q = (if q < 0 then - \<lfloor>- q\<rfloor> else \<lfloor>q\<rfloor>)"

definition llm_complete :: "'w openai_sdk \<Rightarrow> llm_request \<Rightarrow> ('w, llm_response) lcx" where
  "llm_complete sdk rq =
     sx_bind (monotonic sdk) (\<lambda>start.
     sx_bind sx_get (\<lambda>c.
     sx_bind (sx_lift (resolve_request (lc_provider_config c) (lc_model_registry c) rq)) (\<lambda>t.
     let protocol = (if given (lq_api_protocol rq) then the (lq_api_protocol rq) else rt_api_protocol t) in
     sx_bind (sx_try
       (if protocol = PROTO_RESPONSES then complete_responses sdk rq t
        else if protocol = PROTO_CHAT then complete_chat_completions sdk rq t
        else sx_raise (Exc ''LlmConfigError'' (''unsupported api_protocol: '' @ protocol)))
       (\<lambda>e. exc_class e \<notin> set own_llm_errors)
       (\<lambda>e. sx_raise (Exc ''LlmProviderError'' (exc_text e)))) (\<lambda>response.
     sx_bind (monotonic sdk) (\<lambda>now.
     sx_return (response\<lparr>ls_latency_ms := Some (trunc ((now - start) * 1000))\<rparr>))))))"

section \<open>Lemmas\<close>

lemma resolve_target_errors:
  "resolve_target reg alias = Inl e \<Longrightarrow> exc_class e \<in> set own_llm_errors"
  by (auto simp: resolve_target_def res_bind_Inl_iff get_model_def get_provider_def own_llm_errors_def
      split: option.splits)

lemma resolve_request_errors:
  "resolve_request p reg rq = Inl e \<Longrightarrow> exc_class e \<in> set own_llm_errors"
  by (auto simp: resolve_request_def own_llm_errors_def resolve_target_errors
      split: option.splits list.splits dest!: resolve_target_errors)

lemma monotonic_Inr: "\<exists>t c'. monotonic sdk c = (Inr t, c')"
  by (auto simp: monotonic_def on_sdk_def sx_zoom_def split: prod.splits)

lemma sx_try_translate:
  "sx_try m (\<lambda>e. \<not> P e) (\<lambda>e. sx_raise (g e)) s = (Inl e, s') \<Longrightarrow> P e \<or> (\<exists>e'. e = g e')"
  by (auto simp: sx_try_def sx_simps split: prod.splits sum.splits if_splits)

lemma complete_errors:
  assumes "llm_complete sdk rq c = (Inl e, c')"
  shows "exc_class e \<in> set own_llm_errors \<or> exc_class e = ''LlmProviderError''"
proof -
  obtain t1 c1 where m1: "monotonic sdk c = (Inr t1, c1)" using monotonic_Inr by blast
  show ?thesis
  proof (cases "resolve_request (lc_provider_config c1) (lc_model_registry c1) rq")
    case (Inl e')
    with assms m1 show ?thesis
      by (auto simp: llm_complete_def run_clean sx_bind_def dest!: resolve_request_errors)
  next
    case (Inr t)
    let ?p = "if given (lq_api_protocol rq) then the (lq_api_protocol rq) else rt_api_protocol t"
    let ?m = "if ?p = PROTO_RESPONSES then complete_responses sdk rq t
        else if ?p = PROTO_CHAT then complete_chat_completions sdk rq t
        else sx_raise (Exc ''LlmConfigError'' (''unsupported api_protocol: '' @ ?p))"
    let ?t = "sx_try ?m (\<lambda>e. \<not> (exc_class e \<in> set own_llm_errors)) (\<lambda>e. sx_raise (Exc ''LlmProviderError'' (exc_text e)))"
    have run: "sx_bind ?t (\<lambda>response. sx_bind (monotonic sdk) (\<lambda>now.
        sx_return (response\<lparr>ls_latency_ms := Some (trunc ((now - t1) * 1000))\<rparr>))) c1 = (Inl e, c')"
      using assms m1 Inr by (simp add: llm_complete_def run_clean sx_bind_Inr [where m = "monotonic sdk" and s = c, OF m1] Let_def)
    show ?thesis
    proof (cases "?t c1")
      case (Pair r c2)
      show ?thesis
      proof (cases r)
        case (Inl e2)
        with run Pair have "e2 = e" by (simp add: sx_bind_def)
        with Pair Inl sx_try_translate [of ?m "\<lambda>e. exc_class e \<in> set own_llm_errors"
            "\<lambda>e. Exc ''LlmProviderError'' (exc_text e)" c1 e c2]
        show ?thesis by auto
      next
        case (Inr resp)
        obtain t2 c3 where "monotonic sdk c2 = (Inr t2, c3)" using monotonic_Inr by blast
        with run Pair Inr show ?thesis by (simp add: sx_bind_Inr sx_simps)
      qed
    qed
  qed
qed

lemma client_independent:
  assumes "lc_client c = Some h"
  shows "get_client sdk c = (Inr h, c)"
  using assms by (simp add: get_client_def run_clean)

lemma on_sdk_client: "lc_client (snd (on_sdk m c)) = lc_client c"
  by (simp add: on_sdk_def sx_zoom_def split: prod.splits)

lemma monotonic_client: "monotonic sdk c = (Inr t, c') \<Longrightarrow> lc_client c' = lc_client c"
  by (auto simp: monotonic_def on_sdk_def sx_zoom_def split: prod.splits)

lemma complete_calls_reuse:
  assumes "lc_client c = Some h"
  shows "complete_responses (sdk\<lparr>sdk_new_client := f\<rparr>) rq t c = complete_responses sdk rq t c"
    and "complete_chat_completions (sdk\<lparr>sdk_new_client := f\<rparr>) rq t c = complete_chat_completions sdk rq t c"
  by (cases "validate_structured_output rq t";
      simp add: complete_responses_def complete_chat_completions_def sx_bind_def sx_lift_def
        client_independent [OF assms])+

lemma put_if_dget: "dget (put_if b k v d) k' = (if b \<and> k = k' then Some v else dget d k')"
  by (simp add: put_if_def)

lemma drop_none_values: "v \<in> set (dvalues (drop_none d)) \<Longrightarrow> v \<noteq> PNone"
  by (auto simp: drop_none_def dvalues_def)

lemma drop_none_dget: "dict_ok d \<Longrightarrow> dget (drop_none d) k = (case dget d k of Some v \<Rightarrow> if v = PNone then None else Some v | None \<Rightarrow> None)"
proof (induction d)
  case (Cons p d)
  then obtain k' v where "p = (k', v)" by (cases p)
  with Cons show ?case
    by (auto simp: drop_none_def dict_ok_def dget_def map_of_eq_None_iff split: option.splits)
qed (simp add: drop_none_def)

lemma dict_ok_put_if: "dict_ok d \<Longrightarrow> dict_ok (put_if b k v d)"
  by (simp add: put_if_def)

lemma dict_ok_dupdate: "dict_ok d \<Longrightarrow> dict_ok (dupdate d e)"
  unfolding dupdate_def by (induction e arbitrary: d) auto

lemma dupdate_dget: "dict_ok e \<Longrightarrow> dget (dupdate d e) k = (case dget e k of Some v \<Rightarrow> Some v | None \<Rightarrow> dget d k)"
proof (induction e arbitrary: d)
  case (Cons p e)
  obtain k' v where p: "p = (k', v)" by (cases p)
  have "dict_ok e" "k' \<notin> set (map fst e)" using Cons.prems p by (auto simp: dict_ok_def)
  then have "dget e k' = None" by (simp add: dget_def map_of_eq_None_iff)
  with Cons.IH [OF \<open>dict_ok e\<close>, of "dput k' v d"] p show ?case
    by (auto simp: dupdate_def split: option.splits)
qed (simp add: dupdate_def)

lemma extra_body_result:
  assumes "dict_ok d" "dict_ok extra"
  shows "dget (drop_none (dupdate d extra)) k
     = (case (case dget extra k of Some v \<Rightarrow> Some v | None \<Rightarrow> dget d k) of
          Some v \<Rightarrow> if v = PNone then None else Some v | None \<Rightarrow> None)"
  by (simp add: drop_none_dget dict_ok_dupdate assms dupdate_dget)

lemma complete_run:
  assumes "monotonic sdk c = (Inr t1, c1)" "resolve_request (lc_provider_config c1) (lc_model_registry c1) rq = Inr t"
  shows "llm_complete sdk rq c =
    (let protocol = (if given (lq_api_protocol rq) then the (lq_api_protocol rq) else rt_api_protocol t) in
     sx_bind (sx_try
       (if protocol = PROTO_RESPONSES then complete_responses sdk rq t
        else if protocol = PROTO_CHAT then complete_chat_completions sdk rq t
        else sx_raise (Exc ''LlmConfigError'' (''unsupported api_protocol: '' @ protocol)))
       (\<lambda>e. exc_class e \<notin> set own_llm_errors)
       (\<lambda>e. sx_raise (Exc ''LlmProviderError'' (exc_text e)))) (\<lambda>response.
     sx_bind (monotonic sdk) (\<lambda>now.
     sx_return (response\<lparr>ls_latency_ms := Some (trunc ((now - t1) * 1000))\<rparr>)))) c1"
  using assms(2)
  by (simp add: llm_complete_def run_clean sx_bind_Inr [where m = "monotonic sdk" and s = c, OF assms(1)])

lemma sx_keeps_try: "sx_keeps I m \<Longrightarrow> (\<And>e. sx_keeps I (h e)) \<Longrightarrow> sx_keeps I (sx_try m p h)"
  by (fastforce simp: sx_keeps_def sx_try_def split: prod.splits sum.splits)

lemma keeps_on_sdk: "sx_keeps (\<lambda>c. lc_client c = Some h) (on_sdk m)"
  by (simp add: sx_keeps_def on_sdk_client)

lemma keeps_get_client: "sx_keeps (\<lambda>c. lc_client c = Some h) (get_client sdk)"
  by (simp add: sx_keeps_def client_independent)

lemma complete_keeps_client: "sx_keeps (\<lambda>c. lc_client c = Some h) (llm_complete sdk rq)"
  unfolding llm_complete_def complete_responses_def complete_chat_completions_def monotonic_def Let_def
  by (intro sx_keeps_bind sx_keeps_try sx_keeps_basic keeps_on_sdk keeps_get_client) (auto intro!: sx_keeps_bind keeps_on_sdk keeps_get_client)

section \<open>Properties\<close>

text \<open>
  C16: whatever the SDK, the environment or the reply do, \<open>complete\<close> raises only the package's own
  capability and configuration errors or an \<open>LlmProviderError\<close>.
\<close>

theorem llm_complete_errors:
  assumes "llm_complete sdk rq c = (Inl e, c')"
  shows "exc_class e \<in> set own_llm_errors \<or> exc_class e = ''LlmProviderError''"
  using assms by (rule complete_errors)

text \<open>
  A request for JSON output to a model that does not support structured output is refused with
  \<open>LlmCapabilityError\<close> before anything is sent: no SDK client is built, no call is made, and the
  only effect is the first reading of the clock.
\<close>

theorem structured_output_guarded:
  assumes "monotonic sdk c = (Inr t1, c1)"
    and "resolve_request (lc_provider_config c1) (lc_model_registry c1) rq = Inr t"
    and "request_format rq t = PStr FORMAT_JSON_OBJECT \<or> request_format rq t = PStr FORMAT_JSON_SCHEMA"
    and "\<not> mc_supports_structured_output (rt_model_config t)"
    and "(if given (lq_api_protocol rq) then the (lq_api_protocol rq) else rt_api_protocol t) \<in> {PROTO_RESPONSES, PROTO_CHAT}"
  shows "llm_complete sdk rq c =
    (Inl (Exc ''LlmCapabilityError''
       (''model alias '' @ mc_alias (rt_model_config t) @ '' does not support structured output'')), c1)"
proof -
  define e where "e = Exc ''LlmCapabilityError''
       (''model alias '' @ mc_alias (rt_model_config t) @ '' does not support structured output'')"
  define p where "p = (if given (lq_api_protocol rq) then the (lq_api_protocol rq) else rt_api_protocol t)"
  let ?m = "if p = PROTO_RESPONSES then complete_responses sdk rq t
        else if p = PROTO_CHAT then complete_chat_completions sdk rq t
        else sx_raise (Exc ''LlmConfigError'' (''unsupported api_protocol: '' @ p))"
  have "validate_structured_output rq t = Inl e"
    using assms(3,4) by (simp add: validate_structured_output_def e_def)
  then have r: "complete_responses sdk rq t c1 = (Inl e, c1)" "complete_chat_completions sdk rq t c1 = (Inl e, c1)"
    by (simp_all add: complete_responses_def complete_chat_completions_def sx_bind_def sx_lift_def)
  have own: "exc_class e \<in> set own_llm_errors" by (simp add: own_llm_errors_def e_def)
  have "p = PROTO_RESPONSES \<or> p = PROTO_CHAT" using assms(5) unfolding p_def by simp
  with r have "?m c1 = (Inl e, c1)" by (elim disjE) simp_all
  then have "sx_try ?m (\<lambda>e. exc_class e \<notin> set own_llm_errors)
      (\<lambda>e. sx_raise (Exc ''LlmProviderError'' (exc_text e))) c1 = (Inl e, c1)"
    using own by (simp add: sx_try_def)
  then show ?thesis
    unfolding complete_run [OF assms(1,2)] Let_def p_def [symmetric] e_def [symmetric] by (rule sx_bind_Inl)
qed

text \<open>
  The arguments of a chat call: no argument is \<open>None\<close>, an entry of \<open>extra_body\<close> replaces the
  argument of its name (and removes it when it is \<open>None\<close>), and without one the model, the
  messages and the sampling parameters are those of the request, or else the defaults of the model.
\<close>

theorem chat_kwargs_correct:
  assumes "dict_ok (lq_extra_body rq)"
  shows "PNone \<notin> set (dvalues (build_chat_kwargs rq t))
    \<and> (\<forall>k v. dget (lq_extra_body rq) k = Some v \<longrightarrow>
           dget (build_chat_kwargs rq t) k = (if v = PNone then None else Some v))
    \<and> (dget (lq_extra_body rq) ''model'' = None \<longrightarrow>
           dget (build_chat_kwargs rq t) ''model'' = Some (PStr (rt_model t)))
    \<and> (dget (lq_extra_body rq) ''temperature'' = None \<longrightarrow> rt_request_defaults t = config_defaults cfg \<longrightarrow>
           dget (build_chat_kwargs rq t) ''temperature''
             = Some (PFloat (case lq_temperature rq of Some q \<Rightarrow> q | None \<Rightarrow> mc_temperature cfg)))"
proof -
  define d where "d = (let system = (if given (lq_instructions rq)
                    then [PDict [(''role'', PStr ''system''), (''content'', opt_str (lq_instructions rq))]] else []);
          format = chat_response_format rq t;
          k0 = [(''model'', PStr (rt_model t)),
                (''messages'', PList (system @ map message_to_chat (lq_messages rq))),
                (''temperature'', case lq_temperature rq of Some q \<Rightarrow> PFloat q
                   | None \<Rightarrow> pget (rt_request_defaults t) ''temperature''),
                (''top_p'', case lq_top_p rq of Some q \<Rightarrow> PFloat q
                   | None \<Rightarrow> pget (rt_request_defaults t) ''top_p''),
                (''max_tokens'', max_tokens_value rq t), (''stream'', PBool False)];
          k1 = put_if (py_truthy format) ''response_format'' format k0;
          k2 = put_if (lq_tools rq \<noteq> []) ''tools'' (tools_value rq) k1
      in put_if (lq_tool_choice rq \<noteq> PNone) ''tool_choice'' (lq_tool_choice rq) k2)"
  have kw: "build_chat_kwargs rq t = drop_none (dupdate d (lq_extra_body rq))"
    by (simp add: build_chat_kwargs_def d_def Let_def)
  have ok: "dict_ok d" unfolding d_def Let_def by (intro dict_ok_put_if) (simp add: dict_ok_def)
  note res = extra_body_result [OF ok assms]
  have fields: "dget d ''model'' = Some (PStr (rt_model t))"
    "dget d ''temperature'' = Some (case lq_temperature rq of Some q \<Rightarrow> PFloat q
                   | None \<Rightarrow> pget (rt_request_defaults t) ''temperature'')"
    by (simp_all add: d_def Let_def put_if_dget)
  have "PNone \<notin> set (dvalues (build_chat_kwargs rq t))" unfolding kw using drop_none_values by blast
  moreover have "dget (build_chat_kwargs rq t) k = (if v = PNone then None else Some v)"
    if "dget (lq_extra_body rq) k = Some v" for k v
    unfolding kw res using that by simp
  moreover have "dget (lq_extra_body rq) ''model'' = None \<Longrightarrow>
      dget (build_chat_kwargs rq t) ''model'' = Some (PStr (rt_model t))"
    unfolding kw res by (simp add: fields)
  moreover have "dget (lq_extra_body rq) ''temperature'' = None \<Longrightarrow> rt_request_defaults t = config_defaults cfg \<Longrightarrow>
      dget (build_chat_kwargs rq t) ''temperature''
        = Some (PFloat (case lq_temperature rq of Some q \<Rightarrow> q | None \<Rightarrow> mc_temperature cfg))"
    unfolding kw res by (simp add: fields config_defaults_def drop_none_def split: option.split)
  ultimately show ?thesis by blast
qed

text \<open>
  The Responses protocol has no sampling parameters: the temperature and \<open>top_p\<close> of a request
  do not change the arguments of the call; and no protocol looks at the timeout or the stream flag
  of a request, whose result and effects are the same for every value of them.
\<close>

theorem ignored_request_fields:
  "build_responses_kwargs (rq\<lparr>lq_temperature := q, lq_top_p := p\<rparr>) t = build_responses_kwargs rq t
   \<and> llm_complete sdk (rq\<lparr>lq_timeout_sec := s, lq_stream := b\<rparr>) = llm_complete sdk rq"
proof -
  have f: "request_format (rq\<lparr>lq_timeout_sec := s, lq_stream := b\<rparr>) t = request_format rq t"
    "request_schema (rq\<lparr>lq_timeout_sec := s, lq_stream := b\<rparr>) t = request_schema rq t"
    "request_strict (rq\<lparr>lq_timeout_sec := s, lq_stream := b\<rparr>) t = request_strict rq t"
    "tools_value (rq\<lparr>lq_timeout_sec := s, lq_stream := b\<rparr>) = tools_value rq"
    "max_tokens_value (rq\<lparr>lq_timeout_sec := s, lq_stream := b\<rparr>) t = max_tokens_value rq t"
    "base_response (rq\<lparr>lq_timeout_sec := s, lq_stream := b\<rparr>) t = base_response rq t" for t
    by (simp_all add: request_format_def request_schema_def request_strict_def tools_value_def
        max_tokens_value_def base_response_def fun_eq_iff)
  have k: "build_responses_kwargs (rq\<lparr>lq_timeout_sec := s, lq_stream := b\<rparr>) t = build_responses_kwargs rq t"
    "build_chat_kwargs (rq\<lparr>lq_timeout_sec := s, lq_stream := b\<rparr>) t = build_chat_kwargs rq t"
    "normalize_responses raw (rq\<lparr>lq_timeout_sec := s, lq_stream := b\<rparr>) t = normalize_responses raw rq t"
    "normalize_chat raw (rq\<lparr>lq_timeout_sec := s, lq_stream := b\<rparr>) t = normalize_chat raw rq t" for t raw
    by (simp_all add: build_responses_kwargs_def build_chat_kwargs_def normalize_responses_def
        normalize_chat_def responses_text_format_def chat_response_format_def f)
  have "resolve_request provider reg (rq\<lparr>lq_timeout_sec := s, lq_stream := b\<rparr>) = resolve_request provider reg rq"
    for provider reg
    by (simp add: resolve_request_def cong: option.case_cong list.case_cong)
  moreover have "complete_responses sdk (rq\<lparr>lq_timeout_sec := s, lq_stream := b\<rparr>) t = complete_responses sdk rq t"
    "complete_chat_completions sdk (rq\<lparr>lq_timeout_sec := s, lq_stream := b\<rparr>) t = complete_chat_completions sdk rq t" for t
    by (simp_all add: complete_responses_def complete_chat_completions_def validate_structured_output_def f k)
  ultimately have "llm_complete sdk (rq\<lparr>lq_timeout_sec := s, lq_stream := b\<rparr>) = llm_complete sdk rq"
    by (simp add: llm_complete_def cong: if_cong)
  moreover have "build_responses_kwargs (rq\<lparr>lq_temperature := q, lq_top_p := p\<rparr>) t = build_responses_kwargs rq t"
    by (simp add: build_responses_kwargs_def responses_text_format_def request_format_def request_schema_def
        request_strict_def tools_value_def max_tokens_value_def)
  ultimately show ?thesis by blast
qed

text \<open>
  The SDK client is built at most once: a client object that has one behaves the same whatever
  the SDK's constructor would do, and keeps it.
\<close>

theorem client_built_once:
  assumes "lc_client c = Some h"
  shows "llm_complete (sdk\<lparr>sdk_new_client := f\<rparr>) rq c = llm_complete sdk rq c
    \<and> lc_client (snd (llm_complete sdk rq c)) = Some h"
proof -
  have mono: "monotonic (sdk\<lparr>sdk_new_client := f\<rparr>) = monotonic sdk" by (simp add: monotonic_def)
  obtain t1 c1 where m: "monotonic sdk c = (Inr t1, c1)" using monotonic_Inr by blast
  have h: "lc_client c1 = Some h" using monotonic_client [OF m] assms by simp
  note same = complete_calls_reuse [OF h]
  have "llm_complete (sdk\<lparr>sdk_new_client := f\<rparr>) rq c = llm_complete sdk rq c"
    by (cases "resolve_request (lc_provider_config c1) (lc_model_registry c1) rq")
      (simp_all add: llm_complete_def mono sx_bind_def m sx_get_def sx_lift_def sx_try_def Let_def same)
  with complete_keeps_client [of h sdk rq] assms show ?thesis by (simp add: sx_keeps_def)
qed

section \<open>Concrete inputs\<close>

definition sample_sdk :: "unit openai_sdk" where
  "sample_sdk =
     \<lparr>sdk_environ = (\<lambda>_. None), sdk_monotonic = (\<lambda>w. (0, w)), sdk_new_client = (\<lambda>_. sx_return ''client''),
      sdk_responses_create = (\<lambda>_ _. sx_raise (Exc ''APITimeoutError'' ''timed out'')),
      sdk_chat_create = (\<lambda>_ _. sx_return (PObj ''ChatCompletion'' []))\<rparr>"

definition sample_provider :: llm_provider_config where
  "sample_provider =
     \<lparr>pc_provider_name = ''p'', pc_provider_type = ''openai'', pc_base_url = None, pc_api_key_env = None,
      pc_timeout_sec = 60, pc_max_retries = 2, pc_extra_headers = [], pc_extra_client_kwargs = [],
      pc_enabled = True, pc_provider_metadata = []\<rparr>"

definition sample_llm_client :: "unit llm_client" where
  "sample_llm_client =
     \<lparr>lc_provider_config = sample_provider,
      lc_model_registry = Some \<lparr>mr_providers = [(''p'', sample_provider)],
        mr_models = [(''plain'', (ad_hoc_model_config ''m'' ''p'')\<lparr>mc_supports_structured_output := False\<rparr>)], mr_routes = []\<rparr>,
      lc_client = Some ''client'', lc_world = ()\<rparr>"

definition sample_llm_request :: llm_request where
  "sample_llm_request = llm_request_defaults\<lparr>lq_model_alias := Some ''plain'', lq_response_format := Some FORMAT_JSON_OBJECT\<rparr>"

definition plain_llm_request :: llm_request where
  "plain_llm_request = llm_request_defaults\<lparr>lq_model := Some ''m''\<rparr>"

lemmas sample_llm_defs =
  sample_sdk_def sample_provider_def sample_llm_client_def sample_llm_request_def llm_request_defaults_def

lemma sample_clock: "monotonic sample_sdk sample_llm_client = (Inr 0, sample_llm_client)"
  by (simp add: monotonic_def on_sdk_def sx_zoom_def sample_sdk_def)

lemma sample_call_raises:
  "\<exists>e c'. llm_complete sample_sdk plain_llm_request sample_llm_client = (Inl e, c')"
proof -
  have r: "resolve_request (lc_provider_config sample_llm_client) (lc_model_registry sample_llm_client)
      plain_llm_request
    = Inr \<lparr>rt_provider_config = sample_provider, rt_model_config = ad_hoc_model_config ''m'' ''p'',
           rt_model = ''m'', rt_api_protocol = PROTO_RESPONSES, rt_request_defaults = []\<rparr>" (is "_ = Inr ?t")
    by (simp add: resolve_request_def sample_llm_defs plain_llm_request_def)
  have "complete_responses sample_sdk plain_llm_request ?t sample_llm_client
      = (Inl (Exc ''APITimeoutError'' ''timed out''), sample_llm_client)"
    by (simp add: complete_responses_def validate_structured_output_def request_format_def py_or_def sx_bind_def
        sx_simps get_client_def on_sdk_def sx_zoom_def sample_llm_defs plain_llm_request_def)
  moreover have "lq_api_protocol plain_llm_request = None"
    by (simp add: plain_llm_request_def llm_request_defaults_def)
  ultimately show ?thesis
    by (simp add: complete_run [OF sample_clock r] sx_try_def sx_bind_def sx_simps own_llm_errors_def)
qed

theorem llm_complete_errors_witness:
  "\<exists>e. fst (llm_complete sample_sdk plain_llm_request sample_llm_client) = Inl e
     \<and> (exc_class e \<in> set own_llm_errors \<or> exc_class e = ''LlmProviderError'')"
proof -
  obtain e c' where run: "llm_complete sample_sdk plain_llm_request sample_llm_client = (Inl e, c')"
    using sample_call_raises by blast
  from llm_complete_errors [OF run] run show ?thesis by auto
qed

theorem structured_output_guarded_witness:
  "fst (llm_complete sample_sdk sample_llm_request sample_llm_client)
     = Inl (Exc ''LlmCapabilityError'' ''model alias m does not support structured output'')"
proof -
  define t where "t =
     \<lparr>rt_provider_config = sample_provider,
      rt_model_config = (ad_hoc_model_config ''m'' ''p'')\<lparr>mc_supports_structured_output := False\<rparr>,
      rt_model = ''m'', rt_api_protocol = PROTO_RESPONSES, rt_request_defaults = [(''temperature'', PFloat 0)]\<rparr>"
  have "resolve_request (lc_provider_config sample_llm_client) (lc_model_registry sample_llm_client) sample_llm_request = Inr t"
    by (simp add: t_def resolve_request_def resolve_target_def get_model_def get_provider_def ad_hoc_model_config_def
        config_defaults_def drop_none_def sample_llm_defs)
  moreover have "request_format sample_llm_request t = PStr FORMAT_JSON_OBJECT"
    by (simp add: request_format_def py_or_def sample_llm_defs)
  moreover have "mc_alias (rt_model_config t) = ''m''" "\<not> mc_supports_structured_output (rt_model_config t)"
    "rt_api_protocol t = PROTO_RESPONSES" "\<not> given (lq_api_protocol sample_llm_request)"
    by (simp_all add: t_def ad_hoc_model_config_def sample_llm_defs)
  ultimately show ?thesis
    using structured_output_guarded [OF sample_clock, of sample_llm_request t] by simp
qed

theorem chat_kwargs_correct_witness:
  "dget (build_chat_kwargs (sample_llm_request\<lparr>lq_extra_body := [(''seed'', PInt 7)]\<rparr>)
      \<lparr>rt_provider_config = sample_provider, rt_model_config = ad_hoc_model_config ''m'' ''p'', rt_model = ''m'',
       rt_api_protocol = PROTO_CHAT, rt_request_defaults = []\<rparr>) ''seed'' = Some (PInt 7)"
  using chat_kwargs_correct [of "sample_llm_request\<lparr>lq_extra_body := [(''seed'', PInt 7)]\<rparr>"]
  by (simp add: dict_ok_def)

theorem client_built_once_witness:
  "lc_client (snd (llm_complete sample_sdk sample_llm_request sample_llm_client)) = Some ''client''"
  using client_built_once [of sample_llm_client "''client''"] by (simp add: sample_llm_client_def)

end
