(* ===== verification/LlmPlanner.thy ===== *)
theory LlmPlanner
  imports LlmClient
begin

text \<open>
  The LLM planner: \<open>plan/planners/llm_planner.py\<close> with the planning context of
  \<open>plan/plan_context.py\<close>. The client is an operation on a state \<open>'s\<close>; the conversions between
  text and values that the interpreter provides are the fields of \<open>text_library\<close>.
\<close>

section \<open>Text conversions\<close>

text \<open>
  \<open>json.loads\<close>; \<open>json.dumps(v, default=str, ensure_ascii=a, sort_keys=b)\<close>; \<open>str\<close> and
  \<open>repr\<close> of a value; \<open>float\<close> and \<open>int\<close> of a string.
\<close>

record text_library =
  lib_loads :: "string \<Rightarrow> pyval res"
  lib_dumps :: "bool \<Rightarrow> bool \<Rightarrow> pyval \<Rightarrow> string"
  lib_str :: "pyval \<Rightarrow> string"
  lib_repr :: "pyval \<Rightarrow> string"
  lib_float :: "string \<Rightarrow> rat res"
  lib_int :: "string \<Rightarrow> int res"

definition py_str :: "text_library \<Rightarrow> pyval \<Rightarrow> string" where
  "py_str lib v = (case v of PStr s \<Rightarrow> s | _ \<Rightarrow> lib_str lib v)"

section \<open>Planning context\<close>

record planning_skill =
  sk_skill_id :: string
  sk_name :: string
  sk_content :: string
  sk_version :: "string option"
  sk_tags :: "string list"

record llm_planning_context =
  lx_user_instruction_raw :: string
  lx_system_prompt :: "string option"
  lx_output_schema_prompt :: "string option"
  lx_skills :: "planning_skill list"
  lx_retrieved_plan_memories :: "retrieved_plan_memory list"
  lx_system_constraints_text :: "string option"
  lx_extra_prompt_vars :: "pyval dict"

record planner_input =
  pn_base_context :: plan_context_base
  pn_llm_context :: "llm_planning_context option"
  pn_planner_options :: "pyval dict"

definition asdict_context :: "plan_context_base \<Rightarrow> pyval" where
  "asdict_context c = PDict
     [(''task_id'', PStr (pc_task_id c)), (''task_type'', PStr (pc_task_type c)), (''goal'', PStr (pc_goal c)),
      (''package_report'', asdict_value (pc_package_report c)), (''env_report'', asdict_value (pc_env_report c)),
      (''text_parse_result'', asdict_value (pc_text_parse_result c)),
      (''runtime_target'', opt_str (pc_runtime_target c)),
      (''constraints'', PDict (asdict_dict (pc_constraints c))),
      (''available_capabilities'', py_strs (pc_available_capabilities c)),
      (''prior_artifacts'', PDict (map (\<lambda>(k, s). (k, PStr s)) (pc_prior_artifacts c))),
      (''metadata'', PDict (asdict_dict (pc_metadata c)))]"

section \<open>Prompt\<close>

definition default_system_prompt :: string where
  "default_system_prompt = ''You are SdkTestAgent planner. Output JSON only.''"

definition default_schema_prompt :: string where
  "default_schema_prompt = ''Return plan_summary, steps, assumptions, missing_information, risk_notes.''"

definition given_or :: "string option \<Rightarrow> string \<Rightarrow> string" where
  "given_or x d = (if given x then the x else d)"

definition context_parts :: "text_library \<Rightarrow> llm_planning_context \<Rightarrow> string list" where
  "context_parts lib llm =
     [''User instruction: '' @ lx_user_instruction_raw llm]
     @ (if given (lx_system_constraints_text llm)
        then [''Constraints: '' @ the (lx_system_constraints_text llm)] else [])
     @ map (\<lambda>s. ''Skill '' @ sk_name s @ '':'' @ [newline] @ sk_content s) (lx_skills llm)
     @ (let c = pget (lx_extra_prompt_vars llm) ''capability_context'' in
        if py_truthy c then [''Capability context:'' @ [newline] @ py_str lib c] else [])
     @ map (\<lambda>(k, v). ''Extra prompt var '' @ k @ '': '' @ lib_dumps lib True True v)
         (filter (\<lambda>(k, v). k \<noteq> ''capability_context'') (sort_key fst (lx_extra_prompt_vars llm)))
     @ map (\<lambda>m. ''Retrieved plan memory '' @ mem_memory_id m @ '': '' @ lib_dumps lib True False (PDict (mem_plan_json m)))
         (lx_retrieved_plan_memories llm)"

definition build_planner_prompt :: "text_library \<Rightarrow> planner_input \<Rightarrow> string" where
  "build_planner_prompt lib input =
     py_join [newline, newline]
       ([given_or (Option.bind (pn_llm_context input) lx_system_prompt) default_system_prompt,
         given_or (Option.bind (pn_llm_context input) lx_output_schema_prompt) default_schema_prompt,
         ''Base context:'', lib_dumps lib True True (asdict_context (pn_base_context input))]
        @ (case pn_llm_context input of None \<Rightarrow> [] | Some llm \<Rightarrow> context_parts lib llm))"

section \<open>Planner\<close>

record llm_planner =
  py_model :: string
  py_model_alias :: "string option"

text \<open>
  \<open>ExecutionPlanDraft(...)\<close> from the reply. The fields are not checked, as in the source; \<open>None\<close>
  stands for a draft whose fields do not have their annotated classes, which \<open>execution_plan_draft\<close>
  does not represent.
\<close>

definition llm_draft :: "plan_context_base \<Rightarrow> pyval dict \<Rightarrow> plan_step list \<Rightarrow> pyval \<Rightarrow> execution_plan_draft option" where
  "llm_draft ctx raw steps content =
     (case (get_str_default [] (dget raw ''plan_summary''), get_strs (dget raw ''assumptions''),
            get_strs (dget raw ''missing_information''), get_strs (dget raw ''risk_notes''),
            get_dict (dget raw ''metadata''), content) of
        (Some summary, Some assumptions, Some missing, Some risks, Some meta, PStr text) \<Rightarrow> Some
          \<lparr>ed_task_id = pc_task_id ctx, ed_task_type = pc_task_type ctx, ed_goal = pc_goal ctx,
           ed_planner_name = ''llm_planner'', ed_planner_version = ''0.1.0'', ed_plan_summary = summary,
           ed_steps = steps, ed_assumptions = assumptions, ed_missing_information = missing,
           ed_risk_notes = risks, ed_raw_llm_output = Some text, ed_metadata = meta\<rparr>
      | _ \<Rightarrow> None)"

definition parse_plan_response ::
  "text_library \<Rightarrow> llm_response \<Rightarrow> planner_input \<Rightarrow> execution_plan_draft option res" where
  "parse_plan_response lib response input =
     (case res_bind (parse_json_object (lib_loads lib) response)
             (\<lambda>raw. res_bind (steps_of_json raw) (\<lambda>steps. Inr (raw, steps))) of
        Inl e \<Rightarrow> Inl (Exc ''PlanLlmOutputError'' (''failed to parse LLM plan JSON: '' @ exc_text e))
      | Inr (raw, None) \<Rightarrow> Inr None
      | Inr (raw, Some steps) \<Rightarrow> Inr (llm_draft (pn_base_context input) raw steps (ls_content response)))"

definition planner_request :: "text_library \<Rightarrow> llm_planner \<Rightarrow> planner_input \<Rightarrow> llm_request" where
  "planner_request lib planner input =
     llm_request_defaults
       \<lparr>lq_model_alias := py_model_alias planner,
        lq_model := (if given (py_model_alias planner) then None else Some (py_model planner)),
        lq_messages := [user_message (build_planner_prompt lib input)],
        lq_temperature := Some 0, lq_response_format := Some FORMAT_JSON_OBJECT,
        lq_metadata := [(''planner'', PStr ''llm_planner'')]\<rparr>"

definition llm_plan ::
  "text_library \<Rightarrow> (llm_request \<Rightarrow> ('s, llm_response) sx) option \<Rightarrow> llm_planner \<Rightarrow> planner_input \<Rightarrow>
     ('s, execution_plan_draft option) sx" where
  "llm_plan lib client planner input =
     (case client of
        None \<Rightarrow> sx_raise (Exc ''PlanLlmClientNotConfiguredError'' ''LlmPlanner requires an llm_client'')
      | Some call \<Rightarrow>
          sx_bind (call (planner_request lib planner input))
            (\<lambda>response. sx_lift (parse_plan_response lib response input)))"

section \<open>Lemmas\<close>

lemma py_join_sublist: "w \<in> set ws \<Longrightarrow> sublist w (py_join sep ws)"
proof (induction sep ws rule: py_join.induct)
  case (3 sep u v ws)
  show ?case
  proof (cases "w = u")
    case True
    then have "py_join sep (u # v # ws) = [] @ w @ (sep @ py_join sep (v # ws))" by simp
    then show ?thesis unfolding sublist_def by blast
  next
    case False
    with 3 obtain p q where "py_join sep (v # ws) = p @ w @ q" by (auto simp: sublist_def)
    then have "py_join sep (u # v # ws) = (u @ sep @ p) @ w @ q" by simp
    then show ?thesis unfolding sublist_def by blast
  qed
qed simp_all

lemma sublist_prefixed: "sublist (p @ w) s \<Longrightarrow> sublist w s"
  unfolding sublist_def by (metis append.assoc)

lemma prompt_part:
  "pn_llm_context input = Some llm \<Longrightarrow> p \<in> set (context_parts lib llm) \<Longrightarrow>
     sublist p (build_planner_prompt lib input)"
  unfolding build_planner_prompt_def by (rule py_join_sublist) simp

section \<open>Properties\<close>

text \<open>
  The prompt carries what the context gives: the user's instruction, the content of every
  planning skill and the rendered capabilities stand in it verbatim.
\<close>

theorem planner_prompt_carries_context:
  assumes "pn_llm_context input = Some llm"
  shows "sublist (''User instruction: '' @ lx_user_instruction_raw llm) (build_planner_prompt lib input)
    \<and> (\<forall>sk \<in> set (lx_skills llm). sublist (sk_content sk) (build_planner_prompt lib input))
    \<and> (\<forall>c. dget (lx_extra_prompt_vars llm) ''capability_context'' = Some (PStr c) \<longrightarrow>
          sublist c (build_planner_prompt lib input))"
proof (intro conjI ballI allI impI)
  show "sublist (''User instruction: '' @ lx_user_instruction_raw llm) (build_planner_prompt lib input)"
    by (rule prompt_part [OF assms]) (simp add: context_parts_def)
next
  fix sk
  assume "sk \<in> set (lx_skills llm)"
  then have "''Skill '' @ sk_name sk @ '':'' @ [newline] @ sk_content sk \<in> set (context_parts lib llm)"
    by (simp add: context_parts_def)
  from prompt_part [OF assms this] show "sublist (sk_content sk) (build_planner_prompt lib input)"
    using sublist_prefixed [of "''Skill '' @ sk_name sk @ '':'' @ [newline]" "sk_content sk"] by simp
next
  fix c
  assume c: "dget (lx_extra_prompt_vars llm) ''capability_context'' = Some (PStr c)"
  show "sublist c (build_planner_prompt lib input)"
  proof (cases "c = []")
    case False
    with c have "''Capability context:'' @ [newline] @ c \<in> set (context_parts lib llm)"
      by (simp add: context_parts_def pget_def dget_default_dget py_str_def)
    from prompt_part [OF assms this] show ?thesis
      using sublist_prefixed [of "''Capability context:'' @ [newline]" c] by simp
  qed simp
qed

text \<open>
  Once the client has answered, the planner only parses: the state stays as the client left it,
  any failure is a \<open>PlanLlmOutputError\<close>, and a draft belongs to the task of the context, whatever the
  reply claims, and has exactly the steps of the reply.
\<close>

theorem llm_plan_outcome:
  assumes "call (planner_request lib planner input) s = (Inr response, s')"
  shows "snd (llm_plan lib (Some call) planner input s) = s'
    \<and> (case fst (llm_plan lib (Some call) planner input s) of
         Inl e \<Rightarrow> exc_class e = ''PlanLlmOutputError''
       | Inr None \<Rightarrow> True
       | Inr (Some d) \<Rightarrow>
           ed_task_id d = pc_task_id (pn_base_context input) \<and> ed_task_type d = pc_task_type (pn_base_context input)
           \<and> ed_goal d = pc_goal (pn_base_context input) \<and> ed_planner_name d = ''llm_planner''
           \<and> (\<exists>raw. parse_json_object (lib_loads lib) response = Inr raw
                 \<and> steps_of_json raw = Inr (Some (ed_steps d))))"
proof -
  have "llm_plan lib (Some call) planner input s = (parse_plan_response lib response input, s')"
    using assms by (simp add: llm_plan_def sx_bind_def sx_simps)
  then show ?thesis
    by (auto simp: parse_plan_response_def llm_draft_def res_bind_Inr_iff split: sum.splits option.splits pyval.splits)
qed

section \<open>Concrete inputs\<close>

definition sample_library :: text_library where
  "sample_library =
     \<lparr>lib_loads = (\<lambda>s. if s = ''{}'' then Inr (PDict []) else Inl (Exc ''JSONDecodeError'' ''bad'')),
      lib_dumps = (\<lambda>_ _ _. ''{}''), lib_str = (\<lambda>_. ''v''), lib_repr = (\<lambda>_. ''v''),
      lib_float = (\<lambda>_. Inl (Exc ''ValueError'' ''bad'')), lib_int = (\<lambda>_. Inl (Exc ''ValueError'' ''bad''))\<rparr>"

definition sample_planner_input :: planner_input where
  "sample_planner_input =
     \<lparr>pn_base_context = sample_context,
      pn_llm_context = Some
        \<lparr>lx_user_instruction_raw = ''deploy'', lx_system_prompt = None, lx_output_schema_prompt = None,
         lx_skills = [\<lparr>sk_skill_id = ''s'', sk_name = ''java'', sk_content = ''use maven'', sk_version = None, sk_tags = []\<rparr>],
         lx_retrieved_plan_memories = [], lx_system_constraints_text = None,
         lx_extra_prompt_vars = [(''capability_context'', PStr ''caps'')]\<rparr>,
      pn_planner_options = []\<rparr>"

definition sample_reply :: llm_response where
  "sample_reply =
     \<lparr>ls_content = PStr ''{}'', ls_model = None, ls_model_alias = None, ls_provider_name = None,
      ls_provider_type = None, ls_raw = PNone, ls_usage = None, ls_finish_reason = PNone,
      ls_response_id = PNone, ls_request_id = PNone, ls_latency_ms = None, ls_parsed_json = None, ls_metadata = []\<rparr>"

theorem planner_prompt_carries_context_witness:
  "sublist ''caps'' (build_planner_prompt sample_library sample_planner_input)"
  using planner_prompt_carries_context [of sample_planner_input] by (simp add: sample_planner_input_def)

theorem llm_plan_outcome_witness:
  "\<exists>d. fst (llm_plan sample_library (Some (\<lambda>_. sx_return sample_reply))
        \<lparr>py_model = ''m'', py_model_alias = None\<rparr> sample_planner_input ()) = Inr (Some d)
     \<and> ed_goal d = pc_goal sample_context \<and> ed_steps d = []"
proof -
  have "parse_plan_response sample_library sample_reply sample_planner_input
      = Inr (llm_draft sample_context [] [] (PStr ''{}''))"
    by (simp add: parse_plan_response_def parse_json_object_def sample_reply_def sample_library_def
        sample_planner_input_def steps_of_json_def)
  moreover have "\<exists>d. llm_draft sample_context [] [] (PStr ''{}'') = Some d \<and> ed_steps d = []"
    by (simp add: llm_draft_def get_str_default_def)
  ultimately obtain d where d: "fst (llm_plan sample_library (Some (\<lambda>_. sx_return sample_reply))
        \<lparr>py_model = ''m'', py_model_alias = None\<rparr> sample_planner_input ()) = Inr (Some d)" "ed_steps d = []"
    by (auto simp: llm_plan_def sx_bind_def sx_simps)
  with llm_plan_outcome [of "\<lambda>_. sx_return sample_reply" sample_library "\<lparr>py_model = ''m'', py_model_alias = None\<rparr>"
      sample_planner_input "()" sample_reply "()"]
  have "ed_goal d = pc_goal (pn_base_context sample_planner_input)" by (simp add: sx_simps)
  with d show ?thesis by (simp add: sample_planner_input_def)
qed

end
