(* ===== verification/Decisions.thy ===== *)
theory Decisions
  imports LlmPlanner
begin

text \<open>
  The two decisions of the agent loop an LLM makes: \<open>agent_loop/interaction_decision.py\<close> (what to do
  with the user's input) and \<open>agent_loop/task_check.py\<close> (what to do after an execution). The fields
  of a decision are dynamic values: they come from the reply as they are.
\<close>

section \<open>Interaction decision\<close>

record interaction_request =
  ir_raw_user_input :: pyval
  ir_task_id :: pyval
  ir_session_id :: pyval
  ir_user_id :: pyval
  ir_conversation_summary :: pyval
  ir_system_capability_summary :: pyval
  ir_metadata :: "pyval dict"

record interaction_decision =
  id_mode :: pyval
  id_content :: pyval
  id_confidence :: pyval
  id_reason :: pyval
  id_normalized_goal :: pyval
  id_metadata :: pyval

definition ParseError :: "string \<Rightarrow> exc" where
  "ParseError text = Exc ''InteractionDecisionParseError'' text"

definition DecisionError :: "string \<Rightarrow> exc" where
  "DecisionError text = Exc ''InteractionDecisionValidationError'' text"

definition allowed_modes :: "string list" where
  "allowed_modes = [''PLAN'', ''RETURN'', ''REFUSE'', ''HUMAN'']"

text \<open>\<open>isinstance(v, str) and v.strip()\<close>\<close>

fun filled_text :: "pyval \<Rightarrow> bool" where
  "filled_text (PStr s) = (py_strip s \<noteq> [])"
| "filled_text _ = False"

fun number_value :: "pyval \<Rightarrow> rat option" where
  "number_value (PInt i) = Some (of_int i)"
| "number_value (PFloat q) = Some q"
| "number_value _ = None"

text \<open>
  \<open>InteractionDecisionValidator.validate\<close>, check by check; the membership test of an unhashable
  mode in the set of modes raises.
\<close>

definition validate_decision :: "text_library \<Rightarrow> interaction_decision \<Rightarrow> unit res" where
  "validate_decision lib d =
     (if \<not> py_hashable (id_mode d) then Inl TypeError
      else if \<not> py_in_list (id_mode d) (map PStr allowed_modes)
      then Inl (DecisionError (''unsupported interaction mode: '' @ lib_repr lib (id_mode d)))
      else if \<not> is_str (id_content d) then Inl (DecisionError ''content must be a string'')
      else if \<not> filled_text (id_reason d) then Inl (DecisionError ''reason must be a non-empty string'')
      else (case number_value (id_confidence d) of
        None \<Rightarrow> Inl (DecisionError ''confidence must be a number'')
      | Some q \<Rightarrow>
          if \<not> (0 \<le> q \<and> q \<le> 1) then Inl (DecisionError ''confidence must be between 0.0 and 1.0'')
          else if \<not> (case id_metadata d of PDict m \<Rightarrow> True | _ \<Rightarrow> False)
          then Inl (DecisionError ''metadata must be an object'')
          else if id_normalized_goal d \<noteq> PNone \<and> \<not> is_str (id_normalized_goal d)
          then Inl (DecisionError ''normalized_goal must be a string or null'')
          else if id_mode d = PStr ''PLAN'' \<and> \<not> filled_text (id_normalized_goal d)
          then Inl (DecisionError ''PLAN requires a non-empty normalized_goal'')
          else if id_mode d \<noteq> PStr ''PLAN'' \<and> \<not> filled_text (id_content d)
          then Inl (DecisionError ((case id_mode d of PStr m \<Rightarrow> m | _ \<Rightarrow> []) @ '' requires non-empty content''))
          else Inr ()))"

definition required_decision_fields :: "string list" where
  "required_decision_fields =
     [''mode'', ''content'', ''confidence'', ''reason'', ''normalized_goal'', ''metadata'']"

definition decision_of_payload :: "pyval dict \<Rightarrow> interaction_decision res" where
  "decision_of_payload payload =
     (let missing = filter (\<lambda>k. \<not> dhas payload k) required_decision_fields in
      if missing \<noteq> [] then Inl (DecisionError (''missing required fields: '' @ py_join '', '' missing))
      else Inr \<lparr>id_mode = pget payload ''mode'', id_content = pget payload ''content'',
                id_confidence = pget payload ''confidence'', id_reason = pget payload ''reason'',
                id_normalized_goal = pget payload ''normalized_goal'', id_metadata = pget payload ''metadata''\<rparr>)"

definition decision_shape :: string where
  \<open>decision_shape = ''{"mode":"PLAN | RETURN | REFUSE | HUMAN","content":"string","confidence":0.0,"reason":"string","normalized_goal":null,"metadata":{}}''\<close>

definition decision_rules :: "string list" where
  "decision_rules =
     [''You are the interaction decision module for SdkTestAgent.'',
      ''Decide how the system should handle the user'' @ [char_of (39 :: nat)] @ ''s input.'',
      [],
      ''Allowed modes:'',
      ''- PLAN: enter task planning and execution.'',
      ''- RETURN: answer directly in natural language; no planning or execution is needed.'',
      ''- REFUSE: refuse the request.'',
      ''- HUMAN: pause for human intervention, approval, login, or permission.'',
      [],
      ''Return strict JSON only with exactly these required fields:'',
      decision_shape,
      [],
      ''Rules:'',
      ''- Greetings, chat, conceptual questions, and explanation requests use RETURN.'',
      ''- Requests to run, deploy, test, inspect an environment, call tools, or produce artifacts use PLAN.'',
      ''- Destructive, unauthorized, or unsafe requests use REFUSE.'',
      ''- Tasks requiring manual approval, login, permission, or confirmation use HUMAN.'',
      ''- PLAN requires a concise, non-empty normalized_goal.'',
      ''- RETURN, REFUSE, and HUMAN require non-empty content.'',
      ''- Do not invent credentials, URLs, versions, file paths, or environment details.'',
      ''- raw_user_input is the source of truth.'',
      [],
      ''Input context:'']"

definition decision_context_lines :: "text_library \<Rightarrow> interaction_request \<Rightarrow> string list" where
  "decision_context_lines lib rq =
     [''raw_user_input: '' @ py_str lib (ir_raw_user_input rq)]
     @ map (\<lambda>(name, v). name @ '': '' @ py_str lib v)
         (filter (\<lambda>(name, v). v \<noteq> PNone)
           [(''task_id'', ir_task_id rq), (''session_id'', ir_session_id rq), (''user_id'', ir_user_id rq),
            (''conversation_summary'', ir_conversation_summary rq),
            (''system_capability_summary'', ir_system_capability_summary rq)])
     @ (if ir_metadata rq = [] then []
        else [''metadata: '' @ lib_dumps lib False True (PDict (ir_metadata rq))])"

definition build_interaction_decision_prompt :: "text_library \<Rightarrow> interaction_request \<Rightarrow> string" where
  "build_interaction_decision_prompt lib rq =
     concat (map (\<lambda>l. l @ [newline]) decision_rules) @ py_join [newline] (decision_context_lines lib rq)"

record llm_decider =
  dc_model :: string
  dc_model_alias :: "string option"
  dc_api_protocol :: "string option"
  dc_temperature :: rat

definition decider_request :: "text_library \<Rightarrow> llm_decider \<Rightarrow> interaction_request \<Rightarrow> llm_request" where
  "decider_request lib decider rq =
     llm_request_defaults
       \<lparr>lq_model_alias := dc_model_alias decider,
        lq_model := (if given (dc_model_alias decider) then None else Some (dc_model decider)),
        lq_api_protocol := dc_api_protocol decider,
        lq_messages := [user_message (build_interaction_decision_prompt lib rq)],
        lq_response_format := Some FORMAT_JSON_OBJECT, lq_temperature := Some (dc_temperature decider),
        lq_metadata := [(''decider'', PStr ''llm_interaction_decider'')]\<rparr>"

definition decision_of_reply :: "text_library \<Rightarrow> llm_response \<Rightarrow> interaction_decision res" where
  "decision_of_reply lib response =
     (case parse_json_object (lib_loads lib) response of
        Inl e \<Rightarrow> Inl (ParseError ''failed to parse interaction decision as a JSON object'')
      | Inr payload \<Rightarrow> res_bind (decision_of_payload payload)
          (\<lambda>d. res_bind (validate_decision lib d) (\<lambda>_. Inr d)))"

definition decide ::
  "text_library \<Rightarrow> (llm_request \<Rightarrow> ('s, llm_response) sx) \<Rightarrow> llm_decider \<Rightarrow> interaction_request \<Rightarrow>
     ('s, interaction_decision) sx" where
  "decide lib call decider rq =
     sx_bind (call (decider_request lib decider rq)) (\<lambda>response. sx_lift (decision_of_reply lib response))"

section \<open>Task check\<close>

record task_check_request =
  tq_task_id :: pyval
  tq_task_type :: pyval
  tq_user_goal :: pyval
  tq_iteration :: int
  tq_plan :: pyval
  tq_execution_result :: pyval
  tq_capability_snapshot_id :: pyval
  tq_capability_digest :: pyval
  tq_previous_attempts :: "pyval list"
  tq_artifact_refs :: "pyval list"
  tq_metadata :: "pyval dict"

record task_check_decision =
  td_loop_level :: pyval
  td_route :: pyval
  td_confidence :: rat
  td_reason :: string
  td_evidence_refs :: "pyval list"
  td_evidence_summary :: pyval
  td_replan_hint :: pyval
  td_input_request :: pyval
  td_human_message :: pyval
  td_metadata :: "pyval dict"

definition task_check_to_dict :: "task_check_decision \<Rightarrow> pyval dict" where
  "task_check_to_dict d =
     [(''loop_level'', td_loop_level d), (''route'', td_route d), (''confidence'', PFloat (td_confidence d)),
      (''reason'', PStr (td_reason d)), (''evidence_refs'', PList (td_evidence_refs d)),
      (''evidence_summary'', td_evidence_summary d), (''replan_hint'', td_replan_hint d),
      (''input_request'', td_input_request d), (''human_message'', td_human_message d),
      (''metadata'', PDict (td_metadata d))]"

definition asdict_check_request :: "task_check_request \<Rightarrow> pyval" where
  "asdict_check_request r = PDict
     [(''task_id'', asdict_value (tq_task_id r)), (''task_type'', asdict_value (tq_task_type r)),
      (''user_goal'', asdict_value (tq_user_goal r)), (''iteration'', PInt (tq_iteration r)),
      (''plan'', asdict_value (tq_plan r)), (''execution_result'', asdict_value (tq_execution_result r)),
      (''capability_snapshot_id'', asdict_value (tq_capability_snapshot_id r)),
      (''capability_digest'', asdict_value (tq_capability_digest r)),
      (''previous_attempts'', PList (map asdict_value (tq_previous_attempts r))),
      (''artifact_refs'', PList (map asdict_value (tq_artifact_refs r))),
      (''metadata'', PDict (asdict_dict (tq_metadata r)))]"

definition build_task_check_prompt :: "text_library \<Rightarrow> task_check_request \<Rightarrow> string" where
  "build_task_check_prompt lib rq =
     py_join [newline]
       [''Return strict JSON with loop_level, route, confidence, reason.'',
        ''Allowed loop_level: satisfied, need_replan, failed, need_input, need_human, blocked.'',
        ''Allowed route: end, replan, fail, ask_input, human_interrupt.'',
        ''Request:'', lib_dumps lib False True (asdict_check_request rq)]"

text \<open>\<open>float(v)\<close>\<close>

fun py_float :: "text_library \<Rightarrow> pyval \<Rightarrow> rat res" where
  "py_float lib (PBool b) = Inr (if b then 1 else 0)"
| "py_float lib (PInt i) = Inr (of_int i)"
| "py_float lib (PFloat q) = Inr q"
| "py_float lib (PStr s) = lib_float lib s"
| "py_float lib _ = Inl TypeError"

definition task_check_of_payload :: "text_library \<Rightarrow> pyval dict \<Rightarrow> task_check_decision res" where
  "task_check_of_payload lib payload =
     res_bind (py_float lib (dget_default payload ''confidence'' (PFloat 0))) (\<lambda>confidence.
     res_bind (py_iter (dget_default payload ''evidence_refs'' (PList []))) (\<lambda>refs.
     res_bind (py_dict (dget_default payload ''metadata'' (PDict []))) (\<lambda>meta.
       Inr \<lparr>td_loop_level = dget_default payload ''loop_level'' (PStr ''need_replan''),
            td_route = dget_default payload ''route'' (PStr ''replan''), td_confidence = confidence,
            td_reason = py_str lib (dget_default payload ''reason'' (PStr [])), td_evidence_refs = refs,
            td_evidence_summary = pget payload ''evidence_summary'', td_replan_hint = pget payload ''replan_hint'',
            td_input_request = pget payload ''input_request'', td_human_message = pget payload ''human_message'',
            td_metadata = meta\<rparr>)))"

definition unreadable_check :: task_check_decision where
  "unreadable_check =
     \<lparr>td_loop_level = PStr ''need_replan'', td_route = PStr ''replan'', td_confidence = 0,
      td_reason = ''task checker failed to parse decision'', td_evidence_refs = [], td_evidence_summary = PNone,
      td_replan_hint = PNone, td_input_request = PNone, td_human_message = PNone, td_metadata = []\<rparr>"

record llm_task_checker =
  tc_model :: string
  tc_model_alias :: "string option"
  tc_api_protocol :: "string option"

definition checker_request :: "text_library \<Rightarrow> llm_task_checker \<Rightarrow> task_check_request \<Rightarrow> llm_request" where
  "checker_request lib checker rq =
     llm_request_defaults
       \<lparr>lq_model_alias := tc_model_alias checker,
        lq_model := (if given (tc_model_alias checker) then None else Some (tc_model checker)),
        lq_api_protocol := tc_api_protocol checker,
        lq_messages := [user_message (build_task_check_prompt lib rq)],
        lq_response_format := Some FORMAT_JSON_OBJECT, lq_temperature := Some 0,
        lq_metadata := [(''checker'', PStr ''llm_task_checker'')]\<rparr>"

definition check_of_reply :: "text_library \<Rightarrow> llm_response \<Rightarrow> task_check_decision" where
  "check_of_reply lib response =
     (case res_bind (parse_json_object (lib_loads lib) response) (task_check_of_payload lib) of
        Inl e \<Rightarrow> unreadable_check
      | Inr d \<Rightarrow> d)"

definition check_task ::
  "text_library \<Rightarrow> (llm_request \<Rightarrow> ('s, llm_response) sx) \<Rightarrow> llm_task_checker \<Rightarrow> task_check_request \<Rightarrow>
     ('s, task_check_decision) sx" where
  "check_task lib call checker rq =
     sx_bind (call (checker_request lib checker rq)) (\<lambda>response. sx_return (check_of_reply lib response))"

section \<open>The contract of a decision\<close>

definition decision_ok :: "interaction_decision \<Rightarrow> bool" where
  "decision_ok d \<longleftrightarrow>
     (\<exists>m \<in> set allowed_modes. id_mode d = PStr m)
     \<and> is_str (id_content d) \<and> filled_text (id_reason d)
     \<and> (\<exists>q. number_value (id_confidence d) = Some q \<and> 0 \<le> q \<and> q \<le> 1)
     \<and> (\<exists>m. id_metadata d = PDict m)
     \<and> (id_normalized_goal d = PNone \<or> is_str (id_normalized_goal d))
     \<and> (if id_mode d = PStr ''PLAN'' then filled_text (id_normalized_goal d) else filled_text (id_content d))"

lemma py_in_strs_iff: "py_in_list v (map PStr ss) \<longleftrightarrow> (\<exists>s \<in> set ss. v = PStr s)"
  by (cases v) (auto simp: py_in_list_def list_ex_iff py_eq.simps)

lemma mode_hashable: "id_mode d = PStr m \<Longrightarrow> py_hashable (id_mode d)"
  by simp

lemma validate_decision_ok: "validate_decision lib d = Inr () \<longleftrightarrow> decision_ok d"
proof (cases "\<exists>m \<in> set allowed_modes. id_mode d = PStr m")
  case True
  then have h: "py_hashable (id_mode d)" "py_in_list (id_mode d) (map PStr allowed_modes)"
    by (auto simp: py_in_strs_iff)
  show ?thesis
    unfolding validate_decision_def decision_ok_def using True h
    by (auto split: option.splits pyval.splits)
next
  case False
  then have "\<not> py_in_list (id_mode d) (map PStr allowed_modes)" by (simp add: py_in_strs_iff)
  with False show ?thesis unfolding validate_decision_def decision_ok_def by simp
qed

lemma validate_decision_error:
  "validate_decision lib d = Inl e \<Longrightarrow>
     exc_class e = ''InteractionDecisionValidationError'' \<or> (e = TypeError \<and> \<not> py_hashable (id_mode d))"
  by (auto simp: validate_decision_def DecisionError_def split: if_splits option.splits pyval.splits)

section \<open>Properties\<close>

text \<open>
  The decision validator accepts exactly the decisions of the contract: a known mode, a content
  string, a reason, a confidence between 0 and 1, a metadata object, a goal that is a string or
  null, and a non-blank goal for PLAN or non-blank content for the other modes.
\<close>

theorem decision_validator_exact:
  "validate_decision lib d = Inr () \<longleftrightarrow> decision_ok d"
  by (rule validate_decision_ok)

text \<open>
  Once the client has answered, the decider returns a decision of the contract or raises a parse
  or validation error of its own; the one exception is a reply whose mode is a list or an object,
  which lets a \<open>TypeError\<close> out.
\<close>

theorem decide_outcome:
  assumes "call (decider_request lib decider rq) s = (Inr response, s')"
  shows "snd (decide lib call decider rq s) = s'
    \<and> (case fst (decide lib call decider rq s) of
         Inr d \<Rightarrow> decision_ok d
       | Inl e \<Rightarrow> exc_class e \<in> {''InteractionDecisionParseError'', ''InteractionDecisionValidationError''}
           \<or> (e = TypeError \<and> (\<exists>payload. parse_json_object (lib_loads lib) response = Inr payload
                 \<and> \<not> py_hashable (pget payload ''mode''))))"
proof -
  have run: "decide lib call decider rq s = (decision_of_reply lib response, s')"
    using assms by (simp add: decide_def sx_bind_def sx_simps)
  have "case decision_of_reply lib response of
         Inr d \<Rightarrow> decision_ok d
       | Inl e \<Rightarrow> exc_class e \<in> {''InteractionDecisionParseError'', ''InteractionDecisionValidationError''}
           \<or> (e = TypeError \<and> (\<exists>payload. parse_json_object (lib_loads lib) response = Inr payload
                 \<and> \<not> py_hashable (pget payload ''mode'')))"
  proof (cases "parse_json_object (lib_loads lib) response")
    case (Inl e)
    then show ?thesis by (simp add: decision_of_reply_def ParseError_def)
  next
    case parsed: (Inr payload)
    show ?thesis
    proof (cases "decision_of_payload payload")
      case (Inl e)
      then have "exc_class e = ''InteractionDecisionValidationError''"
        by (auto simp: decision_of_payload_def DecisionError_def Let_def split: if_splits)
      with parsed Inl show ?thesis by (simp add: decision_of_reply_def)
    next
      case (Inr d)
      then have m: "id_mode d = pget payload ''mode''"
        by (auto simp: decision_of_payload_def Let_def split: if_splits)
      show ?thesis
      proof (cases "validate_decision lib d")
        case (Inl e)
        with parsed Inr m validate_decision_error [OF Inl] show ?thesis by (auto simp: decision_of_reply_def)
      next
        case (Inr u)
        with validate_decision_ok [of lib d] have "decision_ok d" by simp
        with parsed \<open>decision_of_payload payload = Inr d\<close> Inr show ?thesis by (simp add: decision_of_reply_def)
      qed
    qed
  qed
  with run show ?thesis by simp
qed

text \<open>
  Once the client has answered, the task checker always returns a decision, whatever the reply
  is: an unreadable one asks for a replan with confidence 0.
\<close>

theorem check_task_total:
  assumes "call (checker_request lib checker rq) s = (Inr response, s')"
  shows "\<exists>d. check_task lib call checker rq s = (Inr d, s')
    \<and> ((\<forall>payload. parse_json_object (lib_loads lib) response = Inr payload \<longrightarrow>
           (\<nexists>d'. task_check_of_payload lib payload = Inr d')) \<longrightarrow>
         td_route d = PStr ''replan'' \<and> td_confidence d = 0)"
proof -
  have "check_task lib call checker rq s = (Inr (check_of_reply lib response), s')"
    using assms by (simp add: check_task_def sx_bind_def sx_simps)
  then show ?thesis
    by (auto simp: check_of_reply_def res_bind_Inr_iff unreadable_check_def split: sum.splits)
qed

section \<open>Concrete inputs\<close>

definition sample_decider :: llm_decider where
  "sample_decider = \<lparr>dc_model = ''m'', dc_model_alias = None, dc_api_protocol = None, dc_temperature = 0\<rparr>"

definition sample_interaction :: interaction_request where
  "sample_interaction =
     \<lparr>ir_raw_user_input = PStr ''deploy'', ir_task_id = PNone, ir_session_id = PNone, ir_user_id = PNone,
      ir_conversation_summary = PNone, ir_system_capability_summary = PNone, ir_metadata = []\<rparr>"

definition plan_reply :: llm_response where
  "plan_reply = sample_reply\<lparr>ls_parsed_json := Some
     [(''mode'', PStr ''PLAN''), (''content'', PStr []), (''confidence'', PFloat (1 / 2)), (''reason'', PStr ''task''),
      (''normalized_goal'', PStr ''deploy''), (''metadata'', PDict [])]\<rparr>"

lemma plan_reply_decision:
  "decision_of_reply sample_library plan_reply = Inr
     \<lparr>id_mode = PStr ''PLAN'', id_content = PStr [], id_confidence = PFloat (1 / 2), id_reason = PStr ''task'',
      id_normalized_goal = PStr ''deploy'', id_metadata = PDict []\<rparr>"
  by (simp add: decision_of_reply_def parse_json_object_def plan_reply_def decision_of_payload_def
      required_decision_fields_def validate_decision_def allowed_modes_def py_strip_def py_isspace_def)

theorem decide_outcome_witness:
  "\<exists>d. fst (decide sample_library (\<lambda>_. sx_return plan_reply) sample_decider sample_interaction ()) = Inr d
     \<and> id_mode d = PStr ''PLAN'' \<and> decision_ok d"
proof -
  have run: "fst (decide sample_library (\<lambda>_. sx_return plan_reply) sample_decider sample_interaction ())
      = decision_of_reply sample_library plan_reply"
    by (simp add: decide_def sx_bind_def sx_simps)
  with decide_outcome [of "\<lambda>_. sx_return plan_reply" sample_library sample_decider sample_interaction "()" plan_reply "()"]
  show ?thesis by (simp add: plan_reply_decision sx_simps)
qed

theorem check_task_total_witness:
  "\<exists>d. check_task sample_library (\<lambda>_. sx_return (sample_reply\<lparr>ls_content := PStr ''no json''\<rparr>))
       \<lparr>tc_model = ''m'', tc_model_alias = None, tc_api_protocol = None\<rparr>
       \<lparr>tq_task_id = PNone, tq_task_type = PNone, tq_user_goal = PNone, tq_iteration = 0, tq_plan = PNone,
        tq_execution_result = PNone, tq_capability_snapshot_id = PNone, tq_capability_digest = PNone,
        tq_previous_attempts = [], tq_artifact_refs = [], tq_metadata = []\<rparr> () = (Inr d, ())
     \<and> td_route d = PStr ''replan''"
proof -
  have "parse_json_object (lib_loads sample_library) (sample_reply\<lparr>ls_content := PStr ''no json''\<rparr>) \<noteq> Inr payload" for payload
    by (simp add: parse_json_object_def sample_reply_def sample_library_def)
  then show ?thesis
    using check_task_total [of "\<lambda>_. sx_return (sample_reply\<lparr>ls_content := PStr ''no json''\<rparr>)" sample_library
        "\<lparr>tc_model = ''m'', tc_model_alias = None, tc_api_protocol = None\<rparr>" _ "()"
        "sample_reply\<lparr>ls_content := PStr ''no json''\<rparr>" "()"]
    by (simp add: sx_simps) blast
qed

end
