(* ===== verification/AgentNodes.thy ===== *)
theory AgentNodes
  imports Decisions PlanValidation Execution
begin

text \<open>
  The nodes of the agent loop: \<open>agent_loop/nodes.py\<close> with \<open>preflight.py\<close>, \<open>serializers.py\<close>,
  \<open>state_models.py\<close> and \<open>runtime_bindings.py\<close>. The state of the loop is the dictionary the nodes
  exchange, as in the source. A node returns the entries it sets. The services behind the
  runtime (planner, decider, checker, sessions, clocks, identifiers) are operations on a world
  \<open>'w\<close>; the panel, the finalizer, the plan validator and the engine are the models of the other
  theories.
\<close>

section \<open>Plans and drafts as dictionaries\<close>

definition plan_field_names :: "string list" where
  "plan_field_names =
     [''plan_id'', ''task_id'', ''task_type'', ''goal'', ''planner_kind'', ''planner_name'', ''planner_version'',
      ''status'', ''steps'', ''assumptions'', ''missing_information'', ''risk_notes'', ''global_constraints'',
      ''plan_metadata'', ''parent_plan_id'', ''revision_no'', ''created_at'']"

definition draft_field_names :: "string list" where
  "draft_field_names =
     [''task_id'', ''task_type'', ''goal'', ''planner_name'', ''planner_version'', ''plan_summary'', ''steps'',
      ''assumptions'', ''missing_information'', ''risk_notes'', ''raw_llm_output'', ''metadata'']"

definition asdict_draft :: "execution_plan_draft \<Rightarrow> pyval dict" where
  "asdict_draft d =
     [(''task_id'', PStr (ed_task_id d)), (''task_type'', PStr (ed_task_type d)), (''goal'', PStr (ed_goal d)),
      (''planner_name'', PStr (ed_planner_name d)), (''planner_version'', PStr (ed_planner_version d)),
      (''plan_summary'', PStr (ed_plan_summary d)),
      (''steps'', PList (map (\<lambda>s. PDict (asdict_step s)) (ed_steps d))),
      (''assumptions'', py_strs (ed_assumptions d)), (''missing_information'', py_strs (ed_missing_information d)),
      (''risk_notes'', py_strs (ed_risk_notes d)), (''raw_llm_output'', opt_str (ed_raw_llm_output d)),
      (''metadata'', PDict (asdict_dict (ed_metadata d)))]"

text \<open>
  A value that does not have the class its field is annotated with. The constructors of the source
  do not check; such values are outside the model, which raises this marker instead.
\<close>

definition Untyped :: exc where
  "Untyped = Exc ''Untyped'' ''value outside the model''"

definition typed :: "'a option \<Rightarrow> 'a res" where
  "typed x = (case x of None \<Rightarrow> Inl Untyped | Some a \<Rightarrow> Inr a)"

text \<open>\<open>step if isinstance(step, PlanStep) else PlanStep(**step)\<close>\<close>

definition step_or_kwargs :: "pyval \<Rightarrow> plan_step res" where
  "step_or_kwargs v =
     (case v of
        PObj c fs \<Rightarrow> if c = ''PlanStep'' then typed (typed_step fs) else Inl TypeError
      | _ \<Rightarrow> res_bind (plan_step_of_kwargs v) typed)"

definition typed_draft :: "pyval dict \<Rightarrow> plan_step list \<Rightarrow> execution_plan_draft option" where
  "typed_draft d steps =
     (case (get_str (dget d ''task_id''), get_str (dget d ''task_type''), get_str (dget d ''goal''),
            get_str (dget d ''planner_name'')) of
        (Some task_id, Some task_type, Some goal, Some name) \<Rightarrow>
     (case (get_str (dget d ''planner_version''), get_str (dget d ''plan_summary''),
            get_strs (dget d ''assumptions''), get_strs (dget d ''missing_information'')) of
        (Some version, Some summary, Some assumptions, Some missing) \<Rightarrow>
     (case (get_strs (dget d ''risk_notes''), get_opt_str (dget d ''raw_llm_output''), get_dict (dget d ''metadata'')) of
        (Some risks, Some raw, Some meta) \<Rightarrow> Some
          \<lparr>ed_task_id = task_id, ed_task_type = task_type, ed_goal = goal, ed_planner_name = name,
           ed_planner_version = version, ed_plan_summary = summary, ed_steps = steps,
           ed_assumptions = assumptions, ed_missing_information = missing, ed_risk_notes = risks,
           ed_raw_llm_output = raw, ed_metadata = meta\<rparr>
      | _ \<Rightarrow> None) | _ \<Rightarrow> None) | _ \<Rightarrow> None)"

definition get_int :: "int \<Rightarrow> pyval option \<Rightarrow> int option" where
  "get_int i v = (case v of None \<Rightarrow> Some i | Some (PInt j) \<Rightarrow> Some j | _ \<Rightarrow> None)"

definition typed_plan :: "pyval dict \<Rightarrow> plan_step list \<Rightarrow> execution_plan option" where
  "typed_plan d steps =
     (case (get_str (dget d ''plan_id''), get_str (dget d ''task_id''), get_str (dget d ''task_type''),
            get_str (dget d ''goal'')) of
        (Some plan_id, Some task_id, Some task_type, Some goal) \<Rightarrow>
     (case (get_str (dget d ''planner_kind''), get_str (dget d ''planner_name''),
            get_str (dget d ''planner_version''), get_str (dget d ''status'')) of
        (Some kind, Some name, Some version, Some status) \<Rightarrow>
     (case (get_strs (dget d ''assumptions''), get_strs (dget d ''missing_information''),
            get_strs (dget d ''risk_notes''), get_dict (dget d ''global_constraints'')) of
        (Some assumptions, Some missing, Some risks, Some constraints) \<Rightarrow>
     (case (get_dict (dget d ''plan_metadata''), get_opt_str (dget d ''parent_plan_id''),
            get_int 0 (dget d ''revision_no''), get_opt_int (dget d ''created_at'')) of
        (Some meta, Some parent, Some revision, Some created) \<Rightarrow> Some
          \<lparr>ep_plan_id = plan_id, ep_task_id = task_id, ep_task_type = task_type, ep_goal = goal,
           ep_planner_kind = kind, ep_planner_name = name, ep_planner_version = version, ep_status = status,
           ep_steps = steps, ep_assumptions = assumptions, ep_missing_information = missing,
           ep_risk_notes = risks, ep_global_constraints = constraints, ep_plan_metadata = meta,
           ep_parent_plan_id = parent, ep_revision_no = revision, ep_created_at = created\<rparr>
      | _ \<Rightarrow> None) | _ \<Rightarrow> None) | _ \<Rightarrow> None) | _ \<Rightarrow> None)"

definition required_plan_fields :: "string list" where
  "required_plan_fields =
     [''plan_id'', ''task_id'', ''task_type'', ''goal'', ''planner_kind'', ''planner_name'', ''planner_version'', ''status'']"

definition required_draft_fields :: "string list" where
  "required_draft_fields =
     [''task_id'', ''task_type'', ''goal'', ''planner_name'', ''planner_version'', ''plan_summary'']"

text \<open>
  \<open>payload["steps"]\<close> is always set, so \<open>steps\<close> is never missing; an unknown or a missing keyword is
  a \<open>TypeError\<close>.
\<close>

definition payload_steps :: "pyval dict \<Rightarrow> plan_step list res" where
  "payload_steps payload =
     res_bind (py_iter (dget_default payload ''steps'' (PList []))) (res_map step_or_kwargs)"

definition draft_from_dict :: "pyval \<Rightarrow> execution_plan_draft res" where
  "draft_from_dict v =
     res_bind (py_dict v) (\<lambda>payload. res_bind (payload_steps payload) (\<lambda>steps.
       if list_all (\<lambda>k. k \<in> set draft_field_names) (dkeys payload) \<and> list_all (dhas payload) required_draft_fields
       then typed (typed_draft payload steps) else Inl TypeError))"

text \<open>A value that is no dictionary is handed on as it is, which is outside the model.\<close>

definition plan_from_dict :: "pyval \<Rightarrow> execution_plan res" where
  "plan_from_dict v =
     (case v of
        PDict payload \<Rightarrow> res_bind (payload_steps payload) (\<lambda>steps.
          if list_all (\<lambda>k. k \<in> set plan_field_names) (dkeys payload) \<and> list_all (dhas payload) required_plan_fields
          then typed (typed_plan payload steps) else Inl TypeError)
      | _ \<Rightarrow> Inl Untyped)"

section \<open>Preflight\<close>

record preflight_result =
  pf_passed :: bool
  pf_errors :: "string list"
  pf_warnings :: "string list"

definition asdict_preflight :: "preflight_result \<Rightarrow> pyval" where
  "asdict_preflight r = PDict
     [(''passed'', PBool (pf_passed r)), (''errors'', py_strs (pf_errors r)), (''warnings'', py_strs (pf_warnings r))]"

text \<open>
  The errors of one step. \<open>kind not in supported\<close> hashes the kind; \<open>operators\<close> are the names of
  the dispatcher's operators, none without a controller.
\<close>

definition preflight_step :: "text_library \<Rightarrow> string list \<Rightarrow> string list \<Rightarrow> pyval \<Rightarrow> string list res" where
  "preflight_step lib supported operators step =
     res_bind (py_get step ''kind'' PNone) (\<lambda>kind.
     if \<not> py_hashable kind then Inl TypeError
     else
      (let unknown = (if py_in_list kind (map PStr supported) then []
                      else [''unknown step executor for step kind: '' @ py_str lib kind]) in
       if kind \<noteq> PStr RUN_COMMAND then Inr unknown
       else
         res_bind (py_get step ''inputs'' PNone) (\<lambda>inputs.
         res_bind (py_get (py_or inputs (PDict [])) ''action'' PNone) (\<lambda>action.
           if action = PNone then Inr unknown
           else if \<not> py_hashable action then Inl TypeError
           else Inr (unknown @ (if py_in_list action (map PStr operators) then []
                                else [''unknown action: '' @ py_str lib action]))))))"

definition run_preflight :: "text_library \<Rightarrow> string list \<Rightarrow> string list \<Rightarrow> pyval \<Rightarrow> preflight_result res" where
  "run_preflight lib supported operators plan =
     res_bind (py_get plan ''steps'' (PList [])) (\<lambda>steps.
     res_bind (py_iter steps) (\<lambda>items.
     res_bind (res_map (preflight_step lib supported operators) items) (\<lambda>errors.
       Inr \<lparr>pf_passed = (concat errors = []), pf_errors = concat errors, pf_warnings = []\<rparr>)))"

section \<open>Runtime\<close>

record runtime_bindings =
  rb_artifact_manager :: bool
  rb_runtime_manager :: bool
  rb_docker_driver :: bool
  rb_command_controller :: bool
  rb_package_inspector :: bool
  rb_env_inspector :: bool

text \<open>
  \<open>SdkRuntimeContext\<close>. \<open>ar_dump_snapshot\<close> and \<open>ar_load_snapshot\<close> are \<open>model_dump\<close> and
  \<open>model_validate\<close> of the snapshot model; \<open>ar_snapshot_obj\<close> and \<open>ar_capability_input\<close> are the
  two hooks of \<open>metadata\<close>; \<open>ar_operators\<close> the operator names of the controller's dispatcher;
  \<open>ar_frames\<close> the frames granted to the schema checker.
\<close>

record 'w agent_runtime =
  ar_lib :: text_library
  ar_bindings :: runtime_bindings
  ar_open_session :: "('w, unit) sx"
  ar_operators :: "string list"
  ar_decider :: "(interaction_request \<Rightarrow> ('w, interaction_decision) sx) option"
  ar_registry :: capability_registry
  ar_digest :: "pyval \<Rightarrow> string"
  ar_dump_snapshot :: "capability_snapshot \<Rightarrow> pyval"
  ar_load_snapshot :: "pyval \<Rightarrow> capability_snapshot res"
  ar_snapshot_obj :: "capability_snapshot option"
  ar_capability_input :: "(pyval dict \<Rightarrow> build_capability_snapshot_input option) option"
  ar_planner :: "planner_input \<Rightarrow> ('w, execution_plan_draft) sx"
  ar_validator :: plan_validator
  ar_frames :: nat
  ar_message :: "plan_message \<Rightarrow> string"
  ar_services :: "'w engine_services"
  ar_executors :: "'w step_executor_registry"
  ar_checker :: "task_check_request \<Rightarrow> ('w, task_check_decision) sx"
  ar_time :: "('w, int) sx"
  ar_new_id :: "string \<Rightarrow> ('w, string) sx"

section \<open>Nodes\<close>

definition asdict_decision :: "interaction_decision \<Rightarrow> pyval" where
  "asdict_decision d = PDict
     [(''mode'', asdict_value (id_mode d)), (''content'', asdict_value (id_content d)),
      (''confidence'', asdict_value (id_confidence d)), (''reason'', asdict_value (id_reason d)),
      (''normalized_goal'', asdict_value (id_normalized_goal d)), (''metadata'', asdict_value (id_metadata d))]"

definition default_decision :: "pyval \<Rightarrow> interaction_decision" where
  "default_decision raw =
     \<lparr>id_mode = PStr ''PLAN'', id_content = PStr [], id_confidence = PFloat 1,
      id_reason = PStr ''No interaction decider is configured; preserve the legacy planning route.'',
      id_normalized_goal = raw, id_metadata = PDict []\<rparr>"

definition interaction_decision_node :: "'w agent_runtime \<Rightarrow> pyval dict \<Rightarrow> ('w, pyval dict) sx" where
  "interaction_decision_node rt st =
     (let raw = py_or (pget st ''raw_user_input'') (dget_default st ''user_goal'' (PStr [])) in
      sx_bind
        (case ar_decider rt of
           None \<Rightarrow> sx_return (default_decision raw)
         | Some decider \<Rightarrow>
             sx_bind (sx_lift (py_dict (dget_default st ''metadata'' (PDict [])))) (\<lambda>meta.
             decider \<lparr>ir_raw_user_input = raw, ir_task_id = pget st ''task_id'', ir_session_id = pget st ''session_id'',
                      ir_user_id = pget st ''user_id'', ir_conversation_summary = pget st ''conversation_summary'',
                      ir_system_capability_summary = pget st ''system_capability_summary'', ir_metadata = meta\<rparr>))
        (\<lambda>decision. sx_return
          ([(''raw_user_input'', raw), (''interaction_decision'', asdict_decision decision)]
           @ (if py_eq (id_mode decision) (PStr ''PLAN'') then [(''user_goal'', id_normalized_goal decision)] else []))))"

definition build_available_context_keys :: "runtime_bindings \<Rightarrow> string list" where
  "build_available_context_keys b = map fst (filter snd
     [(''artifact_manager'', rb_artifact_manager b), (''runtime_manager'', rb_runtime_manager b),
      (''docker_driver'', rb_docker_driver b), (''command_controller'', rb_command_controller b),
      (''package_inspector'', rb_package_inspector b), (''env_inspector'', rb_env_inspector b)])"

definition env_init_node :: "'w agent_runtime \<Rightarrow> pyval dict \<Rightarrow> ('w, pyval dict) sx" where
  "env_init_node rt st =
     sx_bind (if rb_command_controller (ar_bindings rt) then ar_open_session rt else sx_return ()) (\<lambda>_.
       sx_return [(''loop_status'', PStr ''env_initialized''),
                  (''available_context_keys'', py_strs (build_available_context_keys (ar_bindings rt)))])"

text \<open>Arguments of a model with string fields: a value of another class is a validation error.\<close>

definition model_opt_str :: "pyval \<Rightarrow> string option res" where
  "model_opt_str v =
     (case v of PNone \<Rightarrow> Inr None | PStr s \<Rightarrow> Inr (Some s) | _ \<Rightarrow> Inl (Exc ''ValidationError'' []))"

definition model_strs :: "pyval list \<Rightarrow> string list res" where
  "model_strs vs = res_map (\<lambda>v. case v of PStr s \<Rightarrow> Inr s | _ \<Rightarrow> Inl (Exc ''ValidationError'' [])) vs"

definition default_capability_input :: "pyval dict \<Rightarrow> build_capability_snapshot_input res" where
  "default_capability_input st =
     res_bind (py_item (PDict st) ''task_id'') (\<lambda>task_id.
     res_bind (py_item (PDict st) ''task_type'') (\<lambda>task_type.
     res_bind (py_iter (dget_default st ''available_context_keys'' (PList []))) (\<lambda>keys.
     res_bind (model_opt_str task_id) (\<lambda>tid.
     res_bind (model_opt_str task_type) (\<lambda>tt.
     res_bind (model_strs keys) (\<lambda>ks.
       Inr \<lparr>bi_task_id = tid, bi_task_type = tt, bi_available_context_keys = ks,
            bi_required_capability_ids = [], bi_recommended_capability_ids = [], bi_forbidden_capability_ids = [],
            bi_max_risk_level = HIGH, bi_allow_placeholder = False, bi_allow_deprecated = False,
            bi_feature_flags = [], bi_metadata = []\<rparr>))))))"

definition capability_input :: "'w agent_runtime \<Rightarrow> pyval dict \<Rightarrow> build_capability_snapshot_input res" where
  "capability_input rt st =
     (case Option.bind (ar_capability_input rt) (\<lambda>f. f st) of
        Some i \<Rightarrow> Inr i
      | None \<Rightarrow> default_capability_input st)"

definition capability_resolve_node :: "'w agent_runtime \<Rightarrow> pyval dict \<Rightarrow> ('w, pyval dict) sx" where
  "capability_resolve_node rt st =
     sx_bind (sx_lift (capability_input rt st)) (\<lambda>cap_input.
     sx_bind (ar_new_id rt ''capsnap'') (\<lambda>snapshot_id.
     let snapshot = build_snapshot (ar_digest rt) snapshot_id (ar_registry rt) cap_input in
     sx_bind (sx_lift (render_capabilities_for_prompt (lib_dumps (ar_lib rt) False True) snapshot)) (\<lambda>prompt.
       sx_return [(''capability_snapshot_id'', PStr (cs_snapshot_id snapshot)),
                  (''capability_digest'', PStr (cs_capability_digest snapshot)),
                  (''capability_prompt'', PStr prompt),
                  (''capability_snapshot'', ar_dump_snapshot rt snapshot)])))"

definition skill_select_node :: "'w agent_runtime \<Rightarrow> pyval dict \<Rightarrow> ('w, pyval dict) sx" where
  "skill_select_node rt st = sx_return [(''selected_skill_ids'', PList []), (''skill_context'', PStr [])]"

definition plan_node_input :: "pyval dict \<Rightarrow> planner_input res" where
  "plan_node_input st =
     res_bind (py_item (PDict st) ''task_id'') (\<lambda>task_id.
     res_bind (py_item (PDict st) ''task_type'') (\<lambda>task_type.
     res_bind (py_item (PDict st) ''user_goal'') (\<lambda>goal.
     res_bind (py_get (dget_default st ''capability_snapshot'' (PDict [])) ''available_step_kinds'' (PList [])) (\<lambda>ks.
     res_bind (py_iter ks) (\<lambda>kinds.
     res_bind (typed (get_str (Some task_id))) (\<lambda>tid.
     res_bind (typed (get_str (Some task_type))) (\<lambda>tt.
     res_bind (typed (get_str (Some goal))) (\<lambda>g.
     res_bind (typed (get_strs (Some (PList kinds)))) (\<lambda>avail.
       Inr \<lparr>pn_base_context =
              \<lparr>pc_task_id = tid, pc_task_type = tt, pc_goal = g, pc_package_report = PNone, pc_env_report = PNone,
               pc_text_parse_result = PNone, pc_runtime_target = None, pc_constraints = [],
               pc_available_capabilities = avail, pc_prior_artifacts = [], pc_metadata = []\<rparr>,
            pn_llm_context = Some
              \<lparr>lx_user_instruction_raw = g, lx_system_prompt = None, lx_output_schema_prompt = None,
               lx_skills = [], lx_retrieved_plan_memories = [], lx_system_constraints_text = None,
               lx_extra_prompt_vars =
                 [(''capability_context'', dget_default st ''capability_prompt'' (PStr [])),
                  (''capability_snapshot_id'', pget st ''capability_snapshot_id''),
                  (''capability_digest'', pget st ''capability_digest'')]\<rparr>,
            pn_planner_options = []\<rparr>)))))))))"

definition plan_node :: "'w agent_runtime \<Rightarrow> pyval dict \<Rightarrow> ('w, pyval dict) sx" where
  "plan_node rt st =
     sx_bind (sx_lift (plan_node_input st)) (\<lambda>input.
     sx_bind (ar_planner rt input) (\<lambda>draft. sx_return [(''draft_plan'', PDict (asdict_draft draft))]))"

definition state_snapshot :: "'w agent_runtime \<Rightarrow> pyval dict \<Rightarrow> capability_snapshot option res" where
  "state_snapshot rt st =
     (case ar_snapshot_obj rt of
        Some s \<Rightarrow> Inr (Some s)
      | None \<Rightarrow> (case pget st ''capability_snapshot'' of
           PNone \<Rightarrow> Inr None
         | v \<Rightarrow> res_bind (ar_load_snapshot rt v) (\<lambda>s. Inr (Some s))))"

definition finalize_node :: "'w agent_runtime \<Rightarrow> pyval dict \<Rightarrow> ('w, pyval dict) sx" where
  "finalize_node rt st =
     sx_bind (sx_lift (res_bind (py_item (PDict st) ''draft_plan'') draft_from_dict)) (\<lambda>draft.
     sx_bind (sx_lift (state_snapshot rt st)) (\<lambda>snapshot.
     sx_bind (ar_new_id rt ''plan'') (\<lambda>plan_id.
     sx_bind (ar_time rt) (\<lambda>now.
       let plan = finalize_plan plan_id now draft PLANNER_LLM None None 0 snapshot None None None in
       sx_return [(''plan_id'', PStr (ep_plan_id plan)), (''plan'', PDict (asdict_plan plan))]))))"

definition asdict_issue :: "(plan_message \<Rightarrow> string) \<Rightarrow> plan_issue \<Rightarrow> pyval" where
  "asdict_issue message i = PDict
     [(''code'', PStr (pi_code i)), (''severity'', PStr (pi_severity i)), (''message'', PStr (message (pi_message i))),
      (''location'', opt_str (pi_location i)), (''metadata'', PDict (asdict_dict (pi_metadata i))),
      (''step_id'', opt_str (pi_step_id i)), (''step_kind'', opt_str (pi_step_kind i)), (''path'', opt_str (pi_path i))]"

definition asdict_validation :: "(plan_message \<Rightarrow> string) \<Rightarrow> plan_validation_result \<Rightarrow> pyval" where
  "asdict_validation message r = PDict
     [(''status'', PStr (pv_status r)), (''issues'', PList (map (asdict_issue message) (pv_issues r))),
      (''checked_at'', opt_int (pv_checked_at r)), (''metadata'', PDict (asdict_dict (pv_metadata r)))]"

definition validate_node :: "'w agent_runtime \<Rightarrow> pyval dict \<Rightarrow> ('w, pyval dict) sx" where
  "validate_node rt st =
     sx_bind (sx_lift (res_bind (py_item (PDict st) ''plan'') plan_from_dict)) (\<lambda>plan.
     sx_bind (sx_lift (state_snapshot rt st)) (\<lambda>snapshot.
     sx_bind (ar_time rt) (\<lambda>now.
     sx_bind (sx_lift (validate_plan (ar_validator rt) (ar_frames rt) now (FinalPlan plan) snapshot)) (\<lambda>result.
       sx_return [(''validation_result'', asdict_validation (ar_message rt) result)]))))"

definition preflight_node :: "'w agent_runtime \<Rightarrow> pyval dict \<Rightarrow> ('w, pyval dict) sx" where
  "preflight_node rt st =
     sx_bind (sx_lift (py_item (PDict st) ''plan'')) (\<lambda>plan.
     sx_bind (sx_lift (run_preflight (ar_lib rt) (supported_step_kinds (ar_executors rt))
         (if rb_command_controller (ar_bindings rt) then ar_operators rt else []) plan)) (\<lambda>result.
       sx_return [(''preflight_result'', asdict_preflight result)]))"

definition replan_value :: "replan_request \<Rightarrow> pyval" where
  "replan_value r = PDict
     [(''task_id'', PStr (rp_task_id r)), (''parent_plan_id'', PStr (rp_parent_plan_id r)),
      (''reason'', PStr (rp_reason r)), (''failed_step_id'', opt_str (rp_failed_step_id r)),
      (''execution_observations'', py_strs (rp_execution_observations r)),
      (''latest_env_report_ref'', opt_str (rp_latest_env_report_ref r)),
      (''latest_artifact_refs'', py_strs (rp_latest_artifact_refs r)),
      (''metadata'', PDict (asdict_dict (rp_metadata r))), (''created_at'', opt_int (rp_created_at r))]"

definition run_result_value :: "execution_run_result \<Rightarrow> pyval" where
  "run_result_value r = PDict
     [(''run'', run_value (rr_run r)), (''status'', PStr (rr_status r)),
      (''step_results'', PDict (map (\<lambda>(k, x). (k, result_value x)) (rr_step_results r))),
      (''replan_request'', case rr_replan_request r of None \<Rightarrow> PNone | Some q \<Rightarrow> replan_value q),
      (''artifact_refs'', py_strs (rr_artifact_refs r)), (''metadata'', PDict (asdict_dict (rr_metadata r)))]"

definition node_context :: "runtime_bindings \<Rightarrow> string \<Rightarrow> string \<Rightarrow> string \<Rightarrow> 'w \<Rightarrow> 'w execution_context" where
  "node_context b task_id plan_id run_id w =
     \<lparr>cx_task_id = task_id, cx_plan_id = plan_id, cx_run_id = run_id, cx_artifact_manager = rb_artifact_manager b,
      cx_runtime_manager = rb_runtime_manager b, cx_docker_driver = rb_docker_driver b,
      cx_command_controller = rb_command_controller b, cx_package_inspector = rb_package_inspector b,
      cx_env_inspector = rb_env_inspector b, cx_variables = [], cx_step_outputs = [], cx_artifact_refs = [],
      cx_runtime_refs = [], cx_metadata = [], cx_world = w\<rparr>"

text \<open>\<open>f"{v}"\<close>\<close>

definition show_value :: "text_library \<Rightarrow> pyval \<Rightarrow> string" where
  "show_value lib v = (case v of PInt i \<Rightarrow> int_str i | _ \<Rightarrow> py_str lib v)"

definition execute_node :: "'w agent_runtime \<Rightarrow> pyval dict \<Rightarrow> ('w, pyval dict) sx" where
  "execute_node rt st =
     sx_bind (sx_lift (res_bind (py_item (PDict st) ''plan'') plan_from_dict)) (\<lambda>plan.
     let run_id = ''run_'' @ show_value (ar_lib rt) (dget_default st ''iteration'' (PInt 0)) in
     sx_bind (sx_lift (res_bind (py_item (PDict st) ''task_id'') (\<lambda>v. typed (get_str (Some v))))) (\<lambda>task_id.
     sx_bind (sx_lift (typed (get_str (Some (dget_default st ''plan_id'' (PStr ''plan_pending'')))))) (\<lambda>plan_id.
     sx_bind (\<lambda>w. case engine_run (ar_services rt) (ar_executors rt) plan
                      (node_context (ar_bindings rt) task_id plan_id run_id w) of (r, c) \<Rightarrow> (r, cx_world c))
       (\<lambda>result. sx_return [(''run_id'', PStr run_id), (''execution_result'', run_result_value result)]))))"

text \<open>\<open>int(v)\<close>\<close>

fun py_int :: "text_library \<Rightarrow> pyval \<Rightarrow> int res" where
  "py_int lib (PInt i) = Inr i"
| "py_int lib (PBool b) = Inr (if b then 1 else 0)"
| "py_int lib (PFloat q) = Inr (trunc q)"
| "py_int lib (PStr s) = lib_int lib s"
| "py_int lib _ = Inl TypeError"

definition task_check_node :: "'w agent_runtime \<Rightarrow> pyval dict \<Rightarrow> ('w, pyval dict) sx" where
  "task_check_node rt st =
     sx_bind (sx_lift (py_item (PDict st) ''task_id'')) (\<lambda>task_id.
     sx_bind (sx_lift (py_item (PDict st) ''task_type'')) (\<lambda>task_type.
     sx_bind (sx_lift (py_item (PDict st) ''user_goal'')) (\<lambda>goal.
     sx_bind (sx_lift (py_int (ar_lib rt) (dget_default st ''iteration'' (PInt 0)))) (\<lambda>iteration.
     sx_bind (sx_lift (py_iter (dget_default st ''artifact_refs'' (PList [])))) (\<lambda>refs.
     sx_bind (ar_checker rt
       \<lparr>tq_task_id = task_id, tq_task_type = task_type, tq_user_goal = goal, tq_iteration = iteration,
        tq_plan = pget st ''plan'', tq_execution_result = pget st ''execution_result'',
        tq_capability_snapshot_id = pget st ''capability_snapshot_id'',
        tq_capability_digest = pget st ''capability_digest'', tq_previous_attempts = [],
        tq_artifact_refs = refs, tq_metadata = []\<rparr>) (\<lambda>decision.
       sx_return [(''task_check_decision'', PDict (task_check_to_dict decision))]))))))"

definition replan_context_node :: "'w agent_runtime \<Rightarrow> pyval dict \<Rightarrow> ('w, pyval dict) sx" where
  "replan_context_node rt st =
     sx_bind (sx_lift (py_int (ar_lib rt) (dget_default st ''iteration'' (PInt 0)))) (\<lambda>iteration.
     sx_bind (sx_lift (py_get (dget_default st ''task_check_decision'' (PDict [])) ''replan_hint'' PNone)) (\<lambda>hint.
     sx_bind (sx_lift (py_get (dget_default st ''task_check_decision'' (PDict [])) ''reason'' PNone)) (\<lambda>reason.
       sx_return [(''iteration'', PInt (iteration + 1)),
         (''replan_request'', PDict [(''reason'', py_or hint reason), (''from_iteration'', PInt iteration)])])))"

definition report_node :: "'w agent_runtime \<Rightarrow> pyval dict \<Rightarrow> ('w, pyval dict) sx" where
  "report_node rt st = sx_return
     [(''loop_status'', PStr ''succeeded''),
      (''report'', PDict [(''plan_id'', pget st ''plan_id''), (''run_id'', pget st ''run_id''),
                          (''decision'', pget st ''task_check_decision'')])]"

definition decision_content :: "pyval dict \<Rightarrow> pyval res" where
  "decision_content st = py_get (dget_default st ''interaction_decision'' (PDict [])) ''content'' (PStr [])"

definition content_node :: "string \<Rightarrow> pyval dict \<Rightarrow> ('w, pyval dict) sx" where
  "content_node status st =
     sx_bind (sx_lift (decision_content st))
       (\<lambda>c. sx_return [(''loop_status'', PStr status), (''response_content'', c)])"

definition direct_return_node :: "'w agent_runtime \<Rightarrow> pyval dict \<Rightarrow> ('w, pyval dict) sx" where
  "direct_return_node rt st = content_node ''returned'' st"

definition refuse_return_node :: "'w agent_runtime \<Rightarrow> pyval dict \<Rightarrow> ('w, pyval dict) sx" where
  "refuse_return_node rt st = content_node ''refused'' st"

definition human_interrupt_node :: "'w agent_runtime \<Rightarrow> pyval dict \<Rightarrow> ('w, pyval dict) sx" where
  "human_interrupt_node rt st = content_node ''need_human'' st"

definition fail_node :: "'w agent_runtime \<Rightarrow> pyval dict \<Rightarrow> ('w, pyval dict) sx" where
  "fail_node rt st = sx_return [(''loop_status'', PStr ''failed'')]"

end
