(* ===== verification/AgentLoop.thy ===== *)
theory AgentLoop
  imports AgentNodes
begin

text \<open>
  The agent loop: the routes, the graph and the single pass of \<open>agent_loop/graph_builder.py\<close>. The
  graph library is third-party: how it combines the entries a node returns with the state is the
  parameter \<open>combine\<close> of the step relation; the single pass uses \<open>dict.update\<close>, as the code does.
\<close>

section \<open>Routes\<close>

definition route_after_interaction_decision :: "pyval dict \<Rightarrow> string res" where
  "route_after_interaction_decision st =
     res_bind (py_get (dget_default st ''interaction_decision'' (PDict [])) ''mode'' PNone) (\<lambda>mode.
       if \<not> py_hashable mode then Inl TypeError
       else Inr (if mode = PStr ''PLAN'' then ''env_init''
                 else if mode = PStr ''RETURN'' then ''direct_return''
                 else if mode = PStr ''REFUSE'' then ''refuse_return''
                 else if mode = PStr ''HUMAN'' then ''human_interrupt''
                 else ''fail''))"

text \<open>\<open>result.get("passed") is True or result.get("status") == "passed"\<close>\<close>

definition route_after_validate :: "pyval dict \<Rightarrow> string res" where
  "route_after_validate st =
     res_bind (py_get (dget_default st ''validation_result'' (PDict [])) ''passed'' PNone) (\<lambda>passed.
     res_bind (py_get (dget_default st ''validation_result'' (PDict [])) ''status'' PNone) (\<lambda>status.
       Inr (if passed = PBool True \<or> py_eq status (PStr ''passed'') then ''preflight'' else ''fail'')))"

definition route_after_preflight :: "pyval dict \<Rightarrow> string res" where
  "route_after_preflight st =
     res_bind (py_get (dget_default st ''preflight_result'' (PDict [])) ''passed'' PNone) (\<lambda>passed.
       Inr (if passed = PBool True then ''execute'' else ''fail''))"

definition route_after_task_check :: "pyval dict \<Rightarrow> string res" where
  "route_after_task_check st =
     res_bind (py_get (dget_default st ''task_check_decision'' (PDict [])) ''route'' PNone) (\<lambda>route.
       Inr (if py_eq route (PStr ''end'') then ''report''
            else if py_eq route (PStr ''replan'') then ''replan_context''
            else if py_eq route (PStr ''human_interrupt'') then ''human_interrupt''
            else ''fail''))"

section \<open>Graph\<close>

type_synonym 'w agent_node = "'w agent_runtime \<Rightarrow> pyval dict \<Rightarrow> ('w, pyval dict) sx"

definition graph_nodes :: "(string \<times> 'w agent_node) list" where
  "graph_nodes =
     [(''interaction_decision'', interaction_decision_node), (''env_init'', env_init_node),
      (''capability_resolve'', capability_resolve_node), (''skill_select'', skill_select_node),
      (''plan'', plan_node), (''finalize'', finalize_node), (''validate'', validate_node),
      (''preflight'', preflight_node), (''execute'', execute_node), (''task_check'', task_check_node),
      (''replan_context'', replan_context_node), (''report'', report_node),
      (''direct_return'', direct_return_node), (''refuse_return'', refuse_return_node),
      (''fail'', fail_node), (''human_interrupt'', human_interrupt_node)]"

definition terminal_nodes :: "string list" where
  "terminal_nodes = [''report'', ''direct_return'', ''refuse_return'', ''fail'', ''human_interrupt'']"

definition fixed_edges :: "(string \<times> string) list" where
  "fixed_edges =
     [(''env_init'', ''capability_resolve''), (''capability_resolve'', ''skill_select''),
      (''skill_select'', ''plan''), (''plan'', ''finalize''), (''finalize'', ''validate''),
      (''execute'', ''task_check''), (''replan_context'', ''capability_resolve'')]"

text \<open>The node after \<open>n\<close> in the state it leaves; \<open>None\<close> is \<open>END\<close>.\<close>

definition next_node :: "string \<Rightarrow> pyval dict \<Rightarrow> string option res" where
  "next_node n st =
     (if n \<in> set terminal_nodes then Inr None
      else if n = ''interaction_decision'' then res_bind (route_after_interaction_decision st) (\<lambda>m. Inr (Some m))
      else if n = ''validate'' then res_bind (route_after_validate st) (\<lambda>m. Inr (Some m))
      else if n = ''preflight'' then res_bind (route_after_preflight st) (\<lambda>m. Inr (Some m))
      else if n = ''task_check'' then res_bind (route_after_task_check st) (\<lambda>m. Inr (Some m))
      else Inr (map_of fixed_edges n))"

text \<open>One completed node of the compiled graph: it ran, its entries were combined, the edge was chosen.\<close>

inductive graph_step ::
  "'w agent_runtime \<Rightarrow> (pyval dict \<Rightarrow> pyval dict \<Rightarrow> pyval dict) \<Rightarrow>
     string option \<times> pyval dict \<times> 'w \<Rightarrow> string option \<times> pyval dict \<times> 'w \<Rightarrow> bool"
  for rt combine where
  graph_step: "map_of graph_nodes n = Some node \<Longrightarrow> node rt st w = (Inr update, w') \<Longrightarrow>
     st' = combine st update \<Longrightarrow> next_node n st' = Inr m \<Longrightarrow>
     graph_step rt combine (Some n, st, w) (m, st', w')"

inductive_cases graph_stepE: "graph_step rt combine (Some n, st, w) c"

definition initial_node :: string where
  "initial_node = ''interaction_decision''"

section \<open>Single pass\<close>

text \<open>\<open>s.update(node(s, runtime))\<close>\<close>

definition run_node :: "'w agent_runtime \<Rightarrow> 'w agent_node \<Rightarrow> pyval dict \<Rightarrow> ('w, pyval dict) sx" where
  "run_node rt node st = sx_bind (node rt st) (\<lambda>update. sx_return (dupdate st update))"

fun run_nodes :: "'w agent_runtime \<Rightarrow> 'w agent_node list \<Rightarrow> pyval dict \<Rightarrow> ('w, pyval dict) sx" where
  "run_nodes rt [] st = sx_return st"
| "run_nodes rt (node # rest) st = sx_bind (run_node rt node st) (run_nodes rt rest)"

definition planning_nodes :: "'w agent_node list" where
  "planning_nodes =
     [env_init_node, capability_resolve_node, skill_select_node, plan_node, finalize_node, validate_node]"

definition interaction_terminal :: "string \<Rightarrow> 'w agent_node" where
  "interaction_terminal route =
     (if route = ''direct_return'' then direct_return_node
      else if route = ''refuse_return'' then refuse_return_node
      else if route = ''human_interrupt'' then human_interrupt_node
      else fail_node)"

definition check_terminal :: "string \<Rightarrow> 'w agent_node" where
  "check_terminal route =
     (if route = ''report'' then report_node
      else if route = ''replan_context'' then replan_context_node
      else if route = ''human_interrupt'' then human_interrupt_node
      else fail_node)"

definition run_execution :: "'w agent_runtime \<Rightarrow> pyval dict \<Rightarrow> ('w, pyval dict) sx" where
  "run_execution rt st =
     sx_bind (run_nodes rt [execute_node, task_check_node] st) (\<lambda>st'.
     sx_bind (sx_lift (route_after_task_check st')) (\<lambda>route. run_node rt (check_terminal route) st'))"

definition run_checked :: "'w agent_runtime \<Rightarrow> pyval dict \<Rightarrow> ('w, pyval dict) sx" where
  "run_checked rt st =
     sx_bind (sx_lift (route_after_validate st)) (\<lambda>route.
       if route \<noteq> ''preflight'' then run_node rt fail_node st
       else
         sx_bind (run_node rt preflight_node st) (\<lambda>st'.
         sx_bind (sx_lift (route_after_preflight st')) (\<lambda>route'.
           if route' \<noteq> ''execute'' then run_node rt fail_node st' else run_execution rt st')))"

definition run_agent_loop_once :: "'w agent_runtime \<Rightarrow> pyval dict \<Rightarrow> ('w, pyval dict) sx" where
  "run_agent_loop_once rt state =
     sx_bind (run_node rt interaction_decision_node state) (\<lambda>st.
     sx_bind (sx_lift (route_after_interaction_decision st)) (\<lambda>route.
       if route \<noteq> ''env_init'' then run_node rt (interaction_terminal route) st
       else sx_bind (run_nodes rt planning_nodes st) (run_checked rt)))"

section \<open>Round trips\<close>

definition dumped_plan :: "execution_plan \<Rightarrow> execution_plan" where
  "dumped_plan p = p\<lparr>ep_steps := map dumped_step (ep_steps p),
     ep_global_constraints := asdict_dict (ep_global_constraints p),
     ep_plan_metadata := asdict_dict (ep_plan_metadata p)\<rparr>"

definition dumped_draft :: "execution_plan_draft \<Rightarrow> execution_plan_draft" where
  "dumped_draft d = d\<lparr>ed_steps := map dumped_step (ed_steps d), ed_metadata := asdict_dict (ed_metadata d)\<rparr>"

lemma step_or_kwargs_dumped: "step_or_kwargs (PDict (asdict_step s)) = Inr (dumped_step s)"
  by (simp add: step_or_kwargs_def step_roundtrip typed_def)

lemma dumped_steps: "res_map step_or_kwargs (map (\<lambda>s. PDict (asdict_step s)) ss) = Inr (map dumped_step ss)"
  by (induction ss) (simp_all add: step_or_kwargs_dumped)

lemma payload_steps_plan: "payload_steps (asdict_plan p) = Inr (map dumped_step (ep_steps p))"
  by (simp add: payload_steps_def asdict_plan_def dumped_steps)

lemma payload_steps_draft: "payload_steps (asdict_draft d) = Inr (map dumped_step (ed_steps d))"
  by (simp add: payload_steps_def asdict_draft_def dumped_steps)

lemma plan_keys:
  "list_all (\<lambda>k. k \<in> set plan_field_names) (dkeys (asdict_plan p))" "list_all (dhas (asdict_plan p)) required_plan_fields"
  by (simp_all add: asdict_plan_def plan_field_names_def required_plan_fields_def)

lemma draft_keys:
  "list_all (\<lambda>k. k \<in> set draft_field_names) (dkeys (asdict_draft d))" "list_all (dhas (asdict_draft d)) required_draft_fields"
  by (simp_all add: asdict_draft_def draft_field_names_def required_draft_fields_def)

lemma typed_plan_dumped: "typed_plan (asdict_plan p) ss =
    Some (p\<lparr>ep_steps := ss, ep_global_constraints := asdict_dict (ep_global_constraints p),
            ep_plan_metadata := asdict_dict (ep_plan_metadata p)\<rparr>)"
  by (simp add: typed_plan_def asdict_plan_def get_int_def)

lemma typed_draft_dumped: "typed_draft (asdict_draft d) ss =
    Some (d\<lparr>ed_steps := ss, ed_metadata := asdict_dict (ed_metadata d)\<rparr>)"
  by (simp add: typed_draft_def asdict_draft_def)

lemma plan_roundtrip: "plan_from_dict (PDict (asdict_plan p)) = Inr (dumped_plan p)"
  by (simp add: plan_from_dict_def payload_steps_plan plan_keys typed_plan_dumped typed_def dumped_plan_def)

lemma draft_roundtrip: "draft_from_dict (PDict (asdict_draft d)) = Inr (dumped_draft d)"
  by (simp add: draft_from_dict_def py_dict_def payload_steps_draft draft_keys typed_draft_dumped typed_def
      dumped_draft_def)

section \<open>Preflight and the engine\<close>

definition step_action :: "plan_step \<Rightarrow> pyval" where
  "step_action s = pget (asdict_dict (ps_inputs s)) ''action''"

definition unhashable_action :: "plan_step \<Rightarrow> bool" where
  "unhashable_action s \<longleftrightarrow> ps_kind s = RUN_COMMAND \<and> \<not> py_hashable (step_action s)"

definition step_cleared :: "string list \<Rightarrow> string list \<Rightarrow> plan_step \<Rightarrow> bool" where
  "step_cleared supported operators s \<longleftrightarrow>
     ps_kind s \<in> set supported
     \<and> (ps_kind s = RUN_COMMAND \<longrightarrow> step_action s = PNone \<or> (\<exists>a \<in> set operators. step_action s = PStr a))"

lemma py_or_dict: "py_or (PDict d) (PDict []) = PDict d"
  by (simp add: py_or_def)

lemma preflight_step_dumped:
  "preflight_step lib supported operators (PDict (asdict_step s)) =
     (if unhashable_action s then Inl TypeError
      else Inr ((if ps_kind s \<in> set supported then [] else [''unknown step executor for step kind: '' @ ps_kind s])
        @ (if ps_kind s = RUN_COMMAND \<and> step_action s \<noteq> PNone \<and> \<not> (\<exists>a \<in> set operators. step_action s = PStr a)
           then [''unknown action: '' @ py_str lib (step_action s)] else [])))"
  by (simp add: preflight_step_def asdict_step_def py_in_strs_iff py_str_def py_or_dict step_action_def pget_def Let_def
      unhashable_action_def)

lemma preflight_step_cleared:
  "preflight_step lib supported operators (PDict (asdict_step s)) = Inr es \<Longrightarrow>
     es = [] \<longleftrightarrow> step_cleared supported operators s"
  by (auto simp: preflight_step_dumped step_cleared_def split: if_splits)

lemma preflight_steps_cleared:
  "res_map (preflight_step lib supported operators) (map (\<lambda>s. PDict (asdict_step s)) ss) = Inr es \<Longrightarrow>
     concat es = [] \<longleftrightarrow> list_all (step_cleared supported operators) ss"
proof (induction ss arbitrary: es)
  case (Cons s ss)
  then obtain e es' where e: "preflight_step lib supported operators (PDict (asdict_step s)) = Inr e"
    "res_map (preflight_step lib supported operators) (map (\<lambda>s. PDict (asdict_step s)) ss) = Inr es'" "es = e # es'"
    by (auto simp: res_bind_Inr_iff)
  with Cons.IH [OF e(2)] preflight_step_cleared [OF e(1)] show ?case by simp
qed simp

lemma preflight_cleared:
  assumes "run_preflight lib supported operators (PDict (asdict_plan p)) = Inr r"
  shows "pf_passed r \<longleftrightarrow> list_all (step_cleared supported operators) (ep_steps p)"
proof -
  have "dget_default (asdict_plan p) ''steps'' (PList []) = PList (map (\<lambda>s. PDict (asdict_step s)) (ep_steps p))"
    by (simp add: asdict_plan_def)
  with assms obtain es where
    es: "res_map (preflight_step lib supported operators) (map (\<lambda>s. PDict (asdict_step s)) (ep_steps p)) = Inr es"
    "pf_passed r = (concat es = [])"
    by (auto simp: run_preflight_def res_bind_Inr_iff)
  with preflight_steps_cleared [OF es(1)] show ?thesis by simp
qed


section \<open>The single pass is a path of the graph\<close>

definition graph_reaches ::
  "'w agent_runtime \<Rightarrow> (pyval dict \<Rightarrow> pyval dict \<Rightarrow> pyval dict) \<Rightarrow>
     string option \<times> pyval dict \<times> 'w \<Rightarrow> string option \<times> pyval dict \<times> 'w \<Rightarrow> bool" where
  "graph_reaches rt combine = (graph_step rt combine)\<^sup>*\<^sup>*"

lemma run_node_reaches:
  assumes "run_node rt node st w = (Inr st', w')" "map_of graph_nodes n = Some node" "next_node n st' = Inr m"
  shows "graph_reaches rt dupdate (Some n, st, w) (m, st', w')"
proof -
  from assms(1) obtain update where "node rt st w = (Inr update, w')" "st' = dupdate st update"
    by (auto simp: run_node_def sx_simps dest!: sx_bind_result)
  then show ?thesis
    using graph_step [where rt = rt and combine = dupdate, OF assms(2)] assms(3) by (auto simp: graph_reaches_def)
qed

lemma graph_reaches_trans: "graph_reaches rt combine a b \<Longrightarrow> graph_reaches rt combine b c \<Longrightarrow> graph_reaches rt combine a c"
  by (simp add: graph_reaches_def)

lemma fixed_step:
  "run_node rt node st w = (Inr st', w') \<Longrightarrow> map_of graph_nodes n = Some node \<Longrightarrow>
     (\<And>s. next_node n s = Inr (Some m)) \<Longrightarrow> graph_reaches rt dupdate (Some m, st', w') c \<Longrightarrow>
     graph_reaches rt dupdate (Some n, st, w) c"
  by (blast intro: graph_reaches_trans run_node_reaches)

lemma last_step:
  "run_node rt node st w = (Inr st', w') \<Longrightarrow> map_of graph_nodes n = Some node \<Longrightarrow>
     (\<And>s. next_node n s = Inr m) \<Longrightarrow> graph_reaches rt dupdate (Some n, st, w) (m, st', w')"
  by (blast intro: run_node_reaches)

lemma next_fixed [simp]:
  "next_node ''env_init'' s = Inr (Some ''capability_resolve'')"
  "next_node ''capability_resolve'' s = Inr (Some ''skill_select'')"
  "next_node ''skill_select'' s = Inr (Some ''plan'')"
  "next_node ''plan'' s = Inr (Some ''finalize'')"
  "next_node ''finalize'' s = Inr (Some ''validate'')"
  "next_node ''execute'' s = Inr (Some ''task_check'')"
  "next_node ''replan_context'' s = Inr (Some ''capability_resolve'')"
  "next_node ''report'' s = Inr None" "next_node ''direct_return'' s = Inr None"
  "next_node ''refuse_return'' s = Inr None" "next_node ''fail'' s = Inr None"
  "next_node ''human_interrupt'' s = Inr None"
  by (simp_all add: next_node_def terminal_nodes_def fixed_edges_def)

lemma next_routed [simp]:
  "next_node ''interaction_decision'' s = res_bind (route_after_interaction_decision s) (\<lambda>m. Inr (Some m))"
  "next_node ''validate'' s = res_bind (route_after_validate s) (\<lambda>m. Inr (Some m))"
  "next_node ''preflight'' s = res_bind (route_after_preflight s) (\<lambda>m. Inr (Some m))"
  "next_node ''task_check'' s = res_bind (route_after_task_check s) (\<lambda>m. Inr (Some m))"
  by (simp_all add: next_node_def terminal_nodes_def)

lemma graph_nodes_simps [simp]:
  "map_of graph_nodes ''interaction_decision'' = Some interaction_decision_node"
  "map_of graph_nodes ''env_init'' = Some env_init_node"
  "map_of graph_nodes ''capability_resolve'' = Some capability_resolve_node"
  "map_of graph_nodes ''skill_select'' = Some skill_select_node"
  "map_of graph_nodes ''plan'' = Some plan_node" "map_of graph_nodes ''finalize'' = Some finalize_node"
  "map_of graph_nodes ''validate'' = Some validate_node" "map_of graph_nodes ''preflight'' = Some preflight_node"
  "map_of graph_nodes ''execute'' = Some execute_node" "map_of graph_nodes ''task_check'' = Some task_check_node"
  "map_of graph_nodes ''replan_context'' = Some replan_context_node" "map_of graph_nodes ''report'' = Some report_node"
  "map_of graph_nodes ''direct_return'' = Some direct_return_node"
  "map_of graph_nodes ''refuse_return'' = Some refuse_return_node" "map_of graph_nodes ''fail'' = Some fail_node"
  "map_of graph_nodes ''human_interrupt'' = Some human_interrupt_node"
  by (simp_all add: graph_nodes_def)

lemma run_nodes_result:
  assumes "run_nodes rt (node # rest) st w = (Inr st', w')"
  obtains s v where "run_node rt node st w = (Inr s, v)" "run_nodes rt rest s v = (Inr st', w')"
  using assms by (auto dest!: sx_bind_result)

lemma planning_reaches:
  assumes "run_nodes rt planning_nodes st w = (Inr st', w')" "route_after_validate st' = Inr m"
  shows "graph_reaches rt dupdate (Some ''env_init'', st, w) (Some m, st', w')"
proof -
  from assms(1) obtain s1 w1 s2 w2 s3 w3 s4 w4 s5 w5 where
    steps: "run_node rt env_init_node st w = (Inr s1, w1)" "run_node rt capability_resolve_node s1 w1 = (Inr s2, w2)"
    "run_node rt skill_select_node s2 w2 = (Inr s3, w3)" "run_node rt plan_node s3 w3 = (Inr s4, w4)"
    "run_node rt finalize_node s4 w4 = (Inr s5, w5)" "run_node rt validate_node s5 w5 = (Inr st', w')"
    unfolding planning_nodes_def by (elim run_nodes_result) (simp add: sx_simps)
  note fixed = fixed_step [OF steps(1)] fixed_step [OF steps(2)] fixed_step [OF steps(3)] fixed_step [OF steps(4)]
    fixed_step [OF steps(5)]
  show ?thesis
    by (rule fixed(1) fixed(2) fixed(3) fixed(4) fixed(5) run_node_reaches [OF steps(6)] graph_nodes_simps next_fixed)+
      (simp add: assms(2))
qed


text \<open>What a run of the last node leaves, and where the graph goes from there.\<close>

definition loop_ends :: "string option \<Rightarrow> pyval dict \<Rightarrow> bool" where
  "loop_ends m st \<longleftrightarrow>
     (m = None \<and> (\<exists>status \<in> set [''succeeded'', ''returned'', ''refused'', ''failed'', ''need_human''].
        dget st ''loop_status'' = Some (PStr status)))
     \<or> (m = Some ''capability_resolve'' \<and> (\<exists>reason i.
          dget st ''replan_request'' = Some (PDict [(''reason'', reason), (''from_iteration'', PInt i)])
          \<and> dget st ''iteration'' = Some (PInt (i + 1))))"

lemma run_node_result:
  "run_node rt node st w = (Inr st', w') \<Longrightarrow> \<exists>update. node rt st w = (Inr update, w') \<and> st' = dupdate st update"
  by (auto simp: run_node_def sx_simps dest!: sx_bind_result)

lemmas end_node_defs = direct_return_node_def refuse_return_node_def human_interrupt_node_def content_node_def
  fail_node_def report_node_def

lemma end_node_ends:
  assumes "run_node rt node st w = (Inr st', w')" "map_of graph_nodes n = Some node" "n \<in> set terminal_nodes"
  shows "loop_ends None st'"
  using run_node_result [OF assms(1)] assms(2,3)
  by (auto simp: loop_ends_def terminal_nodes_def end_node_defs sx_simps dupdate_def dest!: sx_bind_result)

lemma end_node_reaches:
  assumes "run_node rt node st w = (Inr st', w')" "map_of graph_nodes n = Some node" "n \<in> set terminal_nodes"
  shows "graph_reaches rt dupdate (Some n, st, w) (None, st', w')"
  by (rule run_node_reaches [OF assms(1,2)]) (simp add: next_node_def assms(3))

lemma end_node:
  assumes "run_node rt node st w = (Inr st', w')" "map_of graph_nodes n = Some node" "n \<in> set terminal_nodes"
  shows "\<exists>m. graph_reaches rt dupdate (Some n, st, w) (m, st', w') \<and> loop_ends m st'"
  using end_node_reaches [OF assms] end_node_ends [OF assms] by blast

lemma replan_node:
  assumes "run_node rt replan_context_node st w = (Inr st', w')"
  shows "\<exists>m. graph_reaches rt dupdate (Some ''replan_context'', st, w) (m, st', w') \<and> loop_ends m st'"
proof -
  have "loop_ends (Some ''capability_resolve'') st'"
    using run_node_result [OF assms]
    by (auto simp: loop_ends_def replan_context_node_def sx_simps dupdate_def dest!: sx_bind_result)
  with last_step [OF assms graph_nodes_simps(11) next_fixed(7)] show ?thesis by blast
qed

lemma check_terminal_ends:
  assumes "run_node rt (check_terminal route) st w = (Inr st', w')"
    "route \<in> {''report'', ''replan_context'', ''human_interrupt'', ''fail''}"
  shows "\<exists>m. graph_reaches rt dupdate (Some route, st, w) (m, st', w') \<and> loop_ends m st'"
proof (cases "route = ''replan_context''")
  case True
  then show ?thesis using replan_node assms(1) by (simp add: check_terminal_def)
next
  case False
  then show ?thesis using assms by (auto simp: check_terminal_def terminal_nodes_def intro!: end_node)
qed

lemma interaction_terminal_ends:
  assumes "run_node rt (interaction_terminal route) st w = (Inr st', w')"
    "route \<in> {''direct_return'', ''refuse_return'', ''human_interrupt'', ''fail''}"
  shows "\<exists>m. graph_reaches rt dupdate (Some route, st, w) (m, st', w') \<and> loop_ends m st'"
  using assms by (auto simp: interaction_terminal_def terminal_nodes_def intro!: end_node)

lemma routes_known:
  "route_after_interaction_decision st = Inr r \<Longrightarrow>
     r \<in> {''env_init'', ''direct_return'', ''refuse_return'', ''human_interrupt'', ''fail''}"
  "route_after_validate st = Inr r \<Longrightarrow> r \<in> {''preflight'', ''fail''}"
  "route_after_preflight st = Inr r \<Longrightarrow> r \<in> {''execute'', ''fail''}"
  "route_after_task_check st = Inr r \<Longrightarrow> r \<in> {''report'', ''replan_context'', ''human_interrupt'', ''fail''}"
  by (auto simp: route_after_interaction_decision_def route_after_validate_def route_after_preflight_def
      route_after_task_check_def res_bind_Inr_iff split: if_splits)

lemma run_execution_reaches:
  assumes "run_execution rt st w = (Inr st', w')"
  shows "\<exists>m. graph_reaches rt dupdate (Some ''execute'', st, w) (m, st', w') \<and> loop_ends m st'"
proof -
  from assms obtain s1 w1 s2 w2 route where
    steps: "run_node rt execute_node st w = (Inr s1, w1)" "run_node rt task_check_node s1 w1 = (Inr s2, w2)"
    "route_after_task_check s2 = Inr route" "run_node rt (check_terminal route) s2 w2 = (Inr st', w')"
    unfolding run_execution_def by (auto simp: sx_simps dest!: sx_bind_result)
  from check_terminal_ends [OF steps(4)] routes_known(4) [OF steps(3)] obtain m where
    m: "graph_reaches rt dupdate (Some route, s2, w2) (m, st', w')" "loop_ends m st'" by blast
  have "graph_reaches rt dupdate (Some ''task_check'', s1, w1) (Some route, s2, w2)"
    by (rule run_node_reaches [OF steps(2)]) (simp_all add: steps(3))
  with m fixed_step [OF steps(1) graph_nodes_simps(9) next_fixed(6)] show ?thesis
    by (blast intro: graph_reaches_trans)
qed

lemma run_checked_reaches:
  assumes "run_checked rt st w = (Inr st', w')" "route_after_validate st = Inr route"
  shows "\<exists>m. graph_reaches rt dupdate (Some route, st, w) (m, st', w') \<and> loop_ends m st'"
proof (cases "route = ''preflight''")
  case False
  then have "route = ''fail''" "run_node rt fail_node st w = (Inr st', w')"
    using assms routes_known(2) [OF assms(2)] by (auto simp: run_checked_def sx_bind_def sx_simps)
  then show ?thesis by (auto intro!: end_node simp: terminal_nodes_def)
next
  case True
  with assms obtain s1 w1 route' where
    pre: "run_node rt preflight_node st w = (Inr s1, w1)" "route_after_preflight s1 = Inr route'"
    and rest: "(if route' \<noteq> ''execute'' then run_node rt fail_node s1 else run_execution rt s1) w1 = (Inr st', w')"
    by (auto simp: run_checked_def sx_simps dest!: sx_bind_result)
  have "graph_reaches rt dupdate (Some ''preflight'', st, w) (Some route', s1, w1)"
    by (rule run_node_reaches [OF pre(1)]) (simp_all add: pre(2))
  moreover have "\<exists>m. graph_reaches rt dupdate (Some route', s1, w1) (m, st', w') \<and> loop_ends m st'"
    using rest routes_known(3) [OF pre(2)] run_execution_reaches [of rt s1 w1 st' w']
    by (auto intro!: end_node simp: terminal_nodes_def split: if_splits)
  ultimately show ?thesis using True by (blast intro: graph_reaches_trans)
qed


lemma loop_pass:
  assumes "run_agent_loop_once rt st w = (Inr st', w')"
  shows "\<exists>m. graph_reaches rt dupdate (Some initial_node, st, w) (m, st', w') \<and> loop_ends m st'"
proof -
  from assms obtain s1 w1 route where
    first: "run_node rt interaction_decision_node st w = (Inr s1, w1)" "route_after_interaction_decision s1 = Inr route"
    and rest: "(if route \<noteq> ''env_init'' then run_node rt (interaction_terminal route) s1
                else sx_bind (run_nodes rt planning_nodes s1) (run_checked rt)) w1 = (Inr st', w')"
    unfolding run_agent_loop_once_def by (auto simp: sx_simps dest!: sx_bind_result)
  have start: "graph_reaches rt dupdate (Some initial_node, st, w) (Some route, s1, w1)"
    unfolding initial_node_def by (rule run_node_reaches [OF first(1)]) (simp_all add: first(2))
  have "\<exists>m. graph_reaches rt dupdate (Some route, s1, w1) (m, st', w') \<and> loop_ends m st'"
  proof (cases "route = ''env_init''")
    case False
    then show ?thesis using rest routes_known(1) [OF first(2)] by (auto intro!: interaction_terminal_ends)
  next
    case True
    with rest obtain s2 w2 where s2: "run_nodes rt planning_nodes s1 w1 = (Inr s2, w2)"
      "run_checked rt s2 w2 = (Inr st', w')" by (auto dest!: sx_bind_result)
    then obtain next_route where nr: "route_after_validate s2 = Inr next_route"
      unfolding run_checked_def by (auto simp: sx_simps dest!: sx_bind_result)
    then show ?thesis
      using planning_reaches [OF s2(1) nr] run_checked_reaches [OF s2(2) nr] True by (blast intro: graph_reaches_trans)
  qed
  with start show ?thesis by (blast intro: graph_reaches_trans)
qed

section \<open>What was checked before a plan is executed\<close>

definition state_plan :: "pyval dict \<Rightarrow> pyval res" where
  "state_plan st = py_item (PDict st) ''plan''"

definition plan_validated :: "'w agent_runtime \<Rightarrow> pyval dict \<Rightarrow> bool" where
  "plan_validated rt st \<longleftrightarrow>
     (\<exists>plan snapshot now r. res_bind (state_plan st) plan_from_dict = Inr plan \<and> state_snapshot rt st = Inr snapshot
        \<and> validate_plan (ar_validator rt) (ar_frames rt) now (FinalPlan plan) snapshot = Inr r \<and> pv_passed r)"

definition plan_preflighted :: "'w agent_runtime \<Rightarrow> pyval dict \<Rightarrow> bool" where
  "plan_preflighted rt st \<longleftrightarrow>
     (\<exists>v r. state_plan st = Inr v \<and> pf_passed r
        \<and> run_preflight (ar_lib rt) (supported_step_kinds (ar_executors rt))
            (if rb_command_controller (ar_bindings rt) then ar_operators rt else []) v = Inr r)"

text \<open>
  How a graph library may form the next state: by updating the state with the entries the node returned, or by taking
  these entries as the state, which is what \<open>StateGraph(dict)\<close> does, whose single channel holds the last value written.
\<close>

definition keeps_or_replaces :: "(pyval dict \<Rightarrow> pyval dict \<Rightarrow> pyval dict) \<Rightarrow> bool" where
  "keeps_or_replaces combine \<longleftrightarrow> (\<forall>st update. combine st update = dupdate st update \<or> combine st update = update)"


text \<open>A state that has lost the plan and the task.\<close>

definition plan_lost :: "pyval dict \<Rightarrow> bool" where
  "plan_lost st \<longleftrightarrow> dget st ''plan'' = None \<and> dget st ''task_id'' = None"

definition loop_checked :: "'w agent_runtime \<Rightarrow> string option \<times> pyval dict \<times> 'w \<Rightarrow> bool" where
  "loop_checked rt c = (case c of (n, st, w) \<Rightarrow>
     (n = Some ''preflight'' \<longrightarrow> plan_validated rt st \<or> plan_lost st)
     \<and> (n = Some ''execute'' \<longrightarrow> plan_validated rt st \<and> plan_preflighted rt st \<or> plan_lost st))"

lemma checks_kept:
  "k \<noteq> ''plan'' \<Longrightarrow> k \<noteq> ''capability_snapshot'' \<Longrightarrow>
     plan_validated rt (dput k v st) = plan_validated rt st \<and> plan_preflighted rt (dput k v st) = plan_preflighted rt st"
  by (simp add: plan_validated_def plan_preflighted_def state_plan_def state_snapshot_def pget_def dget_default_dget
      cong: option.case_cong)

lemma validate_node_checks:
  assumes "validate_node rt st w = (Inr update, w')" "route_after_validate (dupdate st update) = Inr ''preflight''"
  shows "plan_validated rt (dupdate st update)"
proof -
  from assms(1) obtain plan snapshot now r where
    v: "res_bind (state_plan st) plan_from_dict = Inr plan" "state_snapshot rt st = Inr snapshot"
    "validate_plan (ar_validator rt) (ar_frames rt) now (FinalPlan plan) snapshot = Inr r"
    and u: "update = [(''validation_result'', asdict_validation (ar_message rt) r)]"
    unfolding validate_node_def state_plan_def by (auto simp: sx_simps dest!: sx_bind_result)
  have "pv_status r = PASSED"
    using assms(2) by (simp add: u dupdate_def route_after_validate_def asdict_validation_def
        dget_default_dget split: if_splits)
  with v have "plan_validated rt st" unfolding plan_validated_def pv_passed_def by blast
  then show ?thesis by (simp add: u dupdate_def checks_kept)
qed

lemma preflight_node_checks:
  assumes "preflight_node rt st w = (Inr update, w')" "route_after_preflight (dupdate st update) = Inr ''execute''"
  shows "plan_preflighted rt (dupdate st update)" "plan_validated rt (dupdate st update) = plan_validated rt st"
proof -
  from assms(1) obtain v r where
    v: "state_plan st = Inr v" "run_preflight (ar_lib rt) (supported_step_kinds (ar_executors rt))
        (if rb_command_controller (ar_bindings rt) then ar_operators rt else []) v = Inr r"
    and u: "update = [(''preflight_result'', asdict_preflight r)]"
    unfolding preflight_node_def state_plan_def by (auto simp: sx_simps dest!: sx_bind_result)
  have "pf_passed r"
    using assms(2) by (simp add: u dupdate_def route_after_preflight_def asdict_preflight_def dget_default_dget
        split: if_splits)
  with v have "plan_preflighted rt st" unfolding plan_preflighted_def by blast
  then show "plan_preflighted rt (dupdate st update)" "plan_validated rt (dupdate st update) = plan_validated rt st"
    by (simp_all add: u dupdate_def checks_kept)
qed

lemma preflight_after_validate:
  assumes "next_node n st = Inr (Some ''preflight'')"
  shows "n = ''validate''" "route_after_validate st = Inr ''preflight''"
  using assms by (auto simp: next_node_def fixed_edges_def res_bind_Inr_iff dest: routes_known split: if_splits)

lemma execute_after_preflight:
  assumes "next_node n st = Inr (Some ''execute'')"
  shows "n = ''preflight''" "route_after_preflight st = Inr ''execute''"
  using assms by (auto simp: next_node_def fixed_edges_def res_bind_Inr_iff dest: routes_known split: if_splits)

lemma check_updates:
  "validate_node rt st w = (Inr update, w') \<Longrightarrow> plan_lost update"
  "preflight_node rt st w = (Inr update, w') \<Longrightarrow> plan_lost update \<and> \<not> plan_lost st"
  by (auto simp: validate_node_def preflight_node_def sx_simps plan_lost_def dest!: sx_bind_result split: option.splits)

lemma loop_checked_step:
  assumes "graph_step rt combine c c'" "loop_checked rt c" "keeps_or_replaces combine"
  shows "loop_checked rt c'"
  using assms
proof (induction rule: graph_step.induct)
  case (graph_step n node st w update w' st' m)
  have st': "st' = dupdate st update \<or> st' = update"
    using graph_step.hyps(3) graph_step.prems(2) by (auto simp: keeps_or_replaces_def)
  have "plan_validated rt st' \<or> plan_lost st'" if "m = Some ''preflight''"
    using graph_step.hyps that st' preflight_after_validate [of n st'] validate_node_checks [of rt st w update w']
      check_updates(1) [of rt st w update w'] by auto
  moreover have "plan_validated rt st' \<and> plan_preflighted rt st' \<or> plan_lost st'" if "m = Some ''execute''"
    using graph_step that st' execute_after_preflight [of n st'] preflight_node_checks [of rt st w update w']
      check_updates(2) [of rt st w update w'] by (auto simp: loop_checked_def)
  ultimately show ?case by (simp add: loop_checked_def)
qed

lemma loop_checked_reachable:
  assumes "keeps_or_replaces combine" "graph_reaches rt combine (Some initial_node, st0, w0) c"
  shows "loop_checked rt c"
  using assms(2) unfolding graph_reaches_def
proof (induction rule: rtranclp_induct)
  case base
  show ?case by (simp add: loop_checked_def initial_node_def)
next
  case (step c c')
  then show ?case using assms(1) by (auto elim: loop_checked_step simp del: split_paired_All)
qed

lemma execute_without_plan: "plan_lost st \<Longrightarrow> execute_node rt st w = (Inl KeyError, w)"
  by (simp add: execute_node_def plan_lost_def sx_bind_def sx_simps)

section \<open>The graph that replaces its state\<close>







section \<open>The engine runs what preflight passed\<close>

lemma get_str_Some: "get_str v = Some s \<longleftrightarrow> v = Some (PStr s)"
  by (cases v rule: get_str.cases) simp_all

lemma typed_step_kind: "typed_step d = Some s \<Longrightarrow> dget d ''kind'' = Some (PStr (ps_kind s))"
  unfolding typed_step_def by (simp add: get_str_Some split: option.split_asm) auto

lemma kwargs_kind:
  assumes "step_or_kwargs (PDict d) = Inr s"
  shows "dget d ''kind'' = Some (PStr (ps_kind s))"
proof -
  from assms obtain x where "plan_step_of_kwargs (PDict d) = Inr x" "x = Some s"
    by (auto simp: step_or_kwargs_def typed_def res_bind_Inr_iff split: option.splits)
  then show ?thesis by (auto simp: plan_step_of_kwargs_def typed_step_kind split: if_splits)
qed

lemma preflight_step_kind:
  assumes "preflight_step lib supported operators v = Inr []" "step_or_kwargs v = Inr s"
  shows "ps_kind s \<in> set supported"
proof -
  obtain d where d: "v = PDict d" using assms(1) by (cases v) (simp_all add: preflight_step_def)
  then have "dget d ''kind'' = Some (PStr (ps_kind s))" using kwargs_kind assms(2) by blast
  then show ?thesis
    using assms(1) by (auto simp: d preflight_step_def dget_default_dget py_in_strs_iff Let_def res_bind_Inr_iff split: if_splits)
qed

lemma preflight_kinds:
  assumes "run_preflight lib supported operators v = Inr r" "pf_passed r" "plan_from_dict v = Inr plan"
  shows "list_all (\<lambda>s. ps_kind s \<in> set supported) (ep_steps plan)"
proof -
  from assms(3) obtain payload steps where p: "v = PDict payload" "payload_steps payload = Inr steps" "ep_steps plan = steps"
    by (auto simp: plan_from_dict_def typed_def typed_plan_def res_bind_Inr_iff split: pyval.splits option.splits if_splits)
  then obtain items where items: "py_iter (dget_default payload ''steps'' (PList [])) = Inr items"
    "res_map step_or_kwargs items = Inr steps"
    by (auto simp: payload_steps_def res_bind_Inr_iff)
  with assms(1,2) p obtain es where es: "res_map (preflight_step lib supported operators) items = Inr es" "concat es = []"
    by (auto simp: run_preflight_def res_bind_Inr_iff)
  have "list_all (\<lambda>v. preflight_step lib supported operators v = Inr []) items"
    using res_map_Inr_all [OF es(1)] es(2) by (simp add: list_all_length list_all2_conv_all_nth)
  then show ?thesis
    using res_map_Inr_all [OF items(2)] preflight_step_kind
    by (auto simp: p(3) list_all_length list_all2_conv_all_nth)
qed

lemma execute_node_returns:
  assumes "services_total (ar_services rt)" "plan_validated rt st" "plan_preflighted rt st"
    "state_plan st = Inr v" "dget st ''task_id'' = Some (PStr task_id)"
    "dget_default st ''plan_id'' (PStr ''plan_pending'') = PStr plan_id"
  shows "\<exists>update w'. execute_node rt st w = (Inr update, w')"
proof -
  from assms obtain plan where plan: "plan_from_dict v = Inr plan" by (auto simp: plan_validated_def)
  from assms(3,4) obtain r where "run_preflight (ar_lib rt) (supported_step_kinds (ar_executors rt))
    (if rb_command_controller (ar_bindings rt) then ar_operators rt else []) v = Inr r" "pf_passed r"
    by (auto simp: plan_preflighted_def)
  then have kinds: "list_all (\<lambda>s. ps_kind s \<in> set (supported_step_kinds (ar_executors rt))) (ep_steps plan)"
    using plan preflight_kinds by blast
  let ?run = "''run_'' @ show_value (ar_lib rt) (dget_default st ''iteration'' (PInt 0))"
  obtain rr c where "engine_run (ar_services rt) (ar_executors rt) plan
      (node_context (ar_bindings rt) task_id plan_id ?run w) = (Inr rr, c)"
    using engine_total [OF assms(1) kinds] by blast
  then show ?thesis
    using assms(4-6) plan by (simp add: execute_node_def state_plan_def sx_bind_def sx_simps typed_def Let_def)
qed


section \<open>Properties\<close>

text \<open>
  C4: the single pass walks the nodes, edges and routes of the graph. Whenever \<open>run_agent_loop_once\<close> returns, its state
  and world are reached from the first node by steps along the graph that update the state as the pass does
  (\<open>s.update(...)\<close>), and the walk stops at \<open>END\<close> with one of the five final states of the loop, or at
  \<open>capability_resolve\<close> after a replan request was written and the iteration counted up. (The compiled graph replaces its
  state instead: see \<open>replacing_graph_never_plans\<close>.)
\<close>

theorem single_pass_is_graph_path:
  assumes "run_agent_loop_once rt st w = (Inr st', w')"
  shows "\<exists>m. graph_reaches rt dupdate (Some initial_node, st, w) (m, st', w') \<and> loop_ends m st'"
  by (rule loop_pass [OF assms])

text \<open>
  C5: no unchecked plan is executed. Whether the state is updated with what a node returns, as the single pass does, or
  replaced by it, as the compiled graph does, and however often the loop replans: when the execute node is about to run,
  the plan in the state is one the plan validator passed against the capability snapshot in the state and one the
  preflight check passed, or there is no plan and the node raises \<open>KeyError\<close>.
\<close>

theorem executed_plans_are_checked:
  assumes "keeps_or_replaces combine" "graph_reaches rt combine (Some initial_node, st0, w0) (Some ''execute'', st, w)"
  shows "plan_validated rt st \<and> plan_preflighted rt st
    \<or> dget st ''plan'' = None \<and> execute_node rt st w = (Inl KeyError, w)"
  using loop_checked_reachable [OF assms] execute_without_plan [of st rt w] by (auto simp: loop_checked_def plan_lost_def)

text \<open>
  C6: a checked plan is executed to the end. When the execute node is about to run on a state that has the task, and the
  services of the engine do not raise, the node returns: preflight has established that every step of the plan has an
  executor. Task and plan identifiers are strings, as \<open>SdkAgentState\<close> declares; the plans are those the model can hold,
  whose fields have the types their classes declare, as every plan has that the planner and the finalizer make.
\<close>

theorem checked_plan_execution_returns:
  assumes "keeps_or_replaces combine" "graph_reaches rt combine (Some initial_node, st0, w0) (Some ''execute'', st, w)"
    "services_total (ar_services rt)" "dget st ''task_id'' = Some (PStr task_id)"
    "dget_default st ''plan_id'' (PStr ''plan_pending'') = PStr plan_id"
  shows "\<exists>update w'. execute_node rt st w = (Inr update, w')"
proof -
  have checked: "plan_validated rt st" "plan_preflighted rt st"
    using loop_checked_reachable [OF assms(1,2)] assms(4) by (auto simp: loop_checked_def plan_lost_def)
  then obtain v where "state_plan st = Inr v" by (auto simp: plan_preflighted_def)
  with checked assms(3-5) show ?thesis by (intro execute_node_returns)
qed


text \<open>
  Preflight of a plan either raises, which happens only when the action of a run_command step
  has no hash, or passes exactly when every step has an executor and every run_command step names no
  action or a registered operator.
\<close>

theorem preflight_exact:
  "case run_preflight lib supported operators (PDict (asdict_plan p)) of
     Inl e \<Rightarrow> e = TypeError \<and> list_ex unhashable_action (ep_steps p)
   | Inr r \<Rightarrow> pf_passed r = list_all (step_cleared supported operators) (ep_steps p)
       \<and> \<not> list_ex unhashable_action (ep_steps p)"
proof -
  have steps: "dget_default (asdict_plan p) ''steps'' (PList []) = PList (map (\<lambda>s. PDict (asdict_step s)) (ep_steps p))"
    by (simp add: asdict_plan_def)
  have "case res_map (preflight_step lib supported operators) (map (\<lambda>s. PDict (asdict_step s)) ss) of
     Inl e \<Rightarrow> e = TypeError \<and> list_ex unhashable_action ss
   | Inr r \<Rightarrow> \<not> list_ex unhashable_action ss" for ss
    by (induction ss) (auto simp: preflight_step_dumped split: sum.splits)
  from this [of "ep_steps p"] show ?thesis
    using preflight_cleared [of lib supported operators p]
    by (auto simp: run_preflight_def steps split: sum.splits)
qed

text \<open>
  C15: a plan and a draft survive the way through the state of the loop: \<open>to_jsonable\<close> followed by
  \<open>_plan_from_dict\<close> or \<open>_draft_from_dict\<close> gives the same object, the values of its free-form
  dictionaries converted by \<open>asdict\<close>, and its steps with the same fields.
\<close>

theorem plan_state_roundtrip:
  "plan_from_dict (PDict (asdict_plan p)) = Inr (dumped_plan p)
   \<and> draft_from_dict (PDict (asdict_draft d)) = Inr (dumped_draft d)"
  using plan_roundtrip draft_roundtrip by blast

text \<open>
  The bound on the iterations of the loop has no effect. No node and no route of the graph reads
  \<open>max_iterations\<close>: with another value, a node returns the same entries and leaves the same world,
  and the same node follows. (The hook that overrides the capability input is user code and absent.)
\<close>

theorem iteration_limit_has_no_effect:
  assumes "map_of graph_nodes n = Some node" "ar_capability_input rt = None"
  shows "node rt (dput ''max_iterations'' v st) w = node rt st w
    \<and> next_node n (dput ''max_iterations'' v st) = next_node n st"
proof (rule conjI)
  let ?st = "dput ''max_iterations'' v st"
  have get: "dget_default ?st k x = dget_default st k x" "dget ?st k = dget st k" "pget ?st k = pget st k"
    "py_item (PDict ?st) k = py_item (PDict st) k" if "k \<noteq> ''max_iterations''" for k x
    using that by (simp_all add: pget_def dget_default_dget)
  show "node rt ?st w = node rt st w"
    using assms
    by (auto simp: graph_nodes_def get interaction_decision_node_def env_init_node_def capability_resolve_node_def
        capability_input_def default_capability_input_def skill_select_node_def plan_node_def plan_node_input_def
        finalize_node_def state_snapshot_def validate_node_def preflight_node_def execute_node_def task_check_node_def
        replan_context_node_def end_node_defs decision_content_def simp del: py_item.simps
        cong: option.case_cong split: if_splits)
  show "next_node n ?st = next_node n st"
    by (simp add: next_node_def get route_after_interaction_decision_def route_after_validate_def
        route_after_preflight_def route_after_task_check_def)
qed

section \<open>Witnesses\<close>

definition sample_draft :: execution_plan_draft where
  "sample_draft =
     \<lparr>ed_task_id = ''t'', ed_task_type = ''demo'', ed_goal = ''g'', ed_planner_name = ''p'', ed_planner_version = ''1'',
      ed_plan_summary = [], ed_steps = [plan_step_with_defaults ''s1'' ''probe'' EXECUTE_PROBE ''i''], ed_assumptions = [],
      ed_missing_information = [], ed_risk_notes = [], ed_raw_llm_output = None, ed_metadata = []\<rparr>"

definition sample_snapshot :: capability_snapshot where
  "sample_snapshot = build_snapshot (\<lambda>_. ''d'') ''capsnap'' sample_registry sample_request"

definition sample_runtime :: "unit agent_runtime" where
  "sample_runtime =
     \<lparr>ar_lib = sample_library,
      ar_bindings = \<lparr>rb_artifact_manager = True, rb_runtime_manager = False, rb_docker_driver = False,
        rb_command_controller = True, rb_package_inspector = False, rb_env_inspector = False\<rparr>,
      ar_open_session = sx_return (), ar_operators = [], ar_decider = None, ar_registry = sample_registry,
      ar_digest = (\<lambda>_. ''d''), ar_dump_snapshot = (\<lambda>s. PDict [(''snapshot_id'', PStr (cs_snapshot_id s))]),
      ar_load_snapshot = (\<lambda>_. Inr sample_snapshot), ar_snapshot_obj = None, ar_capability_input = None,
      ar_planner = (\<lambda>_. sx_return sample_draft), ar_validator = default_plan_validator, ar_frames = 10,
      ar_message = (\<lambda>_. ''m''), ar_services = sample_services,
      ar_executors = [(EXECUTE_PROBE, sample_executor\<lparr>ex_step_kind := EXECUTE_PROBE\<rparr>)],
      ar_checker = (\<lambda>_. sx_return unreadable_check), ar_time = sx_return 0, ar_new_id = sx_return\<rparr>"

definition sample_state :: "pyval dict" where
  "sample_state = [(''task_id'', PStr ''t''), (''task_type'', PStr ''demo''), (''user_goal'', PStr ''g'')]"

definition sample_final_plan :: execution_plan where
  "sample_final_plan = finalize_plan ''plan'' 0 (dumped_draft sample_draft) PLANNER_LLM None None 0 (Some sample_snapshot) None None None"

text \<open>What the nodes of the sample run need of the state.\<close>

definition sample_task :: "pyval dict \<Rightarrow> bool" where
  "sample_task st \<longleftrightarrow> dget st ''task_id'' = Some (PStr ''t'') \<and> dget st ''task_type'' = Some (PStr ''demo'')
     \<and> dget st ''user_goal'' = Some (PStr ''g'')"

lemmas sample_eval = sample_runtime_def run_node_def sx_bind_def sx_simps dupdate_def sample_task_def pget_def dget_default_dget

lemma sample_interaction_run:
  "\<exists>s. run_node sample_runtime interaction_decision_node sample_state () = (Inr s, ()) \<and> sample_task s
     \<and> route_after_interaction_decision s = Inr ''env_init''"
  by (simp add: sample_eval sample_state_def interaction_decision_node_def default_decision_def asdict_decision_def
      py_or_def Let_def route_after_interaction_decision_def asdict_value.simps)

lemma sample_env_run:
  "sample_task st \<Longrightarrow> \<exists>s. run_node sample_runtime env_init_node st () = (Inr s, ()) \<and> sample_task s
     \<and> dget s ''available_context_keys'' = Some (py_strs [''artifact_manager'', ''command_controller''])"
  by (simp add: sample_eval env_init_node_def build_available_context_keys_def)

lemma render_snapshot_returns:
  "\<exists>prompt. render_capabilities_for_prompt json_text (build_snapshot digest sid reg r) = Inr prompt"
proof -
  let ?s = "build_snapshot digest sid reg r"
  have "map ca_capability_id (cs_availability ?s) = map cd_capability_id (cs_capabilities ?s)"
    by (simp add: build_snapshot_def Let_def o_def)
  then have "dhas (dict_by ca_capability_id (\<lambda>a. a) (cs_availability ?s)) (cd_capability_id d)"
    if "d \<in> set (cs_capabilities ?s)" for d
    using that dict_by_dget_None [of ca_capability_id "\<lambda>a. a" "cs_availability ?s" "cd_capability_id d"]
    by (metis dhas_dget image_eqI list.set_map)
  then show ?thesis unfolding render_capabilities_for_prompt_def Let_def by (auto simp: list_ex_iff)
qed

lemma sample_resolve_run:
  assumes "sample_task st" "dget st ''available_context_keys'' = Some (py_strs [''artifact_manager'', ''command_controller''])"
  shows "\<exists>s. run_node sample_runtime capability_resolve_node st () = (Inr s, ()) \<and> sample_task s
     \<and> dget s ''capability_snapshot'' = Some (PDict [(''snapshot_id'', PStr ''capsnap'')])"
proof -
  obtain r where r: "capability_input sample_runtime st = Inr r"
    using assms by (simp add: sample_eval capability_input_def default_capability_input_def py_strs_def
        model_opt_str_def model_strs_def)
  let ?s = "build_snapshot (\<lambda>_. ''d'') ''capsnap'' sample_registry r"
  obtain prompt where "render_capabilities_for_prompt (lib_dumps sample_library False True) ?s = Inr prompt"
    using render_snapshot_returns by blast
  moreover have "cs_snapshot_id ?s = ''capsnap''" by (simp add: build_snapshot_def Let_def)
  moreover have "ar_lib sample_runtime = sample_library" "ar_new_id sample_runtime = sx_return"
    "ar_digest sample_runtime = (\<lambda>_. ''d'')" "ar_registry sample_runtime = sample_registry"
    "ar_dump_snapshot sample_runtime s = PDict [(''snapshot_id'', PStr (cs_snapshot_id s))]" for s
    by (simp_all add: sample_runtime_def)
  ultimately show ?thesis
    using assms(1) by (simp add: capability_resolve_node_def r run_node_def sx_bind_def sx_simps Let_def
        dupdate_def sample_task_def)
qed

lemma sample_skill_run:
  "sample_task st \<Longrightarrow> \<exists>s. run_node sample_runtime skill_select_node st () = (Inr s, ()) \<and> sample_task s
     \<and> dget s ''capability_snapshot'' = dget st ''capability_snapshot''"
  by (simp add: sample_eval skill_select_node_def)

lemma sample_plan_run:
  "sample_task st \<Longrightarrow> dget st ''capability_snapshot'' = Some (PDict [(''snapshot_id'', PStr ''capsnap'')]) \<Longrightarrow>
     \<exists>s. run_node sample_runtime plan_node st () = (Inr s, ()) \<and> sample_task s
     \<and> dget s ''capability_snapshot'' = dget st ''capability_snapshot''
     \<and> dget s ''draft_plan'' = Some (PDict (asdict_draft sample_draft))"
  by (simp add: sample_eval plan_node_def plan_node_input_def typed_def)

lemma sample_finalize_run:
  "sample_task st \<Longrightarrow> dget st ''capability_snapshot'' = Some (PDict [(''snapshot_id'', PStr ''capsnap'')]) \<Longrightarrow>
   dget st ''draft_plan'' = Some (PDict (asdict_draft sample_draft)) \<Longrightarrow>
     \<exists>s. run_node sample_runtime finalize_node st () = (Inr s, ()) \<and> sample_task s
     \<and> dget s ''capability_snapshot'' = dget st ''capability_snapshot'' \<and> dget s ''plan_id'' = Some (PStr ''plan'')
     \<and> dget s ''plan'' = Some (PDict (asdict_plan sample_final_plan))"
  by (simp add: sample_eval finalize_node_def state_snapshot_def draft_roundtrip Let_def sample_final_plan_def)
    (simp add: finalize_plan_def)


lemma sample_plan_valid:
  "\<exists>r. validate_plan default_plan_validator 10 0 (FinalPlan (dumped_plan sample_final_plan)) (Some sample_snapshot) = Inr r
     \<and> pv_passed r"
proof -
  have conf: "conforms (PDict []) (PDict [])"
    by (simp add: conforms.simps [of "PDict _"] keyword_holds_def has_type_def schema_properties_def)
  have digest: "cs_capability_digest sample_snapshot = ''d''" "cs_capability_digest (build_snapshot (\<lambda>_. ''d'') ''capsnap'' sample_registry sample_request) = ''d''"
    by (simp_all add: sample_snapshot_def build_snapshot_def Let_def)
  have steps: "ep_steps (dumped_plan sample_final_plan) = [dumped_step (dumped_step (plan_step_with_defaults ''s1'' ''probe'' EXECUTE_PROBE ''i''))]"
    by (simp add: dumped_plan_def sample_final_plan_def finalize_plan_def dumped_draft_def sample_draft_def)
  have meta: "digest_permitted default_plan_validator (ep_plan_metadata (dumped_plan sample_final_plan)) ''d''"
    by (simp add: digest_permitted_def dumped_plan_def sample_final_plan_def finalize_plan_def finalize_metadata_def
        digest asdict_dict_def asdict_value.simps)
  have "may_enable sample_descriptor sample_request"
    by (simp add: may_enable_def sample_descriptor_def sample_request_def)
  then have "plan_acceptable default_plan_validator [sample_descriptor] sample_request ''d'' (FinalPlan (dumped_plan sample_final_plan))"
    using conf meta
    by (simp add: plan_acceptable_def steps step_acceptable_def step_permitted_def dumped_step_def
        plan_step_with_defaults_def asdict_dict_def sample_descriptor_def default_plan_validator_def new_plan_validator_def
        SUPPORTED_PLAN_STEP_KINDS_def VALID_RISK_LEVELS_def VALID_FAILURE_POLICIES_def)
  then show ?thesis
    using validate_plan_exact [OF sample_registration, of 10 default_plan_validator 0
        "FinalPlan (dumped_plan sample_final_plan)" "\<lambda>_. ''d''" "''capsnap''" sample_request]
    by (auto simp: sample_snapshot_def digest sample_descriptor_def wf_base_schemas default_plan_validator_def new_plan_validator_def)
qed


lemma sample_validate_run:
  assumes "sample_task st" "dget st ''capability_snapshot'' = Some (PDict [(''snapshot_id'', PStr ''capsnap'')])"
    "dget st ''plan'' = Some (PDict (asdict_plan sample_final_plan))" "dget st ''plan_id'' = Some (PStr ''plan'')"
  shows "\<exists>s. run_node sample_runtime validate_node st () = (Inr s, ()) \<and> sample_task s
     \<and> dget s ''plan'' = dget st ''plan'' \<and> dget s ''plan_id'' = dget st ''plan_id''
     \<and> route_after_validate s = Inr ''preflight''"
proof -
  from sample_plan_valid obtain r where r: "pv_passed r"
    "validate_plan default_plan_validator 10 0 (FinalPlan (dumped_plan sample_final_plan)) (Some sample_snapshot) = Inr r"
    by blast
  then show ?thesis using assms
    by (simp add: sample_eval validate_node_def plan_roundtrip state_snapshot_def asdict_validation_def pv_passed_def
        route_after_validate_def)
qed

lemma sample_preflight_run:
  assumes "sample_task st" "dget st ''plan'' = Some (PDict (asdict_plan sample_final_plan))"
    "dget st ''plan_id'' = Some (PStr ''plan'')"
  shows "\<exists>s. run_node sample_runtime preflight_node st () = (Inr s, ()) \<and> sample_task s
     \<and> dget s ''plan_id'' = Some (PStr ''plan'') \<and> dget s ''plan'' = dget st ''plan''
     \<and> route_after_preflight s = Inr ''execute''"
proof -
  have "run_preflight sample_library [EXECUTE_PROBE] [] (PDict (asdict_plan sample_final_plan))
      = Inr \<lparr>pf_passed = True, pf_errors = [], pf_warnings = []\<rparr>"
    by (simp add: run_preflight_def asdict_plan_def sample_final_plan_def finalize_plan_def dumped_draft_def
        sample_draft_def preflight_step_dumped unhashable_action_def plan_step_with_defaults_def dumped_step_def)
  then show ?thesis using assms
    by (simp add: sample_eval preflight_node_def supported_step_kinds_def asdict_preflight_def route_after_preflight_def)
qed

lemma sample_reaches_execute:
  "\<exists>st. graph_reaches sample_runtime dupdate (Some initial_node, sample_state, ()) (Some ''execute'', st, ())
     \<and> dget st ''task_id'' = Some (PStr ''t'') \<and> dget st ''plan_id'' = Some (PStr ''plan'') \<and> dget st ''plan'' \<noteq> None"
proof -
  obtain s0 where s0: "run_node sample_runtime interaction_decision_node sample_state () = (Inr s0, ())" "sample_task s0"
    "route_after_interaction_decision s0 = Inr ''env_init''" using sample_interaction_run by blast
  obtain s1 where s1: "run_node sample_runtime env_init_node s0 () = (Inr s1, ())" "sample_task s1"
    "dget s1 ''available_context_keys'' = Some (py_strs [''artifact_manager'', ''command_controller''])"
    using sample_env_run [OF s0(2)] by blast
  obtain s2 where s2: "run_node sample_runtime capability_resolve_node s1 () = (Inr s2, ())" "sample_task s2"
    "dget s2 ''capability_snapshot'' = Some (PDict [(''snapshot_id'', PStr ''capsnap'')])"
    using sample_resolve_run [OF s1(2,3)] by blast
  obtain s3 where s3: "run_node sample_runtime skill_select_node s2 () = (Inr s3, ())" "sample_task s3"
    "dget s3 ''capability_snapshot'' = dget s2 ''capability_snapshot''" using sample_skill_run [OF s2(2)] by blast
  obtain s4 where s4: "run_node sample_runtime plan_node s3 () = (Inr s4, ())" "sample_task s4"
    "dget s4 ''capability_snapshot'' = dget s3 ''capability_snapshot''"
    "dget s4 ''draft_plan'' = Some (PDict (asdict_draft sample_draft))"
    using sample_plan_run [OF s3(2)] s2(3) s3(3) by auto
  obtain s5 where s5: "run_node sample_runtime finalize_node s4 () = (Inr s5, ())" "sample_task s5"
    "dget s5 ''capability_snapshot'' = dget s4 ''capability_snapshot''" "dget s5 ''plan_id'' = Some (PStr ''plan'')"
    "dget s5 ''plan'' = Some (PDict (asdict_plan sample_final_plan))"
    using sample_finalize_run [OF s4(2) _ s4(4)] s2(3) s3(3) s4(3) by auto
  obtain s6 where s6: "run_node sample_runtime validate_node s5 () = (Inr s6, ())" "sample_task s6"
    "dget s6 ''plan'' = dget s5 ''plan''" "dget s6 ''plan_id'' = dget s5 ''plan_id''"
    "route_after_validate s6 = Inr ''preflight''"
    using sample_validate_run [OF s5(2) _ s5(5,4)] s2(3) s3(3) s4(3) s5(3) by auto
  obtain s7 where s7: "run_node sample_runtime preflight_node s6 () = (Inr s7, ())" "sample_task s7"
    "dget s7 ''plan_id'' = Some (PStr ''plan'')" "dget s7 ''plan'' = dget s6 ''plan''" "route_after_preflight s7 = Inr ''execute''"
    using sample_preflight_run [OF s6(2)] s5(4,5) s6(3,4) by auto
  have planned: "run_nodes sample_runtime planning_nodes s0 () = (Inr s6, ())"
    by (simp only: planning_nodes_def run_nodes.simps sx_bind_def s1(1) s2(1) s3(1) s4(1) s5(1) s6(1)
        prod.case sum.case sx_simps)
  have "graph_reaches sample_runtime dupdate (Some initial_node, sample_state, ()) (Some ''env_init'', s0, ())"
    unfolding initial_node_def by (rule run_node_reaches [OF s0(1)]) (simp_all add: s0(3))
  moreover have "graph_reaches sample_runtime dupdate (Some ''preflight'', s6, ()) (Some ''execute'', s7, ())"
    by (rule run_node_reaches [OF s7(1)]) (simp_all add: s7(5))
  ultimately have "graph_reaches sample_runtime dupdate (Some initial_node, sample_state, ()) (Some ''execute'', s7, ())"
    using planning_reaches [OF planned s6(5)] by (blast intro: graph_reaches_trans)
  with s7 s6(3) s5(5) show ?thesis by (auto simp: sample_task_def)
qed

lemma update_keeps: "keeps_or_replaces dupdate"
  by (simp add: keeps_or_replaces_def)

theorem executed_plans_are_checked_witness:
  "\<exists>st. graph_reaches sample_runtime dupdate (Some initial_node, sample_state, ()) (Some ''execute'', st, ())
     \<and> plan_validated sample_runtime st \<and> plan_preflighted sample_runtime st"
proof -
  obtain st where st: "graph_reaches sample_runtime dupdate (Some initial_node, sample_state, ()) (Some ''execute'', st, ())"
    "dget st ''plan'' \<noteq> None"
    using sample_reaches_execute by blast
  with executed_plans_are_checked [OF update_keeps st(1)] st show ?thesis by blast
qed

theorem checked_plan_execution_returns_witness:
  "\<exists>st update w'. graph_reaches sample_runtime dupdate (Some initial_node, sample_state, ()) (Some ''execute'', st, ())
     \<and> execute_node sample_runtime st () = (Inr update, w')"
proof -
  obtain st where st: "graph_reaches sample_runtime dupdate (Some initial_node, sample_state, ()) (Some ''execute'', st, ())"
    "dget st ''task_id'' = Some (PStr ''t'')" "dget st ''plan_id'' = Some (PStr ''plan'')"
    using sample_reaches_execute by blast
  have "services_total (ar_services sample_runtime)"
    by (simp add: sample_runtime_def services_total_def sample_services_def sx_simps)
  then show ?thesis
    using checked_plan_execution_returns [OF update_keeps st(1) _ st(2), of "''plan''"] st by (auto simp: dget_default_dget)
qed


theorem single_pass_is_graph_path_witness:
  "\<exists>st' m. fst (run_agent_loop_once (sample_runtime\<lparr>ar_decider := Some (\<lambda>_. sx_return
        ((default_decision PNone)\<lparr>id_mode := PStr ''REFUSE'', id_content := PStr ''no''\<rparr>))\<rparr>) sample_state ()) = Inr st'
     \<and> loop_ends m st' \<and> dget st' ''loop_status'' = Some (PStr ''refused'')"
proof -
  let ?rt = "sample_runtime\<lparr>ar_decider := Some (\<lambda>_. sx_return
        ((default_decision PNone)\<lparr>id_mode := PStr ''REFUSE'', id_content := PStr ''no''\<rparr>))\<rparr>"
  have "\<exists>st'. run_agent_loop_once ?rt sample_state () = (Inr st', ()) \<and> dget st' ''loop_status'' = Some (PStr ''refused'')"
    by (simp add: run_agent_loop_once_def sample_eval sample_state_def interaction_decision_node_def default_decision_def
        asdict_decision_def py_or_def Let_def route_after_interaction_decision_def asdict_value.simps py_dict_def
        interaction_terminal_def end_node_defs decision_content_def)
  then obtain st' where st': "run_agent_loop_once ?rt sample_state () = (Inr st', ())"
    "dget st' ''loop_status'' = Some (PStr ''refused'')" by blast
  with single_pass_is_graph_path [OF st'(1)] show ?thesis by auto
qed

theorem iteration_limit_has_no_effect_witness:
  "next_node ''replan_context'' (dput ''max_iterations'' (PInt 0) sample_state) = Inr (Some ''capability_resolve'')"
  using iteration_limit_has_no_effect [of "''replan_context''" replan_context_node sample_runtime "PInt 0" sample_state "()"]
  by (simp add: sample_runtime_def)

end
