(* ===== verification/ApiScheduler.thy ===== *)
theory ApiScheduler
  imports StateExc
begin

text \<open>
  The pool of language-model interfaces: \<open>SchedulingModuleWroteBefore/abc_cls.py\<close> (interface state,
  circuit breaker) and \<open>scheduler.py\<close> (smooth weighted round robin, redistribution of weights).
  Objects of the pool are distinct and are named by their position. \<open>time.time()\<close>,
  \<open>health_check\<close> (abstract) and the call of \<open>OpenaiApiWrapper\<close> (not in the repository) are operations
  on a world. Locks are left out: operations run one after the other. Floats are rationals.
\<close>

section \<open>Interfaces\<close>

datatype api_status = ACTIVATED | STOPPED | RECOVERING

record url_payload =
  up_model_id :: "string option"
  up_url :: string
  up_method :: string
  up_access_token :: string

record llm_api_config =
  ac_model_id :: string
  ac_base_url :: string
  ac_base_method :: string
  ac_access_token :: string

record llm_api =
  la_interface_id :: string
  la_config :: llm_api_config
  la_base_weight :: int
  la_decay_step :: int
  la_recover_step :: int
  la_max_fails :: int
  la_cool_down :: rat
  la_status :: api_status
  la_dynamic_weight :: int
  la_swrr_weight :: int
  la_fail_cnt :: int
  la_cool_ending :: rat

text \<open>The constructor with its defaults and \<open>__post_init__\<close>.\<close>

definition new_api :: "string \<Rightarrow> llm_api_config \<Rightarrow> int \<Rightarrow> int \<Rightarrow> int \<Rightarrow> int \<Rightarrow> rat \<Rightarrow> llm_api" where
  "new_api interface_id config base_weight decay_step recover_step max_fails cool_down =
     \<lparr>la_interface_id = interface_id, la_config = config, la_base_weight = base_weight,
      la_decay_step = decay_step, la_recover_step = recover_step, la_max_fails = max_fails,
      la_cool_down = cool_down, la_status = ACTIVATED, la_dynamic_weight = base_weight,
      la_swrr_weight = base_weight, la_fail_cnt = 0, la_cool_ending = 0\<rparr>"

definition default_api :: "string \<Rightarrow> llm_api_config \<Rightarrow> llm_api" where
  "default_api interface_id config = new_api interface_id config 80 20 20 5 60"

record 'w scheduler =
  sd_pool :: "llm_api list"
  sd_last_api :: "nat option"
  sd_sum_weight :: int
  sd_adapt_interval :: int
  sd_interval_break_time :: rat
  sd_world :: 'w

type_synonym ('w, 'a) sdx = "('w scheduler, 'a) sx"

record 'w api_services =
  as_time :: "'w \<Rightarrow> rat \<times> 'w"
  as_health_check :: "llm_api \<Rightarrow> 'w \<Rightarrow> bool \<times> 'w"
  as_call :: "llm_api \<Rightarrow> ('w, url_payload) sx"

definition read_world :: "('w \<Rightarrow> 'a \<times> 'w) \<Rightarrow> ('w, 'a) sdx" where
  "read_world f = (\<lambda>s. case f (sd_world s) of (a, w) \<Rightarrow> (Inr a, s\<lparr>sd_world := w\<rparr>))"

definition api_at :: "nat \<Rightarrow> ('w, llm_api) sdx" where
  "api_at i = (\<lambda>s. (Inr (sd_pool s ! i), s))"

definition update_api :: "nat \<Rightarrow> (llm_api \<Rightarrow> llm_api) \<Rightarrow> ('w, unit) sdx" where
  "update_api i f = sx_modify (\<lambda>s. s\<lparr>sd_pool := (sd_pool s)[i := f (sd_pool s ! i)]\<rparr>)"

text \<open>\<open>get_status\<close>: an interface whose cooling has ended recovers when it is asked.\<close>

definition recover :: "llm_api \<Rightarrow> llm_api" where
  "recover a = a\<lparr>la_dynamic_weight := la_dynamic_weight a + la_recover_step a, la_cool_ending := 0,
                 la_status := RECOVERING\<rparr>"

definition get_status :: "'w api_services \<Rightarrow> nat \<Rightarrow> ('w, api_status) sdx" where
  "get_status sv i =
     sx_bind (api_at i) (\<lambda>a.
     sx_bind
       (if la_status a = STOPPED
        then sx_bind (read_world (as_time sv)) (\<lambda>now.
               if now > la_cool_ending a then update_api i recover else sx_return ())
        else sx_return ()) (\<lambda>_.
     sx_bind (api_at i) (\<lambda>b. sx_return (la_status b))))"

definition get_weight :: "llm_api \<Rightarrow> int" where
  "get_weight a = la_dynamic_weight a"

definition stop_until :: "rat \<Rightarrow> llm_api \<Rightarrow> llm_api" where
  "stop_until t a = a\<lparr>la_status := STOPPED, la_dynamic_weight := 0, la_cool_ending := t, la_fail_cnt := 0\<rparr>"

definition circuit_break :: "'w api_services \<Rightarrow> nat \<Rightarrow> ('w, unit) sdx" where
  "circuit_break sv i =
     sx_bind (read_world (as_time sv)) (\<lambda>now. update_api i (\<lambda>a. stop_until (now + la_cool_down a) a))"

definition shift_weight :: "int \<Rightarrow> llm_api \<Rightarrow> llm_api" where
  "shift_weight delta a =
     a\<lparr>la_status := (if delta < 0 then RECOVERING else la_status a),
       la_dynamic_weight := la_dynamic_weight a + delta\<rparr>"

definition adapt_weight :: "'w api_services \<Rightarrow> nat \<Rightarrow> int \<Rightarrow> ('w, unit) sdx" where
  "adapt_weight sv i delta =
     sx_bind (update_api i (shift_weight delta)) (\<lambda>_.
     sx_bind (api_at i) (\<lambda>a. if la_dynamic_weight a < 0 then circuit_break sv i else sx_return ()))"

definition record_fail :: "nat \<Rightarrow> ('w, unit) sdx" where
  "record_fail i = update_api i (\<lambda>a. a\<lparr>la_fail_cnt := la_fail_cnt a + 1\<rparr>)"

definition reset_fail :: "nat \<Rightarrow> ('w, unit) sdx" where
  "reset_fail i = update_api i (\<lambda>a. a\<lparr>la_fail_cnt := 0\<rparr>)"

definition CircuitBreakerError :: "string \<Rightarrow> exc" where
  "CircuitBreakerError message = Exc ''CircuitBreakerError''
     (if message = [] then ''Service is in circuit breaker. Please try again later.'' else message)"

definition config_payload :: "llm_api_config \<Rightarrow> url_payload" where
  "config_payload c = \<lparr>up_model_id = Some (ac_model_id c), up_url = ac_base_url c, up_method = ac_base_method c,
                       up_access_token = ac_access_token c\<rparr>"

text \<open>\<open>LlmApiWrapper.__call__\<close>; \<open>and\<close> asks for the failures only when the health check passed.\<close>

definition api_call :: "'w api_services \<Rightarrow> nat \<Rightarrow> ('w, url_payload) sdx" where
  "api_call sv i =
     sx_bind (api_at i) (\<lambda>a.
     sx_bind (read_world (as_health_check sv a)) (\<lambda>healthy.
     sx_bind (api_at i) (\<lambda>b.
     sx_bind (if \<not> (healthy \<and> la_fail_cnt b < la_max_fails b) then circuit_break sv i else sx_return ()) (\<lambda>_.
     sx_bind (get_status sv i) (\<lambda>status.
       if status = STOPPED then sx_raise (CircuitBreakerError [])
       else sx_bind (api_at i) (\<lambda>c. sx_return (config_payload (la_config c))))))))"

section \<open>Scheduler\<close>

definition sum_base :: "llm_api list \<Rightarrow> int" where
  "sum_base pool = sum_list (map la_base_weight pool)"

definition new_scheduler :: "llm_api list \<Rightarrow> 'w \<Rightarrow> 'w scheduler" where
  "new_scheduler pool w =
     \<lparr>sd_pool = pool, sd_last_api = None, sd_sum_weight = sum_base pool, sd_adapt_interval = 60,
      sd_interval_break_time = 0, sd_world = w\<rparr>"

definition registry :: "llm_api \<Rightarrow> ('w, unit) sdx" where
  "registry a = sx_modify (\<lambda>s. s\<lparr>sd_pool := sd_pool s @ [a], sd_sum_weight := sum_base (sd_pool s @ [a])\<rparr>)"

definition set_adapt_interval :: "int \<Rightarrow> ('w, unit) sdx" where
  "set_adapt_interval interval =
     (if interval \<le> 0 then sx_raise (Exc ''ValueError'' ''interval must be greater than 0'')
      else sx_modify (\<lambda>s. s\<lparr>sd_adapt_interval := interval\<rparr>))"

definition UnboundLocalError :: exc where
  "UnboundLocalError = Exc ''UnboundLocalError''
     ''cannot access local variable 'best_api' where it is not associated with a value''"

text \<open>
  The loop of \<open>acquire\<close> over the pool. \<open>best\<close> is the local variable \<open>best_api\<close>, \<open>None\<close> while it has
  no value; reading it then is an \<open>UnboundLocalError\<close>.
\<close>

definition no_usable :: exc where
  "no_usable = CircuitBreakerError ''No usable interface now, plz try later.''"

fun acquire_loop :: "'w api_services \<Rightarrow> nat \<Rightarrow> nat list \<Rightarrow> nat \<Rightarrow> nat option \<Rightarrow> ('w, nat option) sdx" where
  "acquire_loop sv pool_size [] unused best = sx_return best"
| "acquire_loop sv pool_size (i # is) unused best =
     sx_bind (get_status sv i) (\<lambda>status.
       if status = STOPPED
       then (if Suc unused = pool_size then sx_raise no_usable else acquire_loop sv pool_size is (Suc unused) best)
       else
         sx_bind (update_api i (\<lambda>a. a\<lparr>la_swrr_weight := la_swrr_weight a + get_weight a\<rparr>)) (\<lambda>_.
         sx_bind (case best of None \<Rightarrow> sx_raise UnboundLocalError | Some b \<Rightarrow> api_at b) (\<lambda>x.
         sx_bind (api_at i) (\<lambda>a.
           acquire_loop sv pool_size is unused (if la_swrr_weight a > la_swrr_weight x then Some i else best)))))"

definition empty_payload :: url_payload where
  "empty_payload = \<lparr>up_model_id = None, up_url = [], up_method = [], up_access_token = []\<rparr>"

definition acquire :: "'w api_services \<Rightarrow> ('w, url_payload) sdx" where
  "acquire sv =
     sx_bind sx_get (\<lambda>s.
       if sd_pool s = [] then sx_return empty_payload
       else
         sx_bind (acquire_loop sv (length (sd_pool s)) [0..<length (sd_pool s)] 0 None) (\<lambda>best.
           case best of
             None \<Rightarrow> sx_raise UnboundLocalError
           | Some b \<Rightarrow>
               sx_bind (update_api b (\<lambda>a. a\<lparr>la_swrr_weight := la_swrr_weight a - sum_base (sd_pool s)\<rparr>)) (\<lambda>_.
               sx_bind (sx_modify (\<lambda>t. t\<lparr>sd_last_api := Some b\<rparr>)) (\<lambda>_.
               sx_bind (api_at b) (\<lambda>a. sx_zoom sd_world (\<lambda>w t. t\<lparr>sd_world := w\<rparr>) (as_call sv a))))))"

section \<open>Redistribution\<close>

text \<open>\<open>round(x)\<close>: half to even.\<close>

definition round_even :: "rat \<Rightarrow> int" where
  "round_even x =
     (let f = floor x; d = x - of_int f in
      if d < 1 / 2 then f else if d > 1 / 2 then f + 1 else if even f then f else f + 1)"

text \<open>\<open>sorted(range(n), key=weight, reverse=True)\<close>: equal weights keep their order.\<close>

definition by_weight :: "int list \<Rightarrow> nat list" where
  "by_weight ws = sort_key (\<lambda>i. - (ws ! i)) [0..<length ws]"

fun compensate :: "nat list \<Rightarrow> int \<Rightarrow> int list \<Rightarrow> int list" where
  "compensate [] gap rs = rs"
| "compensate (i # is) gap rs =
     (if gap = 0 then rs
      else if gap > 0 then compensate is (gap - 1) (rs[i := rs ! i + 1])
      else compensate is (gap + 1) (rs[i := rs ! i - 1]))"

definition shares :: "int \<Rightarrow> int \<Rightarrow> int list \<Rightarrow> int list" where
  "shares delta base_sum ws =
     (let rounded = map (\<lambda>w. round_even (of_int delta * (of_int w / of_int base_sum))) ws
      in compensate (by_weight ws) (delta - sum_list rounded) rounded)"

fun live_targets :: "'w api_services \<Rightarrow> string \<Rightarrow> nat list \<Rightarrow> ('w, nat list) sdx" where
  "live_targets sv changer [] = sx_return []"
| "live_targets sv changer (i # is) =
     sx_bind (api_at i) (\<lambda>a.
       if la_interface_id a = changer then live_targets sv changer is
       else sx_bind (get_status sv i) (\<lambda>status.
            sx_bind (live_targets sv changer is) (\<lambda>js.
              sx_return (if status = STOPPED then js else i # js))))"

fun adapt_all :: "'w api_services \<Rightarrow> (nat \<times> int) list \<Rightarrow> ('w, unit) sdx" where
  "adapt_all sv [] = sx_return ()"
| "adapt_all sv ((i, d) # ds) = sx_bind (adapt_weight sv i d) (\<lambda>_. adapt_all sv ds)"

definition redistribute :: "'w api_services \<Rightarrow> int \<Rightarrow> string \<Rightarrow> ('w, unit) sdx" where
  "redistribute sv delta changer =
     sx_bind sx_get (\<lambda>s.
     sx_bind (live_targets sv changer [0..<length (sd_pool s)]) (\<lambda>targets.
       if targets = [] then sx_return ()
       else if sd_sum_weight s = 0 then sx_raise (Exc ''ZeroDivisionError'' ''division by zero'')
       else sx_bind sx_get (\<lambda>t.
              adapt_all sv (zip targets
                (shares delta (sd_sum_weight s) (map (\<lambda>i. la_base_weight (sd_pool t ! i)) targets))))))"

definition impossible :: exc where
  "impossible = Exc ''Exception'' ''WTF, How could this be possible ???''"

definition update_weight :: "'w api_services \<Rightarrow> bool \<Rightarrow> ('w, unit) sdx" where
  "update_weight sv success =
     sx_bind sx_get (\<lambda>s.
       case sd_last_api s of
         None \<Rightarrow> sx_raise (Exc ''AttributeError'' [])
       | Some i \<Rightarrow>
           sx_bind (get_status sv i) (\<lambda>status.
             if success then
               sx_bind (reset_fail i) (\<lambda>_.
                 case status of
                   ACTIVATED \<Rightarrow> sx_return ()
                 | RECOVERING \<Rightarrow>
                     sx_bind (read_world (as_time sv)) (\<lambda>now.
                       if now > sd_interval_break_time s
                       then sx_bind (api_at i) (\<lambda>a.
                            sx_bind (redistribute sv (la_recover_step a) (la_interface_id a)) (\<lambda>_.
                            sx_bind (read_world (as_time sv)) (\<lambda>later.
                              sx_modify (\<lambda>t. t\<lparr>sd_interval_break_time := later + of_int (sd_adapt_interval t)\<rparr>))))
                       else sx_return ())
                 | STOPPED \<Rightarrow> sx_raise impossible)
             else
               sx_bind (record_fail i) (\<lambda>_.
               sx_bind (api_at i) (\<lambda>a. redistribute sv (la_decay_step a) (la_interface_id a)))))"


section \<open>Weights\<close>

text \<open>
  A weight is never negative.
\<close>

definition api_ok :: "llm_api \<Rightarrow> bool" where
  "api_ok a \<longleftrightarrow> 0 \<le> la_recover_step a \<and> 0 \<le> la_dynamic_weight a"

definition pool_ok :: "'w scheduler \<Rightarrow> bool" where
  "pool_ok s = list_all api_ok (sd_pool s)"

lemma pool_ok_update:
  "pool_ok s \<Longrightarrow> (\<And>a. api_ok a \<Longrightarrow> api_ok (f a)) \<Longrightarrow> list_all api_ok ((sd_pool s)[i := f (sd_pool s ! i)])"
  by (cases "i < length (sd_pool s)") (auto simp: pool_ok_def list_all_length nth_list_update)

lemma keeps_update: "(\<And>a. api_ok a \<Longrightarrow> api_ok (f a)) \<Longrightarrow> sx_keeps pool_ok (update_api i f)"
  by (simp add: sx_keeps_def update_api_def sx_simps pool_ok_def [of "_\<lparr>sd_pool := _\<rparr>"] pool_ok_update)

lemma keeps_read: "sx_keeps pool_ok (read_world f)"
  by (simp add: sx_keeps_def read_world_def pool_ok_def split: prod.splits)

lemma keeps_at: "sx_keeps pool_ok (api_at i)"
  by (simp add: sx_keeps_def api_at_def)

lemma keeps_call: "sx_keeps pool_ok (sx_zoom sd_world (\<lambda>w t. t\<lparr>sd_world := w\<rparr>) m)"
  by (simp add: sx_keeps_def sx_zoom_def pool_ok_def split: prod.splits)

lemma keeps_modify: "(\<And>s. sd_pool (f s) = sd_pool s) \<Longrightarrow> sx_keeps pool_ok (sx_modify f)"
  by (simp add: sx_keeps_def sx_simps pool_ok_def)

lemma keeps_if: "sx_keeps I a \<Longrightarrow> sx_keeps I b \<Longrightarrow> sx_keeps I (if P then a else b)"
  by simp

lemmas keeps_intros = sx_keeps_bind sx_keeps_basic keeps_update keeps_read keeps_at keeps_call keeps_modify

lemma keeps_get_status: "sx_keeps pool_ok (get_status sv i)"
  unfolding get_status_def by (intro keeps_intros) (auto simp: api_ok_def recover_def intro!: keeps_intros)

lemma keeps_circuit_break: "sx_keeps pool_ok (circuit_break sv i)"
  unfolding circuit_break_def by (intro keeps_intros) (auto simp: api_ok_def stop_until_def)

lemma adapt_weight_pool:
  "\<exists>t. sd_pool (snd (adapt_weight sv i d s)) =
     (let a = shift_weight d (sd_pool s ! i) in
      if i < length (sd_pool s) then (sd_pool s)[i := (if la_dynamic_weight a < 0 then stop_until t a else a)]
      else sd_pool s)"
  by (cases "i < length (sd_pool s)")
    (auto simp: adapt_weight_def circuit_break_def update_api_def api_at_def read_world_def sx_bind_def sx_simps Let_def
      list_update_beyond not_less split: prod.splits)

lemma keeps_adapt_weight:
  fixes sv :: "'w api_services"
  shows "sx_keeps pool_ok (adapt_weight sv i d)"
  unfolding sx_keeps_def
proof (intro allI impI)
  fix s :: "'w scheduler" assume ok: "pool_ok s"
  obtain t where t: "sd_pool (snd (adapt_weight sv i d s)) =
     (let a = shift_weight d (sd_pool s ! i) in
      if i < length (sd_pool s) then (sd_pool s)[i := (if la_dynamic_weight a < 0 then stop_until t a else a)]
      else sd_pool s)" using adapt_weight_pool by blast
  let ?f = "\<lambda>a. if la_dynamic_weight (shift_weight d a) < 0 then stop_until t (shift_weight d a) else shift_weight d a"
  have "api_ok (?f a)" if "api_ok a" for a
    using that by (auto simp: api_ok_def shift_weight_def stop_until_def)
  from pool_ok_update [OF ok, of ?f, OF this] ok show "pool_ok (snd (adapt_weight sv i d s))"
    by (cases "i < length (sd_pool s)") (simp_all add: pool_ok_def t Let_def)
qed

lemma keeps_live_targets: "sx_keeps pool_ok (live_targets sv changer is)"
  by (induction "is") (auto intro!: keeps_intros keeps_get_status)

lemma keeps_adapt_all: "sx_keeps pool_ok (adapt_all sv ds)"
  by (induction sv ds rule: adapt_all.induct) (auto intro!: keeps_intros keeps_adapt_weight)

lemma keeps_redistribute: "sx_keeps pool_ok (redistribute sv delta changer)"
  unfolding redistribute_def by (auto intro!: keeps_intros keeps_live_targets keeps_adapt_all)

lemma keeps_acquire_loop: "sx_keeps pool_ok (acquire_loop sv n is unused best)"
proof (induction "is" arbitrary: unused best)
  case Nil
  show ?case by (auto intro!: keeps_intros)
next
  case (Cons i "is")
  have "sx_keeps pool_ok (case best of None \<Rightarrow> sx_raise UnboundLocalError | Some b \<Rightarrow> api_at b)"
    by (cases best) (auto intro!: keeps_intros)
  then show ?case unfolding acquire_loop.simps
    by (intro keeps_intros keeps_if keeps_get_status Cons.IH) (simp_all add: api_ok_def)
qed

lemma keeps_acquire: "sx_keeps pool_ok (acquire sv)"
  unfolding acquire_def
  by (auto simp: api_ok_def intro!: keeps_intros keeps_acquire_loop split: option.splits)

lemma keeps_api_call: "sx_keeps pool_ok (api_call sv i)"
  unfolding api_call_def by (auto intro!: keeps_intros keeps_get_status keeps_circuit_break)

lemma keeps_fail_count: "sx_keeps pool_ok (record_fail i)" "sx_keeps pool_ok (reset_fail i)"
  unfolding record_fail_def reset_fail_def by (auto simp: api_ok_def intro!: keeps_update)

lemma keeps_update_weight: "sx_keeps pool_ok (update_weight sv success)"
  unfolding update_weight_def
  by (auto intro!: keeps_intros keeps_get_status keeps_fail_count keeps_redistribute split: option.splits api_status.splits)

datatype scheduler_op = Acquire | CallApi nat | UpdateWeight bool | Register llm_api | SetInterval int

fun op_ok :: "scheduler_op \<Rightarrow> bool" where
  "op_ok (Register a) = api_ok a"
| "op_ok _ = True"

fun run_op :: "'w api_services \<Rightarrow> scheduler_op \<Rightarrow> 'w scheduler \<Rightarrow> 'w scheduler" where
  "run_op sv Acquire s = snd (acquire sv s)"
| "run_op sv (CallApi i) s = snd (api_call sv i s)"
| "run_op sv (UpdateWeight success) s = snd (update_weight sv success s)"
| "run_op sv (Register a) s = snd (registry a s)"
| "run_op sv (SetInterval n) s = snd (set_adapt_interval n s)"

lemma run_op_ok: "op_ok x \<Longrightarrow> pool_ok s \<Longrightarrow> pool_ok (run_op sv x s)"
  using keeps_acquire [of sv] keeps_api_call [of sv] keeps_update_weight [of sv]
  by (cases x) (auto simp: sx_keeps_def registry_def set_adapt_interval_def sx_simps pool_ok_def)

definition run_ops :: "'w api_services \<Rightarrow> scheduler_op list \<Rightarrow> 'w scheduler \<Rightarrow> 'w scheduler" where
  "run_ops sv = fold (run_op sv)"

lemma run_ops_ok: "list_all op_ok xs \<Longrightarrow> pool_ok s \<Longrightarrow> pool_ok (run_ops sv xs s)"
  unfolding run_ops_def by (induction xs arbitrary: s) (auto intro: run_op_ok)

section \<open>Acquiring\<close>

lemma get_status_returns: "\<exists>st s'. get_status sv i s = (Inr st, s')"
  by (auto simp: get_status_def read_world_def api_at_def update_api_def sx_bind_def sx_simps split: prod.splits)

lemma get_status_live:
  assumes "la_status (sd_pool s ! i) \<noteq> STOPPED"
  shows "get_status sv i s = (Inr (la_status (sd_pool s ! i)), s)"
  using assms by (simp add: get_status_def api_at_def sx_bind_def sx_simps)

lemma get_status_other:
  assumes "get_status sv i s = (r, s')" "j \<noteq> i"
  shows "sd_pool s' ! j = sd_pool s ! j"
  using assms by (auto simp: get_status_def read_world_def api_at_def update_api_def sx_bind_def sx_simps
      split: prod.splits if_splits)

lemma acquire_loop_fails:
  "is \<noteq> [] \<Longrightarrow> unused + length is = n \<Longrightarrow>
     fst (acquire_loop sv n is unused None s) \<in> {Inl no_usable, Inl UnboundLocalError}"
proof (induction "is" arbitrary: unused s)
  case (Cons i "is")
  obtain st s' where st: "get_status sv i s = (Inr st, s')" using get_status_returns by blast
  show ?case
  proof (cases "st = STOPPED")
    case False
    then show ?thesis using st by (simp add: sx_bind_def sx_simps update_api_def)
  next
    case True
    show ?thesis
    proof (cases "is = []")
      case True
      then show ?thesis using st \<open>st = STOPPED\<close> Cons.prems by (simp add: sx_bind_def sx_simps)
    next
      case False
      then have "fst (acquire_loop sv n is (Suc unused) None s') \<in> {Inl no_usable, Inl UnboundLocalError}"
        using Cons.prems by (intro Cons.IH) auto
      moreover have "Suc unused \<noteq> n" using False Cons.prems by auto
      ultimately show ?thesis using st \<open>st = STOPPED\<close> by (simp add: sx_bind_def)
    qed
  qed
qed simp

lemma acquire_loop_live:
  "j \<in> set is \<Longrightarrow> la_status (sd_pool s ! j) \<noteq> STOPPED \<Longrightarrow> distinct is \<Longrightarrow> unused + length is \<le> n \<Longrightarrow>
     fst (acquire_loop sv n is unused None s) = Inl UnboundLocalError"
proof (induction "is" arbitrary: unused s)
  case (Cons i "is")
  obtain st s' where st: "get_status sv i s = (Inr st, s')" using get_status_returns by blast
  show ?case
  proof (cases "st = STOPPED")
    case False
    then show ?thesis using st by (simp add: sx_bind_def sx_simps update_api_def)
  next
    case True
    then have "j \<noteq> i" using st Cons.prems get_status_live [of s i sv] by auto
    then have "fst (acquire_loop sv n is (Suc unused) None s') = Inl UnboundLocalError"
      using Cons.prems get_status_other [OF st, of j] by (intro Cons.IH) auto
    moreover have "Suc unused \<noteq> n" using \<open>j \<noteq> i\<close> Cons.prems by (cases "is") auto
    ultimately show ?thesis using st True by (simp add: sx_bind_def)
  qed
qed simp


section \<open>Shares\<close>

lemma round_even_near: "\<bar>of_int (round_even x) - x\<bar> \<le> 1 / 2"
proof -
  have "of_int (floor x) \<le> x" "x < of_int (floor x) + 1" by linarith+
  then show ?thesis by (auto simp: round_even_def Let_def)
qed

lemma compensate_length [simp]: "length (compensate is g rs) = length rs"
  by (induction "is" g rs rule: compensate.induct) simp_all

lemma sum_list_bump: "i < length rs \<Longrightarrow> sum_list (rs[i := rs ! i + d]) = sum_list rs + (d::int)"
  by (induction rs arbitrary: i) (auto simp: nth_Cons split: nat.splits)

lemma compensate_sum:
  "list_all (\<lambda>i. i < length rs) is \<Longrightarrow>
     sum_list (compensate is g rs) = sum_list rs + max (- int (length is)) (min (int (length is)) g)"
proof (induction "is" g rs rule: compensate.induct)
  case (2 i "is" g rs)
  then show ?case
    using sum_list_bump [of i rs 1] sum_list_bump [of i rs "-1"] by auto
qed simp

lemma compensate_untouched: "i \<notin> set is \<Longrightarrow> compensate is g rs ! i = rs ! i"
  by (induction "is" g rs rule: compensate.induct) auto

lemma compensate_near:
  "distinct is \<Longrightarrow> i < length rs \<Longrightarrow> \<bar>compensate is g rs ! i - rs ! i\<bar> \<le> 1"
proof (induction "is" g rs rule: compensate.induct)
  case (2 j "is" g rs)
  show ?case
  proof (cases "i = j")
    case True
    with 2 show ?thesis by (simp add: compensate_untouched)
  next
    case False
    with 2 show ?thesis by (auto simp: nth_list_update)
  qed
qed simp

lemma by_weight_props: "distinct (by_weight ws)" "length (by_weight ws) = length ws" "list_all (\<lambda>i. i < length ws) (by_weight ws)"
  by (simp_all add: by_weight_def list_all_iff)

definition exact_share :: "int \<Rightarrow> int \<Rightarrow> int \<Rightarrow> rat" where
  "exact_share delta base_sum w = of_int delta * (of_int w / of_int base_sum)"

definition rounded_shares :: "int \<Rightarrow> int \<Rightarrow> int list \<Rightarrow> int list" where
  "rounded_shares delta base_sum ws = map (\<lambda>w. round_even (exact_share delta base_sum w)) ws"

lemma shares_rounded: "shares delta b ws = compensate (by_weight ws) (delta - sum_list (rounded_shares delta b ws)) (rounded_shares delta b ws)"
  by (simp add: shares_def rounded_shares_def exact_share_def Let_def)

lemma shares_near:
  assumes "i < length ws"
  shows "\<bar>of_int (shares delta b ws ! i) - exact_share delta b (ws ! i)\<bar> \<le> 3 / 2"
proof -
  let ?r = "rounded_shares delta b ws"
  have len: "length ?r = length ws" by (simp add: rounded_shares_def)
  then have "\<bar>shares delta b ws ! i - ?r ! i\<bar> \<le> 1"
    unfolding shares_rounded using assms by (intro compensate_near) (simp_all add: by_weight_props)
  then have "\<bar>of_int (shares delta b ws ! i) - of_int (?r ! i) :: rat\<bar> \<le> 1" by linarith
  moreover have "\<bar>of_int (?r ! i) - exact_share delta b (ws ! i)\<bar> \<le> 1 / 2"
    using assms round_even_near by (simp add: rounded_shares_def)
  ultimately show ?thesis by linarith
qed

section \<open>A failed call\<close>

lemma adapt_weight_other:
  assumes "i \<noteq> j"
  shows "fst (adapt_weight sv j d s) = Inr () \<and> sd_pool (snd (adapt_weight sv j d s)) ! i = sd_pool s ! i"
  using assms
  by (auto simp: adapt_weight_def circuit_break_def update_api_def api_at_def read_world_def sx_bind_def sx_simps
      split: prod.splits)

lemma adapt_all_other:
  "i \<notin> fst ` set ds \<Longrightarrow> fst (adapt_all sv ds s) = Inr () \<and> sd_pool (snd (adapt_all sv ds s)) ! i = sd_pool s ! i"
proof (induction sv ds arbitrary: s rule: adapt_all.induct)
  case (2 sv j d ds)
  then have j: "i \<noteq> j" by auto
  obtain s' where s': "adapt_weight sv j d s = (Inr (), s')" "sd_pool s' ! i = sd_pool s ! i"
    using adapt_weight_other [OF j, of sv d s] by (cases "adapt_weight sv j d s") auto
  with 2 show ?case by (auto simp: sx_bind_def)
qed (simp add: sx_simps)

lemma get_status_ids:
  assumes "get_status sv i s = (r, s')"
  shows "la_interface_id (sd_pool s' ! k) = la_interface_id (sd_pool s ! k)"
  using assms
  by (cases "i < length (sd_pool s)")
    (auto simp: get_status_def read_world_def api_at_def update_api_def sx_bind_def sx_simps recover_def nth_list_update
      list_update_beyond not_less split: prod.splits if_splits)

lemma live_targets_other:
  "la_interface_id (sd_pool s ! i) = changer \<Longrightarrow>
     \<exists>js s'. live_targets sv changer is s = (Inr js, s') \<and> i \<notin> set js \<and> sd_pool s' ! i = sd_pool s ! i"
proof (induction "is" arbitrary: s)
  case Nil
  show ?case by (simp add: sx_simps)
next
  case (Cons k "is")
  show ?case
  proof (cases "la_interface_id (sd_pool s ! k) = changer")
    case True
    with Cons show ?thesis by (simp add: sx_bind_def api_at_def)
  next
    case False
    with Cons.prems have k: "i \<noteq> k" by auto
    obtain st s1 where s1: "get_status sv k s = (Inr st, s1)" using get_status_returns by blast
    then have same: "sd_pool s1 ! i = sd_pool s ! i" using get_status_other k by blast
    with Cons.IH [of s1] Cons.prems obtain js s' where "live_targets sv changer is s1 = (Inr js, s')"
      "i \<notin> set js" "sd_pool s' ! i = sd_pool s ! i" by auto
    with False k s1 show ?thesis by (simp add: sx_bind_def sx_simps api_at_def)
  qed
qed

lemma redistribute_other:
  assumes "la_interface_id (sd_pool s ! i) = changer"
  shows "sd_pool (snd (redistribute sv delta changer s)) ! i = sd_pool s ! i"
proof -
  obtain js s' where js: "live_targets sv changer [0..<length (sd_pool s)] s = (Inr js, s')" "i \<notin> set js"
    "sd_pool s' ! i = sd_pool s ! i" using live_targets_other [OF assms] by blast
  have "i \<notin> fst ` set (zip js ws)" for ws :: "int list" using js(2) by (auto dest: set_zip_leftD)
  then have "sd_pool (snd (adapt_all sv (zip js ws) s')) ! i = sd_pool s' ! i" for ws
    using adapt_all_other by blast
  then show ?thesis using js by (simp add: redistribute_def sx_bind_def sx_simps)
qed


section \<open>Properties\<close>

text \<open>
  Acquiring an interface from a pool that is not empty never succeeds. The local variable
  \<open>best_api\<close> is declared and never assigned before it is compared: with at least one interface that
  is not stopped, \<open>acquire\<close> raises \<open>UnboundLocalError\<close>; otherwise it raises that or the circuit
  breaker error.
\<close>

theorem acquire_never_serves:
  assumes "sd_pool s \<noteq> []"
  shows "fst (acquire sv s) \<in> {Inl no_usable, Inl UnboundLocalError}
    \<and> (list_ex (\<lambda>a. la_status a \<noteq> STOPPED) (sd_pool s) \<longrightarrow> fst (acquire sv s) = Inl UnboundLocalError)"
proof -
  let ?n = "length (sd_pool s)"
  let ?run = "acquire_loop sv ?n [0..<?n] 0 None s"
  have known: "fst ?run \<in> {Inl no_usable, Inl UnboundLocalError}"
    using assms by (intro acquire_loop_fails) simp_all
  have same: "fst (acquire sv s) = Inl e" if "fst ?run = Inl e" for e
    using assms that by (cases ?run) (auto simp: acquire_def sx_bind_def sx_simps)
  have "fst ?run = Inl UnboundLocalError" if "list_ex (\<lambda>a. la_status a \<noteq> STOPPED) (sd_pool s)"
  proof -
    from that obtain j where "j < ?n" "la_status (sd_pool s ! j) \<noteq> STOPPED"
      by (auto simp: list_ex_iff in_set_conv_nth)
    then show ?thesis by (intro acquire_loop_live [where j = j]) simp_all
  qed
  then have "list_ex (\<lambda>a. la_status a \<noteq> STOPPED) (sd_pool s) \<longrightarrow> fst (acquire sv s) = Inl UnboundLocalError"
    using same by blast
  moreover from known consider "fst ?run = Inl no_usable" | "fst ?run = Inl UnboundLocalError" by blast
  then have "fst (acquire sv s) \<in> {Inl no_usable, Inl UnboundLocalError}" by cases (simp_all add: same)
  ultimately show ?thesis by blast
qed

text \<open>
  Whatever calls are made, in whatever order, from a scheduler in whatever state, also one that has an interface to
  account for, as \<open>acquire\<close> is meant to leave it: the dynamic weights of the pool stay non-negative, because every decrease
  below zero ends in the circuit breaker, which sets the weight to zero. (From a new scheduler \<open>update_weight\<close> always
  raises, because \<open>acquire\<close> never serves.)
\<close>

theorem weights_stay_nonnegative:
  assumes "list_all api_ok (sd_pool s)" "list_all op_ok ops"
  shows "list_all (\<lambda>a. 0 \<le> la_dynamic_weight a) (sd_pool (run_ops sv ops s))"
proof -
  have "pool_ok (run_ops sv ops s)" using assms by (intro run_ops_ok) (simp_all add: pool_ok_def)
  then show ?thesis by (simp add: pool_ok_def api_ok_def list_all_iff)
qed

text \<open>
  How a change of weight is spread over the live interfaces. The compensation moves at most one
  unit per interface: the distributed amounts add up to the rounded shares plus the missing amount
  cut off at the number of interfaces, and each amount is within 3/2 of its exact share. (The shares
  are fractions of the whole pool's weight while the targets leave out the failed and the stopped
  interfaces, so the missing amount is not the rounding error of at most one the source assumes.)
\<close>

theorem shares_bounds:
  "sum_list (shares delta base_sum ws) =
     sum_list (rounded_shares delta base_sum ws)
     + max (- int (length ws)) (min (int (length ws)) (delta - sum_list (rounded_shares delta base_sum ws)))
   \<and> list_all2 (\<lambda>d w. \<bar>of_int d - exact_share delta base_sum w\<bar> \<le> 3 / 2) (shares delta base_sum ws) ws"
proof (rule conjI)
  have len: "length (rounded_shares delta base_sum ws) = length ws" by (simp add: rounded_shares_def)
  show "sum_list (shares delta base_sum ws) =
     sum_list (rounded_shares delta base_sum ws)
     + max (- int (length ws)) (min (int (length ws)) (delta - sum_list (rounded_shares delta base_sum ws)))"
    unfolding shares_rounded by (subst compensate_sum) (simp_all add: len by_weight_props)
  show "list_all2 (\<lambda>d w. \<bar>of_int d - exact_share delta base_sum w\<bar> \<le> 3 / 2) (shares delta base_sum ws) ws"
    using shares_near by (simp add: list_all2_conv_all_nth) (simp add: shares_rounded len)
qed

text \<open>
  A failed call never costs the interface that failed: \<open>update_weight(False)\<close> counts the failure
  and leaves its weights and its status as they are; only the other interfaces are changed.
\<close>

theorem failure_keeps_weight:
  assumes "sd_last_api s = Some i" "i < length (sd_pool s)" "la_status (sd_pool s ! i) \<noteq> STOPPED"
  shows "sd_pool (snd (update_weight sv False s)) ! i = (sd_pool s ! i)\<lparr>la_fail_cnt := la_fail_cnt (sd_pool s ! i) + 1\<rparr>"
proof -
  let ?a = "(sd_pool s ! i)\<lparr>la_fail_cnt := la_fail_cnt (sd_pool s ! i) + 1\<rparr>"
  let ?s = "s\<lparr>sd_pool := (sd_pool s)[i := ?a]\<rparr>"
  have "snd (update_weight sv False s) = snd (redistribute sv (la_decay_step ?a) (la_interface_id ?a) ?s)"
    using assms get_status_live [OF assms(3), of sv]
    by (simp add: update_weight_def record_fail_def update_api_def api_at_def sx_bind_def sx_simps)
  moreover have "sd_pool ?s ! i = ?a" using assms(2) by simp
  ultimately show ?thesis using redistribute_other [of ?s i "la_interface_id ?a"] by simp
qed

section \<open>Witnesses\<close>

definition sample_config :: llm_api_config where
  "sample_config = \<lparr>ac_model_id = ''m'', ac_base_url = ''u'', ac_base_method = ''POST'', ac_access_token = ''t''\<rparr>"

definition sample_api_services :: "rat api_services" where
  "sample_api_services = \<lparr>as_time = (\<lambda>w. (w, w + 1)), as_health_check = (\<lambda>a w. (True, w)),
     as_call = (\<lambda>a. sx_return (config_payload (la_config a)))\<rparr>"

definition sample_pool :: "llm_api list" where
  "sample_pool = [default_api ''a'' sample_config, default_api ''b'' sample_config]"

theorem acquire_never_serves_witness:
  "fst (acquire sample_api_services (new_scheduler sample_pool 0)) = Inl UnboundLocalError"
  using acquire_never_serves [of "new_scheduler sample_pool 0" sample_api_services]
  by (simp add: new_scheduler_def sample_pool_def default_api_def new_api_def)

theorem weights_stay_nonnegative_witness:
  "list_all (\<lambda>a. 0 \<le> la_dynamic_weight a)
     (sd_pool (run_ops sample_api_services [Acquire, UpdateWeight False, CallApi 1]
        ((new_scheduler sample_pool 0)\<lparr>sd_last_api := Some 0\<rparr>)))"
  by (rule weights_stay_nonnegative) (simp_all add: sample_pool_def default_api_def new_api_def api_ok_def new_scheduler_def)

text \<open>Of the 20 units a failure sheds, the other interface of two equal ones gets 11, beyond its base weight.\<close>

lemma shares_of_two_equal: "shares 20 160 [80] = [11]"
  by (simp add: shares_def by_weight_def round_even_def Let_def)

theorem failure_keeps_weight_witness:
  "la_dynamic_weight (sd_pool (snd (update_weight sample_api_services False
      ((new_scheduler sample_pool 0)\<lparr>sd_last_api := Some 0\<rparr>))) ! 0) = 80"
  using failure_keeps_weight [of "(new_scheduler sample_pool 0)\<lparr>sd_last_api := Some 0\<rparr>" 0 sample_api_services]
  by (simp add: new_scheduler_def sample_pool_def default_api_def new_api_def)

end
