(* ===== verification/CrawlPolicy.thy ===== *)
theory CrawlPolicy
  imports Interfaces
begin

text \<open>
  Requests, plans and policies of the crawler: \<open>agent_crawler/models\<close> (\<open>enums.py\<close>,
  \<open>request.py\<close>, \<open>plan.py\<close>), \<open>policy/domain_policy.py\<close>, \<open>policy/policy.py\<close>, and the
  network location \<open>urlparse(url).netloc\<close> of a URL. A domain registry answers with the policy of
  the host, of the longest matching wildcard, or the default; the engine builds the first plan and
  the plan after a failure.
\<close>

section \<open>Network location\<close>

text \<open>
  \<open>urllib.parse.urlsplit\<close> as far as the network location goes: leading control characters and
  spaces and every tab and line end are dropped, a scheme is split off, and the location is what
  follows two slashes up to a slash, a question mark or a hash. Brackets that do not match are a
  \<open>ValueError\<close>. (Newer versions also reject a bracketed host that is no IP address.)
\<close>

definition is_letter :: "char \<Rightarrow> bool" where
  "is_letter c = (let n = (of_char c :: nat) in 65 \<le> n \<and> n \<le> 90 \<or> 97 \<le> n \<and> n \<le> 122)"

definition scheme_char :: "char \<Rightarrow> bool" where
  "scheme_char c = (let n = (of_char c :: nat) in is_letter c \<or> 48 \<le> n \<and> n \<le> 57 \<or> c \<in> set ''+-.'')"

definition clean_url :: "string \<Rightarrow> string" where
  "clean_url url = filter (\<lambda>c. (of_char c :: nat) \<notin> {9, 10, 13}) (dropWhile (\<lambda>c. (of_char c :: nat) \<le> 32) url)"

definition after_scheme :: "string \<Rightarrow> string" where
  "after_scheme url =
     (let scheme = takeWhile (\<lambda>c. c \<noteq> CHR '':'') url in
      if length scheme < length url \<and> scheme \<noteq> [] \<and> is_letter (hd scheme) \<and> list_all scheme_char scheme
      then drop (length scheme + 1) url else url)"

definition url_netloc :: "string \<Rightarrow> string res" where
  "url_netloc url =
     (let rest = after_scheme (clean_url url);
          netloc = (if py_startswith rest ''//'' then takeWhile (\<lambda>c. c \<notin> set ''/?#'') (drop 2 rest) else [])
      in if (CHR ''['' \<in> set netloc) \<noteq> (CHR '']'' \<in> set netloc)
         then Inl (Exc ''ValueError'' ''Invalid IPv6 URL'') else Inr netloc)"

section \<open>Requests and plans\<close>

datatype transport_hint = HintAuto | HintHttp | HintBrowser

datatype transport_kind = HTTP | BROWSER

datatype extract_hint = ExtractAuto | ExtractUniversal | ExtractAdapter | ExtractIntelligent

datatype extract_kind = UNIVERSAL | ADAPTER | INTELLIGENT

datatype render_mode = PLAIN | STRUCTURED | ADAPTER_RENDER | LLM_RENDER

fun transport_value :: "transport_kind \<Rightarrow> string" where
  "transport_value HTTP = ''http''"
| "transport_value BROWSER = ''browser''"

fun extract_value :: "extract_kind \<Rightarrow> string" where
  "extract_value UNIVERSAL = ''universal''"
| "extract_value ADAPTER = ''adapter''"
| "extract_value INTELLIGENT = ''intelligent''"

record crawl_request =
  rq_url :: string
  rq_query :: "string option"
  rq_auth_profile_id :: string
  rq_render :: bool
  rq_render_mode :: render_mode
  rq_transport_hint :: transport_hint
  rq_extract_hint :: extract_hint
  rq_max_attempts :: int
  rq_persist_artifacts :: bool
  rq_options :: "pyval dict"

text \<open>The request with the defaults of the class. Budgets, the debug flag and the model configuration are never read.\<close>

definition crawl_request_of :: "string \<Rightarrow> crawl_request" where
  "crawl_request_of url =
     \<lparr>rq_url = url, rq_query = None, rq_auth_profile_id = ''anonymous'', rq_render = False, rq_render_mode = PLAIN,
      rq_transport_hint = HintAuto, rq_extract_hint = ExtractAuto, rq_max_attempts = 3,
      rq_persist_artifacts = False, rq_options = []\<rparr>"

record crawl_plan =
  cp_transport :: transport_kind
  cp_extract_kind :: extract_kind
  cp_adapter_name :: "string option"
  cp_prefer_profile :: bool
  cp_use_result_cache :: bool
  cp_result_cache_ttl_s :: int
  cp_http_cache_ttl_s :: int
  cp_allow_llm_gate :: bool
  cp_allow_llm_render :: bool

section \<open>Domain policies\<close>

record domain_policy =
  dp_domain :: string
  dp_prefer_browser :: bool
  dp_requires_auth :: bool
  dp_adapter_name :: "string option"
  dp_prefer_profile :: bool
  dp_allow_llm_gate :: bool
  dp_allow_llm_render :: bool
  dp_result_cache_ttl_s :: int
  dp_http_cache_ttl_s :: int

definition policy_of_domain :: "string \<Rightarrow> domain_policy" where
  "policy_of_domain domain =
     \<lparr>dp_domain = domain, dp_prefer_browser = False, dp_requires_auth = False, dp_adapter_name = None,
      dp_prefer_profile = False, dp_allow_llm_gate = False, dp_allow_llm_render = False,
      dp_result_cache_ttl_s = 600, dp_http_cache_ttl_s = 3600\<rparr>"

record domain_policy_registry =
  dr_default_policy :: domain_policy
  dr_policies :: "domain_policy dict"

definition new_domain_registry :: domain_policy_registry where
  "new_domain_registry = \<lparr>dr_default_policy = policy_of_domain ''*'', dr_policies = []\<rparr>"

definition register_policy :: "domain_policy \<Rightarrow> domain_policy_registry \<Rightarrow> domain_policy_registry res" where
  "register_policy p reg = Inr (reg\<lparr>dr_policies := dput (py_lower (dp_domain p)) p (dr_policies reg)\<rparr>)"

interpretation policies: overwriting_registry
  "\<lambda>reg. dget (dr_policies reg)" register_policy "\<lambda>p. py_lower (dp_domain p)" "\<lambda>_. True"
  by unfold_locales (auto simp: register_policy_def)

text \<open>\<open>"*." + ".".join(parts[idx:])\<close>\<close>

definition wildcard :: "string list \<Rightarrow> nat \<Rightarrow> string" where
  "wildcard parts idx = ''*.'' @ py_join ''.'' (drop idx parts)"

fun first_wildcard :: "domain_policy dict \<Rightarrow> string list \<Rightarrow> nat list \<Rightarrow> domain_policy option" where
  "first_wildcard ps parts [] = None"
| "first_wildcard ps parts (i # is) =
     (case dget ps (wildcard parts i) of Some p \<Rightarrow> Some p | None \<Rightarrow> first_wildcard ps parts is)"

definition resolve_host :: "domain_policy_registry \<Rightarrow> string \<Rightarrow> domain_policy" where
  "resolve_host reg host =
     (case dget (dr_policies reg) host of
        Some p \<Rightarrow> p
      | None \<Rightarrow>
          (let parts = py_split (CHR ''.'') host in
           case first_wildcard (dr_policies reg) parts [1..<length parts - 1] of
             Some p \<Rightarrow> p
           | None \<Rightarrow> dr_default_policy reg))"

definition resolve_policy :: "domain_policy_registry \<Rightarrow> string \<Rightarrow> domain_policy res" where
  "resolve_policy reg url = res_bind (url_netloc url) (\<lambda>netloc. Inr (resolve_host reg (py_lower netloc)))"

section \<open>Policy engine\<close>

definition named :: "string option \<Rightarrow> bool" where
  "named x = (case x of None \<Rightarrow> False | Some s \<Rightarrow> s \<noteq> [])"

definition plan_of_policy :: "crawl_request \<Rightarrow> domain_policy \<Rightarrow> crawl_plan" where
  "plan_of_policy rq dp =
     (let transport = (if rq_transport_hint rq = HintBrowser \<or> rq_transport_hint rq = HintAuto \<and> dp_prefer_browser dp
                       then BROWSER else HTTP);
          hint = rq_extract_hint rq;
          adapter = (hint = ExtractAdapter \<or> hint = ExtractAuto \<and> named (dp_adapter_name dp))
      in \<lparr>cp_transport = transport,
          cp_extract_kind = (if adapter then ADAPTER else if hint = ExtractIntelligent then INTELLIGENT else UNIVERSAL),
          cp_adapter_name = (if \<not> adapter \<and> hint = ExtractUniversal then None else dp_adapter_name dp),
          cp_prefer_profile = (dp_prefer_profile dp \<or> dp_requires_auth dp),
          cp_use_result_cache = True,
          cp_result_cache_ttl_s = dp_result_cache_ttl_s dp,
          cp_http_cache_ttl_s = dp_http_cache_ttl_s dp,
          cp_allow_llm_gate = dp_allow_llm_gate dp,
          cp_allow_llm_render = dp_allow_llm_render dp\<rparr>)"

definition build_crawl_plan :: "domain_policy_registry \<Rightarrow> crawl_request \<Rightarrow> crawl_plan res" where
  "build_crawl_plan reg rq = res_bind (resolve_policy reg (rq_url rq)) (\<lambda>dp. Inr (plan_of_policy rq dp))"

definition update_plan_on_failure :: "crawl_plan \<Rightarrow> crawl_plan" where
  "update_plan_on_failure p =
     (if cp_transport p = HTTP \<and> cp_extract_kind p = UNIVERSAL \<and> named (cp_adapter_name p)
      then p\<lparr>cp_extract_kind := ADAPTER\<rparr>
      else if cp_transport p = HTTP then p\<lparr>cp_transport := BROWSER, cp_extract_kind := UNIVERSAL\<rparr>
      else if cp_transport p = BROWSER \<and> named (cp_adapter_name p) \<and> cp_extract_kind p \<noteq> ADAPTER
      then p\<lparr>cp_extract_kind := ADAPTER\<rparr>
      else if cp_extract_kind p \<noteq> INTELLIGENT then p\<lparr>cp_extract_kind := INTELLIGENT\<rparr>
      else p)"

text \<open>The plan \<open>CrawlerRunner._fallback\<close> goes on with.\<close>

definition fallback_plan :: "crawl_plan \<Rightarrow> crawl_plan" where
  "fallback_plan p =
     (let q = update_plan_on_failure p in if q = p then p\<lparr>cp_extract_kind := INTELLIGENT\<rparr> else q)"

section \<open>Which policy a host gets\<close>

lemma first_wildcard_Some:
  "first_wildcard ps parts is = Some p \<longleftrightarrow>
     (\<exists>k < length is. dget ps (wildcard parts (is ! k)) = Some p \<and> (\<forall>j < k. dget ps (wildcard parts (is ! j)) = None))"
proof (induction "is")
  case (Cons i "is")
  show ?case
  proof (cases "dget ps (wildcard parts i)")
    case None
    have "(\<exists>k < length (i # is). dget ps (wildcard parts ((i # is) ! k)) = Some p
         \<and> (\<forall>j < k. dget ps (wildcard parts ((i # is) ! j)) = None))
      \<longleftrightarrow> (\<exists>k < length is. dget ps (wildcard parts (is ! k)) = Some p
         \<and> (\<forall>j < k. dget ps (wildcard parts (is ! j)) = None))"
      using None by (auto simp: Ex_less_Suc2 All_less_Suc2)
    then show ?thesis using None Cons by simp
  next
    case (Some q)
    then show ?thesis by (fastforce simp: Ex_less_Suc2 All_less_Suc2)
  qed
qed simp

lemma first_wildcard_None:
  "first_wildcard ps parts is = None \<longleftrightarrow> list_all (\<lambda>i. dget ps (wildcard parts i) = None) is"
  by (induction "is") (auto split: option.splits)

section \<open>The ladder of fallbacks\<close>

lemma fallback_adapter: "cp_adapter_name (fallback_plan p) = cp_adapter_name p"
  by (simp add: fallback_plan_def update_plan_on_failure_def Let_def)

lemma fallback_changes:
  "fallback_plan p = p \<longleftrightarrow>
     cp_transport p = BROWSER \<and> cp_extract_kind p = INTELLIGENT \<and> \<not> named (cp_adapter_name p)"
  by (cases p; cases "cp_transport p"; cases "cp_extract_kind p")
    (auto simp: fallback_plan_def update_plan_on_failure_def Let_def)

lemma fallback_cases:
  "cp_transport p = BROWSER \<Longrightarrow> named (cp_adapter_name p) \<Longrightarrow>
     fallback_plan p = p\<lparr>cp_extract_kind := (if cp_extract_kind p = ADAPTER then INTELLIGENT else ADAPTER)\<rparr>"
  "cp_transport p = BROWSER \<Longrightarrow> \<not> named (cp_adapter_name p) \<Longrightarrow> fallback_plan p = p\<lparr>cp_extract_kind := INTELLIGENT\<rparr>"
  "cp_transport p = HTTP \<Longrightarrow> cp_extract_kind p = UNIVERSAL \<Longrightarrow> named (cp_adapter_name p) \<Longrightarrow>
     fallback_plan p = p\<lparr>cp_extract_kind := ADAPTER\<rparr>"
  "cp_transport p = HTTP \<Longrightarrow> \<not> (cp_extract_kind p = UNIVERSAL \<and> named (cp_adapter_name p)) \<Longrightarrow>
     fallback_plan p = p\<lparr>cp_transport := BROWSER, cp_extract_kind := UNIVERSAL\<rparr>"
  by (cases p; cases "cp_extract_kind p"; auto simp: fallback_plan_def update_plan_on_failure_def Let_def)+

lemma fallback_browser: "cp_transport p = BROWSER \<Longrightarrow> cp_transport (fallback_plan p) = BROWSER"
  by (cases "named (cp_adapter_name p)") (simp_all add: fallback_cases)

lemma fallback_reaches_browser: "cp_transport ((fallback_plan ^^ 2) p) = BROWSER"
proof (cases "cp_transport p")
  case BROWSER
  then show ?thesis by (simp add: numeral_2_eq_2 fallback_browser)
next
  case HTTP
  then show ?thesis
    by (cases "cp_extract_kind p = UNIVERSAL \<and> named (cp_adapter_name p)")
      (simp_all add: numeral_2_eq_2 fallback_cases fallback_browser)
qed

lemma fallback_browser_pow: "cp_transport p = BROWSER \<Longrightarrow> cp_transport ((fallback_plan ^^ n) p) = BROWSER"
  by (induction n) (simp_all add: fallback_browser)

lemma fallback_adapter_pow: "cp_adapter_name ((fallback_plan ^^ n) p) = cp_adapter_name p"
  by (induction n) (simp_all add: fallback_adapter)

section \<open>Properties\<close>

text \<open>
  A registry built from policies answers for a host with the last policy registered under that
  host; else with the policy of its most specific wildcard, which is one for at least two labels
  and leaves out at least one; else with the default.
\<close>

theorem domain_policy_resolution:
  "resolve_host reg host =
     (if dhas (dr_policies reg) host then the (dget (dr_policies reg) host)
      else let parts = py_split (CHR ''.'') host;
               matching = filter (\<lambda>i. dhas (dr_policies reg) (wildcard parts i)) [1..<length parts - 1]
           in if matching = [] then dr_default_policy reg
              else the (dget (dr_policies reg) (wildcard parts (Min (set matching)))))"
proof -
  let ?ps = "dr_policies reg"
  define parts where "parts = py_split (CHR ''.'') host"
  define m where "m = filter (\<lambda>i. dhas ?ps (wildcard parts i)) [1..<length parts - 1]"
  have "first_wildcard ?ps parts is =
      (if filter (\<lambda>i. dhas ?ps (wildcard parts i)) is = [] then None
       else dget ?ps (wildcard parts (hd (filter (\<lambda>i. dhas ?ps (wildcard parts i)) is))))" for "is"
    by (induction "is") (auto simp: dhas_dget split: option.splits)
  then have first: "first_wildcard ?ps parts [1..<length parts - 1] =
      (if m = [] then None else dget ?ps (wildcard parts (hd m)))"
    by (simp only: m_def)
  have min: "Min (set m) = hd m" if "m \<noteq> []"
  proof -
    have "sorted m" by (simp add: m_def sorted_wrt_filter)
    with that show ?thesis by (cases m) (auto intro!: Min_eqI)
  qed
  have "dhas ?ps (wildcard parts (hd m))" if "m \<noteq> []"
    using hd_in_set [OF that] by (simp add: m_def)
  then show ?thesis
    unfolding resolve_host_def Let_def parts_def [symmetric] m_def [symmetric] first
    using min by (auto simp: dhas_dget split: option.splits)
qed

text \<open>
  After two failures a plan uses the browser, and it never goes back. Without an adapter it
  then settles for good on the intelligent extractor; with an adapter it never settles but goes
  back and forth between the adapter and the intelligent extractor.
\<close>

theorem fallback_ladder:
  assumes "2 \<le> n"
  shows "cp_transport ((fallback_plan ^^ n) p) = BROWSER
    \<and> (if named (cp_adapter_name p)
       then (fallback_plan ^^ (Suc n)) p \<noteq> (fallback_plan ^^ n) p
          \<and> (fallback_plan ^^ (n + 3)) p = (fallback_plan ^^ (n + 1)) p
       else (fallback_plan ^^ (n + 1)) p = (fallback_plan ^^ (n + 2)) p
          \<and> cp_extract_kind ((fallback_plan ^^ (n + 1)) p) = INTELLIGENT)"
proof -
  let ?q = "(fallback_plan ^^ n) p"
  from assms obtain k where n: "n = k + 2" by (metis add.commute le_Suc_ex)
  have browser: "cp_transport ?q = BROWSER"
    unfolding n funpow_add comp_def by (rule fallback_browser_pow) (rule fallback_reaches_browser)
  have name: "cp_adapter_name ?q = cp_adapter_name p" by (rule fallback_adapter_pow)
  have pow: "(fallback_plan ^^ Suc n) p = fallback_plan ?q" "(fallback_plan ^^ (n + 1)) p = fallback_plan ?q"
    "(fallback_plan ^^ (n + 2)) p = fallback_plan (fallback_plan ?q)"
    "(fallback_plan ^^ (n + 3)) p = fallback_plan (fallback_plan (fallback_plan ?q))"
    by (simp_all add: numeral_3_eq_3)
  have ne: "fallback_plan ?q \<noteq> ?q" if "named (cp_adapter_name p)"
    using fallback_changes [of ?q] name that by simp
  have "fallback_plan (fallback_plan (fallback_plan ?q)) = fallback_plan ?q" if "named (cp_adapter_name p)"
    using browser name that by (simp add: fallback_cases)
  moreover have "fallback_plan (fallback_plan ?q) = fallback_plan ?q" "cp_extract_kind (fallback_plan ?q) = INTELLIGENT"
    if "\<not> named (cp_adapter_name p)"
    using browser name that by (simp_all add: fallback_cases)
  ultimately show ?thesis unfolding pow using browser ne by simp
qed

section \<open>Witnesses\<close>

definition adapter_policy :: domain_policy where
  "adapter_policy = (policy_of_domain ''wiki.org'')\<lparr>dp_adapter_name := Some ''wiki''\<rparr>"

theorem fallback_ladder_witness:
  "cp_transport ((fallback_plan ^^ 2) (plan_of_policy (crawl_request_of ''u'') adapter_policy)) = BROWSER
   \<and> (fallback_plan ^^ (2 + 3)) (plan_of_policy (crawl_request_of ''u'') adapter_policy)
      = (fallback_plan ^^ (2 + 1)) (plan_of_policy (crawl_request_of ''u'') adapter_policy)"
proof -
  have "named (cp_adapter_name (plan_of_policy (crawl_request_of ''u'') adapter_policy))"
    by (simp add: plan_of_policy_def crawl_request_of_def adapter_policy_def named_def Let_def)
  with fallback_ladder [of 2 "plan_of_policy (crawl_request_of ''u'') adapter_policy"] show ?thesis
    by (simp del: funpow.simps)
qed

end
