(* ===== verification/PageText.thy ===== *)
theory PageText
  imports CrawlPolicy "HOL-Library.Multiset"
begin

text \<open>
  The text of a page on its way to the agent: documents and chunks (\<open>webkit/models.py\<close>), cleaning
  and chunking (\<open>webkit/pipeline/clean.py\<close>), ranking (\<open>webkit/pipeline/rerank.py\<close>), the quality
  score (\<open>agent_crawler/assess/quality.py\<close>) and rendering (\<open>agent_crawler/render/renderer.py\<close>).
  \<open>ink\<close> is what a text holds beside white space. Floats are rationals, \<open>math.log\<close> and the
  format \<open>.4f\<close> are parameters.
\<close>

section \<open>Documents\<close>

record chunk =
  ck_text :: string
  ck_order :: nat
  ck_source_url :: string
  ck_title :: "string option"
  ck_meta :: "pyval dict"
  ck_score :: rat
  ck_features :: "pyval dict"

definition mk_chunk :: "string \<Rightarrow> nat \<Rightarrow> string \<Rightarrow> string option \<Rightarrow> chunk" where
  "mk_chunk body order source_url title =
     \<lparr>ck_text = body, ck_order = order, ck_source_url = source_url, ck_title = title, ck_meta = [],
      ck_score = 0, ck_features = []\<rparr>"

record document =
  dc_url :: string
  dc_title :: "string option"
  dc_text :: string
  dc_links :: "string list"
  dc_chunks :: "chunk list"

section \<open>Cleaning\<close>

abbreviation carriage_return :: char where
  "carriage_return \<equiv> char_of (13 :: nat)"

abbreviation tab :: char where
  "tab \<equiv> char_of (9 :: nat)"

text \<open>\<open>text.replace("\r\n", "\n").replace("\r", "\n")\<close>\<close>

fun unify_breaks :: "string \<Rightarrow> string" where
  "unify_breaks [] = []"
| "unify_breaks [c] = (if c = carriage_return then nl else [c])"
| "unify_breaks (c # d # cs) =
     (if c = carriage_return then (if d = newline then newline # unify_breaks cs else newline # unify_breaks (d # cs))
      else c # unify_breaks (d # cs))"

text \<open>\<open>re.sub(r"[ \t]+", " ", text)\<close>; the flag is set inside a run.\<close>

definition is_blank :: "char \<Rightarrow> bool" where
  "is_blank c = (c = CHR '' '' \<or> c = tab)"

fun collapse_blanks :: "bool \<Rightarrow> string \<Rightarrow> string" where
  "collapse_blanks inside [] = []"
| "collapse_blanks inside (c # cs) =
     (if is_blank c then (if inside then collapse_blanks True cs else CHR '' '' # collapse_blanks True cs)
      else c # collapse_blanks False cs)"

text \<open>The loop that keeps at most one of a streak of empty lines.\<close>

fun drop_empty_streaks :: "bool \<Rightarrow> string list \<Rightarrow> string list" where
  "drop_empty_streaks blank [] = []"
| "drop_empty_streaks blank (l # ls) =
     (if l = [] then (if blank then drop_empty_streaks True ls else [] # drop_empty_streaks True ls)
      else l # drop_empty_streaks False ls)"

text \<open>\<open>re.sub(r"\n{3,}", "\n\n", text)\<close>; the number is the length of the run of breaks before.\<close>

fun limit_breaks :: "nat \<Rightarrow> string \<Rightarrow> string" where
  "limit_breaks n [] = []"
| "limit_breaks n (c # cs) =
     (if c = newline then (if n < 2 then c # limit_breaks (Suc n) cs else limit_breaks n cs)
      else c # limit_breaks 0 cs)"

definition clean_text :: "string \<Rightarrow> string" where
  "clean_text t =
     limit_breaks 0 (py_strip (py_join nl (drop_empty_streaks False
       (map py_strip (py_split newline (collapse_blanks False (unify_breaks t)))))))"

section \<open>Chunking\<close>

record cleaner =
  cl_max_chunk_chars :: nat
  cl_min_chunk_chars :: nat

definition new_cleaner :: cleaner where
  "new_cleaner = \<lparr>cl_max_chunk_chars = 1200, cl_min_chunk_chars = 200\<rparr>"

text \<open>\<open>text.split("\n\n")\<close>; the first argument is the piece read so far, reversed.\<close>

fun split_paragraphs :: "string \<Rightarrow> string \<Rightarrow> string list" where
  "split_paragraphs cur [] = [rev cur]"
| "split_paragraphs cur [c] = [rev (c # cur)]"
| "split_paragraphs cur (c # d # cs) =
     (if c = newline \<and> d = newline then rev cur # split_paragraphs [] cs
      else split_paragraphs (c # cur) (d # cs))"

definition paragraphs :: "string \<Rightarrow> string list" where
  "paragraphs t = filter (\<lambda>p. p \<noteq> []) (map py_strip (split_paragraphs [] t))"

text \<open>
  The loop that cuts a long paragraph into parts of \<open>m\<close> characters. With \<open>m\<close> zero it does not end:
  the value is \<open>None\<close>.
\<close>

partial_function (option) hard_split :: "nat \<Rightarrow> string \<Rightarrow> nat \<Rightarrow> string list option" where
  "hard_split m p start =
     (if start < length p
      then Option.bind (hard_split m p (start + m)) (\<lambda>rest. Some (py_strip (take m (drop start p)) # rest))
      else Some [])"

text \<open>
  The loop over the paragraphs: the texts of the chunks so far, and the buffer. (The order of a
  chunk is its position.) \<open>flush\<close> is \<open>flush_buf\<close>; it keeps a buffer of white space.
\<close>

definition flush :: "string list \<times> string \<Rightarrow> string list \<times> string" where
  "flush s = (case s of (chunks, buf) \<Rightarrow> if py_strip buf = [] then (chunks, buf) else (chunks @ [py_strip buf], []))"

definition add_paragraph :: "nat \<Rightarrow> string \<Rightarrow> string list \<times> string \<Rightarrow> (string list \<times> string) option" where
  "add_paragraph m p s =
     (case s of (chunks, buf) \<Rightarrow>
        if length p > m
        then Option.bind (hard_split m p 0) (\<lambda>parts. Some (chunks @ parts, buf))
        else if buf = [] then Some (chunks, p)
        else if length buf + 2 + length p \<le> m then Some (chunks, buf @ nl @ nl @ p)
        else Some (fst (flush (chunks, buf)), p))"

fun add_paragraphs :: "nat \<Rightarrow> string list \<Rightarrow> string list \<times> string \<Rightarrow> (string list \<times> string) option" where
  "add_paragraphs m [] s = Some s"
| "add_paragraphs m (p # ps) s = Option.bind (add_paragraph m p s) (add_paragraphs m ps)"

text \<open>The loop that merges runs of tiny chunks; \<open>tmp\<close> is the run so far.\<close>

fun merge_tiny :: "nat \<Rightarrow> string \<Rightarrow> string list \<Rightarrow> string list" where
  "merge_tiny m tmp [] = (if tmp = [] then [] else [py_strip tmp])"
| "merge_tiny m tmp (c # cs) =
     (if length c < m then merge_tiny m (if tmp = [] then c else tmp @ nl @ nl @ c) cs
      else (if tmp = [] then [] else [py_strip tmp]) @ c # merge_tiny m [] cs)"

definition chunk_texts :: "cleaner \<Rightarrow> string \<Rightarrow> string list option" where
  "chunk_texts cl cleaned =
     Option.bind (add_paragraphs (cl_max_chunk_chars cl) (paragraphs cleaned) ([], []))
       (\<lambda>s. Some (merge_tiny (cl_min_chunk_chars cl) [] (fst (flush s))))"

text \<open>\<open>Cleaner.chunk\<close>: the cleaned document with its chunks, numbered from zero.\<close>

definition chunk_document :: "cleaner \<Rightarrow> document \<Rightarrow> document option" where
  "chunk_document cl d =
     Option.bind (chunk_texts cl (clean_text (dc_text d))) (\<lambda>texts. Some
       (d\<lparr>dc_text := clean_text (dc_text d),
          dc_chunks := map (\<lambda>(i, t). mk_chunk t i (dc_url d) (dc_title d)) (List.enumerate 0 texts)\<rparr>))"


section \<open>No text is lost\<close>

definition ink :: "string \<Rightarrow> string" where
  "ink s = filter (\<lambda>c. \<not> py_isspace c) s"

lemma ink_simps [simp]:
  "ink [] = []"
  "ink (c # s) = (if py_isspace c then ink s else c # ink s)"
  "ink (s @ t) = ink s @ ink t"
  "ink (rev s) = rev (ink s)"
  by (simp_all add: ink_def rev_filter)

lemma space_chars [simp]:
  "py_isspace newline" "py_isspace carriage_return" "py_isspace tab" "py_isspace CHR '' ''"
  by (simp_all add: py_isspace_def newline_def Let_def)

lemma ink_nl [simp]: "ink nl = []"
  by (simp add: nl_def newline_def [symmetric])

lemma ink_dropWhile [simp]: "ink (dropWhile py_isspace s) = ink s"
  by (induction s) simp_all

lemma ink_strip [simp]: "ink (py_strip s) = ink s"
  by (simp add: py_strip_def)

lemma ink_empty_strip: "py_strip s = [] \<Longrightarrow> ink s = []"
  by (metis ink_simps(1) ink_strip)

lemma ink_unify_breaks [simp]: "ink (unify_breaks t) = ink t"
  by (induction t rule: unify_breaks.induct) auto

lemma ink_collapse_blanks [simp]: "ink (collapse_blanks b t) = ink t"
  by (induction t arbitrary: b) (auto simp: is_blank_def)

lemma ink_limit_breaks [simp]: "ink (limit_breaks n t) = ink t"
  by (induction t arbitrary: n) auto

lemma ink_join: "ink (py_join nl ls) = concat (map ink ls)"
  by (induction nl ls rule: py_join.induct) auto

lemma ink_split: "concat (map ink (py_split newline t)) = ink t"
proof (induction t)
  case (Cons c t)
  obtain w ws where "py_split newline t = w # ws" by (cases "py_split newline t") simp_all
  with Cons show ?case by auto
qed simp

lemma ink_drop_empty [simp]: "concat (map ink (drop_empty_streaks b ls)) = concat (map ink ls)"
  by (induction ls arbitrary: b) auto

lemma ink_clean_text [simp]: "ink (clean_text t) = ink t"
  by (simp add: clean_text_def ink_join comp_def ink_split)

lemma ink_split_paragraphs: "concat (map ink (split_paragraphs cur t)) = ink (rev cur) @ ink t"
  by (induction cur t rule: split_paragraphs.induct) auto

lemma ink_filter_nonempty: "concat (map ink (filter (\<lambda>p. p \<noteq> []) ps)) = concat (map ink ps)"
  by (induction ps) auto

lemma ink_paragraphs: "concat (map ink (paragraphs t)) = ink t"
  by (simp add: paragraphs_def ink_filter_nonempty comp_def ink_split_paragraphs)

lemma hard_split_keeps:
  assumes "0 < m"
  shows "\<exists>parts. hard_split m p start = Some parts \<and> concat (map ink parts) = ink (drop start p)"
proof (induction "length p - start" arbitrary: start rule: less_induct)
  case less
  show ?case
  proof (cases "start < length p")
    case False
    then show ?thesis by (simp add: hard_split.simps [of m p start])
  next
    case True
    with assms have "length p - (start + m) < length p - start" by simp
    from less [OF this] obtain rest where
      rest: "hard_split m p (start + m) = Some rest" "concat (map ink rest) = ink (drop (start + m) p)" by blast
    have "drop start p = take m (drop start p) @ drop (start + m) p"
      by (metis add.commute append_take_drop_id drop_drop)
    then have "ink (drop start p) = ink (take m (drop start p)) @ ink (drop (start + m) p)"
      by (metis ink_simps(3))
    with True rest show ?thesis by (simp add: hard_split.simps [of m p start])
  qed
qed

lemma hard_split_zero:
  assumes "start < length p"
  shows "hard_split 0 p start = None"
proof (rule ccontr)
  assume "hard_split 0 p start \<noteq> None"
  then obtain parts where parts: "hard_split 0 p start = Some parts" by blast
  have "hard_split 0 p start = Option.bind (hard_split 0 p (start + 0)) (\<lambda>rest. Some (py_strip (take 0 (drop start p)) # rest))"
    using assms by (subst hard_split.simps) simp
  then show False by (simp add: parts)
qed

lemma flush_keeps: "concat (map ink (fst (flush (chunks, buf)))) = concat (map ink chunks) @ ink buf"
  by (simp add: flush_def ink_empty_strip)

text \<open>What the loop over the paragraphs holds: the ink of the chunks and of the buffer.\<close>

definition held :: "string list \<times> string \<Rightarrow> string" where
  "held s = concat (map ink (fst s)) @ ink (snd s)"

lemma add_paragraph_keeps:
  assumes "0 < m"
  shows "\<exists>s'. add_paragraph m p s = Some s' \<and> mset (held s') = mset (held s) + mset (ink p)"
    "length p \<le> m \<Longrightarrow> add_paragraph m p s = Some s' \<Longrightarrow> held s' = held s @ ink p"
proof -
  obtain chunks buf where s: "s = (chunks, buf)" by (cases s)
  obtain parts where "hard_split m p 0 = Some parts" "concat (map ink parts) = ink p"
    using hard_split_keeps [OF assms, of p 0] by auto
  then show "\<exists>s'. add_paragraph m p s = Some s' \<and> mset (held s') = mset (held s) + mset (ink p)"
    by (auto simp: s add_paragraph_def held_def flush_keeps)
  show "length p \<le> m \<Longrightarrow> add_paragraph m p s = Some s' \<Longrightarrow> held s' = held s @ ink p"
    by (auto simp: s add_paragraph_def held_def flush_keeps split: if_splits)
qed

lemma add_paragraphs_keeps:
  assumes "0 < m"
  shows "\<exists>s'. add_paragraphs m ps s = Some s' \<and> mset (held s') = mset (held s) + mset (concat (map ink ps))"
proof (induction ps arbitrary: s)
  case (Cons p ps)
  obtain t where t: "add_paragraph m p s = Some t" "mset (held t) = mset (held s) + mset (ink p)"
    using add_paragraph_keeps(1) [OF assms] by blast
  with Cons.IH [of t] show ?case by auto
qed simp

lemma add_paragraphs_ordered:
  assumes "0 < m" "list_all (\<lambda>p. length p \<le> m) ps" "add_paragraphs m ps s = Some s'"
  shows "held s' = held s @ concat (map ink ps)"
  using assms(2,3)
proof (induction ps arbitrary: s)
  case (Cons p ps)
  then obtain t where t: "add_paragraph m p s = Some t" "add_paragraphs m ps t = Some s'"
    by (auto simp: bind_eq_Some_conv)
  with Cons.IH [of t] Cons.prems add_paragraph_keeps(2) [OF assms(1), of p s t] show ?case by simp
qed simp

lemma merge_tiny_keeps: "concat (map ink (merge_tiny m tmp cs)) = ink tmp @ concat (map ink cs)"
  by (induction m tmp cs rule: merge_tiny.induct) auto

lemma chunk_texts_keep:
  assumes "0 < cl_max_chunk_chars cl"
  shows "\<exists>texts. chunk_texts cl t = Some texts \<and> mset (concat (map ink texts)) = mset (ink t)
    \<and> (list_all (\<lambda>p. length p \<le> cl_max_chunk_chars cl) (paragraphs t) \<longrightarrow> concat (map ink texts) = ink t)"
proof -
  obtain s where s: "add_paragraphs (cl_max_chunk_chars cl) (paragraphs t) ([], []) = Some s"
    "mset (held s) = mset (ink t)"
    using add_paragraphs_keeps [OF assms, of "paragraphs t" "([], [])"] by (auto simp: held_def ink_paragraphs)
  have "list_all (\<lambda>p. length p \<le> cl_max_chunk_chars cl) (paragraphs t) \<Longrightarrow> held s = ink t"
    using add_paragraphs_ordered [OF assms _ s(1)] by (simp add: held_def ink_paragraphs)
  moreover have "concat (map ink (fst (flush s))) = held s" by (cases s) (simp add: flush_keeps held_def)
  ultimately show ?thesis using s by (simp add: chunk_texts_def merge_tiny_keeps)
qed


section \<open>Cleaning twice\<close>

text \<open>
  A clean text is a list of clean lines: no line holds a break, a tab or two blanks in a row or has
  white space at an end, no two lines in a row are empty, and the first and the last one are not.
\<close>

fun single_blanks :: "bool \<Rightarrow> string \<Rightarrow> bool" where
  "single_blanks inside [] = True"
| "single_blanks inside (c # cs) =
     (if is_blank c then c \<noteq> tab \<and> \<not> inside \<and> single_blanks True cs else single_blanks False cs)"

fun no_streak :: "bool \<Rightarrow> string list \<Rightarrow> bool" where
  "no_streak blank [] = True"
| "no_streak blank (l # ls) = (if l = [] then \<not> blank \<and> no_streak True ls else no_streak False ls)"

definition bare :: "string \<Rightarrow> bool" where
  "bare l \<longleftrightarrow> l = [] \<or> \<not> py_isspace (hd l) \<and> \<not> py_isspace (last l)"

definition clean_line :: "string \<Rightarrow> bool" where
  "clean_line l \<longleftrightarrow> bare l \<and> newline \<notin> set l \<and> carriage_return \<notin> set l \<and> single_blanks False l"

definition clean_lines :: "string list \<Rightarrow> bool" where
  "clean_lines ls \<longleftrightarrow> list_all clean_line ls \<and> no_streak False ls \<and> (ls \<noteq> [] \<longrightarrow> hd ls \<noteq> [] \<and> last ls \<noteq> [])"

lemma special_chars [simp]:
  "newline \<noteq> carriage_return" "carriage_return \<noteq> newline" "\<not> is_blank newline" "\<not> is_blank carriage_return"
  "CHR '' '' \<noteq> tab" "carriage_return \<noteq> CHR '' ''" "newline \<noteq> CHR '' ''"
  by (simp_all add: newline_def is_blank_def char_of_def)

lemma join_cons: "ls \<noteq> [] \<Longrightarrow> py_join nl (l # ls) = l @ newline # py_join nl ls"
  by (cases ls) (simp_all add: nl_def newline_def)

lemma single_blanks_break: "single_blanks b (s @ newline # t) \<longleftrightarrow> single_blanks b s \<and> single_blanks False t"
  by (induction s arbitrary: b) auto

lemma single_blanks_mono: "single_blanks True s \<Longrightarrow> single_blanks False s"
  by (cases s) auto

lemma single_blanks_drop: "single_blanks b (s @ t) \<Longrightarrow> single_blanks False t \<and> single_blanks b s"
proof (induction s arbitrary: b)
  case Nil
  then show ?case using single_blanks_mono by (cases b) auto
qed (auto split: if_splits)

lemma collapse_single: "single_blanks b s \<Longrightarrow> collapse_blanks b s = s"
  by (induction s arbitrary: b) (auto simp: is_blank_def split: if_splits)

lemma single_collapse: "single_blanks b (collapse_blanks b s)"
  by (induction s arbitrary: b) (auto simp: is_blank_def)

lemma collapse_set: "c \<in> set (collapse_blanks b s) \<Longrightarrow> c \<in> set s \<or> c = CHR '' ''"
  by (induction s arbitrary: b) (auto split: if_splits)

lemma unify_none: "carriage_return \<notin> set s \<Longrightarrow> unify_breaks s = s"
  by (induction s rule: unify_breaks.induct) auto

lemma unify_set: "carriage_return \<notin> set (unify_breaks s)"
  by (induction s rule: unify_breaks.induct) (auto simp: nl_def newline_def)

lemma no_streak_keep: "no_streak b ls \<Longrightarrow> drop_empty_streaks b ls = ls"
  by (induction ls arbitrary: b) (auto split: if_splits)

lemma streaks_dropped: "no_streak b (drop_empty_streaks b ls)" "set (drop_empty_streaks b ls) \<subseteq> set ls"
  by (induction ls arbitrary: b) auto

lemma limit_line: "newline \<notin> set l \<Longrightarrow> limit_breaks n (l @ s) = l @ limit_breaks (if l = [] then n else 0) s"
  by (induction l arbitrary: n) auto

lemma limit_join:
  "list_all (\<lambda>l. newline \<notin> set l) ls \<Longrightarrow> no_streak b ls \<Longrightarrow> n \<le> (if b then 2 else 1) \<Longrightarrow>
     limit_breaks n (py_join nl ls) = py_join nl ls"
proof (induction ls arbitrary: b n)
  case (Cons l ls)
  show ?case
  proof (cases "ls = []")
    case True
    then show ?thesis using Cons.prems limit_line [of l n "[]"] by simp
  next
    case False
    have "limit_breaks (Suc (if l = [] then n else 0)) (py_join nl ls) = py_join nl ls"
      using Cons.prems by (intro Cons.IH [of "l = []"]) (auto split: if_splits)
    then show ?thesis
      using Cons.prems by (auto simp: join_cons [OF False] limit_line split: if_splits)
  qed
qed simp


lemma dropWhile_bare: "bare l \<Longrightarrow> dropWhile py_isspace l = l"
  by (cases l) (auto simp: bare_def)

lemma bare_rev: "bare (rev l) = bare l"
  by (cases "l = []") (auto simp: bare_def hd_rev last_rev)

lemma bare_strip: "bare (py_strip s)"
proof -
  let ?d = "dropWhile py_isspace"
  have head: "?d x = [] \<or> \<not> py_isspace (hd (?d x))" for x
    using hd_dropWhile [of py_isspace x] by (cases "?d x = []") auto
  show ?thesis
  proof (cases "py_strip s = []")
    case False
    then have ne: "?d (rev (?d s)) \<noteq> []" by (simp add: py_strip_def)
    then have "\<not> py_isspace (last (py_strip s))" using hd_dropWhile [OF ne] by (simp add: py_strip_def last_rev)
    moreover have "hd (py_strip s) = hd (?d s)"
    proof -
      have "suffix (?d (rev (?d s))) (rev (?d s))" by (rule suffix_dropWhile)
      then have "prefix (py_strip s) (?d s)" by (simp add: py_strip_def suffix_to_prefix)
      with False show ?thesis by (auto simp: prefix_def)
    qed
    moreover have "?d s \<noteq> []"
    proof
      assume "?d s = []"
      with ne show False by simp
    qed
    ultimately show ?thesis using hd_dropWhile [of py_isspace s] by (simp add: bare_def)
  qed (simp add: bare_def)
qed

lemma strip_bare: "bare l \<Longrightarrow> py_strip l = l"
  using dropWhile_bare [of l] dropWhile_bare [of "rev l"] by (simp add: py_strip_def bare_rev)

lemma rev_join: "rev (py_join nl ls) = py_join nl (rev (map rev ls))"
proof -
  have snoc: "py_join nl (ks @ [k]) = (if ks = [] then k else py_join nl ks @ newline # k)" for ks k
    by (induction ks) (auto simp: join_cons)
  show ?thesis
    by (induction ls) (auto simp: snoc join_cons)
qed

lemma dropWhile_join:
  "list_all bare ls \<Longrightarrow> dropWhile py_isspace (py_join nl ls) = py_join nl (dropWhile (\<lambda>l. l = []) ls)"
proof (induction ls)
  case (Cons l ls)
  show ?case
  proof (cases "l = []")
    case True
    with Cons show ?thesis by (cases "ls = []") (simp_all add: join_cons)
  next
    case False
    then obtain c l' where "l = c # l'" by (cases l) auto
    with Cons.prems show ?thesis by (cases "ls = []") (auto simp: join_cons bare_def)
  qed
qed simp

definition trim_lines :: "string list \<Rightarrow> string list" where
  "trim_lines ls = rev (dropWhile (\<lambda>l. l = []) (rev (dropWhile (\<lambda>l. l = []) ls)))"

lemma strip_join:
  assumes "list_all bare ls"
  shows "py_strip (py_join nl ls) = py_join nl (trim_lines ls)"
proof -
  let ?d = "dropWhile (\<lambda>l. l = [])"
  have "list_all bare (?d ls)" using assms by (auto simp: list_all_iff dest: set_dropWhileD)
  then have "list_all bare (rev (map rev (?d ls)))" by (auto simp: list_all_iff bare_rev)
  moreover have "?d (rev (map rev ks)) = map rev (?d (rev ks))" for ks :: "string list"
    by (simp add: rev_map dropWhile_map comp_def)
  ultimately have "dropWhile py_isspace (rev (py_join nl (?d ls))) = py_join nl (map rev (?d (rev (?d ls))))"
    by (simp add: rev_join dropWhile_join)
  then have "py_strip (py_join nl ls) = rev (py_join nl (map rev (?d (rev (?d ls)))))"
    by (simp add: py_strip_def dropWhile_join [OF assms])
  also have "\<dots> = py_join nl (trim_lines ls)"
    by (simp add: rev_join trim_lines_def rev_map [symmetric] comp_def)
  finally show ?thesis .
qed

lemma no_streak_append: "no_streak b (xs @ ys) \<Longrightarrow> no_streak b xs \<and> no_streak False ys"
proof (induction xs arbitrary: b)
  case Nil
  then show ?case by (cases ys) (auto split: if_splits)
qed (auto split: if_splits)

lemma trim_lines_props:
  assumes "no_streak False ls"
  shows "no_streak False (trim_lines ls)" "set (trim_lines ls) \<subseteq> set ls"
    "trim_lines ls \<noteq> [] \<Longrightarrow> hd (trim_lines ls) \<noteq> [] \<and> last (trim_lines ls) \<noteq> []"
proof -
  let ?d = "dropWhile (\<lambda>l. l = [])"
  have parts: "ls = takeWhile (\<lambda>l. l = []) ls @ ?d ls" by simp
  have pre: "\<exists>zs. ?d ls = trim_lines ls @ zs"
  proof -
    have "suffix (?d (rev (?d ls))) (rev (?d ls))" by (rule suffix_dropWhile)
    then have "prefix (trim_lines ls) (?d ls)" by (simp add: trim_lines_def suffix_to_prefix)
    then show ?thesis by (auto simp: prefix_def)
  qed
  then obtain zs where zs: "?d ls = trim_lines ls @ zs" by blast
  have "no_streak False (?d ls)" using assms no_streak_append [of False "takeWhile (\<lambda>l. l = []) ls" "?d ls"] by simp
  then show "no_streak False (trim_lines ls)" using no_streak_append [of False "trim_lines ls" zs] zs by simp
  show "set (trim_lines ls) \<subseteq> set ls" by (auto simp: trim_lines_def dest!: set_dropWhileD)
  assume ne: "trim_lines ls \<noteq> []"
  have ne': "?d (rev (?d ls)) \<noteq> []" "?d ls \<noteq> []"
    using ne unfolding trim_lines_def by (blast, metis append_is_Nil_conv ne zs)
  have "last (trim_lines ls) \<noteq> []"
    using hd_dropWhile [OF ne'(1)] by (simp add: trim_lines_def last_rev)
  moreover have "hd (trim_lines ls) = hd (?d ls)" using zs ne by simp
  ultimately show "hd (trim_lines ls) \<noteq> [] \<and> last (trim_lines ls) \<noteq> []" using hd_dropWhile [OF ne'(2)] by simp
qed


lemma single_blanks_split:
  "single_blanks b s \<Longrightarrow> w \<in> set (py_split newline s) \<Longrightarrow> single_blanks False w"
proof (induction "length s" arbitrary: s b rule: less_induct)
  case less
  show ?case
  proof (cases "newline \<in> set s")
    case False
    with less.prems show ?thesis by (cases b) (auto intro: single_blanks_mono)
  next
    case True
    then obtain u v where s: "s = u @ newline # v" "newline \<notin> set u" by (meson split_list_first)
    then have "w = u \<or> w \<in> set (py_split newline v)" using less.prems(2) by (simp add: py_split_append_sep)
    moreover have "single_blanks b u" "single_blanks False v" using less.prems(1) s by (simp_all add: single_blanks_break)
    ultimately show ?thesis using less.hyps [of v False] s by (cases b) (auto intro: single_blanks_mono)
  qed
qed

lemma py_join_split_set: "w \<in> set (py_split c s) \<Longrightarrow> set w \<subseteq> set s"
proof (induction s arbitrary: w)
  case (Cons x s)
  obtain v vs where "py_split c s = v # vs" by (cases "py_split c s") simp_all
  with Cons show ?case by (fastforce split: if_splits)
qed simp

lemma strip_sublist: "\<exists>u v. s = u @ py_strip s @ v"
proof -
  obtain u where u: "s = u @ dropWhile py_isspace s" by (metis takeWhile_dropWhile_id)
  have "suffix (dropWhile py_isspace (rev (dropWhile py_isspace s))) (rev (dropWhile py_isspace s))" by (rule suffix_dropWhile)
  then have "prefix (py_strip s) (dropWhile py_isspace s)" by (simp add: py_strip_def suffix_to_prefix)
  then obtain v where "dropWhile py_isspace s = py_strip s @ v" by (auto simp: prefix_def)
  with u show ?thesis by metis
qed

lemma clean_line_strip:
  assumes "single_blanks False s" "newline \<notin> set s" "carriage_return \<notin> set s"
  shows "clean_line (py_strip s)"
proof -
  obtain u v where s: "s = u @ py_strip s @ v" using strip_sublist by blast
  have "single_blanks False (py_strip s)"
    using assms(1) single_blanks_drop [of False u "py_strip s @ v"] single_blanks_drop [of False "py_strip s" v] s by metis
  moreover have "set (py_strip s) \<subseteq> set s" by (subst (2) s) auto
  ultimately show ?thesis using assms(2,3) by (auto simp: clean_line_def bare_strip)
qed

lemma clean_text_lines: "\<exists>ls. clean_lines ls \<and> clean_text t = py_join nl ls"
proof -
  let ?s = "collapse_blanks False (unify_breaks t)"
  let ?ls = "drop_empty_streaks False (map py_strip (py_split newline ?s))"
  have "carriage_return \<notin> set ?s" using collapse_set unify_set [of t] by fastforce
  moreover have "set w \<subseteq> set ?s" if "w \<in> set (py_split newline ?s)" for w
    using py_join_split_set [OF that] .
  ultimately have "clean_line (py_strip w)" if "w \<in> set (py_split newline ?s)" for w
    using that single_blanks_split [OF single_collapse that] py_split_pieces [OF that] by (intro clean_line_strip) auto
  then have lines: "\<And>l. l \<in> set ?ls \<Longrightarrow> clean_line l" using streaks_dropped(2) by fastforce
  then have trimmed: "clean_lines (trim_lines ?ls)"
    using trim_lines_props [OF streaks_dropped(1)] by (auto simp: clean_lines_def list_all_iff)
  have "py_strip (py_join nl ?ls) = py_join nl (trim_lines ?ls)"
    using lines by (intro strip_join) (auto simp: list_all_iff clean_line_def)
  moreover have "limit_breaks 0 (py_join nl (trim_lines ?ls)) = py_join nl (trim_lines ?ls)"
    using trimmed by (intro limit_join [of _ False]) (auto simp: clean_lines_def clean_line_def list_all_iff)
  ultimately show ?thesis using trimmed unfolding clean_text_def by metis
qed

lemma clean_lines_join:
  assumes "clean_lines ls"
  shows "clean_text (py_join nl ls) = py_join nl ls"
proof (cases "ls = []")
  case True
  then show ?thesis by (simp add: clean_text_def)
next
  case False
  let ?s = "py_join nl ls"
  have lines: "list_all clean_line ls" and streak: "no_streak False ls" and ends: "hd ls \<noteq> []" "last ls \<noteq> []"
    using assms False by (simp_all add: clean_lines_def)
  have blanks: "list_all clean_line ks \<Longrightarrow> single_blanks False (py_join nl ks) \<and> carriage_return \<notin> set (py_join nl ks)" for ks
  proof (induction ks)
    case (Cons k ks)
    then show ?case by (cases "ks = []") (auto simp: join_cons single_blanks_break clean_line_def)
  qed simp
  have same: "collapse_blanks False (unify_breaks ?s) = ?s"
    using blanks [OF lines] by (simp add: unify_none collapse_single)
  have split: "py_split newline ?s = ls"
    using False lines py_split_join [of ls newline] by (auto simp: nl_def newline_def [symmetric] list_all_iff clean_line_def)
  have "map py_strip ls = ls"
    using lines by (intro map_idI) (auto simp: list_all_iff clean_line_def strip_bare)
  moreover have "trim_lines ls = ls"
  proof -
    have "dropWhile (\<lambda>l. l = []) ls = ls" using ends(1) False by (cases ls) auto
    moreover have "dropWhile (\<lambda>l. l = []) (rev ls) = rev ls" using ends(2) False by (cases ls rule: rev_cases) auto
    ultimately show ?thesis by (simp add: trim_lines_def)
  qed
  moreover have "py_strip ?s = py_join nl (trim_lines ls)"
    using lines by (intro strip_join) (auto simp: list_all_iff clean_line_def)
  moreover have "limit_breaks 0 ?s = ?s"
    using lines streak by (intro limit_join [of _ False]) (auto simp: list_all_iff clean_line_def)
  ultimately show ?thesis by (simp add: clean_text_def same split no_streak_keep [OF streak])
qed

lemma clean_text_idem: "clean_text (clean_text t) = clean_text t"
  using clean_text_lines [of t] clean_lines_join by metis


section \<open>Ranking\<close>

text \<open>\<open>re.findall(r"[a-zA-Z0-9]+", s.lower())\<close>; the first argument is the word read so far, reversed.\<close>

definition word_char :: "char \<Rightarrow> bool" where
  "word_char c = (let n = (of_char c :: nat) in is_letter c \<or> 48 \<le> n \<and> n \<le> 57)"

fun find_words :: "string \<Rightarrow> string \<Rightarrow> string list" where
  "find_words cur [] = (if cur = [] then [] else [rev cur])"
| "find_words cur (c # cs) =
     (if word_char c then find_words (c # cur) cs
      else if cur = [] then find_words [] cs else rev cur # find_words [] cs)"

definition tok :: "string \<Rightarrow> string list" where
  "tok s = find_words [] (py_lower s)"

record reranker =
  rr_k1 :: rat
  rr_b :: rat
  rr_early_pos_boost :: rat

definition new_reranker :: reranker where
  "new_reranker = \<lparr>rr_k1 = 12 / 10, rr_b = 75 / 100, rr_early_pos_boost = 12 / 100\<rparr>"

definition position :: "nat \<Rightarrow> chunk \<Rightarrow> rat" where
  "position n c = 1 - of_nat (ck_order c) / of_nat (max 1 (n - 1))"

definition density_score :: "(rat \<Rightarrow> rat) \<Rightarrow> reranker \<Rightarrow> nat \<Rightarrow> chunk \<Rightarrow> chunk" where
  "density_score logf rr n c =
     (let len = max 1 (length (ck_text c));
          penalty = (if len < 1800 then 0 else logf (of_nat len / 1800))
      in c\<lparr>ck_score := logf (1 + of_nat len) - penalty + rr_early_pos_boost rr * position n c,
           ck_features := [(''len'', PInt (int len)), (''pos'', PFloat (position n c))]\<rparr>)"

definition doc_freq :: "string list list \<Rightarrow> string \<Rightarrow> nat" where
  "doc_freq docs t = length (filter (\<lambda>d. t \<in> set d) docs)"

definition idf :: "(rat \<Rightarrow> rat) \<Rightarrow> string list list \<Rightarrow> string \<Rightarrow> rat" where
  "idf logf docs t =
     logf (1 + (of_nat (length docs) - of_nat (doc_freq docs t) + 1 / 2) / (of_nat (doc_freq docs t) + 1 / 2))"

text \<open>\<open>x or 1.0\<close>\<close>

definition or_one :: "rat \<Rightarrow> rat" where
  "or_one x = (if x = 0 then 1 else x)"

definition term_score :: "(rat \<Rightarrow> rat) \<Rightarrow> reranker \<Rightarrow> string list list \<Rightarrow> string list \<Rightarrow> string \<Rightarrow> rat" where
  "term_score logf rr docs tokens t =
     (let f = count_list tokens t;
          avgdl = of_nat (sum_list (map length docs)) / of_nat (max 1 (length docs));
          denom = of_nat f + rr_k1 rr * (1 - rr_b rr + rr_b rr * (of_nat (length tokens) / or_one avgdl))
      in if f = 0 then 0 else idf logf docs t * (of_nat f * (rr_k1 rr + 1)) / or_one denom)"

definition query_score :: "(rat \<Rightarrow> rat) \<Rightarrow> reranker \<Rightarrow> string list \<Rightarrow> string list list \<Rightarrow> nat \<Rightarrow> chunk \<Rightarrow> chunk" where
  "query_score logf rr q docs n c =
     (let tokens = tok (ck_text c)
      in c\<lparr>ck_score := sum_list (map (term_score logf rr docs tokens) q) + rr_early_pos_boost rr * position n c,
           ck_features := [(''dl'', PInt (int (length tokens))), (''pos'', PFloat (position n c)),
                           (''query_terms'', py_strs q)]\<rparr>)"

definition rank_chunks :: "(rat \<Rightarrow> rat) \<Rightarrow> reranker \<Rightarrow> chunk list \<Rightarrow> string option \<Rightarrow> chunk list" where
  "rank_chunks logf rr chunks query =
     (let q = (case query of None \<Rightarrow> [] | Some s \<Rightarrow> if py_strip s = [] then [] else tok s);
          n = length chunks
      in if chunks = [] then chunks
         else if q = [] then sort_key (\<lambda>c. - ck_score c) (map (density_score logf rr n) chunks)
         else sort_key (\<lambda>c. - ck_score c)
                (map (query_score logf rr q (map (\<lambda>c. tok (ck_text c)) chunks) n) chunks))"

section \<open>Quality\<close>

record quality_thresholds =
  qt_min_text_chars :: nat
  qt_min_chunks :: nat
  qt_max_link_density :: rat

definition default_thresholds :: quality_thresholds where
  "default_thresholds = \<lparr>qt_min_text_chars = 200, qt_min_chunks = 1, qt_max_link_density = 8 / 10\<rparr>"

record quality_score =
  qs_score :: rat
  qs_ok :: bool
  qs_reasons :: "string list"
  qs_metrics :: "pyval dict"

definition unique_line_ratio :: "string \<Rightarrow> rat" where
  "unique_line_ratio t =
     (let lines = filter (\<lambda>l. l \<noteq> []) (map py_strip (split_lines False [] t))
      in if lines = [] then 0 else of_nat (card (set lines)) / of_nat (length lines))"

definition link_density :: "document \<Rightarrow> rat" where
  "link_density d = of_nat (length (dc_links d)) / of_nat (max 1 (length (py_words [] (dc_text d))))"

text \<open>The checks, in order: whether it fails, its reason, and what it costs.\<close>

definition quality_checks :: "quality_thresholds \<Rightarrow> document \<Rightarrow> (bool \<times> string \<times> rat) list" where
  "quality_checks th d =
     (let chars = length (py_strip (dc_text d))
      in [(chars < qt_min_text_chars th, ''text_too_short'', 45 / 100),
          (length (dc_chunks d) < qt_min_chunks th, ''no_chunks'', 25 / 100),
          (link_density d > qt_max_link_density th, ''link_density_high'', 2 / 10),
          (unique_line_ratio (dc_text d) < 35 / 100 \<and> chars > 0, ''repeated_lines'', 1 / 10)])"

definition assess_quality :: "quality_thresholds \<Rightarrow> document \<Rightarrow> quality_score" where
  "assess_quality th d =
     (let failed = filter fst (quality_checks th d);
          score = fold (\<lambda>(_, _, cost) s. s - cost) failed 1;
          reasons = map (\<lambda>(_, reason, _). reason) failed
      in \<lparr>qs_score = max 0 (min 1 score), qs_ok = (reasons = []), qs_reasons = reasons,
          qs_metrics = [(''text_chars'', PInt (int (length (py_strip (dc_text d))))),
                        (''chunk_count'', PInt (int (length (dc_chunks d)))),
                        (''link_count'', PInt (int (length (dc_links d)))),
                        (''link_density'', PFloat (link_density d)),
                        (''unique_line_ratio'', PFloat (unique_line_ratio (dc_text d)))]\<rparr>)"

section \<open>Rendering\<close>

record renderer =
  rn_max_links :: nat
  rn_max_chunks :: nat

definition new_renderer :: renderer where
  "new_renderer = \<lparr>rn_max_links = 20, rn_max_chunks = 8\<rparr>"

definition link_lines :: "renderer \<Rightarrow> document \<Rightarrow> string list" where
  "link_lines rn d = map (\<lambda>l. ''- '' @ l) (take (rn_max_links rn) (dc_links d))"

definition render_plain :: "renderer \<Rightarrow> document \<Rightarrow> string" where
  "render_plain rn d =
     (let parts = (if named (dc_title d) then [''# '' @ the (dc_title d)] else [])
                  @ [py_strip (dc_text d)]
                  @ (if dc_links d = [] then [] else [nl @ ''Links:'' @ nl @ py_join nl (link_lines rn d)])
      in py_join (nl @ nl) (filter (\<lambda>p. py_strip p \<noteq> []) parts))"

text \<open>\<open>show4\<close> is the format \<open>.4f\<close>.\<close>

definition render_structured :: "(rat \<Rightarrow> string) \<Rightarrow> renderer \<Rightarrow> document \<Rightarrow> string" where
  "render_structured show4 rn d =
     (let chunks = take (rn_max_chunks rn) (dc_chunks d)
      in py_strip (py_join nl
           ([''# '' @ (if named (dc_title d) then the (dc_title d) else dc_url d), [], ''## Key chunks'']
            @ (if chunks = [] then [py_strip (dc_text d)] else [])
            @ map (\<lambda>(i, c). nl @ ''### Chunk '' @ nat_str i @ '' score='' @ show4 (ck_score c) @ nl @ py_strip (ck_text c))
                (List.enumerate 1 chunks)
            @ (if dc_links d = [] then [] else (nl @ ''## Links'') # link_lines rn d))))"

definition NotImplementedError :: "string \<Rightarrow> exc" where
  "NotImplementedError message = Exc ''NotImplementedError'' message"

definition render_document :: "(rat \<Rightarrow> string) \<Rightarrow> renderer \<Rightarrow> document \<Rightarrow> render_mode \<Rightarrow> string res" where
  "render_document show4 rn d mode =
     (case mode of
        PLAIN \<Rightarrow> Inr (render_plain rn d)
      | STRUCTURED \<Rightarrow> Inr (render_structured show4 rn d)
      | ADAPTER_RENDER \<Rightarrow> Inr (render_structured show4 rn d)
      | LLM_RENDER \<Rightarrow> Inl (NotImplementedError ''LLM rendering is a placeholder for a later implementation.''))"


section \<open>Properties\<close>

text \<open>
  C28: chunking ends for a positive chunk size and neither loses nor invents text: the characters of
  the chunks are those of the page, white space aside, and in the order of the page when no
  paragraph is longer than a chunk. The chunks are numbered from zero and name the page.
\<close>

theorem chunking_keeps_text:
  assumes "0 < cl_max_chunk_chars cl"
  shows "\<exists>d'. chunk_document cl d = Some d'
    \<and> mset (ink (concat (map ck_text (dc_chunks d')))) = mset (ink (dc_text d))
    \<and> map ck_order (dc_chunks d') = [0..<length (dc_chunks d')]
    \<and> list_all (\<lambda>c. ck_source_url c = dc_url d \<and> ck_title c = dc_title d) (dc_chunks d')
    \<and> (list_all (\<lambda>p. length p \<le> cl_max_chunk_chars cl) (paragraphs (dc_text d'))
        \<longrightarrow> ink (concat (map ck_text (dc_chunks d'))) = ink (dc_text d))"
proof -
  let ?t = "clean_text (dc_text d)"
  obtain texts where texts: "chunk_texts cl ?t = Some texts" "mset (concat (map ink texts)) = mset (ink ?t)"
    "list_all (\<lambda>p. length p \<le> cl_max_chunk_chars cl) (paragraphs ?t) \<longrightarrow> concat (map ink texts) = ink ?t"
    using chunk_texts_keep [OF assms] by blast
  have concat: "ink (concat ws) = concat (map ink ws)" for ws by (induction ws) simp_all
  define cs where "cs = map (\<lambda>(i, t). mk_chunk t i (dc_url d) (dc_title d)) (List.enumerate 0 texts)"
  have "map ck_text (map (\<lambda>(i, t). mk_chunk t i u v) (List.enumerate n ts)) = ts"
    "map ck_order (map (\<lambda>(i, t). mk_chunk t i u v) (List.enumerate n ts)) = [n..<n + length ts]" for n u v ts
    by (induction ts arbitrary: n) (simp_all add: mk_chunk_def upt_rec)
  from this(1) this(2) [where n = 0] have fields: "map ck_text cs = texts" "map ck_order cs = [0..<length cs]"
    unfolding cs_def by simp_all
  have "list_all (\<lambda>c. ck_source_url c = dc_url d \<and> ck_title c = dc_title d) cs"
    by (auto simp: cs_def list_all_iff mk_chunk_def)
  moreover have "chunk_document cl d = Some (d\<lparr>dc_text := ?t, dc_chunks := cs\<rparr>)"
    by (simp add: chunk_document_def texts(1) cs_def)
  moreover have "ink (concat (map ck_text cs)) = concat (map ink texts)" by (simp only: fields concat)
  ultimately show ?thesis using texts(2,3) by (simp add: fields(2))
qed

text \<open>
  With a chunk size of zero chunking does not end on a page that has any text.
\<close>

theorem zero_chunk_size_diverges:
  assumes "ink (dc_text d) \<noteq> []" "cl_max_chunk_chars cl = 0"
  shows "chunk_document cl d = None"
proof -
  have "concat (map ink (paragraphs (clean_text (dc_text d)))) \<noteq> []" using assms(1) by (simp add: ink_paragraphs)
  then obtain p ps where ps: "paragraphs (clean_text (dc_text d)) = p # ps"
    by (cases "paragraphs (clean_text (dc_text d))") auto
  then have "p \<in> set (paragraphs (clean_text (dc_text d)))" by simp
  then have "p \<noteq> []" by (auto simp: paragraphs_def)
  then have "add_paragraph 0 p ([], []) = None" using hard_split_zero [of 0 p] by (simp add: add_paragraph_def)
  then show ?thesis by (simp add: chunk_document_def chunk_texts_def ps assms(2))
qed

text \<open>
  The exception to the order: the text before a paragraph longer than a chunk comes after it. The
  parts of the long paragraph are emitted while the paragraph before it is still in the buffer.
\<close>

theorem long_paragraph_overtakes:
  assumes "paragraphs t = [p, q]" "length p \<le> cl_max_chunk_chars cl" "cl_max_chunk_chars cl < length q"
    "0 < cl_max_chunk_chars cl" "cl_min_chunk_chars cl = 0"
  shows "\<exists>parts. hard_split (cl_max_chunk_chars cl) q 0 = Some parts \<and> concat (map ink parts) = ink q
    \<and> chunk_texts cl t = Some (parts @ [p])"
proof -
  have "p \<in> set (paragraphs t)" using assms(1) by simp
  then have p: "p \<noteq> []" "py_strip p = p" by (auto simp: paragraphs_def strip_bare bare_strip)
  obtain parts where "hard_split (cl_max_chunk_chars cl) q 0 = Some parts" "concat (map ink parts) = ink q"
    using hard_split_keeps [OF assms(4), of q 0] by auto
  moreover have "merge_tiny 0 [] cs = cs" for cs by (induction cs) simp_all
  ultimately show ?thesis
    using assms p by (simp add: chunk_texts_def add_paragraph_def flush_def)
qed

text \<open>
  Cleaning is idempotent: a cleaned text is not changed by cleaning it again.
\<close>

theorem cleaning_idempotent:
  "clean_text (clean_text t) = clean_text t"
  by (rule clean_text_idem)

text \<open>
  Ranking permutes the chunks, gives each its score, and sorts by falling score; chunks of equal
  score keep their order.
\<close>

theorem ranking_sorts:
  "mset (map (\<lambda>c. (ck_text c, ck_order c, ck_title c)) (rank_chunks logf rr chunks query)) =
     mset (map (\<lambda>c. (ck_text c, ck_order c, ck_title c)) chunks)
   \<and> sorted_wrt (\<lambda>c d. ck_score c \<ge> ck_score d) (rank_chunks logf rr chunks query)"
proof -
  let ?key = "\<lambda>c. (ck_text c, ck_order c, ck_title c)" and ?r = "rank_chunks logf rr chunks query"
  have "chunks = [] \<or> (\<exists>f. (\<forall>c. ?key (f c) = ?key c) \<and> ?r = sort_key (\<lambda>c. - ck_score c) (map f chunks))"
  proof (cases "chunks = []")
    case False
    define q where "q = (case query of None \<Rightarrow> [] | Some s \<Rightarrow> if py_strip s = [] then [] else tok s)"
    define f where "f = (if q = [] then density_score logf rr (length chunks)
        else query_score logf rr q (map (\<lambda>c. tok (ck_text c)) chunks) (length chunks))"
    have "?r = sort_key (\<lambda>c. - ck_score c) (map f chunks)"
      using False by (simp add: rank_chunks_def q_def [symmetric] f_def Let_def)
    moreover have "\<forall>c. ?key (f c) = ?key c" by (simp add: f_def density_score_def query_score_def Let_def)
    ultimately show ?thesis by blast
  qed simp
  then consider "chunks = []" "?r = []"
    | f where "\<And>c. ?key (f c) = ?key c" "?r = sort_key (\<lambda>c. - ck_score c) (map f chunks)"
    by (auto simp: rank_chunks_def Let_def)
  then show ?thesis
  proof cases
    case 2
    have "?key \<circ> f = ?key" by (rule ext) (simp only: comp_apply 2(1))
    then have "mset (map ?key ?r) = mset (map ?key chunks)"
      unfolding 2(2) mset_map mset_sort by (simp only: multiset.map_comp)
    moreover have "sorted_wrt (\<lambda>c d. ck_score c \<ge> ck_score d) ?r"
      using sorted_sort_key [of "\<lambda>c. - ck_score c" "map f chunks"] by (simp add: 2(2) sorted_map)
    ultimately show ?thesis ..
  qed simp
qed

text \<open>
  Which pages are good enough: the text is long enough, there are enough chunks, there are not
  too many links for the words, and no more than 65 percent of the lines repeat. The score lies
  between 0 and 1, and is 1 exactly for a page that is good enough.
\<close>

theorem quality_exact:
  "(qs_ok (assess_quality th d) \<longleftrightarrow>
      qt_min_text_chars th \<le> length (py_strip (dc_text d)) \<and> qt_min_chunks th \<le> length (dc_chunks d)
      \<and> link_density d \<le> qt_max_link_density th
      \<and> (35 / 100 \<le> unique_line_ratio (dc_text d) \<or> py_strip (dc_text d) = []))
   \<and> 0 \<le> qs_score (assess_quality th d) \<and> qs_score (assess_quality th d) \<le> 1
   \<and> (qs_score (assess_quality th d) = 1 \<longleftrightarrow> qs_ok (assess_quality th d))"
  by (auto simp: assess_quality_def quality_checks_def Let_def)

section \<open>Witnesses\<close>

definition sample_document :: "string \<Rightarrow> document" where
  "sample_document t = \<lparr>dc_url = ''u'', dc_title = None, dc_text = t, dc_links = [], dc_chunks = []\<rparr>"

theorem chunking_keeps_text_witness:
  "\<exists>d'. chunk_document new_cleaner (sample_document ''ab c'') = Some d'
     \<and> mset (ink (concat (map ck_text (dc_chunks d')))) = mset ''abc''"
  using chunking_keeps_text [of new_cleaner "sample_document ''ab c''"]
  by (auto simp: new_cleaner_def sample_document_def py_isspace_def)

theorem zero_chunk_size_diverges_witness:
  "chunk_document \<lparr>cl_max_chunk_chars = 0, cl_min_chunk_chars = 0\<rparr> (sample_document ''a'') = None"
  by (rule zero_chunk_size_diverges) (simp_all add: sample_document_def py_isspace_def)

theorem long_paragraph_overtakes_witness:
  "chunk_texts \<lparr>cl_max_chunk_chars = 3, cl_min_chunk_chars = 0\<rparr> (''a'' @ nl @ nl @ ''bbbb'') = Some [''bbb'', ''b'', ''a'']"
proof -
  let ?cl = "\<lparr>cl_max_chunk_chars = 3, cl_min_chunk_chars = 0\<rparr>"
  have strip: "py_strip ''bbb'' = ''bbb''" "py_strip ''b'' = ''b''" "py_strip ''a'' = ''a''" "py_strip ''bbbb'' = ''bbbb''"
    by (simp_all add: py_strip_def py_isspace_def)
  have ps: "paragraphs (''a'' @ nl @ nl @ ''bbbb'') = [''a'', ''bbbb'']"
    by (simp add: paragraphs_def nl_def newline_def char_of_def strip)
  have parts: "hard_split 3 ''bbbb'' 0 = Some [''bbb'', ''b'']"
    by (simp add: hard_split.simps strip)
  show ?thesis
    using long_paragraph_overtakes [OF ps, of ?cl] parts by simp
qed

end
