(* ===== verification/CrawlCache.thy ===== *)
theory CrawlCache
  imports CrawlPolicy StateExc
begin

text \<open>
  What the crawler keeps between runs: the result cache (\<open>agent_crawler/fetch/result_cache.py\<close>), an
  ordered dictionary with expiry and least-recently-used eviction, and the session store
  (\<open>agent_crawler/session/session_store.py\<close>). The time an operation reads is an argument; all
  reads of one call give the same time.
\<close>

section \<open>Result cache\<close>

record 'b cache_entry =
  ce_bundle :: 'b
  ce_expires_at :: rat

record 'b result_cache =
  rc_ttl_s :: rat
  rc_max_entries :: int
  rc_items :: "'b cache_entry dict"

definition new_result_cache :: "'b result_cache" where
  "new_result_cache = \<lparr>rc_ttl_s = 600, rc_max_entries = 128, rc_items = []\<rparr>"

definition or_empty :: "string option \<Rightarrow> string" where
  "or_empty x = (case x of None \<Rightarrow> [] | Some s \<Rightarrow> s)"

definition make_key :: "crawl_request \<Rightarrow> crawl_plan \<Rightarrow> string" where
  "make_key rq p = py_join ''|''
     [rq_url rq, or_empty (rq_query rq), rq_auth_profile_id rq, transport_value (cp_transport p),
      extract_value (cp_extract_kind p), or_empty (cp_adapter_name p)]"

text \<open>\<open>OrderedDict.move_to_end\<close> of a key that is there.\<close>

definition move_to_end :: "string \<Rightarrow> 'v dict \<Rightarrow> 'v dict" where
  "move_to_end k d = (case dget d k of None \<Rightarrow> d | Some v \<Rightarrow> ddelete k d @ [(k, v)])"

definition cache_get :: "string \<Rightarrow> rat \<Rightarrow> 'b result_cache \<Rightarrow> 'b option \<times> 'b result_cache" where
  "cache_get k now c =
     (case dget (rc_items c) k of
        None \<Rightarrow> (None, c)
      | Some e \<Rightarrow>
          if ce_expires_at e < now then (None, c\<lparr>rc_items := ddelete k (rc_items c)\<rparr>)
          else (Some (ce_bundle e), c\<lparr>rc_items := move_to_end k (rc_items c)\<rparr>))"

text \<open>The loop with \<open>popitem(last=False)\<close>, which raises on an empty dictionary.\<close>

fun evict :: "int \<Rightarrow> 'v dict \<Rightarrow> 'v dict res" where
  "evict m [] = (if 0 > m then Inl (Exc ''KeyError'' ''dictionary is empty'') else Inr [])"
| "evict m (x # d) = (if int (length (x # d)) > m then evict m d else Inr (x # d))"

definition cache_put :: "string \<Rightarrow> 'b \<Rightarrow> rat option \<Rightarrow> rat \<Rightarrow> 'b result_cache \<Rightarrow> 'b result_cache res" where
  "cache_put k b ttl_s now c =
     (let ttl = (case ttl_s of None \<Rightarrow> rc_ttl_s c | Some t \<Rightarrow> t);
          items = dput k \<lparr>ce_bundle = b, ce_expires_at = now + ttl\<rparr> (rc_items c)
      in res_bind (evict (rc_max_entries c) (move_to_end k items)) (\<lambda>d. Inr (c\<lparr>rc_items := d\<rparr>)))"

definition cache_clear :: "'b result_cache \<Rightarrow> 'b result_cache" where
  "cache_clear c = c\<lparr>rc_items := []\<rparr>"

text \<open>A change of the cached object itself, which the cache shares with its caller.\<close>

definition cache_mutate :: "string \<Rightarrow> ('b \<Rightarrow> 'b) \<Rightarrow> 'b result_cache \<Rightarrow> 'b result_cache" where
  "cache_mutate k f c =
     c\<lparr>rc_items := map (\<lambda>(k', e). (k', if k' = k then e\<lparr>ce_bundle := f (ce_bundle e)\<rparr> else e)) (rc_items c)\<rparr>"

section \<open>Sessions\<close>

record crawl_session =
  se_domain :: string
  se_profile_id :: string
  se_transport :: transport_kind
  se_created_at :: rat
  se_last_used :: rat

type_synonym session_key = "string \<times> string \<times> transport_kind"

record session_store =
  ss_ttl_s :: rat
  ss_sessions :: "(session_key \<times> crawl_session) list"

definition new_session_store :: session_store where
  "new_session_store = \<lparr>ss_ttl_s = 1800, ss_sessions = []\<rparr>"

definition key_matches :: "string \<Rightarrow> string option \<Rightarrow> transport_kind option \<Rightarrow> session_key \<Rightarrow> bool" where
  "key_matches domain profile transport k =
     (fst k = domain \<and> (profile = None \<or> profile = Some (fst (snd k)))
      \<and> (transport = None \<or> transport = Some (snd (snd k))))"

definition invalidate_sessions :: "string \<Rightarrow> string option \<Rightarrow> transport_kind option \<Rightarrow> session_store \<Rightarrow> session_store" where
  "invalidate_sessions domain profile transport st =
     st\<lparr>ss_sessions := filter (\<lambda>(k, _). \<not> key_matches domain profile transport k) (ss_sessions st)\<rparr>"

text \<open>\<open>urlparse(url_or_domain).netloc.lower() or url_or_domain.lower()\<close>\<close>

definition session_domain :: "string \<Rightarrow> string res" where
  "session_domain url =
     res_bind (url_netloc url) (\<lambda>n. Inr (if py_lower n = [] then py_lower url else py_lower n))"

definition session_get ::
  "string \<Rightarrow> string \<Rightarrow> transport_kind \<Rightarrow> rat \<Rightarrow> session_store \<Rightarrow> (crawl_session \<times> session_store) res" where
  "session_get url profile transport now st =
     res_bind (session_domain url) (\<lambda>domain.
       let k = (domain, profile, transport);
           found = map_of (ss_sessions st) k;
           expired = (case found of None \<Rightarrow> False
                      | Some s \<Rightarrow> ss_ttl_s st > 0 \<and> now - se_created_at s > ss_ttl_s st);
           st' = (if expired then invalidate_sessions domain (Some profile) (Some transport) st else st);
           session = (case (if expired then None else found) of
                        Some s \<Rightarrow> s\<lparr>se_last_used := now\<rparr>
                      | None \<Rightarrow> \<lparr>se_domain = domain, se_profile_id = profile, se_transport = transport,
                                 se_created_at = now, se_last_used = now\<rparr>)
       in Inr (session, st'\<lparr>ss_sessions := AList.update k session (ss_sessions st')\<rparr>))"

section \<open>The cache over time\<close>

datatype 'b cache_op = CacheGet string rat | CachePut string 'b "rat option" rat | CacheClear

fun op_key :: "'b cache_op \<Rightarrow> string option" where
  "op_key (CacheGet k now) = Some k"
| "op_key (CachePut k b ttl now) = Some k"
| "op_key CacheClear = None"

fun run_cache_op :: "'b cache_op \<Rightarrow> 'b result_cache \<Rightarrow> 'b result_cache res" where
  "run_cache_op (CacheGet k now) c = Inr (snd (cache_get k now c))"
| "run_cache_op (CachePut k b ttl now) c = cache_put k b ttl now c"
| "run_cache_op CacheClear c = Inr (cache_clear c)"

fun run_cache :: "'b cache_op list \<Rightarrow> 'b result_cache \<Rightarrow> 'b result_cache res" where
  "run_cache [] c = Inr c"
| "run_cache (x # xs) c = res_bind (run_cache_op x c) (run_cache xs)"

definition cache_ok :: "'b result_cache \<Rightarrow> bool" where
  "cache_ok c \<longleftrightarrow> dict_ok (rc_items c) \<and> 0 \<le> rc_max_entries c \<and> int (length (rc_items c)) \<le> rc_max_entries c"

lemma ddelete_ok [simp]: "dict_ok d \<Longrightarrow> dict_ok (ddelete k d)"
  by (induction d) (auto simp: dict_ok_def ddelete_def)

lemma ddelete_length: "length (ddelete k d) \<le> length d"
  by (simp add: ddelete_def)

lemma ddelete_present: "dict_ok d \<Longrightarrow> dget d k = Some v \<Longrightarrow> Suc (length (ddelete k d)) = length d"
proof (induction d)
  case (Cons x d)
  have "ddelete k d = d" if "k \<notin> fst ` set d"
    using that by (auto simp: ddelete_def filter_id_conv image_iff)
  with Cons show ?case by (cases x) (auto simp: dict_ok_def ddelete_def split: if_splits)
qed simp

lemma move_to_end_ok: "dict_ok d \<Longrightarrow> dict_ok (move_to_end k d)"
  by (auto simp: move_to_end_def dict_ok_def ddelete_def distinct_map_filter split: option.splits)

lemma move_to_end_length: "dict_ok d \<Longrightarrow> length (move_to_end k d) = length d"
  by (auto simp: move_to_end_def ddelete_present split: option.splits)

lemma evict_drop: "0 \<le> m \<Longrightarrow> evict m d = Inr (drop (length d - nat m) d)"
  by (induction d) (auto simp: drop_Cons' nat_le_iff)

lemma dict_ok_drop: "dict_ok d \<Longrightarrow> dict_ok (drop n d)"
  by (simp add: dict_ok_def drop_map [symmetric])

lemma cache_put_items:
  assumes "0 \<le> rc_max_entries c"
  shows "\<exists>e. ce_bundle e = b \<and> ce_expires_at e = now + (case ttl of None \<Rightarrow> rc_ttl_s c | Some t \<Rightarrow> t)
    \<and> cache_put k b ttl now c = Inr (c\<lparr>rc_items :=
        (let d = ddelete k (rc_items c) @ [(k, e)] in drop (length d - nat (rc_max_entries c)) d)\<rparr>)"
proof -
  have "ddelete k (dput k e d) = ddelete k d" for e and d :: "'a cache_entry dict"
    by (induction d) (auto simp: ddelete_def)
  then show ?thesis
    using assms by (intro exI [of _ "\<lparr>ce_bundle = b, ce_expires_at = now + (case ttl of None \<Rightarrow> rc_ttl_s c | Some t \<Rightarrow> t)\<rparr>"])
      (simp add: cache_put_def Let_def evict_drop move_to_end_def)
qed

lemma cache_op_ok:
  assumes "cache_ok c"
  shows "\<exists>c'. run_cache_op x c = Inr c' \<and> cache_ok c' \<and> rc_max_entries c' = rc_max_entries c"
proof (cases x)
  case (CacheGet k now)
  then show ?thesis using assms ddelete_length [of k "rc_items c"]
    by (auto simp: cache_get_def cache_ok_def move_to_end_ok move_to_end_length split: option.splits intro: le_trans)
next
  case (CachePut k b ttl now)
  have "0 \<le> rc_max_entries c" using assms by (simp add: cache_ok_def)
  from cache_put_items [OF this, of b now ttl k] obtain e where
    e: "cache_put k b ttl now c = Inr (c\<lparr>rc_items :=
        (let d = ddelete k (rc_items c) @ [(k, e)] in drop (length d - nat (rc_max_entries c)) d)\<rparr>)" by blast
  define d where "d = ddelete k (rc_items c) @ [(k, e)]"
  have "dict_ok d"
    using assms by (auto simp: d_def cache_ok_def dict_ok_def ddelete_def distinct_map_filter)
  then have "dict_ok (drop (length d - nat (rc_max_entries c)) d)" by (rule dict_ok_drop)
  moreover have "int (length (drop (length d - nat (rc_max_entries c)) d)) \<le> rc_max_entries c"
    using \<open>0 \<le> rc_max_entries c\<close> by simp
  ultimately show ?thesis using assms by (simp add: CachePut e d_def [symmetric] cache_ok_def Let_def)
next
  case CacheClear
  then show ?thesis using assms by (simp add: cache_ok_def cache_clear_def)
qed

lemma run_cache_ok:
  "cache_ok c \<Longrightarrow> \<exists>c'. run_cache xs c = Inr c' \<and> cache_ok c' \<and> rc_max_entries c' = rc_max_entries c"
proof (induction xs arbitrary: c)
  case (Cons x xs)
  from cache_op_ok [OF Cons.prems, of x] obtain c1 where "run_cache_op x c = Inr c1" "cache_ok c1"
    "rc_max_entries c1 = rc_max_entries c" by blast
  with Cons.IH [of c1] show ?case by auto
qed simp


text \<open>
  An entry is safe as long as the keys used after it are fewer than the cache can hold: they are all
  that stands between it and the end of the order.
\<close>

definition kept_after :: "string \<Rightarrow> 'b \<Rightarrow> rat \<Rightarrow> string set \<Rightarrow> 'b result_cache \<Rightarrow> bool" where
  "kept_after k b t used c \<longleftrightarrow>
     (\<exists>u v e. rc_items c = u @ (k, e) # v \<and> fst ` set v \<subseteq> used \<and> ce_bundle e = b \<and> ce_expires_at e = t)"

lemma ddelete_append [simp]: "ddelete k (u @ v) = ddelete k u @ ddelete k v"
  by (simp add: ddelete_def)

lemma ddelete_cons [simp]: "ddelete k ((k', v) # d) = (if k' = k then ddelete k d else (k', v) # ddelete k d)"
  by (simp add: ddelete_def)

lemma ddelete_keys: "fst ` set (ddelete k d) = fst ` set d - {k}"
  by (auto simp: ddelete_def)

lemma kept_ddelete:
  "k' \<noteq> k \<Longrightarrow> rc_items c = u @ (k, e) # v \<Longrightarrow>
     ddelete k' (rc_items c) = ddelete k' u @ (k, e) # ddelete k' v"
  by simp

lemma kept_get:
  assumes "kept_after k b t used c" "k' \<noteq> k"
  shows "kept_after k b t (insert k' used) (snd (cache_get k' now c))"
proof -
  from assms(1) obtain u v e where c: "rc_items c = u @ (k, e) # v" "fst ` set v \<subseteq> used" "ce_bundle e = b" "ce_expires_at e = t"
    by (auto simp: kept_after_def)
  have "snd (cache_get k' now c) = c \<or> snd (cache_get k' now c) = c\<lparr>rc_items := ddelete k' (rc_items c)\<rparr>
    \<or> (\<exists>x. snd (cache_get k' now c) = c\<lparr>rc_items := ddelete k' (rc_items c) @ [(k', x)]\<rparr>)"
    by (cases "dget (rc_items c) k'") (auto simp: cache_get_def move_to_end_def split: if_splits)
  then consider "snd (cache_get k' now c) = c"
    | "snd (cache_get k' now c) = c\<lparr>rc_items := ddelete k' (rc_items c)\<rparr>"
    | x where "snd (cache_get k' now c) = c\<lparr>rc_items := ddelete k' (rc_items c) @ [(k', x)]\<rparr>"
    by blast
  then show ?thesis
  proof cases
    case 1
    then show ?thesis unfolding kept_after_def
      by (intro exI [of _ u] exI [of _ v] exI [of _ e]) (use c in auto)
  next
    case 2
    then show ?thesis unfolding kept_after_def
      by (intro exI [of _ "ddelete k' u"] exI [of _ "ddelete k' v"] exI [of _ e])
        (use c assms(2) in \<open>auto simp: ddelete_keys\<close>)
  next
    case 3
    then show ?thesis unfolding kept_after_def
      by (intro exI [of _ "ddelete k' u"] exI [of _ "ddelete k' v @ [(k', x)]"] exI [of _ e])
        (use c assms(2) in \<open>auto simp: ddelete_keys\<close>)
  qed
qed

lemma distinct_suffix_bound:
  assumes "dict_ok d" "fst ` set d \<subseteq> used" "finite used"
  shows "length d \<le> card used"
  using assms card_mono [of used "fst ` set d"] distinct_card [of "map fst d"] by (simp add: dict_ok_def)

lemma kept_put:
  assumes "cache_ok c" "kept_after k b t used c" "k' \<noteq> k" "finite used" "int (card (insert k' used)) < rc_max_entries c"
    "cache_put k' b' ttl now c = Inr c'"
  shows "kept_after k b t (insert k' used) c'"
proof -
  let ?m = "nat (rc_max_entries c)"
  from assms(2) obtain u v e where c: "rc_items c = u @ (k, e) # v" "fst ` set v \<subseteq> used" "ce_bundle e = b" "ce_expires_at e = t"
    by (auto simp: kept_after_def)
  have "0 \<le> rc_max_entries c" using assms(1) by (simp add: cache_ok_def)
  from cache_put_items [OF this, of b' now ttl k'] obtain x where
    x: "cache_put k' b' ttl now c = Inr (c\<lparr>rc_items :=
        (let d = ddelete k' (rc_items c) @ [(k', x)] in drop (length d - ?m) d)\<rparr>)" by blast
  define u' v' where "u' = ddelete k' u" and "v' = ddelete k' v @ [(k', x)]"
  have d: "ddelete k' (rc_items c) @ [(k', x)] = u' @ (k, e) # v'" using c(1) assms(3) by (simp add: u'_def v'_def)
  have sub: "fst ` set v' \<subseteq> insert k' used" using c(2) by (auto simp: v'_def ddelete_keys)
  have "dict_ok v" using assms(1) c(1) by (simp add: cache_ok_def dict_ok_def)
  then have "dict_ok v'" by (auto simp: v'_def dict_ok_def ddelete_def distinct_map_filter)
  with sub assms(4) have "length v' \<le> card (insert k' used)" by (intro distinct_suffix_bound) auto
  with assms(5) have n: "length (u' @ (k, e) # v') - ?m \<le> length u'" by simp
  have "c' = c\<lparr>rc_items := drop (length (u' @ (k, e) # v') - ?m) u' @ (k, e) # v'\<rparr>"
    using assms(6) n by (simp add: x d Let_def del: length_append)
  then show ?thesis using c sub by (auto simp: kept_after_def)
qed

lemma kept_run:
  assumes "cache_ok c" "kept_after k b t used c" "finite used"
    "list_all (\<lambda>x. op_key x \<noteq> None \<and> op_key x \<noteq> Some k) xs"
    "int (card (used \<union> {k'. Some k' \<in> op_key ` set xs})) < rc_max_entries c" "run_cache xs c = Inr c'"
  shows "\<exists>used'. kept_after k b t used' c'"
  using assms
proof (induction xs arbitrary: c used)
  case (Cons x xs)
  then obtain k' where k': "op_key x = Some k'" "k' \<noteq> k" by auto
  from cache_op_ok [OF Cons.prems(1), of x] obtain c1 where c1: "run_cache_op x c = Inr c1" "cache_ok c1"
    "rc_max_entries c1 = rc_max_entries c" by blast
  have split: "used \<union> {k'. Some k' \<in> op_key ` set (x # xs)} = insert k' used \<union> {k'. Some k' \<in> op_key ` set xs}"
    using k'(1) by auto
  have fin: "finite (insert k' used \<union> {k'. Some k' \<in> op_key ` set xs})"
  proof -
    have "{k'. Some k' \<in> op_key ` set xs} \<subseteq> the ` op_key ` set xs"
    proof
      fix q assume "q \<in> {k'. Some k' \<in> op_key ` set xs}"
      then have "the (Some q) \<in> the ` op_key ` set xs" by (intro imageI) simp
      then show "q \<in> the ` op_key ` set xs" by simp
    qed
    then have "finite {k'. Some k' \<in> op_key ` set xs}" by (rule finite_subset) simp
    with Cons.prems(3) show ?thesis by simp
  qed
  have bound: "int (card (insert k' used)) < rc_max_entries c"
  proof -
    have "card (insert k' used) \<le> card (insert k' used \<union> {k'. Some k' \<in> op_key ` set xs})"
      by (rule card_mono [OF fin]) blast
    with Cons.prems(5) show ?thesis unfolding split by linarith
  qed
  have "kept_after k b t (insert k' used) c1"
  proof (cases x)
    case (CacheGet q now)
    with k' c1(1) kept_get [OF Cons.prems(2), of q now] show ?thesis by auto
  next
    case (CachePut q b' ttl now)
    with k' c1(1) kept_put [OF Cons.prems(1,2) k'(2) Cons.prems(3) bound] show ?thesis by auto
  qed (use k' in auto)
  then show ?case
    using Cons.prems c1 split by (intro Cons.IH [of c1 "insert k' used"]) auto
qed auto

lemma kept_found:
  assumes "cache_ok c" "kept_after k b t used c" "now \<le> t"
  shows "fst (cache_get k now c) = Some b"
proof -
  from assms(2) obtain u v e where c: "rc_items c = u @ (k, e) # v" "ce_bundle e = b" "ce_expires_at e = t"
    by (auto simp: kept_after_def)
  then have "k \<notin> fst ` set u" using assms(1) by (auto simp: cache_ok_def dict_ok_def)
  then have "dget (rc_items c) k = Some e" using c(1) by (simp add: dget_def map_of_append map_add_def map_of_eq_None_iff [THEN iffD2])
  with c assms(3) show ?thesis by (simp add: cache_get_def)
qed

section \<open>Properties\<close>

text \<open>C27: the result cache stays within its limit: whatever gets, puts (with any lifetime and at any time)
  and clears follow one another, none raises, the cache never holds more than 128 entries, and no key
  has two entries.\<close>

theorem cache_stays_bounded:
  "\<exists>c. run_cache xs new_result_cache = Inr c \<and> length (rc_items c) \<le> 128 \<and> distinct (map fst (rc_items c))"
  using run_cache_ok [of new_result_cache xs] by (auto simp: cache_ok_def new_result_cache_def dict_ok_def)

text \<open>C26: A stored result is found again: after it is put, and after any gets and puts of other keys, as long
  as those keys are fewer than the cache can hold, a get before the result expires returns exactly
  what was put. Eviction only takes what was not used recently.\<close>

theorem recent_entries_stay:
  assumes "cache_ok c" "list_all (\<lambda>x. op_key x \<noteq> None \<and> op_key x \<noteq> Some k) xs"
    "int (card {k'. Some k' \<in> op_key ` set xs}) < rc_max_entries c"
    "later \<le> now + (case ttl of None \<Rightarrow> rc_ttl_s c | Some t \<Rightarrow> t)"
  shows "\<exists>c1 c2. cache_put k b ttl now c = Inr c1 \<and> run_cache xs c1 = Inr c2 \<and> fst (cache_get k later c2) = Some b"
proof -
  have m: "0 < rc_max_entries c" using assms(3) by simp
  then have "0 \<le> rc_max_entries c" by simp
  from cache_put_items [OF this, of b now ttl k] obtain e where
    e: "ce_bundle e = b" "ce_expires_at e = now + (case ttl of None \<Rightarrow> rc_ttl_s c | Some t \<Rightarrow> t)"
      "cache_put k b ttl now c = Inr (c\<lparr>rc_items :=
        (let d = ddelete k (rc_items c) @ [(k, e)] in drop (length d - nat (rc_max_entries c)) d)\<rparr>)" by blast
  from cache_op_ok [OF assms(1), of "CachePut k b ttl now"] obtain c1 where
    c1: "cache_put k b ttl now c = Inr c1" "cache_ok c1" "rc_max_entries c1 = rc_max_entries c" by auto
  have "kept_after k b (now + (case ttl of None \<Rightarrow> rc_ttl_s c | Some t \<Rightarrow> t)) {} c1"
    using c1(1) e m by (auto simp: kept_after_def Let_def)
  moreover obtain c2 where c2: "run_cache xs c1 = Inr c2" "cache_ok c2" using run_cache_ok [OF c1(2), of xs] by blast
  ultimately obtain used where "kept_after k b (now + (case ttl of None \<Rightarrow> rc_ttl_s c | Some t \<Rightarrow> t)) used c2"
    using kept_run [OF c1(2), of k b _ "{}" xs c2] assms(2,3) c1(3) by auto
  with kept_found [OF c2(2)] assms(4) c1(1) c2(1) show ?thesis by blast
qed

theorem recent_entries_stay_witness:
  "\<exists>c1 c2. cache_put ''k'' (7 :: int) None 0 new_result_cache = Inr c1
     \<and> run_cache [CachePut ''a'' 1 None 1, CacheGet ''b'' 2, CacheGet ''a'' 3] c1 = Inr c2
     \<and> fst (cache_get ''k'' 600 c2) = Some 7"
proof (rule recent_entries_stay)
  have "{k'. Some k' \<in> op_key ` set [CachePut ''a'' (1::int) None 1, CacheGet ''b'' 2, CacheGet ''a'' 3]} = {''a'', ''b''}"
    by auto
  then show "int (card {k'. Some k' \<in> op_key ` set [CachePut ''a'' (1::int) None 1, CacheGet ''b'' 2, CacheGet ''a'' 3]})
    < rc_max_entries (new_result_cache :: int result_cache)" by (simp add: new_result_cache_def)
qed (simp_all add: new_result_cache_def cache_ok_def)

text \<open>What the session store holds: every session under its own domain, profile and transport.\<close>

definition session_key_of :: "crawl_session \<Rightarrow> session_key" where
  "session_key_of s = (se_domain s, se_profile_id s, se_transport s)"

definition sessions_ok :: "session_store \<Rightarrow> bool" where
  "sessions_ok st \<longleftrightarrow> list_all (\<lambda>(k, s). session_key_of s = k) (ss_sessions st)"

lemma key_matches_exact: "key_matches d (Some p) (Some t) k \<longleftrightarrow> k = (d, p, t)"
  by (cases k) (auto simp: key_matches_def)

lemma map_of_invalidate:
  "k \<noteq> (d, p, t) \<Longrightarrow> map_of (ss_sessions (invalidate_sessions d (Some p) (Some t) st)) k = map_of (ss_sessions st) k"
proof -
  assume "k \<noteq> (d, p, t)"
  moreover have "map_of (filter (\<lambda>(k, _). k \<noteq> q) xs) k = map_of xs k" if "k \<noteq> q" for q :: session_key and xs :: "(session_key \<times> crawl_session) list"
    using that by (induction xs) auto
  ultimately show ?thesis by (simp add: invalidate_sessions_def key_matches_exact)
qed

lemma list_all_update:
  "list_all P xs \<Longrightarrow> P (k, v) \<Longrightarrow> list_all P (AList.update k v xs)"
  by (induction xs) auto

text \<open>A crawl never continues a stale session or one of another owner: the session the store returns
  belongs to the lower-cased network location of the address (the address itself when it has none),
  to the given profile and transport, was used just now, and, when the store has a lifetime, is not
  older than that. It is the one stored for the next call; every other stored session stays as it is.\<close>

theorem sessions_are_fresh_and_owned:
  assumes "sessions_ok st" "session_get url profile transport now st = Inr (s, st')" "session_domain url = Inr domain"
    "0 < ss_ttl_s st"
  shows "session_key_of s = (domain, profile, transport) \<and> se_last_used s = now \<and> now - se_created_at s \<le> ss_ttl_s st
    \<and> map_of (ss_sessions st') (domain, profile, transport) = Some s \<and> sessions_ok st'
    \<and> (\<forall>k. k \<noteq> (domain, profile, transport) \<longrightarrow> map_of (ss_sessions st') k = map_of (ss_sessions st) k)"
proof -
  have found: "session_key_of s0 = k" if "map_of (ss_sessions st) k = Some s0" for k s0
    using assms(1) map_of_SomeD [OF that] by (auto simp: sessions_ok_def list_all_iff)
  have kept: "sessions_ok (invalidate_sessions domain (Some profile) (Some transport) st)"
    using assms(1) by (auto simp: sessions_ok_def invalidate_sessions_def list_all_iff)
  from assms(2) have "session_key_of s = (domain, profile, transport)" "se_last_used s = now"
    "now - se_created_at s \<le> ss_ttl_s st"
    using found assms(3,4) by (auto simp: session_get_def Let_def session_key_of_def split: option.splits if_splits)
  moreover have "map_of (ss_sessions st') k = (if k = (domain, profile, transport) then Some s else map_of (ss_sessions st) k)" for k
    using assms(2,3) map_of_invalidate [of k domain profile transport st]
    by (auto simp: session_get_def Let_def update_conv')
  moreover have "sessions_ok st'"
    using assms(2,3) kept assms(1) calculation(1)
    by (auto simp: session_get_def Let_def sessions_ok_def intro!: list_all_update split: if_splits)
  ultimately show ?thesis by simp
qed

theorem sessions_are_fresh_and_owned_witness:
  "\<exists>s st'. session_get ''https://Example.com/x'' ''default'' HTTP 5000 new_session_store = Inr (s, st')
     \<and> session_key_of s = (''example.com'', ''default'', HTTP) \<and> sessions_ok st'"
proof -
  have d: "session_domain ''https://Example.com/x'' = Inr ''example.com''" by code_simp
  then obtain s st' where "session_get ''https://Example.com/x'' ''default'' HTTP 5000 new_session_store = Inr (s, st')"
    by (auto simp: session_get_def Let_def)
  with sessions_are_fresh_and_owned [OF _ this d] show ?thesis by (auto simp: new_session_store_def sessions_ok_def)
qed


text \<open>The parts of a key are joined without escaping, so requests of different pages can share a key.\<close>

theorem make_key_collision:
  "make_key ((crawl_request_of ''u|q'')) p = make_key ((crawl_request_of ''u'')\<lparr>rq_query := Some ''q|''\<rparr>) p"
  by (simp add: make_key_def crawl_request_of_def or_empty_def)

end
