(* ===== verification/CrawlRunner.thy ===== *)
theory CrawlRunner
  imports PageText CrawlCache
begin

text \<open>
  A crawl from request to result: \<open>agent_crawler/loop/runner.py\<close> with the components it calls that
  have no theory of their own (\<open>models/result.py\<close>, \<open>models/events.py\<close>, \<open>emit/\<close>,
  \<open>fetch/hybrid_fetcher.py\<close>, \<open>extract/adapter.py\<close>, \<open>extract/intelligent.py\<close>,
  \<open>assess/relevance_gate.py\<close>). Bundles and traces are shared between the cache, the callers and
  the runner, which changes them in place: they live in a store and are named by their position.
  Web transports, the universal extractor, site adapters, clocks, identifiers and output are operations
  on the world. The cleaner is the default one.
\<close>

section \<open>Events and traces\<close>

datatype error_type = FETCH_ERROR | EXTRACT_ERROR | QUALITY_TOO_LOW | RELEVANCE_REJECTED
  | UNSUPPORTED_TRANSPORT | UNSUPPORTED_EXTRACTOR | MAX_ATTEMPTS_EXCEEDED

datatype event_status = STARTED | OK | WARNING | ERROR | SKIPPED

datatype event_step = POLICY | CACHE | SESSION | FETCH | EXTRACT | CLEAN | ASSESS | RENDER | EMIT | FALLBACK

fun error_type_value :: "error_type \<Rightarrow> string" where
  "error_type_value FETCH_ERROR = ''fetch_error''"
| "error_type_value EXTRACT_ERROR = ''extract_error''"
| "error_type_value QUALITY_TOO_LOW = ''quality_too_low''"
| "error_type_value RELEVANCE_REJECTED = ''relevance_rejected''"
| "error_type_value UNSUPPORTED_TRANSPORT = ''unsupported_transport''"
| "error_type_value UNSUPPORTED_EXTRACTOR = ''unsupported_extractor''"
| "error_type_value MAX_ATTEMPTS_EXCEEDED = ''max_attempts_exceeded''"

fun event_status_value :: "event_status \<Rightarrow> string" where
  "event_status_value STARTED = ''started''"
| "event_status_value OK = ''ok''"
| "event_status_value WARNING = ''warning''"
| "event_status_value ERROR = ''error''"
| "event_status_value SKIPPED = ''skipped''"

fun step_value :: "event_step \<Rightarrow> string" where
  "step_value POLICY = ''policy''"
| "step_value CACHE = ''cache''"
| "step_value SESSION = ''session''"
| "step_value FETCH = ''fetch''"
| "step_value EXTRACT = ''extract''"
| "step_value CLEAN = ''clean''"
| "step_value ASSESS = ''assess''"
| "step_value RENDER = ''render''"
| "step_value EMIT = ''emit''"
| "step_value FALLBACK = ''fallback''"

record trace_step =
  ts_attempt :: int
  ts_step_name :: string
  ts_status :: string
  ts_reason :: string
  ts_error_type :: "error_type option"
  ts_meta :: "pyval dict"

text \<open>Points in time are their ISO texts.\<close>

record trace_info =
  ti_run_id :: string
  ti_started_at :: string
  ti_fallback_count :: int
  ti_steps :: "trace_step list"

definition add_step :: "trace_step \<Rightarrow> trace_info \<Rightarrow> trace_info" where
  "add_step t ti = ti\<lparr>ti_steps := ti_steps ti @ [t]\<rparr>"

record crawl_event =
  ev_run_id :: string
  ev_attempt :: int
  ev_step_name :: event_step
  ev_status :: event_status
  ev_url :: string
  ev_final_url :: "string option"
  ev_domain :: string
  ev_transport :: transport_kind
  ev_extractor :: extract_kind
  ev_adapter :: "string option"
  ev_status_code :: "int option"
  ev_elapsed_ms :: "rat option"
  ev_quality_score :: "rat option"
  ev_chunk_count :: "nat option"
  ev_fallback_reason :: "string option"
  ev_error_type :: "error_type option"
  ev_message :: string
  ev_created_at :: string

definition py_opt :: "('a \<Rightarrow> pyval) \<Rightarrow> 'a option \<Rightarrow> pyval" where
  "py_opt f x = (case x of None \<Rightarrow> PNone | Some a \<Rightarrow> f a)"

text \<open>\<open>CrawlEvent.to_dict\<close>; retries and meta are never given.\<close>

definition event_to_dict :: "crawl_event \<Rightarrow> pyval" where
  "event_to_dict e = PDict
     [(''run_id'', PStr (ev_run_id e)), (''attempt'', PInt (ev_attempt e)),
      (''step_name'', PStr (step_value (ev_step_name e))), (''status'', PStr (event_status_value (ev_status e))),
      (''url'', PStr (ev_url e)), (''final_url'', py_opt PStr (ev_final_url e)), (''domain'', PStr (ev_domain e)),
      (''transport'', PStr (transport_value (ev_transport e))),
      (''extractor'', PStr (extract_value (ev_extractor e))), (''adapter'', py_opt PStr (ev_adapter e)),
      (''status_code'', py_opt PInt (ev_status_code e)), (''elapsed_ms'', py_opt PFloat (ev_elapsed_ms e)),
      (''retries'', PInt 0), (''quality_score'', py_opt PFloat (ev_quality_score e)),
      (''chunk_count'', py_opt (\<lambda>n. PInt (int n)) (ev_chunk_count e)),
      (''fallback_reason'', py_opt PStr (ev_fallback_reason e)),
      (''error_type'', py_opt (\<lambda>t. PStr (error_type_value t)) (ev_error_type e)),
      (''message'', PStr (ev_message e)), (''meta'', PDict []), (''created_at'', PStr (ev_created_at e))]"

record event_logger =
  el_jsonl_path :: "string option"
  el_stream :: bool
  el_echo_stdout :: bool

definition new_event_logger :: event_logger where
  "new_event_logger = \<lparr>el_jsonl_path = None, el_stream = False, el_echo_stdout = False\<rparr>"

section \<open>Results\<close>

record fetch_meta =
  fm_url :: string
  fm_final_url :: string
  fm_status_code :: int
  fm_headers :: "string dict"
  fm_elapsed_ms :: rat
  fm_fetched_at :: "string option"
  fm_transport :: transport_kind
  fm_extra :: "pyval dict"

record relevance_result =
  rv_relevant :: bool
  rv_confidence :: rat
  rv_reason :: string

record artifact_refs =
  af_raw_html_ref :: "string option"
  af_document_ref :: "string option"
  af_rendered_ref :: "string option"
  af_debug_ref :: "string option"

record crawl_result_bundle =
  cb_request :: crawl_request
  cb_plan :: crawl_plan
  cb_fetched :: fetch_meta
  cb_raw_html :: "string option"
  cb_doc_clean :: document
  cb_quality :: quality_score
  cb_relevance :: "relevance_result option"
  cb_rendered :: "string option"
  cb_trace :: nat
  cb_artifacts :: "artifact_refs option"

section \<open>Transports, extractors and the state\<close>

record fetched_payload =
  fp_meta :: fetch_meta
  fp_html :: "string option"

record http_response =
  hr_url :: string
  hr_final_url :: string
  hr_status_code :: int
  hr_headers :: "string dict"
  hr_text :: "string res"
  hr_fetched_at :: string

record browser_response =
  br_final_url :: string
  br_status_code :: int
  br_headers :: "string dict"
  br_html :: string
  br_elapsed_ms :: rat
  br_attributes :: "pyval dict"

record 'w crawl_services =
  cs_uuid_hex :: "'w \<Rightarrow> string \<times> 'w"
  cs_utcnow :: "'w \<Rightarrow> string \<times> 'w"
  cs_time :: "'w \<Rightarrow> rat \<times> 'w"
  cs_monotonic :: "'w \<Rightarrow> rat \<times> 'w"
  cs_http :: "string \<Rightarrow> ('w, http_response) sx"
  cs_browser :: "string \<Rightarrow> crawl_session \<Rightarrow> bool \<Rightarrow> bool \<Rightarrow> ('w, browser_response) sx"
  cs_extract :: "string \<Rightarrow> string \<Rightarrow> ('w, document) sx"
  cs_dumps :: "pyval \<Rightarrow> string res"
  cs_append_file :: "string \<Rightarrow> string \<Rightarrow> ('w, unit) sx"
  cs_write_stream :: "string \<Rightarrow> ('w, unit) sx"
  cs_write_stdout :: "string \<Rightarrow> ('w, unit) sx"

record 'w site_adapter =
  sa_name :: string
  sa_can_handle :: "string \<Rightarrow> ('w, bool) sx"
  sa_extract :: "string \<Rightarrow> string \<Rightarrow> ('w, document) sx"

type_synonym 'w site_adapter_registry = "'w site_adapter dict"

record 'w crawler_runner =
  cr_policies :: domain_policy_registry
  cr_adapters :: "'w site_adapter_registry"
  cr_log :: "rat \<Rightarrow> rat"
  cr_reranker :: reranker
  cr_thresholds :: quality_thresholds
  cr_show4 :: "rat \<Rightarrow> string"
  cr_renderer :: renderer
  cr_logger :: event_logger
  cr_artifact_manager :: bool

record 'w crawl_state =
  cw_sessions :: session_store
  cw_cache :: "nat result_cache"
  cw_bundles :: "crawl_result_bundle list"
  cw_traces :: "trace_info list"
  cw_world :: 'w

type_synonym ('w, 'a) crx = "('w crawl_state, 'a) sx"

definition in_world :: "('w, 'a) sx \<Rightarrow> ('w, 'a) crx" where
  "in_world = sx_zoom cw_world (\<lambda>w s. s\<lparr>cw_world := w\<rparr>)"

definition read_op :: "('w \<Rightarrow> 'a \<times> 'w) \<Rightarrow> ('w, 'a) sx" where
  "read_op f = (\<lambda>w. case f w of (a, w') \<Rightarrow> (Inr a, w'))"

section \<open>Emitting events\<close>

definition emit_event :: "'w crawl_services \<Rightarrow> event_logger \<Rightarrow> crawl_event \<Rightarrow> ('w, unit) sx" where
  "emit_event sv lg e =
     sx_bind (sx_lift (cs_dumps sv (event_to_dict e))) (\<lambda>payload.
     sx_bind (case el_jsonl_path lg of
                None \<Rightarrow> sx_return ()
              | Some path \<Rightarrow> if path = [] then sx_return () else cs_append_file sv path (payload @ nl)) (\<lambda>_.
       if el_stream lg then cs_write_stream sv (payload @ nl)
       else if el_echo_stdout lg then cs_write_stdout sv (payload @ nl)
       else sx_return ()))"

section \<open>Fetching\<close>

definition extra_fields :: "pyval dict \<Rightarrow> pyval dict" where
  "extra_fields a =
     [(''auth_required'', dget_default a ''auth_required'' (PBool False)),
      (''auth_confidence'', dget_default a ''auth_confidence'' (PFloat 0)),
      (''auth_reason'', pget a ''auth_reason''),
      (''interactive_login_used'', dget_default a ''interactive_login_used'' (PBool False)),
      (''interactive_login_success'', pget a ''interactive_login_success''),
      (''before_login_url'', pget a ''before_login_url''),
      (''after_login_url'', pget a ''after_login_url''),
      (''before_login_density_score'', pget a ''before_login_density_score''),
      (''after_login_density_score'', pget a ''after_login_density_score''),
      (''page_ref'', pget a ''page_ref''),
      (''context_ref'', pget a ''context_ref''),
      (''kept_open'', dget_default a ''kept_open'' (PBool False)),
      (''redirect_chain'', dget_default a ''redirect_chain'' (PList [])),
      (''storage_state_used'', PBool (py_truthy (dget_default a ''storage_state_used'' (PBool False)))),
      (''storage_state_saved'', PBool (py_truthy (dget_default a ''storage_state_saved'' (PBool False))))]"

text \<open>\<open>HybridFetcher.fetch\<close>. The raw bytes of the payload are never read.\<close>

definition hybrid_fetch ::
  "'w crawl_services \<Rightarrow> string \<Rightarrow> crawl_plan \<Rightarrow> crawl_session \<Rightarrow> pyval dict \<Rightarrow> ('w, fetched_payload) sx" where
  "hybrid_fetch sv url plan session opts =
     sx_bind (read_op (cs_monotonic sv)) (\<lambda>started.
       if cp_transport plan = HTTP
       then sx_bind (cs_http sv url) (\<lambda>resp.
            sx_bind (read_op (cs_monotonic sv)) (\<lambda>now.
            sx_bind (sx_lift (hr_text resp)) (\<lambda>html.
              sx_return
                \<lparr>fp_meta = \<lparr>fm_url = hr_url resp, fm_final_url = hr_final_url resp,
                   fm_status_code = hr_status_code resp, fm_headers = hr_headers resp,
                   fm_elapsed_ms = (now - started) * 1000, fm_fetched_at = Some (hr_fetched_at resp),
                   fm_transport = HTTP, fm_extra = []\<rparr>,
                 fp_html = Some html\<rparr>)))
       else sx_bind (cs_browser sv url session (py_truthy (dget_default opts ''keep_page_open'' (PBool False)))
                       (py_truthy (dget_default opts ''interactive_login'' (PBool False)))) (\<lambda>resp.
            sx_bind (if br_elapsed_ms resp \<noteq> 0 then sx_return (br_elapsed_ms resp)
                     else sx_bind (read_op (cs_monotonic sv)) (\<lambda>now. sx_return ((now - started) * 1000))) (\<lambda>elapsed.
              sx_return
                \<lparr>fp_meta = \<lparr>fm_url = url, fm_final_url = br_final_url resp,
                   fm_status_code = br_status_code resp, fm_headers = br_headers resp,
                   fm_elapsed_ms = elapsed, fm_fetched_at = None,
                   fm_transport = BROWSER, fm_extra = extra_fields (br_attributes resp)\<rparr>,
                 fp_html = Some (br_html resp)\<rparr>)))"

section \<open>Extraction\<close>

definition register_adapter :: "'w site_adapter \<Rightarrow> 'w site_adapter_registry \<Rightarrow> 'w site_adapter_registry res" where
  "register_adapter a reg = Inr (dput (sa_name a) a reg)"

interpretation adapters: overwriting_registry
  "dget :: 'w site_adapter_registry \<Rightarrow> string \<Rightarrow> 'w site_adapter option" register_adapter sa_name "\<lambda>_. True"
  by unfold_locales (auto simp: register_adapter_def)

definition get_adapter :: "'w site_adapter_registry \<Rightarrow> string option \<Rightarrow> 'w site_adapter option" where
  "get_adapter reg name = (case name of None \<Rightarrow> None | Some n \<Rightarrow> dget reg n)"

fun first_handler :: "'w site_adapter list \<Rightarrow> string \<Rightarrow> ('w, 'w site_adapter option) sx" where
  "first_handler [] url = sx_return None"
| "first_handler (a # as) url =
     sx_bind (sa_can_handle a url) (\<lambda>b. if b then sx_return (Some a) else first_handler as url)"

definition resolve_adapter ::
  "'w site_adapter_registry \<Rightarrow> string \<Rightarrow> string option \<Rightarrow> ('w, 'w site_adapter option) sx" where
  "resolve_adapter reg url name =
     (case get_adapter reg name of Some a \<Rightarrow> sx_return (Some a) | None \<Rightarrow> first_handler (dvalues reg) url)"

definition intelligent_extract :: "('w, document) sx" where
  "intelligent_extract = sx_raise (NotImplementedError
     ''LLM-based intelligent extraction is a placeholder for a later implementation.'')"

definition extract_page ::
  "'w crawl_services \<Rightarrow> 'w site_adapter_registry \<Rightarrow> string \<Rightarrow> crawl_request \<Rightarrow> crawl_plan \<Rightarrow> ('w, document) sx" where
  "extract_page sv reg html rq plan =
     (case cp_extract_kind plan of
        UNIVERSAL \<Rightarrow> cs_extract sv html (rq_url rq)
      | ADAPTER \<Rightarrow>
          sx_bind (resolve_adapter reg (rq_url rq) (cp_adapter_name plan)) (\<lambda>a.
            case a of None \<Rightarrow> cs_extract sv html (rq_url rq) | Some a \<Rightarrow> sa_extract a html (rq_url rq))
      | INTELLIGENT \<Rightarrow> intelligent_extract)"

text \<open>\<open>RelevanceGate.check\<close>\<close>

definition relevance_check :: "document \<Rightarrow> string option \<Rightarrow> relevance_result option res" where
  "relevance_check d query =
     (if \<not> named query then Inr None
      else Inl (NotImplementedError ''LLM relevance gate is a placeholder and is disabled by default.''))"

text \<open>\<open>ArtifactAdapterForCrawler.persist\<close>\<close>

definition persist_bundle :: "bool \<Rightarrow> artifact_refs res" where
  "persist_bundle has_manager =
     (if \<not> has_manager
      then Inr \<lparr>af_raw_html_ref = None, af_document_ref = None, af_rendered_ref = None, af_debug_ref = None\<rparr>
      else Inl (NotImplementedError
        ''Project-level artifact_manager integration will be added in a later iteration.''))"


section \<open>The runner\<close>

text \<open>The keyword arguments of \<open>_record\<close>.\<close>

record event_fields =
  ek_message :: string
  ek_final_url :: "string option"
  ek_status_code :: "int option"
  ek_elapsed_ms :: "rat option"
  ek_quality_score :: "rat option"
  ek_chunk_count :: "nat option"
  ek_fallback_reason :: "string option"
  ek_error_type :: "error_type option"

definition message_only :: "string \<Rightarrow> event_fields" where
  "message_only message =
     \<lparr>ek_message = message, ek_final_url = None, ek_status_code = None, ek_elapsed_ms = None,
      ek_quality_score = None, ek_chunk_count = None, ek_fallback_reason = None, ek_error_type = None\<rparr>"

definition change_trace :: "nat \<Rightarrow> (trace_info \<Rightarrow> trace_info) \<Rightarrow> ('w, unit) crx" where
  "change_trace tid f = sx_modify (\<lambda>s. s\<lparr>cw_traces := (cw_traces s)[tid := f (cw_traces s ! tid)]\<rparr>)"

definition change_bundle :: "nat \<Rightarrow> (crawl_result_bundle \<Rightarrow> crawl_result_bundle) \<Rightarrow> ('w, unit) crx" where
  "change_bundle r f = sx_modify (\<lambda>s. s\<lparr>cw_bundles := (cw_bundles s)[r := f (cw_bundles s ! r)]\<rparr>)"

definition new_trace :: "string \<Rightarrow> string \<Rightarrow> ('w, nat) crx" where
  "new_trace run_id started_at = (\<lambda>s.
     (Inr (length (cw_traces s)),
      s\<lparr>cw_traces := cw_traces s @ [\<lparr>ti_run_id = run_id, ti_started_at = started_at, ti_fallback_count = 0, ti_steps = []\<rparr>]\<rparr>))"

definition new_bundle :: "crawl_result_bundle \<Rightarrow> ('w, nat) crx" where
  "new_bundle b = (\<lambda>s. (Inr (length (cw_bundles s)), s\<lparr>cw_bundles := cw_bundles s @ [b]\<rparr>))"

text \<open>\<open>_record\<close>: the step is added to the trace before the event is built and emitted.\<close>

definition record_step ::
  "'w crawl_services \<Rightarrow> 'w crawler_runner \<Rightarrow> crawl_request \<Rightarrow> nat \<Rightarrow> crawl_plan \<Rightarrow> int \<Rightarrow> event_step \<Rightarrow> event_status
     \<Rightarrow> event_fields \<Rightarrow> ('w, unit) crx" where
  "record_step sv rn rq tid plan attempt step status k =
     sx_bind (change_trace tid (add_step
       \<lparr>ts_attempt = attempt, ts_step_name = step_value step, ts_status = event_status_value status,
        ts_reason = ek_message k, ts_error_type = ek_error_type k,
        ts_meta = [(''plan_transport'', PStr (transport_value (cp_transport plan))),
                   (''plan_extract_kind'', PStr (extract_value (cp_extract_kind plan)))]\<rparr>)) (\<lambda>_.
     sx_bind sx_get (\<lambda>s.
     sx_bind (sx_lift (url_netloc (rq_url rq))) (\<lambda>netloc.
     sx_bind (in_world (read_op (cs_utcnow sv))) (\<lambda>now.
       in_world (emit_event sv (cr_logger rn)
         \<lparr>ev_run_id = ti_run_id (cw_traces s ! tid), ev_attempt = attempt, ev_step_name = step, ev_status = status,
          ev_url = rq_url rq, ev_final_url = ek_final_url k, ev_domain = py_lower netloc,
          ev_transport = cp_transport plan, ev_extractor = cp_extract_kind plan, ev_adapter = cp_adapter_name plan,
          ev_status_code = ek_status_code k, ev_elapsed_ms = ek_elapsed_ms k,
          ev_quality_score = ek_quality_score k, ev_chunk_count = ek_chunk_count k,
          ev_fallback_reason = ek_fallback_reason k, ev_error_type = ek_error_type k,
          ev_message = ek_message k, ev_created_at = now\<rparr>)))))"

text \<open>\<open>_fallback\<close>\<close>

definition fall_back ::
  "'w crawl_services \<Rightarrow> 'w crawler_runner \<Rightarrow> crawl_request \<Rightarrow> nat \<Rightarrow> crawl_plan \<Rightarrow> int \<Rightarrow> string \<Rightarrow> ('w, crawl_plan) crx" where
  "fall_back sv rn rq tid plan attempt reason =
     (let next_plan = fallback_plan plan in
      sx_bind (if next_plan \<noteq> plan
               then change_trace tid (\<lambda>t. t\<lparr>ti_fallback_count := ti_fallback_count t + 1\<rparr>) else sx_return ()) (\<lambda>_.
      sx_bind (record_step sv rn rq tid next_plan attempt FALLBACK WARNING
                 ((message_only reason)\<lparr>ek_fallback_reason := Some reason\<rparr>)) (\<lambda>_.
        sx_return next_plan)))"

text \<open>How one attempt ends: with a result, or with the plan and the error of the next attempt.\<close>

datatype attempt_end = Finished nat | Retry crawl_plan error_type

text \<open>Go on unless the attempt has ended.\<close>

definition early :: "('s, attempt_end + 'a) sx \<Rightarrow> ('a \<Rightarrow> ('s, attempt_end) sx) \<Rightarrow> ('s, attempt_end) sx" where
  "early m f = sx_bind m (\<lambda>x. case x of Inl r \<Rightarrow> sx_return r | Inr a \<Rightarrow> f a)"

definition retry ::
  "'w crawl_services \<Rightarrow> 'w crawler_runner \<Rightarrow> crawl_request \<Rightarrow> nat \<Rightarrow> crawl_plan \<Rightarrow> int \<Rightarrow> error_type \<Rightarrow> string
     \<Rightarrow> ('w, attempt_end + 'a) crx" where
  "retry sv rn rq tid plan attempt err reason =
     sx_bind (fall_back sv rn rq tid plan attempt reason) (\<lambda>p. sx_return (Inl (Retry p err)))"

text \<open>An error step is recorded before the fallback.\<close>

definition failed ::
  "'w crawl_services \<Rightarrow> 'w crawler_runner \<Rightarrow> crawl_request \<Rightarrow> nat \<Rightarrow> crawl_plan \<Rightarrow> int \<Rightarrow> event_step \<Rightarrow> error_type \<Rightarrow> string
     \<Rightarrow> ('w, attempt_end + 'a) crx" where
  "failed sv rn rq tid plan attempt step err reason =
     sx_bind (record_step sv rn rq tid plan attempt step ERROR ((message_only reason)\<lparr>ek_error_type := Some err\<rparr>)) (\<lambda>_.
       retry sv rn rq tid plan attempt err reason)"

definition error_of :: "error_type \<Rightarrow> error_type \<Rightarrow> exc \<Rightarrow> error_type" where
  "error_of unsupported other e = (if exc_class e = ''NotImplementedError'' then unsupported else other)"

text \<open>\<open>str(options.get("cache_mode", "prefer"))\<close> compared with a mode.\<close>

definition cache_mode_is :: "crawl_request \<Rightarrow> string \<Rightarrow> bool" where
  "cache_mode_is rq mode = (dget_default (rq_options rq) ''cache_mode'' (PStr ''prefer'') = PStr mode)"

definition lookup_result :: "'w crawl_services \<Rightarrow> string \<Rightarrow> ('w, nat option) crx" where
  "lookup_result sv k = (\<lambda>s.
     case dget (rc_items (cw_cache s)) k of
       None \<Rightarrow> (Inr None, s)
     | Some _ \<Rightarrow>
         (case cs_time sv (cw_world s) of (now, w) \<Rightarrow>
            (case cache_get k now (cw_cache s) of (r, c) \<Rightarrow> (Inr r, s\<lparr>cw_cache := c, cw_world := w\<rparr>))))"

definition serve_cached ::
  "'w crawl_services \<Rightarrow> 'w crawler_runner \<Rightarrow> crawl_request \<Rightarrow> nat \<Rightarrow> crawl_plan \<Rightarrow> int \<Rightarrow> nat \<Rightarrow> ('w, attempt_end + unit) crx" where
  "serve_cached sv rn rq tid plan attempt r =
     sx_bind (record_step sv rn rq tid plan attempt CACHE OK (message_only ''result cache hit'')) (\<lambda>_.
     sx_bind (change_bundle r (\<lambda>b. b\<lparr>cb_trace := tid\<rparr>)) (\<lambda>_.
     sx_bind sx_get (\<lambda>s.
     sx_bind
       (if rq_render rq \<and> cb_rendered (cw_bundles s ! r) = None
        then sx_bind (sx_lift (render_document (cr_show4 rn) (cr_renderer rn)
                        (cb_doc_clean (cw_bundles s ! r)) (rq_render_mode rq))) (\<lambda>t.
             change_bundle r (\<lambda>b. b\<lparr>cb_rendered := Some t\<rparr>))
        else sx_return ()) (\<lambda>_.
       sx_return (Inl (Finished r))))))"

definition cached_result ::
  "'w crawl_services \<Rightarrow> 'w crawler_runner \<Rightarrow> crawl_request \<Rightarrow> nat \<Rightarrow> crawl_plan \<Rightarrow> int \<Rightarrow> ('w, attempt_end + unit) crx" where
  "cached_result sv rn rq tid plan attempt =
     (if cp_use_result_cache plan \<and> \<not> cache_mode_is rq ''bypass''
      then sx_bind (lookup_result sv (make_key rq plan)) (\<lambda>cached.
        case (if cache_mode_is rq ''refresh'' then None else cached) of
          Some r \<Rightarrow> serve_cached sv rn rq tid plan attempt r
        | None \<Rightarrow>
            sx_bind (record_step sv rn rq tid plan attempt CACHE SKIPPED (message_only ''result cache miss'')) (\<lambda>_.
              sx_return (Inr ())))
      else sx_return (Inr ()))"

definition session_for :: "'w crawl_services \<Rightarrow> crawl_request \<Rightarrow> crawl_plan \<Rightarrow> ('w, crawl_session) crx" where
  "session_for sv rq plan = (\<lambda>s.
     case cs_time sv (cw_world s) of (now, w) \<Rightarrow>
       (case session_get (rq_url rq) (rq_auth_profile_id rq) (cp_transport plan) now (cw_sessions s) of
          Inl e \<Rightarrow> (Inl e, s\<lparr>cw_world := w\<rparr>)
        | Inr (session, st) \<Rightarrow> (Inr session, s\<lparr>cw_sessions := st, cw_world := w\<rparr>)))"

text \<open>A \<open>TypeError\<close>, wherever it comes from, is taken for a fetcher without options.\<close>

definition fetch_page ::
  "'w crawl_services \<Rightarrow> 'w crawler_runner \<Rightarrow> crawl_request \<Rightarrow> nat \<Rightarrow> crawl_plan \<Rightarrow> int \<Rightarrow> crawl_session
     \<Rightarrow> ('w, attempt_end + fetched_payload) crx" where
  "fetch_page sv rn rq tid plan attempt session =
     sx_try
       (sx_bind
          (sx_try (in_world (hybrid_fetch sv (rq_url rq) plan session (rq_options rq)))
             (\<lambda>e. exc_class e = ''TypeError'') (\<lambda>_. in_world (hybrid_fetch sv (rq_url rq) plan session []))) (\<lambda>fetched.
        sx_bind (record_step sv rn rq tid plan attempt FETCH OK
          ((message_only ''fetch complete'')\<lparr>ek_final_url := Some (fm_final_url (fp_meta fetched)),
             ek_status_code := Some (fm_status_code (fp_meta fetched)),
             ek_elapsed_ms := Some (fm_elapsed_ms (fp_meta fetched))\<rparr>)) (\<lambda>_.
          sx_return (Inr fetched))))
       (\<lambda>_. True)
       (\<lambda>e. failed sv rn rq tid plan attempt FETCH (error_of UNSUPPORTED_TRANSPORT FETCH_ERROR e) (exc_text e))"

definition check_status ::
  "'w crawl_services \<Rightarrow> 'w crawler_runner \<Rightarrow> crawl_request \<Rightarrow> nat \<Rightarrow> crawl_plan \<Rightarrow> int \<Rightarrow> fetched_payload
     \<Rightarrow> ('w, attempt_end + unit) crx" where
  "check_status sv rn rq tid plan attempt fetched =
     (if fm_status_code (fp_meta fetched) \<ge> 400
      then failed sv rn rq tid plan attempt FETCH FETCH_ERROR (''bad status '' @ int_str (fm_status_code (fp_meta fetched)))
      else sx_return (Inr ()))"

definition final_url_message :: "fetched_payload \<Rightarrow> string \<Rightarrow> event_fields" where
  "final_url_message fetched message = (message_only message)\<lparr>ek_final_url := Some (fm_final_url (fp_meta fetched))\<rparr>"

definition prepare_document :: "'w crawler_runner \<Rightarrow> crawl_request \<Rightarrow> document \<Rightarrow> document" where
  "prepare_document rn rq d =
     (let d' = the (chunk_document new_cleaner d)
      in d'\<lparr>dc_chunks := rank_chunks (cr_log rn) (cr_reranker rn) (dc_chunks d') (rq_query rq)\<rparr>)"

definition extract_and_clean ::
  "'w crawl_services \<Rightarrow> 'w crawler_runner \<Rightarrow> crawl_request \<Rightarrow> nat \<Rightarrow> crawl_plan \<Rightarrow> int \<Rightarrow> fetched_payload
     \<Rightarrow> ('w, attempt_end + document) crx" where
  "extract_and_clean sv rn rq tid plan attempt fetched =
     sx_try
       (sx_bind (in_world (extract_page sv (cr_adapters rn) (or_empty (fp_html fetched)) rq plan)) (\<lambda>raw.
        sx_bind (record_step sv rn rq tid plan attempt EXTRACT OK (final_url_message fetched ''extract complete'')) (\<lambda>_.
          let doc = prepare_document rn rq raw in
          sx_bind (record_step sv rn rq tid plan attempt CLEAN OK
            ((final_url_message fetched ''clean and rerank complete'')\<lparr>ek_chunk_count := Some (length (dc_chunks doc))\<rparr>)) (\<lambda>_.
            sx_return (Inr doc)))))
       (\<lambda>_. True)
       (\<lambda>e. failed sv rn rq tid plan attempt EXTRACT (error_of UNSUPPORTED_EXTRACTOR EXTRACT_ERROR e) (exc_text e))"

definition assess_page ::
  "'w crawl_services \<Rightarrow> 'w crawler_runner \<Rightarrow> crawl_request \<Rightarrow> nat \<Rightarrow> crawl_plan \<Rightarrow> int \<Rightarrow> fetched_payload \<Rightarrow> document
     \<Rightarrow> ('w, attempt_end + quality_score) crx" where
  "assess_page sv rn rq tid plan attempt fetched doc =
     (let quality = assess_quality (cr_thresholds rn) doc;
          reasons = py_join '','' (qs_reasons quality) in
      sx_bind (record_step sv rn rq tid plan attempt ASSESS (if qs_ok quality then OK else WARNING)
        ((final_url_message fetched (if reasons = [] then ''quality ok'' else reasons))
          \<lparr>ek_quality_score := Some (qs_score quality), ek_chunk_count := Some (length (dc_chunks doc))\<rparr>)) (\<lambda>_.
        if \<not> qs_ok quality then retry sv rn rq tid plan attempt QUALITY_TOO_LOW reasons
        else sx_return (Inr quality)))"

definition check_relevance ::
  "'w crawl_services \<Rightarrow> 'w crawler_runner \<Rightarrow> crawl_request \<Rightarrow> nat \<Rightarrow> crawl_plan \<Rightarrow> int \<Rightarrow> document
     \<Rightarrow> ('w, attempt_end + relevance_result option) crx" where
  "check_relevance sv rn rq tid plan attempt doc =
     (if cp_allow_llm_gate plan \<and> named (rq_query rq)
      then sx_bind (sx_lift (relevance_check doc (rq_query rq))) (\<lambda>rel.
        case rel of
          Some r \<Rightarrow> if \<not> rv_relevant r then retry sv rn rq tid plan attempt RELEVANCE_REJECTED (rv_reason r)
                    else sx_return (Inr rel)
        | None \<Rightarrow> sx_return (Inr rel))
      else sx_return (Inr None))"

definition render_result ::
  "'w crawl_services \<Rightarrow> 'w crawler_runner \<Rightarrow> crawl_request \<Rightarrow> nat \<Rightarrow> crawl_plan \<Rightarrow> int \<Rightarrow> fetched_payload \<Rightarrow> document
     \<Rightarrow> ('w, string option) crx" where
  "render_result sv rn rq tid plan attempt fetched doc =
     (if rq_render rq
      then sx_bind (sx_lift (render_document (cr_show4 rn) (cr_renderer rn) doc (rq_render_mode rq))) (\<lambda>t.
           sx_bind (record_step sv rn rq tid plan attempt RENDER OK (final_url_message fetched ''render complete'')) (\<lambda>_.
             sx_return (Some t)))
      else sx_return None)"

definition store_result :: "'w crawl_services \<Rightarrow> string \<Rightarrow> crawl_plan \<Rightarrow> nat \<Rightarrow> ('w, unit) crx" where
  "store_result sv k plan r = (\<lambda>s.
     case cs_time sv (cw_world s) of (now, w) \<Rightarrow>
       (case cache_put k r (Some (of_int (cp_result_cache_ttl_s plan))) now (cw_cache s) of
          Inl e \<Rightarrow> (Inl e, s\<lparr>cw_world := w\<rparr>)
        | Inr c \<Rightarrow> (Inr (), s\<lparr>cw_cache := c, cw_world := w\<rparr>)))"

definition finish_result ::
  "'w crawl_services \<Rightarrow> 'w crawler_runner \<Rightarrow> crawl_request \<Rightarrow> nat \<Rightarrow> crawl_plan \<Rightarrow> int \<Rightarrow> fetched_payload \<Rightarrow> document
     \<Rightarrow> quality_score \<Rightarrow> relevance_result option \<Rightarrow> ('w, attempt_end) crx" where
  "finish_result sv rn rq tid plan attempt fetched doc quality rel =
     sx_bind (render_result sv rn rq tid plan attempt fetched doc) (\<lambda>rendered.
     sx_bind (new_bundle \<lparr>cb_request = rq, cb_plan = plan, cb_fetched = fp_meta fetched, cb_raw_html = fp_html fetched,
                cb_doc_clean = doc, cb_quality = quality, cb_relevance = rel, cb_rendered = rendered, cb_trace = tid,
                cb_artifacts = None\<rparr>) (\<lambda>r.
     sx_bind (if rq_persist_artifacts rq
              then sx_bind (sx_lift (persist_bundle (cr_artifact_manager rn))) (\<lambda>refs.
                   change_bundle r (\<lambda>b. b\<lparr>cb_artifacts := Some refs\<rparr>))
              else sx_return ()) (\<lambda>_.
     sx_bind (if cp_use_result_cache plan then store_result sv (make_key rq plan) plan r else sx_return ()) (\<lambda>_.
     sx_bind (record_step sv rn rq tid plan attempt EMIT OK (final_url_message fetched ''run complete'')) (\<lambda>_.
       sx_return (Finished r))))))"

definition crawl_attempt ::
  "'w crawl_services \<Rightarrow> 'w crawler_runner \<Rightarrow> crawl_request \<Rightarrow> nat \<Rightarrow> int \<Rightarrow> crawl_plan \<Rightarrow> ('w, attempt_end) crx" where
  "crawl_attempt sv rn rq tid attempt plan =
     early (cached_result sv rn rq tid plan attempt) (\<lambda>_.
     sx_bind (session_for sv rq plan) (\<lambda>session.
     sx_bind (record_step sv rn rq tid plan attempt SESSION OK (message_only ''session ready'')) (\<lambda>_.
     early (fetch_page sv rn rq tid plan attempt session) (\<lambda>fetched.
     early (check_status sv rn rq tid plan attempt fetched) (\<lambda>_.
     early (extract_and_clean sv rn rq tid plan attempt fetched) (\<lambda>doc.
     early (assess_page sv rn rq tid plan attempt fetched doc) (\<lambda>quality.
     early (check_relevance sv rn rq tid plan attempt doc) (\<lambda>rel.
       finish_result sv rn rq tid plan attempt fetched doc quality rel))))))))"

text \<open>A crawl returns a bundle or raises \<open>CrawlFailedError\<close> with an error type and the trace.\<close>

datatype crawl_outcome = Crawled nat | CrawlFailed error_type nat

fun crawl_attempts ::
  "'w crawl_services \<Rightarrow> 'w crawler_runner \<Rightarrow> crawl_request \<Rightarrow> nat \<Rightarrow> int list \<Rightarrow> crawl_plan \<Rightarrow> error_type
     \<Rightarrow> ('w, crawl_outcome) crx" where
  "crawl_attempts sv rn rq tid [] plan last_error = sx_return (CrawlFailed last_error tid)"
| "crawl_attempts sv rn rq tid (a # as) plan last_error =
     sx_bind (crawl_attempt sv rn rq tid a plan) (\<lambda>r.
       case r of Finished b \<Rightarrow> sx_return (Crawled b)
       | Retry p err \<Rightarrow> crawl_attempts sv rn rq tid as p err)"

definition attempt_numbers :: "crawl_request \<Rightarrow> int list" where
  "attempt_numbers rq = map int [1..<nat (max 1 (rq_max_attempts rq)) + 1]"

definition crawl_run :: "'w crawl_services \<Rightarrow> 'w crawler_runner \<Rightarrow> crawl_request \<Rightarrow> ('w, crawl_outcome) crx" where
  "crawl_run sv rn rq =
     sx_bind (in_world (read_op (cs_uuid_hex sv))) (\<lambda>run_id.
     sx_bind (in_world (read_op (cs_utcnow sv))) (\<lambda>started_at.
     sx_bind (new_trace run_id started_at) (\<lambda>tid.
     sx_bind (sx_lift (build_crawl_plan (cr_policies rn) rq)) (\<lambda>plan.
     sx_bind (record_step sv rn rq tid plan 0 POLICY OK (message_only ''plan built'')) (\<lambda>_.
       crawl_attempts sv rn rq tid (attempt_numbers rq) plan MAX_ATTEMPTS_EXCEEDED)))))"


section \<open>What a crawl keeps\<close>

text \<open>
  Every bundle ever made is good: its page was served, passed the quality check, and its rendered
  text, if any, is a rendering of its own document.
\<close>

definition bundle_good :: "'w crawler_runner \<Rightarrow> crawl_result_bundle \<Rightarrow> bool" where
  "bundle_good rn b \<longleftrightarrow>
     fm_status_code (cb_fetched b) < 400
     \<and> cb_quality b = assess_quality (cr_thresholds rn) (cb_doc_clean b) \<and> qs_ok (cb_quality b)
     \<and> (\<forall>t. cb_rendered b = Some t \<longrightarrow>
           (\<exists>mode. render_document (cr_show4 rn) (cr_renderer rn) (cb_doc_clean b) mode = Inr t))"

definition store_good :: "'w crawler_runner \<Rightarrow> 'w crawl_state \<Rightarrow> bool" where
  "store_good rn s \<longleftrightarrow>
     list_all (bundle_good rn) (cw_bundles s)
     \<and> list_all (\<lambda>(k, e). ce_bundle e < length (cw_bundles s)) (rc_items (cw_cache s))"

definition fallbacks :: "trace_info \<Rightarrow> nat" where
  "fallbacks t = length (filter (\<lambda>u. ts_step_name u = ''fallback'') (ti_steps t))"

text \<open>The store is good, the limit of the cache is \<open>mx\<close>, and the trace of the run has \<open>n\<close> fallbacks.\<close>

definition kept :: "'w crawler_runner \<Rightarrow> int \<Rightarrow> nat \<Rightarrow> nat \<Rightarrow> 'w crawl_state \<Rightarrow> bool" where
  "kept rn mx tid n s \<longleftrightarrow>
     store_good rn s \<and> rc_max_entries (cw_cache s) = mx
     \<and> tid < length (cw_traces s) \<and> fallbacks (cw_traces s ! tid) = n"

text \<open>When nothing but the page can go wrong.\<close>

definition benign :: "'w crawl_services \<Rightarrow> 'w crawler_runner \<Rightarrow> crawl_request \<Rightarrow> bool \<Rightarrow> int \<Rightarrow> bool" where
  "benign sv rn rq gate mx \<longleftrightarrow>
     (\<forall>e. sx_total (emit_event sv (cr_logger rn) e)) \<and> is_ret (url_netloc (rq_url rq))
     \<and> (rq_render rq \<longrightarrow> rq_render_mode rq \<noteq> LLM_RENDER)
     \<and> (rq_persist_artifacts rq \<longrightarrow> \<not> cr_artifact_manager rn)
     \<and> \<not> (gate \<and> named (rq_query rq)) \<and> 0 \<le> mx"

definition stuck ::
  "'w crawl_services \<Rightarrow> 'w crawler_runner \<Rightarrow> crawl_request \<Rightarrow> bool \<Rightarrow> int \<Rightarrow> exc \<Rightarrow> 'w crawl_state \<Rightarrow> bool" where
  "stuck sv rn rq gate mx e s \<longleftrightarrow> store_good rn s \<and> \<not> benign sv rn rq gate mx"

lemma kept_world [simp]: "kept rn mx tid n (s\<lparr>cw_world := w\<rparr>) = kept rn mx tid n s"
  by (simp add: kept_def store_good_def)

lemma store_good_traces [simp]: "store_good rn (s\<lparr>cw_traces := ts\<rparr>) = store_good rn s"
  by (simp add: store_good_def)

lemma kept_good: "kept rn mx tid n s \<Longrightarrow> store_good rn s"
  by (simp add: kept_def)

lemma fallbacks_add [simp]:
  "fallbacks (add_step t ti) = fallbacks ti + (if ts_step_name t = ''fallback'' then 1 else 0)"
  by (simp add: fallbacks_def add_step_def)

lemma kept_trace:
  "kept rn mx tid n s \<Longrightarrow> fallbacks (f (cw_traces s ! tid)) = n' \<Longrightarrow>
     kept rn mx tid n' (s\<lparr>cw_traces := (cw_traces s)[tid := f (cw_traces s ! tid)]\<rparr>)"
  by (simp add: kept_def store_good_def)

lemma in_world_valid: "sx_valid (kept rn mx tid n) (in_world m) (\<lambda>_. kept rn mx tid n) (\<lambda>_. kept rn mx tid n)"
  by (auto simp: sx_valid_def in_world_def sx_zoom_def split: prod.splits sum.splits)

lemma in_world_total:
  "sx_total m \<Longrightarrow> sx_valid (kept rn mx tid n) (in_world m) (\<lambda>_. kept rn mx tid n) E"
  unfolding sx_valid_def
proof (intro allI impI)
  fix s
  assume "sx_total m" "kept rn mx tid n s"
  moreover obtain a w where "m (cw_world s) = (Inr a, w)" using sx_totalD [OF \<open>sx_total m\<close>] by blast
  ultimately show "case in_world m s of (Inl e, t) \<Rightarrow> E e t | (Inr a, t) \<Rightarrow> kept rn mx tid n t"
    by (simp add: in_world_def sx_zoom_def)
qed

lemma read_op_total: "sx_total (read_op f)"
  by (simp add: sx_total_def read_op_def split: prod.splits)

lemma step_value_fallback [simp]: "step_value step = ''fallback'' \<longleftrightarrow> step = FALLBACK"
  by (cases step) simp_all

lemma record_step_valid:
  "sx_valid (kept rn mx tid n) (record_step sv rn rq tid plan attempt step status k)
     (\<lambda>_. kept rn mx tid (n + (if step = FALLBACK then 1 else 0)))
     (\<lambda>_ s. kept rn mx tid (n + (if step = FALLBACK then 1 else 0)) s \<and> \<not> benign sv rn rq gate mx)"
proof -
  let ?K = "kept rn mx tid (n + (if step = FALLBACK then 1 else 0))"
  let ?E = "\<lambda>(_ :: exc) s. ?K s \<and> \<not> benign sv rn rq gate mx"
  have emit: "sx_valid ?K (in_world (emit_event sv (cr_logger rn) e)) (\<lambda>_. ?K) ?E" for e
  proof (cases "sx_total (emit_event sv (cr_logger rn) e)")
    case False
    then show ?thesis by (intro sx_valid_weaken [OF in_world_valid]) (auto simp: benign_def)
  qed (rule in_world_total)
  show ?thesis
    unfolding record_step_def change_trace_def
    by (intro sx_valid_seq [where R = ?K] sx_valid_lift in_world_total read_op_total emit sx_valid_basic(3,4))
      (auto simp: benign_def kept_def intro!: kept_trace [where n = n])
qed


lemma record_valid:
  "step \<noteq> FALLBACK \<Longrightarrow>
     sx_valid (kept rn mx tid n) (record_step sv rn rq tid plan attempt step status k)
       (\<lambda>_. kept rn mx tid n) (stuck sv rn rq gate mx)"
  by (rule sx_valid_weaken [OF record_step_valid [where gate = gate]]) (auto simp: stuck_def kept_good)

lemma record_tried:
  "step \<noteq> FALLBACK \<Longrightarrow>
     sx_valid (kept rn mx tid n) (record_step sv rn rq tid plan attempt step status k)
       (\<lambda>_. kept rn mx tid n) (\<lambda>_. kept rn mx tid n)"
  by (rule sx_valid_weaken [OF record_step_valid [where gate = undefined]]) auto

lemma fallback_gate: "cp_allow_llm_gate (fallback_plan p) = cp_allow_llm_gate p"
  by (simp add: fallback_plan_def update_plan_on_failure_def Let_def)

lemma fall_back_valid:
  "sx_valid (kept rn mx tid n) (fall_back sv rn rq tid plan attempt reason)
     (\<lambda>p s. kept rn mx tid (Suc n) s \<and> p = fallback_plan plan) (stuck sv rn rq gate mx)"
proof -
  have noted: "sx_valid (kept rn mx tid n) (record_step sv rn rq tid p attempt FALLBACK status k)
      (\<lambda>_. kept rn mx tid (Suc n)) (stuck sv rn rq gate mx)" for p status k
    by (rule sx_valid_weaken [OF record_step_valid [where gate = gate]]) (auto simp: stuck_def kept_good)
  show ?thesis
    unfolding fall_back_def change_trace_def Let_def
    by (rule sx_valid_seq [where R = "kept rn mx tid n"], rule sx_valid_if)
      (auto intro!: sx_valid_basic sx_valid_seq [OF noted] kept_trace simp: kept_def fallbacks_def)
qed

text \<open>How an attempt with \<open>n\<close> fallbacks before it may end, and how a part of it may.\<close>

definition end_ok ::
  "'w crawler_runner \<Rightarrow> crawl_request \<Rightarrow> bool \<Rightarrow> int \<Rightarrow> nat \<Rightarrow> nat \<Rightarrow> attempt_end \<Rightarrow> 'w crawl_state \<Rightarrow> bool" where
  "end_ok rn rq gate mx tid n r s =
     (case r of
        Finished b \<Rightarrow> kept rn mx tid n s \<and> b < length (cw_bundles s)
          \<and> (rq_render rq \<longrightarrow> cb_rendered (cw_bundles s ! b) \<noteq> None)
      | Retry p err \<Rightarrow> kept rn mx tid (Suc n) s \<and> err \<noteq> MAX_ATTEMPTS_EXCEEDED \<and> cp_allow_llm_gate p = gate)"

definition part_ok ::
  "'w crawler_runner \<Rightarrow> crawl_request \<Rightarrow> bool \<Rightarrow> int \<Rightarrow> nat \<Rightarrow> nat \<Rightarrow> ('a \<Rightarrow> bool) \<Rightarrow> attempt_end + 'a \<Rightarrow> 'w crawl_state \<Rightarrow> bool" where
  "part_ok rn rq gate mx tid n A x s =
     (case x of Inl r \<Rightarrow> end_ok rn rq gate mx tid n r s | Inr a \<Rightarrow> kept rn mx tid n s \<and> A a)"

lemma early_valid:
  assumes "sx_valid P m (part_ok rn rq gate mx tid n A) E"
    "\<And>a. A a \<Longrightarrow> sx_valid (kept rn mx tid n) (f a) (end_ok rn rq gate mx tid n) E"
  shows "sx_valid P (early m f) (end_ok rn rq gate mx tid n) E"
  unfolding early_def
proof (rule sx_valid_bind [OF assms(1)])
  fix x
  show "sx_valid (part_ok rn rq gate mx tid n A x) (case x of Inl r \<Rightarrow> sx_return r | Inr a \<Rightarrow> f a)
    (end_ok rn rq gate mx tid n) E"
    using assms(2) by (cases x) (auto simp: part_ok_def sx_valid_def sx_simps)
qed

lemma retry_valid:
  "err \<noteq> MAX_ATTEMPTS_EXCEEDED \<Longrightarrow> cp_allow_llm_gate plan = gate \<Longrightarrow>
     sx_valid (kept rn mx tid n) (retry sv rn rq tid plan attempt err reason)
       (part_ok rn rq gate mx tid n A) (stuck sv rn rq gate mx)"
  unfolding retry_def
  by (rule sx_valid_bind [OF fall_back_valid]) (auto intro!: sx_valid_basic simp: part_ok_def end_ok_def fallback_gate)

lemma failed_valid:
  "step \<noteq> FALLBACK \<Longrightarrow> err \<noteq> MAX_ATTEMPTS_EXCEEDED \<Longrightarrow> cp_allow_llm_gate plan = gate \<Longrightarrow>
     sx_valid (kept rn mx tid n) (failed sv rn rq tid plan attempt step err reason)
       (part_ok rn rq gate mx tid n A) (stuck sv rn rq gate mx)"
  unfolding failed_def by (rule sx_valid_seq [OF record_valid]) (auto intro: retry_valid)

lemma store_good_cache:
  "store_good rn s \<Longrightarrow> list_all (\<lambda>(k, e). ce_bundle e < length (cw_bundles s)) (rc_items c)
     \<Longrightarrow> store_good rn (s\<lparr>cw_cache := c, cw_world := w\<rparr>)"
  by (simp add: store_good_def)

lemma cache_get_max [simp]: "rc_max_entries (snd (cache_get k now c)) = rc_max_entries c"
  by (simp add: cache_get_def split: option.splits)

lemma cache_get_entries:
  "set (rc_items (snd (cache_get k now c))) \<subseteq> set (rc_items c)"
  "fst (cache_get k now c) = Some r \<Longrightarrow> \<exists>e. (k, e) \<in> set (rc_items c) \<and> ce_bundle e = r"
  by (auto simp: cache_get_def move_to_end_def ddelete_def dget_def dest: map_of_SomeD split: option.splits if_splits)

lemma lookup_valid:
  "sx_valid (kept rn mx tid n) (lookup_result sv k)
     (\<lambda>r s. kept rn mx tid n s \<and> (case r of None \<Rightarrow> True | Some b \<Rightarrow> b < length (cw_bundles s))) E"
proof -
  have kept: "kept rn mx tid n (s\<lparr>cw_cache := snd (cache_get k now (cw_cache s)), cw_world := w\<rparr>)"
    if "kept rn mx tid n s" for s :: "'a crawl_state" and now :: rat and w
    using that cache_get_entries(1) [of k now "cw_cache s"] unfolding kept_def
    by (auto intro!: store_good_cache simp: store_good_def list_all_iff)
  have found: "b < length (cw_bundles s)" if "kept rn mx tid n s" "fst (cache_get k now (cw_cache s)) = Some b"
    for s :: "'a crawl_state" and now :: rat and b
    using that(1) cache_get_entries(2) [OF that(2)] by (auto simp: kept_def store_good_def list_all_iff)
  show ?thesis
    unfolding sx_valid_def
  proof (intro allI impI)
    fix s :: "'a crawl_state"
    assume s: "kept rn mx tid n s"
    obtain now w where t: "cs_time sv (cw_world s) = (now, w)" by (cases "cs_time sv (cw_world s)")
    obtain r c where c: "cache_get k now (cw_cache s) = (r, c)" by (cases "cache_get k now (cw_cache s)")
    show "case lookup_result sv k s of (Inl e, t) \<Rightarrow> E e t
      | (Inr r, t) \<Rightarrow> kept rn mx tid n t \<and> (case r of None \<Rightarrow> True | Some b \<Rightarrow> b < length (cw_bundles t))"
      using s kept [OF s, of w now] found [OF s, of now] by (auto simp: lookup_result_def t c split: option.splits)
  qed
qed


lemma in_world_bundles:
  "sx_valid (\<lambda>s. Z (cw_bundles s)) (in_world m) (\<lambda>_ s. Z (cw_bundles s)) (\<lambda>_ _. True)"
  by (auto simp: sx_valid_def in_world_def sx_zoom_def split: prod.splits sum.splits)

lemma record_bundles:
  fixes Z :: "crawl_result_bundle list \<Rightarrow> bool"
  shows "sx_valid (\<lambda>s. Z (cw_bundles s)) (record_step sv rn rq tid plan attempt step status k)
     (\<lambda>_ s. Z (cw_bundles s)) (\<lambda>_ _. True)"
  unfolding record_step_def change_trace_def
  by (intro sx_valid_seq [where R = "\<lambda>s. Z (cw_bundles s)"] sx_valid_lift in_world_bundles sx_valid_basic(3,4)) simp_all

lemma record_refers:
  "step \<noteq> FALLBACK \<Longrightarrow>
     sx_valid (\<lambda>s. kept rn mx tid n s \<and> Z (cw_bundles s)) (record_step sv rn rq tid plan attempt step status k)
       (\<lambda>_ s. kept rn mx tid n s \<and> Z (cw_bundles s)) (stuck sv rn rq gate mx)"
  by (rule sx_valid_conj [OF record_valid record_bundles])

lemma kept_bundle:
  assumes "kept rn mx tid n s" "bundle_good rn b"
  shows "kept rn mx tid n (s\<lparr>cw_bundles := (cw_bundles s)[r := b]\<rparr>)"
proof -
  have "set ((cw_bundles s)[r := b]) \<subseteq> insert b (set (cw_bundles s))" by (rule set_update_subset_insert)
  with assms show ?thesis by (auto simp: kept_def store_good_def list_all_iff)
qed

lemma bundle_good_at: "kept rn mx tid n s \<Longrightarrow> r < length (cw_bundles s) \<Longrightarrow> bundle_good rn (cw_bundles s ! r)"
  by (simp add: kept_def store_good_def list_all_length)

lemma bundle_good_changes [simp]:
  "bundle_good rn (b\<lparr>cb_trace := t\<rparr>) = bundle_good rn b"
  "bundle_good rn (b\<lparr>cb_artifacts := a\<rparr>) = bundle_good rn b"
  by (simp_all add: bundle_good_def)

lemma bundle_good_rendered:
  "bundle_good rn b \<Longrightarrow> render_document (cr_show4 rn) (cr_renderer rn) (cb_doc_clean b) mode = Inr t
     \<Longrightarrow> bundle_good rn (b\<lparr>cb_rendered := Some t\<rparr>)"
  by (auto simp: bundle_good_def)

lemma render_raises: "render_document show4 rd d mode = Inl e \<Longrightarrow> mode = LLM_RENDER"
  by (cases mode) (simp_all add: render_document_def)

lemma change_bundle_valid:
  "(\<And>b. bundle_good rn b \<Longrightarrow> bundle_good rn (f b)) \<Longrightarrow>
     sx_valid (\<lambda>s. kept rn mx tid n s \<and> r < length (cw_bundles s)) (change_bundle r f)
       (\<lambda>_ s. kept rn mx tid n s \<and> r < length (cw_bundles s)) E"
  unfolding change_bundle_def by (intro sx_valid_basic) (auto intro!: kept_bundle dest: bundle_good_at)

lemma serve_cached_valid:
  "sx_valid (\<lambda>s. kept rn mx tid n s \<and> r < length (cw_bundles s)) (serve_cached sv rn rq tid plan attempt r)
     (part_ok rn rq gate mx tid n A) (stuck sv rn rq gate mx)"
proof -
  let ?R = "\<lambda>s. kept rn mx tid n s \<and> r < length (cw_bundles s)"
  let ?done = "\<lambda>(_ :: unit) s. end_ok rn rq gate mx tid n (Finished r) s"
  let ?text = "\<lambda>s. render_document (cr_show4 rn) (cr_renderer rn) (cb_doc_clean (cw_bundles s ! r)) (rq_render_mode rq)"
  have now: "sx_valid (\<lambda>s. s = s0 \<and> ?R s) (sx_bind (sx_lift (?text s0)) (\<lambda>t. change_bundle r (\<lambda>b. b\<lparr>cb_rendered := Some t\<rparr>)))
      ?done (stuck sv rn rq gate mx)" if "rq_render rq" for s0
    unfolding change_bundle_def
    by (intro sx_valid_bind [where R = "\<lambda>t s. s = s0 \<and> ?R s \<and> ?text s0 = Inr t"] sx_valid_lift sx_valid_basic)
      (use that in \<open>auto simp: end_ok_def stuck_def benign_def kept_good
        dest: render_raises intro!: kept_bundle bundle_good_rendered bundle_good_at\<close>)
  have later: "sx_valid (\<lambda>s. s = s0 \<and> ?R s) (sx_return ()) ?done E"
    if "\<not> (rq_render rq \<and> cb_rendered (cw_bundles s0 ! r) = None)" for s0 E
    using that by (intro sx_valid_basic) (auto simp: end_ok_def)
  show ?thesis
    unfolding serve_cached_def
    by (rule sx_valid_seq [OF record_refers], simp, rule sx_valid_seq [OF change_bundle_valid], simp,
        rule sx_valid_bind [where R = "\<lambda>s0 s. s = s0 \<and> ?R s"], rule sx_valid_basic, simp,
        rule sx_valid_bind [OF sx_valid_if [OF now later]], simp, simp, rule sx_valid_basic) (simp add: part_ok_def)
qed

lemma cached_valid:
  "sx_valid (kept rn mx tid n) (cached_result sv rn rq tid plan attempt)
     (part_ok rn rq gate mx tid n (\<lambda>_. True)) (stuck sv rn rq gate mx)"
proof -
  have miss: "sx_valid (kept rn mx tid n)
      (sx_bind (record_step sv rn rq tid plan attempt CACHE SKIPPED (message_only ''result cache miss'')) (\<lambda>_. sx_return (Inr ())))
      (part_ok rn rq gate mx tid n (\<lambda>_. True)) (stuck sv rn rq gate mx)"
    by (rule sx_valid_seq [OF record_valid]) (auto intro!: sx_valid_basic simp: part_ok_def)
  show ?thesis
    unfolding cached_result_def
    by (rule sx_valid_if, rule sx_valid_bind [OF lookup_valid], rule sx_valid_option)
      (auto intro!: sx_valid_weaken [OF serve_cached_valid] sx_valid_weaken [OF miss] sx_valid_basic
        simp: part_ok_def split: if_splits)
qed


lemma session_valid:
  "sx_valid (kept rn mx tid n) (session_for sv rq plan) (\<lambda>_. kept rn mx tid n) (stuck sv rn rq gate mx)"
proof -
  have url: "is_ret (url_netloc (rq_url rq)) = False" if "session_get (rq_url rq) p tr now st = Inl e" for p tr now st e
    using that by (cases "url_netloc (rq_url rq)") (auto simp: session_get_def session_domain_def Let_def)
  have "kept rn mx tid n (s\<lparr>cw_sessions := st, cw_world := w\<rparr>) = kept rn mx tid n s" for s :: "'a crawl_state" and st w
    by (simp add: kept_def store_good_def)
  moreover have "store_good rn (s\<lparr>cw_world := w\<rparr>) = store_good rn s" for s :: "'a crawl_state" and w
    by (simp add: store_good_def)
  ultimately show ?thesis
    unfolding sx_valid_def session_for_def
    by (auto simp: stuck_def benign_def kept_good dest: url split: prod.splits sum.splits)
qed

text \<open>A part that tries: whatever it raises becomes a retry.\<close>

lemma tried_valid:
  assumes "sx_valid (kept rn mx tid n) m (part_ok rn rq gate mx tid n A) (\<lambda>_. kept rn mx tid n)"
    "\<And>e. sx_valid (kept rn mx tid n) (h e) (part_ok rn rq gate mx tid n A) (stuck sv rn rq gate mx)"
  shows "sx_valid (kept rn mx tid n) (sx_try m (\<lambda>_. True) h) (part_ok rn rq gate mx tid n A) (stuck sv rn rq gate mx)"
  by (rule sx_valid_try [OF assms(1)]) (use assms(2) in simp_all)

lemma fetch_valid:
  assumes "cp_allow_llm_gate plan = gate"
  shows "sx_valid (kept rn mx tid n) (fetch_page sv rn rq tid plan attempt session)
     (part_ok rn rq gate mx tid n (\<lambda>_. True)) (stuck sv rn rq gate mx)"
proof -
  have try_fetch: "sx_valid (kept rn mx tid n) (sx_try (in_world m) p (\<lambda>_. in_world m')) (\<lambda>_. kept rn mx tid n) (\<lambda>_. kept rn mx tid n)"
    for m m' :: "('a, fetched_payload) sx" and p
    by (rule sx_valid_try [OF in_world_valid in_world_valid])
  show ?thesis
    unfolding fetch_page_def
  proof (rule tried_valid)
    show "sx_valid (kept rn mx tid n)
       (sx_bind
          (sx_try (in_world (hybrid_fetch sv (rq_url rq) plan session (rq_options rq)))
             (\<lambda>e. exc_class e = ''TypeError'') (\<lambda>_. in_world (hybrid_fetch sv (rq_url rq) plan session []))) (\<lambda>fetched.
        sx_bind (record_step sv rn rq tid plan attempt FETCH OK
          ((message_only ''fetch complete'')\<lparr>ek_final_url := Some (fm_final_url (fp_meta fetched)),
             ek_status_code := Some (fm_status_code (fp_meta fetched)),
             ek_elapsed_ms := Some (fm_elapsed_ms (fp_meta fetched))\<rparr>)) (\<lambda>_.
          sx_return (Inr fetched))))
       (part_ok rn rq gate mx tid n (\<lambda>_. True)) (\<lambda>_. kept rn mx tid n)"
      by (rule sx_valid_seq [OF try_fetch], rule sx_valid_seq [OF record_tried], simp, rule sx_valid_basic)
        (simp add: part_ok_def)
  qed (auto intro!: failed_valid simp: error_of_def assms)
qed

lemma check_status_valid:
  "cp_allow_llm_gate plan = gate \<Longrightarrow>
     sx_valid (kept rn mx tid n) (check_status sv rn rq tid plan attempt fetched)
       (part_ok rn rq gate mx tid n (\<lambda>_. fm_status_code (fp_meta fetched) < 400)) (stuck sv rn rq gate mx)"
  unfolding check_status_def
  by (rule sx_valid_if) (auto intro!: failed_valid sx_valid_basic simp: part_ok_def)

lemma extract_valid:
  assumes "cp_allow_llm_gate plan = gate"
  shows "sx_valid (kept rn mx tid n) (extract_and_clean sv rn rq tid plan attempt fetched)
     (part_ok rn rq gate mx tid n (\<lambda>_. True)) (stuck sv rn rq gate mx)"
  unfolding extract_and_clean_def
proof (rule tried_valid)
  show "sx_valid (kept rn mx tid n)
       (sx_bind (in_world (extract_page sv (cr_adapters rn) (or_empty (fp_html fetched)) rq plan)) (\<lambda>raw.
        sx_bind (record_step sv rn rq tid plan attempt EXTRACT OK (final_url_message fetched ''extract complete'')) (\<lambda>_.
          let doc = prepare_document rn rq raw in
          sx_bind (record_step sv rn rq tid plan attempt CLEAN OK
            ((final_url_message fetched ''clean and rerank complete'')\<lparr>ek_chunk_count := Some (length (dc_chunks doc))\<rparr>)) (\<lambda>_.
            sx_return (Inr doc)))))
       (part_ok rn rq gate mx tid n (\<lambda>_. True)) (\<lambda>_. kept rn mx tid n)"
    unfolding Let_def
    by (rule sx_valid_seq [OF in_world_valid], rule sx_valid_seq [OF record_tried], simp,
        rule sx_valid_seq [OF record_tried], simp, rule sx_valid_basic) (simp add: part_ok_def)
qed (auto intro!: failed_valid simp: error_of_def assms)

lemma assess_valid:
  "cp_allow_llm_gate plan = gate \<Longrightarrow>
     sx_valid (kept rn mx tid n) (assess_page sv rn rq tid plan attempt fetched doc)
       (part_ok rn rq gate mx tid n (\<lambda>q. q = assess_quality (cr_thresholds rn) doc \<and> qs_ok q)) (stuck sv rn rq gate mx)"
  unfolding assess_page_def Let_def
  by (rule sx_valid_seq [OF record_valid]) (auto intro!: retry_valid sx_valid_basic simp: part_ok_def)

lemma relevance_raises: "named q \<Longrightarrow> \<exists>e. relevance_check d q = Inl e"
  by (simp add: relevance_check_def)

lemma relevance_valid:
  assumes "cp_allow_llm_gate plan = gate"
  shows "sx_valid (kept rn mx tid n) (check_relevance sv rn rq tid plan attempt doc)
       (part_ok rn rq gate mx tid n (\<lambda>_. True)) (stuck sv rn rq gate mx)"
proof (cases "gate \<and> named (rq_query rq)")
  case True
  with relevance_raises [of "rq_query rq" doc] obtain e where "relevance_check doc (rq_query rq) = Inl e" by blast
  with True assms show ?thesis
    by (auto simp: check_relevance_def sx_valid_def sx_bind_def sx_simps stuck_def benign_def kept_good)
next
  case False
  with assms show ?thesis by (auto simp: check_relevance_def part_ok_def intro!: sx_valid_basic)
qed

lemma render_valid:
  "sx_valid (kept rn mx tid n) (render_result sv rn rq tid plan attempt fetched doc)
     (\<lambda>t s. kept rn mx tid n s \<and> (rq_render rq \<longrightarrow> t \<noteq> None)
        \<and> (\<forall>u. t = Some u \<longrightarrow> render_document (cr_show4 rn) (cr_renderer rn) doc (rq_render_mode rq) = Inr u))
     (stuck sv rn rq gate mx)"
proof -
  let ?text = "render_document (cr_show4 rn) (cr_renderer rn) doc (rq_render_mode rq)"
  have noted: "sx_valid (\<lambda>s. kept rn mx tid n s \<and> ?text = Inr t)
      (record_step sv rn rq tid plan attempt RENDER OK k) (\<lambda>_ s. kept rn mx tid n s \<and> ?text = Inr t) (stuck sv rn rq gate mx)" for t k
    using record_refers [where Z = "\<lambda>_. ?text = Inr t"] by blast
  show ?thesis
    unfolding render_result_def
    by (intro sx_valid_if sx_valid_bind [where R = "\<lambda>t s. kept rn mx tid n s \<and> ?text = Inr t"] sx_valid_seq [OF noted]
        sx_valid_lift sx_valid_basic)
      (auto simp: stuck_def benign_def kept_good dest: render_raises)
qed


lemma evict_entries: "evict m d = Inr d' \<Longrightarrow> set d' \<subseteq> set d"
  by (induction d) (auto split: if_splits)

lemma evict_raises: "evict m d = Inl e \<Longrightarrow> m < 0"
  by (induction d) (auto split: if_splits)

lemma cache_put_result:
  "cache_put k b ttl now c = Inr c' \<Longrightarrow> rc_max_entries c' = rc_max_entries c
     \<and> (\<forall>(k', e) \<in> set (rc_items c'). ce_bundle e = b \<or> (k', e) \<in> set (rc_items c))"
  "cache_put k b ttl now c = Inl e \<Longrightarrow> rc_max_entries c < 0"
proof -
  have move: "set (move_to_end k d) \<subseteq> set d" for d :: "'x cache_entry dict"
    by (auto simp: move_to_end_def ddelete_def dget_def dest: map_of_SomeD split: option.splits)
  have put: "set (dput k e d) \<subseteq> insert (k, e) (set d)" for e and d :: "'x cache_entry dict"
    by (induction d) (auto split: if_splits)
  show "rc_max_entries c' = rc_max_entries c
     \<and> (\<forall>(k', e) \<in> set (rc_items c'). ce_bundle e = b \<or> (k', e) \<in> set (rc_items c))"
    if "cache_put k b ttl now c = Inr c'"
    using that move put by (fastforce simp: cache_put_def Let_def res_bind_Inr_iff dest!: evict_entries)
  show "rc_max_entries c < 0" if "cache_put k b ttl now c = Inl e"
    using that by (auto simp: cache_put_def Let_def res_bind_Inl_iff dest: evict_raises)
qed

lemma store_result_valid:
  "sx_valid (\<lambda>s. kept rn mx tid n s \<and> r < length (cw_bundles s) \<and> Z (cw_bundles s)) (store_result sv k plan r)
     (\<lambda>_ s. kept rn mx tid n s \<and> r < length (cw_bundles s) \<and> Z (cw_bundles s)) (stuck sv rn rq gate mx)"
proof -
  let ?ttl = "Some (of_int (cp_result_cache_ttl_s plan))"
  have put: "kept rn mx tid n (s\<lparr>cw_cache := c\<rparr>)"
    if "kept rn mx tid n s" "r < length (cw_bundles s)" "cache_put k r ?ttl now (cw_cache s) = Inr c"
    for s :: "'a crawl_state" and c now
    using that(1,2) cache_put_result(1) [OF that(3)] by (fastforce simp: kept_def store_good_def list_all_iff)
  have "\<not> 0 \<le> mx" if "kept rn mx tid n s" "cache_put k r ?ttl now (cw_cache s) = Inl e" for s :: "'a crawl_state" and now e
    using that(1) cache_put_result(2) [OF that(2)] by (simp add: kept_def)
  moreover have "store_good rn (s\<lparr>cw_world := w\<rparr>) = store_good rn s" for s :: "'a crawl_state" and w
    by (simp add: store_good_def)
  ultimately show ?thesis
    unfolding sx_valid_def store_result_def
    by (auto simp: stuck_def benign_def kept_good intro: put split: prod.splits sum.splits)
qed

lemma new_bundle_valid:
  "bundle_good rn b \<Longrightarrow>
     sx_valid (kept rn mx tid n) (new_bundle b)
       (\<lambda>r s. kept rn mx tid n s \<and> r < length (cw_bundles s) \<and> cb_rendered (cw_bundles s ! r) = cb_rendered b) E"
  by (fastforce simp: sx_valid_def new_bundle_def kept_def store_good_def list_all_iff nth_append)

lemma persist_valid:
  "sx_valid (\<lambda>s. kept rn mx tid n s \<and> r < length (cw_bundles s) \<and> cb_rendered (cw_bundles s ! r) = t)
     (if rq_persist_artifacts rq
      then sx_bind (sx_lift (persist_bundle (cr_artifact_manager rn))) (\<lambda>refs.
             change_bundle r (\<lambda>b. b\<lparr>cb_artifacts := Some refs\<rparr>))
      else sx_return ())
     (\<lambda>_ s. kept rn mx tid n s \<and> r < length (cw_bundles s) \<and> cb_rendered (cw_bundles s ! r) = t) (stuck sv rn rq gate mx)"
  unfolding change_bundle_def
  by (intro sx_valid_if sx_valid_seq [where R = "\<lambda>s. kept rn mx tid n s \<and> r < length (cw_bundles s) \<and> cb_rendered (cw_bundles s ! r) = t"]
      sx_valid_lift sx_valid_basic)
    (auto simp: stuck_def benign_def kept_good persist_bundle_def intro!: kept_bundle dest: bundle_good_at split: if_splits)

lemma finish_valid:
  assumes "fm_status_code (fp_meta fetched) < 400" "quality = assess_quality (cr_thresholds rn) doc" "qs_ok quality"
  shows "sx_valid (kept rn mx tid n) (finish_result sv rn rq tid plan attempt fetched doc quality rel)
     (end_ok rn rq gate mx tid n) (stuck sv rn rq gate mx)"
proof -
  let ?S = "\<lambda>r t s. kept rn mx tid n s \<and> r < length (cw_bundles s) \<and> cb_rendered (cw_bundles s ! r) = t"
  let ?made = "\<lambda>t. \<lparr>cb_request = rq, cb_plan = plan, cb_fetched = fp_meta fetched, cb_raw_html = fp_html fetched,
                cb_doc_clean = doc, cb_quality = quality, cb_relevance = rel, cb_rendered = t, cb_trace = tid,
                cb_artifacts = None\<rparr>"
  let ?fine = "\<lambda>t. (rq_render rq \<longrightarrow> t \<noteq> None)
        \<and> (\<forall>u. t = Some u \<longrightarrow> render_document (cr_show4 rn) (cr_renderer rn) doc (rq_render_mode rq) = Inr u)"
  have made: "sx_valid (\<lambda>s. kept rn mx tid n s \<and> ?fine t) (new_bundle (?made t)) (\<lambda>r s. ?S r t s \<and> ?fine t) E" for t E
  proof (cases "?fine t")
    case True
    then have "bundle_good rn (?made t)" using assms by (auto simp: bundle_good_def)
    with True show ?thesis by (intro sx_valid_weaken [OF new_bundle_valid]) auto
  next
    case False
    then show ?thesis unfolding sx_valid_def by blast
  qed
  have fine: "sx_valid (\<lambda>s. P s \<and> ?fine t) m (\<lambda>a s. Q s \<and> ?fine t) E" if "sx_valid P m (\<lambda>_. Q) E" for P t Q E
      and m :: "('a, unit) crx"
    using that by (fastforce simp: sx_valid_def split: prod.splits sum.splits)
  have store: "sx_valid (?S r t) (if cp_use_result_cache plan then store_result sv (make_key rq plan) plan r else sx_return ())
      (\<lambda>_. ?S r t) (stuck sv rn rq gate mx)" for r t
    by (rule sx_valid_if)
      (auto intro!: sx_valid_basic store_result_valid [where Z = "\<lambda>bs. cb_rendered (bs ! r) = t"])
  have noted: "sx_valid (?S r t) (record_step sv rn rq tid plan attempt EMIT OK k) (\<lambda>_. ?S r t) (stuck sv rn rq gate mx)" for r t k
    by (rule record_refers [where Z = "\<lambda>bs. r < length bs \<and> cb_rendered (bs ! r) = t"]) simp
  show ?thesis
    unfolding finish_result_def
    by (rule sx_valid_bind [OF render_valid], rule sx_valid_bind [OF made], rule sx_valid_seq [OF fine [OF persist_valid]],
        rule sx_valid_seq [OF fine [OF store]], rule sx_valid_seq [OF fine [OF noted]], rule sx_valid_basic)
      (auto simp: end_ok_def)
qed

lemma attempt_valid:
  assumes "cp_allow_llm_gate plan = gate"
  shows "sx_valid (kept rn mx tid n) (crawl_attempt sv rn rq tid attempt plan)
     (end_ok rn rq gate mx tid n) (stuck sv rn rq gate mx)"
  unfolding crawl_attempt_def
  by (rule early_valid [OF cached_valid], rule sx_valid_seq [OF session_valid], rule sx_valid_seq [OF record_valid], simp,
      rule early_valid [OF fetch_valid [OF assms]], rule early_valid [OF check_status_valid [OF assms]],
      rule early_valid [OF extract_valid [OF assms]], rule early_valid [OF assess_valid [OF assms]],
      rule early_valid [OF relevance_valid [OF assms]], rule finish_valid) auto


definition run_ok ::
  "'w crawler_runner \<Rightarrow> crawl_request \<Rightarrow> nat \<Rightarrow> nat \<Rightarrow> crawl_outcome \<Rightarrow> 'w crawl_state \<Rightarrow> bool" where
  "run_ok rn rq tid n r s =
     (store_good rn s \<and>
      (case r of
         Crawled b \<Rightarrow> b < length (cw_bundles s) \<and> (rq_render rq \<longrightarrow> cb_rendered (cw_bundles s ! b) \<noteq> None)
       | CrawlFailed err t \<Rightarrow> t = tid \<and> err \<noteq> MAX_ATTEMPTS_EXCEEDED \<and> fallbacks (cw_traces s ! tid) = n))"

lemma attempts_valid:
  "cp_allow_llm_gate plan = gate \<Longrightarrow> as \<noteq> [] \<or> err \<noteq> MAX_ATTEMPTS_EXCEEDED \<Longrightarrow>
     sx_valid (kept rn mx tid n) (crawl_attempts sv rn rq tid as plan err)
       (run_ok rn rq tid (n + length as)) (stuck sv rn rq gate mx)"
proof (induction "as" arbitrary: n plan err)
  case Nil
  then show ?case by (auto intro!: sx_valid_basic simp: run_ok_def kept_def)
next
  case (Cons a "as")
  have next_attempt: "sx_valid (end_ok rn rq gate mx tid n r)
      (case r of Finished b \<Rightarrow> sx_return (Crawled b) | Retry p err \<Rightarrow> crawl_attempts sv rn rq tid as p err)
      (run_ok rn rq tid (n + length (a # as))) (stuck sv rn rq gate mx)" for r
  proof (cases r)
    case (Finished b)
    then show ?thesis by (auto intro!: sx_valid_basic simp: end_ok_def run_ok_def kept_good)
  next
    case (Retry p e)
    show ?thesis
    proof (cases "cp_allow_llm_gate p = gate \<and> e \<noteq> MAX_ATTEMPTS_EXCEEDED")
      case True
      then show ?thesis using Cons.IH [of p e "Suc n"] by (auto simp: Retry end_ok_def elim!: sx_valid_weaken)
    next
      case False
      then show ?thesis by (auto simp: sx_valid_def Retry end_ok_def)
    qed
  qed
  show ?case by (simp, rule sx_valid_bind [OF attempt_valid next_attempt [simplified]]) (use Cons.prems in auto)
qed

lemma attempt_numbers_length: "length (attempt_numbers rq) = nat (max 1 (rq_max_attempts rq))"
  by (simp add: attempt_numbers_def)

definition planned_gate :: "'w crawler_runner \<Rightarrow> crawl_request \<Rightarrow> bool" where
  "planned_gate rn rq =
     (case build_crawl_plan (cr_policies rn) rq of Inl e \<Rightarrow> False | Inr plan \<Rightarrow> cp_allow_llm_gate plan)"

lemma run_valid:
  "sx_valid (\<lambda>s. store_good rn s \<and> rc_max_entries (cw_cache s) = mx \<and> length (cw_traces s) = tid) (crawl_run sv rn rq)
     (run_ok rn rq tid (nat (max 1 (rq_max_attempts rq)))) (stuck sv rn rq (planned_gate rn rq) mx)"
proof -
  let ?P = "\<lambda>s. store_good rn s \<and> rc_max_entries (cw_cache s) = mx \<and> length (cw_traces s) = tid"
  let ?E = "stuck sv rn rq (planned_gate rn rq) mx"
  have read: "sx_valid ?P (in_world (read_op f)) (\<lambda>_. ?P) ?E" for f :: "'a \<Rightarrow> string \<times> 'a"
    by (auto simp: sx_valid_def in_world_def sx_zoom_def read_op_def store_good_def split: prod.splits)
  have trace: "sx_valid ?P (new_trace i t) (\<lambda>k s. kept rn mx tid 0 s \<and> k = tid) ?E" for i t
    by (auto simp: sx_valid_def new_trace_def kept_def fallbacks_def)
  have some: "attempt_numbers rq \<noteq> []" using attempt_numbers_length [of rq] by force
  have run: "sx_valid (\<lambda>s. kept rn mx tid 0 s \<and> build_crawl_plan (cr_policies rn) rq = Inr plan)
      (sx_bind (record_step sv rn rq tid plan 0 POLICY OK (message_only ''plan built'')) (\<lambda>_.
         crawl_attempts sv rn rq tid (attempt_numbers rq) plan MAX_ATTEMPTS_EXCEEDED))
      (run_ok rn rq tid (nat (max 1 (rq_max_attempts rq)))) ?E" for plan
  proof (cases "build_crawl_plan (cr_policies rn) rq = Inr plan")
    case True
    then have gate: "cp_allow_llm_gate plan = planned_gate rn rq" by (simp add: planned_gate_def)
    have "sx_valid (kept rn mx tid 0)
      (sx_bind (record_step sv rn rq tid plan 0 POLICY OK (message_only ''plan built'')) (\<lambda>_.
         crawl_attempts sv rn rq tid (attempt_numbers rq) plan MAX_ATTEMPTS_EXCEEDED))
      (run_ok rn rq tid (nat (max 1 (rq_max_attempts rq)))) ?E"
      using attempts_valid [OF gate, of "attempt_numbers rq" MAX_ATTEMPTS_EXCEEDED rn mx tid 0] some
      by (intro sx_valid_seq [OF record_valid]) (simp_all add: attempt_numbers_length)
    then show ?thesis by (rule sx_valid_weaken) auto
  next
    case False
    then show ?thesis by (simp add: sx_valid_def)
  qed
  have bad: "\<not> is_ret (url_netloc (rq_url rq))" if "build_crawl_plan (cr_policies rn) rq = Inl e" for e
    using that by (cases "url_netloc (rq_url rq)") (simp_all add: build_crawl_plan_def resolve_policy_def)
  have plan: "sx_valid (\<lambda>s. kept rn mx tid 0 s \<and> k = tid)
      (sx_bind (sx_lift (build_crawl_plan (cr_policies rn) rq)) (\<lambda>plan.
         sx_bind (record_step sv rn rq k plan 0 POLICY OK (message_only ''plan built'')) (\<lambda>_.
           crawl_attempts sv rn rq k (attempt_numbers rq) plan MAX_ATTEMPTS_EXCEEDED)))
      (run_ok rn rq tid (nat (max 1 (rq_max_attempts rq)))) ?E" for k
  proof (cases "k = tid")
    case True
    show ?thesis unfolding True
      by (rule sx_valid_bind [OF sx_valid_lift run]) (auto simp: stuck_def benign_def kept_good dest: bad)
  qed (simp add: sx_valid_def)
  show ?thesis
    unfolding crawl_run_def
    by (rule sx_valid_seq [OF read], rule sx_valid_seq [OF read], rule sx_valid_bind [OF trace plan])
qed

section \<open>Properties\<close>

text \<open>
  C23: whatever a crawl meets, and whether it returns or raises, the results it keeps stay good: every
  bundle, cached or returned, comes from a page served with a status below 400 and carries the
  quality score of its own document, which passed, and a rendered text is a rendering of that
  document. A returned result is one of them, and is rendered when the request asks for it.
\<close>

theorem crawl_results_are_good:
  assumes "store_good rn s" "crawl_run sv rn rq s = (res, s')"
  shows "store_good rn s'
    \<and> (case res of Inr (Crawled b) \<Rightarrow> b < length (cw_bundles s') \<and> bundle_good rn (cw_bundles s' ! b)
                      \<and> (rq_render rq \<longrightarrow> cb_rendered (cw_bundles s' ! b) \<noteq> None)
                  | _ \<Rightarrow> True)"
proof (cases res)
  case (Inl e)
  with sx_validD(2) [OF run_valid, of rn s _ _ sv rq e s'] assms show ?thesis by (auto simp: stuck_def)
next
  case (Inr out)
  with sx_validD(1) [OF run_valid, of rn s _ _ sv rq out s'] assms
  have "run_ok rn rq (length (cw_traces s)) (nat (max 1 (rq_max_attempts rq))) out s'" by auto
  then show ?thesis using Inr
    by (auto simp: run_ok_def store_good_def list_all_length split: crawl_outcome.splits)
qed

text \<open>
  C25: a crawl gives up only after it has tried as often as it may: when it fails, its trace has
  exactly \<open>max(1, max_attempts)\<close> fallbacks, one per attempt, and the error it reports is the one of
  the last attempt; \<open>max_attempts_exceeded\<close> is never reported.
\<close>

theorem crawl_failure_exhausts_attempts:
  assumes "store_good rn s" "crawl_run sv rn rq s = (Inr (CrawlFailed err tid), s')"
  shows "err \<noteq> MAX_ATTEMPTS_EXCEEDED \<and> fallbacks (cw_traces s' ! tid) = nat (max 1 (rq_max_attempts rq))"
  using sx_validD(1) [OF run_valid _ assms(2), of "rc_max_entries (cw_cache s)" "length (cw_traces s)"] assms(1)
  by (auto simp: run_ok_def)

text \<open>
  C24: failures of the network, of the browser, of extractors and of adapters never leave a crawl:
  whatever they do, it returns a result or reports \<open>CrawlFailedError\<close>, as long as events can be
  emitted, the address is valid, and no part that is a placeholder is asked for (the LLM renderer,
  the artifact manager, the LLM gate of the policy for a request with a query).
\<close>

theorem crawl_failures_are_contained:
  assumes "store_good rn s" "0 \<le> rc_max_entries (cw_cache s)" "\<And>e. sx_total (emit_event sv (cr_logger rn) e)"
    "is_ret (url_netloc (rq_url rq))" "rq_render rq \<Longrightarrow> rq_render_mode rq \<noteq> LLM_RENDER"
    "rq_persist_artifacts rq \<Longrightarrow> \<not> cr_artifact_manager rn" "\<not> (planned_gate rn rq \<and> named (rq_query rq))"
  shows "\<exists>out s'. crawl_run sv rn rq s = (Inr out, s')"
proof (cases "crawl_run sv rn rq s")
  case (Pair res s')
  have "benign sv rn rq (planned_gate rn rq) (rc_max_entries (cw_cache s))"
    using assms unfolding benign_def by blast
  with Pair sx_validD(2) [OF run_valid, of rn s "rc_max_entries (cw_cache s)" "length (cw_traces s)" sv rq _ s'] assms(1)
  show ?thesis by (cases res) (auto simp: stuck_def)
qed


text \<open>Output, clocks and identifiers leave sessions, cache and bundles alone.\<close>

lemma in_world_same:
  fixes Z :: "session_store \<Rightarrow> nat result_cache \<Rightarrow> crawl_result_bundle list \<Rightarrow> bool"
  assumes "sx_total m"
  shows "sx_valid (\<lambda>u. Z (cw_sessions u) (cw_cache u) (cw_bundles u)) (in_world m)
     (\<lambda>_ u. Z (cw_sessions u) (cw_cache u) (cw_bundles u)) E"
  unfolding sx_valid_def
proof (intro allI impI)
  fix u :: "'a crawl_state"
  assume "Z (cw_sessions u) (cw_cache u) (cw_bundles u)"
  moreover obtain a w where "m (cw_world u) = (Inr a, w)" using sx_totalD [OF assms] by blast
  ultimately show "case in_world m u of (Inl e, t) \<Rightarrow> E e t | (Inr a, t) \<Rightarrow> Z (cw_sessions t) (cw_cache t) (cw_bundles t)"
    by (simp add: in_world_def sx_zoom_def)
qed

lemma record_same:
  fixes Z :: "session_store \<Rightarrow> nat result_cache \<Rightarrow> crawl_result_bundle list \<Rightarrow> bool"
  assumes "\<And>e. sx_total (emit_event sv (cr_logger rn) e)" "is_ret (url_netloc (rq_url rq))"
  shows "sx_valid (\<lambda>u. Z (cw_sessions u) (cw_cache u) (cw_bundles u)) (record_step sv rn rq tid plan attempt step status k)
     (\<lambda>_ u. Z (cw_sessions u) (cw_cache u) (cw_bundles u)) E"
  unfolding record_step_def change_trace_def
  by (intro sx_valid_seq [where R = "\<lambda>u. Z (cw_sessions u) (cw_cache u) (cw_bundles u)"] sx_valid_lift in_world_same
      read_op_total assms(1) sx_valid_basic(3,4))
    (use assms(2) in auto)

lemma lookup_hit:
  fixes sv :: "'a crawl_services" and s :: "'a crawl_state"
  assumes "dget (rc_items (cw_cache s)) k = Some e" "\<And>w. fst (cs_time sv w) \<le> ce_expires_at e"
  shows "sx_valid (\<lambda>u. cw_sessions u = cw_sessions s \<and> cw_cache u = cw_cache s \<and> cw_bundles u = cw_bundles s)
     (lookup_result sv k) (\<lambda>r u. (cw_sessions u = cw_sessions s \<and> cw_bundles u = cw_bundles s) \<and> r = Some (ce_bundle e)) E"
  unfolding sx_valid_def
proof (intro allI impI)
  fix u :: "'a crawl_state"
  assume u: "cw_sessions u = cw_sessions s \<and> cw_cache u = cw_cache s \<and> cw_bundles u = cw_bundles s"
  obtain now w where t: "cs_time sv (cw_world u) = (now, w)" by (cases "cs_time sv (cw_world u)")
  then have "\<not> ce_expires_at e < now" using assms(2) [of "cw_world u"] by simp
  then show "case lookup_result sv k u of (Inl e, t) \<Rightarrow> E e t
    | (Inr r, t) \<Rightarrow> (cw_sessions t = cw_sessions s \<and> cw_bundles t = cw_bundles s) \<and> r = Some (ce_bundle e)"
    using u assms(1) by (simp add: lookup_result_def cache_get_def t)
qed

text \<open>The state after a hit on a bundle that is already rendered.\<close>

definition handed_out :: "'w crawl_state \<Rightarrow> nat \<Rightarrow> 'w crawl_state \<Rightarrow> bool" where
  "handed_out s r u \<longleftrightarrow> cw_sessions u = cw_sessions s
     \<and> cw_bundles u = (cw_bundles s)[r := (cw_bundles s ! r)\<lparr>cb_trace := length (cw_traces s)\<rparr>]"

lemma serve_hit:
  assumes "\<And>e. sx_total (emit_event sv (cr_logger rn) e)" "is_ret (url_netloc (rq_url rq))"
    "r < length (cw_bundles s)" "cb_rendered (cw_bundles s ! r) = Some t"
  shows "sx_valid (\<lambda>u. cw_sessions u = cw_sessions s \<and> cw_bundles u = cw_bundles s)
     (serve_cached sv rn rq (length (cw_traces s)) plan a r)
     (\<lambda>x u. handed_out s r u \<and> x = Inl (Finished r)) E"
proof -
  let ?hit = "\<lambda>u :: 'a crawl_state. cw_sessions u = cw_sessions s \<and> cw_bundles u = cw_bundles s"
  let ?tid = "length (cw_traces s)"
  have noted: "sx_valid ?hit (record_step sv rn rq ?tid plan a CACHE OK k) (\<lambda>_. ?hit) E" for k
    by (rule record_same [OF assms(1,2), where Z = "\<lambda>x _ y. x = cw_sessions s \<and> y = cw_bundles s"])
  have changed: "sx_valid ?hit (change_bundle r (\<lambda>b. b\<lparr>cb_trace := ?tid\<rparr>)) (\<lambda>_. handed_out s r) E"
    unfolding change_bundle_def by (intro sx_valid_basic) (simp add: handed_out_def)
  show ?thesis
    unfolding serve_cached_def
    by (rule sx_valid_seq [OF noted], rule sx_valid_seq [OF changed],
        rule sx_valid_bind [where R = "\<lambda>s0 u. u = s0 \<and> handed_out s r u"], rule sx_valid_basic, simp,
        rule sx_valid_seq [where R = "handed_out s r"], rule sx_valid_if)
      (auto simp: assms(3,4) sx_valid_def sx_simps handed_out_def)
qed

lemma cached_crawl:
  assumes "\<And>e. sx_total (emit_event sv (cr_logger rn) e)"
    "build_crawl_plan (cr_policies rn) rq = Inr plan" "cp_use_result_cache plan"
    "\<not> cache_mode_is rq ''bypass''" "\<not> cache_mode_is rq ''refresh''"
    "dget (rc_items (cw_cache s)) (make_key rq plan) = Some e" "\<And>w. fst (cs_time sv w) \<le> ce_expires_at e"
    "cb_rendered (cw_bundles s ! ce_bundle e) = Some t" "ce_bundle e < length (cw_bundles s)"
  shows "\<exists>s'. crawl_run sv rn rq s = (Inr (Crawled (ce_bundle e)), s') \<and> handed_out s (ce_bundle e) s'"
proof -
  let ?b = "ce_bundle e"
  let ?tid = "length (cw_traces s)"
  let ?same = "\<lambda>u :: 'a crawl_state. cw_sessions u = cw_sessions s \<and> cw_cache u = cw_cache s \<and> cw_bundles u = cw_bundles s"
  have url: "is_ret (url_netloc (rq_url rq))"
    using assms(2) by (cases "url_netloc (rq_url rq)") (simp_all add: build_crawl_plan_def resolve_policy_def)
  have cached: "sx_valid ?same (cached_result sv rn rq ?tid plan a) (\<lambda>x u. handed_out s ?b u \<and> x = Inl (Finished ?b)) (\<lambda>_ _. False)" for a
    by (simp add: cached_result_def assms(3-5))
      (rule sx_valid_value [OF lookup_hit [OF assms(6,7)]], simp add: serve_hit [OF assms(1) url assms(9,8)])
  have attempt: "sx_valid ?same (crawl_attempt sv rn rq ?tid a plan) (\<lambda>x u. handed_out s ?b u \<and> x = Finished ?b) (\<lambda>_ _. False)" for a
    unfolding crawl_attempt_def early_def by (rule sx_valid_value [OF cached]) (simp add: sx_valid_basic)
  obtain n as where numbers: "attempt_numbers rq = n # as"
    using attempt_numbers_length [of rq] by (cases "attempt_numbers rq") auto
  obtain i w where i: "cs_uuid_hex sv (cw_world s) = (i, w)" by (cases "cs_uuid_hex sv (cw_world s)")
  obtain t0 v where t0: "cs_utcnow sv w = (t0, v)" by (cases "cs_utcnow sv w")
  define u where "u = s\<lparr>cw_world := v, cw_traces := cw_traces s @
    [\<lparr>ti_run_id = i, ti_started_at = t0, ti_fallback_count = 0, ti_steps = []\<rparr>]\<rparr>"
  have start: "?same u" "crawl_run sv rn rq s = sx_bind (record_step sv rn rq ?tid plan 0 POLICY OK (message_only ''plan built''))
      (\<lambda>_. crawl_attempts sv rn rq ?tid (attempt_numbers rq) plan MAX_ATTEMPTS_EXCEEDED) u"
    by (auto simp: u_def crawl_run_def in_world_def sx_zoom_def read_op_def new_trace_def sx_bind_def sx_simps assms(2) i t0
        split: prod.split sum.split)
  have planned: "sx_valid ?same (record_step sv rn rq ?tid plan 0 POLICY OK k) (\<lambda>_. ?same) (\<lambda>_ _. False)" for k
    by (rule record_same [OF assms(1) url, where Z = "\<lambda>x c y. x = cw_sessions s \<and> c = cw_cache s \<and> y = cw_bundles s"])
  have "sx_valid ?same (sx_bind (record_step sv rn rq ?tid plan 0 POLICY OK k)
      (\<lambda>_. crawl_attempts sv rn rq ?tid (n # as) plan err)) (\<lambda>x u. handed_out s ?b u \<and> x = Crawled ?b) (\<lambda>_ _. False)" for k err
    unfolding crawl_attempts.simps
    by (rule sx_valid_seq [OF planned], rule sx_valid_value [OF attempt]) (simp add: sx_valid_basic)
  from sx_valid_returns [OF this start(1)] show ?thesis
    unfolding start(2) numbers by fastforce
qed

text \<open>
  A cached result is handed out as it is. When the cache holds an unexpired result with a
  rendered text under the key of the request and its first plan, the crawl returns that very
  bundle, without a session or a fetch. Its rendered text is the one made for an earlier request,
  whatever mode this request asks for, and its trace becomes the trace of this crawl, for the
  earlier caller too.
\<close>

theorem cached_results_are_shared:
  assumes "\<And>e. sx_total (emit_event sv (cr_logger rn) e)"
    "build_crawl_plan (cr_policies rn) rq = Inr plan" "cp_use_result_cache plan"
    "\<not> cache_mode_is rq ''bypass''" "\<not> cache_mode_is rq ''refresh''"
    "dget (rc_items (cw_cache s)) (make_key rq plan) = Some e" "\<And>w. fst (cs_time sv w) \<le> ce_expires_at e"
    "cb_rendered (cw_bundles s ! ce_bundle e) = Some t" "ce_bundle e < length (cw_bundles s)"
  shows "\<exists>s'. crawl_run sv rn rq s = (Inr (Crawled (ce_bundle e)), s') \<and> cw_sessions s' = cw_sessions s
    \<and> cw_bundles s' = (cw_bundles s)[ce_bundle e := (cw_bundles s ! ce_bundle e)\<lparr>cb_trace := length (cw_traces s)\<rparr>]
    \<and> cb_rendered (cw_bundles s' ! ce_bundle e) = Some t"
  using cached_crawl [OF assms(1-7) assms(8,9)] assms(8,9) by (auto simp: handed_out_def)

section \<open>Witnesses\<close>

text \<open>A web of one page, served over HTTP only; the world counts the requests.\<close>

definition sample_services :: "bool \<Rightarrow> nat crawl_services" where
  "sample_services up =
     \<lparr>cs_uuid_hex = (\<lambda>w. (''r'', w)), cs_utcnow = (\<lambda>w. (''t'', w)), cs_time = (\<lambda>w. (0, w)), cs_monotonic = (\<lambda>w. (0, w)),
      cs_http = (\<lambda>url w. (if up then Inr \<lparr>hr_url = url, hr_final_url = url, hr_status_code = 200, hr_headers = [],
                                         hr_text = Inr ''ab c'', hr_fetched_at = ''t''\<rparr>
                          else Inl (Exc ''RuntimeError'' ''down''), Suc w)),
      cs_browser = (\<lambda>url session keep login w. (Inl (Exc ''RuntimeError'' ''no browser''), Suc w)),
      cs_extract = (\<lambda>html url. sx_return (sample_document html)),
      cs_dumps = (\<lambda>v. Inr []), cs_append_file = (\<lambda>p t. sx_return ()), cs_write_stream = (\<lambda>t. sx_return ()),
      cs_write_stdout = (\<lambda>t. sx_return ())\<rparr>"

definition sample_runner :: "nat crawler_runner" where
  "sample_runner =
     \<lparr>cr_policies = new_domain_registry, cr_adapters = [], cr_log = id, cr_reranker = new_reranker,
      cr_thresholds = \<lparr>qt_min_text_chars = 3, qt_min_chunks = 1, qt_max_link_density = 1\<rparr>,
      cr_show4 = (\<lambda>q. []), cr_renderer = new_renderer, cr_logger = new_event_logger, cr_artifact_manager = False\<rparr>"

definition sample_state :: "nat crawl_state" where
  "sample_state = \<lparr>cw_sessions = new_session_store, cw_cache = new_result_cache, cw_bundles = [], cw_traces = [], cw_world = 0\<rparr>"

definition sample_request :: crawl_request where
  "sample_request = (crawl_request_of ''http://a.org'')\<lparr>rq_render := True, rq_max_attempts := 2\<rparr>"

lemma sample_state_good: "store_good rn sample_state"
  by (simp add: store_good_def sample_state_def new_result_cache_def)

lemma sample_emits: "sx_total (emit_event (sample_services up) (cr_logger sample_runner) e)"
  by (simp add: sx_total_def emit_event_def sample_services_def sample_runner_def new_event_logger_def sx_bind_def sx_simps)

lemma sample_netloc: "url_netloc ''http://a.org'' = Inr ''a.org''"
  by code_simp

lemma first_wildcard_empty: "first_wildcard [] parts is = None"
  by (simp add: first_wildcard_None list_all_iff)

lemma sample_plan:
  "build_crawl_plan (cr_policies sample_runner) sample_request
     = Inr (plan_of_policy sample_request (policy_of_domain ''*''))"
  by (simp add: build_crawl_plan_def resolve_policy_def sample_request_def crawl_request_of_def sample_netloc
      sample_runner_def resolve_host_def new_domain_registry_def first_wildcard_empty Let_def)

lemma sample_record:
  "record_step (sample_services up) sample_runner sample_request tid plan a step status k s
     = (Inr (), s\<lparr>cw_traces := (cw_traces s)[tid := add_step
       \<lparr>ts_attempt = a, ts_step_name = step_value step, ts_status = event_status_value status,
        ts_reason = ek_message k, ts_error_type = ek_error_type k,
        ts_meta = [(''plan_transport'', PStr (transport_value (cp_transport plan))),
                   (''plan_extract_kind'', PStr (extract_value (cp_extract_kind plan)))]\<rparr> (cw_traces s ! tid)]\<rparr>)"
  by (simp add: record_step_def change_trace_def in_world_def sx_zoom_def read_op_def emit_event_def sample_services_def
      sample_runner_def new_event_logger_def sample_request_def crawl_request_of_def sample_netloc sx_bind_def sx_simps)

lemma sample_fetch_down:
  "\<exists>e w. hybrid_fetch (sample_services False) url plan se opts v = (Inl e, w) \<and> exc_class e = ''RuntimeError''"
  by (simp add: hybrid_fetch_def sample_services_def read_op_def sx_bind_def)

text \<open>With an empty cache and the web down, every attempt fails to fetch.\<close>

lemma sample_attempt_fails:
  "sx_valid (\<lambda>u. rc_items (cw_cache u) = []) (crawl_attempt (sample_services False) sample_runner sample_request tid a plan)
     (\<lambda>r u. rc_items (cw_cache u) = [] \<and> (\<exists>p. r = Retry p FETCH_ERROR)) (\<lambda>_ _. False)"
proof -
  let ?I = "\<lambda>u :: nat crawl_state. rc_items (cw_cache u) = []"
  have noted: "sx_valid ?I (record_step (sample_services False) sample_runner sample_request t p b step status k) (\<lambda>_. ?I) E"
    for t p b step status k E
    by (simp add: sx_valid_def sample_record)
  have cached: "sx_valid ?I (cached_result (sample_services False) sample_runner sample_request tid plan a)
      (\<lambda>x u. ?I u \<and> x = Inr ()) (\<lambda>_ _. False)"
    by (simp add: sx_valid_def cached_result_def lookup_result_def sample_record sx_bind_def sx_simps)
  have session: "sx_valid ?I (session_for (sample_services False) sample_request plan) (\<lambda>_. ?I) (\<lambda>_ _. False)"
    by (auto simp: sx_valid_def session_for_def session_get_def session_domain_def sample_request_def crawl_request_of_def
        sample_netloc sample_services_def Let_def)
  have fetch: "sx_valid ?I (fetch_page (sample_services False) sample_runner sample_request tid plan a se)
      (\<lambda>x u. ?I u \<and> (\<exists>p. x = Inl (Retry p FETCH_ERROR))) (\<lambda>_ _. False)" for se
    unfolding sx_valid_def
  proof (intro allI impI)
    fix u :: "nat crawl_state"
    assume "?I u"
    with sample_fetch_down [of "rq_url sample_request" plan se "rq_options sample_request" "cw_world u"]
    show "case fetch_page (sample_services False) sample_runner sample_request tid plan a se u of
        (Inl e, t) \<Rightarrow> False | (Inr x, t) \<Rightarrow> ?I t \<and> (\<exists>p. x = Inl (Retry p FETCH_ERROR))"
      by (auto simp: fetch_page_def sx_try_def sx_bind_def in_world_def sx_zoom_def failed_def retry_def fall_back_def
        sample_record change_trace_def sx_simps error_of_def Let_def)
  qed
  show ?thesis
    unfolding crawl_attempt_def early_def
    by (rule sx_valid_value [OF cached], simp, rule sx_valid_seq [OF session], rule sx_valid_seq [OF noted],
        rule sx_valid_bind [OF fetch]) (auto simp: sx_valid_def sx_simps)
qed

lemma sample_run_fails:
  "\<exists>s'. crawl_run (sample_services False) sample_runner sample_request sample_state = (Inr (CrawlFailed FETCH_ERROR 0), s')"
proof -
  let ?I = "\<lambda>u :: nat crawl_state. rc_items (cw_cache u) = []"
  have attempts: "sx_valid ?I (crawl_attempts (sample_services False) sample_runner sample_request tid as plan err)
      (\<lambda>x u. ?I u \<and> x = CrawlFailed FETCH_ERROR tid) (\<lambda>_ _. False)" if "as \<noteq> [] \<or> err = FETCH_ERROR" for tid "as" plan err
    using that
  proof (induction "as" arbitrary: plan err)
    case (Cons a "as")
    show ?case
      unfolding crawl_attempts.simps
      by (rule sx_valid_bind [OF sample_attempt_fails], rule sx_valid_pure) (auto intro: Cons.IH)
  qed (auto intro: sx_valid_basic)
  have numbers: "attempt_numbers sample_request \<noteq> []"
    using attempt_numbers_length [of sample_request] by force
  obtain w where start: "crawl_run (sample_services False) sample_runner sample_request sample_state
      = crawl_attempts (sample_services False) sample_runner sample_request 0 (attempt_numbers sample_request)
          (plan_of_policy sample_request (policy_of_domain ''*'')) MAX_ATTEMPTS_EXCEEDED w" "?I w"
    by (auto simp: crawl_run_def sample_plan in_world_def sx_zoom_def read_op_def new_trace_def sx_bind_def sx_simps
        sample_record) (simp_all add: sample_services_def sample_state_def new_result_cache_def)
  show ?thesis using sx_valid_returns [OF attempts start(2)] numbers start(1) by fastforce
qed

theorem crawl_results_are_good_witness:
  "\<exists>res s'. crawl_run (sample_services False) sample_runner sample_request sample_state = (res, s')
     \<and> store_good sample_runner s'"
proof -
  obtain res s' where run: "crawl_run (sample_services False) sample_runner sample_request sample_state = (res, s')"
    by (rule prod.exhaust)
  from run conjunct1 [OF crawl_results_are_good [OF sample_state_good run]] show ?thesis by blast
qed

theorem crawl_failure_exhausts_attempts_witness:
  "\<exists>s'. crawl_run (sample_services False) sample_runner sample_request sample_state = (Inr (CrawlFailed FETCH_ERROR 0), s')
     \<and> fallbacks (cw_traces s' ! 0) = 2"
proof -
  obtain s' where run: "crawl_run (sample_services False) sample_runner sample_request sample_state
    = (Inr (CrawlFailed FETCH_ERROR 0), s')" using sample_run_fails by blast
  from run conjunct2 [OF crawl_failure_exhausts_attempts [OF sample_state_good run]] show ?thesis
    by (auto simp: sample_request_def)
qed

theorem crawl_failures_are_contained_witness:
  "\<exists>out s'. crawl_run (sample_services True) sample_runner sample_request sample_state = (Inr out, s')"
proof (rule crawl_failures_are_contained [OF sample_state_good _ sample_emits])
  show "is_ret (url_netloc (rq_url sample_request))"
    by (simp add: sample_request_def crawl_request_of_def sample_netloc)
qed (simp_all add: sample_state_def new_result_cache_def sample_request_def crawl_request_of_def sample_runner_def named_def)

text \<open>A cache that holds a result rendered as plain text, asked for a structured text.\<close>

definition sample_bundle :: crawl_result_bundle where
  "sample_bundle =
     \<lparr>cb_request = sample_request, cb_plan = plan_of_policy sample_request (policy_of_domain ''*''),
      cb_fetched = \<lparr>fm_url = [], fm_final_url = [], fm_status_code = 200, fm_headers = [], fm_elapsed_ms = 0,
                    fm_fetched_at = None, fm_transport = HTTP, fm_extra = []\<rparr>,
      cb_raw_html = None, cb_doc_clean = sample_document ''ab c'',
      cb_quality = assess_quality (cr_thresholds sample_runner) (sample_document ''ab c''), cb_relevance = None,
      cb_rendered = Some ''ab c'', cb_trace = 7, cb_artifacts = None\<rparr>"

definition cached_state :: "nat crawl_state" where
  "cached_state = sample_state\<lparr>cw_bundles := [sample_bundle], cw_cache := new_result_cache
     \<lparr>rc_items := [(make_key sample_request (plan_of_policy sample_request (policy_of_domain ''*'')),
                    \<lparr>ce_bundle = 0, ce_expires_at = 600\<rparr>)]\<rparr>\<rparr>"

theorem cached_results_are_shared_witness:
  "\<exists>s'. crawl_run (sample_services True) sample_runner (sample_request\<lparr>rq_render_mode := STRUCTURED\<rparr>) cached_state
       = (Inr (Crawled 0), s')
     \<and> cb_rendered (cw_bundles s' ! 0) = Some ''ab c''"
proof -
  let ?rq = "sample_request\<lparr>rq_render_mode := STRUCTURED\<rparr>"
  let ?plan = "plan_of_policy sample_request (policy_of_domain ''*'')"
  let ?e = "\<lparr>ce_bundle = 0, ce_expires_at = 600\<rparr> :: nat cache_entry"
  have mode: "plan_of_policy ?rq dp = plan_of_policy sample_request dp" for dp
    by (simp add: plan_of_policy_def Let_def)
  have "\<exists>s'. crawl_run (sample_services True) sample_runner ?rq cached_state = (Inr (Crawled (ce_bundle ?e)), s')
    \<and> cw_sessions s' = cw_sessions cached_state
    \<and> cw_bundles s' = (cw_bundles cached_state)[ce_bundle ?e :=
         (cw_bundles cached_state ! ce_bundle ?e)\<lparr>cb_trace := length (cw_traces cached_state)\<rparr>]
    \<and> cb_rendered (cw_bundles s' ! ce_bundle ?e) = Some ''ab c''"
  proof (rule cached_results_are_shared [OF sample_emits, of _ ?plan])
    show "build_crawl_plan (cr_policies sample_runner) ?rq = Inr ?plan"
      using sample_plan by (simp add: build_crawl_plan_def mode)
    show "dget (rc_items (cw_cache cached_state)) (make_key ?rq ?plan) = Some ?e"
      by (simp add: cached_state_def make_key_def)
  qed (simp_all add: plan_of_policy_def Let_def cache_mode_is_def sample_request_def crawl_request_of_def cached_state_def
      sample_bundle_def sample_services_def)
  then show ?thesis by auto
qed

end
