(* ===== verification/JsonText.thy ===== *)
theory JsonText
  imports PyValue "HOL-Library.Char_ord" "HOL-Library.List_Lexorder"
begin

text \<open>
  Text encodings of the standard library that the services store or hash: \<open>s.encode("utf-8")\<close>
  and \<open>json.dumps(v, sort_keys=True)\<close> (with \<open>ensure_ascii\<close>) for the values the program
  serialises. The result is that the text determines the value up to the order of object keys.
\<close>

section \<open>UTF-8\<close>

definition utf8_encode :: "string \<Rightarrow> string" where
  "utf8_encode s = concat (map (\<lambda>c. let n = (of_char c :: nat) in
     if n < 128 then [c] else [char_of (192 + n div 64), char_of (128 + n mod 64)]) s)"

lemma utf8_encode_ascii: "list_all (\<lambda>c. (of_char c :: nat) < 128) s \<Longrightarrow> utf8_encode s = s"
  by (induction s) (simp_all add: utf8_encode_def)

section \<open>JSON\<close>

datatype json = JNull | JText string | JArray "json list" | JObject "(string \<times> json) list"

definition hex_code :: "nat \<Rightarrow> nat" where
  "hex_code k = (if k < 10 then 48 + k else 87 + k)"

text \<open>The character codes a character is written with: 34 is the quote, 92 the backslash.\<close>

definition json_codes :: "nat \<Rightarrow> nat list" where
  "json_codes n =
     (if n = 34 then [92, 34] else if n = 92 then [92, 92] else if n = 10 then [92, 110]
      else if n = 13 then [92, 114] else if n = 9 then [92, 116] else if n = 12 then [92, 102]
      else if n = 8 then [92, 98] else if 32 \<le> n \<and> n \<le> 126 then [n]
      else [92, 117, 48, 48, hex_code (n div 16), hex_code (n mod 16)])"

definition json_char :: "char \<Rightarrow> string" where
  "json_char c = map char_of (json_codes (of_char c))"

definition json_string :: "string \<Rightarrow> string" where
  "json_string s = CHR 0x22 # concat (map json_char s) @ [CHR 0x22]"

fun json_encode :: "string \<Rightarrow> string \<Rightarrow> json \<Rightarrow> string" where
  "json_encode item_sep key_sep JNull = ''null''"
| "json_encode item_sep key_sep (JText s) = json_string s"
| "json_encode item_sep key_sep (JArray vs) =
     ''['' @ py_join item_sep (map (json_encode item_sep key_sep) vs) @ '']''"
| "json_encode item_sep key_sep (JObject d) =
     ''{'' @ py_join item_sep (map (\<lambda>(k, v). json_string k @ key_sep @ json_encode item_sep key_sep v) d) @ ''}''"

fun json_sorted :: "json \<Rightarrow> json" where
  "json_sorted JNull = JNull"
| "json_sorted (JText s) = JText s"
| "json_sorted (JArray vs) = JArray (map json_sorted vs)"
| "json_sorted (JObject d) = JObject (sort_key fst (map (\<lambda>(k, v). (k, json_sorted v)) d))"

definition json_dumps :: "string \<Rightarrow> string \<Rightarrow> json \<Rightarrow> string" where
  "json_dumps item_sep key_sep v = json_encode item_sep key_sep (json_sorted v)"

section \<open>The text determines the value\<close>

text \<open>\<open>delimited enc x\<close>: a text that starts with the encoding of \<open>x\<close> starts with no other.\<close>

definition delimited :: "('a \<Rightarrow> 'b list) \<Rightarrow> 'a \<Rightarrow> bool" where
  "delimited enc x \<longleftrightarrow> (\<forall>y r r'. enc x @ r = enc y @ r' \<longrightarrow> y = x \<and> r' = r)"

lemma delimitedI: "(\<And>y r r'. enc x @ r = enc y @ r' \<Longrightarrow> y = x \<and> r' = r) \<Longrightarrow> delimited enc x"
  by (simp add: delimited_def)

lemma delimitedD: "delimited enc x \<Longrightarrow> enc x @ r = enc y @ r' \<Longrightarrow> y = x \<and> r' = r"
  by (simp add: delimited_def)

lemma delimited_items:
  assumes "\<And>x. x \<in> set xs \<Longrightarrow> delimited enc x" "c \<noteq> b"
    "concat (map (\<lambda>x. b # sep @ enc x) xs) @ c # r = concat (map (\<lambda>x. b # sep @ enc x) ys) @ c # r'"
  shows "ys = xs \<and> r' = r"
  using assms
proof (induction xs arbitrary: ys)
  case Nil
  then show ?case by (cases ys) auto
next
  case (Cons x xs)
  from Cons.prems(2,3) obtain y ys' where ys: "ys = y # ys'" by (cases ys) auto
  from Cons.prems(3) have "enc x @ concat (map (\<lambda>x. b # sep @ enc x) xs) @ c # r
      = enc y @ concat (map (\<lambda>x. b # sep @ enc x) ys') @ c # r'"
    by (simp add: ys)
  from delimitedD [OF Cons.prems(1) this]
  have "y = x" "concat (map (\<lambda>x. b # sep @ enc x) xs) @ c # r = concat (map (\<lambda>x. b # sep @ enc x) ys') @ c # r'"
    by simp_all
  with Cons ys show ?case by auto
qed

lemma py_join_concat: "py_join sep (x # xs) = x @ concat (map ((@) sep) xs)"
  by (induction xs arbitrary: x) simp_all

lemma delimited_join:
  assumes enc: "\<And>x. x \<in> set xs \<Longrightarrow> delimited enc x" and c: "c \<noteq> b"
    and start: "\<And>y. \<exists>h t. enc y = h # t \<and> h \<noteq> c"
    and eq: "py_join (b # sep) (map enc xs) @ c # r = py_join (b # sep) (map enc ys) @ c # r'"
  shows "ys = xs \<and> r' = r"
proof (cases xs)
  case Nil
  with eq start show ?thesis by (cases ys) (auto simp: py_join_concat, metis append_Cons list.inject)
next
  case (Cons x xs')
  show ?thesis
  proof (cases ys)
    case Nil
    with eq Cons start [of x] show ?thesis by (auto simp: py_join_concat)
  next
    case (Cons y ys')
    note ys = this
    from eq \<open>xs = x # xs'\<close> ys
    have "enc x @ concat (map (\<lambda>x. b # sep @ enc x) xs') @ c # r
        = enc y @ concat (map (\<lambda>x. b # sep @ enc x) ys') @ c # r'"
      by (simp add: py_join_concat comp_def)
    from delimitedD [OF enc this] delimited_items [of xs' enc c b sep r ys' r'] enc c ys \<open>xs = x # xs'\<close>
    show ?thesis by auto
  qed
qed

definition hex_value :: "nat \<Rightarrow> nat" where
  "hex_value k = (if k < 58 then k - 48 else k - 87)"

lemma hex_value_code [simp]: "k < 16 \<Longrightarrow> hex_value (hex_code k) = k"
  by (simp add: hex_value_def hex_code_def)

text \<open>Reading one character back.\<close>

definition json_read :: "nat list \<Rightarrow> nat \<times> nat list" where
  "json_read ks =
     (if hd ks \<noteq> 92 then (hd ks, tl ks)
      else if ks ! 1 = 117 then (16 * hex_value (ks ! 4) + hex_value (ks ! 5), drop 6 ks)
      else (the (map_of [(34, 34), (92, 92), (110, 10), (114, 13), (116, 9), (102, 12), (98, 8)] (ks ! 1)), drop 2 ks))"

lemma json_read_codes:
  assumes "n < 256"
  shows "json_read (json_codes n @ r) = (n, r)"
proof -
  consider "n \<in> {34, 92, 10, 13, 9, 12, 8}" | "32 \<le> n \<and> n \<le> 126 \<and> n \<notin> {34, 92}"
    | "n \<notin> {34, 92, 10, 13, 9, 12, 8}" "\<not> (32 \<le> n \<and> n \<le> 126)"
    by blast
  then show ?thesis
  proof cases
    case 1
    then show ?thesis
      by (elim insertE emptyE; hypsubst; simp only: json_codes_def append.simps) (simp_all add: json_read_def)
  next
    case 2
    then show ?thesis by (simp add: json_codes_def json_read_def)
  next
    case 3
    then have "json_codes n = [92, 117, 48, 48, hex_code (n div 16), hex_code (n mod 16)]"
      unfolding json_codes_def by auto
    moreover have "n div 16 < 16" "n mod 16 < 16" "16 * (n div 16) + n mod 16 = n"
      using assms by auto
    ultimately show ?thesis by (simp add: json_read_def del: mult_div_mod_eq)
  qed
qed

lemma json_codes_delimited:
  "n < 256 \<Longrightarrow> m < 256 \<Longrightarrow> json_codes n @ r = json_codes m @ r' \<Longrightarrow> m = n \<and> r' = r"
  by (metis json_read_codes prod.inject)

lemma hex_code_bound: "k < 16 \<Longrightarrow> hex_code k < 256"
  by (simp add: hex_code_def)

lemma json_codes_bound: "n < 256 \<Longrightarrow> list_all (\<lambda>k. k < 256) (json_codes n)"
  unfolding json_codes_def using hex_code_bound [of "n div 16"] hex_code_bound [of "n mod 16"] by simp

lemma json_codes_start: "\<exists>h t. json_codes n = h # t \<and> h \<noteq> 34"
  by (simp add: json_codes_def)

lemma of_char_json_char: "map of_char (json_char c) = json_codes (of_char c)"
proof -
  have "(of_char (char_of k :: char) :: nat) = k" if "k \<in> set (json_codes (of_char c))" for k
    using json_codes_bound [of "of_char c"] that by (simp add: of_char_of list_all_iff)
  then show ?thesis by (simp add: json_char_def map_idI)
qed

lemma json_char_delimited: "delimited json_char c"
proof (rule delimitedI)
  fix d :: char and r r'
  assume "json_char c @ r = json_char d @ r'"
  then have "map of_char (json_char c @ r) = (map of_char (json_char d @ r') :: nat list)" by simp
  then have "json_codes (of_char c) @ map of_char r = json_codes (of_char d) @ map of_char r'"
    by (simp add: of_char_json_char)
  from json_codes_delimited [OF _ _ this] have "(of_char d :: nat) = of_char c" "map of_char r' = (map of_char r :: nat list)"
    by simp_all
  then show "d = c \<and> r' = r" by (simp add: inj_map_eq_map inj_on_def)
qed

lemma json_char_start: "\<exists>h t. json_char c = h # t \<and> h \<noteq> CHR 0x22"
proof -
  obtain h t where h: "json_codes (of_char c) = h # t" "h \<noteq> 34" using json_codes_start by blast
  then have "h < 256" using json_codes_bound [of "of_char c"] by simp
  with h(2) have "(of_char (char_of h :: char) :: nat) \<noteq> of_char (CHR 0x22)" by (simp add: of_char_of)
  then have "char_of h \<noteq> CHR 0x22" by metis
  with h(1) show ?thesis by (simp add: json_char_def)
qed

lemma json_string_delimited: "delimited json_string s"
proof (rule delimitedI)
  fix t :: string and r r'
  assume "json_string s @ r = json_string t @ r'"
  then have "concat (map json_char s) @ CHR 0x22 # r = concat (map json_char t) @ CHR 0x22 # r'"
    by (simp add: json_string_def)
  then show "t = s \<and> r' = r"
  proof (induction s arbitrary: t)
    case Nil
    then show ?case using json_char_start by (cases t) (auto, metis append_Cons list.inject)
  next
    case (Cons c s)
    from Cons.prems obtain d t' where t: "t = d # t'"
      using json_char_start [of c] by (cases t) auto
    from Cons.prems have "json_char c @ concat (map json_char s) @ CHR 0x22 # r
        = json_char d @ concat (map json_char t') @ CHR 0x22 # r'"
      by (simp add: t)
    from delimitedD [OF json_char_delimited this] Cons.IH [of t'] t show ?case by auto
  qed
qed

lemma json_encode_start:
  "\<exists>h t. json_encode item_sep key_sep v = h # t \<and> h \<in> {CHR ''n'', CHR 0x22, CHR ''['', CHR ''{''}"
  by (cases v) (simp_all add: json_string_def)

lemma json_encode_delimited: "delimited (json_encode (CHR '','' # i) k) v"
proof (induction v)
  case JNull
  show ?case
  proof (rule delimitedI)
    fix y r r'
    assume "json_encode (CHR '','' # i) k JNull @ r = json_encode (CHR '','' # i) k y @ r'"
    then show "y = JNull \<and> r' = r" by (cases y) (simp_all add: json_string_def)
  qed
next
  case (JText s)
  show ?case
  proof (rule delimitedI)
    fix y r r'
    assume eq: "json_encode (CHR '','' # i) k (JText s) @ r = json_encode (CHR '','' # i) k y @ r'"
    then obtain t where t: "y = JText t" by (cases y) (simp_all add: json_string_def)
    with eq delimitedD [OF json_string_delimited, of s r t r'] show "y = JText s \<and> r' = r" by simp
  qed
next
  case (JArray vs)
  show ?case
  proof (rule delimitedI)
    fix y r r'
    let ?enc = "json_encode (CHR '','' # i) k"
    assume eq: "?enc (JArray vs) @ r = ?enc y @ r'"
    then obtain ws where y: "y = JArray ws" by (cases y) (simp_all add: json_string_def)
    have "\<exists>h t. ?enc q = h # t \<and> h \<noteq> CHR '']''" for q
      using json_encode_start [of "CHR '','' # i" k q] by auto
    with eq y JArray have "ws = vs \<and> r' = r"
      by (intro delimited_join [where enc = ?enc and c = "CHR '']''" and b = "CHR '',''" and sep = i]) simp_all
    with y show "y = JArray vs \<and> r' = r" by simp
  qed
next
  case (JObject d)
  show ?case
  proof (rule delimitedI)
    fix y r r'
    let ?enc = "\<lambda>(x, v). json_string x @ k @ json_encode (CHR '','' # i) k v"
    assume eq: "json_encode (CHR '','' # i) k (JObject d) @ r = json_encode (CHR '','' # i) k y @ r'"
    then obtain e where y: "y = JObject e" by (cases y) (simp_all add: json_string_def)
    have item: "delimited ?enc p" if "p \<in> set d" for p
    proof (rule delimitedI)
      fix q r r'
      assume eq: "?enc p @ r = ?enc q @ r'"
      obtain x v x' v' where pq: "p = (x, v)" "q = (x', v')" by (cases p; cases q) auto
      from eq have "json_string x @ k @ json_encode (CHR '','' # i) k v @ r
          = json_string x' @ k @ json_encode (CHR '','' # i) k v' @ r'"
        by (simp add: pq)
      from delimitedD [OF json_string_delimited this]
      have x: "x' = x" and v: "json_encode (CHR '','' # i) k v @ r = json_encode (CHR '','' # i) k v' @ r'"
        by simp_all
      have "delimited (json_encode (CHR '','' # i) k) v"
        by (rule JObject [OF that]) (simp add: pq)
      from delimitedD [OF this v] x show "q = p \<and> r' = r" by (simp add: pq)
    qed
    have start: "\<exists>h t. ?enc q = h # t \<and> h \<noteq> CHR ''}''" for q
      by (cases q) (simp add: json_string_def)
    from eq have "py_join (CHR '','' # i) (map ?enc d) @ CHR ''}'' # r
        = py_join (CHR '','' # i) (map ?enc e) @ CHR ''}'' # r'"
      by (simp add: y)
    from delimited_join [OF item _ start this] have "e = d \<and> r' = r" by simp
    with y show "y = JObject d \<and> r' = r" by simp
  qed
qed

lemma json_dumps_inject:
  "json_dumps (CHR '','' # i) k v = json_dumps (CHR '','' # i) k w \<Longrightarrow> json_sorted v = json_sorted w"
  using delimitedD [OF json_encode_delimited, of i k "json_sorted v" "[]" "json_sorted w" "[]"]
  by (simp add: json_dumps_def)

end
