(* ===== verification/DockerDriver.thy ===== *)
theory DockerDriver
  imports Sandbox JsonText
begin

text \<open>
  The driver over the docker package: \<open>docker_driver/docker_sdk_driver.py\<close> with
  \<open>docker_driver/build_context.py\<close> and the build models of \<open>docker_driver_models.py\<close>. The
  package is a record of operations on the world; \<open>_client\<close> is kept as whether there is one. A tar
  archive is its list of members, the text of an exception its message.
\<close>

section \<open>Models\<close>

record driver_config =
  dg_base_url :: "string option"
  dg_timeout :: int
  dg_version :: "string option"
  dg_use_ssh_client :: bool

definition new_driver_config :: driver_config where
  "new_driver_config = \<lparr>dg_base_url = None, dg_timeout = 60, dg_version = None, dg_use_ssh_client = False\<rparr>"

record build_image_spec =
  bs_tag :: "string option"
  bs_dockerfile_text :: "string option"
  bs_dockerfile_path :: string
  bs_context_dir :: "string option"
  bs_context_tar :: "string option"
  bs_context_files :: "string dict"
  bs_pull :: bool
  bs_nocache :: bool
  bs_rm :: bool
  bs_forcerm :: bool
  bs_timeout :: "int option"
  bs_buildargs :: "string dict"
  bs_encoding :: "string option"

record built_image =
  bi_image_id :: string
  bi_tags :: "string list"
  bi_logs :: "pyval list"

text \<open>
  What a build is given: a directory with the path of its Dockerfile, or a tar, as bytes or as the members packed here,
  with its encoding (the path of the Dockerfile is not passed then); and the options of every build.
\<close>

datatype build_context =
    ContextDir string string
  | ContextBytes string "string option"
  | ContextTar "(string \<times> string) list" "string option"

record build_options =
  bo_tag :: "string option"
  bo_pull :: bool
  bo_nocache :: bool
  bo_rm :: bool
  bo_forcerm :: bool
  bo_timeout :: "int option"
  bo_buildargs :: "string dict"

definition build_options_of :: "build_image_spec \<Rightarrow> build_options" where
  "build_options_of spec =
     \<lparr>bo_tag = bs_tag spec, bo_pull = bs_pull spec, bo_nocache = bs_nocache spec, bo_rm = bs_rm spec,
      bo_forcerm = bs_forcerm spec, bo_timeout = bs_timeout spec, bo_buildargs = bs_buildargs spec\<rparr>"

text \<open>\<open>make_tar_context\<close>: the members in the order of their names.\<close>

definition make_tar_context :: "string option \<Rightarrow> string \<Rightarrow> string dict \<Rightarrow> (string \<times> string) list res" where
  "make_tar_context dockerfile_text dockerfile_path files =
     (let members = (case dockerfile_text of None \<Rightarrow> files | Some t \<Rightarrow> dput dockerfile_path (utf8_encode t) files)
      in if members = []
         then Inl (Exc ''ValueError'' ''empty build context: provide dockerfile_text and/or files'')
         else Inr (map (\<lambda>(n, raw). (py_lstrip (CHR ''/'') n, raw)) (sort_key fst members)))"

section \<open>The docker package\<close>

datatype exec_output = DemuxedOutput "string option" "string option" | PlainOutput string | NoOutput

record 'w docker_package =
  dk_factory :: "('w, unit) sx option"
  dk_client_at :: "string \<Rightarrow> driver_config \<Rightarrow> ('w, unit) sx"
  dk_from_env :: "int \<Rightarrow> ('w, unit) sx"
  dk_ping :: "('w, bool) sx"
  dk_pull_image :: "string \<Rightarrow> ('w, string) sx"
  dk_find_image :: "string \<Rightarrow> ('w, string) sx"
  dk_build :: "build_context \<Rightarrow> build_options \<Rightarrow> ('w, (string option \<times> string list) \<times> pyval list) sx"
  dk_create :: "container_create_spec \<Rightarrow> ('w, container_ref) sx"
  dk_find :: "string \<Rightarrow> ('w, unit) sx"
  dk_start :: "string \<Rightarrow> ('w, unit) sx"
  dk_exec_run :: "exec_create_spec \<Rightarrow> ('w, int option \<times> exec_output) sx"
  dk_put_archive :: "string \<Rightarrow> string \<Rightarrow> archive \<Rightarrow> ('w, bool) sx"
  dk_get_archive :: "string \<Rightarrow> string \<Rightarrow> ('w, string list \<times> pyval dict) sx"
  dk_logs :: "string \<Rightarrow> int \<Rightarrow> ('w, string) sx"
  dk_reload :: "string \<Rightarrow> ('w, container_ref) sx"
  dk_stop :: "string \<Rightarrow> int \<Rightarrow> ('w, unit) sx"
  dk_remove :: "string \<Rightarrow> bool \<Rightarrow> bool \<Rightarrow> ('w, unit) sx"
  dk_monotonic :: "'w \<Rightarrow> rat \<times> 'w"
  dk_show :: "pyval \<Rightarrow> string"

record 'w sdk_driver =
  dv_config :: driver_config
  dv_connected :: bool
  dv_world :: 'w

type_synonym ('w, 'a) dvx = "('w sdk_driver, 'a) sx"

definition on_docker :: "('w, 'a) sx \<Rightarrow> ('w, 'a) dvx" where
  "on_docker = sx_zoom dv_world (\<lambda>w s. s\<lparr>dv_world := w\<rparr>)"

definition read_monotonic :: "'w docker_package \<Rightarrow> ('w, rat) dvx" where
  "read_monotonic dk = on_docker (\<lambda>w. case dk_monotonic dk w of (t, w') \<Rightarrow> (Inr t, w'))"

definition docker_error :: "string \<Rightarrow> exc \<Rightarrow> ('s, 'a) sx" where
  "docker_error cls e = sx_raise (Exc cls (exc_text e))"

text \<open>\<open>except cls: raise\<close> followed by \<open>except Exception as exc: raise cls(str(exc))\<close>.\<close>

definition translate :: "string \<Rightarrow> ('s, 'a) sx \<Rightarrow> ('s, 'a) sx" where
  "translate cls m = sx_try m (\<lambda>e. exc_class e \<noteq> cls) (docker_error cls)"

section \<open>Operations\<close>

text \<open>\<open>connect\<close> stores the client before it pings the daemon.\<close>

definition connect :: "'w docker_package \<Rightarrow> ('w, unit) dvx" where
  "connect dk =
     sx_try
       (sx_bind sx_get (\<lambda>s.
        sx_bind (case dk_factory dk of
                   Some factory \<Rightarrow> on_docker factory
                 | None \<Rightarrow>
                     (case dg_base_url (dv_config s) of
                        None \<Rightarrow> on_docker (dk_from_env dk (dg_timeout (dv_config s)))
                      | Some url \<Rightarrow>
                          if url \<noteq> [] then on_docker (dk_client_at dk url (dv_config s))
                          else on_docker (dk_from_env dk (dg_timeout (dv_config s))))) (\<lambda>_.
        sx_bind (sx_modify (\<lambda>s. s\<lparr>dv_connected := True\<rparr>)) (\<lambda>_.
        sx_bind (on_docker (dk_ping dk)) (\<lambda>_. sx_return ())))))
       (\<lambda>_. True) (docker_error ''DockerConnectionError'')"

definition get_docker_client :: "'w docker_package \<Rightarrow> ('w, unit) dvx" where
  "get_docker_client dk = sx_bind sx_get (\<lambda>s. if dv_connected s then sx_return () else connect dk)"

definition ping :: "'w docker_package \<Rightarrow> ('w, bool) dvx" where
  "ping dk =
     sx_bind (get_docker_client dk) (\<lambda>_.
       sx_try (on_docker (dk_ping dk)) (\<lambda>_. True) (docker_error ''DockerConnectionError''))"

definition sdk_ensure_image :: "'w docker_package \<Rightarrow> string \<Rightarrow> string \<Rightarrow> ('w, string) dvx" where
  "sdk_ensure_image dk img pull_policy =
     sx_bind (get_docker_client dk) (\<lambda>_.
       translate ''DockerImageError''
         (if pull_policy = ''always'' then on_docker (dk_pull_image dk img)
          else if pull_policy = ''if_missing''
          then sx_try (on_docker (dk_find_image dk img)) (\<lambda>_. True) (\<lambda>_. on_docker (dk_pull_image dk img))
          else if pull_policy = ''never'' then on_docker (dk_find_image dk img)
          else sx_raise (Exc ''DockerImageError'' (''unknown pull_policy: '' @ pull_policy))))"

definition context_given :: "build_image_spec \<Rightarrow> bool" where
  "context_given spec =
     ((bs_context_dir spec \<noteq> None \<and> bs_context_dir spec \<noteq> Some []) \<or> (bs_context_tar spec \<noteq> None \<and> bs_context_tar spec \<noteq> Some []) \<or> (bs_dockerfile_text spec \<noteq> None \<and> bs_dockerfile_text spec \<noteq> Some [])
      \<or> bs_context_files spec \<noteq> [])"

text \<open>The first complaint of a build log.\<close>

fun log_complaint :: "'w docker_package \<Rightarrow> pyval list \<Rightarrow> exc option" where
  "log_complaint dk [] = None"
| "log_complaint dk (PDict d # logs) =
     (if py_truthy (pget d ''errorDetail'') then Some (Exc ''DockerImageError'' (dk_show dk (pget d ''errorDetail'')))
      else if py_truthy (pget d ''error'') then Some (Exc ''DockerImageError'' (dk_show dk (pget d ''error'')))
      else log_complaint dk logs)"
| "log_complaint dk (v # logs) = log_complaint dk logs"

definition build_context_of :: "build_image_spec \<Rightarrow> build_context res" where
  "build_context_of spec =
     (if (bs_context_dir spec \<noteq> None \<and> bs_context_dir spec \<noteq> Some []) then Inr (ContextDir (the (bs_context_dir spec)) (bs_dockerfile_path spec))
      else (case bs_context_tar spec of
              Some bytes \<Rightarrow> Inr (ContextBytes bytes (bs_encoding spec))
            | None \<Rightarrow>
                res_bind (make_tar_context (bs_dockerfile_text spec) (bs_dockerfile_path spec) (bs_context_files spec))
                  (\<lambda>members. Inr (ContextTar members (bs_encoding spec)))))"

definition sdk_build_image :: "'w docker_package \<Rightarrow> build_image_spec \<Rightarrow> ('w, built_image) dvx" where
  "sdk_build_image dk spec =
     sx_bind (get_docker_client dk) (\<lambda>_.
       if \<not> context_given spec
       then sx_raise (Exc ''DockerImageError'' ''invalid build spec: no context source provided'')
       else translate ''DockerImageError''
         (sx_bind (sx_lift (build_context_of spec)) (\<lambda>ctx.
          sx_bind (on_docker (dk_build dk ctx (build_options_of spec))) (\<lambda>(img, logs).
            case log_complaint dk logs of
              Some e \<Rightarrow> sx_raise e
            | None \<Rightarrow>
                (case fst img of
                   None \<Rightarrow> sx_raise (Exc ''DockerImageError'' ''docker build did not return an image id'')
                 | Some i \<Rightarrow>
                     if i = [] then sx_raise (Exc ''DockerImageError'' ''docker build did not return an image id'')
                     else sx_return \<lparr>bi_image_id = i, bi_tags = snd img, bi_logs = logs\<rparr>)))))"

definition sdk_create_container :: "'w docker_package \<Rightarrow> container_create_spec \<Rightarrow> ('w, container_ref) dvx" where
  "sdk_create_container dk spec =
     sx_bind (get_docker_client dk) (\<lambda>_.
       sx_try (on_docker (dk_create dk spec)) (\<lambda>_. True) (docker_error ''DockerContainerError''))"

definition sdk_start_container :: "'w docker_package \<Rightarrow> string \<Rightarrow> ('w, unit) dvx" where
  "sdk_start_container dk cid =
     sx_bind (get_docker_client dk) (\<lambda>_.
       sx_try (sx_bind (on_docker (dk_find dk cid)) (\<lambda>_. on_docker (dk_start dk cid)))
         (\<lambda>_. True) (docker_error ''DockerContainerError''))"

definition sdk_exec :: "'w docker_package \<Rightarrow> exec_create_spec \<Rightarrow> int option \<Rightarrow> ('w, exec_result) dvx" where
  "sdk_exec dk spec timeout_sec =
     sx_bind (get_docker_client dk) (\<lambda>_.
     sx_bind (read_monotonic dk) (\<lambda>start.
       sx_try
         (sx_bind (on_docker (dk_find dk (ec_container_id spec))) (\<lambda>_.
          sx_bind (on_docker (dk_exec_run dk spec)) (\<lambda>(exit_code, output).
          sx_bind (read_monotonic dk) (\<lambda>stop.
            sx_return
              \<lparr>xe_exit_code = exit_code,
               xe_stdout = (case output of DemuxedOutput o' e' \<Rightarrow> o' | _ \<Rightarrow> None),
               xe_stderr = (case output of DemuxedOutput o' e' \<Rightarrow> e' | _ \<Rightarrow> None),
               xe_combined = (case output of PlainOutput b \<Rightarrow> Some b | _ \<Rightarrow> None),
               xe_duration_sec = stop - start, xe_timed_out = False,
               xe_meta = [(''argv'', py_strs (ec_argv spec)),
                          (''timeout_sec'', (case timeout_sec of None \<Rightarrow> PNone | Some t \<Rightarrow> PInt t))]\<rparr>))))
         (\<lambda>_. True) (docker_error ''DockerExecError'')))"

definition sdk_put_archive :: "'w docker_package \<Rightarrow> string \<Rightarrow> string \<Rightarrow> archive \<Rightarrow> ('w, unit) dvx" where
  "sdk_put_archive dk cid dest data =
     translate ''DockerArchiveError''
       (sx_bind (get_docker_client dk) (\<lambda>_.
        sx_bind (on_docker (dk_find dk cid)) (\<lambda>_.
        sx_bind (on_docker (dk_put_archive dk cid dest data)) (\<lambda>stored.
          if stored then sx_return () else sx_raise (Exc ''DockerArchiveError'' ''put_archive returned false'')))))"

definition sdk_get_archive :: "'w docker_package \<Rightarrow> string \<Rightarrow> string \<Rightarrow> ('w, string \<times> pyval dict) dvx" where
  "sdk_get_archive dk cid path =
     sx_try
       (sx_bind (get_docker_client dk) (\<lambda>_.
        sx_bind (on_docker (dk_find dk cid)) (\<lambda>_.
        sx_bind (on_docker (dk_get_archive dk cid path)) (\<lambda>(chunks, stat). sx_return (concat chunks, stat)))))
       (\<lambda>_. True) (docker_error ''DockerArchiveError'')"

definition with_container :: "'w docker_package \<Rightarrow> string \<Rightarrow> ('w, 'a) sx \<Rightarrow> ('w, 'a) dvx" where
  "with_container dk cid m =
     sx_try
       (sx_bind (get_docker_client dk) (\<lambda>_. sx_bind (on_docker (dk_find dk cid)) (\<lambda>_. on_docker m)))
       (\<lambda>_. True) (docker_error ''DockerContainerError'')"

definition sdk_logs :: "'w docker_package \<Rightarrow> string \<Rightarrow> int \<Rightarrow> ('w, string) dvx" where
  "sdk_logs dk cid tail = with_container dk cid (dk_logs dk cid tail)"

definition sdk_inspect_container :: "'w docker_package \<Rightarrow> string \<Rightarrow> ('w, container_ref) dvx" where
  "sdk_inspect_container dk cid = with_container dk cid (dk_reload dk cid)"

definition sdk_stop_container :: "'w docker_package \<Rightarrow> string \<Rightarrow> int \<Rightarrow> ('w, unit) dvx" where
  "sdk_stop_container dk cid timeout_sec = with_container dk cid (dk_stop dk cid timeout_sec)"

definition sdk_remove_container :: "'w docker_package \<Rightarrow> string \<Rightarrow> bool \<Rightarrow> bool \<Rightarrow> ('w, unit) dvx" where
  "sdk_remove_container dk cid force remove_volumes = with_container dk cid (dk_remove dk cid force remove_volumes)"

text \<open>The driver as the sandbox sees it, and with the build operation the deployment loop needs.\<close>

record 'd build_driver = "'d docker_driver" +
  dd_build_image :: "build_image_spec \<Rightarrow> ('d, built_image) sx"

definition docker_sdk_driver :: "'w docker_package \<Rightarrow> ('w sdk_driver) build_driver" where
  "docker_sdk_driver dk =
     \<lparr>dd_ensure_image = sdk_ensure_image dk, dd_create_container = sdk_create_container dk,
      dd_start_container = sdk_start_container dk, dd_exec = sdk_exec dk, dd_put_archive = sdk_put_archive dk,
      dd_get_archive = sdk_get_archive dk, dd_logs = sdk_logs dk, dd_inspect_container = sdk_inspect_container dk,
      dd_stop_container = sdk_stop_container dk, dd_remove_container = sdk_remove_container dk,
      dd_build_image = sdk_build_image dk\<rparr>"

section \<open>What the operations raise\<close>

text \<open>\<open>raises_only C m\<close>: every exception of \<open>m\<close> has a class of \<open>C\<close>.\<close>

definition raises_only :: "string set \<Rightarrow> ('s, 'a) sx \<Rightarrow> bool" where
  "raises_only C m \<longleftrightarrow> (\<forall>s e s'. m s = (Inl e, s') \<longrightarrow> exc_class e \<in> C)"

lemma raises_onlyD: "raises_only C m \<Longrightarrow> m s = (Inl e, s') \<Longrightarrow> exc_class e \<in> C"
  unfolding raises_only_def by blast

named_theorems raises_rules \<open>which classes a computation raises\<close>

lemma raises_only_mono: "raises_only C m \<Longrightarrow> C \<subseteq> D \<Longrightarrow> raises_only D m"
  unfolding raises_only_def by blast

lemma raises_only_bind [raises_rules]:
  "raises_only C m \<Longrightarrow> (\<And>a. raises_only C (f a)) \<Longrightarrow> raises_only C (sx_bind m f)"
  unfolding raises_only_def by (metis sx_bind_cases prod.inject sum.inject(1))

lemma raises_only_handled [raises_rules]:
  "(\<And>e. raises_only C (h e)) \<Longrightarrow> raises_only C (sx_try m (\<lambda>_. True) h)"
  by (auto simp: raises_only_def sx_try_def split: prod.splits sum.splits)

lemma raises_only_basic [raises_rules]:
  "raises_only C (sx_return a)" "raises_only C sx_get" "raises_only C (sx_modify g)"
  by (simp_all add: raises_only_def sx_simps)

lemma raises_only_raise [raises_rules]: "exc_class e \<in> C \<Longrightarrow> raises_only C (sx_raise e)"
  by (simp add: raises_only_def sx_simps)

lemma raises_only_docker_error [raises_rules]: "cls \<in> C \<Longrightarrow> raises_only C (docker_error cls e)"
  by (simp add: docker_error_def raises_only_raise)

lemma raises_only_translate [raises_rules]: "cls \<in> C \<Longrightarrow> raises_only C (translate cls m)"
  by (auto simp: translate_def docker_error_def raises_only_def sx_try_def sx_simps
      split: prod.splits sum.splits)

lemma raises_only_zoom [raises_rules]: "raises_only C m \<Longrightarrow> raises_only C (sx_zoom rd wr m)"
  by (fastforce simp: raises_only_def sx_zoom_def split: prod.splits sum.splits)

lemma raises_only_clock [raises_rules]:
  "raises_only C (read_monotonic dk)"
  by (auto simp: read_monotonic_def on_docker_def raises_only_def sx_zoom_def split: prod.splits)

lemma raises_only_client [raises_rules]:
  "''DockerConnectionError'' \<in> C \<Longrightarrow> raises_only C (get_docker_client dk)"
  unfolding get_docker_client_def connect_def
  by (intro raises_rules) (auto intro!: raises_rules)

text \<open>A driver whose operations raise the errors of \<open>docker_driver_errors.py\<close> and whose builds return an image id.\<close>

locale build_driver_contract =
  fixes dd :: "'d build_driver"
  assumes ensure_raises: "raises_only {''DockerConnectionError'', ''DockerImageError''} (dd_ensure_image dd img policy)"
    and build_raises: "raises_only {''DockerConnectionError'', ''DockerImageError''} (dd_build_image dd spec)"
    and create_raises: "raises_only {''DockerConnectionError'', ''DockerContainerError''} (dd_create_container dd cspec)"
    and start_raises: "raises_only {''DockerConnectionError'', ''DockerContainerError''} (dd_start_container dd cid)"
    and exec_raises: "raises_only {''DockerConnectionError'', ''DockerExecError''} (dd_exec dd espec tmo)"
    and put_raises: "raises_only {''DockerArchiveError''} (dd_put_archive dd cid dest data)"
    and get_raises: "raises_only {''DockerArchiveError''} (dd_get_archive dd cid path)"
    and logs_raises: "raises_only {''DockerContainerError''} (dd_logs dd cid n)"
    and inspect_raises: "raises_only {''DockerContainerError''} (dd_inspect_container dd cid)"
    and stop_raises: "raises_only {''DockerContainerError''} (dd_stop_container dd cid t)"
    and remove_raises: "raises_only {''DockerContainerError''} (dd_remove_container dd cid f v)"
    and build_id: "dd_build_image dd spec s = (Inr r, s') \<Longrightarrow> bi_image_id r \<noteq> []"
begin

lemma image_error_class:
  "dd_ensure_image dd img policy s = (Inl e, s') \<or> dd_build_image dd spec s = (Inl e, s')
   \<Longrightarrow> exc_class e = ''DockerConnectionError'' \<or> exc_class e = ''DockerImageError''"
  using ensure_raises build_raises by (fastforce dest: raises_onlyD)

end

lemmas sdk_operation_defs =
  sdk_ensure_image_def sdk_build_image_def sdk_create_container_def sdk_start_container_def sdk_exec_def
  sdk_put_archive_def sdk_get_archive_def sdk_logs_def sdk_inspect_container_def sdk_stop_container_def
  sdk_remove_container_def with_container_def

lemma translate_returns: "translate cls m s = (Inr a, s') \<Longrightarrow> m s = (Inr a, s')"
  by (auto simp: translate_def docker_error_def sx_try_def sx_simps split: prod.splits sum.splits if_splits)

lemma log_complaint_None:
  "log_complaint dk logs = None \<Longrightarrow> PDict d \<in> set logs \<Longrightarrow>
     \<not> py_truthy (pget d ''errorDetail'') \<and> \<not> py_truthy (pget d ''error'')"
  by (induction dk logs rule: log_complaint.induct) (auto split: if_splits)

lemma sdk_build_image_returns:
  assumes "sdk_build_image dk spec s = (Inr r, s')"
  shows "bi_image_id r \<noteq> [] \<and> context_given spec \<and> log_complaint dk (bi_logs r) = None"
proof -
  from assms obtain s1 where s1: "context_given spec"
    "translate ''DockerImageError''
         (sx_bind (sx_lift (build_context_of spec)) (\<lambda>ctx.
          sx_bind (on_docker (dk_build dk ctx (build_options_of spec))) (\<lambda>(img, logs).
            case log_complaint dk logs of
              Some e \<Rightarrow> sx_raise e
            | None \<Rightarrow>
                (case fst img of
                   None \<Rightarrow> sx_raise (Exc ''DockerImageError'' ''docker build did not return an image id'')
                 | Some i \<Rightarrow>
                     if i = [] then sx_raise (Exc ''DockerImageError'' ''docker build did not return an image id'')
                     else sx_return \<lparr>bi_image_id = i, bi_tags = snd img, bi_logs = logs\<rparr>)))) s1 = (Inr r, s')"
    unfolding sdk_build_image_def by (auto dest!: sx_bind_result simp: sx_simps split: if_splits)
  from s1(2) [THEN translate_returns] show ?thesis
    using s1(1) by (auto dest!: sx_bind_result simp: sx_simps split: option.splits if_splits)
qed

lemma sdk_build_returns_clean:
  "sdk_build_image dk spec s = (Inr r, s') \<Longrightarrow> bi_image_id r \<noteq> [] \<and> context_given spec
     \<and> (\<forall>d. \<not> (PDict d \<in> set (bi_logs r) \<and> (py_truthy (pget d ''errorDetail'') \<or> py_truthy (pget d ''error''))))"
  using sdk_build_image_returns [of dk spec s r s'] log_complaint_None [of dk "bi_logs r"] by blast

interpretation sdk: build_driver_contract "docker_sdk_driver dk"
proof unfold_locales
  show "bi_image_id r \<noteq> []" if "dd_build_image (docker_sdk_driver dk) spec s = (Inr r, s')" for spec s r s'
    using sdk_build_image_returns that by (fastforce simp: docker_sdk_driver_def)
qed (auto simp: docker_sdk_driver_def sdk_operation_defs split_def intro!: raises_rules split: option.splits)

text \<open>A failed ping leaves the client of the failed \<open>connect\<close> behind: the next operation does not connect again.\<close>

lemma connect_failing_ping:
  assumes "dk_factory dk = Some f" "f w = (Inr (), w1)" "dk_ping dk w1 = (Inl e, w2)"
  shows "connect dk \<lparr>dv_config = c, dv_connected = False, dv_world = w\<rparr>
     = (Inl (Exc ''DockerConnectionError'' (exc_text e)), \<lparr>dv_config = c, dv_connected = True, dv_world = w2\<rparr>)"
  using assms by (simp add: connect_def on_docker_def sx_zoom_def docker_error_def sx_bind_def sx_try_def sx_simps)

text \<open>
  C20: a driver over the docker package raises only the documented errors: a connection error or the
  error of the operation's kind from the operations that fetch the client first, only the archive
  error from the archive operations and only the container error from logs, inspect, stop and remove,
  whatever the package raises; and a build that returns has an image id, was given a context, and its
  log holds no error entry.
\<close>

theorem driver_errors_are_typed:
  "raises_only {''DockerConnectionError'', ''DockerImageError''} (sdk_ensure_image dk img policy)
   \<and> raises_only {''DockerConnectionError'', ''DockerImageError''} (sdk_build_image dk spec)
   \<and> raises_only {''DockerConnectionError'', ''DockerContainerError''} (sdk_create_container dk cspec)
   \<and> raises_only {''DockerConnectionError'', ''DockerContainerError''} (sdk_start_container dk cid)
   \<and> raises_only {''DockerConnectionError'', ''DockerExecError''} (sdk_exec dk espec tmo)
   \<and> raises_only {''DockerArchiveError''} (sdk_put_archive dk cid dest data)
   \<and> raises_only {''DockerArchiveError''} (sdk_get_archive dk cid path)
   \<and> raises_only {''DockerContainerError''} (sdk_logs dk cid tail)
   \<and> raises_only {''DockerContainerError''} (sdk_inspect_container dk cid)
   \<and> raises_only {''DockerContainerError''} (sdk_stop_container dk cid stop_after)
   \<and> raises_only {''DockerContainerError''} (sdk_remove_container dk cid force remove_volumes)
   \<and> (case sdk_build_image dk spec s of
        (Inl e, _) \<Rightarrow> True
      | (Inr r, _) \<Rightarrow> bi_image_id r \<noteq> [] \<and> context_given spec
          \<and> (\<forall>d. \<not> (PDict d \<in> set (bi_logs r) \<and> (py_truthy (pget d ''errorDetail'') \<or> py_truthy (pget d ''error'')))))"
proof -
  have "(case sdk_build_image dk spec s of
        (Inl e, _) \<Rightarrow> True
      | (Inr r, _) \<Rightarrow> bi_image_id r \<noteq> [] \<and> context_given spec
          \<and> (\<forall>d. \<not> (PDict d \<in> set (bi_logs r) \<and> (py_truthy (pget d ''errorDetail'') \<or> py_truthy (pget d ''error'')))))"
    using sdk_build_returns_clean [of dk spec s] by (cases "sdk_build_image dk spec s"; cases "fst (sdk_build_image dk spec s)") fastforce+
  with sdk.ensure_raises [of dk] sdk.build_raises [of dk] sdk.create_raises [of dk] sdk.start_raises [of dk]
    sdk.exec_raises [of dk] sdk.put_raises [of dk] sdk.get_raises [of dk] sdk.logs_raises [of dk]
    sdk.inspect_raises [of dk] sdk.stop_raises [of dk] sdk.remove_raises [of dk]
  show ?thesis by (simp add: docker_sdk_driver_def)
qed

end
