(* ===== verification/Inspectors.thy ===== *)
theory Inspectors
  imports CmdCtrl DockerDriver
begin

text \<open>
  The inspectors of \<open>inspection/\<close>: reports, the environment inspector that probes a running
  container under an inspect policy of its own, and the Java package inspector. Parsing XML, opening
  archives and decoding bytes are arguments; the search for a manifest field is written out.
\<close>

section \<open>Reports\<close>

datatype inspection_status = INSPECT_SUCCESS | INSPECT_PARTIAL | INSPECT_FAILED

fun inspection_value :: "inspection_status \<Rightarrow> string" where
  "inspection_value INSPECT_SUCCESS = ''success''"
| "inspection_value INSPECT_PARTIAL = ''partial''"
| "inspection_value INSPECT_FAILED = ''failed''"

datatype finding_level = LEVEL_INFO | LEVEL_WARNING | LEVEL_ERROR

record evidence =
  ev_source :: string
  ev_ref :: "string option"
  ev_snippet :: "string option"

record inspection_finding =
  fd_code :: string
  fd_level :: finding_level
  fd_summary :: string
  fd_detail :: "string option"
  fd_evidence :: "evidence list"

definition plain_finding :: "string \<Rightarrow> finding_level \<Rightarrow> string \<Rightarrow> inspection_finding" where
  "plain_finding code level summary =
     \<lparr>fd_code = code, fd_level = level, fd_summary = summary, fd_detail = None, fd_evidence = []\<rparr>"

section \<open>The environment inspector\<close>

record env_input =
  ei_engine_id :: string
  ei_image_id :: "string option"
  ei_container_id :: string
  ei_runtime_name :: string

record probe_record =
  pr_name :: string
  pr_command :: "string list"
  pr_ok :: bool
  pr_exit_code :: "int option"
  pr_stdout :: "string option"
  pr_stderr :: "string option"

text \<open>The fields of a report that no code fills (tool versions, ports, recommendations, metadata and the like) are left out.\<close>

record env_report =
  er_subject_name :: "string option"
  er_status :: inspection_status
  er_findings :: "inspection_finding list"
  er_warnings :: "string list"
  er_runtime_type :: string
  er_engine_id :: "string option"
  er_image_id :: "string option"
  er_container_id :: "string option"
  er_container_status :: "string option"
  er_readiness :: string
  er_probes :: "probe_record list"

definition env_inspector_binaries :: "string list" where
  "env_inspector_binaries =
     [''pwd'', ''ls'', ''env'', ''which'', ''python'', ''pip'', ''java'', ''mvn'', ''gradle'']"

definition env_probes :: "(string \<times> string list) list" where
  "env_probes =
     [(''probe.pwd'', [''pwd'']), (''probe.ls'', [''ls'']), (''probe.env'', [''env'']),
      (''tool.python.which'', [''which'', ''python'']), (''tool.python.version'', [''python'', ''-V'']),
      (''tool.pip.which'', [''which'', ''pip'']), (''tool.pip.version'', [''pip'', ''-V'']),
      (''tool.pip.list'', [''pip'', ''list'']), (''tool.java.version'', [''java'', ''-version'']),
      (''tool.maven.version'', [''mvn'', ''-v'']), (''tool.gradle.version'', [''gradle'', ''-v''])]"

definition probe_command :: "string \<Rightarrow> string list \<Rightarrow> exec_create_spec" where
  "probe_command cid argv =
     \<lparr>ec_container_id = cid, ec_argv = argv, ec_workdir = None, ec_environment = [], ec_user = None,
      ec_tty = False, ec_stream = False, ec_demux = True\<rparr>"

text \<open>\<open>x or y\<close> for optional bytes, and the decoding of bytes that are there and not empty.\<close>

definition first_bytes :: "string option \<Rightarrow> string option \<Rightarrow> string" where
  "first_bytes x y =
     (case x of Some (c # cs) \<Rightarrow> c # cs | _ \<Rightarrow> (case y of None \<Rightarrow> [] | Some b \<Rightarrow> b))"

definition decoded :: "(string \<Rightarrow> string) \<Rightarrow> string \<Rightarrow> string option" where
  "decoded dec b = (if b = [] then None else Some (dec b))"

definition run_env_probe ::
  "'d docker_driver \<Rightarrow> (string \<Rightarrow> string) \<Rightarrow> string \<Rightarrow> string \<times> string list \<Rightarrow> ('d, probe_record) sx" where
  "run_env_probe dd dec cid probe =
     (case probe of (name, argv) \<Rightarrow>
       sx_try
         (sx_bind (sx_lift (validate_argv env_inspector_binaries argv)) (\<lambda>_.
          sx_bind (dd_exec dd (probe_command cid argv) (Some 10)) (\<lambda>out. sx_return
            \<lparr>pr_name = name, pr_command = argv, pr_ok = (xe_exit_code out = Some 0),
             pr_exit_code = xe_exit_code out,
             pr_stdout = decoded dec (first_bytes (xe_stdout out) (xe_combined out)),
             pr_stderr = decoded dec (first_bytes (xe_stderr out) None)\<rparr>)))
         (\<lambda>_. True)
         (\<lambda>e. sx_return \<lparr>pr_name = name, pr_command = argv, pr_ok = False, pr_exit_code = None,
                         pr_stdout = None, pr_stderr = Some (exc_text e)\<rparr>))"

definition critical_probes :: "string list" where
  "critical_probes = [''probe.pwd'', ''probe.ls'', ''probe.env'']"

text \<open>One turn of the loop over the probes: the report and \<open>critical_ok\<close>.\<close>

definition note_probe :: "env_report \<times> nat \<Rightarrow> probe_record \<Rightarrow> env_report \<times> nat" where
  "note_probe acc p =
     (case acc of (rep, ok) \<Rightarrow>
       let rep = rep\<lparr>er_probes := er_probes rep @ [p]\<rparr> in
       if pr_ok p
       then (rep\<lparr>er_findings := er_findings rep @ [plain_finding (pr_name p @ ''.ok'') LEVEL_INFO (pr_name p @ '' succeeded'')]\<rparr>,
             if pr_name p \<in> set critical_probes then ok + 1 else ok)
       else (rep\<lparr>er_warnings := er_warnings rep @ [pr_name p @ '' failed''],
                 er_findings := er_findings rep
                   @ [plain_finding (pr_name p @ ''.failed'') LEVEL_WARNING (pr_name p @ '' failed'')]\<rparr>, ok))"

fun probe_loop ::
  "'d docker_driver \<Rightarrow> (string \<Rightarrow> string) \<Rightarrow> string \<Rightarrow> (string \<times> string list) list \<Rightarrow> env_report \<times> nat
   \<Rightarrow> ('d, env_report \<times> nat) sx" where
  "probe_loop dd dec cid [] acc = sx_return acc"
| "probe_loop dd dec cid (p # ps) acc =
     sx_bind (run_env_probe dd dec cid p) (\<lambda>r. probe_loop dd dec cid ps (note_probe acc r))"

definition conclude_env :: "env_report \<times> nat \<Rightarrow> env_report" where
  "conclude_env acc =
     (case acc of (rep, ok) \<Rightarrow>
       if 3 \<le> ok
       then rep\<lparr>er_readiness := ''ready'',
                er_status := (if er_warnings rep = [] then INSPECT_SUCCESS else INSPECT_PARTIAL)\<rparr>
       else if 0 < ok then rep\<lparr>er_readiness := ''degraded'', er_status := INSPECT_PARTIAL\<rparr>
       else rep\<lparr>er_readiness := ''failed'', er_status := INSPECT_FAILED\<rparr>)"

definition status_text :: "string option \<Rightarrow> string" where
  "status_text x = (case x of None \<Rightarrow> ''None'' | Some t \<Rightarrow> t)"

definition new_env_report :: "env_input \<Rightarrow> env_report" where
  "new_env_report data =
     \<lparr>er_subject_name = Some (ei_container_id data), er_status = INSPECT_SUCCESS, er_findings = [], er_warnings = [],
      er_runtime_type = ei_runtime_name data, er_engine_id = Some (ei_engine_id data), er_image_id = ei_image_id data,
      er_container_id = Some (ei_container_id data), er_container_status = None, er_readiness = ''unknown'',
      er_probes = []\<rparr>"

definition inspect_docker_env ::
  "'d docker_driver \<Rightarrow> (string \<Rightarrow> string) \<Rightarrow> env_input \<Rightarrow> ('d, env_report) sx" where
  "inspect_docker_env dd dec data =
     (let rep = new_env_report data in
      sx_bind (sx_try (sx_bind (dd_inspect_container dd (ei_container_id data)) (\<lambda>ref. sx_return (Inr ref)))
                 (\<lambda>_. True) (\<lambda>e. sx_return (Inl e))) (\<lambda>found.
        case found of
          Inl e \<Rightarrow> sx_return (rep\<lparr>er_status := INSPECT_FAILED, er_readiness := ''failed'',
                     er_findings := er_findings rep @
                       [(plain_finding ''container.inspect.failed'' LEVEL_ERROR ''failed to inspect container'')
                          \<lparr>fd_detail := Some (exc_text e)\<rparr>]\<rparr>)
        | Inr ref \<Rightarrow>
            (let rep = rep\<lparr>er_container_status := cf_status ref\<rparr> in
             if cf_status ref \<noteq> Some ''running''
             then sx_return (rep\<lparr>er_status := INSPECT_FAILED, er_readiness := ''failed'',
                    er_findings := er_findings rep @
                      [plain_finding ''container.not_running'' LEVEL_ERROR
                         (''container status is '' @ status_text (cf_status ref))]\<rparr>)
             else sx_bind (probe_loop dd dec (ei_container_id data) env_probes (rep, 0)) (\<lambda>acc.
                    sx_return (conclude_env acc)))))"

section \<open>The package inspector\<close>

record package_input =
  pk_sdk_name :: string
  pk_sdk_version :: "string option"
  pk_jar_bytes :: string
  pk_pom_xml_bytes :: "string option"
  pk_settings_xml_bytes :: "string option"
  pk_jdk_bytes :: "string option"

record package_report =
  kr_status :: inspection_status
  kr_findings :: "inspection_finding list"
  kr_warnings :: "string list"
  kr_build_system :: string
  kr_package_name :: "string option"
  kr_version :: "string option"
  kr_dependency_files :: "string list"
  kr_entrypoint_hints :: "string list"
  kr_base_image :: string
  kr_java_version :: "string option"
  kr_main_class :: "string option"
  kr_packaging :: "string option"
  kr_use_embedded_jdk :: bool

text \<open>
  \<open>xr_pom\<close> is the text of the first element at a path of a parsed POM, \<open>xr_jar\<close> the
  content of a member of an opened archive (which may be damaged), \<open>xr_decode\<close> UTF-8 with errors ignored.
\<close>

record package_readers =
  xr_pom :: "string \<Rightarrow> (string \<Rightarrow> string option) option"
  xr_jar :: "string \<Rightarrow> (string \<Rightarrow> string res option) option"
  xr_decode :: "string \<Rightarrow> string"

definition text_given :: "string option \<Rightarrow> bool" where
  "text_given x = (x \<noteq> None \<and> x \<noteq> Some [])"

definition find_text :: "(string \<Rightarrow> string option) \<Rightarrow> string \<Rightarrow> string option" where
  "find_text node path = (if text_given (node path) then Some (py_strip (the (node path))) else None)"

text \<open>\<open>x or y\<close> of optional texts.\<close>

definition text_or :: "string option \<Rightarrow> string option \<Rightarrow> string option" where
  "text_or x y = (if text_given x then x else y)"

definition info_finding :: "string \<Rightarrow> string \<Rightarrow> evidence list \<Rightarrow> inspection_finding" where
  "info_finding code summary evs =
     \<lparr>fd_code = code, fd_level = LEVEL_INFO, fd_summary = summary, fd_detail = None, fd_evidence = evs\<rparr>"

definition inspect_pom :: "package_readers \<Rightarrow> string \<Rightarrow> package_report \<Rightarrow> package_report" where
  "inspect_pom xr pom_bytes rep =
     (case xr_pom xr pom_bytes of
        None \<Rightarrow> rep\<lparr>kr_status := INSPECT_PARTIAL, kr_warnings := kr_warnings rep @ [''failed to parse pom.xml'']\<rparr>
      | Some node \<Rightarrow>
          (let artifact_id = find_text node ''.//{*}artifactId'';
               version = find_text node ''.//{*}version'';
               packaging = text_or (find_text node ''.//{*}packaging'') (Some ''jar'');
               java_version = text_or (text_or (find_text node ''.//{*}properties/{*}java.version'')
                                               (find_text node ''.//{*}properties/{*}maven.compiler.source''))
                                      (find_text node ''.//{*}properties/{*}maven.compiler.target'');
               rep = (if text_given artifact_id then rep\<lparr>kr_package_name := artifact_id\<rparr> else rep);
               rep = (if text_given version then rep\<lparr>kr_version := version\<rparr> else rep);
               rep = rep\<lparr>kr_packaging := packaging\<rparr>;
               rep = (if text_given java_version
                      then rep\<lparr>kr_java_version := java_version,
                               kr_findings := kr_findings rep @
                                 [info_finding ''pom.java_version.detected''
                                    (''detected java version '' @ the java_version) []]\<rparr>
                      else rep)
           in if py_contains ''spring-boot-maven-plugin'' (xr_decode xr pom_bytes)
              then rep\<lparr>kr_entrypoint_hints := kr_entrypoint_hints rep @ [''spring-boot-maven-plugin'']\<rparr>
              else rep))"

text \<open>
  \<open>_extract_manifest_field\<close>: the search for \<open>^key:\s*(.+)$\<close>. White space after the colon may
  include line breaks; when nothing but white space follows, the match is a run of it if the run has a
  character that is no line feed.
\<close>

definition manifest_here :: "string \<Rightarrow> string \<Rightarrow> string option" where
  "manifest_here key t =
     (if \<not> py_startswith t (key @ '':'') then None
      else let rest = drop (length key + 1) t; r = dropWhile py_isspace rest
           in if r \<noteq> [] then Some (py_strip (takeWhile (\<lambda>c. c \<noteq> newline) r))
              else if list_ex (\<lambda>c. c \<noteq> newline) rest then Some [] else None)"

fun manifest_search :: "string \<Rightarrow> bool \<Rightarrow> string \<Rightarrow> string option" where
  "manifest_search key bol [] = (if bol then manifest_here key [] else None)"
| "manifest_search key bol (c # cs) =
     (case (if bol then manifest_here key (c # cs) else None) of
        Some v \<Rightarrow> Some v
      | None \<Rightarrow> manifest_search key (c = newline) cs)"

definition extract_manifest_field :: "string \<Rightarrow> string \<Rightarrow> string option" where
  "extract_manifest_field t key = manifest_search key True t"

definition demote :: "package_report \<Rightarrow> package_report" where
  "demote rep = (if kr_status rep \<noteq> INSPECT_FAILED then rep\<lparr>kr_status := INSPECT_PARTIAL\<rparr> else rep)"

definition inspect_manifest :: "package_readers \<Rightarrow> string \<Rightarrow> package_report \<Rightarrow> package_report" where
  "inspect_manifest xr jar_bytes rep =
     (case xr_jar xr jar_bytes of
        None \<Rightarrow> (demote rep)\<lparr>kr_warnings := kr_warnings rep @ [''unable to inspect jar manifest'']\<rparr>
      | Some member \<Rightarrow>
          (case member ''META-INF/MANIFEST.MF'' of
             None \<Rightarrow> (demote rep)\<lparr>kr_findings := kr_findings rep @
                       [plain_finding ''jar.manifest.missing'' LEVEL_WARNING ''MANIFEST.MF not found'']\<rparr>
           | Some (Inl e) \<Rightarrow> (demote rep)\<lparr>kr_warnings := kr_warnings rep @ [''unable to inspect jar manifest'']\<rparr>
           | Some (Inr raw) \<Rightarrow>
               (let t = xr_decode xr raw;
                    chosen = text_or (extract_manifest_field t ''Main-Class'') (extract_manifest_field t ''Start-Class'')
                in if text_given chosen
                   then rep\<lparr>kr_main_class := chosen, kr_entrypoint_hints := kr_entrypoint_hints rep @ [the chosen],
                            kr_findings := kr_findings rep @
                              [info_finding ''jar.main_class.detected'' (''detected main class '' @ the chosen)
                                 [\<lparr>ev_source = ''input_file'', ev_ref = Some ''MANIFEST.MF'', ev_snippet = chosen\<rparr>]]\<rparr>
                   else rep)))"

definition new_package_report :: "package_input \<Rightarrow> package_report" where
  "new_package_report data =
     \<lparr>kr_status = INSPECT_SUCCESS, kr_findings = [], kr_warnings = [],
      kr_build_system = (if text_given (pk_pom_xml_bytes data) then ''maven'' else ''unknown''),
      kr_package_name = Some (pk_sdk_name data), kr_version = pk_sdk_version data, kr_dependency_files = [],
      kr_entrypoint_hints = [], kr_base_image = ''eclipse-temurin:17-jre'', kr_java_version = None,
      kr_main_class = None, kr_packaging = None, kr_use_embedded_jdk = (pk_jdk_bytes data \<noteq> None)\<rparr>"

definition inspect_java_package :: "package_readers \<Rightarrow> package_input \<Rightarrow> package_report" where
  "inspect_java_package xr data =
     (let rep = new_package_report data in
      if pk_jar_bytes data = []
      then rep\<lparr>kr_status := INSPECT_FAILED,
               kr_findings := kr_findings rep @
                 [\<lparr>fd_code = ''jar.empty'', fd_level = LEVEL_ERROR, fd_summary = ''jar payload is empty'', fd_detail = None,
                   fd_evidence = [\<lparr>ev_source = ''input_file'', ev_ref = Some ''app.jar'', ev_snippet = None\<rparr>]\<rparr>]\<rparr>
      else
        (let rep = rep\<lparr>kr_dependency_files := kr_dependency_files rep @ [''app.jar'']\<rparr>;
             rep = (if text_given (pk_pom_xml_bytes data)
                    then rep\<lparr>kr_dependency_files := kr_dependency_files rep @ [''pom.xml'']\<rparr>
                    else rep\<lparr>kr_status := INSPECT_PARTIAL,
                             kr_findings := kr_findings rep @
                               [plain_finding ''pom.missing'' LEVEL_WARNING ''pom.xml is missing'']\<rparr>);
             rep = (if pk_jdk_bytes data \<noteq> None
                    then rep\<lparr>kr_findings := kr_findings rep @
                           [plain_finding ''jdk.embedded.present'' LEVEL_INFO ''embedded jdk archive provided'']\<rparr>
                    else rep);
             rep = (if text_given (pk_pom_xml_bytes data) then inspect_pom xr (the (pk_pom_xml_bytes data)) rep else rep)
         in inspect_manifest xr (pk_jar_bytes data) rep))"

section \<open>Verdicts\<close>

lemma env_probes_allowed: "(name, argv) \<in> set env_probes \<Longrightarrow> validate_argv env_inspector_binaries argv = Inr ()"
  unfolding env_probes_def
  by (auto simp: validate_argv_accepts interactive_binaries_def env_inspector_binaries_def deny_tokens_def
      python_commands_def pip_commands_def tool_version_argv_def)

lemma run_env_probe_total:
  "\<exists>r s'. run_env_probe dd dec cid p s = (Inr r, s') \<and> pr_name r = fst p \<and> pr_command r = snd p"
  by (auto simp: run_env_probe_def split_def sx_try_def sx_bind_def sx_simps split: prod.splits sum.splits)

lemma probe_loop_total:
  "\<exists>rs s'. probe_loop dd dec cid ps acc s = (Inr (fold (\<lambda>r a. note_probe a r) rs acc), s')
     \<and> map pr_name rs = map fst ps \<and> map pr_command rs = map snd ps"
proof (induction ps arbitrary: acc s)
  case Nil
  show ?case by (rule exI [of _ "[]"]) (simp add: sx_simps)
next
  case (Cons p ps)
  obtain r t where r: "run_env_probe dd dec cid p s = (Inr r, t)" "pr_name r = fst p" "pr_command r = snd p"
    using run_env_probe_total [of dd dec cid p s] by blast
  obtain rs u where "probe_loop dd dec cid ps (note_probe acc r) t = (Inr (fold (\<lambda>r a. note_probe a r) rs (note_probe acc r)), u)"
    "map pr_name rs = map fst ps" "map pr_command rs = map snd ps"
    using Cons.IH by blast
  with r show ?case by (intro exI [of _ "r # rs"] exI [of _ u]) (simp add: sx_bind_Inr)
qed

lemma note_probe_simps:
  "er_probes (fst (note_probe acc r)) = er_probes (fst acc) @ [r]"
  "er_warnings (fst (note_probe acc r)) = er_warnings (fst acc) @ (if pr_ok r then [] else [pr_name r @ '' failed''])"
  "er_container_status (fst (note_probe acc r)) = er_container_status (fst acc)"
  "snd (note_probe acc r) = snd acc + (if pr_ok r \<and> pr_name r \<in> set critical_probes then 1 else 0)"
  by (simp_all add: note_probe_def Let_def split: prod.split)

lemma fold_probes:
  "er_probes (fst (fold (\<lambda>r a. note_probe a r) rs acc)) = er_probes (fst acc) @ rs"
  "er_warnings (fst (fold (\<lambda>r a. note_probe a r) rs acc))
     = er_warnings (fst acc) @ map (\<lambda>r. pr_name r @ '' failed'') (filter (\<lambda>r. \<not> pr_ok r) rs)"
  "er_container_status (fst (fold (\<lambda>r a. note_probe a r) rs acc)) = er_container_status (fst acc)"
  "snd (fold (\<lambda>r a. note_probe a r) rs acc)
     = snd acc + length (filter (\<lambda>r. pr_ok r \<and> pr_name r \<in> set critical_probes) rs)"
  by (induction rs arbitrary: acc) (simp_all add: note_probe_simps)

lemma conclude_env_fields:
  "er_probes (conclude_env acc) = er_probes (fst acc)"
  "er_warnings (conclude_env acc) = er_warnings (fst acc)"
  "er_container_status (conclude_env acc) = er_container_status (fst acc)"
  "er_readiness (conclude_env acc) = (if 3 \<le> snd acc then ''ready'' else if 0 < snd acc then ''degraded'' else ''failed'')"
  "er_status (conclude_env acc) =
     (if 3 \<le> snd acc then if er_warnings (fst acc) = [] then INSPECT_SUCCESS else INSPECT_PARTIAL
      else if 0 < snd acc then INSPECT_PARTIAL else INSPECT_FAILED)"
  by (simp_all add: conclude_env_def split: prod.split)

text \<open>The three critical probes are the first three; their records decide the readiness.\<close>

lemma critical_count:
  assumes "map pr_name rs = map fst env_probes"
  shows "length (filter (\<lambda>r. pr_ok r \<and> pr_name r \<in> set critical_probes) rs) = length (filter pr_ok (take 3 rs))"
proof -
  from assms have "length rs = 11" by (simp add: env_probes_def flip: length_map [of pr_name rs])
  then obtain a b c rs' where rs: "rs = a # b # c # rs'" "length rs' = 8"
    by (auto simp: numeral_eq_Suc length_Suc_conv)
  from assms rs(1) have n: "pr_name a = ''probe.pwd''" "pr_name b = ''probe.ls''" "pr_name c = ''probe.env''"
    and r: "map pr_name rs' = map fst (drop 3 env_probes)"
    by (simp_all add: env_probes_def)
  have "pr_name x \<notin> set critical_probes" if "x \<in> set rs'" for x
  proof -
    from that have "pr_name x \<in> set (map pr_name rs')" by simp
    then show ?thesis unfolding r by (auto simp: env_probes_def critical_probes_def)
  qed
  then have "filter (\<lambda>r. pr_ok r \<and> pr_name r \<in> set critical_probes) rs' = []" by (simp add: filter_empty_conv)
  with rs(1) n show ?thesis by (simp add: critical_probes_def)
qed

lemma conclude_verdict:
  fixes rep :: env_report
  defines "out rs \<equiv> conclude_env (fold (\<lambda>r a. note_probe a r) rs (rep, 0))"
  assumes rs: "map pr_name rs = map fst env_probes" and rep: "er_warnings rep = []"
  shows "er_readiness (out rs) = (if list_all pr_ok (take 3 rs) then ''ready''
      else if 0 < length (filter pr_ok (take 3 rs)) then ''degraded'' else ''failed'')"
    and "er_status (out rs) =
      (if list_all pr_ok (take 3 rs) then if list_all pr_ok rs then INSPECT_SUCCESS else INSPECT_PARTIAL
       else if 0 < length (filter pr_ok (take 3 rs)) then INSPECT_PARTIAL else INSPECT_FAILED)"
proof -
  have "length rs = 11" using rs by (simp add: env_probes_def flip: length_map [of pr_name rs])
  then have three: "3 \<le> length (filter pr_ok (take 3 rs)) \<longleftrightarrow> list_all pr_ok (take 3 rs)"
    using length_filter_le [of pr_ok "take 3 rs"] filter_id_conv [of pr_ok "take 3 rs"]
      length_filter_less [of _ "take 3 rs" pr_ok]
    by (fastforce simp: list_all_iff)
  have "er_warnings (fst (fold (\<lambda>r a. note_probe a r) rs (rep, 0))) = [] \<longleftrightarrow> list_all pr_ok rs"
    by (auto simp: fold_probes rep filter_empty_conv list_all_iff)
  with three show "er_readiness (out rs) = (if list_all pr_ok (take 3 rs) then ''ready''
      else if 0 < length (filter pr_ok (take 3 rs)) then ''degraded'' else ''failed'')"
    "er_status (out rs) =
      (if list_all pr_ok (take 3 rs) then if list_all pr_ok rs then INSPECT_SUCCESS else INSPECT_PARTIAL
       else if 0 < length (filter pr_ok (take 3 rs)) then INSPECT_PARTIAL else INSPECT_FAILED)"
    by (simp_all add: out_def conclude_env_fields fold_probes critical_count [OF rs])
qed

text \<open>
  C21: the environment inspector always returns a report. When the container cannot be inspected or does not run
  the report is a failure without probes; otherwise all eleven probes were run (none is blocked by the
  inspector's own policy), the warnings name those that failed, the environment is ready exactly when the
  three critical probes succeeded, and the inspection is a success exactly when every probe succeeded.
\<close>

theorem env_inspection_verdict:
  "\<exists>rep s'. inspect_docker_env dd dec data s = (Inr rep, s')
    \<and> list_all (\<lambda>p. validate_argv env_inspector_binaries (snd p) = Inr ()) env_probes
    \<and> map pr_name (er_probes rep) = (if er_container_status rep = Some ''running'' then map fst env_probes else [])
    \<and> map pr_command (er_probes rep) = (if er_container_status rep = Some ''running'' then map snd env_probes else [])
    \<and> er_warnings rep = map (\<lambda>r. pr_name r @ '' failed'') (filter (\<lambda>r. \<not> pr_ok r) (er_probes rep))
    \<and> (er_readiness rep = ''ready'') = (er_container_status rep = Some ''running'' \<and> list_all pr_ok (take 3 (er_probes rep)))
    \<and> (er_status rep = INSPECT_SUCCESS) = (er_container_status rep = Some ''running'' \<and> list_all pr_ok (er_probes rep))
    \<and> (er_status rep = INSPECT_FAILED) = (er_readiness rep = ''failed'')"
proof -
  have allowed: "list_all (\<lambda>p. validate_argv env_inspector_binaries (snd p) = Inr ()) env_probes"
    using env_probes_allowed by (auto simp: list_all_iff)
  obtain r t where r: "dd_inspect_container dd (ei_container_id data) s = (r, t)" by fastforce
  note defs = inspect_docker_env_def new_env_report_def Let_def sx_bind_def sx_try_def sx_simps
  show ?thesis
  proof (cases "\<exists>ref. r = Inr ref \<and> cf_status ref = Some ''running''")
    case False
    then show ?thesis using r allowed by (cases r) (auto simp: defs)
  next
    case True
    then obtain ref where ref: "r = Inr ref" "cf_status ref = Some ''running''" by blast
    let ?rep = "(new_env_report data)\<lparr>er_container_status := Some ''running''\<rparr>"
    obtain rs u where loop: "probe_loop dd dec (ei_container_id data) env_probes (?rep, 0) t
        = (Inr (fold (\<lambda>r a. note_probe a r) rs (?rep, 0)), u)"
      and rs: "map pr_name rs = map fst env_probes" "map pr_command rs = map snd env_probes"
      using probe_loop_total [of dd dec "ei_container_id data" env_probes "(?rep, 0)" t] by blast
    let ?out = "conclude_env (fold (\<lambda>r a. note_probe a r) rs (?rep, 0))"
    have run: "inspect_docker_env dd dec data s = (Inr ?out, u)"
      using r ref loop by (simp add: inspect_docker_env_def Let_def sx_bind_def sx_try_def sx_simps)
    have fields: "er_probes ?out = rs" "er_container_status ?out = Some ''running''"
      "er_warnings ?out = map (\<lambda>r. pr_name r @ '' failed'') (filter (\<lambda>r. \<not> pr_ok r) rs)"
      by (simp_all add: conclude_env_fields fold_probes new_env_report_def)
    have all: "list_all pr_ok (take 3 rs)" if "list_all pr_ok rs"
      using that by (auto simp: list_all_iff dest: in_set_takeD)
    have clean: "er_warnings ?rep = []" by (simp add: new_env_report_def)
    show ?thesis
      using run allowed fields rs all by (intro exI [of _ ?out] exI [of _ u]) (simp add: conclude_verdict [OF rs(1) clean])
  qed
qed

text \<open>The manifest of an archive, and what the report says of it.\<close>

definition manifest_of :: "package_readers \<Rightarrow> string \<Rightarrow> string option" where
  "manifest_of xr jar =
     (case xr_jar xr jar of
        None \<Rightarrow> None
      | Some member \<Rightarrow> (case member ''META-INF/MANIFEST.MF'' of Some (Inr raw) \<Rightarrow> Some (xr_decode xr raw) | _ \<Rightarrow> None))"

definition main_class_of :: "string \<Rightarrow> string option" where
  "main_class_of t =
     (let chosen = text_or (extract_manifest_field t ''Main-Class'') (extract_manifest_field t ''Start-Class'')
      in if text_given chosen then chosen else None)"

lemma inspect_manifest_fields:
  "kr_status (inspect_manifest xr jar rep) =
     (if manifest_of xr jar = None \<and> kr_status rep \<noteq> INSPECT_FAILED then INSPECT_PARTIAL else kr_status rep)"
  "kr_main_class rep = None \<Longrightarrow> kr_main_class (inspect_manifest xr jar rep) = Option.bind (manifest_of xr jar) main_class_of"
  by (simp_all add: inspect_manifest_def manifest_of_def main_class_of_def demote_def Let_def split: option.split sum.split)

lemma inspect_pom_fields:
  "kr_status (inspect_pom xr b rep) = (if xr_pom xr b = None then INSPECT_PARTIAL else kr_status rep)"
  "kr_main_class (inspect_pom xr b rep) = kr_main_class rep"
  by (auto simp: inspect_pom_def Let_def split: option.split)

text \<open>
  C22: the package inspection fails exactly when the archive is empty, and is a success exactly when there is a
  POM that parses and an archive whose manifest can be read; the main class is then the manifest's
  \<open>Main-Class\<close> or, without one, its \<open>Start-Class\<close>.
\<close>

theorem package_inspection_verdict:
  "(kr_status (inspect_java_package xr data) = INSPECT_FAILED) = (pk_jar_bytes data = [])
   \<and> (kr_status (inspect_java_package xr data) = INSPECT_SUCCESS)
      = (pk_jar_bytes data \<noteq> [] \<and> text_given (pk_pom_xml_bytes data) \<and> xr_pom xr (the (pk_pom_xml_bytes data)) \<noteq> None
         \<and> manifest_of xr (pk_jar_bytes data) \<noteq> None)
   \<and> kr_main_class (inspect_java_package xr data)
      = (if pk_jar_bytes data = [] then None else Option.bind (manifest_of xr (pk_jar_bytes data)) main_class_of)"
  unfolding inspect_java_package_def new_package_report_def Let_def
  by (simp add: inspect_manifest_fields inspect_pom_fields)

text \<open>An empty field takes the next line as its value.\<close>

lemma empty_manifest_field_takes_next_line:
  "extract_manifest_field (''Main-Class:'' @ nl @ ''Start-Class: a.B'' @ nl) ''Main-Class'' = Some ''Start-Class: a.B''"
  by code_simp

end
