(* ===== verification/RuntimeRegistry.thy ===== *)
theory RuntimeRegistry
  imports DockerDriver Interfaces
begin

text \<open>
  The stores of the deployment loop: \<open>artifact_manager/\<close> (models, repository, service, utils) and
  \<open>control_plane/\<close> (registry models and repository, the runtime manager). A SQLite table is the list
  of its rows in the order of their insertion; an insertion refuses a row whose key is there already,
  foreign keys are not enforced (the connections never set the pragma). What the files and the clock do
  is a record of services on a world \<open>'w\<close>.
\<close>

section \<open>Rows\<close>

record task_record =
  tk_task_id :: string
  tk_task_type :: string
  tk_status :: string
  tk_input_summary :: "string option"
  tk_created_at :: string
  tk_updated_at :: string

record stage_record =
  sg_stage_id :: string
  sg_task_id :: string
  sg_stage_name :: string
  sg_status :: string
  sg_started_at :: "string option"
  sg_ended_at :: "string option"
  sg_metadata_json :: "string option"

record artifact_record =
  ar_artifact_id :: string
  ar_task_id :: "string option"
  ar_stage_id :: "string option"
  ar_kind :: string
  ar_name :: "string option"
  ar_storage_path :: string
  ar_content_hash :: "string option"
  ar_mime_type :: "string option"
  ar_size_bytes :: "int option"
  ar_parent_artifact_id :: "string option"
  ar_created_by_action :: "string option"
  ar_created_at :: string
  ar_metadata_json :: "string option"

record host_record =
  ho_host_id :: string
  ho_name :: "string option"
  ho_address :: "string option"
  ho_labels_json :: "string option"
  ho_status :: "string option"
  ho_created_at :: string
  ho_updated_at :: string

record engine_record =
  en_engine_id :: string
  en_host_id :: string
  en_name :: "string option"
  en_base_url :: string
  en_connection_mode :: string
  en_is_enabled :: int
  en_last_seen_at :: "string option"
  en_health_status :: "string option"
  en_metadata_json :: "string option"

record image_record =
  im_image_id :: string
  im_engine_id :: string
  im_repo_tags_json :: "string option"
  im_source_type :: string
  im_source_ref :: "string option"
  im_created_at :: "string option"
  im_metadata_json :: "string option"

record container_record =
  ct_container_id :: string
  ct_engine_id :: string
  ct_image_id :: "string option"
  ct_name :: "string option"
  ct_status :: "string option"
  ct_workdir :: "string option"
  ct_env_json :: "string option"
  ct_ports_json :: "string option"
  ct_labels_json :: "string option"
  ct_created_at :: "string option"
  ct_updated_at :: "string option"
  ct_owner_task_id :: "string option"
  ct_metadata_json :: "string option"

record deployment_record =
  dm_deployment_id :: string
  dm_task_id :: "string option"
  dm_sdk_name :: string
  dm_sdk_version :: "string option"
  dm_engine_id :: "string option"
  dm_image_id :: "string option"
  dm_container_id :: "string option"
  dm_env_fingerprint :: "string option"
  dm_status :: "string option"
  dm_reusable :: int
  dm_created_at :: "string option"
  dm_updated_at :: "string option"
  dm_metadata_json :: "string option"

section \<open>State and services\<close>

record deploy_db =
  db_artifact_schema :: bool
  db_tasks :: "task_record list"
  db_stages :: "stage_record list"
  db_artifacts :: "artifact_record list"
  db_registry_schema :: bool
  db_hosts :: "host_record list"
  db_engines :: "engine_record list"
  db_images :: "image_record list"
  db_containers :: "container_record list"
  db_deployments :: "deployment_record list"

record ('d, 'w) deploy_state =
  dy_driver :: 'd
  dy_world :: 'w
  dy_db :: deploy_db

type_synonym ('d, 'w, 'a) dyx = "(('d, 'w) deploy_state, 'a) sx"

text \<open>\<open>ds_open\<close> is what opening or locking a database file may raise, \<open>ds_now_fn\<close> the clock passed in.\<close>

record 'w deploy_services =
  ds_open :: "string \<Rightarrow> ('w, unit) sx"
  ds_now_iso :: "'w \<Rightarrow> string \<times> 'w"
  ds_uuid_hex :: "'w \<Rightarrow> string \<times> 'w"
  ds_now_fn :: "('w, string) sx"
  ds_makedirs :: "string \<Rightarrow> ('w, unit) sx"
  ds_write_file :: "string \<Rightarrow> string \<Rightarrow> ('w, unit) sx"
  ds_sha256 :: "string \<Rightarrow> string"
  ds_sha1 :: "string \<Rightarrow> string"

record deploy_config =
  dc_artifact_db :: string
  dc_registry_db :: string
  dc_artifact_root :: string
  dc_engine_id :: string

definition on_world :: "('w, 'a) sx \<Rightarrow> ('d, 'w, 'a) dyx" where
  "on_world = sx_zoom dy_world (\<lambda>w s. s\<lparr>dy_world := w\<rparr>)"

definition from_world :: "('w \<Rightarrow> 'a \<times> 'w) \<Rightarrow> ('d, 'w, 'a) dyx" where
  "from_world f = on_world (\<lambda>w. case f w of (a, w') \<Rightarrow> (Inr a, w'))"

definition on_engine :: "('d, 'a) sx \<Rightarrow> ('d, 'w, 'a) dyx" where
  "on_engine = sx_zoom dy_driver (\<lambda>d s. s\<lparr>dy_driver := d\<rparr>)"

definition on_db :: "(deploy_db, 'a) sx \<Rightarrow> ('d, 'w, 'a) dyx" where
  "on_db = sx_zoom dy_db (\<lambda>d s. s\<lparr>dy_db := d\<rparr>)"

section \<open>Tables\<close>

definition insert_row :: "('r \<Rightarrow> string) \<Rightarrow> 'r \<Rightarrow> 'r list \<Rightarrow> 'r list res" where
  "insert_row key r rows =
     (if key r \<in> key ` set rows then Inl (Exc ''IntegrityError'' ''UNIQUE constraint failed'') else Inr (rows @ [r]))"

definition row_by :: "('r \<Rightarrow> string) \<Rightarrow> 'r list \<Rightarrow> string \<Rightarrow> 'r option" where
  "row_by key rows k = find (\<lambda>r. key r = k) rows"

definition keyed :: "('r \<Rightarrow> string) \<Rightarrow> 'r list \<Rightarrow> bool" where
  "keyed key rows = distinct (map key rows)"

text \<open>An INSERT: a missing table, the key, then the row.\<close>

definition insert_into ::
  "('s \<Rightarrow> bool) \<Rightarrow> string \<Rightarrow> ('s \<Rightarrow> 'r list) \<Rightarrow> ('r list \<Rightarrow> 's \<Rightarrow> 's) \<Rightarrow> ('r \<Rightarrow> 'r list \<Rightarrow> 'r list res) \<Rightarrow> 'r \<Rightarrow> ('s, unit) sx" where
  "insert_into ready table rows set_rows add r =
     sx_bind sx_get (\<lambda>s.
       if \<not> ready s then sx_raise (Exc ''OperationalError'' (''no such table: '' @ table))
       else sx_bind (sx_lift (add r (rows s))) (\<lambda>rs. sx_modify (set_rows rs)))"

text \<open>\<open>with sqlite3.connect(path)\<close> around one statement.\<close>

definition on_file :: "'w deploy_services \<Rightarrow> string \<Rightarrow> (deploy_db, 'a) sx \<Rightarrow> ('d, 'w, 'a) dyx" where
  "on_file sv path m = sx_bind (on_world (ds_open sv path)) (\<lambda>_. on_db m)"

definition insert_task :: "deploy_config \<Rightarrow> 'w deploy_services \<Rightarrow> task_record \<Rightarrow> ('d, 'w, unit) dyx" where
  "insert_task dc sv r =
     on_file sv (dc_artifact_db dc) (insert_into db_artifact_schema ''tasks'' db_tasks (\<lambda>rs d. d\<lparr>db_tasks := rs\<rparr>) (insert_row tk_task_id) r)"

definition insert_stage :: "deploy_config \<Rightarrow> 'w deploy_services \<Rightarrow> stage_record \<Rightarrow> ('d, 'w, unit) dyx" where
  "insert_stage dc sv r =
     on_file sv (dc_artifact_db dc) (insert_into db_artifact_schema ''task_stages'' db_stages (\<lambda>rs d. d\<lparr>db_stages := rs\<rparr>) (insert_row sg_stage_id) r)"

definition insert_artifact :: "deploy_config \<Rightarrow> 'w deploy_services \<Rightarrow> artifact_record \<Rightarrow> ('d, 'w, unit) dyx" where
  "insert_artifact dc sv r =
     on_file sv (dc_artifact_db dc) (insert_into db_artifact_schema ''artifacts'' db_artifacts (\<lambda>rs d. d\<lparr>db_artifacts := rs\<rparr>) (insert_row ar_artifact_id) r)"

text \<open>A host also has a name no other host has; NULL names never collide.\<close>

definition insert_host_row :: "host_record \<Rightarrow> host_record list \<Rightarrow> host_record list res" where
  "insert_host_row r rows =
     (if ho_name r \<noteq> None \<and> ho_name r \<in> ho_name ` set rows then Inl (Exc ''IntegrityError'' ''UNIQUE constraint failed'')
      else insert_row ho_host_id r rows)"

definition insert_host :: "deploy_config \<Rightarrow> 'w deploy_services \<Rightarrow> host_record \<Rightarrow> ('d, 'w, unit) dyx" where
  "insert_host dc sv r =
     on_file sv (dc_registry_db dc) (insert_into db_registry_schema ''hosts'' db_hosts (\<lambda>rs d. d\<lparr>db_hosts := rs\<rparr>) insert_host_row r)"

definition insert_engine :: "deploy_config \<Rightarrow> 'w deploy_services \<Rightarrow> engine_record \<Rightarrow> ('d, 'w, unit) dyx" where
  "insert_engine dc sv r =
     on_file sv (dc_registry_db dc) (insert_into db_registry_schema ''docker_engines'' db_engines (\<lambda>rs d. d\<lparr>db_engines := rs\<rparr>)
       (insert_row en_engine_id) r)"

definition insert_image :: "deploy_config \<Rightarrow> 'w deploy_services \<Rightarrow> image_record \<Rightarrow> ('d, 'w, unit) dyx" where
  "insert_image dc sv r =
     on_file sv (dc_registry_db dc) (insert_into db_registry_schema ''images'' db_images (\<lambda>rs d. d\<lparr>db_images := rs\<rparr>) (insert_row im_image_id) r)"

definition insert_container :: "deploy_config \<Rightarrow> 'w deploy_services \<Rightarrow> container_record \<Rightarrow> ('d, 'w, unit) dyx" where
  "insert_container dc sv r =
     on_file sv (dc_registry_db dc) (insert_into db_registry_schema ''containers'' db_containers (\<lambda>rs d. d\<lparr>db_containers := rs\<rparr>)
       (insert_row ct_container_id) r)"

definition insert_deployment :: "deploy_config \<Rightarrow> 'w deploy_services \<Rightarrow> deployment_record \<Rightarrow> ('d, 'w, unit) dyx" where
  "insert_deployment dc sv r =
     on_file sv (dc_registry_db dc) (insert_into db_registry_schema ''deployments'' db_deployments (\<lambda>rs d. d\<lparr>db_deployments := rs\<rparr>)
       (insert_row dm_deployment_id) r)"

text \<open>\<open>upsert_container_status\<close> is an UPDATE: it changes the row that is there and adds none.\<close>

definition upsert_container_status ::
  "deploy_config \<Rightarrow> 'w deploy_services \<Rightarrow> string \<Rightarrow> string \<Rightarrow> string \<Rightarrow> ('d, 'w, unit) dyx" where
  "upsert_container_status dc sv cid status updated_at =
     on_file sv (dc_registry_db dc) (sx_bind sx_get (\<lambda>s.
       if \<not> db_registry_schema s then sx_raise (Exc ''OperationalError'' ''no such table: containers'')
       else sx_modify (\<lambda>s. s\<lparr>db_containers := map (\<lambda>c. if ct_container_id c = cid
              then c\<lparr>ct_status := Some status, ct_updated_at := Some updated_at\<rparr> else c) (db_containers s)\<rparr>)))"

definition init_artifact_schema :: "deploy_config \<Rightarrow> 'w deploy_services \<Rightarrow> ('d, 'w, unit) dyx" where
  "init_artifact_schema dc sv =
     on_file sv (dc_artifact_db dc) (sx_modify (\<lambda>s. s\<lparr>db_artifact_schema := True\<rparr>))"

definition init_registry_schema :: "deploy_config \<Rightarrow> 'w deploy_services \<Rightarrow> ('d, 'w, unit) dyx" where
  "init_registry_schema dc sv =
     on_file sv (dc_registry_db dc) (sx_modify (\<lambda>s. s\<lparr>db_registry_schema := True\<rparr>))"

section \<open>The artifact manager\<close>

text \<open>\<open>upper()\<close> of a hexadecimal text.\<close>

definition hex_upper :: "string \<Rightarrow> string" where
  "hex_upper s = map (\<lambda>c. if 97 \<le> (of_char c :: nat) \<and> (of_char c :: nat) \<le> 122 then char_of ((of_char c :: nat) - 32) else c) s"

definition new_id :: "'w deploy_services \<Rightarrow> string \<Rightarrow> ('d, 'w, string) dyx" where
  "new_id sv pre = sx_bind (from_world (ds_uuid_hex sv)) (\<lambda>h. sx_return (pre @ ''_'' @ hex_upper (take 26 h)))"

text \<open>\<open>str(Path(root) / name)\<close>, where the root is the text of a path, and \<open>os.path.join\<close>.\<close>

definition path_child :: "string \<Rightarrow> string \<Rightarrow> string" where
  "path_child dir name =
     (if dir = ''.'' then name else if dir \<noteq> [] \<and> last dir = CHR ''/'' then dir @ name else dir @ ''/'' @ name)"

definition os_path_join :: "string \<Rightarrow> string \<Rightarrow> string" where
  "os_path_join a b =
     (if py_startswith b ''/'' then b
      else if a = [] \<or> last a = CHR ''/'' then a @ b else a @ ''/'' @ b)"

definition task_paths :: "string \<Rightarrow> string \<Rightarrow> string dict" where
  "task_paths root_dir task_id =
     (let base = path_child root_dir task_id in
      [(''root'', base), (''generated'', path_child base ''generated''), (''logs'', path_child base ''logs''),
       (''reports'', path_child base ''reports''), (''inputs'', path_child base ''inputs'')])"

definition ensure_task_dirs :: "'w deploy_services \<Rightarrow> string \<Rightarrow> string \<Rightarrow> ('d, 'w, string dict) dyx" where
  "ensure_task_dirs sv root_dir task_id =
     (let paths = task_paths root_dir task_id in
      sx_bind (sx_map (\<lambda>p. on_world (ds_makedirs sv p)) (dvalues paths)) (\<lambda>_. sx_return paths))"

definition create_task ::
  "deploy_config \<Rightarrow> 'w deploy_services \<Rightarrow> string \<Rightarrow> string option \<Rightarrow> ('d, 'w, task_record) dyx" where
  "create_task dc sv task_type input_summary =
     sx_bind (new_id sv ''task'') (\<lambda>task_id.
     sx_bind (from_world (ds_now_iso sv)) (\<lambda>now.
       let r = \<lparr>tk_task_id = task_id, tk_task_type = task_type, tk_status = ''created'',
                tk_input_summary = input_summary, tk_created_at = now, tk_updated_at = now\<rparr>
       in sx_bind (insert_task dc sv r) (\<lambda>_.
          sx_bind (ensure_task_dirs sv (dc_artifact_root dc) task_id) (\<lambda>_. sx_return r))))"

definition create_stage ::
  "deploy_config \<Rightarrow> 'w deploy_services \<Rightarrow> string \<Rightarrow> string \<Rightarrow> string \<Rightarrow> string option \<Rightarrow> ('d, 'w, stage_record) dyx" where
  "create_stage dc sv task_id stage_name status metadata_json =
     sx_bind (new_id sv ''stage'') (\<lambda>stage_id.
     sx_bind (from_world (ds_now_iso sv)) (\<lambda>now.
       let r = \<lparr>sg_stage_id = stage_id, sg_task_id = task_id, sg_stage_name = stage_name, sg_status = status,
                sg_started_at = Some now, sg_ended_at = None, sg_metadata_json = metadata_json\<rparr>
       in sx_bind (insert_stage dc sv r) (\<lambda>_. sx_return r)))"

definition persist_artifact_bytes ::
  "deploy_config \<Rightarrow> 'w deploy_services \<Rightarrow> string \<Rightarrow> string option \<Rightarrow> string \<Rightarrow> string \<Rightarrow> string \<Rightarrow> string
   \<Rightarrow> string option \<Rightarrow> string option \<Rightarrow> ('d, 'w, artifact_record) dyx" where
  "persist_artifact_bytes dc sv task_id stage_id kind name content subdir mime_type created_by_action =
     sx_bind (ensure_task_dirs sv (dc_artifact_root dc) task_id) (\<lambda>dirs.
       let base = dget_default dirs subdir (dget_default dirs ''root'' []);
           path = os_path_join base name
       in sx_bind (on_world (ds_write_file sv path content)) (\<lambda>_.
          sx_bind (new_id sv ''artifact'') (\<lambda>artifact_id.
          sx_bind (from_world (ds_now_iso sv)) (\<lambda>now.
            let r = \<lparr>ar_artifact_id = artifact_id, ar_task_id = Some task_id, ar_stage_id = stage_id, ar_kind = kind,
                     ar_name = Some name, ar_storage_path = path, ar_content_hash = Some (ds_sha256 sv content),
                     ar_mime_type = mime_type, ar_size_bytes = Some (int (length content)),
                     ar_parent_artifact_id = None, ar_created_by_action = created_by_action,
                     ar_created_at = now, ar_metadata_json = None\<rparr>
            in sx_bind (insert_artifact dc sv r) (\<lambda>_. sx_return r)))))"

section \<open>The runtime manager\<close>

record env_fingerprint =
  ef_runtime :: string
  ef_engine_id :: string
  ef_image_id :: string
  ef_sdk_name :: string
  ef_sdk_version :: "string option"
  ef_command :: "string list"
  ef_env :: "string dict"
  ef_ports :: "string list"

definition json_opt :: "string option \<Rightarrow> json" where
  "json_opt x = (case x of None \<Rightarrow> JNull | Some s \<Rightarrow> JText s)"

definition json_texts :: "string list \<Rightarrow> json" where
  "json_texts xs = JArray (map JText xs)"

definition json_dict :: "string dict \<Rightarrow> json" where
  "json_dict d = JObject (map (\<lambda>(k, v). (k, JText v)) d)"

definition dumps :: "json \<Rightarrow> string" where
  "dumps v = json_dumps '', '' '': '' v"

definition register_host ::
  "deploy_config \<Rightarrow> 'w deploy_services \<Rightarrow> string \<Rightarrow> string option \<Rightarrow> string option \<Rightarrow> string \<Rightarrow> string
   \<Rightarrow> ('d, 'w, host_record) dyx" where
  "register_host dc sv host_id name address labels_json status =
     sx_bind (on_world (ds_now_fn sv)) (\<lambda>created.
     sx_bind (on_world (ds_now_fn sv)) (\<lambda>updated.
       let r = \<lparr>ho_host_id = host_id, ho_name = name, ho_address = address, ho_labels_json = Some labels_json,
                ho_status = Some status, ho_created_at = created, ho_updated_at = updated\<rparr>
       in sx_bind (insert_host dc sv r) (\<lambda>_. sx_return r)))"

definition register_engine ::
  "deploy_config \<Rightarrow> 'w deploy_services \<Rightarrow> string \<Rightarrow> string \<Rightarrow> string \<Rightarrow> string option \<Rightarrow> ('d, 'w, engine_record) dyx" where
  "register_engine dc sv host_id base_url connection_mode name =
     sx_bind (on_world (ds_now_fn sv)) (\<lambda>seen.
       let r = \<lparr>en_engine_id = dc_engine_id dc, en_host_id = host_id, en_name = name, en_base_url = base_url,
                en_connection_mode = connection_mode, en_is_enabled = 1, en_last_seen_at = Some seen,
                en_health_status = Some ''unknown'', en_metadata_json = None\<rparr>
       in sx_bind (insert_engine dc sv r) (\<lambda>_. sx_return r))"

definition register_image ::
  "deploy_config \<Rightarrow> 'w deploy_services \<Rightarrow> string \<Rightarrow> string list \<Rightarrow> string \<Rightarrow> string option \<Rightarrow> ('d, 'w, image_record) dyx" where
  "register_image dc sv image_id tags source_type source_ref =
     sx_bind (on_world (ds_now_fn sv)) (\<lambda>created.
       let r = \<lparr>im_image_id = image_id, im_engine_id = dc_engine_id dc,
                im_repo_tags_json = Some (dumps (json_texts tags)), im_source_type = source_type,
                im_source_ref = source_ref, im_created_at = Some created, im_metadata_json = None\<rparr>
       in sx_bind (insert_image dc sv r) (\<lambda>_. sx_return r))"

definition rt_create_container ::
  "deploy_config \<Rightarrow> 'w deploy_services \<Rightarrow> 'd build_driver \<Rightarrow> container_create_spec \<Rightarrow> string option
   \<Rightarrow> ('d, 'w, container_record) dyx" where
  "rt_create_container dc sv dd spec owner_task_id =
     sx_bind (on_engine (dd_create_container dd spec)) (\<lambda>ref.
     sx_bind (on_engine (dd_start_container dd (cf_container_id ref))) (\<lambda>_.
     sx_bind (on_world (ds_now_fn sv)) (\<lambda>created.
     sx_bind (on_world (ds_now_fn sv)) (\<lambda>updated.
       let r = \<lparr>ct_container_id = cf_container_id ref, ct_engine_id = dc_engine_id dc,
                ct_image_id = Some (cc_image spec), ct_name = cf_name ref, ct_status = Some ''running'',
                ct_workdir = Some (cc_working_dir spec), ct_env_json = Some (dumps (json_dict (cc_environment spec))),
                ct_ports_json = Some (dumps (json_texts [])), ct_labels_json = Some (dumps (json_dict (cc_labels spec))),
                ct_created_at = Some created, ct_updated_at = Some updated, ct_owner_task_id = owner_task_id,
                ct_metadata_json = Some (dumps (JObject [(''command'', json_texts (cc_command spec))]))\<rparr>
       in sx_bind (insert_container dc sv r) (\<lambda>_. sx_return r)))))"

definition rt_remove_container ::
  "deploy_config \<Rightarrow> 'w deploy_services \<Rightarrow> 'd build_driver \<Rightarrow> string \<Rightarrow> ('d, 'w, unit) dyx" where
  "rt_remove_container dc sv dd cid =
     sx_bind (on_engine (dd_remove_container dd cid True False)) (\<lambda>_.
     sx_bind (on_world (ds_now_fn sv)) (\<lambda>now. upsert_container_status dc sv cid ''removed'' now))"

definition fingerprint_json :: "env_fingerprint \<Rightarrow> json" where
  "fingerprint_json p = JObject
     [(''runtime'', JText (ef_runtime p)), (''engine_id'', JText (ef_engine_id p)), (''image_id'', JText (ef_image_id p)),
      (''sdk_name'', JText (ef_sdk_name p)), (''sdk_version'', json_opt (ef_sdk_version p)),
      (''command'', json_texts (ef_command p)), (''env'', json_dict (ef_env p)), (''ports'', json_texts (ef_ports p))]"

definition make_env_fingerprint :: "'w deploy_services \<Rightarrow> env_fingerprint \<Rightarrow> string \<times> string" where
  "make_env_fingerprint sv payload =
     (let raw = json_dumps '','' '':'' (fingerprint_json payload) in (ds_sha256 sv (utf8_encode raw), raw))"

definition deployment_id_of :: "'w deploy_services \<Rightarrow> string \<Rightarrow> string \<Rightarrow> string" where
  "deployment_id_of sv task_id container_id =
     ''deploy_'' @ hex_upper (take 26 (ds_sha1 sv (utf8_encode (task_id @ container_id))))"

definition create_deployment_record ::
  "deploy_config \<Rightarrow> 'w deploy_services \<Rightarrow> string \<Rightarrow> string \<Rightarrow> string option \<Rightarrow> string \<Rightarrow> string \<Rightarrow> env_fingerprint \<Rightarrow> int
   \<Rightarrow> ('d, 'w, deployment_record) dyx" where
  "create_deployment_record dc sv task_id sdk_name sdk_version image_id container_id payload reusable =
     sx_bind (on_world (ds_now_fn sv)) (\<lambda>created.
     sx_bind (on_world (ds_now_fn sv)) (\<lambda>updated.
       let r = \<lparr>dm_deployment_id = deployment_id_of sv task_id container_id, dm_task_id = Some task_id,
                dm_sdk_name = sdk_name, dm_sdk_version = sdk_version, dm_engine_id = Some (dc_engine_id dc),
                dm_image_id = Some image_id, dm_container_id = Some container_id,
                dm_env_fingerprint = Some (fst (make_env_fingerprint sv payload)), dm_status = Some ''ready'',
                dm_reusable = reusable, dm_created_at = Some created, dm_updated_at = Some updated,
                dm_metadata_json = Some (snd (make_env_fingerprint sv payload))\<rparr>
       in sx_bind (insert_deployment dc sv r) (\<lambda>_. sx_return r)))"

section \<open>Tables refuse a known key\<close>

lemma row_by_snoc: "row_by key (rows @ [r]) k = (case row_by key rows k of None \<Rightarrow> if key r = k then Some r else None | Some x \<Rightarrow> Some x)"
  by (induction rows) (auto simp: row_by_def)

lemma row_by_None: "row_by key rows k = None \<longleftrightarrow> k \<notin> key ` set rows"
  by (auto simp: row_by_def find_None_iff)

lemma insert_row_Inr: "insert_row key r rows = Inr rows' \<longleftrightarrow> key r \<notin> key ` set rows \<and> rows' = rows @ [r]"
  by (auto simp: insert_row_def)

lemma insert_row_registry: "once_registry (row_by key) (insert_row key) key (keyed key)"
proof unfold_locales
  fix s s' v k
  assume "insert_row key v s = Inr s'"
  then show "row_by key s' k = (if k = key v then Some v else row_by key s k)"
    using row_by_None [of key s "key v"] by (auto simp: insert_row_Inr row_by_snoc split: option.split)
qed (auto simp: insert_row_Inr keyed_def row_by_None)

interpretation tasks: once_registry "row_by tk_task_id" "insert_row tk_task_id" tk_task_id "keyed tk_task_id"
  by (rule insert_row_registry)

interpretation images: once_registry "row_by im_image_id" "insert_row im_image_id" im_image_id "keyed im_image_id"
  by (rule insert_row_registry)

interpretation containers: once_registry "row_by ct_container_id" "insert_row ct_container_id" ct_container_id
  "keyed ct_container_id"
  by (rule insert_row_registry)

lemma insert_host_row_Inr:
  "insert_host_row r rows = Inr rows' \<longleftrightarrow>
     (ho_name r = None \<or> ho_name r \<notin> ho_name ` set rows) \<and> ho_host_id r \<notin> ho_host_id ` set rows \<and> rows' = rows @ [r]"
  by (auto simp: insert_host_row_def insert_row_Inr)

interpretation hosts: once_registry "row_by ho_host_id" insert_host_row ho_host_id "keyed ho_host_id"
proof unfold_locales
  fix s s' v k
  assume "insert_host_row v s = Inr s'"
  then show "row_by ho_host_id s' k = (if k = ho_host_id v then Some v else row_by ho_host_id s k)"
    using row_by_None [of ho_host_id s "ho_host_id v"] by (auto simp: insert_host_row_Inr row_by_snoc split: option.split)
qed (auto simp: insert_host_row_Inr keyed_def row_by_None)

section \<open>Well-formed stores\<close>

text \<open>
  Every table is keyed, and the references the schema declares as foreign keys between the rows the services
  write hold: a stage has its task, an artifact its task and stage, a container its image, a deployment its
  image and container.
\<close>

definition ids :: "('r \<Rightarrow> string) \<Rightarrow> 'r list \<Rightarrow> string set" where
  "ids key rows = key ` set rows"

definition refers :: "string option \<Rightarrow> string set \<Rightarrow> bool" where
  "refers x S = (case x of None \<Rightarrow> True | Some k \<Rightarrow> k \<in> S)"

definition db_ok :: "deploy_db \<Rightarrow> bool" where
  "db_ok d \<longleftrightarrow>
     keyed tk_task_id (db_tasks d) \<and> keyed sg_stage_id (db_stages d) \<and> keyed ar_artifact_id (db_artifacts d)
     \<and> keyed im_image_id (db_images d) \<and> keyed ct_container_id (db_containers d) \<and> keyed dm_deployment_id (db_deployments d)
     \<and> list_all (\<lambda>g. sg_task_id g \<in> ids tk_task_id (db_tasks d)) (db_stages d)
     \<and> list_all (\<lambda>a. refers (ar_task_id a) (ids tk_task_id (db_tasks d))
                    \<and> refers (ar_stage_id a) (ids sg_stage_id (db_stages d))) (db_artifacts d)
     \<and> list_all (\<lambda>c. refers (ct_image_id c) (ids im_image_id (db_images d))) (db_containers d)
     \<and> list_all (\<lambda>m. refers (dm_image_id m) (ids im_image_id (db_images d))
                    \<and> refers (dm_container_id m) (ids ct_container_id (db_containers d))) (db_deployments d)"

lemma ids_snoc [simp]: "ids key (rows @ [r]) = insert (key r) (ids key rows)"
  by (auto simp: ids_def)

lemma refers_mono: "refers x S \<Longrightarrow> S \<subseteq> T \<Longrightarrow> refers x T"
  by (auto simp: refers_def split: option.splits)

lemma refers_Some [simp]: "refers (Some k) S \<longleftrightarrow> k \<in> S"
  by (simp add: refers_def)

lemma refers_insert [intro]: "refers x S \<Longrightarrow> refers x (insert k S)"
  by (rule refers_mono) auto

lemma keyed_snoc: "keyed key (rows @ [r]) \<longleftrightarrow> keyed key rows \<and> key r \<notin> ids key rows"
  by (auto simp: keyed_def ids_def)

text \<open>\<open>partial d0 d\<close>: \<open>d\<close> is well-formed and has at least the rows of \<open>d0\<close>, no deployment more.\<close>

definition partial :: "deploy_db \<Rightarrow> deploy_db \<Rightarrow> bool" where
  "partial d0 d \<longleftrightarrow> db_ok d \<and> prefix (db_tasks d0) (db_tasks d) \<and> prefix (db_stages d0) (db_stages d)
     \<and> prefix (db_artifacts d0) (db_artifacts d) \<and> prefix (db_images d0) (db_images d)
     \<and> prefix (db_containers d0) (db_containers d) \<and> db_deployments d = db_deployments d0
     \<and> db_hosts d = db_hosts d0 \<and> db_engines d = db_engines d0"

lemma partial_refl: "db_ok d \<Longrightarrow> partial d d"
  by (simp add: partial_def)

lemma partial_db_ok: "partial d0 d \<Longrightarrow> db_ok d"
  by (simp add: partial_def)

lemma partial_task:
  "partial d0 d \<Longrightarrow> tk_task_id t \<notin> ids tk_task_id (db_tasks d) \<Longrightarrow> partial d0 (d\<lparr>db_tasks := db_tasks d @ [t]\<rparr>)"
  by (auto simp: partial_def db_ok_def keyed_snoc list_all_iff)

lemma partial_stage:
  "partial d0 d \<Longrightarrow> sg_stage_id g \<notin> ids sg_stage_id (db_stages d) \<Longrightarrow> sg_task_id g \<in> ids tk_task_id (db_tasks d)
   \<Longrightarrow> partial d0 (d\<lparr>db_stages := db_stages d @ [g]\<rparr>)"
  by (auto simp: partial_def db_ok_def keyed_snoc list_all_iff)

lemma partial_artifact:
  "partial d0 d \<Longrightarrow> ar_artifact_id a \<notin> ids ar_artifact_id (db_artifacts d)
   \<Longrightarrow> refers (ar_task_id a) (ids tk_task_id (db_tasks d)) \<Longrightarrow> refers (ar_stage_id a) (ids sg_stage_id (db_stages d))
   \<Longrightarrow> partial d0 (d\<lparr>db_artifacts := db_artifacts d @ [a]\<rparr>)"
  by (auto simp: partial_def db_ok_def keyed_snoc list_all_iff)

lemma partial_image:
  "partial d0 d \<Longrightarrow> im_image_id i \<notin> ids im_image_id (db_images d) \<Longrightarrow> partial d0 (d\<lparr>db_images := db_images d @ [i]\<rparr>)"
  by (auto simp: partial_def db_ok_def keyed_snoc list_all_iff)

lemma partial_container:
  "partial d0 d \<Longrightarrow> ct_container_id c \<notin> ids ct_container_id (db_containers d)
   \<Longrightarrow> refers (ct_image_id c) (ids im_image_id (db_images d)) \<Longrightarrow> partial d0 (d\<lparr>db_containers := db_containers d @ [c]\<rparr>)"
  by (auto simp: partial_def db_ok_def keyed_snoc list_all_iff)

section \<open>What the operations do to the stores\<close>

text \<open>Whatever the world or the driver does, the stores stay.\<close>

lemma world_keeps_db:
  "sx_valid (\<lambda>s. dy_db s = d) (on_world m) (\<lambda>_ s. dy_db s = d) (\<lambda>_ s. dy_db s = d)"
  "sx_valid (\<lambda>s. dy_db s = d) (from_world f) (\<lambda>_ s. dy_db s = d) (\<lambda>_ s. dy_db s = d)"
  "sx_valid (\<lambda>s. dy_db s = d) (on_engine e) (\<lambda>_ s. dy_db s = d) (\<lambda>_ s. dy_db s = d)"
  by (auto simp: sx_valid_def on_world_def from_world_def on_engine_def sx_zoom_def split: prod.split sum.split)

lemma world_map_keeps_db:
  "sx_valid (\<lambda>s. dy_db s = d) (sx_map (\<lambda>p. on_world (m p)) ps) (\<lambda>_ s. dy_db s = d) (\<lambda>_ s. dy_db s = d)"
  by (induction ps) (auto intro!: sx_valid_basic sx_valid_seq world_keeps_db)

lemma new_id_keeps_db:
  "sx_valid (\<lambda>s. dy_db s = d) (new_id sv pre) (\<lambda>_ s. dy_db s = d) (\<lambda>_ s. dy_db s = d)"
  unfolding new_id_def by (intro sx_valid_seq [OF world_keeps_db(2)] sx_valid_basic)

lemma ensure_task_dirs_keeps_db:
  "sx_valid (\<lambda>s. dy_db s = d) (ensure_task_dirs sv root_dir tid) (\<lambda>_ s. dy_db s = d) (\<lambda>_ s. dy_db s = d)"
  unfolding ensure_task_dirs_def Let_def by (intro sx_valid_seq [OF world_map_keeps_db] sx_valid_basic)

text \<open>An insertion adds its row, when the key is new, or raises and leaves the table.\<close>

lemma on_file_insert:
  assumes "\<And>r rows rows'. add r rows = Inr rows' \<Longrightarrow> key r \<notin> ids key rows \<and> rows' = rows @ [r]"
  shows "sx_valid (\<lambda>s. dy_db s = d) (on_file sv p (insert_into ready t rows set_rows add r))
     (\<lambda>_ s. dy_db s = set_rows (rows d @ [r]) d \<and> key r \<notin> ids key (rows d)) (\<lambda>_ s. dy_db s = d)"
  unfolding on_file_def
proof (rule sx_valid_seq [OF world_keeps_db(1)])
  show "sx_valid (\<lambda>s. dy_db s = d) (on_db (insert_into ready t rows set_rows add r))
     (\<lambda>_ s. dy_db s = set_rows (rows d @ [r]) d \<and> key r \<notin> ids key (rows d)) (\<lambda>_ s. dy_db s = d)"
    using assms [of r "rows d"]
    by (auto simp: sx_valid_def on_db_def insert_into_def sx_zoom_def sx_bind_def sx_simps split: prod.splits sum.splits if_splits)
qed

lemma insert_row_new: "insert_row key r rows = Inr rows' \<Longrightarrow> key r \<notin> ids key rows \<and> rows' = rows @ [r]"
  by (simp add: insert_row_Inr ids_def)

definition steady :: "deploy_db \<Rightarrow> ('d, 'w, 'a) dyx \<Rightarrow> bool" where
  "steady d0 m \<longleftrightarrow> (\<forall>d. partial d0 d \<longrightarrow>
     sx_valid (\<lambda>s. dy_db s = d) m (\<lambda>_ s. dy_db s = d) (\<lambda>_ s. partial d0 (dy_db s)))"

lemma steadyI:
  "(\<And>d. sx_valid (\<lambda>s. dy_db s = d) m (\<lambda>_ s. dy_db s = d) (\<lambda>_ s. dy_db s = d)) \<Longrightarrow> steady d0 m"
  unfolding steady_def
proof (intro allI impI)
  fix d
  assume "partial d0 d" "\<And>d. sx_valid (\<lambda>s. dy_db s = d) m (\<lambda>_ s. dy_db s = d) (\<lambda>_ s. dy_db s = d)"
  then show "sx_valid (\<lambda>s. dy_db s = d) m (\<lambda>_ s. dy_db s = d) (\<lambda>_ s. partial d0 (dy_db s))"
    by (auto intro: sx_valid_weaken [where P' = "\<lambda>s. dy_db s = d" and Q' = "\<lambda>_ s. dy_db s = d" and E' = "\<lambda>_ s. dy_db s = d"])
qed

lemma steady_basic: "steady d0 (on_world m)" "steady d0 (from_world f)" "steady d0 (on_engine e)" "steady d0 (new_id sv pre)"
  "steady d0 (ensure_task_dirs sv root_dir tid)"
  by (intro steadyI world_keeps_db new_id_keeps_db ensure_task_dirs_keeps_db)+

lemma steady_bind:
  "partial d0 d \<Longrightarrow> steady d0 m \<Longrightarrow> (\<And>a. sx_valid (\<lambda>s. dy_db s = d) (f a) Q (\<lambda>_ s. partial d0 (dy_db s)))
   \<Longrightarrow> sx_valid (\<lambda>s. dy_db s = d) (sx_bind m f) Q (\<lambda>_ s. partial d0 (dy_db s))"
  unfolding steady_def by (blast intro: sx_valid_seq)

text \<open>An insertion and what follows it.\<close>

lemma insert_then:
  assumes "partial d0 d"
    and "\<And>r rows rows'. add r rows = Inr rows' \<Longrightarrow> key r \<notin> ids key rows \<and> rows' = rows @ [r]"
    and "key r \<notin> ids key (rows d)
      \<Longrightarrow> sx_valid (\<lambda>s. dy_db s = set_rows (rows d @ [r]) d) (f ()) Q (\<lambda>_ s. partial d0 (dy_db s))"
  shows "sx_valid (\<lambda>s. dy_db s = d) (sx_bind (on_file sv p (insert_into ready t rows set_rows add r)) f)
     Q (\<lambda>_ s. partial d0 (dy_db s))"
proof (rule sx_valid_bind)
  show "sx_valid (\<lambda>s. dy_db s = d) (on_file sv p (insert_into ready t rows set_rows add r))
     (\<lambda>_ s. dy_db s = set_rows (rows d @ [r]) d \<and> key r \<notin> ids key (rows d)) (\<lambda>_ s. partial d0 (dy_db s))"
    using assms(1,2) by (intro sx_valid_weaken [OF on_file_insert]) auto
qed (use assms(3) in \<open>auto intro: sx_valid_pure\<close>)

lemma create_task_step:
  assumes "partial d0 d"
  shows "sx_valid (\<lambda>s. dy_db s = d) (create_task dc sv ty summary)
     (\<lambda>t s. dy_db s = d\<lparr>db_tasks := db_tasks d @ [t]\<rparr> \<and> partial d0 (d\<lparr>db_tasks := db_tasks d @ [t]\<rparr>)
        \<and> tk_task_type t = ty \<and> tk_input_summary t = summary \<and> tk_status t = ''created'')
     (\<lambda>_ s. partial d0 (dy_db s))"
  unfolding create_task_def Let_def insert_task_def
  apply (rule steady_bind [OF assms steady_basic(4)])
  apply (rule steady_bind [OF assms steady_basic(2)])
  apply (rule insert_then [OF assms insert_row_new], assumption)
  apply (rule steady_bind [OF _ steady_basic(5)])
   apply (rule partial_task [OF assms], assumption)
  apply (rule sx_valid_basic, simp add: partial_task [OF assms])
  done

lemma create_stage_step:
  assumes "partial d0 d" "tid \<in> ids tk_task_id (db_tasks d)"
  shows "sx_valid (\<lambda>s. dy_db s = d) (create_stage dc sv tid nm st md)
     (\<lambda>g s. dy_db s = d\<lparr>db_stages := db_stages d @ [g]\<rparr> \<and> partial d0 (d\<lparr>db_stages := db_stages d @ [g]\<rparr>)
        \<and> sg_task_id g = tid \<and> sg_stage_name g = nm \<and> sg_status g = st)
     (\<lambda>_ s. partial d0 (dy_db s))"
  unfolding create_stage_def Let_def insert_stage_def
  apply (rule steady_bind [OF assms(1) steady_basic(4)])
  apply (rule steady_bind [OF assms(1) steady_basic(2)])
  apply (rule insert_then [OF assms(1) insert_row_new], assumption)
  apply (rule sx_valid_basic, simp add: partial_stage [OF assms(1)] assms(2))
  done

lemma persist_step:
  assumes "partial d0 d" "tid \<in> ids tk_task_id (db_tasks d)" "refers sid (ids sg_stage_id (db_stages d))"
  shows "sx_valid (\<lambda>s. dy_db s = d) (persist_artifact_bytes dc sv tid sid kind name content subdir mime act)
     (\<lambda>a s. dy_db s = d\<lparr>db_artifacts := db_artifacts d @ [a]\<rparr> \<and> partial d0 (d\<lparr>db_artifacts := db_artifacts d @ [a]\<rparr>)
        \<and> ar_task_id a = Some tid \<and> ar_stage_id a = sid \<and> ar_kind a = kind \<and> ar_name a = Some name
        \<and> ar_content_hash a = Some (ds_sha256 sv content) \<and> ar_size_bytes a = Some (int (length content)))
     (\<lambda>_ s. partial d0 (dy_db s))"
  unfolding persist_artifact_bytes_def Let_def insert_artifact_def
  apply (rule steady_bind [OF assms(1) steady_basic(5)])
  apply (rule steady_bind [OF assms(1) steady_basic(1)])
  apply (rule steady_bind [OF assms(1) steady_basic(4)])
  apply (rule steady_bind [OF assms(1) steady_basic(2)])
  apply (rule insert_then [OF assms(1) insert_row_new], assumption)
  apply (rule sx_valid_basic, simp add: partial_artifact [OF assms(1)] assms(2,3))
  done

lemma register_image_step:
  assumes "partial d0 d"
  shows "sx_valid (\<lambda>s. dy_db s = d) (register_image dc sv iid tags ty src)
     (\<lambda>i s. dy_db s = d\<lparr>db_images := db_images d @ [i]\<rparr> \<and> partial d0 (d\<lparr>db_images := db_images d @ [i]\<rparr>)
        \<and> iid \<notin> ids im_image_id (db_images d) \<and> im_image_id i = iid \<and> im_engine_id i = dc_engine_id dc
        \<and> im_source_type i = ty \<and> im_source_ref i = src)
     (\<lambda>_ s. partial d0 (dy_db s))"
  unfolding register_image_def Let_def insert_image_def
  apply (rule steady_bind [OF assms steady_basic(1)])
  apply (rule insert_then [OF assms insert_row_new], assumption)
  apply (rule sx_valid_basic, simp add: partial_image [OF assms])
  done

lemma rt_create_container_step:
  assumes "partial d0 d" "cc_image spec \<in> ids im_image_id (db_images d)"
  shows "sx_valid (\<lambda>s. dy_db s = d) (rt_create_container dc sv dd spec owner)
     (\<lambda>c s. dy_db s = d\<lparr>db_containers := db_containers d @ [c]\<rparr> \<and> partial d0 (d\<lparr>db_containers := db_containers d @ [c]\<rparr>)
        \<and> ct_image_id c = Some (cc_image spec) \<and> ct_engine_id c = dc_engine_id dc \<and> ct_status c = Some ''running''
        \<and> ct_owner_task_id c = owner)
     (\<lambda>_ s. partial d0 (dy_db s))"
  unfolding rt_create_container_def Let_def insert_container_def
  apply (rule steady_bind [OF assms(1) steady_basic(3)])
  apply (rule steady_bind [OF assms(1) steady_basic(3)])
  apply (rule steady_bind [OF assms(1) steady_basic(1)])
  apply (rule steady_bind [OF assms(1) steady_basic(1)])
  apply (rule insert_then [OF assms(1) insert_row_new], assumption)
  apply (rule sx_valid_basic, simp add: partial_container [OF assms(1)] assms(2))
  done

text \<open>The deployment row is the only one \<open>partial\<close> does not allow: a deployment is recorded only on return.\<close>

lemma create_deployment_step:
  assumes "partial d0 d" "iid \<in> ids im_image_id (db_images d)" "cid \<in> ids ct_container_id (db_containers d)"
  shows "sx_valid (\<lambda>s. dy_db s = d) (create_deployment_record dc sv tid nm ver iid cid payload reusable)
     (\<lambda>m s. dy_db s = d\<lparr>db_deployments := db_deployments d @ [m]\<rparr> \<and> db_ok (d\<lparr>db_deployments := db_deployments d @ [m]\<rparr>)
        \<and> dm_deployment_id m = deployment_id_of sv tid cid \<and> dm_task_id m = Some tid \<and> dm_image_id m = Some iid
        \<and> dm_container_id m = Some cid \<and> dm_engine_id m = Some (dc_engine_id dc) \<and> dm_status m = Some ''ready''
        \<and> dm_sdk_name m = nm \<and> dm_env_fingerprint m = Some (fst (make_env_fingerprint sv payload)) \<and> dm_reusable m = reusable)
     (\<lambda>_ s. partial d0 (dy_db s))"
  unfolding create_deployment_record_def Let_def insert_deployment_def
  apply (rule steady_bind [OF assms(1) steady_basic(1)])
  apply (rule steady_bind [OF assms(1) steady_basic(1)])
  apply (rule insert_then [OF assms(1) insert_row_new], assumption)
  apply (rule sx_valid_basic)
  using partial_db_ok [OF assms(1)] assms(2,3)
  apply (auto simp: db_ok_def keyed_snoc list_all_iff)
  done

section \<open>Fingerprints\<close>

lemma sort_key_map: "sort_key f (map g xs) = map g (sort_key (\<lambda>x. f (g x)) xs)"
proof (induction xs)
  case Nil
  show ?case by simp
next
  case (Cons x xs)
  have "insort_key f (g x) (map g ys) = map g (insort_key (\<lambda>x. f (g x)) x ys)" for ys
    by (induction ys) simp_all
  with Cons show ?case by simp
qed

lemma json_sorted_dict: "json_sorted (json_dict d) = JObject (map (\<lambda>(k, v). (k, JText v)) (sort_key fst d))"
proof -
  have "map (\<lambda>(k, v). (k, json_sorted v)) (map (\<lambda>(k, v). (k, JText v)) d) = map (\<lambda>(k, v). (k, JText v)) d"
    by (induction d) auto
  then show ?thesis by (simp add: json_dict_def sort_key_map split_def)
qed

lemma json_sorted_dict_eq: "json_sorted (json_dict d) = json_sorted (json_dict e) \<longleftrightarrow> sort_key fst d = sort_key fst e"
  by (auto simp: json_sorted_dict inj_map_eq_map inj_def)

lemma json_sorted_flat: "json_sorted (json_opt x) = json_opt x" "json_sorted (json_texts xs) = json_texts xs"
  by (auto simp: json_opt_def json_texts_def split: option.split)

lemma json_flat_eq: "json_opt x = json_opt y \<longleftrightarrow> x = y" "json_texts xs = json_texts ys \<longleftrightarrow> xs = ys"
  by (auto simp: json_opt_def json_texts_def inj_map_eq_map inj_def split: option.split)

definition same_environment :: "env_fingerprint \<Rightarrow> env_fingerprint \<Rightarrow> bool" where
  "same_environment p q \<longleftrightarrow>
     ef_runtime p = ef_runtime q \<and> ef_engine_id p = ef_engine_id q \<and> ef_image_id p = ef_image_id q
     \<and> ef_sdk_name p = ef_sdk_name q \<and> ef_sdk_version p = ef_sdk_version q \<and> ef_command p = ef_command q
     \<and> sort_key fst (ef_env p) = sort_key fst (ef_env q) \<and> ef_ports p = ef_ports q"

lemma fingerprint_json_sorted:
  "json_sorted (fingerprint_json p) = json_sorted (fingerprint_json q) \<longleftrightarrow> same_environment p q"
proof
  let ?items = "\<lambda>p. [(''runtime'', JText (ef_runtime p)), (''engine_id'', JText (ef_engine_id p)),
    (''image_id'', JText (ef_image_id p)), (''sdk_name'', JText (ef_sdk_name p)),
    (''sdk_version'', json_opt (ef_sdk_version p)), (''command'', json_texts (ef_command p)),
    (''env'', json_sorted (json_dict (ef_env p))), (''ports'', json_texts (ef_ports p))]"
  have norm: "json_sorted (fingerprint_json p) = JObject (sort_key fst (?items p))" for p
    by (simp add: fingerprint_json_def json_sorted_flat)
  show "same_environment p q" if "json_sorted (fingerprint_json p) = json_sorted (fingerprint_json q)"
  proof -
    from that have "sort_key fst (?items p) = sort_key fst (?items q)" by (simp only: norm json.inject)
    from arg_cong [OF this, of set] have "set (?items p) = set (?items q)" by (simp only: set_sort)
    then have "list_all (\<lambda>x. x \<in> set (?items q)) (?items p)" by (simp only: list_all_iff, blast)
    then show ?thesis by (simp add: same_environment_def json_flat_eq json_sorted_dict_eq)
  qed
  assume "same_environment p q"
  then have "?items p = ?items q"
    using json_sorted_dict_eq [of "ef_env p" "ef_env q"] by (simp add: same_environment_def)
  then show "json_sorted (fingerprint_json p) = json_sorted (fingerprint_json q)" by (simp only: norm)
qed

text \<open>
  C19: the raw text a deployment's fingerprint hashes determines the environment: two fingerprint inputs give the
  same text exactly when they agree in every field, the environment variables up to their order.
\<close>

theorem fingerprint_text_determines_environment:
  "(snd (make_env_fingerprint sv p) = snd (make_env_fingerprint sv q)) = same_environment p q"
proof -
  have "snd (make_env_fingerprint sv p) = snd (make_env_fingerprint sv q)
      \<longleftrightarrow> json_sorted (fingerprint_json p) = json_sorted (fingerprint_json q)"
    using json_dumps_inject [of "[]" "'':''"] by (auto simp: make_env_fingerprint_def json_dumps_def Let_def)
  then show ?thesis by (simp only: fingerprint_json_sorted)
qed

text \<open>A removal marks the row that is there; a container without a row gets none.\<close>

lemma remove_unrecorded_container:
  assumes "dd_remove_container dd cid True False d = (Inr (), d')" "ds_now_fn sv w = (Inr now, w1)"
    "ds_open sv (dc_registry_db dc) w1 = (Inr (), w2)" "db_registry_schema db" "cid \<notin> ids ct_container_id (db_containers db)"
  shows "rt_remove_container dc sv dd cid \<lparr>dy_driver = d, dy_world = w, dy_db = db\<rparr>
    = (Inr (), \<lparr>dy_driver = d', dy_world = w2, dy_db = db\<rparr>)"
proof -
  have "map (\<lambda>c. if ct_container_id c = cid then c\<lparr>ct_status := Some ''removed'', ct_updated_at := Some now\<rparr> else c)
      (db_containers db) = db_containers db"
    using assms(5) by (auto simp: ids_def intro!: map_idI)
  with assms show ?thesis
    by (simp add: rt_remove_container_def upsert_container_status_def on_file_def on_engine_def on_world_def on_db_def
        sx_zoom_def sx_bind_def sx_simps)
qed

text \<open>Nothing checks that the host of an engine is registered.\<close>

lemma register_engine_of_unknown_host:
  assumes "ds_now_fn sv w = (Inr now, w1)" "ds_open sv (dc_registry_db dc) w1 = (Inr (), w2)" "db_registry_schema db"
    "db_hosts db = []" "db_engines db = []"
  shows "map en_host_id (db_engines (dy_db (snd (register_engine dc sv ''nowhere'' url mode nm
      \<lparr>dy_driver = d, dy_world = w, dy_db = db\<rparr>)))) = [''nowhere'']"
  using assms
  by (simp add: register_engine_def insert_engine_def insert_into_def insert_row_def on_file_def on_world_def on_db_def
      sx_zoom_def sx_bind_def sx_simps Let_def)

end
