(* ===== verification/Deployment.thy ===== *)
theory Deployment
  imports Inspectors RuntimeRegistry
begin

text \<open>
  The minimal deployment loop: \<open>loop/java_deploy_flow.py\<close> and \<open>loop/minimal_loop_service.py\<close>
  over the artifact manager, the runtime manager, a driver and optional inspectors. The results: a run
  that returns has recorded and linked everything, a run that raises has recorded no deployment and left
  the stores well-formed, and the second deployment of an image never succeeds.
\<close>

section \<open>The flow\<close>

record java_deploy_input =
  jd_sdk_name :: string
  jd_sdk_version :: "string option"
  jd_jar_bytes :: string
  jd_pom_xml_bytes :: string
  jd_settings_xml_bytes :: "string option"
  jd_jdk_bytes :: "string option"

record minimal_loop_result =
  mr_task_id :: string
  mr_image_id :: string
  mr_container_id :: string
  mr_deployment_id :: string
  mr_artifact_ids :: "string list"
  mr_package_inspection_status :: "string option"
  mr_env_inspection_status :: "string option"

definition quoted :: "string \<Rightarrow> string" where
  "quoted s = CHR 0x22 # s @ [CHR 0x22]"

definition render_default_java_runtime_dockerfile :: "bool \<Rightarrow> string" where
  "render_default_java_runtime_dockerfile has_embedded_jdk =
     py_join nl
       ([''FROM eclipse-temurin:17-jre'', ''WORKDIR /app'']
        @ (if has_embedded_jdk
           then [''ADD jdk.tar.gz /opt/jdk/'', ''ENV JAVA_HOME=/opt/jdk'', ''ENV PATH=/opt/jdk/bin:$PATH''] else [])
        @ [''COPY app.jar /app/app.jar'',
           ''CMD ['' @ quoted ''java'' @ '', '' @ quoted ''-jar'' @ '', '' @ quoted ''/app/app.jar'' @ '']'', []])"

definition make_build_spec_from_input :: "java_deploy_input \<Rightarrow> string \<Rightarrow> build_image_spec" where
  "make_build_spec_from_input data tag =
     \<lparr>bs_tag = Some tag,
      bs_dockerfile_text = Some (render_default_java_runtime_dockerfile (jd_jdk_bytes data \<noteq> None)),
      bs_dockerfile_path = ''Dockerfile'', bs_context_dir = None, bs_context_tar = None,
      bs_context_files =
        (case jd_jdk_bytes data of
           None \<Rightarrow> [(''app.jar'', jd_jar_bytes data)]
         | Some jdk \<Rightarrow> dput ''jdk.tar.gz'' jdk [(''app.jar'', jd_jar_bytes data)]),
      bs_pull = False, bs_nocache = False, bs_rm = True, bs_forcerm = True, bs_timeout = None, bs_buildargs = [],
      bs_encoding = None\<rparr>"

definition make_container_spec :: "string \<Rightarrow> container_create_spec" where
  "make_container_spec image_ref =
     \<lparr>cc_image = image_ref, cc_command = [''sleep'', ''infinity''], cc_working_dir = ''/app'', cc_environment = [],
      cc_detach = True, cc_mem_limit = PNone, cc_nano_cpus = None, cc_network_disabled = False, cc_read_only = False,
      cc_user = None, cc_auto_remove = False, cc_labels = []\<rparr>"

definition package_input_of :: "java_deploy_input \<Rightarrow> package_input" where
  "package_input_of payload =
     \<lparr>pk_sdk_name = jd_sdk_name payload, pk_sdk_version = jd_sdk_version payload, pk_jar_bytes = jd_jar_bytes payload,
      pk_pom_xml_bytes = Some (jd_pom_xml_bytes payload), pk_settings_xml_bytes = jd_settings_xml_bytes payload,
      pk_jdk_bytes = jd_jdk_bytes payload\<rparr>"

section \<open>The loop\<close>

text \<open>What the service holds beside the stores: its driver, the driver of its runtime manager (on the same engine), and the
  inspectors, which may be missing.\<close>

record ('d, 'w) loop_parts =
  lp_config :: deploy_config
  lp_services :: "'w deploy_services"
  lp_driver :: "'d build_driver"
  lp_runtime_driver :: "'d build_driver"
  lp_package_inspector :: "(package_input \<Rightarrow> ('w, package_report) sx) option"
  lp_env_inspector :: "(env_input \<Rightarrow> ('d, env_report) sx) option"

text \<open>The persistence of the inputs: the JAR, the POM and, when there is one, the settings file.\<close>

definition ingest_file ::
  "('d, 'w) loop_parts \<Rightarrow> string \<Rightarrow> string \<Rightarrow> string \<Rightarrow> string \<Rightarrow> string \<Rightarrow> string \<Rightarrow> ('d, 'w, artifact_record) dyx" where
  "ingest_file lp tid sid kind name content mime =
     persist_artifact_bytes (lp_config lp) (lp_services lp) tid (Some sid) kind name content ''inputs'' (Some mime)
       (Some ''ingest_input'')"

definition ingest_settings :: "('d, 'w) loop_parts \<Rightarrow> string \<Rightarrow> string \<Rightarrow> string option \<Rightarrow> ('d, 'w, unit) dyx" where
  "ingest_settings lp tid sid settings =
     (case settings of
        None \<Rightarrow> sx_return ()
      | Some bytes \<Rightarrow>
          sx_bind (ingest_file lp tid sid ''input.settings_xml'' ''settings.xml'' bytes ''application/xml'')
            (\<lambda>_. sx_return ()))"

definition inspect_package_of :: "('d, 'w) loop_parts \<Rightarrow> java_deploy_input \<Rightarrow> ('d, 'w, string option) dyx" where
  "inspect_package_of lp payload =
     (case lp_package_inspector lp of
        None \<Rightarrow> sx_return None
      | Some inspect \<Rightarrow>
          sx_bind (on_world (inspect (package_input_of payload))) (\<lambda>rep.
            sx_return (Some (inspection_value (kr_status rep)))))"

definition inspect_env_of :: "('d, 'w) loop_parts \<Rightarrow> string \<Rightarrow> string \<Rightarrow> ('d, 'w, string option) dyx" where
  "inspect_env_of lp image_id cid =
     (case lp_env_inspector lp of
        None \<Rightarrow> sx_return None
      | Some inspect \<Rightarrow>
          sx_bind (on_engine (inspect \<lparr>ei_engine_id = dc_engine_id (lp_config lp), ei_image_id = Some image_id,
                                      ei_container_id = cid, ei_runtime_name = ''docker''\<rparr>)) (\<lambda>rep.
            sx_return (Some (inspection_value (er_status rep)))))"

definition fingerprint_of :: "('d, 'w) loop_parts \<Rightarrow> java_deploy_input \<Rightarrow> string \<Rightarrow> env_fingerprint" where
  "fingerprint_of lp payload image_id =
     \<lparr>ef_runtime = ''docker'', ef_engine_id = dc_engine_id (lp_config lp), ef_image_id = image_id,
      ef_sdk_name = jd_sdk_name payload, ef_sdk_version = jd_sdk_version payload,
      ef_command = [''sleep'', ''infinity''], ef_env = [], ef_ports = []\<rparr>"

text \<open>From the build on: the part of \<open>run_java_deploy\<close> that works on the engine and the registry.\<close>

definition deploy_build ::
  "('d, 'w) loop_parts \<Rightarrow> java_deploy_input \<Rightarrow> string \<Rightarrow> build_image_spec \<Rightarrow> string list \<Rightarrow> string option
   \<Rightarrow> ('d, 'w, minimal_loop_result) dyx" where
  "deploy_build lp payload tid spec artifact_ids package_status =
     sx_bind (on_engine (dd_build_image (lp_driver lp) spec)) (\<lambda>build.
     sx_bind (register_image (lp_config lp) (lp_services lp) (bi_image_id build) (bi_tags build) ''built'' (Some tid)) (\<lambda>_.
     sx_bind (rt_create_container (lp_config lp) (lp_services lp) (lp_runtime_driver lp)
                (make_container_spec (bi_image_id build)) (Some tid)) (\<lambda>cont.
     sx_bind (inspect_env_of lp (bi_image_id build) (ct_container_id cont)) (\<lambda>env_status.
     sx_bind (create_deployment_record (lp_config lp) (lp_services lp) tid (jd_sdk_name payload) (jd_sdk_version payload)
                (bi_image_id build) (ct_container_id cont) (fingerprint_of lp payload (bi_image_id build)) 1) (\<lambda>dep.
       sx_return
         \<lparr>mr_task_id = tid, mr_image_id = bi_image_id build, mr_container_id = ct_container_id cont,
          mr_deployment_id = dm_deployment_id dep, mr_artifact_ids = artifact_ids,
          mr_package_inspection_status = package_status, mr_env_inspection_status = env_status\<rparr>)))))"

text \<open>Up to the build: the task, the stage, the artifacts and the package inspection.\<close>

definition prepare_deploy ::
  "('d, 'w) loop_parts \<Rightarrow> java_deploy_input \<Rightarrow> ('d, 'w, string \<times> build_image_spec \<times> string list \<times> string option) dyx" where
  "prepare_deploy lp payload =
     sx_bind (create_task (lp_config lp) (lp_services lp) ''sdk_deploy'' (Some (''deploy '' @ jd_sdk_name payload))) (\<lambda>task.
     sx_bind (create_stage (lp_config lp) (lp_services lp) (tk_task_id task) ''ingest_input'' ''done'' None) (\<lambda>stage.
     sx_bind (ingest_file lp (tk_task_id task) (sg_stage_id stage) ''input.jar'' ''app.jar'' (jd_jar_bytes payload)
                ''application/java-archive'') (\<lambda>jar_art.
     sx_bind (ingest_file lp (tk_task_id task) (sg_stage_id stage) ''input.pom'' ''pom.xml'' (jd_pom_xml_bytes payload)
                ''application/xml'') (\<lambda>pom_art.
     sx_bind (ingest_settings lp (tk_task_id task) (sg_stage_id stage) (jd_settings_xml_bytes payload)) (\<lambda>_.
     sx_bind (inspect_package_of lp payload) (\<lambda>package_status.
       let spec = make_build_spec_from_input payload (jd_sdk_name payload @ '':latest'') in
       sx_bind (persist_artifact_bytes (lp_config lp) (lp_services lp) (tk_task_id task) (Some (sg_stage_id stage))
                  ''generated.dockerfile'' ''Dockerfile''
                  (utf8_encode (case bs_dockerfile_text spec of None \<Rightarrow> [] | Some t \<Rightarrow> t)) ''generated'' (Some ''text/plain'')
                  (Some ''render_dockerfile'')) (\<lambda>dockerfile_art.
         sx_return (tk_task_id task, spec,
           [ar_artifact_id jar_art, ar_artifact_id pom_art, ar_artifact_id dockerfile_art], package_status))))))))"

definition run_java_deploy :: "('d, 'w) loop_parts \<Rightarrow> java_deploy_input \<Rightarrow> ('d, 'w, minimal_loop_result) dyx" where
  "run_java_deploy lp payload =
     sx_bind (prepare_deploy lp payload) (\<lambda>(tid, spec, artifact_ids, package_status).
       deploy_build lp payload tid spec artifact_ids package_status)"

section \<open>What a run records\<close>

text \<open>The rows of the part from the build on, in relation to the result.\<close>

definition engine_rows ::
  "('d, 'w) loop_parts \<Rightarrow> java_deploy_input \<Rightarrow> minimal_loop_result \<Rightarrow> image_record \<Rightarrow> container_record \<Rightarrow> deployment_record \<Rightarrow> bool" where
  "engine_rows lp payload r i c m \<longleftrightarrow>
     im_image_id i = mr_image_id r \<and> im_engine_id i = dc_engine_id (lp_config lp) \<and> im_source_type i = ''built''
     \<and> im_source_ref i = Some (mr_task_id r)
     \<and> ct_container_id c = mr_container_id r \<and> ct_image_id c = Some (mr_image_id r) \<and> ct_status c = Some ''running''
     \<and> ct_owner_task_id c = Some (mr_task_id r)
     \<and> dm_deployment_id m = mr_deployment_id r \<and> dm_task_id m = Some (mr_task_id r) \<and> dm_image_id m = Some (mr_image_id r)
     \<and> dm_container_id m = Some (mr_container_id r) \<and> dm_status m = Some ''ready'' \<and> dm_sdk_name m = jd_sdk_name payload
     \<and> dm_env_fingerprint m
        = Some (fst (make_env_fingerprint (lp_services lp) (fingerprint_of lp payload (mr_image_id r))))"

lemma inspect_env_keeps: "steady d0 (inspect_env_of lp iid cid)"
  unfolding inspect_env_of_def by (intro steadyI sx_valid_option sx_valid_basic sx_valid_seq [OF world_keeps_db(3)])

lemma inspect_package_keeps: "steady d0 (inspect_package_of lp payload)"
  unfolding inspect_package_of_def by (intro steadyI sx_valid_option sx_valid_basic sx_valid_seq [OF world_keeps_db(1)])

lemma deploy_build_step:
  assumes "partial d0 d"
  shows "sx_valid (\<lambda>s. dy_db s = d) (deploy_build lp payload tid spec arts pst)
     (\<lambda>r s. (\<exists>i c m. dy_db s = d\<lparr>db_images := db_images d @ [i], db_containers := db_containers d @ [c],
               db_deployments := db_deployments d @ [m]\<rparr> \<and> engine_rows lp payload r i c m)
        \<and> db_ok (dy_db s) \<and> mr_task_id r = tid \<and> mr_artifact_ids r = arts \<and> mr_package_inspection_status r = pst)
     (\<lambda>_ s. partial d0 (dy_db s))"
  unfolding deploy_build_def
  apply (rule steady_bind [OF assms steady_basic(3)])
  apply (rule sx_valid_bind [OF register_image_step [OF assms]])
  apply (rule sx_valid_pure, elim conjE)
  apply (rule sx_valid_bind [OF rt_create_container_step], assumption, simp add: make_container_spec_def)
  apply (rule sx_valid_pure, elim conjE)
  apply (rule steady_bind [OF _ inspect_env_keeps], assumption)
  apply (rule sx_valid_bind [OF create_deployment_step], assumption, simp, simp)
  apply (rule sx_valid_pure, elim conjE)
  apply (rule sx_valid_basic)
  apply (rule conjI)
   apply (rule exI, rule exI, rule exI, rule conjI, simp)
   apply (simp_all add: engine_rows_def make_container_spec_def)
  done

definition ingest_kinds :: "java_deploy_input \<Rightarrow> string list" where
  "ingest_kinds payload = [''input.jar'', ''input.pom'']
     @ (if jd_settings_xml_bytes payload = None then [] else [''input.settings_xml'']) @ [''generated.dockerfile'']"

text \<open>The rows of the preparation: task, stage and artifacts; the settings file is no artifact of the result.\<close>

definition prepared_rows ::
  "java_deploy_input \<Rightarrow> string \<Rightarrow> string list \<Rightarrow> task_record \<Rightarrow> stage_record \<Rightarrow> artifact_record list \<Rightarrow> bool" where
  "prepared_rows payload tid artifact_ids t g arts \<longleftrightarrow>
     tk_task_id t = tid \<and> tk_task_type t = ''sdk_deploy'' \<and> tk_status t = ''created''
     \<and> sg_task_id g = tid \<and> sg_stage_name g = ''ingest_input'' \<and> sg_status g = ''done''
     \<and> list_all (\<lambda>a. ar_task_id a = Some tid \<and> ar_stage_id a = Some (sg_stage_id g)) arts
     \<and> map ar_kind arts = ingest_kinds payload
     \<and> artifact_ids = map ar_artifact_id (filter (\<lambda>a. ar_kind a \<noteq> ''input.settings_xml'') arts)"

text \<open>The whole record of a run that returns: everything linked to the ids of the result.\<close>

definition recorded ::
  "('d, 'w) loop_parts \<Rightarrow> java_deploy_input \<Rightarrow> deploy_db \<Rightarrow> minimal_loop_result \<Rightarrow> deploy_db \<Rightarrow> bool" where
  "recorded lp payload d0 r d \<longleftrightarrow>
     (\<exists>t g arts i c m. d = d0\<lparr>db_tasks := db_tasks d0 @ [t], db_stages := db_stages d0 @ [g],
          db_artifacts := db_artifacts d0 @ arts, db_images := db_images d0 @ [i],
          db_containers := db_containers d0 @ [c], db_deployments := db_deployments d0 @ [m]\<rparr>
       \<and> prepared_rows payload (mr_task_id r) (mr_artifact_ids r) t g arts \<and> engine_rows lp payload r i c m)"

lemma ingest_step:
  assumes "partial d0 d" "tid \<in> ids tk_task_id (db_tasks d)" "sid \<in> ids sg_stage_id (db_stages d)"
  shows "sx_valid (\<lambda>s. dy_db s = d) (ingest_file lp tid sid kind name content mime)
     (\<lambda>a s. dy_db s = d\<lparr>db_artifacts := db_artifacts d @ [a]\<rparr> \<and> partial d0 (d\<lparr>db_artifacts := db_artifacts d @ [a]\<rparr>)
        \<and> ar_task_id a = Some tid \<and> ar_stage_id a = Some sid \<and> ar_kind a = kind)
     (\<lambda>_ s. partial d0 (dy_db s))"
  unfolding ingest_file_def
  by (rule sx_valid_weaken [OF persist_step [OF assms(1,2)]]) (auto simp: assms(3))

lemma ingest_settings_step:
  assumes "partial d0 d" "tid \<in> ids tk_task_id (db_tasks d)" "sid \<in> ids sg_stage_id (db_stages d)"
  shows "sx_valid (\<lambda>s. dy_db s = d) (ingest_settings lp tid sid settings)
     (\<lambda>_ s. \<exists>arts. dy_db s = d\<lparr>db_artifacts := db_artifacts d @ arts\<rparr> \<and> partial d0 (d\<lparr>db_artifacts := db_artifacts d @ arts\<rparr>)
        \<and> list_all (\<lambda>a. ar_task_id a = Some tid \<and> ar_stage_id a = Some sid) arts
        \<and> map ar_kind arts = (if settings = None then [] else [''input.settings_xml'']))
     (\<lambda>_ s. partial d0 (dy_db s))"
proof (cases settings)
  case None
  have "d\<lparr>db_artifacts := db_artifacts d\<rparr> = d" by simp
  with None assms(1) show ?thesis
    by (auto simp: ingest_settings_def intro!: sx_valid_basic exI [of _ "[]"])
next
  case (Some bytes)
  show ?thesis
    unfolding ingest_settings_def Some option.case
    apply (rule sx_valid_bind [OF ingest_step [OF assms]])
    apply (rule sx_valid_pure)
    apply (rule sx_valid_basic)
    subgoal for a s by (rule exI [of _ "[a]"]) simp
    done
qed

lemma sx_valid_ex:
  assumes "\<And>x. sx_valid (P x) m Q E"
  shows "sx_valid (\<lambda>s. \<exists>x. P x s) m Q E"
  unfolding sx_valid_def
proof (intro allI impI, elim exE)
  fix s x
  assume "P x s"
  with assms [of x] show "case m s of (Inl e, t) \<Rightarrow> E e t | (Inr a, t) \<Rightarrow> Q a t"
    unfolding sx_valid_def by simp
qed

lemma prepared_rowsI:
  assumes "tk_task_id t = tid" "tk_task_type t = ''sdk_deploy''" "tk_status t = ''created''"
    and "sg_task_id g = tid" "sg_stage_name g = ''ingest_input''" "sg_status g = ''done''"
    and "list_all (\<lambda>a. ar_task_id a = Some tid \<and> ar_stage_id a = Some (sg_stage_id g)) (jar # pom # dockerfile # settings)"
    and "ar_kind jar = ''input.jar''" "ar_kind pom = ''input.pom''" "ar_kind dockerfile = ''generated.dockerfile''"
    and kinds: "map ar_kind settings = (if jd_settings_xml_bytes payload = None then [] else [''input.settings_xml''])"
  shows "prepared_rows payload tid (map ar_artifact_id [jar, pom, dockerfile]) t g ([jar, pom] @ settings @ [dockerfile])"
proof -
  have "ar_kind a \<in> set (map ar_kind settings)" if "a \<in> set settings" for a using that by simp
  then have "ar_kind a = ''input.settings_xml''" if "a \<in> set settings" for a
    using that unfolding kinds by (cases "jd_settings_xml_bytes payload = None") (simp, blast, simp)
  then have "filter (\<lambda>a. ar_kind a \<noteq> ''input.settings_xml'') settings = []"
    by (simp add: filter_empty_conv)
  with assms show ?thesis by (simp add: prepared_rows_def ingest_kinds_def)
qed

lemma prepare_deploy_step:
  assumes ok: "db_ok d0"
  shows "sx_valid (\<lambda>s. dy_db s = d0) (prepare_deploy lp payload)
     (\<lambda>p s. \<exists>t g arts. dy_db s = d0\<lparr>db_tasks := db_tasks d0 @ [t], db_stages := db_stages d0 @ [g],
                db_artifacts := db_artifacts d0 @ arts\<rparr>
        \<and> partial d0 (d0\<lparr>db_tasks := db_tasks d0 @ [t], db_stages := db_stages d0 @ [g], db_artifacts := db_artifacts d0 @ arts\<rparr>)
        \<and> prepared_rows payload (fst p) (fst (snd (snd p))) t g arts
        \<and> fst (snd p) = make_build_spec_from_input payload (jd_sdk_name payload @ '':latest''))
     (\<lambda>_ s. partial d0 (dy_db s))"
  unfolding prepare_deploy_def Let_def
  apply (rule sx_valid_bind [OF create_task_step [OF partial_refl [OF ok]]])
  apply (rule sx_valid_pure, elim conjE)
  apply (rule sx_valid_bind [OF create_stage_step], assumption, simp)
  apply (rule sx_valid_pure, elim conjE)
  apply (rule sx_valid_bind [OF ingest_step], assumption, simp, simp)
  apply (rule sx_valid_pure, elim conjE)
  apply (rule sx_valid_bind [OF ingest_step], assumption, simp, simp)
  apply (rule sx_valid_pure, elim conjE)
  apply (rule sx_valid_bind [OF ingest_settings_step], assumption, simp, simp)
  apply (rule sx_valid_ex)
  apply (rule sx_valid_pure, elim conjE)
  apply (rule steady_bind [OF _ inspect_package_keeps], assumption)
  apply (rule sx_valid_bind [OF persist_step], assumption, simp, simp)
  apply (rule sx_valid_pure, elim conjE)
  apply (rule sx_valid_basic)
  subgoal for task stage jar pom u settings pst dockerfile s
    using prepared_rowsI [of task _ stage jar pom dockerfile settings payload]
    by (intro exI [of _ task] exI [of _ stage] exI [of _ "[jar, pom] @ settings @ [dockerfile]"]) simp
  done

lemma run_java_deploy_step:
  assumes ok: "db_ok d0"
  shows "sx_valid (\<lambda>s. dy_db s = d0) (run_java_deploy lp payload)
     (\<lambda>r s. recorded lp payload d0 r (dy_db s) \<and> db_ok (dy_db s)) (\<lambda>_ s. partial d0 (dy_db s))"
  unfolding run_java_deploy_def
proof (rule sx_valid_bind [OF prepare_deploy_step [OF ok]], intro sx_valid_ex sx_valid_pure, elim conjE)
  fix p :: "string \<times> build_image_spec \<times> string list \<times> string option" and t g arts
  let ?d = "d0\<lparr>db_tasks := db_tasks d0 @ [t], db_stages := db_stages d0 @ [g], db_artifacts := db_artifacts d0 @ arts\<rparr>"
  assume part: "partial d0 ?d" and rows: "prepared_rows payload (fst p) (fst (snd (snd p))) t g arts"
  obtain tid spec ids pst where p: "p = (tid, spec, ids, pst)" by (cases p) auto
  have "recorded lp payload d0 r (dy_db s)"
    if "dy_db s = ?d\<lparr>db_images := db_images ?d @ [i], db_containers := db_containers ?d @ [c],
               db_deployments := db_deployments ?d @ [m]\<rparr>" "engine_rows lp payload r i c m"
      "mr_task_id r = tid" "mr_artifact_ids r = ids" for r s i c m
    unfolding recorded_def
    by (rule exI [of _ t], rule exI [of _ g], rule exI [of _ arts], rule exI [of _ i], rule exI [of _ c], rule exI [of _ m])
      (use that rows p in simp)
  with p show "sx_valid (\<lambda>s. dy_db s = ?d)
      (case p of (tid, spec, artifact_ids, package_status) \<Rightarrow> deploy_build lp payload tid spec artifact_ids package_status)
      (\<lambda>r s. recorded lp payload d0 r (dy_db s) \<and> db_ok (dy_db s)) (\<lambda>_ s. partial d0 (dy_db s))"
    by (simp, intro sx_valid_weaken [OF deploy_build_step [OF part]]) blast+
qed

section \<open>Deploying an image twice\<close>

text \<open>The preparation writes no table of the registry.\<close>

definition registry_of :: "deploy_db \<Rightarrow> image_record list \<times> container_record list \<times> deployment_record list" where
  "registry_of d = (db_images d, db_containers d, db_deployments d)"

lemma keeps_registry_basic:
  "sx_keeps (\<lambda>s. registry_of (dy_db s) = k) (on_world m)"
  "sx_keeps (\<lambda>s. registry_of (dy_db s) = k) (from_world f)"
  by (auto simp: sx_keeps_def on_world_def from_world_def sx_zoom_def split: prod.split)

lemma keeps_registry_insert:
  "(\<And>rs d. registry_of (set_rows rs d) = registry_of d) \<Longrightarrow>
     sx_keeps (\<lambda>s. registry_of (dy_db s) = k) (on_file sv p (insert_into ready t rows set_rows add r))"
  unfolding on_file_def
  by (rule sx_keeps_bind [OF keeps_registry_basic(1)])
    (auto simp: sx_keeps_def on_db_def insert_into_def sx_zoom_def sx_bind_def sx_simps split: prod.split sum.split)

lemma keeps_registry_dirs: "sx_keeps (\<lambda>s. registry_of (dy_db s) = k) (ensure_task_dirs sv root_dir tid)"
proof -
  have "sx_keeps (\<lambda>s. registry_of (dy_db s) = k) (sx_map (\<lambda>p. on_world (ds_makedirs sv p)) ps)" for ps
    by (induction ps) (auto intro!: sx_keeps_bind keeps_registry_basic)
  then show ?thesis unfolding ensure_task_dirs_def Let_def by (intro sx_keeps_bind sx_keeps_basic)
qed

lemmas keeps_registry = sx_keeps_bind keeps_registry_basic keeps_registry_insert keeps_registry_dirs

lemma registry_of_updates [simp]:
  "registry_of (d\<lparr>db_tasks := ts\<rparr>) = registry_of d"
  "registry_of (d\<lparr>db_stages := gs\<rparr>) = registry_of d"
  "registry_of (d\<lparr>db_artifacts := as\<rparr>) = registry_of d"
  by (simp_all add: registry_of_def)

lemma persist_keeps_registry:
  "sx_keeps (\<lambda>s. registry_of (dy_db s) = k) (persist_artifact_bytes dc sv tid sid kind name content subdir mime act)"
  unfolding persist_artifact_bytes_def new_id_def insert_artifact_def Let_def
  by (intro keeps_registry sx_keeps_basic registry_of_updates)

lemma prepare_keeps_registry: "sx_keeps (\<lambda>s. registry_of (dy_db s) = k) (prepare_deploy lp payload)"
  unfolding prepare_deploy_def create_task_def create_stage_def ingest_file_def ingest_settings_def
    inspect_package_of_def new_id_def insert_task_def insert_stage_def Let_def
  by (cases "jd_settings_xml_bytes payload"; cases "lp_package_inspector lp"; simp only: option.case)
    (intro keeps_registry persist_keeps_registry sx_keeps_basic registry_of_updates)+

text \<open>A run with the driver and the clock of the test: the image, the container and the time are fixed.\<close>

definition sample_driver :: "unit build_driver" where
  "sample_driver =
     \<lparr>dd_ensure_image = (\<lambda>_ _. sx_return ''img1''),
      dd_create_container = (\<lambda>_. sx_return \<lparr>cf_container_id = ''c1'', cf_name = Some ''demo'', cf_status = Some ''created'', cf_attrs = []\<rparr>),
      dd_start_container = (\<lambda>_. sx_return ()),
      dd_exec = (\<lambda>_ _. sx_return \<lparr>xe_exit_code = Some 0, xe_stdout = None, xe_stderr = None, xe_combined = None,
                                 xe_duration_sec = 0, xe_timed_out = False, xe_meta = []\<rparr>),
      dd_put_archive = (\<lambda>_ _ _. sx_return ()), dd_get_archive = (\<lambda>_ _. sx_return ([], [])), dd_logs = (\<lambda>_ _. sx_return []),
      dd_inspect_container = (\<lambda>c. sx_return \<lparr>cf_container_id = c, cf_name = Some ''demo'', cf_status = Some ''running'', cf_attrs = []\<rparr>),
      dd_stop_container = (\<lambda>_ _. sx_return ()), dd_remove_container = (\<lambda>_ _ _. sx_return ()),
      dd_build_image = (\<lambda>_. sx_return \<lparr>bi_image_id = ''img1'', bi_tags = [''demo:latest''], bi_logs = []\<rparr>)\<rparr>"

text \<open>Each UUID is a longer run of the same digit.\<close>

definition sample_services :: "nat deploy_services" where
  "sample_services =
     \<lparr>ds_open = (\<lambda>_. sx_return ()), ds_now_iso = (\<lambda>n. (''t'', n)), ds_uuid_hex = (\<lambda>n. (replicate n (CHR ''0''), Suc n)),
      ds_now_fn = sx_return ''t'', ds_makedirs = (\<lambda>_. sx_return ()), ds_write_file = (\<lambda>_ _. sx_return ()),
      ds_sha256 = take 8, ds_sha1 = take 8\<rparr>"

definition sample_parts :: "(unit, nat) loop_parts" where
  "sample_parts =
     \<lparr>lp_config = \<lparr>dc_artifact_db = ''a.db'', dc_registry_db = ''r.db'', dc_artifact_root = ''root'', dc_engine_id = ''engine_X''\<rparr>,
      lp_services = sample_services, lp_driver = sample_driver, lp_runtime_driver = sample_driver, lp_package_inspector = None,
      lp_env_inspector = None\<rparr>"

definition sample_payload :: java_deploy_input where
  "sample_payload =
     \<lparr>jd_sdk_name = ''demo'', jd_sdk_version = Some ''1.0.0'', jd_jar_bytes = ''jar'', jd_pom_xml_bytes = ''<project/>'',
      jd_settings_xml_bytes = Some ''<s/>'', jd_jdk_bytes = None\<rparr>"

definition empty_db :: deploy_db where
  "empty_db =
     \<lparr>db_artifact_schema = True, db_tasks = [], db_stages = [], db_artifacts = [], db_registry_schema = True,
      db_hosts = [], db_engines = [], db_images = [], db_containers = [], db_deployments = []\<rparr>"

definition sample_state :: "(unit, nat) deploy_state" where
  "sample_state = \<lparr>dy_driver = (), dy_world = 1, dy_db = empty_db\<rparr>"

lemma empty_db_ok: "db_ok empty_db"
  by (simp add: db_ok_def empty_db_def keyed_def)

lemmas sample_simps =
  sample_parts_def sample_services_def sample_driver_def sample_payload_def sample_state_def empty_db_def
  prepare_deploy_def deploy_build_def create_task_def create_stage_def ingest_file_def ingest_settings_def
  persist_artifact_bytes_def inspect_package_of_def inspect_env_of_def register_image_def rt_create_container_def
  create_deployment_record_def new_id_def ensure_task_dirs_def insert_task_def insert_stage_def insert_artifact_def
  insert_image_def insert_container_def insert_deployment_def insert_into_def insert_row_def on_file_def
  on_world_def from_world_def on_engine_def on_db_def sx_zoom_def sx_bind_def sx_simps hex_upper_def dvalues_def task_paths_def

lemma sample_prepare_returns:
  "\<exists>tid arts s. prepare_deploy sample_parts sample_payload sample_state
     = (Inr (tid, make_build_spec_from_input sample_payload ''demo:latest'', arts, None), s)
     \<and> dy_driver s = () \<and> db_images (dy_db s) = [] \<and> db_containers (dy_db s) = [] \<and> db_deployments (dy_db s) = []
     \<and> db_registry_schema (dy_db s)"
  by (simp add: sample_simps Let_def numeral_eq_Suc)


lemma sample_deploy_returns:
  "\<exists>r s. run_java_deploy sample_parts sample_payload sample_state = (Inr r, s)"
proof -
  obtain tid arts s where p: "prepare_deploy sample_parts sample_payload sample_state
     = (Inr (tid, make_build_spec_from_input sample_payload ''demo:latest'', arts, None), s)"
    and s: "db_images (dy_db s) = []" "db_containers (dy_db s) = []" "db_deployments (dy_db s) = []"
      "db_registry_schema (dy_db s)"
    using sample_prepare_returns by blast
  have "\<exists>r t. deploy_build sample_parts sample_payload tid (make_build_spec_from_input sample_payload ''demo:latest'') arts None s
      = (Inr r, t)"
    by (cases s) (use s in \<open>simp add: sample_simps Let_def make_container_spec_def\<close>)
  with p show ?thesis by (simp add: run_java_deploy_def sx_bind_def)
qed

text \<open>
  C17: a deployment that returns has recorded everything it did: the stores are extended by one task, one stage, the
  artifacts of its inputs and its Dockerfile, one image, one container and one deployment, all linked by the ids of
  the result (whose artifacts leave out the settings file). A deployment that raises has recorded no deployment, kept
  every earlier row, and left every table keyed and every reference between the rows intact.
\<close>

theorem deployments_are_recorded:
  assumes "db_ok (dy_db s)"
  shows "case run_java_deploy lp payload s of
      (Inr r, s') \<Rightarrow> recorded lp payload (dy_db s) r (dy_db s') \<and> db_ok (dy_db s')
    | (Inl e, s') \<Rightarrow> partial (dy_db s) (dy_db s')"
  using run_java_deploy_step [OF assms, of lp payload] unfolding sx_valid_def by (fastforce split: prod.split sum.split)

theorem deployments_are_recorded_witness:
  "\<exists>r s'. run_java_deploy sample_parts sample_payload sample_state = (Inr r, s')
     \<and> recorded sample_parts sample_payload empty_db r (dy_db s')"
proof -
  obtain r s' where r: "run_java_deploy sample_parts sample_payload sample_state = (Inr r, s')"
    using sample_deploy_returns by blast
  with deployments_are_recorded [of sample_state sample_parts sample_payload] empty_db_ok show ?thesis
    by (simp add: sample_state_def)
qed

lemma deploy_build_image:
  assumes "\<And>d r d'. dd_build_image (lp_driver lp) spec d = (Inr r, d') \<Longrightarrow> bi_image_id r = iid"
  shows "deploy_build lp payload tid spec arts pst s = (Inr r, s') \<Longrightarrow> mr_image_id r = iid"
  unfolding deploy_build_def using assms
  by (fastforce dest!: sx_bind_result simp: on_engine_def sx_zoom_def sx_simps split: prod.splits)

lemma result_image:
  assumes "db_ok (dy_db s)"
    and "\<And>spec d r d'. dd_build_image (lp_driver lp) spec d = (Inr r, d') \<Longrightarrow> bi_image_id r = image_of spec"
    and "run_java_deploy lp payload s = (Inr r, s')"
  shows "mr_image_id r = image_of (make_build_spec_from_input payload (jd_sdk_name payload @ '':latest''))"
proof -
  from assms(3) obtain p t where p: "prepare_deploy lp payload s = (Inr p, t)"
    "deploy_build lp payload (fst p) (fst (snd p)) (fst (snd (snd p))) (snd (snd (snd p))) t = (Inr r, s')"
    unfolding run_java_deploy_def split_def by (blast dest: sx_bind_result)
  have "fst (snd p) = make_build_spec_from_input payload (jd_sdk_name payload @ '':latest'')"
    using sx_validD(1) [OF prepare_deploy_step [OF assms(1), of lp payload] refl p(1)] by blast
  with deploy_build_image [OF assms(2) p(2)] show ?thesis by simp
qed

text \<open>A registration that returns found the registry's tables, so they are there after a deployment.\<close>

lemma register_finds_schema:
  "sx_valid (\<lambda>s. dy_db s = d) (register_image dc sv iid tags ty src) (\<lambda>_ _. db_registry_schema d) (\<lambda>_ _. True)"
  by (auto simp: sx_valid_def register_image_def insert_image_def on_file_def on_world_def on_db_def sx_zoom_def sx_bind_def
      sx_simps Let_def insert_into_def split: prod.splits sum.splits if_splits)

lemma deployment_finds_schema:
  "sx_valid (\<lambda>s. dy_db s = d) (deploy_build lp payload tid spec arts pst) (\<lambda>_ _. db_registry_schema d) (\<lambda>_ _. True)"
  unfolding deploy_build_def
proof (rule sx_valid_seq)
  show "sx_valid (\<lambda>s. dy_db s = d) (on_engine (dd_build_image (lp_driver lp) spec)) (\<lambda>_ s. dy_db s = d) (\<lambda>_ _. True)"
    by (auto simp: sx_valid_def on_engine_def sx_zoom_def split: prod.split sum.split)
qed (rule sx_valid_bind [OF register_finds_schema], auto simp: sx_valid_def split: prod.splits sum.splits)

lemma deployed_schema:
  assumes "db_ok (dy_db s)" "run_java_deploy lp payload s = (Inr r, s')"
  shows "db_registry_schema (dy_db s')"
proof -
  from assms(2) obtain p t where p: "prepare_deploy lp payload s = (Inr p, t)"
    "deploy_build lp payload (fst p) (fst (snd p)) (fst (snd (snd p))) (snd (snd (snd p))) t = (Inr r, s')"
    unfolding run_java_deploy_def split_def by (blast dest: sx_bind_result)
  have "db_registry_schema (dy_db t)" using sx_validD(1) [OF deployment_finds_schema refl p(2)] .
  then show ?thesis
    using sx_validD(1) [OF prepare_deploy_step [OF assms(1), of lp payload] refl p(1)]
      sx_validD(1) [OF run_java_deploy_step [OF assms(1), of lp payload] refl assms(2)]
    by (auto simp: recorded_def)
qed

lemma register_known_error:
  assumes "iid \<in> ids im_image_id (db_images (dy_db v))" "db_registry_schema (dy_db v)"
  shows "\<exists>e w. register_image dc sv iid tags ty src v = (Inl e, v\<lparr>dy_world := w\<rparr>)
     \<and> (sx_total (ds_now_fn sv) \<and> sx_total (ds_open sv (dc_registry_db dc))
          \<longrightarrow> e = Exc ''IntegrityError'' ''UNIQUE constraint failed'')"
proof (cases "ds_now_fn sv (dy_world v)")
  case (Pair q w)
  show ?thesis
  proof (cases q)
    case (Inl e)
    with Pair sx_totalD [of "ds_now_fn sv" "dy_world v"] show ?thesis
      by (auto simp: register_image_def on_world_def sx_zoom_def sx_bind_def)
  next
    case now: (Inr x)
    obtain q' w' where opened: "ds_open sv (dc_registry_db dc) w = (q', w')" by fastforce
    show ?thesis
    proof (cases q')
      case (Inl e)
      with Pair now opened sx_totalD [of "ds_open sv (dc_registry_db dc)" w] show ?thesis
        by (auto simp: register_image_def insert_image_def on_file_def on_world_def sx_zoom_def sx_bind_def Let_def)
    next
      case (Inr y)
      with Pair now opened assms show ?thesis
        by (auto simp: register_image_def insert_image_def on_file_def on_world_def on_db_def sx_zoom_def sx_bind_def Let_def
            insert_into_def insert_row_def sx_simps ids_def)
    qed
  qed
qed

lemma build_of_known_image_ends:
  assumes "\<forall>b v. on_engine (dd_build_image (lp_driver lp) spec) t = (Inr b, v) \<longrightarrow>
      bi_image_id b \<in> ids im_image_id (db_images (dy_db t))" "db_registry_schema (dy_db t)"
  shows "\<exists>e u. deploy_build lp payload tid spec arts pst t = (Inl e, u) \<and> dy_db u = dy_db t
     \<and> (case on_engine (dd_build_image (lp_driver lp) spec) t of
          (Inl e', v) \<Rightarrow> e = e' \<and> u = v
        | (Inr b, v) \<Rightarrow> (\<exists>w. u = v\<lparr>dy_world := w\<rparr>)
            \<and> (sx_total (ds_now_fn (lp_services lp)) \<and> sx_total (ds_open (lp_services lp) (dc_registry_db (lp_config lp)))
                 \<longrightarrow> e = Exc ''IntegrityError'' ''UNIQUE constraint failed''))"
proof (cases "on_engine (dd_build_image (lp_driver lp) spec) t")
  case (Pair q v)
  then have db: "dy_db v = dy_db t" by (auto simp: on_engine_def sx_zoom_def split: prod.splits)
  show ?thesis
  proof (cases q)
    case (Inl e)
    with Pair db show ?thesis by (simp add: deploy_build_def sx_bind_def)
  next
    case (Inr b)
    with assms Pair db obtain e w where "register_image (lp_config lp) (lp_services lp) (bi_image_id b) (bi_tags b) ''built'' (Some tid) v
        = (Inl e, v\<lparr>dy_world := w\<rparr>)"
      "sx_total (ds_now_fn (lp_services lp)) \<and> sx_total (ds_open (lp_services lp) (dc_registry_db (lp_config lp)))
         \<longrightarrow> e = Exc ''IntegrityError'' ''UNIQUE constraint failed''"
      using register_known_error [of "bi_image_id b" v "lp_config lp" "lp_services lp"] by metis
    with Pair Inr db show ?thesis by (auto simp: deploy_build_def sx_bind_def)
  qed
qed

text \<open>
  C18: an image is deployed at most once. When builds are reproducible (the image id is a function of the build
  specification, as it is for an unchanged context), running the same deployment again after it succeeded raises. Either
  its preparation raises, and the tables of the registry are as they were; or all it adds to the stores is the new task
  with its stage and artifacts, which stay behind without a deployment: the build's own error leaves it, or the
  known image id is refused as a duplicate key (\<open>IntegrityError\<close>, when the clock and the registry file answer), and the
  build was the last the engine was asked for, so no second container is made.
\<close>

theorem second_deployment_fails:
  assumes "db_ok (dy_db s)"
    and "\<And>spec d r d'. dd_build_image (lp_driver lp) spec d = (Inr r, d') \<Longrightarrow> bi_image_id r = image_of spec"
    and "run_java_deploy lp payload s = (Inr r, s')"
  shows "\<exists>e u. run_java_deploy lp payload s' = (Inl e, u)
     \<and> (case prepare_deploy lp payload s' of
          (Inl e', t) \<Rightarrow> e = e' \<and> u = t \<and> registry_of (dy_db u) = registry_of (dy_db s')
        | (Inr (tid, spec, artifact_ids, status), t) \<Rightarrow>
            (\<exists>task stage arts. prepared_rows payload tid artifact_ids task stage arts
               \<and> dy_db u = (dy_db s')\<lparr>db_tasks := db_tasks (dy_db s') @ [task], db_stages := db_stages (dy_db s') @ [stage],
                    db_artifacts := db_artifacts (dy_db s') @ arts\<rparr>)
            \<and> (case on_engine (dd_build_image (lp_driver lp) spec) t of
                 (Inl e', v) \<Rightarrow> e = e' \<and> u = v
               | (Inr b, v) \<Rightarrow> (\<exists>w. u = v\<lparr>dy_world := w\<rparr>)
                   \<and> (sx_total (ds_now_fn (lp_services lp)) \<and> sx_total (ds_open (lp_services lp) (dc_registry_db (lp_config lp)))
                        \<longrightarrow> e = Exc ''IntegrityError'' ''UNIQUE constraint failed'')))"
proof -
  let ?spec = "make_build_spec_from_input payload (jd_sdk_name payload @ '':latest'')"
  have run: "recorded lp payload (dy_db s) r (dy_db s')" "db_ok (dy_db s')"
    using sx_validD(1) [OF run_java_deploy_step [OF assms(1), of lp payload] refl assms(3)] by simp_all
  have known: "image_of ?spec \<in> ids im_image_id (db_images (dy_db s'))"
    using run(1) result_image [OF assms(1,2,3)] by (auto simp: recorded_def engine_rows_def)
  obtain q t where q: "prepare_deploy lp payload s' = (q, t)" by fastforce
  have reg: "registry_of (dy_db t) = registry_of (dy_db s')"
    using prepare_keeps_registry [of "registry_of (dy_db s')" lp payload] q by (auto simp: sx_keeps_def)
  show ?thesis
  proof (cases q)
    case (Inl e)
    with q reg show ?thesis by (simp add: run_java_deploy_def sx_bind_def)
  next
    case (Inr p)
    obtain tid spec ids status where p: "p = (tid, spec, ids, status)" by (cases p) auto
    obtain task stage arts where rows: "prepared_rows payload tid ids task stage arts" "spec = ?spec"
      "dy_db t = (dy_db s')\<lparr>db_tasks := db_tasks (dy_db s') @ [task], db_stages := db_stages (dy_db s') @ [stage],
          db_artifacts := db_artifacts (dy_db s') @ arts\<rparr>"
      using sx_validD(1) [OF prepare_deploy_step [OF run(2), of lp payload] refl q [unfolded Inr p]] by auto
    have imgs: "\<forall>b v. on_engine (dd_build_image (lp_driver lp) spec) t = (Inr b, v) \<longrightarrow>
        bi_image_id b \<in> RuntimeRegistry.ids im_image_id (db_images (dy_db t))"
      using assms(2) known reg rows(2) by (auto simp: registry_of_def on_engine_def sx_zoom_def split: prod.splits)
    have schema: "db_registry_schema (dy_db t)" using deployed_schema [OF assms(1,3)] by (simp add: rows(3))
    obtain e u where ends: "deploy_build lp payload tid spec ids status t = (Inl e, u)" "dy_db u = dy_db t"
      "case on_engine (dd_build_image (lp_driver lp) spec) t of
          (Inl e', v) \<Rightarrow> e = e' \<and> u = v
        | (Inr b, v) \<Rightarrow> (\<exists>w. u = v\<lparr>dy_world := w\<rparr>)
            \<and> (sx_total (ds_now_fn (lp_services lp)) \<and> sx_total (ds_open (lp_services lp) (dc_registry_db (lp_config lp)))
                 \<longrightarrow> e = Exc ''IntegrityError'' ''UNIQUE constraint failed'')"
      using build_of_known_image_ends [OF imgs schema, where payload = payload and tid = tid and arts = ids and pst = status] by (elim exE conjE) (rule that)
    have fails: "run_java_deploy lp payload s' = (Inl e, u)" using q Inr p ends(1) by (simp add: run_java_deploy_def sx_bind_def)
    have kept: "dy_db u = (dy_db s')\<lparr>db_tasks := db_tasks (dy_db s') @ [task], db_stages := db_stages (dy_db s') @ [stage],
          db_artifacts := db_artifacts (dy_db s') @ arts\<rparr>"
      by (simp only: ends(2) rows(3))
    show ?thesis
      unfolding q Inr p prod.case sum.case by (intro exI conjI) (rule fails rows(1) kept ends(3))+
  qed
qed

theorem second_deployment_fails_witness:
  "\<exists>r s' e s''. run_java_deploy sample_parts sample_payload sample_state = (Inr r, s')
     \<and> run_java_deploy sample_parts sample_payload s' = (Inl e, s'')"
proof -
  obtain r s' where r: "run_java_deploy sample_parts sample_payload sample_state = (Inr r, s')"
    using sample_deploy_returns by blast
  have img: "bi_image_id b = ''img1''" if "dd_build_image (lp_driver sample_parts) spec d = (Inr b, d')" for spec d b d'
    using that by (auto simp: sample_parts_def sample_driver_def sx_simps)
  have ok: "db_ok (dy_db sample_state)" by (simp add: sample_state_def empty_db_ok)
  show ?thesis
  proof (rule exE [OF second_deployment_fails [where image_of = "\<lambda>_. ''img1''", OF ok _ r]])
    show "bi_image_id b = ''img1''" if "dd_build_image (lp_driver sample_parts) spec d = (Inr b, d')" for spec d b d'
      using that by (rule img)
  qed (use r in blast)
qed

section \<open>Deployments over the Docker SDK\<close>

context build_driver_contract
begin

lemma deployed_image_has_id:
  assumes "lp_driver lp = dd" "run_java_deploy lp payload s = (Inr r, s')"
  shows "mr_image_id r \<noteq> []"
proof -
  from assms(2) obtain p t where "deploy_build lp payload (fst p) (fst (snd p)) (fst (snd (snd p))) (snd (snd (snd p))) t = (Inr r, s')"
    unfolding run_java_deploy_def split_def by (blast dest: sx_bind_result)
  then show ?thesis
    unfolding deploy_build_def using assms(1) build_id
    by (fastforce dest!: sx_bind_result simp: on_engine_def sx_zoom_def sx_simps split: prod.splits)
qed

end

lemma sdk_deployment_has_image:
  "lp_driver lp = docker_sdk_driver dk \<Longrightarrow> run_java_deploy lp payload s = (Inr r, s') \<Longrightarrow> mr_image_id r \<noteq> []"
  by (rule sdk.deployed_image_has_id)

text \<open>A container that cannot be started stays behind: nothing removes it and no row names it.\<close>

lemma failed_start_leaves_container:
  assumes "dd_create_container dd spec d = (Inr ref, d1)" "dd_start_container dd (cf_container_id ref) d1 = (Inl e, d2)"
  shows "rt_create_container dc sv dd spec owner \<lparr>dy_driver = d, dy_world = w, dy_db = db\<rparr>
     = (Inl e, \<lparr>dy_driver = d2, dy_world = w, dy_db = db\<rparr>)"
  using assms by (simp add: rt_create_container_def on_engine_def sx_zoom_def sx_bind_def)

end
