(* ===== verification/HttpFetch.thy ===== *)
theory HttpFetch
  imports CrawlPolicy StateExc
begin

text \<open>
  The HTTP fetcher \<open>webkit/fetchers/http.py\<close> and its wrapper \<open>agent_crawler/fetch/http_fetcher.py\<close>: retries with
  backoff, the limiter per host, the disk cache with revalidation. The HTTP client, the clock, the random numbers and
  faults of the disk are services on a world \<open>'w\<close>. A cached file is what \<open>save\<close> wrote, or damaged; the paths of a
  key are functions of the key, so files are kept by key.
\<close>

section \<open>Models\<close>

record retry_policy =
  rt_max_attempts :: int
  rt_base_backoff :: rat
  rt_max_backoff :: rat
  rt_jitter :: rat

definition default_retry_policy :: retry_policy where
  "default_retry_policy =
     \<lparr>rt_max_attempts = 4, rt_base_backoff = 6 / 10, rt_max_backoff = 8, rt_jitter = 25 / 100\<rparr>"

definition retryable_statuses :: "int list" where
  "retryable_statuses = [429, 500, 502, 503, 504]"

record fetch_response =
  fr_url :: string
  fr_final_url :: string
  fr_status_code :: int
  fr_headers :: "string dict"
  fr_content :: string
  fr_encoding :: "string option"
  fr_fetched_at :: rat

record cache_meta =
  cm_final_url :: string
  cm_status_code :: int
  cm_headers :: "string dict"
  cm_encoding :: "string option"
  cm_fetched_at :: rat
  cm_stale :: bool

datatype 'a stored_file = Readable 'a | Damaged

record disk_cache =
  kc_ttl_s :: rat
  kc_bodies :: "string stored_file dict"
  kc_metas :: "cache_meta stored_file dict"

record host_limiter =
  hl_min_interval :: rat
  hl_next_time :: "rat dict"

record http_reply =
  hp_status :: int
  hp_url :: string
  hp_headers :: "(string \<times> string) list"
  hp_content :: string
  hp_encoding :: "string option"

text \<open>
  \<open>hs_disk\<close> is what writing or replacing one file may raise; \<open>hs_transient\<close> tells the exceptions of the client that
  the loop retries (timeouts, failed connections, broken responses).
\<close>

text \<open>
  The limiter a fetcher is given: a \<open>HostLimiter\<close>, as by default, or another object whose guard of a host is entered
  and left by operations of its own.
\<close>

datatype 'w limiter_object = HostLimiterObject | OtherLimiter "string \<Rightarrow> ('w, unit) sx" "string \<Rightarrow> ('w, unit) sx"

record 'w http_services =
  hs_limiter :: "'w limiter_object"
  hs_sha256 :: "string \<Rightarrow> string"
  hs_time :: "'w \<Rightarrow> rat \<times> 'w"
  hs_monotonic :: "'w \<Rightarrow> rat \<times> 'w"
  hs_sleep :: "rat \<Rightarrow> 'w \<Rightarrow> 'w"
  hs_uniform :: "rat \<Rightarrow> 'w \<Rightarrow> rat \<times> 'w"
  hs_disk :: "string \<Rightarrow> ('w, unit) sx"
  hs_new_client :: "('w, unit) sx"
  hs_close_client :: "('w, unit) sx"
  hs_get :: "string \<Rightarrow> string dict \<Rightarrow> ('w, http_reply) sx"
  hs_transient :: "exc \<Rightarrow> bool"

record 'w http_fetcher =
  hf_retry :: retry_policy
  hf_limiter :: host_limiter
  hf_cache :: disk_cache
  hf_client :: bool
  hf_world :: 'w

type_synonym ('w, 'a) hfx = "('w http_fetcher, 'a) sx"

definition hf_op :: "('w, 'a) sx \<Rightarrow> ('w, 'a) hfx" where
  "hf_op = sx_zoom hf_world (\<lambda>w s. s\<lparr>hf_world := w\<rparr>)"

definition hf_read :: "('w \<Rightarrow> 'a \<times> 'w) \<Rightarrow> ('w, 'a) hfx" where
  "hf_read f = hf_op (\<lambda>w. case f w of (a, w') \<Rightarrow> (Inr a, w'))"

definition hf_sleep :: "'w http_services \<Rightarrow> rat \<Rightarrow> ('w, unit) hfx" where
  "hf_sleep sv d = hf_op (\<lambda>w. (Inr (), hs_sleep sv d w))"

section \<open>Backoff and limiter\<close>

definition backoff_base :: "retry_policy \<Rightarrow> int \<Rightarrow> rat" where
  "backoff_base rt attempt = min (rt_max_backoff rt) (rt_base_backoff rt * 2 ^ nat (attempt - 1))"

definition backoff :: "'w http_services \<Rightarrow> retry_policy \<Rightarrow> int \<Rightarrow> ('w, rat) hfx" where
  "backoff sv rt attempt =
     sx_bind (hf_read (hs_uniform sv (rt_jitter rt))) (\<lambda>r. sx_return (backoff_base rt attempt + r))"

text \<open>
  \<open>HostLimiter.__aenter_host\<close>, with the semaphore free: the wait for the host's next time is under a lock in the code,
  so it is one step whatever else runs. Nothing calls it: see \<open>guard_enter\<close>.
\<close>

definition limiter_enter :: "'w http_services \<Rightarrow> string \<Rightarrow> ('w, unit) hfx" where
  "limiter_enter sv host =
     sx_bind sx_get (\<lambda>s.
     sx_bind (hf_read (hs_monotonic sv)) (\<lambda>now.
       let wait = dget_default (hl_next_time (hf_limiter s)) host 0 - now in
       sx_bind (if 0 < wait then hf_sleep sv wait else sx_return ()) (\<lambda>_.
       sx_bind (hf_read (hs_monotonic sv)) (\<lambda>start.
         sx_modify (\<lambda>s. s\<lparr>hf_limiter := (hf_limiter s)
           \<lparr>hl_next_time := dput host (start + hl_min_interval (hf_limiter s)) (hl_next_time (hf_limiter s))\<rparr>\<rparr>)))))"

text \<open>
  The guard of \<open>HostLimiter.guard\<close> is an instance of the nested class \<open>_Guard\<close>. Inside a class Python replaces a name
  \<open>__x\<close> by one with the class's own name, so its methods look up \<open>_Guard__aenter_host\<close> and \<open>_Guard__aexit_host\<close>, and the
  limiter only has \<open>_HostLimiter__aenter_host\<close> and \<open>_HostLimiter__aexit_host\<close>.
\<close>

definition no_attribute :: "string \<Rightarrow> exc" where
  "no_attribute name =
     Exc ''AttributeError'' ([CHR 0x27] @ ''HostLimiter'' @ [CHR 0x27] @ '' object has no attribute '' @ [CHR 0x27] @ name @ [CHR 0x27])"

definition guard_enter :: "'w http_services \<Rightarrow> string \<Rightarrow> ('w, unit) hfx" where
  "guard_enter sv host =
     (case hs_limiter sv of
        HostLimiterObject \<Rightarrow> sx_raise (no_attribute ''_Guard__aenter_host'')
      | OtherLimiter enter leave \<Rightarrow> hf_op (enter host))"

definition guard_exit :: "'w http_services \<Rightarrow> string \<Rightarrow> ('w, unit) hfx" where
  "guard_exit sv host =
     (case hs_limiter sv of
        HostLimiterObject \<Rightarrow> sx_raise (no_attribute ''_Guard__aexit_host'')
      | OtherLimiter enter leave \<Rightarrow> hf_op (leave host))"

text \<open>\<open>async with self._limiter.guard(host)\<close>\<close>

definition guarded_get :: "'w http_services \<Rightarrow> string \<Rightarrow> string \<Rightarrow> string dict \<Rightarrow> ('w, http_reply) hfx" where
  "guarded_get sv host url headers =
     sx_bind (guard_enter sv host) (\<lambda>_. sx_finally (hf_op (hs_get sv url headers)) (guard_exit sv host))"

section \<open>The disk cache\<close>

definition cache_load :: "'w http_services \<Rightarrow> string \<Rightarrow> ('w, (string \<times> cache_meta) option) hfx" where
  "cache_load sv url =
     sx_bind sx_get (\<lambda>s.
       let key = hs_sha256 sv url; kc = hf_cache s in
       case (dget (kc_bodies kc) key, dget (kc_metas kc) key) of
         (Some body_file, Some (Readable meta)) \<Rightarrow>
           sx_bind (if 0 < kc_ttl_s kc
                    then sx_bind (hf_read (hs_time sv)) (\<lambda>now. sx_return (now - cm_fetched_at meta > kc_ttl_s kc))
                    else sx_return False) (\<lambda>stale.
             let meta = (if stale then meta\<lparr>cm_stale := True\<rparr> else meta) in
             case body_file of
               Readable body \<Rightarrow> sx_return (Some (body, meta))
             | Damaged \<Rightarrow> sx_return None)
       | _ \<Rightarrow> sx_return None)"

definition put_body :: "string \<Rightarrow> string \<Rightarrow> 'w http_fetcher \<Rightarrow> 'w http_fetcher" where
  "put_body key body s = s\<lparr>hf_cache := (hf_cache s)\<lparr>kc_bodies := dput key (Readable body) (kc_bodies (hf_cache s))\<rparr>\<rparr>"

definition put_meta :: "string \<Rightarrow> cache_meta \<Rightarrow> 'w http_fetcher \<Rightarrow> 'w http_fetcher" where
  "put_meta key meta s = s\<lparr>hf_cache := (hf_cache s)\<lparr>kc_metas := dput key (Readable meta) (kc_metas (hf_cache s))\<rparr>\<rparr>"

text \<open>Two temporary files are written, then each replaces its file.\<close>

definition cache_save :: "'w http_services \<Rightarrow> string \<Rightarrow> string \<Rightarrow> cache_meta \<Rightarrow> ('w, unit) hfx" where
  "cache_save sv url body meta =
     (let key = hs_sha256 sv url in
      sx_bind (hf_read (hs_time sv)) (\<lambda>now.
      sx_bind (hf_op (hs_disk sv ''write body'')) (\<lambda>_.
      sx_bind (hf_op (hs_disk sv ''write meta'')) (\<lambda>_.
      sx_bind (hf_op (hs_disk sv ''replace body'')) (\<lambda>_.
      sx_bind (sx_modify (put_body key body)) (\<lambda>_.
      sx_bind (hf_op (hs_disk sv ''replace meta'')) (\<lambda>_.
        sx_modify (put_meta key (meta\<lparr>cm_fetched_at := now\<rparr>)))))))))"

section \<open>Fetching\<close>

definition get_header :: "string dict \<Rightarrow> string \<Rightarrow> string option" where
  "get_header hs k = (case dget hs k of Some v \<Rightarrow> if v = [] then None else Some v | None \<Rightarrow> None)"

definition conditional_headers :: "cache_meta \<Rightarrow> string dict" where
  "conditional_headers meta =
     (case get_header (cm_headers meta) ''etag'' of None \<Rightarrow> [] | Some t \<Rightarrow> [(''If-None-Match'', t)])
     @ (case get_header (cm_headers meta) ''last-modified'' of None \<Rightarrow> [] | Some t \<Rightarrow> [(''If-Modified-Since'', t)])"

definition lower_headers :: "(string \<times> string) list \<Rightarrow> string dict" where
  "lower_headers hs = dict_by (\<lambda>p. py_lower (fst p)) snd hs"

definition kept_headers :: "string dict \<Rightarrow> string dict" where
  "kept_headers hdrs =
     concat (map (\<lambda>k. case get_header hdrs k of None \<Rightarrow> [] | Some v \<Rightarrow> [(k, v)]) [''content-type'', ''etag'', ''last-modified''])"

text \<open>A cached response that is fresh. \<open>time.time()\<close> is evaluated as the default of a lookup.\<close>

definition fresh_response :: "'w http_services \<Rightarrow> string \<Rightarrow> string \<Rightarrow> cache_meta \<Rightarrow> ('w, fetch_response) hfx" where
  "fresh_response sv url body meta =
     sx_bind (hf_read (hs_time sv)) (\<lambda>_. sx_return
       \<lparr>fr_url = url, fr_final_url = cm_final_url meta, fr_status_code = cm_status_code meta,
        fr_headers = cm_headers meta, fr_content = body, fr_encoding = cm_encoding meta,
        fr_fetched_at = cm_fetched_at meta\<rparr>)"

definition ensure_client :: "'w http_services \<Rightarrow> ('w, unit) hfx" where
  "ensure_client sv =
     sx_bind sx_get (\<lambda>s.
       if hf_client s then sx_return ()
       else sx_bind (hf_op (hs_new_client sv)) (\<lambda>_. sx_modify (\<lambda>s. s\<lparr>hf_client := True\<rparr>)))"

text \<open>The body of the \<open>try\<close> block: \<open>None\<close> is \<open>continue\<close>.\<close>

definition not_modified ::
  "'w http_services \<Rightarrow> string \<Rightarrow> http_reply \<Rightarrow> string \<Rightarrow> cache_meta \<Rightarrow> ('w, fetch_response option) hfx" where
  "not_modified sv url resp body meta =
     sx_bind (cache_save sv url body (meta\<lparr>cm_stale := False\<rparr>)) (\<lambda>_.
     sx_bind (hf_read (hs_time sv)) (\<lambda>now. sx_return (Some
       \<lparr>fr_url = url, fr_final_url = hp_url resp, fr_status_code = 200, fr_headers = lower_headers (cm_headers meta),
        fr_content = body, fr_encoding = cm_encoding meta, fr_fetched_at = now\<rparr>)))"

definition reply_meta :: "http_reply \<Rightarrow> cache_meta" where
  "reply_meta resp =
     \<lparr>cm_final_url = hp_url resp, cm_status_code = hp_status resp, cm_headers = kept_headers (lower_headers (hp_headers resp)),
      cm_encoding = hp_encoding resp, cm_fetched_at = 0, cm_stale = False\<rparr>"

definition accept_reply :: "'w http_services \<Rightarrow> string \<Rightarrow> http_reply \<Rightarrow> ('w, fetch_response option) hfx" where
  "accept_reply sv url resp =
     sx_bind (if hp_status resp = 200 \<and> hp_content resp \<noteq> []
              then cache_save sv url (hp_content resp) (reply_meta resp) else sx_return ()) (\<lambda>_.
     sx_bind (hf_read (hs_time sv)) (\<lambda>now. sx_return (Some
       \<lparr>fr_url = url, fr_final_url = hp_url resp, fr_status_code = hp_status resp,
        fr_headers = lower_headers (hp_headers resp), fr_content = hp_content resp, fr_encoding = hp_encoding resp,
        fr_fetched_at = now\<rparr>)))"

definition try_once ::
  "'w http_services \<Rightarrow> string \<Rightarrow> string \<Rightarrow> string dict \<Rightarrow> (string \<times> cache_meta) option \<Rightarrow> int \<Rightarrow> ('w, fetch_response option) hfx" where
  "try_once sv host url headers cached attempt =
     sx_bind (guarded_get sv host url headers) (\<lambda>resp.
     sx_bind sx_get (\<lambda>s.
       case (if hp_status resp = 304 then cached else None) of
         Some (body, meta) \<Rightarrow> not_modified sv url resp body meta
       | None \<Rightarrow>
           if hp_status resp \<in> set retryable_statuses \<and> attempt < rt_max_attempts (hf_retry s)
           then sx_bind (backoff sv (hf_retry s) attempt) (\<lambda>d. sx_bind (hf_sleep sv d) (\<lambda>_. sx_return None))
           else accept_reply sv url resp))"

text \<open>
  The attempts from number \<open>attempt\<close> on, \<open>left\<close> many: the response, or the exception the loop ended with
  (\<open>None\<close> when there was none).
\<close>

fun fetch_attempts ::
  "'w http_services \<Rightarrow> string \<Rightarrow> string \<Rightarrow> string dict \<Rightarrow> (string \<times> cache_meta) option \<Rightarrow> nat \<Rightarrow> int \<Rightarrow> exc option
   \<Rightarrow> ('w, exc option + fetch_response) hfx" where
  "fetch_attempts sv host url headers cached 0 attempt last_exc = sx_return (Inl last_exc)"
| "fetch_attempts sv host url headers cached (Suc left) attempt last_exc =
     sx_bind (sx_try (sx_bind (try_once sv host url headers cached attempt) (\<lambda>r. sx_return (Inr r)))
                (\<lambda>_. True) (\<lambda>e. sx_return (Inl e))) (\<lambda>outcome.
       case outcome of
         Inr (Some resp) \<Rightarrow> sx_return (Inr resp)
       | Inr None \<Rightarrow> fetch_attempts sv host url headers cached left (attempt + 1) last_exc
       | Inl e \<Rightarrow>
           sx_bind sx_get (\<lambda>s.
             if \<not> hs_transient sv e \<or> rt_max_attempts (hf_retry s) \<le> attempt then sx_return (Inl (Some e))
             else sx_bind (backoff sv (hf_retry s) attempt) (\<lambda>d.
                  sx_bind (hf_sleep sv d) (\<lambda>_.
                    fetch_attempts sv host url headers cached left (attempt + 1) (Some e)))))"

definition fetch_failure :: "string \<Rightarrow> exc option \<Rightarrow> exc" where
  "fetch_failure url last_exc =
     Exc ''RuntimeError'' (''Fetch failed for '' @ url @ '': '' @ (case last_exc of None \<Rightarrow> ''None'' | Some e \<Rightarrow> exc_text e))"

definition request_page ::
  "'w http_services \<Rightarrow> string \<Rightarrow> string \<Rightarrow> string dict \<Rightarrow> (string \<times> cache_meta) option \<Rightarrow> ('w, fetch_response) hfx" where
  "request_page sv host url headers cached =
     sx_bind (ensure_client sv) (\<lambda>_.
     sx_bind sx_get (\<lambda>s.
     sx_bind (fetch_attempts sv host url headers cached (nat (rt_max_attempts (hf_retry s))) 1 None) (\<lambda>r.
       case r of
         Inr resp \<Rightarrow> sx_return resp
       | Inl last_exc \<Rightarrow> sx_raise (fetch_failure url last_exc))))"

text \<open>From what the cache holds: the fresh response, or a request, conditional when the cached one is stale.\<close>

definition answer_from ::
  "'w http_services \<Rightarrow> string \<Rightarrow> string \<Rightarrow> string dict \<Rightarrow> (string \<times> cache_meta) option \<Rightarrow> ('w, fetch_response) hfx" where
  "answer_from sv url host headers cached =
     (case cached of
        Some (body, meta) \<Rightarrow>
          if cm_stale meta then request_page sv host url (dupdate headers (conditional_headers meta)) cached
          else fresh_response sv url body meta
      | None \<Rightarrow> request_page sv host url headers None)"

definition http_fetch :: "'w http_services \<Rightarrow> string \<Rightarrow> string \<Rightarrow> string dict option \<Rightarrow> ('w, fetch_response) hfx" where
  "http_fetch sv url method headers =
     (if py_lower method \<noteq> ''get'' then sx_raise (Exc ''ValueError'' ''MVP cache/revalidation only supports GET'')
      else sx_bind (sx_lift (url_netloc url)) (\<lambda>netloc.
        sx_bind (cache_load sv url)
          (answer_from sv url (if py_lower netloc = [] then ''unknown'' else py_lower netloc)
             (case headers of None \<Rightarrow> [] | Some hs \<Rightarrow> hs))))"

text \<open>\<open>async with HttpFetcher()\<close>: entering makes a client, leaving closes it.\<close>

definition fetcher_enter :: "'w http_services \<Rightarrow> ('w, unit) hfx" where
  "fetcher_enter sv = sx_bind (hf_op (hs_new_client sv)) (\<lambda>_. sx_modify (\<lambda>s. s\<lparr>hf_client := True\<rparr>))"

definition fetcher_exit :: "'w http_services \<Rightarrow> ('w, unit) hfx" where
  "fetcher_exit sv =
     sx_bind sx_get (\<lambda>s.
       if hf_client s then sx_bind (hf_op (hs_close_client sv)) (\<lambda>_. sx_modify (\<lambda>s. s\<lparr>hf_client := False\<rparr>))
       else sx_return ())"

section \<open>Rules\<close>

lemma hf_op_valid:
  "(\<And>w. case m w of (Inl e, w') \<Rightarrow> (\<forall>s. P s \<and> hf_world s = w \<longrightarrow> E e (s\<lparr>hf_world := w'\<rparr>))
       | (Inr a, w') \<Rightarrow> (\<forall>s. P s \<and> hf_world s = w \<longrightarrow> Q a (s\<lparr>hf_world := w'\<rparr>)))
   \<Longrightarrow> sx_valid P (hf_op m) Q E"
  by (fastforce simp: sx_valid_def hf_op_def sx_zoom_def split: prod.splits sum.splits)

text \<open>A property of the state that the world has no part in.\<close>

definition world_free :: "('w http_fetcher \<Rightarrow> bool) \<Rightarrow> bool" where
  "world_free P \<longleftrightarrow> (\<forall>s w. P s \<longrightarrow> P (s\<lparr>hf_world := w\<rparr>))"

named_theorems fetch_keeps \<open>triples of the fetcher's operations\<close>

lemma hf_op_keeps: "world_free P \<Longrightarrow> sx_valid P (hf_op m) (\<lambda>_. P) (\<lambda>_. P)"
  by (rule hf_op_valid) (auto simp: world_free_def split: prod.split sum.split)

lemma hf_read_keeps: "world_free P \<Longrightarrow> sx_valid P (hf_read f) (\<lambda>_. P) E"
  unfolding hf_read_def by (rule hf_op_valid) (auto simp: world_free_def split: prod.split)

lemma hf_sleep_keeps: "world_free P \<Longrightarrow> sx_valid P (hf_sleep sv d) (\<lambda>_. P) E"
  unfolding hf_sleep_def by (rule hf_op_valid) (auto simp: world_free_def)

lemma backoff_keeps: "world_free P \<Longrightarrow> sx_valid P (backoff sv rt attempt) (\<lambda>_. P) E"
  unfolding backoff_def by (rule sx_valid_seq [OF hf_read_keeps]) (simp_all add: sx_valid_basic)

lemma sx_finally_keeps: "sx_valid P m (\<lambda>_. P) (\<lambda>_. P) \<Longrightarrow> sx_valid P f (\<lambda>_. P) (\<lambda>_. P) \<Longrightarrow> sx_valid P (sx_finally m f) (\<lambda>_. P) (\<lambda>_. P)"
  unfolding sx_finally_def
  by (intro sx_valid_seq [where R = P] sx_valid_try [where F = "\<lambda>_. P"] sx_valid_basic) simp_all

lemma guarded_get_keeps: "world_free P \<Longrightarrow> sx_valid P (guarded_get sv host url headers) (\<lambda>_. P) (\<lambda>_. P)"
  unfolding guarded_get_def guard_enter_def guard_exit_def
  by (cases "hs_limiter sv") (auto intro!: sx_valid_seq [where R = P] sx_finally_keeps sx_valid_basic hf_op_keeps)

section \<open>The cache holds successes\<close>

definition cache_ok :: "'w http_fetcher \<Rightarrow> bool" where
  "cache_ok s \<longleftrightarrow>
     (\<forall>k m. dget (kc_metas (hf_cache s)) k = Some (Readable m) \<longrightarrow> cm_status_code m = 200 \<and> \<not> cm_stale m)
     \<and> (\<forall>k b. dget (kc_bodies (hf_cache s)) k = Some (Readable b) \<longrightarrow> b \<noteq> [])"

lemma cache_ok_world: "world_free cache_ok"
  by (simp add: world_free_def cache_ok_def)

lemma cache_save_keeps_ok:
  "b \<noteq> [] \<Longrightarrow> cm_status_code m = 200 \<Longrightarrow> \<not> cm_stale m \<Longrightarrow>
     sx_valid cache_ok (cache_save sv url b m) (\<lambda>_. cache_ok) (\<lambda>_. cache_ok)"
  unfolding cache_save_def Let_def
  apply (rule sx_valid_seq [OF hf_read_keeps [OF cache_ok_world]])
  apply (rule sx_valid_seq [OF hf_op_keeps [OF cache_ok_world]])
  apply (rule sx_valid_seq [OF hf_op_keeps [OF cache_ok_world]])
  apply (rule sx_valid_seq [OF hf_op_keeps [OF cache_ok_world]])
  apply (rule sx_valid_seq [where R = cache_ok], rule sx_valid_basic, simp add: cache_ok_def put_body_def)
  apply (rule sx_valid_seq [OF hf_op_keeps [OF cache_ok_world]])
  apply (rule sx_valid_basic, simp add: cache_ok_def put_meta_def)
  done

text \<open>A load changes nothing but the clock, never raises, and returns a stored body and its data, perhaps marked stale.\<close>

definition loaded :: "'w http_services \<Rightarrow> string \<Rightarrow> 'w http_fetcher \<Rightarrow> (string \<times> cache_meta) option \<Rightarrow> bool" where
  "loaded sv url s c =
     (case c of
        None \<Rightarrow> True
      | Some (b, m) \<Rightarrow>
          dget (kc_bodies (hf_cache s)) (hs_sha256 sv url) = Some (Readable b)
          \<and> (\<exists>m0. dget (kc_metas (hf_cache s)) (hs_sha256 sv url) = Some (Readable m0)
                \<and> (m = m0 \<or> m = m0\<lparr>cm_stale := True\<rparr>)))"

lemma cache_load_result: "\<exists>c w. cache_load sv url s = (Inr c, s\<lparr>hf_world := w\<rparr>) \<and> loaded sv url s c"
proof (cases "dget (kc_bodies (hf_cache s)) (hs_sha256 sv url)")
  case None
  then show ?thesis by (intro exI [of _ None] exI [of _ "hf_world s"]) (simp add: cache_load_def loaded_def sx_simps sx_bind_def)
next
  case (Some bf)
  note bf = Some
  show ?thesis
  proof (cases "dget (kc_metas (hf_cache s)) (hs_sha256 sv url)")
    case None
    with bf show ?thesis
      by (intro exI [of _ None] exI [of _ "hf_world s"]) (simp add: cache_load_def loaded_def sx_simps sx_bind_def)
  next
    case (Some mf)
    with bf show ?thesis
      by (cases mf; cases bf)
        (auto simp: cache_load_def loaded_def hf_read_def hf_op_def sx_zoom_def sx_simps sx_bind_def Let_def
          split: prod.split intro: exI [of _ None] exI [of _ "hf_world s"])
  qed
qed

text \<open>A page the cache holds under its URL, fresh when it was stored.\<close>

definition cached_as :: "'w http_services \<Rightarrow> string \<Rightarrow> string \<Rightarrow> 'w http_fetcher \<Rightarrow> bool" where
  "cached_as sv url b s \<longleftrightarrow>
     dget (kc_bodies (hf_cache s)) (hs_sha256 sv url) = Some (Readable b)
     \<and> (\<exists>m. dget (kc_metas (hf_cache s)) (hs_sha256 sv url) = Some (Readable m) \<and> \<not> cm_stale m)"

definition kept_page :: "'w http_services \<Rightarrow> string \<Rightarrow> fetch_response \<Rightarrow> 'w http_fetcher \<Rightarrow> bool" where
  "kept_page sv url r s \<longleftrightarrow>
     cache_ok s \<and> (fr_status_code r = 200 \<and> fr_content r \<noteq> [] \<longrightarrow> cached_as sv url (fr_content r) s)"

lemma kept_page_world: "world_free (kept_page sv url r)"
  by (simp add: world_free_def kept_page_def cached_as_def cache_ok_def)

lemma cached_as_world: "world_free (\<lambda>s. cache_ok s \<and> cached_as sv url b s)"
  by (simp add: world_free_def cached_as_def cache_ok_def)

lemma body_stored_world: "world_free (\<lambda>s. cache_ok s \<and> dget (kc_bodies (hf_cache s)) (hs_sha256 sv url) = Some (Readable b))"
  by (simp add: world_free_def cache_ok_def)

lemma cache_save_step:
  assumes "b \<noteq> []" "cm_status_code m = 200" "\<not> cm_stale m"
  shows "sx_valid cache_ok (cache_save sv url b m) (\<lambda>_ s. cache_ok s \<and> cached_as sv url b s) (\<lambda>_. cache_ok)"
  unfolding cache_save_def Let_def
  apply (rule sx_valid_seq [OF hf_read_keeps [OF cache_ok_world]])
  apply (rule sx_valid_seq [OF hf_op_keeps [OF cache_ok_world]])
  apply (rule sx_valid_seq [OF hf_op_keeps [OF cache_ok_world]])
  apply (rule sx_valid_seq [OF hf_op_keeps [OF cache_ok_world]])
  apply (rule sx_valid_seq [where R = "\<lambda>s. cache_ok s \<and> dget (kc_bodies (hf_cache s)) (hs_sha256 sv url) = Some (Readable b)"])
   apply (rule sx_valid_basic, simp add: cache_ok_def put_body_def assms)
  apply (rule sx_valid_seq)
   apply (rule sx_valid_weaken [OF hf_op_keeps [OF body_stored_world]], assumption, assumption, simp)
  apply (rule sx_valid_basic, simp add: cache_ok_def cached_as_def put_meta_def assms)
  done

lemma not_modified_step:
  assumes "b \<noteq> []" "cm_status_code m = 200"
  shows "sx_valid cache_ok (not_modified sv url resp b m)
     (\<lambda>r s. cache_ok s \<and> (\<forall>x. r = Some x \<longrightarrow> kept_page sv url x s)) (\<lambda>_. cache_ok)"
  unfolding not_modified_def
  apply (rule sx_valid_seq [OF cache_save_step], simp_all add: assms)
  apply (rule sx_valid_seq [OF hf_read_keeps [OF cached_as_world]])
  apply (rule sx_valid_basic, simp add: kept_page_def)
  done

lemma accept_reply_step:
  "sx_valid cache_ok (accept_reply sv url resp)
     (\<lambda>r s. cache_ok s \<and> (\<forall>x. r = Some x \<longrightarrow> kept_page sv url x s)) (\<lambda>_. cache_ok)"
proof (cases "hp_status resp = 200 \<and> hp_content resp \<noteq> []")
  case True
  then show ?thesis
    unfolding accept_reply_def if_P [OF True]
    apply (intro sx_valid_seq [OF cache_save_step])
       apply (simp_all add: reply_meta_def)
    apply (rule sx_valid_seq [OF hf_read_keeps [OF cached_as_world]])
    apply (rule sx_valid_basic, simp add: kept_page_def)
    done
next
  case False
  show ?thesis
    unfolding accept_reply_def if_not_P [OF False]
    apply (rule sx_valid_seq [where R = cache_ok], rule sx_valid_basic, assumption)
    apply (rule sx_valid_seq [OF hf_read_keeps [OF cache_ok_world]])
    apply (rule sx_valid_basic)
    using False apply (auto simp: kept_page_def)
    done
qed

definition loaded_ok :: "(string \<times> cache_meta) option \<Rightarrow> bool" where
  "loaded_ok cached = (case cached of None \<Rightarrow> True | Some (b, m) \<Rightarrow> b \<noteq> [] \<and> cm_status_code m = 200)"

lemma loaded_ok_loaded: "cache_ok s \<Longrightarrow> loaded sv url s c \<Longrightarrow> loaded_ok c"
  by (auto simp: cache_ok_def loaded_def loaded_ok_def split: option.splits prod.splits)

lemma try_once_step:
  assumes "loaded_ok cached"
  shows "sx_valid cache_ok (try_once sv host url headers cached attempt)
     (\<lambda>r s. cache_ok s \<and> (\<forall>x. r = Some x \<longrightarrow> kept_page sv url x s)) (\<lambda>_. cache_ok)"
  unfolding try_once_def
  apply (rule sx_valid_seq [OF guarded_get_keeps [OF cache_ok_world]])
  apply (rule sx_valid_seq [where R = cache_ok], rule sx_valid_basic, assumption)
  apply (rule sx_valid_option)
   apply (rule sx_valid_if)
    apply (rule sx_valid_seq [OF backoff_keeps [OF cache_ok_world]])
    apply (rule sx_valid_seq [OF hf_sleep_keeps [OF cache_ok_world]])
    apply (rule sx_valid_basic, simp)
   apply (rule accept_reply_step)
  subgoal for resp t a
    using assms by (cases a) (auto simp: loaded_ok_def intro: not_modified_step split: if_splits)
  done

lemma fetch_attempts_step:
  assumes "loaded_ok cached"
  shows "sx_valid cache_ok (fetch_attempts sv host url headers cached left attempt last_exc)
     (\<lambda>r s. cache_ok s \<and> (\<forall>x. r = Inr x \<longrightarrow> kept_page sv url x s)) (\<lambda>_ _. False)"
proof (induction left arbitrary: attempt last_exc)
  case 0
  show ?case by (simp add: sx_valid_basic)
next
  case (Suc left)
  have once: "sx_valid cache_ok
      (sx_try (sx_bind (try_once sv host url headers cached attempt) (\<lambda>r. sx_return (Inr r))) (\<lambda>_. True) (\<lambda>e. sx_return (Inl e)))
      (\<lambda>r s. cache_ok s \<and> (\<forall>x. r = Inr (Some x) \<longrightarrow> kept_page sv url x s)) (\<lambda>_ _. False)"
    by (rule sx_valid_try [OF sx_valid_bind [OF try_once_step [OF assms]]]) (auto intro: sx_valid_basic)
  show ?case
    unfolding fetch_attempts.simps
  proof (rule sx_valid_bind [OF once])
    fix r :: "exc + fetch_response option"
    show "sx_valid (\<lambda>s. cache_ok s \<and> (\<forall>x. r = Inr (Some x) \<longrightarrow> kept_page sv url x s))
       (case r of
          Inl e \<Rightarrow> sx_bind sx_get (\<lambda>s.
             if \<not> hs_transient sv e \<or> rt_max_attempts (hf_retry s) \<le> attempt then sx_return (Inl (Some e))
             else sx_bind (backoff sv (hf_retry s) attempt) (\<lambda>d. sx_bind (hf_sleep sv d) (\<lambda>_.
                    fetch_attempts sv host url headers cached left (attempt + 1) (Some e))))
        | Inr None \<Rightarrow> fetch_attempts sv host url headers cached left (attempt + 1) last_exc
        | Inr (Some resp) \<Rightarrow> sx_return (Inr resp))
       (\<lambda>r s. cache_ok s \<and> (\<forall>x. r = Inr x \<longrightarrow> kept_page sv url x s)) (\<lambda>_ _. False)"
      by (auto split: sum.split option.split
          intro!: sx_valid_basic sx_valid_seq [where R = cache_ok] Suc.IH backoff_keeps hf_sleep_keeps cache_ok_world)
  qed
qed

section \<open>What a fetch returns, raises and keeps\<close>

text \<open>The errors a fetch may end with: those of the method and the URL, of the creation of the client, and its own.\<close>

definition fetch_error :: "'w http_services \<Rightarrow> exc \<Rightarrow> bool" where
  "fetch_error sv e \<longleftrightarrow>
     exc_class e = ''ValueError'' \<or> exc_class e = ''RuntimeError'' \<or> (\<exists>w w'. hs_new_client sv w = (Inl e, w'))"

lemma ensure_client_step:
  "sx_valid cache_ok (ensure_client sv) (\<lambda>_. cache_ok) (\<lambda>e s. cache_ok s \<and> fetch_error sv e)"
  unfolding ensure_client_def
  apply (rule sx_valid_seq [where R = cache_ok], rule sx_valid_basic, assumption)
  apply (rule sx_valid_if, rule sx_valid_basic, assumption)
  apply (rule sx_valid_seq [where R = cache_ok])
   apply (rule hf_op_valid)
   apply (fastforce simp: fetch_error_def cache_ok_def split: prod.split sum.split)
  apply (rule sx_valid_basic, simp add: cache_ok_def)
  done

lemma request_page_step:
  assumes "loaded_ok cached"
  shows "sx_valid cache_ok (request_page sv host url headers cached) (kept_page sv url) (\<lambda>e s. cache_ok s \<and> fetch_error sv e)"
  unfolding request_page_def
  apply (rule sx_valid_seq [OF ensure_client_step])
  apply (rule sx_valid_seq [where R = cache_ok], rule sx_valid_basic, assumption)
  apply (rule sx_valid_bind)
   apply (rule sx_valid_weaken [OF fetch_attempts_step [OF assms]], assumption, assumption, simp)
  apply (auto intro!: sx_valid_basic simp: fetch_failure_def fetch_error_def split: sum.split)
  done

lemma url_netloc_error: "url_netloc url = Inl e \<Longrightarrow> exc_class e = ''ValueError''"
  by (auto simp: url_netloc_def Let_def split: if_splits)

lemma fresh_response_result:
  "\<exists>w. fresh_response sv url b m s = (Inr \<lparr>fr_url = url, fr_final_url = cm_final_url m, fr_status_code = cm_status_code m,
     fr_headers = cm_headers m, fr_content = b, fr_encoding = cm_encoding m, fr_fetched_at = cm_fetched_at m\<rparr>,
     s\<lparr>hf_world := w\<rparr>)"
  by (auto simp: fresh_response_def hf_read_def hf_op_def sx_zoom_def sx_bind_def sx_simps split: prod.splits)

definition fetch_outcome_ok :: "'w http_services \<Rightarrow> string \<Rightarrow> fetch_response res \<times> 'w http_fetcher \<Rightarrow> bool" where
  "fetch_outcome_ok sv url out =
     (case out of (Inr r, s) \<Rightarrow> kept_page sv url r s | (Inl e, s) \<Rightarrow> cache_ok s \<and> fetch_error sv e)"

lemma answer_from_step:
  assumes "cache_ok s" "loaded sv url s c"
  shows "fetch_outcome_ok sv url (answer_from sv url host headers c s)"
proof -
  have page: "fetch_outcome_ok sv url (request_page sv host url hs c s)" for hs
    using request_page_step [OF loaded_ok_loaded [OF assms], where sv = sv and url = url and host = host and headers = hs] assms(1)
    unfolding sx_valid_def fetch_outcome_ok_def by (fastforce split: prod.split sum.split)
  show ?thesis
  proof (cases c)
    case None
    with page show ?thesis by (simp add: answer_from_def)
  next
    case (Some p)
    obtain b m where p: "p = (b, m)" by (cases p)
    have "fetch_outcome_ok sv url (fresh_response sv url b m s)" if "\<not> cm_stale m"
      using fresh_response_result [of sv url b m s] assms that Some p
      by (auto simp: fetch_outcome_ok_def kept_page_def cached_as_def loaded_def cache_ok_def)
    with page Some p show ?thesis by (simp add: answer_from_def)
  qed
qed

lemma http_fetch_step:
  assumes "cache_ok s"
  shows "fetch_outcome_ok sv url (http_fetch sv url method headers s)"
proof -
  obtain c w where load: "cache_load sv url s = (Inr c, s\<lparr>hf_world := w\<rparr>)" "loaded sv url s c"
    using cache_load_result [of sv url s] by blast
  have "cache_ok (s\<lparr>hf_world := w\<rparr>)" "loaded sv url (s\<lparr>hf_world := w\<rparr>) c"
    using assms load(2) by (auto simp: cache_ok_def loaded_def split: option.splits)
  from answer_from_step [OF this] load(1) assms show ?thesis
    by (cases "url_netloc url")
      (auto simp: http_fetch_def sx_bind_def sx_simps fetch_outcome_ok_def fetch_error_def url_netloc_error)
qed

text \<open>
  A fetch keeps the disk cache sound and ends as documented. Whatever the limiter (one that lets requests through,
  or a \<open>HostLimiter\<close>, which lets none), the network, the clock and the disk do, the cache goes on to hold only complete
  pages that were answered with status 200; a page returned with status 200 and a body is in the cache under its URL, with
  that body; and the only exceptions are ValueError (the method, the URL),
  RuntimeError (the attempts failed) and those of creating the client.
\<close>

theorem fetched_pages_are_cached:
  assumes "cache_ok s"
  shows "case http_fetch sv url method headers s of
      (Inr r, s') \<Rightarrow> cache_ok s' \<and> (fr_status_code r = 200 \<and> fr_content r \<noteq> [] \<longrightarrow> cached_as sv url (fr_content r) s')
    | (Inl e, s') \<Rightarrow> cache_ok s' \<and> (exc_class e = ''ValueError'' \<or> exc_class e = ''RuntimeError''
        \<or> (\<exists>w w'. hs_new_client sv w = (Inl e, w')))"
  using http_fetch_step [OF assms, of sv url "method" headers]
  by (auto simp: fetch_outcome_ok_def kept_page_def fetch_error_def split: prod.splits sum.splits)

section \<open>Requests\<close>

text \<open>\<open>n\<close> counts the requests the client made: a request adds one, everything else none.\<close>

definition counts_requests :: "'w http_services \<Rightarrow> ('w \<Rightarrow> nat) \<Rightarrow> bool" where
  "counts_requests sv n \<longleftrightarrow>
     (\<forall>url hs w. n (snd (hs_get sv url hs w)) = Suc (n w)) \<and> (\<forall>w. n (snd (hs_time sv w)) = n w)
     \<and> (\<forall>w. n (snd (hs_monotonic sv w)) = n w) \<and> (\<forall>d w. n (hs_sleep sv d w) = n w)
     \<and> (\<forall>j w. n (snd (hs_uniform sv j w)) = n w) \<and> (\<forall>p w. n (snd (hs_disk sv p w)) = n w)
     \<and> (\<forall>w. n (snd (hs_new_client sv w)) = n w)
     \<and> (case hs_limiter sv of HostLimiterObject \<Rightarrow> True
          | OtherLimiter enter leave \<Rightarrow> \<forall>h w. n (snd (enter h w)) = n w \<and> n (snd (leave h w)) = n w)"

text \<open>\<open>spends n k m\<close>: \<open>m\<close> makes at most \<open>k\<close> requests and leaves the retry policy.\<close>

definition spends :: "('w \<Rightarrow> nat) \<Rightarrow> nat \<Rightarrow> ('w, 'a) hfx \<Rightarrow> bool" where
  "spends n k m \<longleftrightarrow> (\<forall>s. n (hf_world s) \<le> n (hf_world (snd (m s))) \<and> n (hf_world (snd (m s))) \<le> n (hf_world s) + k
     \<and> hf_retry (snd (m s)) = hf_retry s)"

lemma spendsI:
  "(\<And>s r t. m s = (r, t) \<Longrightarrow> n (hf_world s) \<le> n (hf_world t) \<and> n (hf_world t) \<le> n (hf_world s) + k \<and> hf_retry t = hf_retry s) \<Longrightarrow> spends n k m"
  by (metis spends_def prod.collapse)

lemma spendsD: "spends n k m \<Longrightarrow> m s = (r, t) \<Longrightarrow> n (hf_world s) \<le> n (hf_world t) \<and> n (hf_world t) \<le> n (hf_world s) + k \<and> hf_retry t = hf_retry s"
  by (metis spends_def snd_conv)

lemma spends_bind:
  assumes "spends n j m" "\<And>a. spends n k (f a)" "j + k \<le> l"
  shows "spends n l (sx_bind m f)"
proof (rule spendsI)
  fix s r t
  assume "sx_bind m f s = (r, t)"
  from sx_bind_cases [OF this] show "n (hf_world s) \<le> n (hf_world t) \<and> n (hf_world t) \<le> n (hf_world s) + l \<and> hf_retry t = hf_retry s"
  proof (elim disjE exE conjE)
    fix e s' assume "m s = (Inl e, s')" "(r, t) = (Inl e, s')"
    with spendsD [OF assms(1)] assms(3) show ?thesis by fastforce
  next
    fix a s' assume "m s = (Inr a, s')" "f a s' = (r, t)"
    with spendsD [OF assms(1), of s "Inr a" s'] spendsD [OF assms(2), of a s' r t] assms(3) show ?thesis by simp
  qed
qed

lemma spends_seq: "spends n 0 m \<Longrightarrow> (\<And>a. spends n k (f a)) \<Longrightarrow> spends n k (sx_bind m f)"
  by (rule spends_bind [where j = 0 and k = k]) simp_all

lemma spends_basic: "spends n 0 (sx_return a)" "spends n 0 (sx_raise e)" "spends n 0 sx_get" "spends n 0 (sx_lift r)"
  by (simp_all add: spends_def sx_simps)

lemma spends_modify: "(\<And>s. hf_world (g s) = hf_world s \<and> hf_retry (g s) = hf_retry s) \<Longrightarrow> spends n 0 (sx_modify g)"
  by (simp add: spends_def sx_simps)

lemma spends_mono:
  assumes "spends n j m" "j \<le> k"
  shows "spends n k m"
proof (rule spendsI)
  fix s r t
  assume "m s = (r, t)"
  from spendsD [OF assms(1) this] assms(2)
  show "n (hf_world s) \<le> n (hf_world t) \<and> n (hf_world t) \<le> n (hf_world s) + k \<and> hf_retry t = hf_retry s" by simp
qed

lemma spends_try:
  assumes "spends n k m" "\<And>e. spends n 0 (h e)"
  shows "spends n k (sx_try m p h)"
proof (rule spendsI)
  fix s r t
  assume run: "sx_try m p h s = (r, t)"
  obtain q u where m: "m s = (q, u)" by fastforce
  note first = spendsD [OF assms(1) m]
  show "n (hf_world s) \<le> n (hf_world t) \<and> n (hf_world t) \<le> n (hf_world s) + k \<and> hf_retry t = hf_retry s"
  proof (cases "\<exists>e. q = Inl e \<and> p e")
    case True
    then obtain e where "h e u = (r, t)" using run m by (auto simp: sx_try_def)
    from spendsD [OF assms(2) this] first show ?thesis by simp
  next
    case False
    with run m have "t = u" by (cases q) (auto simp: sx_try_def)
    with first show ?thesis by simp
  qed
qed

lemma spends_op:
  assumes "\<And>w. n w \<le> n (snd (m w)) \<and> n (snd (m w)) \<le> n w + k"
  shows "spends n k (hf_op m)"
proof (rule spendsI)
  fix s r t
  assume "hf_op m s = (r, t)"
  with assms [of "hf_world s"] show "n (hf_world s) \<le> n (hf_world t) \<and> n (hf_world t) \<le> n (hf_world s) + k \<and> hf_retry t = hf_retry s"
    by (auto simp: hf_op_def sx_zoom_def split: prod.splits)
qed

lemma spends_read: "(\<And>w. n (snd (f w)) = n w) \<Longrightarrow> spends n 0 (hf_read f)"
  unfolding hf_read_def by (rule spends_op) (simp add: split_def)

lemma spends_services:
  assumes "counts_requests sv n"
  shows "spends n 0 (hf_read (hs_time sv))" "spends n 0 (hf_read (hs_monotonic sv))" "spends n 0 (hf_sleep sv d)"
    "spends n 0 (hf_op (hs_disk sv p))" "spends n 0 (hf_op (hs_new_client sv))" "spends n 1 (hf_op (hs_get sv url hs))"
    "spends n 0 (backoff sv rt attempt)"
  using assms unfolding hf_sleep_def backoff_def
  by (auto simp: counts_requests_def intro!: spends_read spends_op spends_seq spends_basic)

lemma spends_save: "counts_requests sv n \<Longrightarrow> spends n 0 (cache_save sv url b m)"
  unfolding cache_save_def Let_def put_body_def put_meta_def
  by (intro spends_seq spends_services spends_modify) simp_all

lemma spends_finally: "spends n k m \<Longrightarrow> spends n 0 f \<Longrightarrow> spends n k (sx_finally m f)"
  unfolding sx_finally_def
  by (rule spends_bind [where j = k and k = 0]) (auto intro!: spends_try spends_seq spends_basic)

lemma spends_guard:
  assumes "counts_requests sv n"
  shows "spends n 0 (guard_enter sv host)" "spends n 0 (guard_exit sv host)"
  using assms unfolding guard_enter_def guard_exit_def
  by (auto simp: counts_requests_def intro!: spends_op spends_basic split: limiter_object.split)

lemma spends_guarded: "counts_requests sv n \<Longrightarrow> spends n 1 (guarded_get sv host url hs)"
  unfolding guarded_get_def by (intro spends_seq spends_finally spends_services spends_guard)

lemma spends_try_once: "counts_requests sv n \<Longrightarrow> spends n 1 (try_once sv host url hs cached attempt)"
  unfolding try_once_def
  apply (rule spends_bind [OF spends_guarded, where k = 0], assumption)
   apply (rule spends_seq [OF spends_basic(3)])
   apply (auto simp: not_modified_def accept_reply_def intro!: spends_seq spends_save spends_services spends_basic
      split: option.split)
  done

lemma spends_attempts:
  assumes "counts_requests sv n"
  shows "spends n left (fetch_attempts sv host url hs cached left attempt last_exc)"
proof (induction left arbitrary: attempt last_exc)
  case 0
  show ?case by (simp add: spends_basic)
next
  case (Suc left)
  show ?case
    unfolding fetch_attempts.simps
  proof (rule spends_bind [where j = 1 and k = left])
    show "spends n 1 (sx_try (sx_bind (try_once sv host url hs cached attempt) (\<lambda>r. sx_return (Inr r)))
        (\<lambda>_. True) (\<lambda>e. sx_return (Inl e)))"
      by (rule spends_try spends_bind [OF spends_try_once [OF assms], where k = 0] spends_basic | simp)+
  qed (auto intro!: spends_seq spends_services assms Suc.IH spends_basic spends_mono [OF spends_basic(1)]
      split: sum.split option.split)
qed

lemma ensure_client_spends: "counts_requests sv n \<Longrightarrow> spends n 0 (ensure_client sv)"
  unfolding ensure_client_def
  by (intro spends_seq spends_basic) (auto intro!: spends_seq spends_services spends_basic spends_modify)

lemma request_page_spends:
  assumes "counts_requests sv n" "request_page sv host url hs cached s = (r, t)"
  shows "n (hf_world t) \<le> n (hf_world s) + nat (rt_max_attempts (hf_retry s))"
proof -
  obtain q u where client: "ensure_client sv s = (q, u)" by fastforce
  note first = spendsD [OF ensure_client_spends [OF assms(1)] client]
  show ?thesis
  proof (cases q)
    case (Inl e)
    with client assms(2) first show ?thesis by (auto simp: request_page_def sx_bind_def)
  next
    case (Inr a)
    obtain p v where att: "fetch_attempts sv host url hs cached (nat (rt_max_attempts (hf_retry u))) 1 None u = (p, v)"
      by fastforce
    from client Inr att assms(2) have "t = v"
      by (auto simp: request_page_def sx_bind_def sx_simps split: sum.splits)
    with spendsD [OF spends_attempts [OF assms(1)] att] first show ?thesis by simp
  qed
qed

lemma cache_load_spends: "counts_requests sv n \<Longrightarrow> spends n 0 (cache_load sv url)"
  unfolding cache_load_def Let_def
  by (intro spends_seq spends_basic)
    (auto intro!: spends_seq spends_services spends_basic split: option.split stored_file.split)

lemma fresh_response_spends: "counts_requests sv n \<Longrightarrow> spends n 0 (fresh_response sv url b m)"
  unfolding fresh_response_def by (intro spends_seq spends_services spends_basic)

text \<open>
  With any limiter that makes no requests itself, a fetch makes at most \<open>max_attempts\<close> requests, and none when the
  cache holds a page for the URL that is not stale, whatever the network answers.
\<close>

theorem requests_are_bounded:
  assumes "counts_requests sv n"
  shows "n (hf_world (snd (http_fetch sv url method headers s))) \<le> n (hf_world s) + nat (rt_max_attempts (hf_retry s))
    \<and> ((\<exists>b m t. cache_load sv url s = (Inr (Some (b, m)), t) \<and> \<not> cm_stale m)
        \<longrightarrow> n (hf_world (snd (http_fetch sv url method headers s))) = n (hf_world s))"
proof (cases "py_lower method = ''get'' \<and> (\<exists>netloc. url_netloc url = Inr netloc)")
  case False
  then show ?thesis by (cases "url_netloc url") (auto simp: http_fetch_def sx_bind_def sx_simps)
next
  case True
  then obtain netloc where net: "url_netloc url = Inr netloc" by blast
  obtain c w where load: "cache_load sv url s = (Inr c, s\<lparr>hf_world := w\<rparr>)"
    using cache_load_result [of sv url s] by blast
  let ?t = "s\<lparr>hf_world := w\<rparr>"
  let ?host = "if py_lower netloc = [] then ''unknown'' else py_lower netloc"
  have run: "http_fetch sv url method headers s
      = answer_from sv url ?host (case headers of None \<Rightarrow> [] | Some hs \<Rightarrow> hs) c ?t"
    using True net load by (simp add: http_fetch_def sx_bind_def sx_simps)
  have clock: "n w = n (hf_world s)" "hf_retry ?t = hf_retry s"
    using spendsD [OF cache_load_spends [OF assms] load] by simp_all
  have page: "n (hf_world (snd (request_page sv ?host url hs c ?t))) \<le> n (hf_world s) + nat (rt_max_attempts (hf_retry s))" for hs
  proof -
    obtain q u where "request_page sv ?host url hs c ?t = (q, u)" by fastforce
    with request_page_spends [OF assms this] clock show ?thesis by simp
  qed
  have fresh: "n (hf_world (snd (fresh_response sv url b m ?t))) = n (hf_world s)" for b m
  proof -
    obtain q u where "fresh_response sv url b m ?t = (q, u)" by fastforce
    with spendsD [OF fresh_response_spends [OF assms] this] clock show ?thesis by simp
  qed
  show ?thesis
    using page fresh load unfolding run by (auto simp: answer_from_def split: option.split)
qed

text \<open>A client whose first answer is 503 and whose later ones are the page.\<close>

definition sample_http :: "nat http_services" where
  "sample_http =
     \<lparr>hs_limiter = OtherLimiter (\<lambda>h. sx_return ()) (\<lambda>h. sx_return ()), hs_sha256 = id, hs_time = (\<lambda>n. (0, n)), hs_monotonic = (\<lambda>n. (0, n)), hs_sleep = (\<lambda>d n. n),
      hs_uniform = (\<lambda>j n. (0, n)), hs_disk = (\<lambda>p. sx_return ()), hs_new_client = sx_return (), hs_close_client = sx_return (),
      hs_get = (\<lambda>url hs n. (Inr \<lparr>hp_status = (if n = 0 then 503 else 200), hp_url = url, hp_headers = [(''ETag'', ''v1'')],
                                hp_content = ''page'', hp_encoding = None\<rparr>, Suc n)),
      hs_transient = (\<lambda>e. True)\<rparr>"

definition sample_fetcher :: "nat http_fetcher" where
  "sample_fetcher =
     \<lparr>hf_retry = default_retry_policy, hf_limiter = \<lparr>hl_min_interval = 0, hl_next_time = []\<rparr>,
      hf_cache = \<lparr>kc_ttl_s = 3600, kc_bodies = [], kc_metas = []\<rparr>, hf_client = False, hf_world = 0\<rparr>"

lemma sample_fetch_runs:
  "http_fetch sample_http ''http://a/'' ''GET'' None sample_fetcher
   = (Inr \<lparr>fr_url = ''http://a/'', fr_final_url = ''http://a/'', fr_status_code = 200, fr_headers = [(''etag'', ''v1'')],
           fr_content = ''page'', fr_encoding = None, fr_fetched_at = 0\<rparr>,
      sample_fetcher\<lparr>hf_client := True, hf_world := 2,
        hf_cache := \<lparr>kc_ttl_s = 3600, kc_bodies = [(''http://a/'', Readable ''page'')],
          kc_metas = [(''http://a/'', Readable \<lparr>cm_final_url = ''http://a/'', cm_status_code = 200,
            cm_headers = [(''etag'', ''v1'')], cm_encoding = None, cm_fetched_at = 0, cm_stale = False\<rparr>)]\<rparr>\<rparr>)"
  by code_simp

theorem requests_are_bounded_witness:
  "counts_requests sample_http id
   \<and> hf_world (snd (http_fetch sample_http ''http://a/'' ''GET'' None sample_fetcher)) \<le> hf_world sample_fetcher + 4"
proof -
  have "counts_requests sample_http id"
    by (simp add: counts_requests_def sample_http_def sx_simps)
  with requests_are_bounded [of sample_http id "''http://a/''" "''GET''" None sample_fetcher] show ?thesis
    by (simp add: sample_fetcher_def default_retry_policy_def)
qed

theorem fetched_pages_are_cached_witness:
  "cached_as sample_http ''http://a/'' ''page'' (snd (http_fetch sample_http ''http://a/'' ''GET'' None sample_fetcher))"
proof -
  have "cache_ok sample_fetcher" by (simp add: cache_ok_def sample_fetcher_def)
  from fetched_pages_are_cached [OF this, of sample_http "''http://a/''" "''GET''" None] show ?thesis
    by (simp add: sample_fetch_runs)
qed

section \<open>Fetching again\<close>

text \<open>A load of a page the cache holds, when it is not too old.\<close>

lemma load_cached:
  assumes "dget (kc_bodies (hf_cache s)) (hs_sha256 sv url) = Some (Readable b)"
    "dget (kc_metas (hf_cache s)) (hs_sha256 sv url) = Some (Readable m)"
    "kc_ttl_s (hf_cache s) \<le> 0 \<or> fst (hs_time sv (hf_world s)) - cm_fetched_at m \<le> kc_ttl_s (hf_cache s)"
  shows "\<exists>w. cache_load sv url s = (Inr (Some (b, m)), s\<lparr>hf_world := w\<rparr>)"
  using assms
  by (cases "0 < kc_ttl_s (hf_cache s)")
    (auto simp: cache_load_def hf_read_def hf_op_def sx_zoom_def sx_simps sx_bind_def Let_def split: prod.split
      intro: exI [of _ "hf_world s"])

text \<open>
  A page that was fetched is not requested again while it is fresh: after a fetch returned a page with status 200 and
  a body, a second fetch of the URL within the time to live returns the same body, makes no request and changes nothing
  but the clock.
\<close>

theorem fetched_page_is_served:
  assumes "cache_ok s" "http_fetch sv url ''GET'' headers s = (Inr r, s')" "fr_status_code r = 200" "fr_content r \<noteq> []"
    and fresh: "\<And>m. dget (kc_metas (hf_cache s')) (hs_sha256 sv url) = Some (Readable m) \<Longrightarrow>
      kc_ttl_s (hf_cache s') \<le> 0 \<or> fst (hs_time sv (hf_world s')) - cm_fetched_at m \<le> kc_ttl_s (hf_cache s')"
    and count: "counts_requests sv n"
  shows "\<exists>r2 w. http_fetch sv url ''GET'' headers' s' = (Inr r2, s'\<lparr>hf_world := w\<rparr>)
    \<and> fr_content r2 = fr_content r \<and> fr_status_code r2 = 200 \<and> n w = n (hf_world s')"
proof -
  have net: "\<exists>netloc. url_netloc url = Inr netloc"
    using assms(2) by (cases "url_netloc url") (auto simp: http_fetch_def sx_bind_def sx_simps split: if_splits)
  from fetched_pages_are_cached [OF assms(1), of sv url "''GET''" headers] assms(2-4)
  have ok: "cache_ok s'" "cached_as sv url (fr_content r) s'" by simp_all
  then obtain m where m: "dget (kc_bodies (hf_cache s')) (hs_sha256 sv url) = Some (Readable (fr_content r))"
    "dget (kc_metas (hf_cache s')) (hs_sha256 sv url) = Some (Readable m)" "\<not> cm_stale m"
    by (auto simp: cached_as_def)
  with ok have m200: "cm_status_code m = 200" by (auto simp: cache_ok_def)
  obtain w where load: "cache_load sv url s' = (Inr (Some (fr_content r, m)), s'\<lparr>hf_world := w\<rparr>)"
    using load_cached [OF m(1,2) fresh [OF m(2)]] by blast
  obtain w2 where again: "fresh_response sv url (fr_content r) m (s'\<lparr>hf_world := w\<rparr>)
      = (Inr \<lparr>fr_url = url, fr_final_url = cm_final_url m, fr_status_code = cm_status_code m, fr_headers = cm_headers m,
              fr_content = fr_content r, fr_encoding = cm_encoding m, fr_fetched_at = cm_fetched_at m\<rparr>, s'\<lparr>hf_world := w2\<rparr>)"
    using fresh_response_result [of sv url "fr_content r" m "s'\<lparr>hf_world := w\<rparr>"] by auto
  have "n w = n (hf_world s')" using spendsD [OF cache_load_spends [OF count] load] by simp
  moreover have "n w2 = n w" using spendsD [OF fresh_response_spends [OF count] again] by simp
  moreover have "py_lower ''GET'' = ''get''" by code_simp
  ultimately show ?thesis
    using net load again m(3) m200 by (auto simp: http_fetch_def answer_from_def sx_bind_def sx_simps)
qed

theorem fetched_page_is_served_witness:
  "\<exists>r2 w. http_fetch sample_http ''http://a/'' ''GET'' None (snd (http_fetch sample_http ''http://a/'' ''GET'' None sample_fetcher))
     = (Inr r2, (snd (http_fetch sample_http ''http://a/'' ''GET'' None sample_fetcher))\<lparr>hf_world := w\<rparr>)
     \<and> fr_content r2 = ''page'' \<and> w = 2"
proof -
  have ok: "cache_ok sample_fetcher" by (simp add: cache_ok_def sample_fetcher_def)
  have count: "counts_requests sample_http id" by (simp add: counts_requests_def sample_http_def sx_simps)
  show ?thesis
    using fetched_page_is_served [OF ok sample_fetch_runs _ _ _ count, of None]
    by (simp add: sample_fetch_runs, simp add: sample_fetcher_def sample_http_def, blast)
qed

text \<open>
  What \<open>__aenter_host\<close> is meant to give: with a clock that a sleep moves on by at least its length, entering a host again
  ends no earlier than the minimum interval after it was entered.
\<close>

lemma limiter_enter_spaces:
  assumes clock: "\<And>w. hs_monotonic sv w = (clk w, w)" "\<And>d w. clk w + d \<le> clk (hs_sleep sv d w)"
    and first: "limiter_enter sv host s = (Inr (), s1)"
    and between: "dget (hl_next_time (hf_limiter s2)) host = dget (hl_next_time (hf_limiter s1)) host"
    and second: "limiter_enter sv host s2 = (Inr (), s3)"
  shows "clk (hf_world s1) + hl_min_interval (hf_limiter s) \<le> clk (hf_world s3)"
proof -
  have enter: "dget (hl_next_time (hf_limiter t)) host = Some (clk (hf_world t) + hl_min_interval (hf_limiter u))
      \<and> dget_default (hl_next_time (hf_limiter u)) host 0 \<le> clk (hf_world t)"
    if "limiter_enter sv host u = (Inr (), t)" for u t
    using that clock(1) clock(2) [of "hf_world u" "dget_default (hl_next_time (hf_limiter u)) host 0 - clk (hf_world u)"]
    by (auto simp: limiter_enter_def hf_read_def hf_op_def hf_sleep_def sx_zoom_def sx_bind_def sx_simps Let_def
        split: if_splits)
  from enter [OF first] enter [OF second] between show ?thesis by (simp add: dget_default_dget)
qed

section \<open>With a \<open>HostLimiter\<close>\<close>

definition guard_failure :: "string \<Rightarrow> exc" where
  "guard_failure url = fetch_failure url (Some (no_attribute ''_Guard__aenter_host''))"

lemma host_limiter_attempt:
  assumes "hs_limiter sv = HostLimiterObject" "\<not> hs_transient sv (no_attribute ''_Guard__aenter_host'')"
  shows "fetch_attempts sv host url headers cached (Suc left) attempt last_exc s
    = (Inr (Inl (Some (no_attribute ''_Guard__aenter_host''))), s)"
  using assms
  by (simp add: try_once_def guarded_get_def guard_enter_def sx_bind_def sx_try_def sx_simps)

lemma host_limiter_request:
  assumes "hs_limiter sv = HostLimiterObject" "\<not> hs_transient sv (no_attribute ''_Guard__aenter_host'')"
    "1 \<le> rt_max_attempts (hf_retry s)"
  shows "request_page sv host url headers cached s =
    (case ensure_client sv s of (Inl e, t) \<Rightarrow> (Inl e, t) | (Inr _, t) \<Rightarrow> (Inl (guard_failure url), t))"
proof -
  have retry: "hf_retry (snd (ensure_client sv s)) = hf_retry s"
    by (simp add: ensure_client_def sx_bind_def sx_simps hf_op_def sx_zoom_def split: prod.split sum.split)
  obtain k where k: "nat (rt_max_attempts (hf_retry s)) = Suc k" using assms(3) by (cases "nat (rt_max_attempts (hf_retry s))") simp_all
  obtain r t where client: "ensure_client sv s = (r, t)" by fastforce
  with retry k have "nat (rt_max_attempts (hf_retry t)) = Suc k" by simp
  with client show ?thesis
    by (cases r) (simp_all add: request_page_def sx_bind_def sx_simps host_limiter_attempt [OF assms(1,2)] guard_failure_def
        del: fetch_attempts.simps)
qed

text \<open>A fetch from the cache: the response when it holds a page that is not stale.\<close>

definition cache_serves :: "'w http_services \<Rightarrow> string \<Rightarrow> string \<Rightarrow> 'w http_fetcher \<Rightarrow> bool" where
  "cache_serves sv url b s \<longleftrightarrow> (\<exists>m t. cache_load sv url s = (Inr (Some (b, m)), t) \<and> \<not> cm_stale m)"

lemma ensure_client_keeps_cache: "hf_cache (snd (ensure_client sv s)) = hf_cache s"
  by (simp add: ensure_client_def sx_bind_def sx_simps hf_op_def sx_zoom_def split: prod.split sum.split)

lemma ensure_client_raises: "ensure_client sv s = (Inl e, t) \<Longrightarrow> \<exists>w w'. hs_new_client sv w = (Inl e, w')"
  by (auto simp: ensure_client_def sx_bind_def sx_simps hf_op_def sx_zoom_def split: prod.splits sum.splits if_splits)

lemma host_limiter_answer:
  assumes "hs_limiter sv = HostLimiterObject" "\<not> hs_transient sv (no_attribute ''_Guard__aenter_host'')"
    "1 \<le> rt_max_attempts (hf_retry s)" "counts_requests sv n"
  shows "hf_cache (snd (request_page sv host url headers cached s)) = hf_cache s
    \<and> n (hf_world (snd (request_page sv host url headers cached s))) = n (hf_world s)
    \<and> (\<exists>e. fst (request_page sv host url headers cached s) = Inl e
        \<and> (e = guard_failure url \<or> (\<exists>w w'. hs_new_client sv w = (Inl e, w'))))"
proof -
  obtain r t where client: "ensure_client sv s = (r, t)" by fastforce
  have "n (hf_world t) = n (hf_world s)" using spendsD [OF ensure_client_spends [OF assms(4)] client] by simp
  then show ?thesis
    using client ensure_client_keeps_cache [of sv s] ensure_client_raises [of sv s]
    by (cases r) (auto simp: host_limiter_request [OF assms(1-3)])
qed

text \<open>
  C29: with the limiter of the program no page is ever requested. Every fetch of a fetcher whose limiter is a
  \<open>HostLimiter\<close>, as is the default, leaves the cache as it is and makes no request: it returns the cached body when the
  cache holds a page for the URL that is not stale, and otherwise raises, for a \<open>GET\<close> of a URL that can be parsed and
  with a client the \<open>RuntimeError\<close> of the attribute the guard does not find. (The exceptions that are retried are those
  of the HTTP client, and \<open>AttributeError\<close> is none of them.)
\<close>

theorem host_limiter_stops_requests:
  assumes "hs_limiter sv = HostLimiterObject" "\<not> hs_transient sv (no_attribute ''_Guard__aenter_host'')"
    "1 \<le> rt_max_attempts (hf_retry s)" "counts_requests sv n" "http_fetch sv url method headers s = (r, s')"
  shows "hf_cache s' = hf_cache s \<and> n (hf_world s') = n (hf_world s)
    \<and> (case r of
         Inr resp \<Rightarrow> cache_serves sv url (fr_content resp) s
       | Inl e \<Rightarrow> exc_class e = ''ValueError'' \<or> e = guard_failure url \<or> (\<exists>w w'. hs_new_client sv w = (Inl e, w')))
    \<and> (py_lower method = ''get'' \<and> (\<exists>h. url_netloc url = Inr h) \<and> (\<forall>b. \<not> cache_serves sv url b s) \<and> hf_client s
        \<longrightarrow> r = Inl (guard_failure url))"
proof (cases "py_lower method = ''get'' \<and> (\<exists>netloc. url_netloc url = Inr netloc)")
  case False
  then show ?thesis
    using assms(5) by (cases "url_netloc url") (auto simp: http_fetch_def sx_bind_def sx_simps url_netloc_error split: if_splits)
next
  case True
  then obtain netloc where net: "url_netloc url = Inr netloc" by blast
  obtain c w where load: "cache_load sv url s = (Inr c, s\<lparr>hf_world := w\<rparr>)"
    using cache_load_result [of sv url s] by blast
  let ?t = "s\<lparr>hf_world := w\<rparr>" and ?host = "if py_lower netloc = [] then ''unknown'' else py_lower netloc"
  have w: "n w = n (hf_world s)" using spendsD [OF cache_load_spends [OF assms(4)] load] by simp
  have run: "answer_from sv url ?host (case headers of None \<Rightarrow> [] | Some hs \<Rightarrow> hs) c ?t = (r, s')"
    using True net load assms(5) by (simp add: http_fetch_def sx_bind_def sx_simps)
  have t: "1 \<le> rt_max_attempts (hf_retry ?t)" using assms(3) by simp
  note page = host_limiter_answer [OF assms(1,2) t assms(4), of ?host url]
  have serves: "cache_serves sv url b s = (\<exists>m. c = Some (b, m) \<and> \<not> cm_stale m)" for b
    using load by (auto simp: cache_serves_def)
  show ?thesis
  proof (cases "\<exists>b m. c = Some (b, m) \<and> \<not> cm_stale m")
    case True
    then obtain b m where c: "c = Some (b, m)" "\<not> cm_stale m" by blast
    obtain w2 where fresh: "fresh_response sv url b m ?t = (Inr \<lparr>fr_url = url, fr_final_url = cm_final_url m,
        fr_status_code = cm_status_code m, fr_headers = cm_headers m, fr_content = b, fr_encoding = cm_encoding m,
        fr_fetched_at = cm_fetched_at m\<rparr>, s\<lparr>hf_world := w2\<rparr>)"
      using fresh_response_result [of sv url b m ?t] by auto
    have "n w2 = n w" using spendsD [OF fresh_response_spends [OF assms(4)] fresh] by simp
    moreover obtain resp where "r = Inr resp" "s' = s\<lparr>hf_world := w2\<rparr>" "fr_content resp = b"
      using run fresh by (auto simp: c(1) answer_from_def c(2))
    moreover have "cache_serves sv url b s" using serves c by blast
    ultimately show ?thesis using w by auto
  next
    case False
    then obtain hs where req: "request_page sv ?host url hs c ?t = (r, s')"
      using run by (cases c) (auto simp: answer_from_def split: if_splits)
    have "hf_client s \<Longrightarrow> r = Inl (guard_failure url)"
      using req host_limiter_request [OF assms(1,2) t, of ?host url hs c]
      by (simp add: ensure_client_def sx_bind_def sx_simps)
    with page [of hs c] req w False serves show ?thesis by auto
  qed
qed

text \<open>The fetcher of the program, on a page a client would answer.\<close>

definition program_http :: "nat http_services" where
  "program_http = sample_http\<lparr>hs_limiter := HostLimiterObject, hs_transient := (\<lambda>e. exc_class e = ''ConnectError'')\<rparr>"

theorem host_limiter_stops_requests_witness:
  "\<exists>s'. http_fetch program_http ''http://a/'' ''GET'' None (sample_fetcher\<lparr>hf_client := True\<rparr>)
       = (Inl (guard_failure ''http://a/''), s') \<and> hf_world s' = 0"
proof -
  let ?s = "sample_fetcher\<lparr>hf_client := True\<rparr>"
  obtain r s' where run: "http_fetch program_http ''http://a/'' ''GET'' None ?s = (r, s')" by fastforce
  have count: "counts_requests program_http id"
    by (simp add: counts_requests_def program_http_def sample_http_def sx_simps)
  have limiter: "hs_limiter program_http = HostLimiterObject" "\<not> hs_transient program_http (no_attribute ''_Guard__aenter_host'')"
    by (simp_all add: program_http_def no_attribute_def)
  have retry: "1 \<le> rt_max_attempts (hf_retry ?s)" by (simp add: sample_fetcher_def default_retry_policy_def)
  have get: "py_lower ''GET'' = ''get''" "\<exists>h. url_netloc ''http://a/'' = Inr h"
    by (code_simp, rule exI [of _ "''a''"], code_simp)
  have empty: "\<not> cache_serves program_http ''http://a/'' b ?s" for b
    by (simp add: cache_serves_def cache_load_def sx_bind_def sx_simps Let_def sample_fetcher_def)
  show ?thesis
    using host_limiter_stops_requests [OF limiter retry count run] get empty run by (simp add: sample_fetcher_def)
qed

text \<open>A fault of the disk makes the fetch fail although the page was answered.\<close>

lemma disk_fault_loses_page:
  assumes "\<And>w. hs_time sv w = (0, w)" "\<And>w. hs_disk sv ''write body'' w = (Inl e, w)" "hp_status resp = 200" "hp_content resp \<noteq> []"
  shows "accept_reply sv url resp s = (Inl e, s)"
  using assms
  by (simp add: accept_reply_def cache_save_def Let_def hf_read_def hf_op_def sx_zoom_def sx_bind_def)

text \<open>A replacement of the data that fails leaves the new body with the old data.\<close>

lemma broken_save_mixes_pages:
  assumes "\<And>w. hs_time sv w = (0, w)" "\<And>p w. hs_disk sv p w = (if p = ''replace meta'' then Inl e else Inr (), w)"
  shows "cache_save sv url b m s = (Inl e, put_body (hs_sha256 sv url) b s)"
  using assms
  by (simp add: cache_save_def Let_def hf_read_def hf_op_def sx_zoom_def sx_bind_def sx_simps put_body_def)

end
