(* ===== verification/BrowserPages.thy ===== *)
theory BrowserPages
  imports StateExc "HOL-Library.Multiset"
begin

text \<open>
  The registry of open browser pages, \<open>agent_crawler/fetch/browser_registry.py\<close>. Pages and contexts of the browser are
  opaque objects; the clock, the generated identifiers and the closing of an object are services on a world. The lock
  makes each operation one step. The result is a conservation law: a registered page is either still in the registry
  or was closed, once.
\<close>

section \<open>The registry\<close>

record 'o page_handle =
  bh_page_ref :: string
  bh_context_ref :: string
  bh_page :: 'o
  bh_context :: 'o
  bh_url :: string
  bh_final_url :: string
  bh_domain :: "string option"
  bh_auth_profile_id :: "string option"
  bh_owner_run_id :: "string option"
  bh_created_at :: rat
  bh_last_accessed_at :: rat
  bh_ttl_s :: int

record ('o, 'w) page_registry =
  br_max_open_pages :: int
  br_default_ttl_s :: int
  br_pages :: "'o page_handle dict"
  br_world :: 'w

record ('o, 'w) page_services =
  bs_time :: "'w \<Rightarrow> rat \<times> 'w"
  bs_uuid :: "'w \<Rightarrow> string \<times> 'w"
  bs_close_page :: "'o \<Rightarrow> ('w, unit) sx"
  bs_close_context :: "'o \<Rightarrow> ('w, unit) sx"

type_synonym ('o, 'w, 'a) brx = "(('o, 'w) page_registry, 'a) sx"

definition new_page_registry :: "int \<Rightarrow> int \<Rightarrow> 'w \<Rightarrow> ('o, 'w) page_registry" where
  "new_page_registry max_open_pages default_ttl_s w =
     \<lparr>br_max_open_pages = max 1 max_open_pages, br_default_ttl_s = default_ttl_s, br_pages = [], br_world = w\<rparr>"

definition br_op :: "('w, 'a) sx \<Rightarrow> ('o, 'w, 'a) brx" where
  "br_op = sx_zoom br_world (\<lambda>w s. s\<lparr>br_world := w\<rparr>)"

definition br_read :: "('w \<Rightarrow> 'a \<times> 'w) \<Rightarrow> ('o, 'w, 'a) brx" where
  "br_read f = br_op (\<lambda>w. case f w of (a, w') \<Rightarrow> (Inr a, w'))"

definition close_handle :: "('o, 'w) page_services \<Rightarrow> 'o page_handle \<Rightarrow> ('o, 'w, unit) brx" where
  "close_handle sv h =
     sx_bind (sx_try (br_op (bs_close_page sv (bh_page h))) (\<lambda>_. True) (\<lambda>_. sx_return ())) (\<lambda>_.
       sx_try (br_op (bs_close_context sv (bh_context h))) (\<lambda>_. True) (\<lambda>_. sx_return ()))"

text \<open>The clock is read only for a handle with a time to live.\<close>

definition is_expired :: "('o, 'w) page_services \<Rightarrow> 'o page_handle \<Rightarrow> ('o, 'w, bool) brx" where
  "is_expired sv h =
     (if 0 < bh_ttl_s h
      then sx_bind (br_read (bs_time sv)) (\<lambda>now. sx_return (now - bh_last_accessed_at h > of_int (bh_ttl_s h)))
      else sx_return False)"

definition pop_and_close :: "('o, 'w) page_services \<Rightarrow> string \<Rightarrow> ('o, 'w, bool) brx" where
  "pop_and_close sv page_ref =
     sx_bind sx_get (\<lambda>s.
       case dget (br_pages s) page_ref of
         None \<Rightarrow> sx_return False
       | Some h \<Rightarrow>
           sx_bind (sx_modify (\<lambda>s. s\<lparr>br_pages := ddelete page_ref (br_pages s)\<rparr>)) (\<lambda>_.
           sx_bind (close_handle sv h) (\<lambda>_. sx_return True)))"

fun pop_all :: "('o, 'w) page_services \<Rightarrow> string list \<Rightarrow> ('o, 'w, unit) brx" where
  "pop_all sv [] = sx_return ()"
| "pop_all sv (r # rs) = sx_bind (pop_and_close sv r) (\<lambda>_. pop_all sv rs)"

fun expired_refs :: "('o, 'w) page_services \<Rightarrow> 'o page_handle dict \<Rightarrow> ('o, 'w, string list) brx" where
  "expired_refs sv [] = sx_return []"
| "expired_refs sv ((r, h) # hs) =
     sx_bind (is_expired sv h) (\<lambda>x. sx_bind (expired_refs sv hs) (\<lambda>rs. sx_return (if x then r # rs else rs)))"

definition sweep_expired :: "('o, 'w) page_services \<Rightarrow> ('o, 'w, nat) brx" where
  "sweep_expired sv =
     sx_bind sx_get (\<lambda>s.
     sx_bind (expired_refs sv (br_pages s)) (\<lambda>refs.
     sx_bind (pop_all sv refs) (\<lambda>_. sx_return (length refs))))"

definition evict_refs :: "int \<Rightarrow> 'o page_handle dict \<Rightarrow> string list" where
  "evict_refs limit d =
     map fst (take (nat (int (length d) - limit)) (sort_key (\<lambda>p. bh_last_accessed_at (snd p)) d))"

definition evict_if_needed :: "('o, 'w) page_services \<Rightarrow> ('o, 'w, unit) brx" where
  "evict_if_needed sv =
     sx_bind sx_get (\<lambda>s.
       if int (length (br_pages s)) - br_max_open_pages s \<le> 0 then sx_return ()
       else pop_all sv (evict_refs (br_max_open_pages s) (br_pages s)))"

text \<open>What a caller registers.\<close>

record 'o page_request =
  bq_page :: 'o
  bq_context :: 'o
  bq_url :: string
  bq_final_url :: string
  bq_domain :: "string option"
  bq_auth_profile_id :: "string option"
  bq_owner_run_id :: "string option"
  bq_ttl_s :: "int option"

text \<open>The new handle, from the readings of the identifiers and the clock.\<close>

definition new_handle :: "int \<Rightarrow> 'o page_request \<Rightarrow> string \<Rightarrow> string \<Rightarrow> rat \<Rightarrow> rat \<Rightarrow> 'o page_handle" where
  "new_handle ttl q u1 u2 created accessed =
     \<lparr>bh_page_ref = ''page_'' @ u1, bh_context_ref = ''ctx_'' @ u2, bh_page = bq_page q, bh_context = bq_context q,
      bh_url = bq_url q, bh_final_url = bq_final_url q, bh_domain = bq_domain q,
      bh_auth_profile_id = bq_auth_profile_id q, bh_owner_run_id = bq_owner_run_id q,
      bh_created_at = created, bh_last_accessed_at = accessed,
      bh_ttl_s = (case bq_ttl_s q of None \<Rightarrow> ttl | Some t \<Rightarrow> t)\<rparr>"

definition insert_handle :: "('o, 'w) page_services \<Rightarrow> 'o page_request \<Rightarrow> ('o, 'w, 'o page_handle) brx" where
  "insert_handle sv q =
     sx_bind sx_get (\<lambda>s.
     sx_bind (br_read (bs_uuid sv)) (\<lambda>u1.
     sx_bind (br_read (bs_uuid sv)) (\<lambda>u2.
     sx_bind (br_read (bs_time sv)) (\<lambda>created.
     sx_bind (br_read (bs_time sv)) (\<lambda>accessed.
       let h = new_handle (br_default_ttl_s s) q u1 u2 created accessed
       in sx_bind (sx_modify (\<lambda>s. s\<lparr>br_pages := dput (bh_page_ref h) h (br_pages s)\<rparr>)) (\<lambda>_.
          sx_bind (evict_if_needed sv) (\<lambda>_. sx_return h)))))))"

definition register_page :: "('o, 'w) page_services \<Rightarrow> 'o page_request \<Rightarrow> ('o, 'w, 'o page_handle) brx" where
  "register_page sv q = sx_bind (sweep_expired sv) (\<lambda>_. insert_handle sv q)"

definition get_page :: "('o, 'w) page_services \<Rightarrow> string \<Rightarrow> ('o, 'w, 'o page_handle option) brx" where
  "get_page sv page_ref =
     sx_bind sx_get (\<lambda>s.
       case dget (br_pages s) page_ref of
         None \<Rightarrow> sx_return None
       | Some h \<Rightarrow>
           sx_bind (is_expired sv h) (\<lambda>x.
             if x then sx_bind (pop_and_close sv page_ref) (\<lambda>_. sx_return None)
             else sx_bind (br_read (bs_time sv)) (\<lambda>now.
                  let h = h\<lparr>bh_last_accessed_at := now\<rparr> in
                  sx_bind (sx_modify (\<lambda>s. s\<lparr>br_pages := dput page_ref h (br_pages s)\<rparr>)) (\<lambda>_. sx_return (Some h)))))"

definition close_page :: "('o, 'w) page_services \<Rightarrow> string \<Rightarrow> ('o, 'w, bool) brx" where
  "close_page sv page_ref = pop_and_close sv page_ref"

fun close_handles :: "('o, 'w) page_services \<Rightarrow> 'o page_handle list \<Rightarrow> ('o, 'w, unit) brx" where
  "close_handles sv [] = sx_return ()"
| "close_handles sv (h # hs) = sx_bind (close_handle sv h) (\<lambda>_. close_handles sv hs)"

definition close_all_pages :: "('o, 'w) page_services \<Rightarrow> ('o, 'w, unit) brx" where
  "close_all_pages sv =
     sx_bind sx_get (\<lambda>s.
     sx_bind (sx_modify (\<lambda>s. s\<lparr>br_pages := []\<rparr>)) (\<lambda>_. close_handles sv (dvalues (br_pages s))))"

section \<open>Operations as steps\<close>

datatype 'o page_op = RegisterPage "'o page_request" | GetPage string | ClosePage string | SweepPages | CloseAllPages

fun run_page_op :: "('o, 'w) page_services \<Rightarrow> 'o page_op \<Rightarrow> ('o, 'w, unit) brx" where
  "run_page_op sv (RegisterPage q) = sx_bind (register_page sv q) (\<lambda>_. sx_return ())"
| "run_page_op sv (GetPage r) = sx_bind (get_page sv r) (\<lambda>_. sx_return ())"
| "run_page_op sv (ClosePage r) = sx_bind (close_page sv r) (\<lambda>_. sx_return ())"
| "run_page_op sv SweepPages = sx_bind (sweep_expired sv) (\<lambda>_. sx_return ())"
| "run_page_op sv CloseAllPages = close_all_pages sv"

fun run_page_ops :: "('o, 'w) page_services \<Rightarrow> 'o page_op list \<Rightarrow> ('o, 'w, unit) brx" where
  "run_page_ops sv [] = sx_return ()"
| "run_page_ops sv (x # xs) = sx_bind (run_page_op sv x) (\<lambda>_. run_page_ops sv xs)"

section \<open>What the objects and the clock do\<close>

text \<open>
  \<open>log\<close> lists the pages and contexts whose \<open>close\<close> was called, \<open>used\<close> the identifiers handed out, \<open>clk\<close> is the time:
  closing an object adds it to the log, an identifier is handed out once, the time does not go back.
\<close>

record ('o, 'w) page_view =
  pv_log :: "'w \<Rightarrow> 'o list"
  pv_used :: "'w \<Rightarrow> string set"
  pv_clk :: "'w \<Rightarrow> rat"

definition later :: "('o, 'w) page_view \<Rightarrow> 'w \<Rightarrow> 'w \<Rightarrow> bool" where
  "later v w w' \<longleftrightarrow> pv_used v w \<subseteq> pv_used v w' \<and> pv_clk v w \<le> pv_clk v w'"

definition page_world :: "('o, 'w) page_services \<Rightarrow> ('o, 'w) page_view \<Rightarrow> bool" where
  "page_world sv v \<longleftrightarrow>
     (\<forall>x w. pv_log v (snd (bs_close_page sv x w)) = pv_log v w @ [x] \<and> later v w (snd (bs_close_page sv x w)))
     \<and> (\<forall>x w. pv_log v (snd (bs_close_context sv x w)) = pv_log v w @ [x] \<and> later v w (snd (bs_close_context sv x w)))
     \<and> (\<forall>w. fst (bs_time sv w) = pv_clk v (snd (bs_time sv w)) \<and> pv_log v (snd (bs_time sv w)) = pv_log v w
          \<and> later v w (snd (bs_time sv w)))
     \<and> (\<forall>w. fst (bs_uuid sv w) \<notin> pv_used v w \<and> fst (bs_uuid sv w) \<in> pv_used v (snd (bs_uuid sv w))
          \<and> pv_log v (snd (bs_uuid sv w)) = pv_log v w \<and> later v w (snd (bs_uuid sv w)))"

lemma later_refl [simp]: "later v w w"
  by (simp add: later_def)

lemma later_trans: "later v w w' \<Longrightarrow> later v w' w'' \<Longrightarrow> later v w w''"
  by (auto simp: later_def)

text \<open>The objects the registry answers for: those it holds and those it closed.\<close>

definition handle_objects :: "'o page_handle \<Rightarrow> 'o multiset" where
  "handle_objects h = {#bh_page h, bh_context h#}"

definition open_objects :: "'o page_handle dict \<Rightarrow> 'o multiset" where
  "open_objects d = \<Sum>\<^sub># (image_mset handle_objects (mset (dvalues d)))"

definition accounted :: "('o, 'w) page_view \<Rightarrow> ('o, 'w) page_registry \<Rightarrow> 'o multiset" where
  "accounted v s = open_objects (br_pages s) + mset (pv_log v (br_world s))"

text \<open>A step to the dictionary \<open>d\<close> that closes what it removes.\<close>

definition page_step :: "('o, 'w) page_view \<Rightarrow> ('o, 'w) page_registry \<Rightarrow> 'o page_handle dict \<Rightarrow> ('o, 'w) page_registry \<Rightarrow> bool" where
  "page_step v s d s' \<longleftrightarrow>
     br_pages s' = d \<and> br_max_open_pages s' = br_max_open_pages s \<and> br_default_ttl_s s' = br_default_ttl_s s
     \<and> accounted v s' = accounted v s \<and> later v (br_world s) (br_world s')"

lemma page_step_trans: "page_step v s d s' \<Longrightarrow> page_step v s' d' s'' \<Longrightarrow> page_step v s d' s''"
  by (auto simp: page_step_def intro: later_trans)

lemma page_worldD:
  assumes "page_world sv v"
  shows "pv_log v (snd (bs_close_page sv x w)) = pv_log v w @ [x]" "later v w (snd (bs_close_page sv x w))"
    "pv_log v (snd (bs_close_context sv x w)) = pv_log v w @ [x]" "later v w (snd (bs_close_context sv x w))"
    "fst (bs_time sv w) = pv_clk v (snd (bs_time sv w))" "pv_log v (snd (bs_time sv w)) = pv_log v w"
    "later v w (snd (bs_time sv w))"
    "fst (bs_uuid sv w) \<notin> pv_used v w" "fst (bs_uuid sv w) \<in> pv_used v (snd (bs_uuid sv w))"
    "pv_log v (snd (bs_uuid sv w)) = pv_log v w" "later v w (snd (bs_uuid sv w))"
  using assms by (simp_all add: page_world_def)

lemma br_read_runs:
  "br_read f s = (Inr (fst (f (br_world s))), s\<lparr>br_world := snd (f (br_world s))\<rparr>)"
  by (simp add: br_read_def br_op_def sx_zoom_def split: prod.split)

lemma quiet_op: "sx_try (br_op m) (\<lambda>_. True) (\<lambda>_. sx_return ()) s = (Inr (), s\<lparr>br_world := snd (m (br_world s))\<rparr>)"
  by (simp add: sx_try_def br_op_def sx_zoom_def sx_simps split: prod.split sum.split)

lemma close_handle_runs:
  "close_handle sv h s
   = (Inr (), s\<lparr>br_world := snd (bs_close_context sv (bh_context h) (snd (bs_close_page sv (bh_page h) (br_world s))))\<rparr>)"
  by (simp add: close_handle_def sx_bind_Inr [OF quiet_op] quiet_op)

lemma close_handle_log:
  assumes "page_world sv v" "close_handle sv h s = (r, s')"
  shows "pv_log v (br_world s') = pv_log v (br_world s) @ [bh_page h, bh_context h]" "later v (br_world s) (br_world s')"
    "br_pages s' = br_pages s" "br_max_open_pages s' = br_max_open_pages s" "br_default_ttl_s s' = br_default_ttl_s s"
  using assms(2) page_worldD [OF assms(1)]
  by (auto simp: close_handle_runs intro: later_trans [OF page_worldD(2) [OF assms(1)] page_worldD(4) [OF assms(1)]])

lemma time_step:
  assumes "page_world sv v"
  shows "page_step v s (br_pages s) (s\<lparr>br_world := snd (bs_time sv (br_world s))\<rparr>)"
  using assms by (simp add: page_world_def page_step_def accounted_def)

lemma is_expired_step:
  assumes "page_world sv v"
  shows "\<exists>b s'. is_expired sv h s = (Inr b, s') \<and> page_step v s (br_pages s) s'"
  using time_step [OF assms, of s]
  by (auto simp: is_expired_def sx_bind_Inr [OF br_read_runs] sx_simps) (simp add: page_step_def)

lemma open_objects_ddelete:
  "dict_ok d \<Longrightarrow> dget d r = Some h \<Longrightarrow> open_objects d = handle_objects h + open_objects (ddelete r d)"
proof (induction d)
  case (Cons p d)
  obtain k h' where [simp]: "p = (k, h')" by (cases p)
  have "filter (\<lambda>p. fst p \<noteq> k) d = d" if "dict_ok ((k, h') # d)"
    using that by (auto simp: dict_ok_def intro!: filter_True) 
  with Cons show ?case by (auto simp: open_objects_def ddelete_def dict_ok_def split: if_splits)
qed simp

lemma ddelete_absent: "dget d r = None \<Longrightarrow> ddelete r d = d"
  by (induction d) (auto simp: ddelete_def split: if_splits)

lemma handle_objects_simps [simp]:
  "handle_objects (h\<lparr>bh_last_accessed_at := t\<rparr>) = handle_objects h"
  "{#bh_page h, bh_context h#} = handle_objects h"
  by (simp_all add: handle_objects_def)

lemma pop_and_close_step:
  assumes "page_world sv v" "dict_ok (br_pages s)"
  shows "\<exists>s'. pop_and_close sv r s = (Inr (dhas (br_pages s) r), s') \<and> page_step v s (ddelete r (br_pages s)) s'"
proof (cases "dget (br_pages s) r")
  case None
  then show ?thesis
    by (simp add: pop_and_close_def sx_bind_step sx_simps page_step_def ddelete_absent dhas_dget)
next
  case (Some h)
  let ?t = "s\<lparr>br_pages := ddelete r (br_pages s)\<rparr>"
  obtain s' where run: "close_handle sv h ?t = (Inr (), s')" using close_handle_runs by blast
  show ?thesis
    using Some close_handle_log [OF assms(1) run] open_objects_ddelete [OF assms(2) Some]
    by (simp add: pop_and_close_def sx_bind_step sx_bind_Inr [of "close_handle sv h", OF run] sx_simps page_step_def
        accounted_def dhas_dget)
qed

lemma dict_ok_filter [simp, intro]: "dict_ok d \<Longrightarrow> dict_ok (filter P d)"
  by (simp add: dict_ok_def distinct_map_filter)

lemma dict_ok_ddelete [simp, intro]: "dict_ok d \<Longrightarrow> dict_ok (ddelete r d)"
  by (simp add: ddelete_def dict_ok_filter)

lemma pop_all_step:
  assumes "page_world sv v"
  shows "dict_ok (br_pages s) \<Longrightarrow>
    \<exists>s'. pop_all sv rs s = (Inr (), s') \<and> page_step v s (filter (\<lambda>p. fst p \<notin> set rs) (br_pages s)) s'"
proof (induction rs arbitrary: s)
  case Nil
  then show ?case by (simp add: sx_simps page_step_def)
next
  case (Cons r rs)
  obtain s1 where one: "pop_and_close sv r s = (Inr (dhas (br_pages s) r), s1)" "page_step v s (ddelete r (br_pages s)) s1"
    using pop_and_close_step [OF assms Cons.prems] by blast
  then have d: "br_pages s1 = ddelete r (br_pages s)" by (simp add: page_step_def)
  with Cons obtain s2 where two: "pop_all sv rs s1 = (Inr (), s2)"
    "page_step v s1 (filter (\<lambda>p. fst p \<notin> set rs) (br_pages s1)) s2"
    by (metis dict_ok_ddelete)
  have "filter (\<lambda>p. fst p \<notin> set rs) (br_pages s1) = filter (\<lambda>p. fst p \<notin> set (r # rs)) (br_pages s)"
    by (simp add: d ddelete_def conj_commute)
  with page_step_trans [OF one(2) two(2)] two(1) show ?case
    by (simp add: sx_bind_Inr [of "pop_and_close sv r", OF one(1)])
qed

lemma expired_refs_step:
  assumes "page_world sv v"
  shows "\<exists>rs s'. expired_refs sv d s = (Inr rs, s') \<and> page_step v s (br_pages s) s'"
proof (induction d arbitrary: s)
  case Nil
  then show ?case by (simp add: sx_simps page_step_def)
next
  case (Cons p d)
  obtain r h where [simp]: "p = (r, h)" by (cases p)
  obtain x s1 where one: "is_expired sv h s = (Inr x, s1)" "page_step v s (br_pages s) s1"
    using is_expired_step [OF assms] by blast
  obtain rs s2 where two: "expired_refs sv d s1 = (Inr rs, s2)" "page_step v s1 (br_pages s1) s2"
    using Cons.IH by blast
  have "br_pages s1 = br_pages s" using one(2) by (simp add: page_step_def)
  with page_step_trans [OF one(2) two(2)] show ?case
    by (simp add: sx_bind_Inr [of "is_expired sv h", OF one(1)] sx_bind_Inr [of "expired_refs sv d", OF two(1)] sx_simps)
qed

lemma sweep_step:
  assumes "page_world sv v" "dict_ok (br_pages s)"
  shows "\<exists>n P s'. sweep_expired sv s = (Inr n, s') \<and> page_step v s (filter P (br_pages s)) s'"
proof -
  obtain rs s1 where one: "expired_refs sv (br_pages s) s = (Inr rs, s1)" "page_step v s (br_pages s) s1"
    using expired_refs_step [OF assms(1)] by blast
  then have d: "br_pages s1 = br_pages s" by (simp add: page_step_def)
  with assms obtain s2 where two: "pop_all sv rs s1 = (Inr (), s2)"
    "page_step v s1 (filter (\<lambda>p. fst p \<notin> set rs) (br_pages s1)) s2"
    by (metis pop_all_step)
  have "sweep_expired sv s = (Inr (length rs), s2)"
    by (simp add: sweep_expired_def sx_bind_step sx_bind_Inr [of "expired_refs sv (br_pages s)", OF one(1)]
        sx_bind_Inr [of "pop_all sv rs", OF two(1)] sx_simps)
  with page_step_trans [OF one(2) two(2)] d show ?thesis by metis
qed

text \<open>Eviction removes as many entries as are too many, the least recently used ones.\<close>

lemma evict_refs_facts:
  assumes "dict_ok d" "0 \<le> limit"
  shows "distinct (evict_refs limit d)" "set (evict_refs limit d) \<subseteq> fst ` set d"
    "int (length d) - int (length (evict_refs limit d)) \<le> limit"
proof -
  have m: "mset (map fst (sort_key f d)) = mset (map fst d)" for f :: "_ \<Rightarrow> rat" by simp
  have "distinct (map fst (sort_key f d))" for f :: "_ \<Rightarrow> rat"
    using assms(1) m [of f] mset_eq_imp_distinct_iff unfolding dict_ok_def by blast
  then show "distinct (evict_refs limit d)" by (simp add: evict_refs_def take_map [symmetric])
  show "set (evict_refs limit d) \<subseteq> fst ` set d"
    by (auto simp: evict_refs_def dest!: in_set_takeD)
  show "int (length d) - int (length (evict_refs limit d)) \<le> limit"
    using assms(2) by (simp add: evict_refs_def)
qed

lemma filter_keys_length:
  assumes "dict_ok d" "distinct rs" "set rs \<subseteq> fst ` set d"
  shows "length (filter (\<lambda>p. fst p \<notin> set rs) d) = length d - length rs"
proof -
  have "length (filter (\<lambda>p. fst p \<in> set rs) d) = length (filter (\<lambda>k. k \<in> set rs) (map fst d))"
    by (simp add: filter_map o_def)
  also have "\<dots> = card (set (filter (\<lambda>k. k \<in> set rs) (map fst d)))"
    using assms(1) by (intro distinct_card [symmetric]) (simp add: dict_ok_def)
  also have "set (filter (\<lambda>k. k \<in> set rs) (map fst d)) = set rs" using assms(3) by auto
  also have "card (set rs) = length rs" using assms(2) by (rule distinct_card)
  finally show ?thesis using sum_length_filter_compl [of "\<lambda>p. fst p \<in> set rs" d] by simp
qed

lemma evict_step:
  assumes "page_world sv v" "dict_ok (br_pages s)" "1 \<le> br_max_open_pages s"
  shows "\<exists>s'. evict_if_needed sv s = (Inr (), s')
    \<and> page_step v s (filter (\<lambda>p. fst p \<notin> set (evict_refs (br_max_open_pages s) (br_pages s))) (br_pages s)) s'
    \<and> int (length (br_pages s')) \<le> br_max_open_pages s'"
proof -
  let ?d = "br_pages s" and ?m = "br_max_open_pages s"
  note facts = evict_refs_facts [OF assms(2), of ?m]
  show ?thesis
  proof (cases "int (length ?d) - ?m \<le> 0")
    case True
    then have "evict_refs ?m ?d = []" by (simp add: evict_refs_def)
    with True show ?thesis by (simp add: evict_if_needed_def sx_bind_step sx_simps page_step_def)
  next
    case False
    obtain s' where run: "pop_all sv (evict_refs ?m ?d) s = (Inr (), s')"
      "page_step v s (filter (\<lambda>p. fst p \<notin> set (evict_refs ?m ?d)) ?d) s'"
      using pop_all_step [OF assms(1,2)] by blast
    have "int (length (br_pages s')) \<le> br_max_open_pages s'"
      using run(2) filter_keys_length [OF assms(2) facts(1,2)] facts(3) assms(3) False by (simp add: page_step_def)
    with run False show ?thesis by (simp add: evict_if_needed_def sx_bind_step)
  qed
qed

text \<open>The most recently used entry, the last one of those, is not evicted.\<close>

lemma last_not_evicted:
  assumes "dict_ok (d @ [(r, h)])" "\<forall>p \<in> set d. bh_last_accessed_at (snd p) \<le> bh_last_accessed_at h" "1 \<le> limit"
  shows "r \<notin> set (evict_refs limit (d @ [(r, h)]))"
proof -
  let ?f = "\<lambda>p :: string \<times> 'a page_handle. bh_last_accessed_at (snd p)"
  have "sort_key ?f (d @ [(r, h)]) = sort_key ?f d @ [(r, h)]"
  proof (rule properties_for_sort_key [of _ _ ?f])
    show "sorted (map ?f (sort_key ?f d @ [(r, h)]))" using assms(2) by (auto simp: sorted_append)
    show "filter (\<lambda>x. ?f k = ?f x) (sort_key ?f d @ [(r, h)]) = filter (\<lambda>x. ?f k = ?f x) (d @ [(r, h)])" for k
      using sort_key_stable [of ?f "?f k" d] by (simp add: eq_commute)
  qed simp
  moreover have "nat (int (length (d @ [(r, h)])) - limit) \<le> length d" using assms(3) by simp
  ultimately have "evict_refs limit (d @ [(r, h)]) = map fst (take (nat (int (length (d @ [(r, h)])) - limit)) (sort_key ?f d))"
    by (simp add: evict_refs_def)
  then have "set (evict_refs limit (d @ [(r, h)])) \<subseteq> fst ` set d" by (auto dest!: in_set_takeD)
  with assms(1) show ?thesis by (auto simp: dict_ok_def)
qed

section \<open>The registry keeps its pages\<close>

text \<open>
  Every page is filed under its reference, whose identifier was handed out, and was used no later than now; the registry
  holds at most \<open>max_open_pages\<close>.
\<close>

definition handles_ok :: "('o, 'w) page_view \<Rightarrow> 'w \<Rightarrow> 'o page_handle dict \<Rightarrow> bool" where
  "handles_ok v w d \<longleftrightarrow> dict_ok d \<and>
     (\<forall>(r, h) \<in> set d. bh_page_ref h = r \<and> (\<exists>u \<in> pv_used v w. r = ''page_'' @ u) \<and> bh_last_accessed_at h \<le> pv_clk v w)"

definition registry_ok :: "('o, 'w) page_view \<Rightarrow> ('o, 'w) page_registry \<Rightarrow> bool" where
  "registry_ok v s \<longleftrightarrow> handles_ok v (br_world s) (br_pages s) \<and> 1 \<le> br_max_open_pages s
     \<and> int (length (br_pages s)) \<le> br_max_open_pages s"

lemma handles_ok_dict [dest]: "handles_ok v w d \<Longrightarrow> dict_ok d"
  by (simp add: handles_ok_def)

lemma handles_ok_later: "handles_ok v w d \<Longrightarrow> later v w w' \<Longrightarrow> handles_ok v w' d"
  by (fastforce simp: handles_ok_def later_def)

lemma handles_ok_filter: "handles_ok v w d \<Longrightarrow> handles_ok v w (filter P d)"
  by (auto simp: handles_ok_def)

lemma registry_ok_filter:
  assumes "registry_ok v s" "page_step v s (filter P (br_pages s)) s'"
  shows "registry_ok v s'"
proof -
  have "handles_ok v (br_world s') (filter P (br_pages s))"
    using assms by (intro handles_ok_later [OF handles_ok_filter, of v "br_world s"]) (simp_all add: registry_ok_def page_step_def)
  moreover have "int (length (filter P (br_pages s))) \<le> br_max_open_pages s"
    using assms(1) of_nat_mono [OF length_filter_le [of P "br_pages s"], where ?'a = int] unfolding registry_ok_def by linarith
  ultimately show ?thesis using assms by (simp add: registry_ok_def page_step_def)
qed

lemma ddelete_filter: "ddelete r d = filter (\<lambda>p. fst p \<noteq> r) d"
  by (simp add: ddelete_def)

lemma fresh_reference:
  assumes "handles_ok v w d" "u \<notin> pv_used v w"
  shows "\<not> dhas d (''page_'' @ u)"
  using assms by (auto simp: handles_ok_def dhas_iff)

lemma registry_ok_put:
  assumes "handles_ok v w d" "u \<in> pv_used v w" "bh_page_ref h = ''page_'' @ u" "bh_last_accessed_at h \<le> pv_clk v w"
    "\<not> dhas d (bh_page_ref h)"
  shows "handles_ok v w (d @ [(bh_page_ref h, h)])"
  using assms by (auto simp: handles_ok_def dict_ok_def dhas_iff)

definition request_objects :: "'o page_request \<Rightarrow> 'o multiset" where
  "request_objects q = {#bq_page q, bq_context q#}"

lemma insert_handle_runs:
  fixes s :: "('o, 'w) page_registry"
  assumes "page_world sv v" "handles_ok v (br_world s) (br_pages s)"
  shows "\<exists>h w. handles_ok v w (br_pages s @ [(bh_page_ref h, h)]) \<and> handle_objects h = request_objects q
    \<and> pv_log v w = pv_log v (br_world s)
    \<and> (\<forall>p \<in> set (br_pages s). bh_last_accessed_at (snd p) \<le> bh_last_accessed_at h)
    \<and> insert_handle sv q s = sx_bind (evict_if_needed sv) (\<lambda>_. sx_return h)
         (s\<lparr>br_world := w, br_pages := br_pages s @ [(bh_page_ref h, h)]\<rparr>)"
proof -
  define w1 where "w1 = snd (bs_uuid sv (br_world s))"
  define w2 where "w2 = snd (bs_uuid sv w1)"
  define w3 where "w3 = snd (bs_time sv w2)"
  define w4 where "w4 = snd (bs_time sv w3)"
  define h where "h = new_handle (br_default_ttl_s s) q (fst (bs_uuid sv (br_world s))) (fst (bs_uuid sv w1))
    (fst (bs_time sv w2)) (fst (bs_time sv w3))"
  have ref: "bh_page_ref h = ''page_'' @ fst (bs_uuid sv (br_world s))" "handle_objects h = request_objects q"
    "bh_last_accessed_at h = fst (bs_time sv w3)" by (simp_all add: h_def new_handle_def handle_objects_def request_objects_def)
  note W = page_worldD [OF assms(1)]
  have steps: "later v (br_world s) w1" "later v w1 w2" "later v w2 w3" "later v w3 w4"
    by (simp_all add: w1_def w2_def w3_def w4_def W)
  then have l: "later v w1 w4" "later v (br_world s) w4" by (blast intro: later_trans)+
  have log: "pv_log v w4 = pv_log v (br_world s)" by (simp add: w1_def w2_def w3_def w4_def W)
  have new: "\<not> dhas (br_pages s) (bh_page_ref h)"
    using fresh_reference [OF assms(2) W(8)] by (simp add: ref)
  have now: "bh_last_accessed_at h = pv_clk v w4" by (simp add: ref w4_def W)
  have ok4: "handles_ok v w4 (br_pages s)" by (rule handles_ok_later [OF assms(2) l(2)])
  have used: "fst (bs_uuid sv (br_world s)) \<in> pv_used v w4"
    using W(9) [of "br_world s"] l(1) unfolding w1_def later_def by blast
  have last: "\<forall>p \<in> set (br_pages s). bh_last_accessed_at (snd p) \<le> bh_last_accessed_at h"
    using ok4 by (auto simp: handles_ok_def now)
  have ok: "handles_ok v w4 (br_pages s @ [(bh_page_ref h, h)])"
    by (rule registry_ok_put [OF ok4 used _ _ new]) (simp_all only: ref(1) now order_refl)
  have run: "insert_handle sv q s = sx_bind (evict_if_needed sv) (\<lambda>_. sx_return h)
      (s\<lparr>br_world := w4, br_pages := br_pages s @ [(bh_page_ref h, h)]\<rparr>)"
    using new by (simp add: insert_handle_def sx_bind_step sx_bind_Inr [OF br_read_runs] Let_def dput_keys_new
        h_def [symmetric] w1_def [symmetric] w2_def [symmetric] w3_def [symmetric] w4_def [symmetric])
  from ok ref(2) log last run show ?thesis by blast
qed

lemma dget_last: "r \<notin> fst ` set d \<Longrightarrow> dget (d @ [(r, h)]) r = Some h"
  by (induction d) (auto split: if_splits)

lemma accounted_insert:
  "pv_log v w = pv_log v (br_world s) \<Longrightarrow>
   accounted v (s\<lparr>br_world := w, br_pages := br_pages s @ [(r, h)]\<rparr>) = handle_objects h + accounted v s"
  by (simp add: accounted_def open_objects_def dvalues_append)

lemma insert_handle_ok:
  fixes s :: "('o, 'w) page_registry"
  assumes "page_world sv v" "registry_ok v s"
  shows "\<exists>h s'. insert_handle sv q s = (Inr h, s') \<and> registry_ok v s' \<and> handle_objects h = request_objects q
    \<and> dget (br_pages s') (bh_page_ref h) = Some h \<and> br_max_open_pages s' = br_max_open_pages s
    \<and> accounted v s' = request_objects q + accounted v s"
proof -
  obtain h w where ok: "handles_ok v w (br_pages s @ [(bh_page_ref h, h)])" "handle_objects h = request_objects q"
    "pv_log v w = pv_log v (br_world s)" "\<forall>p \<in> set (br_pages s). bh_last_accessed_at (snd p) \<le> bh_last_accessed_at h"
    and run: "insert_handle sv q s = sx_bind (evict_if_needed sv) (\<lambda>_. sx_return h)
         (s\<lparr>br_world := w, br_pages := br_pages s @ [(bh_page_ref h, h)]\<rparr>)"
  proof -
    have "handles_ok v (br_world s) (br_pages s)" using assms(2) by (simp add: registry_ok_def)
    from insert_handle_runs [OF assms(1) this, of q] show thesis by (elim exE conjE) (rule that)
  qed
  let ?t = "s\<lparr>br_world := w, br_pages := br_pages s @ [(bh_page_ref h, h)]\<rparr>"
  let ?gone = "set (evict_refs (br_max_open_pages s) (br_pages s @ [(bh_page_ref h, h)]))"
  have d: "dict_ok (br_pages ?t)" using ok(1) by auto
  have mx: "1 \<le> br_max_open_pages s" using assms(2) by (simp add: registry_ok_def)
  obtain s' where evict: "evict_if_needed sv ?t = (Inr (), s')"
    "page_step v ?t (filter (\<lambda>p. fst p \<notin> ?gone) (br_pages ?t)) s'"
    "int (length (br_pages s')) \<le> br_max_open_pages s'"
    using evict_step [OF assms(1) d] mx by auto
  have "bh_page_ref h \<notin> ?gone" using last_not_evicted [OF _ ok(4) mx] d by simp
  then have "dget (br_pages s') (bh_page_ref h) = Some h"
    using d evict(2) by (auto simp: page_step_def dict_ok_def intro!: dget_last)
  moreover have "registry_ok v s'"
  proof -
    have "later v w (br_world s')" using evict(2) by (simp add: page_step_def)
    from handles_ok_later [OF handles_ok_filter [OF ok(1)] this, of "\<lambda>p. fst p \<notin> ?gone"] evict(2,3) mx
    show ?thesis by (simp add: registry_ok_def page_step_def)
  qed
  moreover have "accounted v s' = request_objects q + accounted v s"
    using evict(2) accounted_insert [OF ok(3), of "bh_page_ref h" h] ok(2) by (simp add: page_step_def)
  ultimately show ?thesis
    using evict(2) ok(2) by (simp add: run sx_bind_Inr [of "evict_if_needed sv", OF evict(1)] sx_simps page_step_def)
qed

section \<open>Every sequence of operations\<close>

text \<open>What each operation does: it returns, keeps the registry well formed, and accounts for the pages \<open>new\<close> as well.\<close>

definition page_effect :: "('o, 'w) page_view \<Rightarrow> ('o, 'w) page_registry \<Rightarrow> 'o multiset \<Rightarrow> ('o, 'w) page_registry \<Rightarrow> bool" where
  "page_effect v s new s' \<longleftrightarrow> registry_ok v s' \<and> br_max_open_pages s' = br_max_open_pages s
     \<and> accounted v s' = new + accounted v s"

lemma page_effect_filter:
  "registry_ok v s \<Longrightarrow> page_step v s (filter P (br_pages s)) s' \<Longrightarrow> page_effect v s {#} s'"
  by (simp add: page_effect_def registry_ok_filter) (simp add: page_step_def)

lemma page_effect_same: "registry_ok v s \<Longrightarrow> page_step v s (br_pages s) s' \<Longrightarrow> page_effect v s {#} s'"
  using page_effect_filter [of v s "\<lambda>_. True" s'] by simp

lemma page_effect_trans: "page_effect v s a s' \<Longrightarrow> page_effect v s' b s'' \<Longrightarrow> page_effect v s (b + a) s''"
  by (simp add: page_effect_def)

lemma registry_ok_dict: "registry_ok v s \<Longrightarrow> dict_ok (br_pages s)"
  by (auto simp: registry_ok_def)

lemma pop_and_close_effect:
  assumes "page_world sv v" "registry_ok v s"
  shows "\<exists>s'. pop_and_close sv r s = (Inr (dhas (br_pages s) r), s') \<and> page_effect v s {#} s'"
  using pop_and_close_step [OF assms(1) registry_ok_dict [OF assms(2)], of r] page_effect_filter [OF assms(2)]
  unfolding ddelete_filter by blast

lemma sweep_effect:
  assumes "page_world sv v" "registry_ok v s"
  shows "\<exists>n s'. sweep_expired sv s = (Inr n, s') \<and> page_effect v s {#} s'"
  using sweep_step [OF assms(1) registry_ok_dict [OF assms(2)]] page_effect_filter [OF assms(2)] by blast

lemma register_effect:
  assumes "page_world sv v" "registry_ok v s"
  shows "\<exists>h s'. register_page sv q s = (Inr h, s') \<and> handle_objects h = request_objects q
    \<and> dget (br_pages s') (bh_page_ref h) = Some h \<and> page_effect v s (request_objects q) s'"
proof -
  obtain n s1 where one: "sweep_expired sv s = (Inr n, s1)" "page_effect v s {#} s1"
    using sweep_effect [OF assms] by blast
  then have "registry_ok v s1" by (simp add: page_effect_def)
  from insert_handle_ok [OF assms(1) this, of q] one show ?thesis
    by (auto simp: register_page_def sx_bind_Inr [of "sweep_expired sv", OF one(1)] page_effect_def)
qed

text \<open>Reading a page: its time of last use becomes now, and the page stays where it is.\<close>

lemma touch_dput:
  assumes "dget d r = Some h" "handle_objects h' = handle_objects h"
  shows "open_objects (dput r h' d) = open_objects d" "length (dput r h' d) = length d"
  using assms by (induction d) (auto simp: open_objects_def split: if_splits)

lemma touch_handles_ok:
  assumes "handles_ok v w d" "dget d r = Some h"
  shows "handles_ok v w (dput r (h\<lparr>bh_last_accessed_at := pv_clk v w\<rparr>) d)"
proof -
  have "(r, h) \<in> set d" using assms(2) by (simp add: dget_def map_of_SomeD)
  then have "bh_page_ref h = r" "\<exists>u \<in> pv_used v w. r = ''page_'' @ u" using assms(1) by (auto simp: handles_ok_def)
  moreover have "set (dput r h' d) \<subseteq> insert (r, h') (set d)" for h'
    by (induction d) (auto split: if_splits)
  ultimately show ?thesis using assms(1) unfolding handles_ok_def by (fastforce intro: dict_ok_dput)
qed

lemma touch_effect:
  assumes "page_world sv v" "registry_ok v s" "dget (br_pages s) r = Some h"
  defines "w \<equiv> snd (bs_time sv (br_world s))"
  shows "page_effect v s {#} (s\<lparr>br_world := w, br_pages := dput r (h\<lparr>bh_last_accessed_at := fst (bs_time sv (br_world s))\<rparr>) (br_pages s)\<rparr>)"
proof -
  note W = page_worldD [OF assms(1)]
  have "handles_ok v w (br_pages s)"
    using assms(2) handles_ok_later [OF _ W(7)] by (auto simp: registry_ok_def w_def)
  from touch_handles_ok [OF this assms(3)]
  have "handles_ok v w (dput r (h\<lparr>bh_last_accessed_at := fst (bs_time sv (br_world s))\<rparr>) (br_pages s))"
    by (simp add: w_def W)
  then show ?thesis
    using assms(2) touch_dput [OF assms(3), of "h\<lparr>bh_last_accessed_at := fst (bs_time sv (br_world s))\<rparr>"]
    by (simp add: page_effect_def registry_ok_def accounted_def w_def W)
qed

lemma get_effect:
  assumes "page_world sv v" "registry_ok v s"
  shows "\<exists>x s'. get_page sv r s = (Inr x, s') \<and> page_effect v s {#} s'"
proof (cases "dget (br_pages s) r")
  case None
  then show ?thesis
    using page_effect_same [OF assms(2), of s] by (simp add: get_page_def sx_bind_step sx_simps page_step_def)
next
  case (Some h)
  obtain x s1 where one: "is_expired sv h s = (Inr x, s1)" "page_step v s (br_pages s) s1"
    using is_expired_step [OF assms(1)] by blast
  have e1: "page_effect v s {#} s1" by (rule page_effect_same [OF assms(2) one(2)])
  then have ok1: "registry_ok v s1" by (simp add: page_effect_def)
  have d1: "dget (br_pages s1) r = Some h" using one(2) Some by (simp add: page_step_def)
  obtain b s2 where pop: "pop_and_close sv r s1 = (Inr b, s2)" "page_effect v s1 {#} s2"
    using pop_and_close_effect [OF assms(1) ok1] by blast
  show ?thesis
    using page_effect_trans [OF e1 touch_effect [OF assms(1) ok1 d1]] page_effect_trans [OF e1 pop(2)]
    by (cases x) (auto simp: get_page_def Some sx_bind_step sx_bind_Inr [of "is_expired sv h", OF one(1)]
        sx_bind_Inr [of "pop_and_close sv r", OF pop(1)] sx_bind_Inr [OF br_read_runs] sx_simps Let_def)
qed

lemma close_handles_log:
  assumes "page_world sv v"
  shows "\<exists>s'. close_handles sv hs s = (Inr (), s') \<and> pv_log v (br_world s') = pv_log v (br_world s) @ concat (map (\<lambda>h. [bh_page h, bh_context h]) hs)
    \<and> br_pages s' = br_pages s \<and> br_max_open_pages s' = br_max_open_pages s"
proof (induction hs arbitrary: s)
  case (Cons h hs)
  obtain s1 where run: "close_handle sv h s = (Inr (), s1)" using close_handle_runs by blast
  note one = close_handle_log [OF assms run]
  obtain s2 where "close_handles sv hs s1 = (Inr (), s2)"
    "pv_log v (br_world s2) = pv_log v (br_world s1) @ concat (map (\<lambda>h. [bh_page h, bh_context h]) hs)" "br_pages s2 = br_pages s1"
    "br_max_open_pages s2 = br_max_open_pages s1" using Cons.IH by blast
  with one show ?case by (simp add: sx_bind_Inr [of "close_handle sv h", OF run])
qed (simp add: sx_simps)

lemma closed_handles_objects:
  "mset (concat (map (\<lambda>h. [bh_page h, bh_context h]) hs)) = \<Sum>\<^sub># (image_mset handle_objects (mset hs))"
  by (induction hs) (simp_all flip: handle_objects_simps(2))

lemma close_all_effect:
  assumes "page_world sv v" "registry_ok v s"
  shows "\<exists>s'. close_all_pages sv s = (Inr (), s') \<and> br_pages s' = [] \<and> page_effect v s {#} s'"
proof -
  obtain s' where "close_handles sv (dvalues (br_pages s)) (s\<lparr>br_pages := []\<rparr>) = (Inr (), s')"
    "pv_log v (br_world s') = pv_log v (br_world s) @ concat (map (\<lambda>h. [bh_page h, bh_context h]) (dvalues (br_pages s)))" "br_pages s' = []"
    "br_max_open_pages s' = br_max_open_pages s"
    using close_handles_log [OF assms(1), of "dvalues (br_pages s)" "s\<lparr>br_pages := []\<rparr>"] by auto
  then show ?thesis
    using assms(2) by (simp add: close_all_pages_def sx_bind_step page_effect_def registry_ok_def handles_ok_def
        accounted_def open_objects_def closed_handles_objects add.commute)
qed

fun new_objects :: "'o page_op \<Rightarrow> 'o multiset" where
  "new_objects (RegisterPage q) = request_objects q"
| "new_objects _ = {#}"

lemma run_page_op_effect:
  assumes "page_world sv v" "registry_ok v s"
  shows "\<exists>s'. run_page_op sv op s = (Inr (), s') \<and> page_effect v s (new_objects op) s'"
proof (cases op)
  case (RegisterPage q)
  then show ?thesis using register_effect [OF assms, of q] by (auto simp: sx_bind_def sx_simps)
next
  case (GetPage r)
  then show ?thesis using get_effect [OF assms, of r] by (auto simp: sx_bind_def sx_simps)
next
  case (ClosePage r)
  then show ?thesis using pop_and_close_effect [OF assms, of r] by (auto simp: close_page_def sx_bind_def sx_simps)
next
  case SweepPages
  then show ?thesis using sweep_effect [OF assms] by (auto simp: sx_bind_def sx_simps)
next
  case CloseAllPages
  then show ?thesis using close_all_effect [OF assms] by auto
qed

lemma run_page_ops_effect:
  assumes "page_world sv v" "registry_ok v s"
  shows "\<exists>s'. run_page_ops sv ops s = (Inr (), s') \<and> page_effect v s (\<Sum>\<^sub># (image_mset new_objects (mset ops))) s'"
  using assms(2)
proof (induction ops arbitrary: s)
  case Nil
  then show ?case using page_effect_same [of v s s] by (simp add: sx_simps page_step_def)
next
  case (Cons op ops)
  obtain s1 where one: "run_page_op sv op s = (Inr (), s1)" "page_effect v s (new_objects op) s1"
    using run_page_op_effect [OF assms(1) Cons.prems] by blast
  then have "registry_ok v s1" by (simp add: page_effect_def)
  from Cons.IH [OF this] obtain s2 where two: "run_page_ops sv ops s1 = (Inr (), s2)"
    "page_effect v s1 (\<Sum>\<^sub># (image_mset new_objects (mset ops))) s2" by blast
  show ?case
    using page_effect_trans [OF one(2) two(2)]
    by (simp add: sx_bind_Inr [of "run_page_op sv op", OF one(1)] two(1) add.commute)
qed

lemma new_registry_ok:
  "registry_ok v (new_page_registry m t w)" "accounted v (new_page_registry m t w) = mset (pv_log v w)"
  by (simp_all add: registry_ok_def new_page_registry_def handles_ok_def accounted_def open_objects_def)

text \<open>
  C33: no browser page or context is lost or closed twice: after any sequence of operations on a new registry, which all
  return even when closing fails, those that are open and those whose \<open>close\<close> was called are together exactly those that
  were registered, counted with multiplicity, and at most \<open>max_open_pages\<close> are open; \<open>close_all\<close> then closes the rest.
\<close>

theorem registered_pages_are_closed_once:
  assumes "page_world sv v" "pv_log v w = []"
  shows "\<exists>s. run_page_ops sv ops (new_page_registry m t w) = (Inr (), s)
    \<and> int (length (br_pages s)) \<le> max 1 m
    \<and> open_objects (br_pages s) + mset (pv_log v (br_world s)) = (\<Sum>\<^sub># (image_mset new_objects (mset ops)))
    \<and> (\<exists>s'. close_all_pages sv s = (Inr (), s') \<and> br_pages s' = []
         \<and> mset (pv_log v (br_world s')) = (\<Sum>\<^sub># (image_mset new_objects (mset ops))))"
proof -
  let ?s = "new_page_registry m t w" and ?all = "\<Sum>\<^sub># (image_mset new_objects (mset ops))"
  obtain s where run: "run_page_ops sv ops ?s = (Inr (), s)" "page_effect v ?s ?all s"
    using run_page_ops_effect [OF assms(1) new_registry_ok(1)] by blast
  then have s: "registry_ok v s" "accounted v s = ?all" "br_max_open_pages s = max 1 m"
    by (simp_all add: page_effect_def new_registry_ok(2) assms(2)) (simp add: new_page_registry_def)
  obtain s' where "close_all_pages sv s = (Inr (), s')" "br_pages s' = []" "page_effect v s {#} s'"
    using close_all_effect [OF assms(1) s(1)] by blast
  with run s show ?thesis by (auto simp: page_effect_def accounted_def registry_ok_def open_objects_def)
qed

text \<open>
  The page just registered is in the registry: whatever was done before, eviction closes other pages, so the
  reference that \<open>register\<close> returns leads to the handle it returned.
\<close>

theorem registered_page_is_open:
  assumes "page_world sv v" "run_page_ops sv ops (new_page_registry m t w) = (Inr (), s)"
  shows "\<exists>h s'. register_page sv q s = (Inr h, s') \<and> handle_objects h = request_objects q \<and> dget (br_pages s') (bh_page_ref h) = Some h"
proof -
  have "registry_ok v s"
    using run_page_ops_effect [OF assms(1) new_registry_ok(1), of ops m t w] assms(2) by (auto simp: page_effect_def)
  from register_effect [OF assms(1) this, of q] show ?thesis by blast
qed

text \<open>A browser whose pages all fail to close; the world is the log and the number of readings.\<close>

definition sample_pages :: "(string, string list \<times> nat) page_services" where
  "sample_pages =
     \<lparr>bs_time = (\<lambda>(l, n). (of_nat n, (l, n))), bs_uuid = (\<lambda>(l, n). (replicate n (CHR ''x''), (l, Suc n))),
      bs_close_page = (\<lambda>x (l, n). (Inl (Exc ''Error'' x), (l @ [x], n))), bs_close_context = (\<lambda>x (l, n). (Inr (), (l @ [x], n)))\<rparr>"

definition sample_view :: "(string, string list \<times> nat) page_view" where
  "sample_view = \<lparr>pv_log = fst, pv_used = (\<lambda>w. {replicate k (CHR ''x'') | k. k < snd w}), pv_clk = (\<lambda>w. of_nat (snd w))\<rparr>"

definition sample_page :: "string \<Rightarrow> string page_request" where
  "sample_page p =
     \<lparr>bq_page = p, bq_context = ''c'' @ p, bq_url = [], bq_final_url = [], bq_domain = None, bq_auth_profile_id = None,
      bq_owner_run_id = None, bq_ttl_s = None\<rparr>"

lemma replicate_eq_length: "replicate n x = replicate k x \<longleftrightarrow> n = k"
  by (metis length_replicate)

lemma sample_page_world: "page_world sample_pages sample_view"
  by (auto simp: page_world_def sample_pages_def sample_view_def later_def replicate_eq_length sx_simps less_Suc_eq)

theorem registered_pages_are_closed_once_witness:
  "open_objects (br_pages (snd (run_page_ops sample_pages (map (\<lambda>p. RegisterPage (sample_page p)) [''a'', ''b''])
       (new_page_registry 1 600 ([], 0)))))
   + mset (fst (br_world (snd (run_page_ops sample_pages (map (\<lambda>p. RegisterPage (sample_page p)) [''a'', ''b''])
       (new_page_registry 1 600 ([], 0)))))) = {#''a'', ''b'', ''ca'', ''cb''#}"
  using registered_pages_are_closed_once [OF sample_page_world, of "([], 0)"
      "map (\<lambda>p. RegisterPage (sample_page p)) [''a'', ''b'']" 1 600]
  by (auto simp: sample_view_def sample_page_def request_objects_def)

theorem registered_page_is_open_witness:
  "\<exists>h s'. register_page sample_pages (sample_page ''a'') (new_page_registry 1 600 ([], 0)) = (Inr h, s')
     \<and> handle_objects h = {#''a'', ''ca''#} \<and> dget (br_pages s') (bh_page_ref h) = Some h"
  using registered_page_is_open [OF sample_page_world, of "[]" 1 600 "([], 0)" _ "sample_page ''a''"]
  by (auto simp: sx_simps sample_page_def request_objects_def)

section \<open>Without the assumptions\<close>

text \<open>An identifier handed out twice replaces a handle: its page is neither open nor closed.\<close>

lemma reused_identifier_loses_page:
  "br_pages s = [(''page_x'', h)] \<Longrightarrow> bh_page_ref h' = ''page_x'' \<Longrightarrow> bh_page h \<notin># handle_objects h' \<Longrightarrow>
   bh_page h \<notin># open_objects (dput (bh_page_ref h') h' (br_pages s))"
  by (simp add: open_objects_def)

text \<open>A clock set back makes the page just registered the first to be evicted.\<close>

lemma backward_clock_evicts_new_page:
  "bh_last_accessed_at new < bh_last_accessed_at old \<Longrightarrow> evict_refs 1 [(r, old), (r', new)] = [r']"
  by (simp add: evict_refs_def)

end
