(* ===== verification/AuthGate.thy ===== *)
theory AuthGate
  imports StateExc
begin

text \<open>
  The detection of login pages, \<open>agent_crawler/fetch/auth_gate.py\<close>. Its scores are sums of floats compared with a
  threshold that some sums are meant to reach, so here every operation on floats rounds to the nearest double. The three
  default keywords outside Latin-1 cannot occur in a text of the model and are left out; the decoding of bytes as UTF-8
  is a parameter.
\<close>

section \<open>Doubles\<close>

text \<open>How often \<open>q\<close> must be doubled to reach 53 bits.\<close>

fun double_shift :: "nat \<Rightarrow> rat \<Rightarrow> nat" where
  "double_shift 0 q = 0"
| "double_shift (Suc n) q = (if 2 ^ 52 \<le> q then 0 else Suc (double_shift n (2 * q)))"

definition round_half_even :: "rat \<Rightarrow> int" where
  "round_half_even q =
     (let f = \<lfloor>q\<rfloor>; d = q - of_int f in
      if d < 1 / 2 then f else if 1 / 2 < d then f + 1 else if f mod 2 = 0 then f else f + 1)"

text \<open>The double nearest to a number, for numbers below \<open>2^53\<close> that are not tiny (all scores here are).\<close>

definition to_double :: "rat \<Rightarrow> rat" where
  "to_double q =
     (let a = \<bar>q\<bar>; k = double_shift 200 a; r = of_int (round_half_even (a * 2 ^ k)) / 2 ^ k
      in if q < 0 then - r else r)"

definition fl_add :: "rat \<Rightarrow> rat \<Rightarrow> rat" where
  "fl_add a b = to_double (a + b)"

definition fl_sub :: "rat \<Rightarrow> rat \<Rightarrow> rat" where
  "fl_sub a b = to_double (a - b)"

definition fl_mult :: "rat \<Rightarrow> rat \<Rightarrow> rat" where
  "fl_mult a b = to_double (a * b)"

definition fl_div :: "rat \<Rightarrow> rat \<Rightarrow> rat" where
  "fl_div a b = to_double (a / b)"

section \<open>Text tools\<close>

definition hex_value :: "char \<Rightarrow> nat option" where
  "hex_value c = (let n = (of_char c :: nat) in
     if 48 \<le> n \<and> n \<le> 57 then Some (n - 48) else if 65 \<le> n \<and> n \<le> 70 then Some (n - 55)
     else if 97 \<le> n \<and> n \<le> 102 then Some (n - 87) else None)"

fun unquote_bytes :: "string \<Rightarrow> string" where
  "unquote_bytes (c # a # b # s) =
     (if c = CHR ''%''
      then (case (hex_value a, hex_value b) of
              (Some x, Some y) \<Rightarrow> char_of (16 * x + y) # unquote_bytes s
            | _ \<Rightarrow> c # unquote_bytes (a # b # s))
      else c # unquote_bytes (a # b # s))"
| "unquote_bytes s = s"

definition is_ascii :: "char \<Rightarrow> bool" where
  "is_ascii c = ((of_char c :: nat) < 128)"

lemma drop_runs_shorter: "s \<noteq> [] \<Longrightarrow> length (dropWhile is_ascii (dropWhile (\<lambda>c. \<not> is_ascii c) s)) < length s"
proof -
  assume "s \<noteq> []"
  then obtain c t where [simp]: "s = c # t" by (cases s) auto
  have "length (dropWhile P u) \<le> length u" for P and u :: string by (rule length_dropWhile_le)
  then have "length (dropWhile is_ascii (dropWhile (\<lambda>c. \<not> is_ascii c) t)) \<le> length t"
    "length (dropWhile is_ascii t) \<le> length t" by (meson le_trans)+
  then show ?thesis by auto
qed

text \<open>\<open>urllib.parse.unquote\<close>: each run of ASCII characters is unquoted and decoded, the others stay.\<close>

function unquote_runs :: "(string \<Rightarrow> string) \<Rightarrow> string \<Rightarrow> string" where
  "unquote_runs decode s =
     (if s = [] then []
      else takeWhile (\<lambda>c. \<not> is_ascii c) s
        @ (let rest = dropWhile (\<lambda>c. \<not> is_ascii c) s in
           decode (unquote_bytes (takeWhile is_ascii rest)) @ unquote_runs decode (dropWhile is_ascii rest)))"
  by pat_completeness auto

termination by (relation "measure (\<lambda>(decode, s). length s)") (auto intro: drop_runs_shorter)

declare unquote_runs.simps [simp del]

definition unquote :: "(string \<Rightarrow> string) \<Rightarrow> string \<Rightarrow> string" where
  "unquote decode s = (if CHR ''%'' \<in> set s then unquote_runs decode s else s)"

text \<open>A word character of a regular expression; \<open>\b\<close> after a letter needs the end or another character.\<close>

definition regex_word_char :: "char \<Rightarrow> bool" where
  "regex_word_char c = (let n = (of_char c :: nat) in
     48 \<le> n \<and> n \<le> 57 \<or> 65 \<le> n \<and> n \<le> 90 \<or> n = 95 \<or> 97 \<le> n \<and> n \<le> 122 \<or> n \<in> {170, 178, 179, 181, 185, 186, 188, 189, 190}
     \<or> 192 \<le> n \<and> n \<noteq> 215 \<and> n \<noteq> 247)"

definition tag_at :: "string \<Rightarrow> string \<Rightarrow> bool" where
  "tag_at tag s = (py_startswith s tag \<and> (case drop (length tag) s of [] \<Rightarrow> True | c # _ \<Rightarrow> \<not> regex_word_char c))"

text \<open>\<open>type\s*=\s*["']?password\<close> at the head of a text.\<close>

definition password_at :: "string \<Rightarrow> bool" where
  "password_at s =
     (py_startswith s ''type'' \<and>
      (case dropWhile py_isspace (drop 4 s) of
         [] \<Rightarrow> False
       | c # t \<Rightarrow> c = CHR ''='' \<and>
           (let u = dropWhile py_isspace t in
            py_startswith u ''password'' \<or> u \<noteq> [] \<and> hd u \<in> {CHR 0x22, CHR 0x27} \<and> py_startswith (tl u) ''password'')))"

fun count_heads :: "(string \<Rightarrow> bool) \<Rightarrow> string \<Rightarrow> nat" where
  "count_heads p [] = 0"
| "count_heads p (c # s) = (if p (c # s) then 1 else 0) + count_heads p s"

text \<open>\<open><input\b[^>]*type\s*=\s*["']?password\<close>\<close>

fun password_in_tag :: "string \<Rightarrow> bool" where
  "password_in_tag [] = False"
| "password_in_tag (c # s) = (password_at (c # s) \<or> c \<noteq> CHR ''>'' \<and> password_in_tag s)"

fun has_password_field :: "string \<Rightarrow> bool" where
  "has_password_field [] = False"
| "has_password_field (c # s) =
     (tag_at ''<input'' (c # s) \<and> password_in_tag (drop 6 (c # s)) \<or> has_password_field s)"

text \<open>The text after the first occurrence of \<open>sub\<close>.\<close>

fun after_first :: "string \<Rightarrow> string \<Rightarrow> string option" where
  "after_first sub [] = (if sub = [] then Some [] else None)"
| "after_first sub (c # s) = (if py_startswith (c # s) sub then Some (drop (length sub) (c # s)) else after_first sub s)"

lemma after_first_shorter: "after_first sub s = Some t \<Longrightarrow> length t \<le> length s"
  by (induction s) (auto split: if_splits)

text \<open>\<open>re.sub(r"<tag[\s\S]*?</tag>", " ", s)\<close>\<close>

function drop_elements :: "string \<Rightarrow> string \<Rightarrow> string \<Rightarrow> string" where
  "drop_elements start stop [] = []"
| "drop_elements start stop (c # s) =
     (case (if py_startswith (c # s) start \<and> start \<noteq> [] then after_first stop (drop (length start) (c # s)) else None) of
        Some t \<Rightarrow> CHR '' '' # drop_elements start stop t
      | None \<Rightarrow> c # drop_elements start stop s)"
  by pat_completeness auto

termination
proof (relation "measure (\<lambda>(start, stop, s). length s)", goal_cases)
  case (2 start stop c s)
  then show ?case by simp
next
  case (3 start stop c s t)
  then have "after_first stop (drop (length start) (c # s)) = Some t" "start \<noteq> []" by (simp_all split: if_splits)
  with after_first_shorter [of stop _ t] show ?case by (cases start) fastforce+
qed simp

text \<open>\<open>re.sub(r"<[^>]+>", " ", s)\<close>\<close>

function drop_tags :: "string \<Rightarrow> string" where
  "drop_tags [] = []"
| "drop_tags (c # s) =
     (if c = CHR ''<'' \<and> s \<noteq> [] \<and> hd s \<noteq> CHR ''>'' \<and> CHR ''>'' \<in> set s
      then CHR '' '' # drop_tags (tl (dropWhile (\<lambda>x. x \<noteq> CHR ''>'') s)) else c # drop_tags s)"
  by pat_completeness auto

termination
proof (relation "measure length", goal_cases)
  case (2 c s)
  have "length (tl (dropWhile (\<lambda>x. x \<noteq> CHR ''>'') s)) \<le> length s"
    by (metis diff_le_self le_trans length_dropWhile_le length_tl)
  then show ?case by simp
qed simp_all

text \<open>\<open>re.sub(r"\s+", " ", s)\<close>\<close>

fun squeeze_spaces :: "bool \<Rightarrow> string \<Rightarrow> string" where
  "squeeze_spaces after [] = []"
| "squeeze_spaces after (c # s) =
     (if py_isspace c then (if after then squeeze_spaces True s else CHR '' '' # squeeze_spaces True s)
      else c # squeeze_spaces False s)"

section \<open>The gate\<close>

record browser_auth_config =
  bc_interactive_login :: bool
  bc_login_wait_timeout_ms :: int
  bc_login_poll_interval_ms :: int
  bc_login_url_keywords :: "string list"
  bc_login_html_keywords :: "string list"
  bc_success_url_patterns :: "string list"
  bc_success_selectors :: "string list"

definition default_auth_config :: browser_auth_config where
  "default_auth_config =
     \<lparr>bc_interactive_login = False, bc_login_wait_timeout_ms = 180000, bc_login_poll_interval_ms = 1000,
      bc_login_url_keywords = [''login'', ''signin'', ''sign-in'', ''auth'', ''sso'', ''oauth'', ''account''],
      bc_login_html_keywords = [''sign in'', ''log in'', ''login'', ''signin'', ''password'', ''username'', ''email''],
      bc_success_url_patterns = [], bc_success_selectors = []\<rparr>"

record auth_detection =
  ad_login_required :: bool
  ad_confidence :: rat
  ad_reason :: string
  ad_source_url :: string
  ad_final_url :: string
  ad_redirect_chain :: "string list"
  ad_matched_url_keywords :: "string list"
  ad_matched_html_keywords :: "string list"
  ad_source_url_in_final_url :: bool
  ad_has_redirect_history :: bool
  ad_has_password_input :: bool
  ad_has_source_url_hint_in_html :: bool
  ad_text_density_score :: rat

definition matched_keywords :: "string list \<Rightarrow> string \<Rightarrow> string list" where
  "matched_keywords keywords lower = filter (\<lambda>k. py_contains (py_lower k) lower) keywords"

definition looks_like_login_url :: "(string \<Rightarrow> string) \<Rightarrow> browser_auth_config \<Rightarrow> string \<Rightarrow> string list" where
  "looks_like_login_url decode cf url = matched_keywords (bc_login_url_keywords cf) (py_lower (unquote decode url))"

definition looks_like_login_html :: "(string \<Rightarrow> string) \<Rightarrow> browser_auth_config \<Rightarrow> string \<Rightarrow> string list \<times> bool" where
  "looks_like_login_html decode cf html =
     (let lower = py_lower (unquote decode html)
      in (matched_keywords (bc_login_html_keywords cf) lower, has_password_field lower))"

definition contains_unquoted :: "(string \<Rightarrow> string) \<Rightarrow> string \<Rightarrow> string \<Rightarrow> bool" where
  "contains_unquoted decode needle haystack =
     (needle \<noteq> [] \<and> haystack \<noteq> [] \<and> py_contains (unquote decode needle) (unquote decode haystack))"

definition success_url_matches :: "(string \<Rightarrow> string) \<Rightarrow> browser_auth_config \<Rightarrow> string \<Rightarrow> bool" where
  "success_url_matches decode cf url =
     list_ex (\<lambda>p. py_contains (py_lower p) (py_lower (unquote decode url))) (bc_success_url_patterns cf)"

definition text_density_score :: "string \<Rightarrow> rat" where
  "text_density_score html =
     (let lower = drop_elements ''<style'' ''</style>'' (drop_elements ''<script'' ''</script>'' (py_lower html));
          text_len = length (py_strip (squeeze_spaces False (drop_tags lower)));
          links = count_heads (tag_at ''<a'') lower; inputs = count_heads (tag_at ''<input'') lower;
          passwords = count_heads password_at lower;
          score = fl_div (of_nat text_len) (of_nat (max (length html) 1));
          score = fl_add score (min (fl_div (of_nat text_len) 5000) (1 / 2));
          score = fl_sub score (min (fl_div (of_nat links) 200) (to_double (2 / 10)));
          score = fl_sub score (min (fl_div (of_nat inputs) 100) (to_double (2 / 10)));
          score = fl_sub score (min (fl_mult (of_nat passwords) (to_double (3 / 10))) (to_double (6 / 10)))
      in max 0 (min score 1))"

text \<open>The signals with their weights and names, in the order they are added.\<close>

definition auth_signals :: "bool \<Rightarrow> bool \<Rightarrow> bool \<Rightarrow> bool \<Rightarrow> bool \<Rightarrow> bool \<Rightarrow> (bool \<times> rat \<times> string) list" where
  "auth_signals redirected url_match password html_match source_in_url hint =
     [(redirected, to_double (15 / 100), ''redirect_history''), (url_match, to_double (25 / 100), ''login_url_keyword''),
      (password, to_double (35 / 100), ''password_input''), (html_match, to_double (15 / 100), ''login_html_keyword''),
      (source_in_url, to_double (10 / 100), ''source_url_in_final_url''), (hint, to_double (10 / 100), ''source_url_hint_in_html'')]"

definition signal_score :: "(bool \<times> rat \<times> string) list \<Rightarrow> rat" where
  "signal_score signals = fold (\<lambda>(present, weight, _) score. if present then fl_add score weight else score) signals 0"

definition signal_names :: "(bool \<times> rat \<times> string) list \<Rightarrow> string list" where
  "signal_names signals = map (\<lambda>(_, _, name). name) (filter fst signals)"

definition detect_login ::
  "(string \<Rightarrow> string) \<Rightarrow> browser_auth_config \<Rightarrow> string \<Rightarrow> string \<Rightarrow> string \<Rightarrow> string list \<Rightarrow> auth_detection" where
  "detect_login decode cf source_url final_url html redirect_chain =
     (let urls = looks_like_login_url decode cf final_url;
          (words, password) = looks_like_login_html decode cf html;
          source_in_url = contains_unquoted decode source_url final_url;
          hint = contains_unquoted decode source_url (take 200000 html);
          signals = auth_signals (redirect_chain \<noteq> []) (urls \<noteq> []) password (words \<noteq> []) source_in_url hint;
          confidence = min (signal_score signals) 1
      in \<lparr>ad_login_required = (to_double (45 / 100) \<le> confidence), ad_confidence = confidence,
          ad_reason = (if signal_names signals = [] then ''no_auth_signals'' else py_join '','' (signal_names signals)),
          ad_source_url = source_url, ad_final_url = final_url, ad_redirect_chain = redirect_chain,
          ad_matched_url_keywords = urls, ad_matched_html_keywords = words, ad_source_url_in_final_url = source_in_url,
          ad_has_redirect_history = (redirect_chain \<noteq> []), ad_has_password_input = password,
          ad_has_source_url_hint_in_html = hint, ad_text_density_score = text_density_score html\<rparr>)"

section \<open>Where the threshold is\<close>

lemma double_shift_eq: "2 ^ 52 \<le> q * 2 ^ k \<Longrightarrow> q * 2 ^ k < 2 ^ 53 \<Longrightarrow> k \<le> n \<Longrightarrow> double_shift n q = k"
proof (induction k arbitrary: n q)
  case 0
  then show ?case by (cases n) simp_all
next
  case (Suc k)
  then obtain m where n: "n = Suc m" by (cases n) simp_all
  have "\<not> 2 ^ 52 \<le> q"
  proof
    assume "2 ^ 52 \<le> q"
    then have "2 ^ 52 * (2 ^ Suc 0 :: rat) \<le> q * 2 ^ Suc k" by (intro mult_mono power_increasing) simp_all
    with Suc.prems(2) show False by simp
  qed
  moreover have "double_shift m (2 * q) = k"
    using Suc.prems n by (intro Suc.IH) (simp_all add: algebra_simps)
  ultimately show ?case by (simp add: n)
qed

lemma to_double_at:
  assumes "2 ^ 52 \<le> q * 2 ^ k" "q * 2 ^ k < 2 ^ 53" "k \<le> 200"
  shows "to_double q = of_int (round_half_even (q * 2 ^ k)) / 2 ^ k"
proof -
  have "0 < q" using assms(1) by (metis less_le_trans mult_le_0_iff not_less zero_less_numeral zero_less_power zero_le_power zero_le_numeral)
  then show ?thesis using double_shift_eq [OF assms] by (simp add: to_double_def Let_def)
qed

text \<open>The values of scores, by their exponent.\<close>

lemma to_double_ranges:
  "1 / 16 \<le> q \<Longrightarrow> q < 1 / 8 \<Longrightarrow> to_double q = of_int (round_half_even (q * 2 ^ 56)) / 2 ^ 56"
  "1 / 8 \<le> q \<Longrightarrow> q < 1 / 4 \<Longrightarrow> to_double q = of_int (round_half_even (q * 2 ^ 55)) / 2 ^ 55"
  "1 / 4 \<le> q \<Longrightarrow> q < 1 / 2 \<Longrightarrow> to_double q = of_int (round_half_even (q * 2 ^ 54)) / 2 ^ 54"
  "1 / 2 \<le> q \<Longrightarrow> q < 1 \<Longrightarrow> to_double q = of_int (round_half_even (q * 2 ^ 53)) / 2 ^ 53"
  "1 \<le> q \<Longrightarrow> q < 2 \<Longrightarrow> to_double q = of_int (round_half_even (q * 2 ^ 52)) / 2 ^ 52"
  by (rule to_double_at; simp)+

lemma rat_floor_numeral: "\<lfloor>numeral a / numeral b :: rat\<rfloor> = numeral a div numeral b"
  using floor_divide_of_int_eq [of "numeral a" "numeral b", where ?'a = rat] by simp

lemma score_weights:
  "to_double (15 / 100) = 5404319552844595 / 2 ^ 55"
  "to_double (25 / 100) = 1 / 4"
  "to_double (35 / 100) = 6305039478318694 / 2 ^ 54"
  "to_double (10 / 100) = 7205759403792794 / 2 ^ 56"
  "to_double (45 / 100) = 8106479329266893 / 2 ^ 54"
  by (simp_all add: to_double_ranges round_half_even_def Let_def rat_floor_numeral)

text \<open>The same in units of \<open>2^-56\<close>, with integers only.\<close>

definition round_to :: "int \<Rightarrow> int \<Rightarrow> int" where
  "round_to g s =
     (let f = s div g; r = s mod g in
      g * (if 2 * r < g then f else if g < 2 * r then f + 1 else if f mod 2 = 0 then f else f + 1))"

lemma round_half_even_quotient:
  assumes "0 < g"
  shows "of_int g * of_int (round_half_even (of_int s / of_int g)) = (of_int (round_to g s) :: rat)"
proof -
  have f: "\<lfloor>of_int s / of_int g :: rat\<rfloor> = s div g" by (rule floor_divide_of_int_eq)
  have "(of_int s :: rat) = of_int (g * (s div g) + s mod g)" by simp
  then have "(of_int s :: rat) = of_int g * of_int (s div g) + of_int (s mod g)" by (simp only: of_int_add of_int_mult)
  then have d: "of_int s / of_int g - of_int (s div g) = (of_int (s mod g) / of_int g :: rat)"
    using assms by (simp add: field_simps)
  have "(of_int (s mod g) / of_int g < (1 / 2 :: rat)) = ((of_int (2 * (s mod g)) :: rat) < of_int g)"
    "((1 / 2 :: rat) < of_int (s mod g) / of_int g) = ((of_int g :: rat) < of_int (2 * (s mod g)))"
    using assms by (simp_all add: pos_divide_less_eq pos_less_divide_eq mult.commute)
  then have half: "(of_int (s mod g) / of_int g < (1 / 2 :: rat)) = (2 * (s mod g) < g)"
    "((1 / 2 :: rat) < of_int (s mod g) / of_int g) = (g < 2 * (s mod g))"
    by (simp_all only: of_int_less_iff)
  show ?thesis unfolding round_half_even_def round_to_def Let_def f d half by simp
qed

definition unit_gap :: "int \<Rightarrow> int" where
  "unit_gap s = (if s < 2 ^ 53 then 1 else if s < 2 ^ 54 then 2 else if s < 2 ^ 55 then 4 else if s < 2 ^ 56 then 8 else 16)"

lemma to_double_gap:
  assumes "2 ^ 52 * 2 ^ j \<le> s" "s < 2 ^ 53 * 2 ^ j" "j \<le> 4"
  shows "to_double (of_int s / 2 ^ 56) = of_int (round_to (2 ^ j) s) / 2 ^ 56"
proof -
  have pow: "(2 :: rat) ^ 56 = 2 ^ j * 2 ^ (56 - j)" using assms(3) by (simp add: power_add [symmetric])
  then have q: "(of_int s / 2 ^ 56 :: rat) * 2 ^ (56 - j) = of_int s / of_int (2 ^ j)"
    unfolding pow by simp
  have bounds: "2 ^ 52 \<le> (of_int s / of_int (2 ^ j) :: rat)" "(of_int s / of_int (2 ^ j) :: rat) < 2 ^ 53"
    using assms(1,2) by (simp_all add: field_simps of_int_le_iff [where ?'a = rat, symmetric] of_int_less_iff [where ?'a = rat, symmetric]
        del: of_int_le_iff of_int_less_iff)
  have "to_double (of_int s / 2 ^ 56) = of_int (round_half_even (of_int s / of_int (2 ^ j))) / 2 ^ (56 - j)"
    by (rule to_double_at [of "of_int s / 2 ^ 56" "56 - j", unfolded q, OF bounds]) simp
  also have "\<dots> = (of_int (2 ^ j) * of_int (round_half_even (of_int s / of_int (2 ^ j)))) / 2 ^ 56"
    unfolding pow by simp
  finally show ?thesis by (simp only: round_half_even_quotient [of "2 ^ j" s] zero_less_power zero_less_numeral)
qed

lemma to_double_units:
  assumes "2 ^ 52 \<le> s" "s < 2 ^ 57"
  shows "to_double (of_int s / 2 ^ 56) = of_int (round_to (unit_gap s) s) / 2 ^ 56"
proof -
  consider "s < 2 ^ 53" | "2 ^ 53 \<le> s" "s < 2 ^ 54" | "2 ^ 54 \<le> s" "s < 2 ^ 55" | "2 ^ 55 \<le> s" "s < 2 ^ 56" | "2 ^ 56 \<le> s"
    by linarith
  then show ?thesis
    using to_double_gap [of 0 s] to_double_gap [of 1 s] to_double_gap [of 2 s] to_double_gap [of 3 s] to_double_gap [of 4 s] assms
    by cases (simp_all add: unit_gap_def)
qed

definition units :: "int \<Rightarrow> rat" where
  "units s = of_int s / 2 ^ 56"

definition unit_add :: "int \<Rightarrow> int \<Rightarrow> int" where
  "unit_add s t = round_to (unit_gap (s + t)) (s + t)"

lemma fl_add_units: "2 ^ 52 \<le> s + t \<Longrightarrow> s + t < 2 ^ 57 \<Longrightarrow> fl_add (units s) (units t) = units (unit_add s t)"
  using to_double_units [of "s + t"] by (simp only: fl_add_def units_def unit_add_def add_divide_distrib of_int_add)

lemma weights_units:
  "to_double (15 / 100) = units 10808639105689190" "to_double (25 / 100) = units 18014398509481984"
  "to_double (35 / 100) = units 25220157913274776" "to_double (10 / 100) = units 7205759403792794"
  "to_double (45 / 100) = units 32425917317067572"
  unfolding score_weights units_def by simp_all

lemma units_zero: "(0 :: rat) = units 0"
  by (simp add: units_def)

lemma units_le: "(units s \<le> units t) = (s \<le> t)"
  by (simp add: units_def divide_le_cancel)

lemma units_one: "(1 :: rat) = units 72057594037927936"
  by (simp add: units_def)

lemma units_capped: "(units s \<le> min (units t) 1) = (s \<le> t \<and> s \<le> 72057594037927936)"
  unfolding units_one min.bounded_iff units_le ..

definition unit_sum :: "bool \<Rightarrow> bool \<Rightarrow> bool \<Rightarrow> bool \<Rightarrow> bool \<Rightarrow> bool \<Rightarrow> int" where
  "unit_sum a b c d e f =
     (let s = (if a then unit_add 0 10808639105689190 else 0); s = (if b then unit_add s 18014398509481984 else s);
          s = (if c then unit_add s 25220157913274776 else s); s = (if d then unit_add s 10808639105689190 else s);
          s = (if e then unit_add s 7205759403792794 else s)
      in if f then unit_add s 7205759403792794 else s)"

lemma round_to_near: "0 < g \<Longrightarrow> s - g \<le> round_to g s \<and> round_to g s \<le> s + g"
proof -
  assume "0 < g"
  moreover have "g * (s div g) + s mod g = s" "0 \<le> s mod g" "s mod g < g" using calculation by simp_all
  moreover have "g * (s div g + 1) = g * (s div g) + g" by (simp add: algebra_simps)
  ultimately show ?thesis unfolding round_to_def Let_def by (smt (verit))
qed

lemma unit_add_near: "s + t - 16 \<le> unit_add s t \<and> unit_add s t \<le> s + t + 16"
proof -
  have "0 < unit_gap (s + t)" "unit_gap (s + t) \<le> 16" by (simp_all add: unit_gap_def)
  with round_to_near [of "unit_gap (s + t)" "s + t"] show ?thesis unfolding unit_add_def by linarith
qed

lemma unit_sum_decided:
  "(32425917317067572 \<le> unit_sum a b c d e f) =
     (10 \<le> 3 * of_bool a + 5 * of_bool b + 7 * of_bool c + 3 * of_bool d + 2 * of_bool e + 2 * (of_bool f :: nat))"
  by (cases a; cases b; cases c; cases d; cases e; cases f; simp only: unit_sum_def Let_def if_True if_False;
      simp add: unit_add_def unit_gap_def round_to_def Let_def)

lemma fl_add_if:
  assumes "0 \<le> s" "s < 2 ^ 56 + 2 ^ 54" "2 ^ 52 \<le> t" "t < 2 ^ 55"
  shows "(if p then fl_add (units s) (units t) else units s) = units (if p then unit_add s t else s)"
  using fl_add_units [of s t] assms by simp

lemma signal_score_units: "signal_score (auth_signals a b c d e f) = units (unit_sum a b c d e f)"
proof -
  define s1 where "s1 = (if a then unit_add 0 10808639105689190 else 0)"
  define s2 where "s2 = (if b then unit_add s1 18014398509481984 else s1)"
  define s3 where "s3 = (if c then unit_add s2 25220157913274776 else s2)"
  define s4 where "s4 = (if d then unit_add s3 10808639105689190 else s3)"
  define s5 where "s5 = (if e then unit_add s4 7205759403792794 else s4)"
  have b1: "0 \<le> s1" "s1 \<le> 10808639105689206" unfolding s1_def using unit_add_near [of 0 10808639105689190] by auto
  have b2: "0 \<le> s2" "s2 \<le> 28823037615171206" unfolding s2_def using b1 unit_add_near [of s1 18014398509481984] by auto
  have b3: "0 \<le> s3" "s3 \<le> 54043195528445998" unfolding s3_def using b2 unit_add_near [of s2 25220157913274776] by auto
  have b4: "0 \<le> s4" "s4 \<le> 64851834634135204" unfolding s4_def using b3 unit_add_near [of s3 10808639105689190] by auto
  have b5: "0 \<le> s5" "s5 \<le> 72057594037928014" unfolding s5_def using b4 unit_add_near [of s4 7205759403792794] by auto
  have "signal_score (auth_signals a b c d e f) =
      (if f then fl_add (units s5) (units 7205759403792794) else units s5)"
    unfolding signal_score_def auth_signals_def weights_units units_zero using b1 b2 b3 b4
    by (simp add: fl_add_if [of 0] fl_add_if [of s1] fl_add_if [of s2] fl_add_if [of s3] fl_add_if [of s4]
        s1_def [symmetric] s2_def [symmetric] s3_def [symmetric] s4_def [symmetric] s5_def [symmetric])
  also have "\<dots> = units (if f then unit_add s5 7205759403792794 else s5)" using b5 by (intro fl_add_if) simp_all
  finally show ?thesis by (simp only: unit_sum_def Let_def s1_def s2_def s3_def s4_def s5_def)
qed

text \<open>The points behind the weights: five hundredths each, so that the threshold 0.45 is nine points.\<close>

definition login_points :: "(string \<Rightarrow> string) \<Rightarrow> browser_auth_config \<Rightarrow> string \<Rightarrow> string \<Rightarrow> string \<Rightarrow> string list \<Rightarrow> nat" where
  "login_points decode cf source_url final_url html chain =
     3 * of_bool (chain \<noteq> []) + 5 * of_bool (looks_like_login_url decode cf final_url \<noteq> [])
     + 7 * of_bool (snd (looks_like_login_html decode cf html)) + 3 * of_bool (fst (looks_like_login_html decode cf html) \<noteq> [])
     + 2 * of_bool (contains_unquoted decode source_url final_url) + 2 * of_bool (contains_unquoted decode source_url (take 200000 html))"

lemma detect_login_decides:
  "ad_login_required (detect_login decode cf source_url final_url html chain) =
     (to_double (45 / 100) \<le> min (signal_score (auth_signals (chain \<noteq> []) (looks_like_login_url decode cf final_url \<noteq> [])
        (snd (looks_like_login_html decode cf html)) (fst (looks_like_login_html decode cf html) \<noteq> [])
        (contains_unquoted decode source_url final_url) (contains_unquoted decode source_url (take 200000 html)))) 1)"
  by (simp add: detect_login_def Let_def split: prod.splits)

lemma detect_login_points:
  "ad_login_required (detect_login decode cf source_url final_url html chain) =
     (10 \<le> login_points decode cf source_url final_url html chain)"
  unfolding detect_login_decides signal_score_units weights_units units_capped unit_sum_decided login_points_def by simp

text \<open>
  C40: where the threshold of the login gate lies. Giving each signal a point for every five hundredths of its weight
  (redirects 3, login URL 5, password field 7, login words 3, the requested URL in the final URL or in the page 2 each),
  a page is taken for a login page exactly when it has ten points: the pages with exactly nine points, whose weights
  add up to the threshold 0.45, are not, because the double sum of 0.35 and 0.10 (and of 0.25, 0.10 and 0.10) lies below
  the double 0.45. The confidence and the text density, sums and differences of rounded doubles, stay at most one, and
  the density is never negative.
\<close>

theorem login_threshold_is_ten_points:
  "ad_login_required (detect_login decode cf source_url final_url html chain) =
     (10 \<le> login_points decode cf source_url final_url html chain)
   \<and> ad_confidence (detect_login decode cf source_url final_url html chain) \<le> 1
   \<and> 0 \<le> ad_text_density_score (detect_login decode cf source_url final_url html chain)
   \<and> ad_text_density_score (detect_login decode cf source_url final_url html chain) \<le> 1"
proof (intro conjI)
  show "ad_confidence (detect_login decode cf source_url final_url html chain) \<le> 1"
    unfolding detect_login_def Let_def split_beta auth_detection.select_convs by (rule min.cobounded2)
  show "0 \<le> ad_text_density_score (detect_login decode cf source_url final_url html chain)"
    "ad_text_density_score (detect_login decode cf source_url final_url html chain) \<le> 1"
    unfolding detect_login_def Let_def split_beta auth_detection.select_convs text_density_score_def
    by (rule max.cobounded1, rule max.boundedI [OF zero_le_one min.cobounded2])
qed (rule detect_login_points)

text \<open>
  The page of a single sign-on that redirects back (its address has a login keyword and the requested address, the page
  names the requested address) reaches the threshold 0.45 in the weights but not in the doubles.
\<close>

lemma exact_threshold_is_missed:
  "login_points id default_auth_config ''/docs'' ''https://id.example/sso?next=/docs'' ''<a href=/docs>Continue</a>'' [] = 9"
  "\<not> ad_login_required (detect_login id default_auth_config ''/docs'' ''https://id.example/sso?next=/docs''
     ''<a href=/docs>Continue</a>'' [])"
proof -
  have "looks_like_login_url id default_auth_config ''https://id.example/sso?next=/docs'' = [''sso'']" by code_simp
  moreover have "looks_like_login_html id default_auth_config ''<a href=/docs>Continue</a>'' = ([], False)" by code_simp
  moreover have "contains_unquoted id ''/docs'' ''https://id.example/sso?next=/docs''"
    "contains_unquoted id ''/docs'' ''<a href=/docs>Continue</a>''" by code_simp+
  moreover have "take 200000 ''<a href=/docs>Continue</a>'' = ''<a href=/docs>Continue</a>''" by simp
  ultimately show p: "login_points id default_auth_config ''/docs'' ''https://id.example/sso?next=/docs''
      ''<a href=/docs>Continue</a>'' [] = 9"
    by (simp only: login_points_def) simp
  show "\<not> ad_login_required (detect_login id default_auth_config ''/docs'' ''https://id.example/sso?next=/docs''
     ''<a href=/docs>Continue</a>'' [])"
    unfolding detect_login_points p by simp
qed

end
