(* ===== verification/BrowserFetch.thy ===== *)
theory BrowserFetch
  imports BrowserPages AuthGate CrawlPolicy
begin

text \<open>
  The fetcher that drives a browser, \<open>agent_crawler/fetch/browser_fetcher.py\<close>, over the page registry and the login gate.
  Playwright, the file system and the clocks are services on a world; pages and contexts are opaque objects. Fetches run
  one after another, so the semaphore and the lock of the start have no effect.
\<close>

section \<open>Models\<close>

record browser_config =
  wc_browser_name :: string
  wc_headless :: bool
  wc_keep_page_open :: bool
  wc_max_open_pages :: int
  wc_page_ttl_s :: int
  wc_max_concurrency :: int
  wc_nav_timeout_ms :: int
  wc_wait_until :: string
  wc_networkidle_wait_ms :: int
  wc_block_resource_types :: "string list"
  wc_context_strategy :: string
  wc_user_agent :: "string option"
  wc_viewport_width :: "int option"
  wc_viewport_height :: "int option"
  wc_ignore_https_errors :: bool
  wc_auth :: browser_auth_config

definition default_browser_config :: browser_config where
  "default_browser_config =
     \<lparr>wc_browser_name = ''chromium'', wc_headless = True, wc_keep_page_open = False, wc_max_open_pages = 8,
      wc_page_ttl_s = 600, wc_max_concurrency = 2, wc_nav_timeout_ms = 30000, wc_wait_until = ''domcontentloaded'',
      wc_networkidle_wait_ms = 2000, wc_block_resource_types = [''image'', ''media'', ''font''],
      wc_context_strategy = ''per_fetch'', wc_user_agent = None, wc_viewport_width = None, wc_viewport_height = None,
      wc_ignore_https_errors = False, wc_auth = default_auth_config\<rparr>"

record browser_fetch_response =
  wo_url :: string
  wo_final_url :: string
  wo_status_code :: int
  wo_html :: string
  wo_headers :: "string dict"
  wo_elapsed_ms :: rat
  wo_transport :: string
  wo_page_ref :: "string option"
  wo_context_ref :: "string option"
  wo_screenshot_path :: "string option"
  wo_kept_open :: bool
  wo_redirect_chain :: "string list"
  wo_auth_required :: bool
  wo_auth_confidence :: rat
  wo_auth_reason :: "string option"
  wo_interactive_login_used :: bool
  wo_interactive_login_success :: "bool option"
  wo_login_wait_reason :: "string option"
  wo_before_login_url :: "string option"
  wo_after_login_url :: "string option"
  wo_before_login_density_score :: "rat option"
  wo_after_login_density_score :: "rat option"
  wo_storage_state_used :: bool
  wo_storage_state_saved :: bool

record login_wait =
  lw_success :: bool
  lw_reason :: string
  lw_before_url :: string
  lw_after_url :: string
  lw_before_density_score :: rat
  lw_after_density_score :: rat
  lw_waited_ms :: rat
  lw_final_html_len :: nat

text \<open>A profile of a session; sessions without a profile do not exist in the program.\<close>

record auth_profile =
  ap_profile_id :: string
  ap_storage_state_path :: "string option"

text \<open>
  The answer to a navigation. Requests are numbered; each has its URL and the request it was redirected from.
\<close>

type_synonym request_table = "(nat \<times> (string \<times> nat option)) list"

record nav_response =
  nv_status :: int
  nv_headers :: "string dict option"
  nv_request :: "nat option"
  nv_requests :: request_table

text \<open>\<open>'o\<close> are the pages and contexts; started Playwright instances and browsers are numbers.\<close>

record ('o, 'w) browser_services =
  bw_pages :: "('o, 'w) page_services"
  bw_decode :: "string \<Rightarrow> string"
  bw_installed :: bool
  bw_start :: "('w, nat) sx"
  bw_has_type :: "nat \<Rightarrow> string \<Rightarrow> bool"
  bw_launch :: "nat \<Rightarrow> string \<Rightarrow> bool \<Rightarrow> ('w, nat) sx"
  bw_stop :: "nat \<Rightarrow> ('w, unit) sx"
  bw_close_browser :: "nat \<Rightarrow> ('w, unit) sx"
  bw_new_context :: "nat \<Rightarrow> pyval dict \<Rightarrow> ('w, 'o) sx"
  bw_route :: "'o \<Rightarrow> ('w, unit) sx"
  bw_new_page :: "'o \<Rightarrow> ('w, 'o) sx"
  bw_goto :: "'o \<Rightarrow> string \<Rightarrow> string \<Rightarrow> int \<Rightarrow> ('w, nav_response option) sx"
  bw_wait_state :: "'o \<Rightarrow> string \<Rightarrow> int \<Rightarrow> ('w, unit) sx"
  bw_content :: "'o \<Rightarrow> ('w, string) sx"
  bw_url :: "'o \<Rightarrow> 'w \<Rightarrow> string"
  bw_count :: "'o \<Rightarrow> string \<Rightarrow> ('w, int) sx"
  bw_path :: "string \<Rightarrow> string"
  bw_exists :: "string \<Rightarrow> ('w, bool) sx"
  bw_mkdir_parent :: "string \<Rightarrow> ('w, unit) sx"
  bw_storage_state :: "'o \<Rightarrow> string \<Rightarrow> ('w, unit) sx"
  bw_monotonic :: "'w \<Rightarrow> rat \<times> 'w"
  bw_sleep :: "rat \<Rightarrow> 'w \<Rightarrow> 'w"

record ('o, 'w) browser_fetcher =
  fb_config :: browser_config
  fb_gate :: browser_auth_config
  fb_registry :: "('o, 'w) page_registry"
  fb_pw :: "nat option"
  fb_browser :: "nat option"
  fb_closed :: bool

type_synonym ('o, 'w, 'a) fbx = "(('o, 'w) browser_fetcher, 'a) sx"

definition headless_error :: string where
  "headless_error = ''interactive_login requires headed browser. Please set headless=False.''"

definition install_message :: string where
  "install_message = ''BrowserFetcher requires playwright. Please install playwright and run playwright install chromium.''"

text \<open>
  The constructor. A registry is a container with a length, so an empty one counts as none and is replaced.
\<close>

definition registry_or_new :: "browser_config \<Rightarrow> ('o, 'w) page_registry option \<Rightarrow> 'w \<Rightarrow> ('o, 'w) page_registry" where
  "registry_or_new cf reg w =
     (case reg of
        Some r \<Rightarrow> if br_pages r \<noteq> [] then r else new_page_registry (wc_max_open_pages cf) (wc_page_ttl_s cf) (br_world r)
      | None \<Rightarrow> new_page_registry (wc_max_open_pages cf) (wc_page_ttl_s cf) w)"

definition new_browser_fetcher ::
  "browser_config option \<Rightarrow> ('o, 'w) page_registry option \<Rightarrow> browser_auth_config option \<Rightarrow> 'w \<Rightarrow> ('o, 'w) browser_fetcher res" where
  "new_browser_fetcher config reg gate w =
     (let cf = (case config of None \<Rightarrow> default_browser_config | Some c \<Rightarrow> c) in
      if wc_context_strategy cf \<noteq> ''per_fetch''
      then Inl (Exc ''ValueError'' (''BrowserFetcher v1 only supports context_strategy='' @ [CHR 0x27] @ ''per_fetch'' @ [CHR 0x27]))
      else if bc_interactive_login (wc_auth cf) \<and> wc_headless cf then Inl (Exc ''ValueError'' headless_error)
      else Inr \<lparr>fb_config = cf, fb_gate = (case gate of None \<Rightarrow> wc_auth cf | Some g \<Rightarrow> g),
                fb_registry = registry_or_new cf reg w, fb_pw = None, fb_browser = None, fb_closed = False\<rparr>)"

section \<open>Steps\<close>

definition fb_reg :: "('o, 'w, 'a) brx \<Rightarrow> ('o, 'w, 'a) fbx" where
  "fb_reg = sx_zoom fb_registry (\<lambda>r s. s\<lparr>fb_registry := r\<rparr>)"

definition fb_op :: "('w, 'a) sx \<Rightarrow> ('o, 'w, 'a) fbx" where
  "fb_op m = fb_reg (br_op m)"

definition fb_read :: "('w \<Rightarrow> 'a \<times> 'w) \<Rightarrow> ('o, 'w, 'a) fbx" where
  "fb_read f = fb_reg (br_read f)"

definition fb_sleep :: "('o, 'w) browser_services \<Rightarrow> rat \<Rightarrow> ('o, 'w, unit) fbx" where
  "fb_sleep sv d = fb_op (sx_modify (bw_sleep sv d))"

definition page_url :: "('o, 'w) browser_services \<Rightarrow> 'o \<Rightarrow> ('o, 'w, string) fbx" where
  "page_url sv page = fb_read (\<lambda>w. (bw_url sv page w, w))"

definition now_ms :: "('o, 'w) browser_services \<Rightarrow> ('o, 'w, rat) fbx" where
  "now_ms sv = sx_bind (fb_read (bw_monotonic sv)) (\<lambda>t. sx_return (t * 1000))"

text \<open>\<open>try: m except Exception: pass\<close>\<close>

definition quietly :: "('s, 'a) sx \<Rightarrow> ('s, unit) sx" where
  "quietly m = sx_try (sx_bind m (\<lambda>_. sx_return ())) (\<lambda>_. True) (\<lambda>_. sx_return ())"

text \<open>The handler of a request of the browser: \<open>resource_type\<close> reads its type.\<close>

definition route_handler :: "browser_config \<Rightarrow> ('w, string) sx \<Rightarrow> ('w, unit) sx \<Rightarrow> ('w, unit) sx \<Rightarrow> ('w, unit) sx" where
  "route_handler cf resource_type abort go_on =
     sx_try (sx_bind resource_type (\<lambda>t. if t \<in> set (wc_block_resource_types cf) then abort else go_on)) (\<lambda>_. True)
       (\<lambda>_. quietly go_on)"

text \<open>\<open>_ensure_browser\<close>: a Playwright whose browser does not start is stopped again.\<close>

definition start_browser :: "('o, 'w) browser_services \<Rightarrow> ('o, 'w, unit) fbx" where
  "start_browser sv =
     sx_bind (fb_op (bw_start sv)) (\<lambda>p.
     sx_bind (sx_modify (\<lambda>s. s\<lparr>fb_pw := Some p\<rparr>)) (\<lambda>_.
     sx_bind sx_get (\<lambda>s.
       if \<not> bw_has_type sv p (wc_browser_name (fb_config s))
       then sx_raise (Exc ''ValueError'' (''Unsupported browser_name: '' @ wc_browser_name (fb_config s)))
       else sx_bind (fb_op (bw_launch sv p (wc_browser_name (fb_config s)) (wc_headless (fb_config s)))) (\<lambda>b.
            sx_modify (\<lambda>s. s\<lparr>fb_browser := Some b\<rparr>)))))"

definition ensure_browser :: "('o, 'w) browser_services \<Rightarrow> ('o, 'w, unit) fbx" where
  "ensure_browser sv =
     sx_bind sx_get (\<lambda>s.
       if fb_browser s \<noteq> None then sx_return ()
       else if \<not> bw_installed sv then sx_raise (Exc ''RuntimeError'' install_message)
       else sx_try (start_browser sv) (\<lambda>_. True) (\<lambda>e.
         sx_bind sx_get (\<lambda>s.
         sx_bind (case fb_pw s of
                    None \<Rightarrow> sx_return ()
                  | Some p \<Rightarrow> sx_bind (quietly (fb_op (bw_stop sv p))) (\<lambda>_. sx_modify (\<lambda>s. s\<lparr>fb_pw := None\<rparr>))) (\<lambda>_.
           sx_raise (Exc ''RuntimeError'' (''Browser launch failed: '' @ exc_text e @ ''. '' @ install_message))))))"

definition storage_path :: "('o, 'w) browser_services \<Rightarrow> auth_profile option \<Rightarrow> string option" where
  "storage_path sv session = (case session of None \<Rightarrow> None | Some p \<Rightarrow> map_option (bw_path sv) (ap_storage_state_path p))"

definition profile_id_of :: "auth_profile option \<Rightarrow> string option" where
  "profile_id_of session =
     (case session of None \<Rightarrow> None | Some p \<Rightarrow> if ap_profile_id p = [] then None else Some (ap_profile_id p))"

definition path_exists :: "('o, 'w) browser_services \<Rightarrow> string option \<Rightarrow> ('o, 'w, bool) fbx" where
  "path_exists sv path = (case path of None \<Rightarrow> sx_return False | Some p \<Rightarrow> fb_op (bw_exists sv p))"

definition int_or :: "int option \<Rightarrow> int \<Rightarrow> int" where
  "int_or x d = (case x of None \<Rightarrow> d | Some n \<Rightarrow> if n = 0 then d else n)"

definition context_kwargs :: "browser_config \<Rightarrow> string option \<Rightarrow> pyval dict" where
  "context_kwargs cf used_path =
     [(''ignore_https_errors'', PBool (wc_ignore_https_errors cf))]
     @ (case wc_user_agent cf of None \<Rightarrow> [] | Some u \<Rightarrow> [(''user_agent'', PStr u)])
     @ (if wc_viewport_width cf \<noteq> None \<or> wc_viewport_height cf \<noteq> None
        then [(''viewport'', PDict [(''width'', PInt (int_or (wc_viewport_width cf) 1280)),
                                   (''height'', PInt (int_or (wc_viewport_height cf) 720))])] else [])
     @ (case used_path of None \<Rightarrow> [] | Some p \<Rightarrow> [(''storage_state'', PStr p)])"

definition build_context_kwargs :: "('o, 'w) browser_services \<Rightarrow> string option \<Rightarrow> ('o, 'w, pyval dict) fbx" where
  "build_context_kwargs sv path =
     sx_bind (path_exists sv path) (\<lambda>there.
     sx_bind sx_get (\<lambda>s. sx_return (context_kwargs (fb_config s) (if there then path else None))))"

text \<open>\<open>_close_page_and_context\<close>\<close>

definition close_quietly :: "('w, unit) sx \<Rightarrow> ('o, 'w, unit) fbx" where
  "close_quietly m = quietly (fb_op m)"

definition close_page_and_context :: "('o, 'w) browser_services \<Rightarrow> 'o option \<Rightarrow> 'o option \<Rightarrow> ('o, 'w, unit) fbx" where
  "close_page_and_context sv page ctx =
     sx_bind (case page of None \<Rightarrow> sx_return () | Some p \<Rightarrow> close_quietly (bs_close_page (bw_pages sv) p)) (\<lambda>_.
       case ctx of None \<Rightarrow> sx_return () | Some c \<Rightarrow> close_quietly (bs_close_context (bw_pages sv) c))"

text \<open>The first \<open>try\<close> block of \<open>fetch\<close>: a context and a page, or neither.\<close>

definition creation_failed :: "string \<Rightarrow> exc \<Rightarrow> ('s, 'a) sx" where
  "creation_failed url e =
     sx_raise (Exc ''RuntimeError'' (''Browser context/page creation failed for '' @ url @ '': '' @ exc_text e))"

definition open_page :: "('o, 'w) browser_services \<Rightarrow> string \<Rightarrow> pyval dict \<Rightarrow> ('o, 'w, 'o \<times> 'o) fbx" where
  "open_page sv url kwargs =
     sx_bind sx_get (\<lambda>s.
     sx_bind (sx_try (case fb_browser s of
                        None \<Rightarrow> sx_raise (Exc ''AttributeError'' ([CHR 0x27] @ ''NoneType'' @ [CHR 0x27] @ '' object has no attribute '' @ [CHR 0x27] @ ''new_context'' @ [CHR 0x27]))
                      | Some b \<Rightarrow> fb_op (bw_new_context sv b kwargs)) (\<lambda>_. True) (creation_failed url)) (\<lambda>c.
       sx_try (sx_bind (if wc_block_resource_types (fb_config s) \<noteq> [] then fb_op (bw_route sv c) else sx_return ()) (\<lambda>_.
               sx_bind (fb_op (bw_new_page sv c)) (\<lambda>p. sx_return (c, p))))
         (\<lambda>_. True)
         (\<lambda>e. sx_bind (close_page_and_context sv None (Some c)) (\<lambda>_. creation_failed url e))))"

section \<open>The content of a page\<close>

text \<open>A page that is navigating is asked again; the message of the exception tells.\<close>

definition transient_content_error :: "exc \<Rightarrow> bool" where
  "transient_content_error e =
     list_ex (\<lambda>m. py_contains m (py_lower (exc_text e)))
       [''page is navigating'', ''changing the content'', ''execution context was destroyed'', ''target closed'',
        ''page closed'', ''browser has been closed'']"

fun content_attempts :: "('o, 'w) browser_services \<Rightarrow> 'o \<Rightarrow> int \<Rightarrow> int \<Rightarrow> nat \<Rightarrow> ('o, 'w, string option) fbx" where
  "content_attempts sv page interval wait 0 = sx_return None"
| "content_attempts sv page interval wait (Suc n) =
     sx_try (sx_bind (fb_op (bw_content sv page)) (\<lambda>h. sx_return (Some h))) (\<lambda>_. True) (\<lambda>e.
       if \<not> transient_content_error e then sx_raise e
       else if n = 0 then sx_return None
       else sx_bind (if 0 < wait then quietly (fb_op (bw_wait_state sv page ''domcontentloaded'' wait)) else sx_return ()) (\<lambda>_.
            sx_bind (fb_sleep sv (of_int (max 0 interval) / 1000)) (\<lambda>_. content_attempts sv page interval wait n)))"

definition safe_page_content :: "('o, 'w) browser_services \<Rightarrow> 'o \<Rightarrow> int \<Rightarrow> int \<Rightarrow> int \<Rightarrow> ('o, 'w, string option) fbx" where
  "safe_page_content sv page attempts interval wait = content_attempts sv page interval wait (nat (max 1 attempts))"

section \<open>Waiting for a login\<close>

fun selector_matches :: "('o, 'w) browser_services \<Rightarrow> 'o \<Rightarrow> string list \<Rightarrow> ('o, 'w, bool) fbx" where
  "selector_matches sv page [] = sx_return False"
| "selector_matches sv page (x # xs) =
     sx_bind (sx_try (sx_bind (fb_op (bw_count sv page x)) (\<lambda>n. sx_return (0 < n))) (\<lambda>_. True) (\<lambda>_. sx_return False)) (\<lambda>m.
       if m then sx_return True else selector_matches sv page xs)"

text \<open>Why the login is taken for done, if it is.\<close>

definition login_verdict ::
  "('o, 'w) browser_services \<Rightarrow> 'o \<Rightarrow> string \<Rightarrow> rat \<Rightarrow> string \<Rightarrow> string \<Rightarrow> ('o, 'w, string option) fbx" where
  "login_verdict sv page source_url before_density current_url html =
     sx_bind sx_get (\<lambda>s.
       let gate = fb_gate s; density = text_density_score html;
           detection = detect_login (bw_decode sv) gate source_url current_url html []
       in if success_url_matches (bw_decode sv) gate current_url then sx_return (Some ''success_url_pattern'')
          else sx_bind (selector_matches sv page (bc_success_selectors (wc_auth (fb_config s)))) (\<lambda>m.
            sx_return
              (if m then Some ''success_selector''
               else if \<not> ad_login_required detection \<and> fl_add before_density (to_double (5 / 100)) < density
               then Some ''density_improved_not_login''
               else if contains_unquoted (bw_decode sv) source_url current_url \<and> \<not> ad_login_required detection
                 \<and> before_density < density
               then Some ''source_url_returned_not_login'' else None)))"

text \<open>What was last seen: the URL, the density and the length of the page.\<close>

type_synonym page_seen = "string \<times> rat \<times> nat"

definition login_wait_result ::
  "('o, 'w) browser_services \<Rightarrow> bool \<Rightarrow> string \<Rightarrow> string \<Rightarrow> rat \<Rightarrow> rat \<Rightarrow> page_seen \<Rightarrow> ('o, 'w, login_wait) fbx" where
  "login_wait_result sv success reason before_url before_density started seen =
     sx_bind (now_ms sv) (\<lambda>t. case seen of (url, density, len) \<Rightarrow> sx_return
       \<lparr>lw_success = success, lw_reason = reason, lw_before_url = before_url, lw_after_url = url,
        lw_before_density_score = before_density, lw_after_density_score = density,
        lw_waited_ms = max 0 (t - started), lw_final_html_len = len\<rparr>)"

text \<open>At most \<open>n\<close> rounds; \<open>None\<close> when they did not suffice.\<close>

fun wait_rounds ::
  "('o, 'w) browser_services \<Rightarrow> 'o \<Rightarrow> string \<Rightarrow> string \<Rightarrow> rat \<Rightarrow> rat \<Rightarrow> rat \<Rightarrow> rat \<Rightarrow> nat \<Rightarrow> page_seen \<Rightarrow> ('o, 'w, login_wait option) fbx" where
  "wait_rounds sv page source_url before_url before_density started deadline interval 0 seen = sx_return None"
| "wait_rounds sv page source_url before_url before_density started deadline interval (Suc n) seen =
     sx_bind (now_ms sv) (\<lambda>t.
       if \<not> t < deadline
       then sx_bind (login_wait_result sv False ''login_wait_timeout'' before_url before_density started seen) (\<lambda>r. sx_return (Some r))
       else
         sx_bind (page_url sv page) (\<lambda>current_url.
         sx_bind (safe_page_content sv page 5 300 1000) (\<lambda>html.
           case html of
             None \<Rightarrow> sx_bind (fb_sleep sv interval) (\<lambda>_.
                     wait_rounds sv page source_url before_url before_density started deadline interval n seen)
           | Some h \<Rightarrow>
               let now_seen = (current_url, text_density_score h, length h) in
               sx_bind (login_verdict sv page source_url before_density current_url h) (\<lambda>v.
                 case v of
                   Some reason \<Rightarrow>
                     sx_bind (login_wait_result sv True reason before_url before_density started now_seen) (\<lambda>r. sx_return (Some r))
                 | None \<Rightarrow> sx_bind (fb_sleep sv interval) (\<lambda>_.
                     wait_rounds sv page source_url before_url before_density started deadline interval n now_seen)))))"

definition wait_for_login ::
  "('o, 'w) browser_services \<Rightarrow> nat \<Rightarrow> 'o \<Rightarrow> string \<Rightarrow> string \<Rightarrow> string \<Rightarrow> rat \<Rightarrow> ('o, 'w, login_wait option) fbx" where
  "wait_for_login sv n page source_url before_url before_html before_density =
     sx_bind (now_ms sv) (\<lambda>started.
     sx_bind sx_get (\<lambda>s.
       let auth = wc_auth (fb_config s) in
       wait_rounds sv page source_url before_url before_density started
         (started + of_int (bc_login_wait_timeout_ms auth)) (of_int (max (bc_login_poll_interval_ms auth) 50) / 1000) n
         (before_url, before_density, length before_html)))"

section \<open>A fetch\<close>

text \<open>The requests behind an answer, from the one answered to the first; a request seen before ends the walk.\<close>

function redirect_walk :: "request_table \<Rightarrow> nat list \<Rightarrow> nat option \<Rightarrow> string list" where
  "redirect_walk table seen None = []"
| "redirect_walk table seen (Some r) =
     (if r \<in> set seen then []
      else (case map_of table r of
              None \<Rightarrow> []
            | Some (url, redirected_from) \<Rightarrow>
                (if url = [] then [] else [url]) @ redirect_walk table (r # seen) redirected_from))"
  by pat_completeness auto

termination
proof (relation "measure (\<lambda>(table, seen, r). card (fst ` set table - set seen) + (case r of None \<Rightarrow> 0 | Some _ \<Rightarrow> 1))", goal_cases)
  case (2 table seen r p url before)
  then have "r \<in> fst ` set table - set seen" by (force dest: map_of_SomeD)
  then have "card (fst ` set table - set seen - {r}) < card (fst ` set table - set seen)" by (intro card_Diff1_less) auto
  moreover have "fst ` set table - set (r # seen) = fst ` set table - set seen - {r}" by auto
  ultimately show ?case by (simp split: option.split)
qed simp

definition build_redirect_chain :: "nav_response option \<Rightarrow> string list" where
  "build_redirect_chain resp =
     (case resp of None \<Rightarrow> [] | Some r \<Rightarrow> rev (redirect_walk (nv_requests r) [] (nv_request r)))"

text \<open>What a caller asks for.\<close>

record browser_call =
  bl_url :: string
  bl_session :: "auth_profile option"
  bl_keep_page_open :: "bool option"
  bl_owner_run_id :: "string option"
  bl_interactive_login :: "bool option"

definition argument_or :: "'a option \<Rightarrow> 'a \<Rightarrow> 'a" where
  "argument_or x d = (case x of None \<Rightarrow> d | Some y \<Rightarrow> y)"

definition load_page ::
  "('o, 'w) browser_services \<Rightarrow> 'o \<Rightarrow> string \<Rightarrow> ('o, 'w, nav_response option \<times> string \<times> string) fbx" where
  "load_page sv page url =
     sx_bind sx_get (\<lambda>s. let cf = fb_config s in
     sx_bind (sx_try (fb_op (bw_goto sv page url (wc_wait_until cf) (wc_nav_timeout_ms cf))) (\<lambda>_. True)
                (\<lambda>e. sx_raise (Exc ''RuntimeError'' (''Browser navigation timeout for '' @ url @ '': '' @ exc_text e)))) (\<lambda>resp.
     sx_bind (if 0 < wc_networkidle_wait_ms cf
              then quietly (fb_op (bw_wait_state sv page ''networkidle'' (wc_networkidle_wait_ms cf))) else sx_return ()) (\<lambda>_.
     sx_bind (safe_page_content sv page 5 300 1000) (\<lambda>html.
       case html of
         None \<Rightarrow> sx_raise (Exc ''RuntimeError'' (''Page content unavailable for '' @ url @ '': page kept navigating or closed''))
       | Some h \<Rightarrow> sx_bind (page_url sv page) (\<lambda>final_url. sx_return (resp, h, final_url))))))"

text \<open>
  The interactive login, when it is asked for and needed; afterwards the page is read again, whether the login succeeded
  or not. \<open>OutOfFuel\<close> is no exception of the code: it says that \<open>n\<close> rounds of waiting were too few.
\<close>

definition login_phase ::
  "('o, 'w) browser_services \<Rightarrow> nat \<Rightarrow> 'o \<Rightarrow> browser_call \<Rightarrow> auth_detection \<Rightarrow> string \<Rightarrow> string
     \<Rightarrow> ('o, 'w, login_wait option \<times> string \<times> string) fbx" where
  "login_phase sv n page call detection html final_url =
     sx_bind sx_get (\<lambda>s.
       let use = argument_or (bl_interactive_login call) (bc_interactive_login (wc_auth (fb_config s))) in
       if use \<and> wc_headless (fb_config s) then sx_raise (Exc ''ValueError'' headless_error)
       else if ad_login_required detection \<and> use
       then sx_bind (wait_for_login sv n page (bl_url call) final_url html (ad_text_density_score detection)) (\<lambda>w.
              case w of
                None \<Rightarrow> sx_raise (Exc ''OutOfFuel'' [])
              | Some w \<Rightarrow>
                  sx_bind (safe_page_content sv page 8 500 1000) (\<lambda>later_html.
                    case later_html of
                      None \<Rightarrow> sx_return (Some w, html, final_url)
                    | Some h \<Rightarrow> sx_bind (page_url sv page) (\<lambda>u. sx_return (Some w, h, u))))
       else sx_return (None, html, final_url))"

definition try_save_storage_state :: "('o, 'w) browser_services \<Rightarrow> 'o \<Rightarrow> string option \<Rightarrow> ('o, 'w, string option) fbx" where
  "try_save_storage_state sv ctx path =
     (case path of
        None \<Rightarrow> sx_return None
      | Some p \<Rightarrow>
          sx_try (sx_bind (fb_op (bw_mkdir_parent sv p)) (\<lambda>_.
                  sx_bind (fb_op (bw_storage_state sv ctx p)) (\<lambda>_. sx_return None))) (\<lambda>_. True)
            (\<lambda>e. sx_return (Some (''storage_state_save_failed:'' @ exc_text e))))"

definition auth_reason_of :: "auth_detection \<Rightarrow> login_wait option \<Rightarrow> string option \<Rightarrow> string" where
  "auth_reason_of detection w storage_reason =
     (let reason = (case w of None \<Rightarrow> ad_reason detection | Some w \<Rightarrow> ad_reason detection @ '';'' @ lw_reason w) in
      case storage_reason of None \<Rightarrow> reason | Some r \<Rightarrow> if reason = [] then r else reason @ '';'' @ r)"

definition make_response ::
  "string \<Rightarrow> string \<Rightarrow> nav_response option \<Rightarrow> string \<Rightarrow> rat \<Rightarrow> auth_detection \<Rightarrow> string \<Rightarrow> login_wait option \<Rightarrow> bool \<Rightarrow> bool
     \<Rightarrow> browser_fetch_response" where
  "make_response url final_url resp html elapsed detection reason w used saved =
     \<lparr>wo_url = url, wo_final_url = final_url, wo_status_code = (case resp of None \<Rightarrow> 0 | Some r \<Rightarrow> nv_status r),
      wo_html = html, wo_headers = (case resp of None \<Rightarrow> [] | Some r \<Rightarrow> argument_or (nv_headers r) []),
      wo_elapsed_ms = elapsed, wo_transport = ''browser'', wo_page_ref = None, wo_context_ref = None,
      wo_screenshot_path = None, wo_kept_open = False, wo_redirect_chain = build_redirect_chain resp,
      wo_auth_required = ad_login_required detection, wo_auth_confidence = ad_confidence detection,
      wo_auth_reason = Some reason, wo_interactive_login_used = (w \<noteq> None),
      wo_interactive_login_success = map_option lw_success w, wo_login_wait_reason = map_option lw_reason w,
      wo_before_login_url = (if ad_login_required detection then Some (ad_final_url detection) else None),
      wo_after_login_url = map_option lw_after_url w,
      wo_before_login_density_score = (if ad_login_required detection then Some (ad_text_density_score detection) else None),
      wo_after_login_density_score = map_option lw_after_density_score w,
      wo_storage_state_used = used, wo_storage_state_saved = saved\<rparr>"

text \<open>Keeping the page open: the registry takes it over.\<close>

definition keep_page ::
  "('o, 'w) browser_services \<Rightarrow> 'o \<Rightarrow> 'o \<Rightarrow> browser_call \<Rightarrow> string \<Rightarrow> browser_fetch_response \<Rightarrow> ('o, 'w, browser_fetch_response) fbx" where
  "keep_page sv ctx page call final_url r =
     sx_bind (sx_lift (url_netloc (if final_url = [] then bl_url call else final_url))) (\<lambda>netloc.
     sx_bind sx_get (\<lambda>s.
     sx_bind (fb_reg (register_page (bw_pages sv)
                \<lparr>bq_page = page, bq_context = ctx, bq_url = bl_url call, bq_final_url = final_url,
                 bq_domain = (if py_lower netloc = [] then None else Some (py_lower netloc)),
                 bq_auth_profile_id = profile_id_of (bl_session call), bq_owner_run_id = bl_owner_run_id call,
                 bq_ttl_s = Some (wc_page_ttl_s (fb_config s))\<rparr>)) (\<lambda>h.
       sx_return (r\<lparr>wo_page_ref := Some (bh_page_ref h), wo_context_ref := Some (bh_context_ref h), wo_kept_open := True\<rparr>))))"

definition fetch_body ::
  "('o, 'w) browser_services \<Rightarrow> nat \<Rightarrow> browser_call \<Rightarrow> rat \<Rightarrow> 'o \<Rightarrow> 'o \<Rightarrow> ('o, 'w, browser_fetch_response) fbx" where
  "fetch_body sv n call started ctx page =
     sx_bind (load_page sv page (bl_url call)) (\<lambda>(resp, html, final_url).
     sx_bind sx_get (\<lambda>s.
       let detection = detect_login (bw_decode sv) (fb_gate s) (bl_url call) final_url html (build_redirect_chain resp);
           path = storage_path sv (bl_session call) in
     sx_bind (login_phase sv n page call detection html final_url) (\<lambda>(w, html, final_url).
     sx_bind (path_exists sv path) (\<lambda>used.
     sx_bind (try_save_storage_state sv ctx path) (\<lambda>storage_reason.
     sx_bind (fb_read (bw_monotonic sv)) (\<lambda>now.
       let r = make_response (bl_url call) final_url resp html ((now - started) * 1000) detection
                 (auth_reason_of detection w storage_reason) w used (storage_reason = None \<and> path \<noteq> None)
       in if argument_or (bl_keep_page_open call) (wc_keep_page_open (fb_config s))
          then keep_page sv ctx page call final_url r else sx_return r))))))"

text \<open>The \<open>finally\<close> clause closes the page and its context, unless they are kept open.\<close>

definition guarded_body ::
  "('o, 'w) browser_services \<Rightarrow> 'o \<Rightarrow> 'o \<Rightarrow> ('o, 'w, browser_fetch_response) fbx \<Rightarrow> ('o, 'w, browser_fetch_response) fbx" where
  "guarded_body sv ctx page body =
     (let close = close_page_and_context sv (Some page) (Some ctx) in
      sx_bind (sx_try body (\<lambda>_. True) (\<lambda>e. sx_bind close (\<lambda>_. sx_raise e))) (\<lambda>r.
        if wo_kept_open r then sx_return r else sx_bind close (\<lambda>_. sx_return r)))"

definition browser_fetch :: "('o, 'w) browser_services \<Rightarrow> nat \<Rightarrow> browser_call \<Rightarrow> ('o, 'w, browser_fetch_response) fbx" where
  "browser_fetch sv n call =
     sx_bind sx_get (\<lambda>s.
       if fb_closed s then sx_raise (Exc ''RuntimeError'' ''BrowserFetcher is closed'')
       else
         sx_bind (fb_read (bw_monotonic sv)) (\<lambda>started.
         sx_bind (ensure_browser sv) (\<lambda>_.
         sx_bind (build_context_kwargs sv (storage_path sv (bl_session call))) (\<lambda>kwargs.
         sx_bind (open_page sv (bl_url call) kwargs) (\<lambda>(ctx, page).
           guarded_body sv ctx page (fetch_body sv n call started ctx page))))))"

section \<open>Closing\<close>

definition browser_aclose :: "('o, 'w) browser_services \<Rightarrow> ('o, 'w, unit) fbx" where
  "browser_aclose sv =
     sx_bind (sx_modify (\<lambda>s. s\<lparr>fb_closed := True\<rparr>)) (\<lambda>_.
     sx_bind (fb_reg (close_all_pages (bw_pages sv))) (\<lambda>_.
     sx_bind sx_get (\<lambda>s.
     sx_bind (case fb_browser s of
                None \<Rightarrow> sx_return ()
              | Some b \<Rightarrow> sx_finally (fb_op (bw_close_browser sv b)) (sx_modify (\<lambda>s. s\<lparr>fb_browser := None\<rparr>))) (\<lambda>_.
     sx_bind sx_get (\<lambda>s.
       case fb_pw s of
         None \<Rightarrow> sx_return ()
       | Some p \<Rightarrow> sx_finally (fb_op (bw_stop sv p)) (sx_modify (\<lambda>s. s\<lparr>fb_pw := None\<rparr>)))))))"

definition browser_enter :: "('o, 'w) browser_services \<Rightarrow> ('o, 'w, unit) fbx" where
  "browser_enter sv = ensure_browser sv"

definition browser_exit :: "('o, 'w) browser_services \<Rightarrow> ('o, 'w, unit) fbx" where
  "browser_exit sv = browser_aclose sv"

section \<open>Where pages and contexts go\<close>

text \<open>
  \<open>made\<close> are the pages and contexts made so far. A calm service neither makes nor closes one, does not take back an
  identifier and does not set back the clock.
\<close>

definition calm :: "('o, 'w) page_view \<Rightarrow> ('w \<Rightarrow> 'o multiset) \<Rightarrow> ('w, 'a) sx \<Rightarrow> bool" where
  "calm v made m \<longleftrightarrow> (\<forall>w. pv_log v (snd (m w)) = pv_log v w \<and> made (snd (m w)) = made w \<and> later v w (snd (m w)))"

definition makes :: "('o, 'w) page_view \<Rightarrow> ('w \<Rightarrow> 'o multiset) \<Rightarrow> ('w, 'o) sx \<Rightarrow> bool" where
  "makes v made m \<longleftrightarrow> (\<forall>w. pv_log v (snd (m w)) = pv_log v w \<and> later v w (snd (m w))
     \<and> made (snd (m w)) = (case fst (m w) of Inl e \<Rightarrow> made w | Inr x \<Rightarrow> add_mset x (made w)))"

definition reads :: "('w \<Rightarrow> 'a \<times> 'w) \<Rightarrow> ('w, 'a) sx" where
  "reads f = (\<lambda>w. (Inr (fst (f w)), snd (f w)))"

definition browser_world :: "('o, 'w) browser_services \<Rightarrow> ('o, 'w) page_view \<Rightarrow> ('w \<Rightarrow> 'o multiset) \<Rightarrow> bool" where
  "browser_world sv v made \<longleftrightarrow>
     page_world (bw_pages sv) v
     \<and> (\<forall>x w. made (snd (bs_close_page (bw_pages sv) x w)) = made w \<and> made (snd (bs_close_context (bw_pages sv) x w)) = made w)
     \<and> (\<forall>w. made (snd (bs_time (bw_pages sv) w)) = made w \<and> made (snd (bs_uuid (bw_pages sv) w)) = made w)
     \<and> calm v made (bw_start sv) \<and> (\<forall>p n h. calm v made (bw_launch sv p n h)) \<and> (\<forall>p. calm v made (bw_stop sv p))
     \<and> (\<forall>b. calm v made (bw_close_browser sv b)) \<and> (\<forall>c. calm v made (bw_route sv c))
     \<and> (\<forall>x u t m. calm v made (bw_goto sv x u t m)) \<and> (\<forall>x t m. calm v made (bw_wait_state sv x t m))
     \<and> (\<forall>x. calm v made (bw_content sv x)) \<and> (\<forall>x q. calm v made (bw_count sv x q))
     \<and> (\<forall>p. calm v made (bw_exists sv p)) \<and> (\<forall>p. calm v made (bw_mkdir_parent sv p))
     \<and> (\<forall>x p. calm v made (bw_storage_state sv x p)) \<and> calm v made (reads (bw_monotonic sv))
     \<and> (\<forall>d. calm v made (sx_modify (bw_sleep sv d)))
     \<and> (\<forall>b k. makes v made (bw_new_context sv b k)) \<and> (\<forall>c. makes v made (bw_new_page sv c))"

lemma browser_worldD:
  assumes "browser_world sv v made"
  shows "page_world (bw_pages sv) v"
    "calm v made (bw_start sv)" "calm v made (bw_launch sv p n h)" "calm v made (bw_stop sv p)"
    "calm v made (bw_close_browser sv b)" "calm v made (bw_route sv c)" "calm v made (bw_goto sv x u t m)"
    "calm v made (bw_wait_state sv x t m)" "calm v made (bw_content sv x)" "calm v made (bw_count sv x q)"
    "calm v made (bw_exists sv path)" "calm v made (bw_mkdir_parent sv path)" "calm v made (bw_storage_state sv x path)"
    "calm v made (reads (bw_monotonic sv))" "calm v made (sx_modify (bw_sleep sv d))"
    "makes v made (bw_new_context sv b k)" "makes v made (bw_new_page sv c)"
  using assms by (auto simp: browser_world_def)

text \<open>
  The objects made are those the registry holds, those that were closed, and \<open>K\<close>, those a running fetch has in its
  hands. A computation is balanced when it leaves all objects where they are, whatever \<open>K\<close> is.
\<close>

definition holds ::
  "('o, 'w) page_view \<Rightarrow> ('w \<Rightarrow> 'o multiset) \<Rightarrow> int \<Rightarrow> 'o multiset \<Rightarrow> ('o, 'w) browser_fetcher \<Rightarrow> bool" where
  "holds v made M K s \<longleftrightarrow>
     registry_ok v (fb_registry s) \<and> br_max_open_pages (fb_registry s) = M
     \<and> made (br_world (fb_registry s)) = accounted v (fb_registry s) + K"

definition balanced :: "('o, 'w) page_view \<Rightarrow> ('w \<Rightarrow> 'o multiset) \<Rightarrow> ('o, 'w, 'a) fbx \<Rightarrow> bool" where
  "balanced v made m \<longleftrightarrow> (\<forall>M K. sx_valid (holds v made M K) m (\<lambda>_. holds v made M K) (\<lambda>_. holds v made M K))"

named_theorems balanced_intros \<open>balanced computations\<close>

lemma balanced_seq [balanced_intros]: "balanced v made m \<Longrightarrow> (\<And>a. balanced v made (f a)) \<Longrightarrow> balanced v made (sx_bind m f)"
  unfolding balanced_def by (blast intro: sx_valid_seq)

lemma balanced_try [balanced_intros]: "balanced v made m \<Longrightarrow> (\<And>e. balanced v made (h e)) \<Longrightarrow> balanced v made (sx_try m p h)"
  unfolding balanced_def by (blast intro: sx_valid_try)

lemma balanced_basic [balanced_intros]:
  "balanced v made (sx_return a)" "balanced v made (sx_raise e)" "balanced v made sx_get" "balanced v made (sx_lift r)"
  by (simp_all add: balanced_def sx_valid_def sx_simps split: sum.split)

lemma balanced_modify [balanced_intros]: "(\<And>s. fb_registry (g s) = fb_registry s) \<Longrightarrow> balanced v made (sx_modify g)"
  by (simp add: balanced_def sx_valid_def sx_simps holds_def)

lemma balanced_if [balanced_intros]: "balanced v made m \<Longrightarrow> balanced v made m' \<Longrightarrow> balanced v made (if b then m else m')"
  by simp

lemma balanced_option [balanced_intros]:
  "balanced v made m \<Longrightarrow> (\<And>a. balanced v made (f a)) \<Longrightarrow> balanced v made (case x of None \<Rightarrow> m | Some a \<Rightarrow> f a)"
  by (cases x) simp_all

lemma balanced_prod [balanced_intros]: "(\<And>a b. balanced v made (f a b)) \<Longrightarrow> balanced v made (case x of (a, b) \<Rightarrow> f a b)"
  by (cases x) simp

lemma balanced_quietly [balanced_intros]: "balanced v made m \<Longrightarrow> balanced v made (quietly m)"
  unfolding quietly_def by (intro balanced_intros)

lemma balanced_finally [balanced_intros]: "balanced v made m \<Longrightarrow> balanced v made f \<Longrightarrow> balanced v made (sx_finally m f)"
  unfolding sx_finally_def by (intro balanced_intros)

lemma registry_ok_world: "registry_ok v r \<Longrightarrow> later v (br_world r) w \<Longrightarrow> registry_ok v (r\<lparr>br_world := w\<rparr>)"
  by (auto simp: registry_ok_def intro: handles_ok_later)

lemma fb_op_runs:
  "fb_op m s = (fst (m (br_world (fb_registry s))),
     s\<lparr>fb_registry := (fb_registry s)\<lparr>br_world := snd (m (br_world (fb_registry s)))\<rparr>\<rparr>)"
  by (simp add: fb_op_def fb_reg_def br_op_def sx_zoom_def split: prod.split)

lemma fb_read_op: "fb_read f = fb_op (reads f)"
  by (simp add: fb_read_def fb_op_def br_read_def reads_def split_beta)

lemma balanced_op: "calm v made m \<Longrightarrow> balanced v made (fb_op m)"
  by (auto simp: balanced_def calm_def sx_valid_def fb_op_runs holds_def accounted_def intro!: registry_ok_world
      split: sum.split)

lemma calm_look: "calm v made (reads (\<lambda>w. (f w, w)))"
  by (simp add: calm_def reads_def)

lemma make_op:
  assumes "makes v made m"
  shows "sx_valid (holds v made M K) (fb_op m) (\<lambda>x. holds v made M (add_mset x K)) (\<lambda>_. holds v made M K)"
  using assms
  by (auto simp: makes_def sx_valid_def fb_op_runs holds_def accounted_def intro!: registry_ok_world split: sum.split)

text \<open>An operation of the registry that closes what it removes.\<close>

lemma balanced_reg:
  assumes "\<And>r. registry_ok v r \<Longrightarrow> \<exists>x r'. m r = (Inr x, r') \<and> page_effect v r {#} r'" "\<And>r. made (br_world (snd (m r))) = made (br_world r)"
  shows "balanced v made (fb_reg m)"
  unfolding balanced_def sx_valid_def
proof (intro allI impI)
  fix M K s assume h: "holds v made M K s"
  then obtain x r' where "m (fb_registry s) = (Inr x, r')" "page_effect v (fb_registry s) {#} r'"
    using assms(1) [of "fb_registry s"] by (auto simp: holds_def)
  with h assms(2) [of "fb_registry s"] show "case fb_reg m s of (Inl e, t) \<Rightarrow> holds v made M K t | (Inr a, t) \<Rightarrow> holds v made M K t"
    by (simp add: fb_reg_def sx_zoom_def holds_def page_effect_def)
qed

lemma balanced_content: "browser_world sv v made \<Longrightarrow> balanced v made (content_attempts sv page i w n)"
proof (induction n)
  case (Suc n)
  then show ?case
    unfolding content_attempts.simps fb_sleep_def by (intro balanced_intros balanced_op browser_worldD)
qed (simp add: balanced_intros)

lemma balanced_selectors: "browser_world sv v made \<Longrightarrow> balanced v made (selector_matches sv page xs)"
proof (induction xs)
  case (Cons x xs)
  then show ?case unfolding selector_matches.simps by (intro balanced_intros balanced_op browser_worldD)
qed (simp add: balanced_intros)

lemma balanced_services:
  assumes "browser_world sv v made"
  shows "balanced v made (safe_page_content sv page a i t)" "balanced v made (page_url sv page)" "balanced v made (now_ms sv)"
    "balanced v made (fb_sleep sv d)"
  unfolding safe_page_content_def page_url_def now_ms_def fb_sleep_def fb_read_op
  by (intro balanced_content [OF assms] balanced_intros balanced_op calm_look browser_worldD [OF assms])+

lemma balanced_verdict: "browser_world sv v made \<Longrightarrow> balanced v made (login_verdict sv page u d c h)"
  unfolding login_verdict_def Let_def by (intro balanced_selectors balanced_intros)

lemma balanced_rounds:
  assumes "browser_world sv v made"
  shows "balanced v made (wait_rounds sv page u b d st dl i n seen)"
proof (induction n arbitrary: seen)
  case (Suc n)
  then show ?case
    unfolding wait_rounds.simps login_wait_result_def Let_def
    by (intro balanced_intros balanced_services [OF assms] balanced_verdict [OF assms])
qed (simp add: balanced_intros)

lemma balanced_phases:
  assumes "browser_world sv v made"
  shows "balanced v made (ensure_browser sv)" "balanced v made (path_exists sv path)" "balanced v made (build_context_kwargs sv path)"
    "balanced v made (load_page sv page url)" "balanced v made (login_phase sv n page call det html u)"
    "balanced v made (try_save_storage_state sv ctx path)" "balanced v made (fb_read (bw_monotonic sv))"
  unfolding ensure_browser_def start_browser_def path_exists_def build_context_kwargs_def load_page_def login_phase_def
    wait_for_login_def try_save_storage_state_def fb_read_op Let_def
  by (intro balanced_intros balanced_op browser_worldD [OF assms] balanced_services [OF assms] balanced_rounds [OF assms];
      simp)+

text \<open>The registry makes no objects.\<close>

definition makes_none :: "('w \<Rightarrow> 'o multiset) \<Rightarrow> ('o, 'w, 'a) brx \<Rightarrow> bool" where
  "makes_none made m \<longleftrightarrow> (\<forall>s. made (br_world (snd (m s))) = made (br_world s))"

named_theorems makes_none_intros \<open>computations that make no objects\<close>

lemma makes_none_seq [makes_none_intros]: "makes_none made m \<Longrightarrow> (\<And>a. makes_none made (f a)) \<Longrightarrow> makes_none made (sx_bind m f)"
  by (auto simp: makes_none_def sx_bind_def split_beta split: sum.split)

lemma makes_none_try [makes_none_intros]: "makes_none made m \<Longrightarrow> (\<And>e. makes_none made (h e)) \<Longrightarrow> makes_none made (sx_try m p h)"
  by (auto simp: makes_none_def sx_try_def split_beta split: sum.split)

lemma makes_none_basic [makes_none_intros]:
  "makes_none made (sx_return a)" "makes_none made sx_get" "(\<And>s. br_world (g s) = br_world s) \<Longrightarrow> makes_none made (sx_modify g)"
  by (simp_all add: makes_none_def sx_simps)

lemma makes_none_cases [makes_none_intros]:
  "makes_none made m \<Longrightarrow> makes_none made m' \<Longrightarrow> makes_none made (if b then m else m')"
  "makes_none made m \<Longrightarrow> (\<And>a. makes_none made (f a)) \<Longrightarrow> makes_none made (case x of None \<Rightarrow> m | Some a \<Rightarrow> f a)"
  by (auto split: option.split)

lemma makes_none_op: "(\<And>w. made (snd (m w)) = made w) \<Longrightarrow> makes_none made (br_op m)"
  by (simp add: makes_none_def br_op_def sx_zoom_def split_beta)

lemma makes_none_services:
  assumes "browser_world sv v made"
  shows "makes_none made (br_op (bs_close_page (bw_pages sv) x))" "makes_none made (br_op (bs_close_context (bw_pages sv) x))"
    "makes_none made (br_read (bs_time (bw_pages sv)))" "makes_none made (br_read (bs_uuid (bw_pages sv)))"
  using assms unfolding br_read_def by (auto simp: browser_world_def split_beta intro!: makes_none_op)

lemma makes_none_close:
  assumes "browser_world sv v made"
  shows "makes_none made (close_handle (bw_pages sv) h)" "makes_none made (is_expired (bw_pages sv) h)"
    "makes_none made (pop_and_close (bw_pages sv) r)"
  unfolding close_handle_def is_expired_def pop_and_close_def
  by (intro makes_none_intros makes_none_services [OF assms]; simp)+

lemma makes_none_loops:
  assumes "browser_world sv v made"
  shows "makes_none made (pop_all (bw_pages sv) rs)" "makes_none made (expired_refs (bw_pages sv) d)"
    "makes_none made (close_handles (bw_pages sv) hs)"
proof -
  show "makes_none made (pop_all (bw_pages sv) rs)"
    by (induction rs) (auto intro!: makes_none_intros makes_none_close [OF assms])
  show "makes_none made (expired_refs (bw_pages sv) d)"
    by (induction d) (auto intro!: makes_none_intros makes_none_close [OF assms])
  show "makes_none made (close_handles (bw_pages sv) hs)"
    by (induction hs) (auto intro!: makes_none_intros makes_none_close [OF assms])
qed

lemma makes_none_registry:
  assumes "browser_world sv v made"
  shows "makes_none made (sweep_expired (bw_pages sv))" "makes_none made (register_page (bw_pages sv) q)"
    "makes_none made (get_page (bw_pages sv) r)" "makes_none made (close_page (bw_pages sv) r)"
    "makes_none made (close_all_pages (bw_pages sv))"
  unfolding register_page_def insert_handle_def evict_if_needed_def sweep_expired_def get_page_def close_page_def
    close_all_pages_def Let_def
  by (intro makes_none_intros makes_none_loops [OF assms] makes_none_close [OF assms] makes_none_services [OF assms]; simp)+

lemma balanced_registry:
  assumes "browser_world sv v made"
  shows "balanced v made (fb_reg (get_page (bw_pages sv) r))" "balanced v made (fb_reg (close_page (bw_pages sv) r))"
    "balanced v made (fb_reg (sweep_expired (bw_pages sv)))" "balanced v made (fb_reg (close_all_pages (bw_pages sv)))"
proof -
  note makes_none = makes_none_registry [OF assms, unfolded makes_none_def, rule_format] and P = browser_worldD(1) [OF assms]
  show "balanced v made (fb_reg (get_page (bw_pages sv) r))"
    using get_effect [OF P] by (intro balanced_reg makes_none)
  show "balanced v made (fb_reg (close_page (bw_pages sv) r))"
    using pop_and_close_effect [OF P] by (intro balanced_reg makes_none) (fastforce simp: close_page_def)
  show "balanced v made (fb_reg (sweep_expired (bw_pages sv)))"
    using sweep_effect [OF P] by (intro balanced_reg makes_none)
  show "balanced v made (fb_reg (close_all_pages (bw_pages sv)))"
    using close_all_effect [OF P] by (intro balanced_reg makes_none) fastforce
qed

section \<open>A fetch is balanced\<close>

text \<open>Closing hands an object over from those in hand to those closed, and never raises.\<close>

lemma close_in_hand:
  assumes "browser_world sv v made"
  shows "sx_valid (holds v made M (add_mset x K)) (close_quietly (bs_close_page (bw_pages sv) x)) (\<lambda>_. holds v made M K) (\<lambda>_ _. False)"
    "sx_valid (holds v made M (add_mset x K)) (close_quietly (bs_close_context (bw_pages sv) x)) (\<lambda>_. holds v made M K) (\<lambda>_ _. False)"
proof -
  note P = page_worldD [OF browser_worldD(1) [OF assms]]
  have q: "close_quietly m s = (Inr (), s\<lparr>fb_registry := (fb_registry s)\<lparr>br_world := snd (m (br_world (fb_registry s)))\<rparr>\<rparr>)"
    for m and s :: "('a, 'b) browser_fetcher"
    by (cases "m (br_world (fb_registry s))"; cases "fst (m (br_world (fb_registry s)))")
      (simp_all add: close_quietly_def quietly_def sx_try_def sx_bind_def fb_op_runs sx_simps)
  show "sx_valid (holds v made M (add_mset x K)) (close_quietly (bs_close_page (bw_pages sv) x)) (\<lambda>_. holds v made M K) (\<lambda>_ _. False)"
    "sx_valid (holds v made M (add_mset x K)) (close_quietly (bs_close_context (bw_pages sv) x)) (\<lambda>_. holds v made M K) (\<lambda>_ _. False)"
    using assms by (auto simp: sx_valid_def q holds_def accounted_def browser_world_def P intro!: registry_ok_world P)
qed

lemma close_both:
  assumes "browser_world sv v made"
  shows "sx_valid (holds v made M (K + {#c, p#})) (close_page_and_context sv (Some p) (Some c)) (\<lambda>_. holds v made M K) (\<lambda>_ _. False)"
    "sx_valid (holds v made M (add_mset c K)) (close_page_and_context sv None (Some c)) (\<lambda>_. holds v made M K) (\<lambda>_ _. False)"
proof -
  have "K + {#c, p#} = add_mset p (add_mset c K)" by simp
  then show "sx_valid (holds v made M (K + {#c, p#})) (close_page_and_context sv (Some p) (Some c)) (\<lambda>_. holds v made M K) (\<lambda>_ _. False)"
    unfolding close_page_and_context_def option.case
    by (simp only:) (rule sx_valid_seq [OF close_in_hand(1) [OF assms] close_in_hand(2) [OF assms]])
  show "sx_valid (holds v made M (add_mset c K)) (close_page_and_context sv None (Some c)) (\<lambda>_. holds v made M K) (\<lambda>_ _. False)"
    unfolding close_page_and_context_def option.case
    by (rule sx_valid_seq [OF sx_valid_basic(1) close_in_hand(2) [OF assms]])
qed

lemma balancedD: "balanced v made m \<Longrightarrow> sx_valid (holds v made M K) m (\<lambda>_. holds v made M K) (\<lambda>_. holds v made M K)"
  by (simp add: balanced_def)

lemma sx_valid_no_exception: "sx_valid P m Q (\<lambda>_ _. False) \<Longrightarrow> sx_valid P m Q E"
  by (erule sx_valid_weaken) simp_all

lemma open_page_valid:
  assumes "browser_world sv v made"
  shows "sx_valid (holds v made M K) (open_page sv url kwargs) (\<lambda>(c, p). holds v made M (K + {#c, p#})) (\<lambda>_. holds v made M K)"
proof -
  have made_ctx: "sx_valid (holds v made M K) (sx_try (case b of None \<Rightarrow> sx_raise e0 | Some b \<Rightarrow> fb_op (bw_new_context sv b kwargs))
      (\<lambda>_. True) (creation_failed url)) (\<lambda>c. holds v made M (add_mset c K)) (\<lambda>_. holds v made M K)" for b e0
    unfolding creation_failed_def
    by (intro sx_valid_try [where F = "\<lambda>_. holds v made M K"] sx_valid_option sx_valid_basic make_op browser_worldD [OF assms]) simp_all
  have rest: "sx_valid (holds v made M (add_mset c K))
      (sx_try (sx_bind (if route then fb_op (bw_route sv c) else sx_return ()) (\<lambda>_.
               sx_bind (fb_op (bw_new_page sv c)) (\<lambda>p. sx_return (c, p)))) (\<lambda>_. True)
         (\<lambda>e. sx_bind (close_page_and_context sv None (Some c)) (\<lambda>_. creation_failed url e)))
      (\<lambda>(c, p). holds v made M (K + {#c, p#})) (\<lambda>_. holds v made M K)" for c route
  proof (rule sx_valid_try [where F = "\<lambda>_. holds v made M (add_mset c K)"])
    have "balanced v made (if route then fb_op (bw_route sv c) else sx_return ())"
      by (intro balanced_intros balanced_op browser_worldD [OF assms])
    note route = balancedD [OF this]
    have "sx_valid (holds v made M (add_mset c K)) (sx_bind (fb_op (bw_new_page sv c)) (\<lambda>p. sx_return (c, p)))
        (\<lambda>(c, p). holds v made M (K + {#c, p#})) (\<lambda>_. holds v made M (add_mset c K))"
      by (rule sx_valid_bind [OF make_op [OF browser_worldD(17) [OF assms]]], rule sx_valid_basic) (simp add: add_mset_commute)
    with route show "sx_valid (holds v made M (add_mset c K)) (sx_bind (if route then fb_op (bw_route sv c) else sx_return ()) (\<lambda>_.
               sx_bind (fb_op (bw_new_page sv c)) (\<lambda>p. sx_return (c, p))))
        (\<lambda>(c, p). holds v made M (K + {#c, p#})) (\<lambda>_. holds v made M (add_mset c K))" by (rule sx_valid_seq)
    show "sx_valid (holds v made M (add_mset c K)) (sx_bind (close_page_and_context sv None (Some c)) (\<lambda>_. creation_failed url e))
        (\<lambda>(c, p). holds v made M (K + {#c, p#})) (\<lambda>_. holds v made M K)" for e
      unfolding creation_failed_def
      by (rule sx_valid_seq [OF sx_valid_no_exception [OF close_both(2) [OF assms]]], rule sx_valid_basic)
  qed simp
  show ?thesis
    unfolding open_page_def
    by (rule sx_valid_seq [OF balancedD [OF balanced_basic(3)]], rule sx_valid_bind [OF made_ctx rest])
qed

text \<open>Where the objects of a fetch are when its body ends: kept open in the registry, or still in hand.\<close>

definition kept_or_held ::
  "('o, 'w) page_view \<Rightarrow> ('w \<Rightarrow> 'o multiset) \<Rightarrow> int \<Rightarrow> 'o multiset \<Rightarrow> 'o \<Rightarrow> 'o \<Rightarrow> browser_fetch_response \<Rightarrow> ('o, 'w) browser_fetcher \<Rightarrow> bool" where
  "kept_or_held v made M K c p r s \<longleftrightarrow> (if wo_kept_open r then holds v made M K s else holds v made M (K + {#c, p#}) s)"

lemma register_valid:
  assumes "browser_world sv v made" "request_objects q = {#c, p#}"
  shows "sx_valid (holds v made M (K + {#c, p#})) (fb_reg (register_page (bw_pages sv) q)) (\<lambda>_. holds v made M K) (\<lambda>_ _. False)"
  unfolding sx_valid_def
proof (intro allI impI)
  fix s assume h: "holds v made M (K + {#c, p#}) s"
  then obtain x r' where "register_page (bw_pages sv) q (fb_registry s) = (Inr x, r')" "page_effect v (fb_registry s) {#c, p#} r'"
    using register_effect [OF browser_worldD(1) [OF assms(1)], of "fb_registry s" q] assms(2) by (auto simp: holds_def)
  with h makes_none_registry(2) [OF assms(1), of q, unfolded makes_none_def, rule_format, of "fb_registry s"]
  show "case fb_reg (register_page (bw_pages sv) q) s of (Inl e, t) \<Rightarrow> False | (Inr a, t) \<Rightarrow> holds v made M K t"
    by (simp add: fb_reg_def sx_zoom_def holds_def page_effect_def)
qed

lemma keep_page_valid:
  assumes "browser_world sv v made"
  shows "sx_valid (holds v made M (K + {#c, p#})) (keep_page sv c p call u r) (kept_or_held v made M K c p)
    (\<lambda>_. holds v made M (K + {#c, p#}))"
  unfolding keep_page_def
proof (intro sx_valid_seq [OF balancedD [OF balanced_basic(4)]] sx_valid_seq [OF balancedD [OF balanced_basic(3)]])
  fix netloc s
  have objects: "request_objects \<lparr>bq_page = p, bq_context = c, bq_url = a1, bq_final_url = a2, bq_domain = a3,
      bq_auth_profile_id = a4, bq_owner_run_id = a5, bq_ttl_s = a6\<rparr> = {#c, p#}" for a1 a2 a3 a4 a5 a6
    by (simp add: request_objects_def add_mset_commute)
  show "sx_valid (holds v made M (K + {#c, p#}))
     (sx_bind (fb_reg (register_page (bw_pages sv)
                \<lparr>bq_page = p, bq_context = c, bq_url = bl_url call, bq_final_url = u,
                 bq_domain = (if py_lower netloc = [] then None else Some (py_lower netloc)),
                 bq_auth_profile_id = profile_id_of (bl_session call), bq_owner_run_id = bl_owner_run_id call,
                 bq_ttl_s = Some (wc_page_ttl_s (fb_config s))\<rparr>)) (\<lambda>h.
       sx_return (r\<lparr>wo_page_ref := Some (bh_page_ref h), wo_context_ref := Some (bh_context_ref h), wo_kept_open := True\<rparr>)))
     (kept_or_held v made M K c p) (\<lambda>_. holds v made M (K + {#c, p#}))"
    by (rule sx_valid_seq [OF sx_valid_no_exception [OF register_valid [OF assms objects]]], rule sx_valid_basic)
      (simp add: kept_or_held_def)
qed

lemma fetch_body_valid:
  assumes "browser_world sv v made"
  shows "sx_valid (holds v made M (K + {#c, p#})) (fetch_body sv n call started c p) (kept_or_held v made M K c p)
    (\<lambda>_. holds v made M (K + {#c, p#}))"
proof -
  have last: "sx_valid (holds v made M (K + {#c, p#})) (if keep then keep_page sv c p call u r else sx_return r)
      (kept_or_held v made M K c p) (\<lambda>_. holds v made M (K + {#c, p#}))" if "\<not> wo_kept_open r" for keep u r
    by (intro sx_valid_if keep_page_valid [OF assms] sx_valid_basic) (simp add: kept_or_held_def that)
  show ?thesis
    unfolding fetch_body_def Let_def split_beta
    by (intro sx_valid_seq [OF balancedD [OF balanced_phases(4) [OF assms]]]
        sx_valid_seq [OF balancedD [OF balanced_basic(3)]] sx_valid_seq [OF balancedD [OF balanced_phases(5) [OF assms]]]
        sx_valid_seq [OF balancedD [OF balanced_phases(2) [OF assms]]] sx_valid_seq [OF balancedD [OF balanced_phases(6) [OF assms]]]
        sx_valid_seq [OF balancedD [OF balanced_phases(7) [OF assms]]] last) (simp add: make_response_def)
qed

lemma guarded_body_valid:
  assumes "browser_world sv v made"
    and body: "sx_valid (holds v made M (K + {#c, p#})) body (kept_or_held v made M K c p) (\<lambda>_. holds v made M (K + {#c, p#}))"
  shows "sx_valid (holds v made M (K + {#c, p#})) (guarded_body sv c p body) (\<lambda>_. holds v made M K) (\<lambda>_. holds v made M K)"
  unfolding guarded_body_def Let_def
proof (rule sx_valid_bind)
  note close = sx_valid_no_exception [OF close_both(1) [OF assms(1)]]
  show "sx_valid (holds v made M (K + {#c, p#}))
      (sx_try body (\<lambda>_. True) (\<lambda>e. sx_bind (close_page_and_context sv (Some p) (Some c)) (\<lambda>_. sx_raise e)))
      (kept_or_held v made M K c p) (\<lambda>_. holds v made M K)"
    by (rule sx_valid_try [OF body], rule sx_valid_seq [OF close sx_valid_basic(2)]) simp_all
  show "sx_valid (kept_or_held v made M K c p r)
      (if wo_kept_open r then sx_return r else sx_bind (close_page_and_context sv (Some p) (Some c)) (\<lambda>_. sx_return r))
      (\<lambda>_. holds v made M K) (\<lambda>_. holds v made M K)" for r
  proof (cases "wo_kept_open r")
    case True
    then show ?thesis by (simp only: if_True) (rule sx_valid_basic, simp add: kept_or_held_def)
  next
    case False
    then have "kept_or_held v made M K c p r = holds v made M (K + {#c, p#})" by (simp add: kept_or_held_def fun_eq_iff)
    then show ?thesis using False by (simp only: if_False) (rule sx_valid_seq [OF close sx_valid_basic(1)])
  qed
qed

lemma balanced_fetch:
  assumes "browser_world sv v made"
  shows "balanced v made (browser_fetch sv n call)"
proof -
  have inner: "balanced v made (sx_bind (open_page sv (bl_url call) kwargs) (\<lambda>(c, p).
      guarded_body sv c p (fetch_body sv n call started c p)))" for kwargs started
    unfolding balanced_def
  proof (intro allI, rule sx_valid_bind [OF open_page_valid [OF assms]])
    show "sx_valid (case x of (c, p) \<Rightarrow> holds v made M (K + {#c, p#}))
        (case x of (c, p) \<Rightarrow> guarded_body sv c p (fetch_body sv n call started c p))
        (\<lambda>_. holds v made M K) (\<lambda>_. holds v made M K)" for M K x
      by (cases x) (simp only: prod.case guarded_body_valid [OF assms fetch_body_valid [OF assms]])
  qed
  show ?thesis
    unfolding browser_fetch_def by (intro balanced_intros balanced_phases [OF assms] inner)
qed

lemma balanced_aclose: "browser_world sv v made \<Longrightarrow> balanced v made (browser_aclose sv)"
  unfolding browser_aclose_def by (intro balanced_intros balanced_op balanced_registry browser_worldD; simp)

section \<open>Every use of a fetcher\<close>

text \<open>What callers do with a fetcher and with the pages it keeps open; a caller goes on after an exception.\<close>

datatype fetcher_op = FetchPage nat browser_call | GetKept string | CloseKept string | SweepKept | EnterFetcher | CloseFetcher

fun run_fetcher_op :: "('o, 'w) browser_services \<Rightarrow> fetcher_op \<Rightarrow> ('o, 'w, unit) fbx" where
  "run_fetcher_op sv (FetchPage n call) = quietly (browser_fetch sv n call)"
| "run_fetcher_op sv (GetKept r) = quietly (fb_reg (get_page (bw_pages sv) r))"
| "run_fetcher_op sv (CloseKept r) = quietly (fb_reg (close_page (bw_pages sv) r))"
| "run_fetcher_op sv SweepKept = quietly (fb_reg (sweep_expired (bw_pages sv)))"
| "run_fetcher_op sv EnterFetcher = quietly (browser_enter sv)"
| "run_fetcher_op sv CloseFetcher = quietly (browser_exit sv)"

fun run_fetcher_ops :: "('o, 'w) browser_services \<Rightarrow> fetcher_op list \<Rightarrow> ('o, 'w, unit) fbx" where
  "run_fetcher_ops sv [] = sx_return ()"
| "run_fetcher_ops sv (x # xs) = sx_bind (run_fetcher_op sv x) (\<lambda>_. run_fetcher_ops sv xs)"

lemma quietly_total: "sx_total (quietly m)"
  by (auto simp: sx_total_def quietly_def sx_try_def sx_bind_def sx_simps split: prod.splits sum.splits)

lemma run_fetcher_ops_total: "sx_total (run_fetcher_ops sv xs)"
proof (induction xs)
  case (Cons x xs)
  have "sx_total (run_fetcher_op sv x)" by (cases x) (simp_all add: quietly_total)
  with Cons show ?case by (simp add: sx_total_bind)
qed (simp add: sx_total_basic)

lemma balanced_run_ops:
  assumes "browser_world sv v made"
  shows "balanced v made (run_fetcher_ops sv xs)"
proof (induction xs)
  case (Cons x xs)
  have "balanced v made (run_fetcher_op sv x)"
    by (cases x) (simp_all add: browser_enter_def browser_exit_def balanced_quietly balanced_fetch [OF assms]
        balanced_registry [OF assms] balanced_phases(1) [OF assms] balanced_aclose [OF assms])
  with Cons show ?case by (simp add: balanced_seq)
qed (simp add: balanced_basic)

lemma new_fetcher_holds:
  assumes "new_browser_fetcher (Some cf) None gate w = Inr s" "pv_log v w = []" "made w = {#}"
  shows "holds v made (max 1 (wc_max_open_pages cf)) {#} s"
proof -
  have "fb_registry s = new_page_registry (wc_max_open_pages cf) (wc_page_ttl_s cf) w"
    using assms(1) by (auto simp: new_browser_fetcher_def registry_or_new_def Let_def split: if_splits)
  then show ?thesis
    using assms(2,3) new_registry_ok [of v "wc_max_open_pages cf" "wc_page_ttl_s cf" w]
    by (simp add: holds_def) (simp add: new_page_registry_def)
qed

lemma holds_accounts:
  "holds v made M {#} s \<Longrightarrow> int (length (br_pages (fb_registry s))) \<le> M
     \<and> made (br_world (fb_registry s)) = open_objects (br_pages (fb_registry s)) + mset (pv_log v (br_world (fb_registry s)))"
  by (auto simp: holds_def registry_ok_def accounted_def)

lemma aclose_empties:
  assumes "browser_world sv v made" "holds v made M K s"
  shows "br_pages (fb_registry (snd (browser_aclose sv s))) = []"
proof -
  have pages: "br_pages (fb_registry (snd (fb_op m t))) = br_pages (fb_registry t)" for m and t :: "('a, 'b) browser_fetcher"
    by (simp add: fb_op_runs)
  define P :: "('a, 'b) browser_fetcher \<Rightarrow> bool" where "P t \<longleftrightarrow> br_pages (fb_registry t) = []" for t
  have calls: "sx_keeps P (fb_op m)" for m :: "('b, unit) sx"
    by (simp add: sx_keeps_def P_def pages)
  have fin: "sx_keeps P (sx_finally (fb_op m) (sx_modify g))" if "\<And>t. fb_registry (g t) = fb_registry t" for m :: "('b, unit) sx" and g
    using that by (auto simp: sx_keeps_def sx_finally_def sx_try_def sx_bind_def sx_simps fb_op_runs P_def split: sum.split)
  let ?rest = "sx_bind sx_get (\<lambda>s.
     sx_bind (case fb_browser s of
                None \<Rightarrow> sx_return ()
              | Some b \<Rightarrow> sx_finally (fb_op (bw_close_browser sv b)) (sx_modify (\<lambda>s. s\<lparr>fb_browser := None\<rparr>))) (\<lambda>_.
     sx_bind sx_get (\<lambda>s.
       case fb_pw s of
         None \<Rightarrow> sx_return ()
       | Some p \<Rightarrow> sx_finally (fb_op (bw_stop sv p)) (sx_modify (\<lambda>s. s\<lparr>fb_pw := None\<rparr>)))))"
  have rest: "sx_keeps P ?rest"
    by (intro sx_keeps_bind sx_keeps_basic; (intro sx_keeps_bind sx_keeps_basic)?)
      (auto intro!: sx_keeps_bind fin split: option.split)
  have "registry_ok v (fb_registry (s\<lparr>fb_closed := True\<rparr>))" using assms(2) by (simp add: holds_def)
  then obtain r' where "close_all_pages (bw_pages sv) (fb_registry (s\<lparr>fb_closed := True\<rparr>)) = (Inr (), r')" "br_pages r' = []"
    using close_all_effect [OF browser_worldD(1) [OF assms(1)]] by blast
  then have run: "fb_reg (close_all_pages (bw_pages sv)) (s\<lparr>fb_closed := True\<rparr>) = (Inr (), s\<lparr>fb_closed := True, fb_registry := r'\<rparr>)"
    and closed: "P (s\<lparr>fb_closed := True, fb_registry := r'\<rparr>)"
    by (simp_all add: fb_reg_def sx_zoom_def P_def)
  have "browser_aclose sv s = ?rest (s\<lparr>fb_closed := True, fb_registry := r'\<rparr>)"
    unfolding browser_aclose_def by (simp only: sx_bind_step(4) sx_bind_Inr [of "fb_reg (close_all_pages (bw_pages sv))", OF run])
  with rest closed show ?thesis by (simp add: sx_keeps_def P_def)
qed

text \<open>
  C30: a browser fetcher loses no page and no context. After any sequence of fetches (which may fail at any step), uses and
  closings of kept pages, and closings of the fetcher, every page and context made is either held by the page registry,
  of at most \<open>max_open_pages\<close> pages, or was closed, once; closing the fetcher then closes all the rest, also when closing
  the browser itself raises.
\<close>

theorem browser_objects_are_closed_once:
  assumes "browser_world sv v made" "new_browser_fetcher (Some cf) None gate w = Inr s0" "pv_log v w = []" "made w = {#}"
  shows "\<exists>s. run_fetcher_ops sv ops s0 = (Inr (), s)
    \<and> int (length (br_pages (fb_registry s))) \<le> max 1 (wc_max_open_pages cf)
    \<and> made (br_world (fb_registry s)) = open_objects (br_pages (fb_registry s)) + mset (pv_log v (br_world (fb_registry s)))
    \<and> (let w' = br_world (fb_registry (snd (browser_aclose sv s))) in mset (pv_log v w') = made w')"
proof -
  note h0 = new_fetcher_holds [of cf gate w s0 v made, OF assms(2-4)]
  obtain s where run: "run_fetcher_ops sv ops s0 = (Inr (), s)" using sx_totalD [OF run_fetcher_ops_total, of sv ops s0] by auto
  have h: "holds v made (max 1 (wc_max_open_pages cf)) {#} s"
    by (rule sx_validD(1) [OF balancedD [OF balanced_run_ops [OF assms(1)]] h0 run])
  have "holds v made (max 1 (wc_max_open_pages cf)) {#} (snd (browser_aclose sv s))"
    using balancedD [OF balanced_aclose [OF assms(1)], of "max 1 (wc_max_open_pages cf)" "{#}"] h
    by (cases "browser_aclose sv s"; cases "fst (browser_aclose sv s)") (auto simp: sx_valid_def split: prod.splits sum.splits)
  from holds_accounts [OF this] aclose_empties [OF assms(1) h]
  have "made (br_world (fb_registry (snd (browser_aclose sv s)))) = mset (pv_log v (br_world (fb_registry (snd (browser_aclose sv s)))))"
    by (simp add: open_objects_def)
  with run holds_accounts [OF h] show ?thesis by (simp add: Let_def)
qed

section \<open>The wait for a login ends\<close>

text \<open>
  \<open>clock\<close> is the monotonic clock, in seconds: no operation of a page sets it back, and sleeping takes its time.
\<close>

definition ticking :: "('o, 'w) browser_services \<Rightarrow> ('w \<Rightarrow> rat) \<Rightarrow> bool" where
  "ticking sv clock \<longleftrightarrow>
     (\<forall>w. fst (bw_monotonic sv w) = clock w \<and> clock w \<le> clock (snd (bw_monotonic sv w)))
     \<and> (\<forall>d w. 0 \<le> d \<longrightarrow> clock w + d \<le> clock (bw_sleep sv d w))
     \<and> (\<forall>x w. clock w \<le> clock (snd (bw_content sv x w)))
     \<and> (\<forall>x t m w. clock w \<le> clock (snd (bw_wait_state sv x t m w)))
     \<and> (\<forall>x q w. clock w \<le> clock (snd (bw_count sv x q w)))"

definition fetcher_time :: "('w \<Rightarrow> rat) \<Rightarrow> ('o, 'w) browser_fetcher \<Rightarrow> rat" where
  "fetcher_time clock s = clock (br_world (fb_registry s))"

definition onward :: "('w \<Rightarrow> rat) \<Rightarrow> (exc \<Rightarrow> bool) \<Rightarrow> ('o, 'w, 'a) fbx \<Rightarrow> bool" where
  "onward clock E m \<longleftrightarrow> (\<forall>c. sx_valid (\<lambda>s. c \<le> fetcher_time clock s) m (\<lambda>_ s. c \<le> fetcher_time clock s)
     (\<lambda>e s. E e \<and> c \<le> fetcher_time clock s))"

named_theorems onward_intros \<open>computations during which time goes on\<close>

lemma onward_seq [onward_intros]: "onward clock E m \<Longrightarrow> (\<And>a. onward clock E (f a)) \<Longrightarrow> onward clock E (sx_bind m f)"
  unfolding onward_def by (blast intro: sx_valid_seq)

lemma onward_try [onward_intros]:
  assumes "onward clock F m" "\<And>e. F e \<Longrightarrow> onward clock E (h e)"
  shows "onward clock E (sx_try m (\<lambda>_. True) h)"
  unfolding onward_def
proof (intro allI sx_valid_try)
  show "sx_valid (\<lambda>s. c \<le> fetcher_time clock s) m (\<lambda>_ s. c \<le> fetcher_time clock s)
      (\<lambda>e s. F e \<and> c \<le> fetcher_time clock s)" for c
    using assms(1) by (simp add: onward_def)
  show "sx_valid (\<lambda>s. F e \<and> c \<le> fetcher_time clock s) (h e) (\<lambda>_ s. c \<le> fetcher_time clock s)
      (\<lambda>e s. E e \<and> c \<le> fetcher_time clock s)" for c e
    using assms(2) [of e] by (auto simp: onward_def sx_valid_def)
qed simp

lemma onward_basic [onward_intros]:
  "onward clock E (sx_return a)" "onward clock E sx_get" "E e \<Longrightarrow> onward clock E (sx_raise e)"
  by (simp_all add: onward_def sx_valid_def sx_simps)

lemma onward_if [onward_intros]:
  "(b \<Longrightarrow> onward clock E m) \<Longrightarrow> (\<not> b \<Longrightarrow> onward clock E m') \<Longrightarrow> onward clock E (if b then m else m')"
  by simp

lemma onward_op:
  "(\<And>w. clock w \<le> clock (snd (m w))) \<Longrightarrow> (\<And>w e w'. m w = (Inl e, w') \<Longrightarrow> E e) \<Longrightarrow> onward clock E (fb_op m)"
  unfolding onward_def sx_valid_def fb_op_runs fetcher_time_def
  by (auto split: sum.split intro: order_trans) (metis surjective_pairing)

lemma onward_quietly: "(\<And>w. clock w \<le> clock (snd (m w))) \<Longrightarrow> onward clock E (quietly (fb_op m))"
  unfolding quietly_def by (intro onward_try [where F = "\<lambda>_. True"] onward_intros onward_op; simp)

text \<open>The exceptions of reading a page that are not passing ones.\<close>

definition content_error :: "('o, 'w) browser_services \<Rightarrow> 'o \<Rightarrow> exc \<Rightarrow> bool" where
  "content_error sv page e \<longleftrightarrow> (\<exists>w w'. bw_content sv page w = (Inl e, w')) \<and> \<not> transient_content_error e"

lemma sleep_takes_time: "ticking sv clock \<Longrightarrow> 0 \<le> d \<Longrightarrow> clock w + d \<le> clock (bw_sleep sv d w)"
  by (simp add: ticking_def)

lemma onward_sleep:
  assumes "ticking sv clock" "0 \<le> d"
  shows "onward clock E (fb_sleep sv d)"
  unfolding fb_sleep_def
proof (rule onward_op)
  show "clock w \<le> clock (snd (sx_modify (bw_sleep sv d) w))" for w
    using sleep_takes_time [OF assms, of w] assms(2) by (simp add: sx_simps)
qed (simp add: sx_simps)

lemma onward_content: "ticking sv clock \<Longrightarrow> onward clock (content_error sv page) (content_attempts sv page i t n)"
proof (induction n)
  case (Suc n)
  have read: "onward clock (\<lambda>e. \<exists>w w'. bw_content sv page w = (Inl e, w')) (sx_bind (fb_op (bw_content sv page)) (\<lambda>h. sx_return (Some h)))"
    using Suc.prems by (intro onward_intros onward_op) (auto simp: ticking_def)
  show ?case
    unfolding content_attempts.simps
    by (rule onward_try [OF read], intro onward_intros Suc.IH [OF Suc.prems] onward_quietly onward_sleep [OF Suc.prems])
      (use Suc.prems in \<open>auto simp: ticking_def content_error_def\<close>)
qed (simp add: onward_intros)

lemma onward_selectors: "ticking sv clock \<Longrightarrow> onward clock E (selector_matches sv page xs)"
proof (induction xs)
  case (Cons x xs)
  then show ?case
    unfolding selector_matches.simps
    by (intro onward_intros onward_try [where F = "\<lambda>_. True"] onward_op) (auto simp: ticking_def)
qed (simp add: onward_intros)

lemma onward_verdict: "ticking sv clock \<Longrightarrow> onward clock E (login_verdict sv page u d c h)"
  unfolding login_verdict_def Let_def by (intro onward_intros onward_selectors)

lemma onward_url: "onward clock E (page_url sv page)"
  unfolding page_url_def fb_read_op by (intro onward_op) (auto simp: reads_def)

lemma onwardD: "onward clock E m \<Longrightarrow> sx_valid (\<lambda>s. c \<le> fetcher_time clock s) m (\<lambda>_ s. c \<le> fetcher_time clock s) (\<lambda>e _. E e)"
  unfolding onward_def by (blast intro: sx_valid_weaken)

lemma now_ms_valid:
  "ticking sv clock \<Longrightarrow> sx_valid (\<lambda>s. c \<le> fetcher_time clock s) (now_ms sv)
     (\<lambda>t s. c \<le> fetcher_time clock s \<and> 1000 * c \<le> t \<and> t \<le> 1000 * fetcher_time clock s) E"
  unfolding now_ms_def fb_read_op
  by (auto simp: sx_valid_def sx_bind_def sx_simps fb_op_runs reads_def ticking_def fetcher_time_def intro: order_trans)

lemma sleep_valid:
  "ticking sv clock \<Longrightarrow> 0 \<le> d \<Longrightarrow> sx_valid (\<lambda>s. c \<le> fetcher_time clock s) (fb_sleep sv d) (\<lambda>_ s. c + d \<le> fetcher_time clock s) E"
  by (auto simp: sx_valid_def fb_sleep_def fb_op_runs sx_simps fetcher_time_def intro: order_trans [OF _ sleep_takes_time])

text \<open>What a wait reports: a failure is a time-out, and the time has passed.\<close>

definition wait_reported :: "rat \<Rightarrow> login_wait option \<Rightarrow> bool" where
  "wait_reported timeout r \<longleftrightarrow>
     (\<exists>w. r = Some w \<and> (\<not> lw_success w \<longrightarrow> lw_reason w = ''login_wait_timeout'' \<and> timeout \<le> lw_waited_ms w))"

lemma wait_result_valid:
  assumes "ticking sv clock" "\<not> success \<longrightarrow> reason = ''login_wait_timeout'' \<and> started + timeout \<le> 1000 * c"
  shows "sx_valid (\<lambda>s. c \<le> fetcher_time clock s)
    (sx_bind (login_wait_result sv success reason url d started seen) (\<lambda>r. sx_return (Some r)))
    (\<lambda>r _. wait_reported timeout r) E"
proof -
  obtain u e l where seen: "seen = (u, e, l)" by (cases seen)
  show ?thesis
    unfolding login_wait_result_def seen prod.case
  proof (rule sx_valid_bind [OF sx_valid_bind [OF now_ms_valid [OF assms(1), of c]]])
    fix t
    let ?r = "\<lparr>lw_success = success, lw_reason = reason, lw_before_url = url, lw_after_url = u, lw_before_density_score = d,
      lw_after_density_score = e, lw_waited_ms = max 0 (t - started), lw_final_html_len = l\<rparr>"
    show "sx_valid (\<lambda>s. c \<le> fetcher_time clock s \<and> 1000 * c \<le> t \<and> t \<le> 1000 * fetcher_time clock s) (sx_return ?r)
        (\<lambda>r _. wait_reported timeout (Some r)) E"
      by (rule sx_valid_basic) (use assms(2) in \<open>auto simp: wait_reported_def\<close>)
  next
    show "sx_valid (\<lambda>_. wait_reported timeout (Some r)) (sx_return (Some r)) (\<lambda>r _. wait_reported timeout r) E" for r
      by (rule sx_valid_basic)
  qed
qed

lemma wait_rounds_end:
  assumes "ticking sv clock" "0 \<le> interval" "deadline = started + timeout"
  shows "deadline \<le> 1000 * (c + of_nat n * interval) \<Longrightarrow>
    sx_valid (\<lambda>s. c \<le> fetcher_time clock s)
      (wait_rounds sv page url before_url d started deadline interval (Suc n) seen) (\<lambda>r _. wait_reported timeout r)
      (\<lambda>e _. content_error sv page e)"
proof (induction n arbitrary: c seen)
  case 0
  have t: "sx_valid (\<lambda>s. c \<le> fetcher_time clock s \<and> 1000 * c \<le> t \<and> t \<le> 1000 * fetcher_time clock s)
      (if \<not> t < deadline
       then sx_bind (login_wait_result sv False ''login_wait_timeout'' before_url d started seen) (\<lambda>r. sx_return (Some r))
       else m) (\<lambda>r _. wait_reported timeout r) (\<lambda>e _. content_error sv page e)" for t and m :: "('a, 'b, login_wait option) fbx"
  proof (rule sx_valid_if)
    show "sx_valid (\<lambda>s. c \<le> fetcher_time clock s \<and> 1000 * c \<le> t \<and> t \<le> 1000 * fetcher_time clock s)
      (sx_bind (login_wait_result sv False ''login_wait_timeout'' before_url d started seen) (\<lambda>r. sx_return (Some r)))
      (\<lambda>r _. wait_reported timeout r) (\<lambda>e _. content_error sv page e)" if "\<not> t < deadline"
      by (rule sx_valid_weaken [OF wait_result_valid [OF assms(1), where c = "t / 1000" and timeout = timeout]])
        (use that assms(3) in auto)
  qed (use 0 in \<open>auto simp: sx_valid_def\<close>)
  show ?case
    unfolding wait_rounds.simps(2) by (rule sx_valid_bind [OF now_ms_valid [OF assms(1)] t])
next
  case (Suc n)
  let ?next = "\<lambda>seen. sx_bind (fb_sleep sv interval) (\<lambda>_.
    wait_rounds sv page url before_url d started deadline interval (Suc n) seen)"
  let ?E = "\<lambda>e _. content_error sv page e"
  have go_on: "sx_valid (\<lambda>s. c \<le> fetcher_time clock s) (?next seen) (\<lambda>r _. wait_reported timeout r) ?E" for seen
  proof (rule sx_valid_seq [OF sleep_valid [OF assms(1,2)]])
    have "deadline \<le> 1000 * ((c + interval) + of_nat n * interval)" using Suc.prems by (simp add: algebra_simps)
    then show "sx_valid (\<lambda>s. c + interval \<le> fetcher_time clock s)
        (wait_rounds sv page url before_url d started deadline interval (Suc n) seen) (\<lambda>r _. wait_reported timeout r) ?E"
      by (rule Suc.IH)
  qed
  have verdict: "sx_valid (\<lambda>s. c \<le> fetcher_time clock s) (login_verdict sv page url d u h)
      (\<lambda>_ s. c \<le> fetcher_time clock s) ?E" for u h
    by (rule onwardD [OF onward_verdict [OF assms(1)]])
  have visible: "sx_valid (\<lambda>s. c \<le> fetcher_time clock s) (page_url sv page) (\<lambda>_ s. c \<le> fetcher_time clock s) ?E"
    by (rule onwardD [OF onward_url])
  have content: "sx_valid (\<lambda>s. c \<le> fetcher_time clock s) (safe_page_content sv page 5 300 1000)
      (\<lambda>_ s. c \<le> fetcher_time clock s) ?E"
    unfolding safe_page_content_def by (rule onwardD [OF onward_content [OF assms(1)]])
  have found: "sx_valid (\<lambda>s. c \<le> fetcher_time clock s)
     (sx_bind (login_wait_result sv True reason before_url d started x) (\<lambda>r. sx_return (Some r)))
     (\<lambda>r _. wait_reported timeout r) ?E" for reason x
    by (rule wait_result_valid [OF assms(1)]) simp
  have late: "sx_valid (\<lambda>s. t / 1000 \<le> fetcher_time clock s)
     (sx_bind (login_wait_result sv False ''login_wait_timeout'' before_url d started seen) (\<lambda>r. sx_return (Some r)))
     (\<lambda>r _. wait_reported timeout r) ?E" if "\<not> t < deadline" for t
    by (rule wait_result_valid [OF assms(1)]) (use that assms(3) in simp)
  have round: "sx_valid (\<lambda>s. c \<le> fetcher_time clock s)
      (sx_bind (page_url sv page) (\<lambda>u. sx_bind (safe_page_content sv page 5 300 1000) (\<lambda>html.
         case html of None \<Rightarrow> ?next seen
         | Some h \<Rightarrow> let now_seen = (u, text_density_score h, length h) in
             sx_bind (login_verdict sv page url d u h) (\<lambda>v.
               case v of
                 Some reason \<Rightarrow> sx_bind (login_wait_result sv True reason before_url d started now_seen) (\<lambda>r. sx_return (Some r))
               | None \<Rightarrow> ?next now_seen)))) (\<lambda>r _. wait_reported timeout r) ?E"
    unfolding Let_def
    by (intro sx_valid_seq [OF visible] sx_valid_seq [OF content] sx_valid_option go_on sx_valid_seq [OF verdict] found)
  show ?case
    unfolding wait_rounds.simps(2) [of _ _ _ _ _ _ _ _ "Suc n"]
  proof (rule sx_valid_bind [OF now_ms_valid [OF assms(1), of c]], rule sx_valid_if)
    show "sx_valid (\<lambda>s. c \<le> fetcher_time clock s \<and> 1000 * c \<le> t \<and> t \<le> 1000 * fetcher_time clock s)
        (sx_bind (login_wait_result sv False ''login_wait_timeout'' before_url d started seen) (\<lambda>r. sx_return (Some r)))
        (\<lambda>r _. wait_reported timeout r) ?E" if "\<not> t < deadline" for t
      by (rule sx_valid_weaken [OF late [OF that]]) auto
  qed (rule sx_valid_weaken [OF round], auto)
qed

text \<open>
  C31: waiting for an interactive login ends. With a clock that the page does not set back and that sleeping moves on, the
  wait is over after one more round than polling intervals (of at least 50 ms) fit into the time-out: it reports a login, or
  the time-out, and then at least that time has passed. The only exceptions are those of reading the page that are not
  passing ones.
\<close>

theorem login_wait_ends:
  assumes "ticking sv clock"
    "bc_login_wait_timeout_ms (wc_auth (fb_config s)) \<le> int n * max (bc_login_poll_interval_ms (wc_auth (fb_config s))) 50"
  shows "case wait_for_login sv (Suc n) page source_url before_url before_html before_density s of
      (Inr r, _) \<Rightarrow> \<exists>w. r = Some w \<and> (\<not> lw_success w \<longrightarrow> lw_reason w = ''login_wait_timeout''
          \<and> of_int (bc_login_wait_timeout_ms (wc_auth (fb_config s))) \<le> lw_waited_ms w)
    | (Inl e, _) \<Rightarrow> (\<exists>u u'. bw_content sv page u = (Inl e, u')) \<and> \<not> transient_content_error e"
proof -
  let ?t = "of_int (bc_login_wait_timeout_ms (wc_auth (fb_config s))) :: rat"
  let ?i = "of_int (max (bc_login_poll_interval_ms (wc_auth (fb_config s))) 50) / 1000 :: rat"
  obtain started s1 where now: "now_ms sv s = (Inr started, s1)"
    by (simp add: now_ms_def fb_read_op fb_op_runs reads_def sx_bind_def sx_simps)
  have same: "fb_config s1 = fb_config s" and started: "started \<le> 1000 * fetcher_time clock s1"
    using now assms(1) by (auto simp: now_ms_def fb_read_op fb_op_runs reads_def sx_bind_def sx_simps ticking_def fetcher_time_def)
  have "rat_of_int (bc_login_wait_timeout_ms (wc_auth (fb_config s)))
      \<le> of_int (int n * max (bc_login_poll_interval_ms (wc_auth (fb_config s))) 50)"
    using assms(2) by (simp only: of_int_le_iff)
  then have "started + ?t \<le> 1000 * (fetcher_time clock s1 + of_nat n * ?i)"
    using started by (simp add: algebra_simps)
  moreover have "0 \<le> ?i" by simp
  ultimately have "sx_valid (\<lambda>u. fetcher_time clock s1 \<le> fetcher_time clock u)
      (wait_rounds sv page source_url before_url before_density started (started + ?t) ?i (Suc n)
        (before_url, before_density, length before_html)) (\<lambda>r _. wait_reported ?t r) (\<lambda>e _. content_error sv page e)"
    using wait_rounds_end [OF assms(1) _ refl] by blast
  moreover have "wait_for_login sv (Suc n) page source_url before_url before_html before_density s
      = wait_rounds sv page source_url before_url before_density started (started + ?t) ?i (Suc n)
        (before_url, before_density, length before_html) s1"
    by (simp only: wait_for_login_def sx_bind_Inr [of "now_ms sv", OF now] sx_bind_step(3) same Let_def)
  ultimately show ?thesis
    unfolding sx_valid_def wait_reported_def content_error_def by (simp only:)
qed

section \<open>What an answer says\<close>

text \<open>Every answered page has a redirect chain, with its own address: the chain starts at the request that was answered.\<close>

lemma answered_page_has_chain:
  assumes "nv_request r = Some q" "map_of (nv_requests r) q = Some (url, before)" "url \<noteq> []"
  shows "url \<in> set (build_redirect_chain (Some r))"
    "ad_has_redirect_history (detect_login dec gate source final_url html (build_redirect_chain (Some r)))"
proof -
  show "url \<in> set (build_redirect_chain (Some r))" using assms by (simp add: build_redirect_chain_def)
  then show "ad_has_redirect_history (detect_login dec gate source final_url html (build_redirect_chain (Some r)))"
    by (auto simp: detect_login_def Let_def split: prod.split)
qed

text \<open>An empty registry given to the constructor is not used.\<close>

lemma empty_registry_is_replaced:
  "new_browser_fetcher (Some cf) (Some r) gate w = Inr s \<Longrightarrow> br_pages r = [] \<Longrightarrow>
     fb_registry s = new_page_registry (wc_max_open_pages cf) (wc_page_ttl_s cf) (br_world r)"
  by (auto simp: new_browser_fetcher_def registry_or_new_def Let_def split: if_splits)

lemma sx_valid_any: "(\<And>a. sx_valid (\<lambda>_. True) (f a) Q (\<lambda>_ _. True)) \<Longrightarrow> sx_valid (\<lambda>_. True) (sx_bind m f) Q (\<lambda>_ _. True)"
  by (rule sx_valid_seq [where R = "\<lambda>_. True"]) (simp_all add: sx_valid_def split: prod.split sum.split)

lemma login_phase_required:
  "sx_valid (\<lambda>_. True) (login_phase sv n page call detection html u)
     (\<lambda>x _. fst x \<noteq> None \<longrightarrow> ad_login_required detection) (\<lambda>_ _. True)"
  unfolding login_phase_def Let_def
  by (intro sx_valid_any sx_valid_if sx_valid_option sx_valid_basic; simp)

lemma keep_page_keeps:
  "sx_valid (\<lambda>_. True) (keep_page sv c p call u r)
     (\<lambda>x _. wo_interactive_login_used x = wo_interactive_login_used r \<and> wo_auth_required x = wo_auth_required r) (\<lambda>_ _. True)"
  unfolding keep_page_def by (intro sx_valid_any sx_valid_basic) simp

lemma login_keeps_auth_required:
  "sx_valid (\<lambda>_. True) (fetch_body sv n call started c p)
     (\<lambda>r _. wo_interactive_login_used r \<longrightarrow> wo_auth_required r) (\<lambda>_ _. True)"
proof -
  have last: "sx_valid (\<lambda>_. True) (if keep then keep_page sv c p call u r else sx_return r)
      (\<lambda>r _. wo_interactive_login_used r \<longrightarrow> wo_auth_required r) (\<lambda>_ _. True)"
    if "wo_interactive_login_used r \<longrightarrow> wo_auth_required r" for keep u r
    using that by (intro sx_valid_if sx_valid_weaken [OF keep_page_keeps] sx_valid_basic) simp_all
  have rest: "sx_valid (\<lambda>_. fst x \<noteq> None \<longrightarrow> ad_login_required detection)
     (case x of (w, html, final_url) \<Rightarrow>
       sx_bind (path_exists sv path) (\<lambda>used. sx_bind (try_save_storage_state sv c path) (\<lambda>reason.
       sx_bind (fb_read (bw_monotonic sv)) (\<lambda>now.
         let r = make_response (bl_url call) final_url resp html ((now - started) * 1000) detection
                 (auth_reason_of detection w reason) w used (reason = None \<and> path \<noteq> None)
         in if keep then keep_page sv c p call final_url r else sx_return r))))
     (\<lambda>r _. wo_interactive_login_used r \<longrightarrow> wo_auth_required r) (\<lambda>_ _. True)" for x resp path keep detection
  proof (cases "fst x \<noteq> None \<longrightarrow> ad_login_required detection")
    case True
    obtain w html u where x: "x = (w, html, u)" by (cases x)
    show ?thesis
      unfolding x prod.case Let_def
      by (rule sx_valid_weaken [OF sx_valid_any [OF sx_valid_any [OF sx_valid_any [OF last]]]])
        (use True in \<open>simp_all add: x make_response_def\<close>)
  qed (simp add: sx_valid_def)
  show ?thesis
    unfolding fetch_body_def Let_def split_beta
    by (rule sx_valid_any, rule sx_valid_any, rule sx_valid_bind [OF login_phase_required], rule rest [unfolded Let_def split_beta])
qed

text \<open>An interactive login, successful or not, leaves the answer marked as one that needs a login.\<close>

lemma used_login_still_required:
  assumes "browser_fetch sv n call s = (Inr r, s')" "wo_interactive_login_used r"
  shows "wo_auth_required r"
proof -
  let ?Q = "\<lambda>r _. wo_interactive_login_used r \<longrightarrow> wo_auth_required r"
  have guarded: "sx_valid (\<lambda>_. True) (guarded_body sv c p (fetch_body sv n call started c p)) ?Q (\<lambda>_ _. True)" for c p started
    unfolding guarded_body_def Let_def
  proof (rule sx_valid_bind)
    show "sx_valid (\<lambda>_. True) (sx_try (fetch_body sv n call started c p) (\<lambda>_. True)
        (\<lambda>e. sx_bind (close_page_and_context sv (Some p) (Some c)) (\<lambda>_. sx_raise e))) ?Q (\<lambda>_ _. True)"
      by (rule sx_valid_try [OF login_keeps_auth_required], rule sx_valid_any, rule sx_valid_basic) simp_all
    show "sx_valid (?Q r) (if wo_kept_open r then sx_return r
        else sx_bind (close_page_and_context sv (Some p) (Some c)) (\<lambda>_. sx_return r)) ?Q (\<lambda>_ _. True)" for r
      by (cases "wo_interactive_login_used r \<longrightarrow> wo_auth_required r")
        (auto simp: sx_valid_def sx_bind_def sx_simps split: prod.splits sum.splits)
  qed
  have "sx_valid (\<lambda>_. True) (browser_fetch sv n call) ?Q (\<lambda>_ _. True)"
    unfolding browser_fetch_def split_beta
    by (rule sx_valid_any, rule sx_valid_if, rule sx_valid_basic, simp, rule sx_valid_any, rule sx_valid_any, rule sx_valid_any,
        rule sx_valid_any, rule guarded)
  from sx_validD(1) [OF this TrueI assms(1)] assms(2) show ?thesis by simp
qed

section \<open>Witnesses\<close>

text \<open>A world of the objects closed, those made and a counter, which numbers them and is the clock; every page has the
  same text, which shows no login.\<close>

type_synonym sim_world = "string list \<times> string list \<times> nat"

definition sim_make :: "string \<Rightarrow> (sim_world, string) sx" where
  "sim_make x = (\<lambda>(l, m, n). (Inr (x @ replicate n (CHR ''x'')), (l, m @ [x @ replicate n (CHR ''x'')], Suc n)))"

definition sim_pages :: "(string, sim_world) page_services" where
  "sim_pages =
     \<lparr>bs_time = (\<lambda>(l, m, n). (of_nat n, (l, m, n))), bs_uuid = (\<lambda>(l, m, n). (replicate n (CHR ''x''), (l, m, Suc n))),
      bs_close_page = (\<lambda>x (l, m, n). (Inl (Exc ''Error'' x), (l @ [x], m, n))), bs_close_context = (\<lambda>x (l, m, n). (Inr (), (l @ [x], m, n)))\<rparr>"

definition sim_services :: "(string, sim_world) browser_services" where
  "sim_services =
     \<lparr>bw_pages = sim_pages, bw_decode = (\<lambda>s. s), bw_installed = True, bw_start = sx_return 0, bw_has_type = (\<lambda>_ _. True),
      bw_launch = (\<lambda>_ _ _. sx_return 0), bw_stop = (\<lambda>_. sx_return ()), bw_close_browser = (\<lambda>_. sx_raise (Exc ''Error'' ''gone'')),
      bw_new_context = (\<lambda>_ _. sim_make ''c''), bw_route = (\<lambda>_. sx_return ()), bw_new_page = (\<lambda>_. sim_make ''p''),
      bw_goto = (\<lambda>_ _ _ _. sx_return None), bw_wait_state = (\<lambda>_ _ _. sx_return ()), bw_content = (\<lambda>_. sx_return ''hello''),
      bw_url = (\<lambda>_ _. ''http://a.org''), bw_count = (\<lambda>_ _. sx_return 0), bw_path = (\<lambda>p. p), bw_exists = (\<lambda>_. sx_return False),
      bw_mkdir_parent = (\<lambda>_. sx_return ()), bw_storage_state = (\<lambda>_ _. sx_return ()),
      bw_monotonic = (\<lambda>(l, m, n). (of_nat n, (l, m, n))), bw_sleep = (\<lambda>d (l, m, n). (l, m, n + nat \<lceil>d\<rceil>))\<rparr>"

definition sim_view :: "(string, sim_world) page_view" where
  "sim_view = \<lparr>pv_log = fst, pv_used = (\<lambda>w. {replicate k (CHR ''x'') | k. k < snd (snd w)}), pv_clk = (\<lambda>w. of_nat (snd (snd w)))\<rparr>"

definition sim_made :: "sim_world \<Rightarrow> string multiset" where
  "sim_made w = mset (fst (snd w))"

definition sim_fetcher :: "(string, sim_world) browser_fetcher" where
  "sim_fetcher =
     \<lparr>fb_config = default_browser_config\<lparr>wc_max_open_pages := 1, wc_auth := default_auth_config\<lparr>bc_login_wait_timeout_ms := 100,
        bc_login_poll_interval_ms := 50\<rparr>\<rparr>, fb_gate = default_auth_config, fb_registry = new_page_registry 1 600 ([], [], 0),
      fb_pw = None, fb_browser = None, fb_closed = False\<rparr>"

definition sim_call :: browser_call where
  "sim_call = \<lparr>bl_url = ''http://a.org'', bl_session = None, bl_keep_page_open = Some True, bl_owner_run_id = None,
     bl_interactive_login = None\<rparr>"

lemma sim_page_world: "page_world sim_pages sim_view"
  by (auto simp: page_world_def sim_pages_def sim_view_def later_def replicate_eq_length sx_simps less_Suc_eq)

lemma sim_world: "browser_world sim_services sim_view sim_made"
  unfolding browser_world_def
  by (rule conjI, simp add: sim_services_def sim_page_world, intro conjI allI)
    (auto simp: sim_services_def sim_pages_def calm_def makes_def reads_def sim_make_def sim_view_def sim_made_def later_def sx_simps
      less_Suc_eq split: prod.splits)

theorem browser_objects_are_closed_once_witness:
  "\<exists>s. run_fetcher_ops sim_services [FetchPage 1 sim_call, FetchPage 1 sim_call, SweepKept, CloseFetcher, FetchPage 1 sim_call]
         (sim_fetcher\<lparr>fb_config := default_browser_config\<rparr>\<lparr>fb_registry := new_page_registry 8 600 ([], [], 0)\<rparr>) = (Inr (), s)
     \<and> int (length (br_pages (fb_registry s))) \<le> 8"
proof -
  have "new_browser_fetcher (Some default_browser_config) None None ([], [], 0)
      = Inr (sim_fetcher\<lparr>fb_config := default_browser_config\<rparr>\<lparr>fb_registry := new_page_registry 8 600 ([], [], 0)\<rparr>)"
    by (simp add: new_browser_fetcher_def registry_or_new_def sim_fetcher_def default_browser_config_def default_auth_config_def Let_def)
  from browser_objects_are_closed_once [OF sim_world this, of "[FetchPage 1 sim_call, FetchPage 1 sim_call, SweepKept, CloseFetcher, FetchPage 1 sim_call]"]
  show ?thesis by (simp add: sim_view_def sim_made_def default_browser_config_def Let_def) blast
qed

theorem login_wait_ends_witness:
  "case wait_for_login sim_services 3 ''p'' ''http://a.org'' ''http://a.org'' ''hello'' 0 sim_fetcher of
      (Inr r, _) \<Rightarrow> r \<noteq> None | (Inl e, _) \<Rightarrow> False"
proof -
  have "ticking sim_services (\<lambda>w. of_nat (snd (snd w)))"
    by (auto simp: ticking_def sim_services_def sx_simps of_nat_nat le_of_int_ceiling)
  from login_wait_ends [OF this, of sim_fetcher 2 "''p''" "''http://a.org''" "''http://a.org''" "''hello''" 0]
  show ?thesis by (auto simp: sim_fetcher_def numeral_3_eq_3 numeral_2_eq_2 sim_services_def sx_simps split: prod.splits sum.splits)
qed

end
