(* ===== verification/WebTool.thy ===== *)
theory WebTool
  imports CrawlRunner
begin

text \<open>
  The tool \<open>web.read_page\<close> over the crawler: \<open>agent_crawler/tools/\<close>. It builds a crawl request from its input, runs the
  crawl, and maps the bundle to the result an agent reads. The mapping is modelled for the bundles the runner makes;
  what \<open>float\<close> and \<open>int\<close> read from a text is a parameter. The result of every crawl that returns has quality 1.
\<close>

section \<open>Input and result\<close>

record web_tool_input =
  wt_url :: string
  wt_query :: "string option"
  wt_transport :: string
  wt_auth_profile_id :: string
  wt_interactive_login :: bool
  wt_keep_page_open :: bool
  wt_render_mode :: string
  wt_max_chunks :: int
  wt_max_render_chars :: int
  wt_max_chunk_chars :: int
  wt_include_links :: bool
  wt_max_links :: int
  wt_include_raw_html :: bool
  wt_max_raw_html_chars :: int
  wt_cache_mode :: string
  wt_debug :: bool

definition new_web_tool_input :: "string \<Rightarrow> web_tool_input" where
  "new_web_tool_input url =
     \<lparr>wt_url = url, wt_query = None, wt_transport = ''auto'', wt_auth_profile_id = ''anonymous'',
      wt_interactive_login = False, wt_keep_page_open = False, wt_render_mode = ''agent_text'', wt_max_chunks = 8,
      wt_max_render_chars = 12000, wt_max_chunk_chars = 1500, wt_include_links = True, wt_max_links = 30,
      wt_include_raw_html = False, wt_max_raw_html_chars = 5000, wt_cache_mode = ''prefer'', wt_debug = False\<rparr>"

record web_page_meta =
  wm_requested_url :: string
  wm_final_url :: string
  wm_title :: "string option"
  wm_status_code :: int
  wm_content_type :: "string option"
  wm_transport_used :: "string option"

record web_chunk =
  wk_chunk_id :: string
  wk_order :: nat
  wk_rank :: nat
  wk_score :: rat
  wk_text :: string
  wk_title :: "string option"
  wk_source_url :: string
  wk_char_count :: nat
  wk_truncated :: bool
  wk_metadata :: "pyval dict"

record web_page_content =
  wn_rendered_text :: "string option"
  wn_clean_text_preview :: "string option"
  wn_raw_html_preview :: "string option"
  wn_chunks :: "web_chunk list"
  wn_total_text_chars :: nat
  wn_total_chunks :: nat
  wn_truncated :: bool

record web_link =
  wl_text :: string
  wl_url :: string
  wl_kind :: string
  wl_rank :: nat

record web_links_info =
  ws_links :: "web_link list"
  ws_total_links :: nat
  ws_truncated :: bool

record web_quality_info =
  wq_score :: rat
  wq_label :: string
  wq_text_chars :: int
  wq_chunk_count :: int
  wq_link_count :: int
  wq_reason :: "string option"
  wq_fallback_triggered :: bool
  wq_fallback_reason :: "string option"

text \<open>Values taken from \<open>extra\<close> as they are stay dynamic.\<close>

record web_auth_info =
  wa_auth_required :: bool
  wa_confidence :: rat
  wa_reason :: pyval
  wa_interactive_login_used :: bool
  wa_interactive_login_success :: pyval
  wa_auth_profile_id :: string
  wa_storage_state_used :: bool
  wa_storage_state_saved :: bool
  wa_before_login_url :: pyval
  wa_after_login_url :: pyval
  wa_before_density_score :: pyval
  wa_after_density_score :: pyval

record web_browser_info =
  wb_page_ref :: pyval
  wb_context_ref :: pyval
  wb_kept_open :: bool
  wb_headless :: pyval
  wb_browser_name :: pyval
  wb_redirect_chain :: "pyval list"

record web_cache_info =
  wh_cache_hit :: bool
  wh_cache_key :: pyval
  wh_cache_mode :: string

record web_trace_info =
  wr_run_id :: string
  wr_attempts :: nat
  wr_fallback_chain :: "pyval list"
  wr_events :: "string list"

record web_error_info =
  we_error_type :: string
  we_message :: string
  we_retryable :: bool

record web_read_result =
  wx_ok :: bool
  wx_status :: string
  wx_page :: web_page_meta
  wx_content :: web_page_content
  wx_links :: web_links_info
  wx_quality :: web_quality_info
  wx_auth :: web_auth_info
  wx_browser :: "web_browser_info option"
  wx_cache :: web_cache_info
  wx_trace :: web_trace_info
  wx_error :: "web_error_info option"

section \<open>Conversions\<close>

text \<open>What \<open>float(s)\<close> and \<open>int(s)\<close> make of a text.\<close>

record number_texts =
  nt_float :: "string \<Rightarrow> rat res"
  nt_int :: "string \<Rightarrow> int res"

fun to_float :: "number_texts \<Rightarrow> pyval \<Rightarrow> rat res" where
  "to_float nt (PFloat q) = Inr q"
| "to_float nt (PInt i) = Inr (of_int i)"
| "to_float nt (PBool b) = Inr (if b then 1 else 0)"
| "to_float nt (PStr s) = nt_float nt s"
| "to_float nt v = Inl (Exc ''TypeError'' ''float() argument must be a string or a real number'')"

definition toward_zero :: "rat \<Rightarrow> int" where
  "toward_zero q = (if q < 0 then - \<lfloor>- q\<rfloor> else \<lfloor>q\<rfloor>)"

fun to_int :: "number_texts \<Rightarrow> pyval \<Rightarrow> int res" where
  "to_int nt (PInt i) = Inr i"
| "to_int nt (PBool b) = Inr (if b then 1 else 0)"
| "to_int nt (PFloat q) = Inr (toward_zero q)"
| "to_int nt (PStr s) = nt_int nt s"
| "to_int nt v = Inl (Exc ''TypeError'' ''int() argument must be a string, a bytes-like object or a real number'')"

fun to_list :: "pyval \<Rightarrow> pyval list res" where
  "to_list (PList xs) = Inr xs"
| "to_list (PTuple xs) = Inr xs"
| "to_list (PStr s) = Inr (map (\<lambda>c. PStr [c]) s)"
| "to_list (PDict d) = Inr (map (\<lambda>(k, _). PStr k) d)"
| "to_list v = Inl (Exc ''TypeError'' ''object is not iterable'')"

definition flag :: "pyval dict \<Rightarrow> string \<Rightarrow> bool" where
  "flag extra k = py_truthy (dget_default extra k (PBool False))"

definition truncate_text :: "string \<Rightarrow> int \<Rightarrow> string \<times> bool" where
  "truncate_text s limit =
     (if int (length s) \<le> limit then (s, False) else (py_slice_to limit s @ nl @ ''...[truncated]'', True))"

definition truncate_opt :: "string option \<Rightarrow> int \<Rightarrow> string option \<times> bool" where
  "truncate_opt s limit = (case s of None \<Rightarrow> (None, False) | Some s \<Rightarrow> map_prod Some id (truncate_text s limit))"

definition quality_label :: "rat \<Rightarrow> string" where
  "quality_label score = (if 7 / 10 \<le> score then ''good'' else if 4 / 10 \<le> score then ''medium'' else ''poor'')"

text \<open>The format \<open>04d\<close>.\<close>

definition pad4 :: "nat \<Rightarrow> string" where
  "pad4 n = replicate (4 - length (nat_str n)) (CHR ''0'') @ nat_str n"

section \<open>The mapping, part by part\<close>

definition map_page_meta :: "crawl_result_bundle \<Rightarrow> web_page_meta" where
  "map_page_meta b =
     \<lparr>wm_requested_url = rq_url (cb_request b), wm_final_url = fm_final_url (cb_fetched b),
      wm_title = dc_title (cb_doc_clean b), wm_status_code = fm_status_code (cb_fetched b),
      wm_content_type = dget (fm_headers (cb_fetched b)) ''content-type'',
      wm_transport_used = Some (transport_value (fm_transport (cb_fetched b)))\<rparr>"

definition map_chunk :: "web_tool_input \<Rightarrow> nat \<Rightarrow> chunk \<Rightarrow> web_chunk" where
  "map_chunk ti rank c =
     (case truncate_text (ck_text c) (wt_max_chunk_chars ti) of (txt, trunc) \<Rightarrow>
        \<lparr>wk_chunk_id = ''chunk_'' @ pad4 rank, wk_order = (if ck_order c = 0 then rank else ck_order c), wk_rank = rank,
         wk_score = ck_score c, wk_text = txt, wk_title = ck_title c, wk_source_url = ck_source_url c,
         wk_char_count = length txt, wk_truncated = trunc, wk_metadata = ck_meta c\<rparr>)"

definition map_chunks :: "web_tool_input \<Rightarrow> document \<Rightarrow> web_chunk list" where
  "map_chunks ti d =
     map (\<lambda>(rank, c). map_chunk ti rank c) (enumerate 0 (take (nat (max 0 (wt_max_chunks ti))) (dc_chunks d)))"

definition or_text :: "string option \<Rightarrow> string \<Rightarrow> string" where
  "or_text s other = (case s of None \<Rightarrow> other | Some t \<Rightarrow> if t = [] then other else t)"

definition map_content :: "web_tool_input \<Rightarrow> crawl_result_bundle \<Rightarrow> web_page_content" where
  "map_content ti b =
     (let text = dc_text (cb_doc_clean b);
          (raw, raw_cut) = (if wt_include_raw_html ti then truncate_opt (cb_raw_html b) (wt_max_raw_html_chars ti)
                            else (None, False));
          (rendered, short) =
            (if wt_render_mode ti \<in> {''agent_text'', ''both''}
             then map_prod Some id (truncate_text (or_text (cb_rendered b) text) (wt_max_render_chars ti))
             else (None, False));
          (preview, preview_cut) = truncate_text text (wt_max_render_chars ti)
      in \<lparr>wn_rendered_text = rendered, wn_clean_text_preview = Some preview, wn_raw_html_preview = raw,
          wn_chunks = (if wt_render_mode ti \<in> {''chunks'', ''both'', ''agent_text''} then map_chunks ti (cb_doc_clean b) else []),
          wn_total_text_chars = length text, wn_total_chunks = length (dc_chunks (cb_doc_clean b)),
          wn_truncated = (raw_cut \<or> short \<or> preview_cut)\<rparr>)"

definition link_kind :: "string \<Rightarrow> string \<Rightarrow> string" where
  "link_kind requested_url url =
     (case (url_netloc requested_url, url_netloc url) of
        (Inr base, Inr host) \<Rightarrow>
          if host \<noteq> [] \<and> base \<noteq> [] then (if host = base then ''internal'' else ''external'') else ''unknown''
      | _ \<Rightarrow> ''unknown'')"

definition map_links :: "web_tool_input \<Rightarrow> crawl_result_bundle \<Rightarrow> web_links_info" where
  "map_links ti b =
     (let links = dc_links (cb_doc_clean b);
          out = map (\<lambda>(i, url). \<lparr>wl_text = [], wl_url = url, wl_kind = link_kind (rq_url (cb_request b)) url, wl_rank = i\<rparr>)
                  (enumerate 0 (take (nat (max 0 (wt_max_links ti))) links))
      in \<lparr>ws_links = (if wt_include_links ti then out else []), ws_total_links = length links,
          ws_truncated = (wt_max_links ti < int (length links))\<rparr>)"

definition metric :: "number_texts \<Rightarrow> quality_score \<Rightarrow> string \<Rightarrow> nat \<Rightarrow> int res" where
  "metric nt q k n = to_int nt (dget_default (qs_metrics q) k (PInt (int n)))"

definition map_quality :: "number_texts \<Rightarrow> crawl_result_bundle \<Rightarrow> trace_info \<Rightarrow> web_quality_info res" where
  "map_quality nt b t =
     (let q = cb_quality b; d = cb_doc_clean b; reason = py_join '','' (qs_reasons q) in
      res_bind (metric nt q ''text_chars'' (length (dc_text d))) (\<lambda>text_chars.
      res_bind (metric nt q ''chunk_count'' (length (dc_chunks d))) (\<lambda>chunk_count.
      res_bind (metric nt q ''link_count'' (length (dc_links d))) (\<lambda>link_count. Inr
        \<lparr>wq_score = qs_score q, wq_label = quality_label (qs_score q), wq_text_chars = text_chars,
         wq_chunk_count = chunk_count, wq_link_count = link_count, wq_reason = (if reason = [] then None else Some reason),
         wq_fallback_triggered = (ti_fallback_count t \<noteq> 0),
         wq_fallback_reason = (if ti_steps t = [] then None else Some (ts_reason (last (ti_steps t))))\<rparr>))))"

definition map_auth :: "number_texts \<Rightarrow> web_tool_input \<Rightarrow> pyval dict \<Rightarrow> web_auth_info res" where
  "map_auth nt ti extra =
     res_bind (to_float nt (py_or (dget_default extra ''auth_confidence'' (PFloat 0)) (PFloat 0))) (\<lambda>confidence. Inr
       \<lparr>wa_auth_required = flag extra ''auth_required'', wa_confidence = confidence, wa_reason = pget extra ''auth_reason'',
        wa_interactive_login_used = flag extra ''interactive_login_used'',
        wa_interactive_login_success = pget extra ''interactive_login_success'',
        wa_auth_profile_id = wt_auth_profile_id ti, wa_storage_state_used = flag extra ''storage_state_used'',
        wa_storage_state_saved = flag extra ''storage_state_saved'',
        wa_before_login_url = pget extra ''before_login_url'', wa_after_login_url = pget extra ''after_login_url'',
        wa_before_density_score = pget extra ''before_login_density_score'',
        wa_after_density_score = pget extra ''after_login_density_score''\<rparr>)"

text \<open>\<open>_derive_status\<close>; a bundle of the runner has a document.\<close>

definition derive_status :: "bool \<Rightarrow> rat \<Rightarrow> bool \<times> string \<times> web_error_info option" where
  "derive_status auth_required quality_score =
     (if auth_required
      then (False, ''auth_required'', Some
        \<lparr>we_error_type = ''auth_required'',
         we_message = ''The page requires authentication. Retry with interactive_login=true or a valid auth_profile_id.'',
         we_retryable = True\<rparr>)
      else if quality_score < 3 / 10
      then (False, ''low_quality'', Some
        \<lparr>we_error_type = ''low_quality'',
         we_message = ''The crawler fetched the page but extracted low-quality content.'', we_retryable = True\<rparr>)
      else (True, ''success'', None))"

definition map_browser :: "crawl_result_bundle \<Rightarrow> web_browser_info option res" where
  "map_browser b =
     (let extra = fm_extra (cb_fetched b) in
      if fm_transport (cb_fetched b) = BROWSER \<or> extra \<noteq> []
      then res_bind (to_list (py_or (dget_default extra ''redirect_chain'' (PList [])) (PList []))) (\<lambda>chain. Inr (Some
             \<lparr>wb_page_ref = pget extra ''page_ref'', wb_context_ref = pget extra ''context_ref'',
              wb_kept_open = flag extra ''kept_open'', wb_headless = pget extra ''headless'',
              wb_browser_name = pget extra ''browser_name'', wb_redirect_chain = chain\<rparr>))
      else Inr None)"

definition map_trace :: "trace_info \<Rightarrow> web_trace_info" where
  "map_trace t =
     \<lparr>wr_run_id = ti_run_id t, wr_attempts = max 1 (length (ti_steps t)),
      wr_fallback_chain = map (\<lambda>u. dget_default (ts_meta u) ''plan_transport'' (PStr []))
                            (filter (\<lambda>u. ts_step_name u = ''fallback'') (ti_steps t)),
      wr_events = map (\<lambda>u. ts_step_name u @ '':'' @ ts_status u) (ti_steps t)\<rparr>"

definition map_crawl_result ::
  "number_texts \<Rightarrow> web_tool_input \<Rightarrow> crawl_result_bundle \<Rightarrow> trace_info \<Rightarrow> web_read_result res" where
  "map_crawl_result nt ti b t =
     res_bind (map_quality nt b t) (\<lambda>quality.
     res_bind (map_auth nt ti (fm_extra (cb_fetched b))) (\<lambda>auth.
       case derive_status (wa_auth_required auth) (wq_score quality) of (ok, status, err) \<Rightarrow>
         res_bind (map_browser b) (\<lambda>browser. Inr
           \<lparr>wx_ok = ok, wx_status = status, wx_page = map_page_meta b, wx_content = map_content ti b,
            wx_links = map_links ti b, wx_quality = quality, wx_auth = auth, wx_browser = browser,
            wx_cache = \<lparr>wh_cache_hit = flag (fm_extra (cb_fetched b)) ''cache_hit'',
                        wh_cache_key = pget (fm_extra (cb_fetched b)) ''cache_key'', wh_cache_mode = wt_cache_mode ti\<rparr>,
            wx_trace = map_trace t, wx_error = err\<rparr>)))"

section \<open>The tool\<close>

definition request_options :: "web_tool_input \<Rightarrow> pyval dict" where
  "request_options ti =
     [(''interactive_login'', PBool (wt_interactive_login ti)), (''keep_page_open'', PBool (wt_keep_page_open ti)),
      (''cache_mode'', PStr (wt_cache_mode ti)), (''include_raw_html'', PBool (wt_include_raw_html ti)),
      (''max_raw_html_chars'', PInt (wt_max_raw_html_chars ti)), (''max_chunks'', PInt (wt_max_chunks ti)),
      (''max_render_chars'', PInt (wt_max_render_chars ti)), (''max_chunk_chars'', PInt (wt_max_chunk_chars ti)),
      (''include_links'', PBool (wt_include_links ti)), (''max_links'', PInt (wt_max_links ti)),
      (''tool_render_mode'', PStr (wt_render_mode ti))]"

definition transport_hints :: "transport_hint dict" where
  "transport_hints = [(''auto'', HintAuto), (''http'', HintHttp), (''browser'', HintBrowser)]"

text \<open>\<open>debug\<close> of the request is read by no one.\<close>

definition to_crawl_request :: "web_tool_input \<Rightarrow> crawl_request res" where
  "to_crawl_request ti =
     (case dget transport_hints (wt_transport ti) of
        None \<Rightarrow> Inl (Exc ''KeyError'' (wt_transport ti))
      | Some hint \<Rightarrow> Inr ((crawl_request_of (wt_url ti))
          \<lparr>rq_query := wt_query ti, rq_auth_profile_id := wt_auth_profile_id ti,
           rq_render := wt_render_mode ti \<in> {''agent_text'', ''both''},
           rq_render_mode := (if wt_render_mode ti \<in> {''agent_text'', ''both''} then PLAIN else STRUCTURED),
           rq_transport_hint := hint, rq_options := request_options ti\<rparr>))"

definition tool_run ::
  "number_texts \<Rightarrow> 'w crawl_services \<Rightarrow> 'w crawler_runner \<Rightarrow> web_tool_input \<Rightarrow> ('w, web_read_result) crx" where
  "tool_run nt sv rn ti =
     sx_bind (sx_lift (to_crawl_request ti)) (\<lambda>rq.
     sx_bind (crawl_run sv rn rq) (\<lambda>out.
       case out of
         CrawlFailed err tid \<Rightarrow> sx_raise (Exc ''CrawlFailedError'' ''crawl failed after fallback attempts'')
       | Crawled b \<Rightarrow> sx_bind sx_get (\<lambda>s.
           sx_lift (map_crawl_result nt ti (cw_bundles s ! b) (cw_traces s ! cb_trace (cw_bundles s ! b))))))"

text \<open>\<open>read_web_page\<close>: the limits that are no arguments keep their defaults.\<close>

definition read_web_page ::
  "number_texts \<Rightarrow> 'w crawl_services \<Rightarrow> 'w crawler_runner \<Rightarrow> string \<Rightarrow> string option \<Rightarrow> string \<Rightarrow> string \<Rightarrow> bool \<Rightarrow> bool
     \<Rightarrow> string \<Rightarrow> int \<Rightarrow> string \<Rightarrow> bool \<Rightarrow> ('w, web_read_result) crx" where
  "read_web_page nt sv rn url query transport auth_profile_id interactive_login keep_page_open render_mode max_chunks
     cache_mode debug =
     tool_run nt sv rn ((new_web_tool_input url)
       \<lparr>wt_query := query, wt_transport := transport, wt_auth_profile_id := auth_profile_id,
        wt_interactive_login := interactive_login, wt_keep_page_open := keep_page_open, wt_render_mode := render_mode,
        wt_max_chunks := max_chunks, wt_cache_mode := cache_mode, wt_debug := debug\<rparr>)"

section \<open>What a result says\<close>

text \<open>A document that passes the quality check has lost no point.\<close>

lemma passed_quality:
  assumes "qs_ok (assess_quality th d)"
  shows "qs_score (assess_quality th d) = 1" "qs_reasons (assess_quality th d) = []"
proof -
  have "filter fst (quality_checks th d) = []" using assms by (simp add: assess_quality_def Let_def)
  then show "qs_score (assess_quality th d) = 1" "qs_reasons (assess_quality th d) = []"
    by (simp_all add: assess_quality_def Let_def)
qed

lemma quality_metrics:
  "qs_metrics (assess_quality th d)
   = [(''text_chars'', PInt (int (length (py_strip (dc_text d))))), (''chunk_count'', PInt (int (length (dc_chunks d)))),
      (''link_count'', PInt (int (length (dc_links d)))), (''link_density'', PFloat (link_density d)),
      (''unique_line_ratio'', PFloat (unique_line_ratio (dc_text d)))]"
  by (simp add: assess_quality_def Let_def)

lemma map_quality_good:
  assumes "cb_quality b = assess_quality th (cb_doc_clean b)" "qs_ok (cb_quality b)"
  shows "\<exists>q. map_quality nt b t = Inr q \<and> wq_score q = 1 \<and> wq_label q = ''good'' \<and> wq_reason q = None
    \<and> wq_chunk_count q = int (length (dc_chunks (cb_doc_clean b))) \<and> wq_link_count q = int (length (dc_links (cb_doc_clean b)))"
  using assms passed_quality [of th "cb_doc_clean b"]
  by (simp add: map_quality_def metric_def quality_metrics Let_def quality_label_def)

text \<open>What can be read off every result that the mapping makes of a bundle.\<close>

lemma map_crawl_result_fields:
  assumes "map_crawl_result nt ti b t = Inr r"
  shows "map_quality nt b t = Inr (wx_quality r)" "map_auth nt ti (fm_extra (cb_fetched b)) = Inr (wx_auth r)"
    "derive_status (wa_auth_required (wx_auth r)) (wq_score (wx_quality r)) = (wx_ok r, wx_status r, wx_error r)"
    "wx_page r = map_page_meta b" "wx_content r = map_content ti b" "wx_links r = map_links ti b"
    "wh_cache_hit (wx_cache r) = flag (fm_extra (cb_fetched b)) ''cache_hit''" "wx_trace r = map_trace t"
  using assms by (auto simp: map_crawl_result_def res_bind_def split: sum.splits prod.splits)

lemma map_auth_required: "map_auth nt ti extra = Inr a \<Longrightarrow> wa_auth_required a = flag extra ''auth_required''"
  by (auto simp: map_auth_def res_bind_def split: sum.splits)

definition wants_text :: "web_tool_input \<Rightarrow> bool" where
  "wants_text ti \<longleftrightarrow> wt_render_mode ti \<in> {''agent_text'', ''both''}"

lemma map_content_rendered: "(wn_rendered_text (map_content ti b) \<noteq> None) = wants_text ti"
  by (auto simp: map_content_def Let_def wants_text_def map_prod_def split: prod.splits)

lemma derive_status_passed:
  assumes "derive_status a q = (ok, status, err)" "3 / 10 \<le> q"
  shows "status = (if a then ''auth_required'' else ''success'') \<and> ok = (\<not> a) \<and> (err = None) = ok"
  using assms by (auto simp: derive_status_def split: if_splits)

lemma crawl_run_bundle_good:
  assumes "store_good rn s" "crawl_run sv rn rq s = (Inr (Crawled n), s')"
  shows "n < length (cw_bundles s')" "bundle_good rn (cw_bundles s' ! n)"
  using sx_validD(1) [OF run_valid, of rn s _ _ sv rq "Crawled n" s'] assms
  by (auto simp: run_ok_def store_good_def list_all_length)

text \<open>A tool run that returns has mapped a bundle of the crawl.\<close>

lemma tool_run_crawled:
  assumes "tool_run nt sv rn ti s = (Inr r, s')"
  obtains rq n where "to_crawl_request ti = Inr rq" "crawl_run sv rn rq s = (Inr (Crawled n), s')"
    "map_crawl_result nt ti (cw_bundles s' ! n) (cw_traces s' ! cb_trace (cw_bundles s' ! n)) = Inr r"
proof -
  from assms obtain rq where rq: "to_crawl_request ti = Inr rq"
    by (cases "to_crawl_request ti") (auto simp: tool_run_def sx_bind_def sx_simps)
  obtain res t where run: "crawl_run sv rn rq s = (res, t)" by fastforce
  show ?thesis
  proof (cases res)
    case (Inl e)
    with assms rq run show ?thesis by (simp add: tool_run_def sx_bind_def sx_simps)
  next
    case (Inr out)
    with assms rq run show ?thesis
      by (cases out) (auto simp: tool_run_def sx_bind_def sx_simps intro: that)
  qed
qed

text \<open>
  C34: every result the tool returns is of a page that was served and passed the quality check with the full score: its
  label is \<open>good\<close>, the status is \<open>success\<close>, or \<open>auth_required\<close> when the transport reported that, and there is an error
  exactly then; no other status is ever returned. A text to read is there exactly when the render mode asks for one.
\<close>

theorem web_results_are_good:
  assumes "store_good rn s" "tool_run nt sv rn ti s = (Inr r, s')"
  shows "wm_status_code (wx_page r) < 400 \<and> wq_score (wx_quality r) = 1 \<and> wq_label (wx_quality r) = ''good''
    \<and> wx_status r = (if wa_auth_required (wx_auth r) then ''auth_required'' else ''success'')
    \<and> wx_ok r = (\<not> wa_auth_required (wx_auth r)) \<and> (wx_error r = None) = wx_ok r
    \<and> (wn_rendered_text (wx_content r) \<noteq> None) = wants_text ti"
proof -
  obtain rq n where run: "to_crawl_request ti = Inr rq" "crawl_run sv rn rq s = (Inr (Crawled n), s')"
    and made: "map_crawl_result nt ti (cw_bundles s' ! n) (cw_traces s' ! cb_trace (cw_bundles s' ! n)) = Inr r"
    using tool_run_crawled [OF assms(2)] by blast
  let ?b = "cw_bundles s' ! n"
  have good: "bundle_good rn ?b" by (rule crawl_run_bundle_good [OF assms(1) run(2)])
  then have q: "wq_score (wx_quality r) = 1" "wq_label (wx_quality r) = ''good''"
    using map_quality_good [of ?b "cr_thresholds rn" nt "cw_traces s' ! cb_trace ?b"] map_crawl_result_fields(1) [OF made]
    by (auto simp: bundle_good_def)
  note fields = map_crawl_result_fields [OF made]
  have "wm_status_code (wx_page r) < 400" using good by (simp add: fields(4) map_page_meta_def bundle_good_def)
  moreover have "(wn_rendered_text (wx_content r) \<noteq> None) = wants_text ti"
    using map_content_rendered [of ti ?b] by (simp only: fields(5))
  ultimately show ?thesis using q derive_status_passed [OF fields(3)] by simp
qed

section \<open>How the tool fails\<close>

text \<open>The values of \<open>extra\<close> that are converted.\<close>

definition convertible :: "number_texts \<Rightarrow> pyval dict \<Rightarrow> bool" where
  "convertible nt extra \<longleftrightarrow>
     is_ret (to_float nt (py_or (dget_default extra ''auth_confidence'' (PFloat 0)) (PFloat 0)))
     \<and> is_ret (to_list (py_or (dget_default extra ''redirect_chain'' (PList [])) (PList [])))"

lemma convertible_parts:
  assumes "convertible nt (fm_extra (cb_fetched b))"
  shows "\<exists>a. map_auth nt ti (fm_extra (cb_fetched b)) = Inr a" "\<exists>br. map_browser b = Inr br"
proof -
  let ?extra = "fm_extra (cb_fetched b)"
  obtain q where "to_float nt (py_or (dget_default ?extra ''auth_confidence'' (PFloat 0)) (PFloat 0)) = Inr q"
    using assms unfolding convertible_def by (meson is_ret.elims(2))
  then show "\<exists>a. map_auth nt ti ?extra = Inr a" by (simp add: map_auth_def)
  obtain xs where "to_list (py_or (dget_default ?extra ''redirect_chain'' (PList [])) (PList [])) = Inr xs"
    using assms unfolding convertible_def by (meson is_ret.elims(2))
  then show "\<exists>br. map_browser b = Inr br" by (simp add: map_browser_def Let_def)
qed

lemma convertible_maps:
  assumes "bundle_good rn b" "convertible nt (fm_extra (cb_fetched b))"
  shows "\<exists>r. map_crawl_result nt ti b t = Inr r"
proof -
  obtain q where "map_quality nt b t = Inr q"
    using map_quality_good [of b "cr_thresholds rn" nt t] assms(1) by (auto simp: bundle_good_def)
  moreover obtain a where "map_auth nt ti (fm_extra (cb_fetched b)) = Inr a" using convertible_parts(1) [OF assms(2)] by blast
  moreover obtain br where "map_browser b = Inr br" using convertible_parts(2) [OF assms(2)] by blast
  ultimately show ?thesis by (auto simp: map_crawl_result_def split: prod.split)
qed

lemma to_crawl_request_fields:
  assumes "to_crawl_request ti = Inr rq"
  shows "rq_url rq = wt_url ti" "rq_query rq = wt_query ti" "rq_render rq = wants_text ti" "rq_render_mode rq \<noteq> LLM_RENDER"
    "\<not> rq_persist_artifacts rq" "rq_max_attempts rq = 3" "rq_options rq = request_options ti"
  using assms by (auto simp: to_crawl_request_def crawl_request_of_def wants_text_def split: option.splits if_splits)

text \<open>
  Whatever the network, the browser and the page do, the tool fails in one of two ways only: the crawl was given up
  (\<open>CrawlFailedError\<close>, which the tool does not turn into a result), or the page was fetched but the transport reported a
  confidence or a chain of redirects of the wrong type. An unknown transport is refused before anything is done.
\<close>

theorem tool_failures:
  assumes "store_good rn s" "0 \<le> rc_max_entries (cw_cache s)" "\<And>e. sx_total (emit_event sv (cr_logger rn) e)"
    and address: "is_ret (url_netloc (wt_url ti))"
    and gate: "\<And>rq. to_crawl_request ti = Inr rq \<Longrightarrow> \<not> (planned_gate rn rq \<and> named (rq_query rq))"
    and failed: "tool_run nt sv rn ti s = (Inl e, s')"
  shows "wt_transport ti \<notin> {''auto'', ''http'', ''browser''} \<and> exc_class e = ''KeyError'' \<and> s' = s
    \<or> exc_class e = ''CrawlFailedError''
    \<or> (\<exists>n < length (cw_bundles s'). bundle_good rn (cw_bundles s' ! n)
         \<and> \<not> convertible nt (fm_extra (cb_fetched (cw_bundles s' ! n))))"
proof (cases "to_crawl_request ti")
  case (Inl x)
  with failed show ?thesis
    by (auto simp: tool_run_def sx_bind_def sx_simps to_crawl_request_def transport_hints_def split: if_splits)
next
  case (Inr rq)
  note f = to_crawl_request_fields [OF Inr]
  have "benign sv rn rq (planned_gate rn rq) (rc_max_entries (cw_cache s))"
    using assms(2,3) address gate [OF Inr] f by (simp add: benign_def)
  then obtain out t where run: "crawl_run sv rn rq s = (Inr out, t)"
    using sx_validD(2) [OF run_valid, of rn s "rc_max_entries (cw_cache s)" "length (cw_traces s)" sv rq] assms(1)
    by (cases "crawl_run sv rn rq s"; cases "fst (crawl_run sv rn rq s)") (auto simp: stuck_def)
  show ?thesis
  proof (cases out)
    case (Crawled n)
    note good = crawl_run_bundle_good [OF assms(1) run [unfolded Crawled]]
    have "map_crawl_result nt ti (cw_bundles t ! n) (cw_traces t ! cb_trace (cw_bundles t ! n)) = Inl e \<and> t = s'"
      using failed by (auto simp: tool_run_def sx_bind_def sx_simps Inr run Crawled)
    with convertible_maps [OF good(2), of nt ti "cw_traces t ! cb_trace (cw_bundles t ! n)"] good show ?thesis by auto
  next
    case (CrawlFailed err tid)
    with run Inr failed show ?thesis by (auto simp: tool_run_def sx_bind_def sx_simps)
  qed
qed

section \<open>What is cut\<close>

definition cut_mark :: string where
  "cut_mark = nl @ ''...[truncated]''"

lemma truncate_text_bound:
  assumes "0 \<le> limit" "truncate_text s limit = (t, short)"
  shows "if short then nat limit < length s \<and> t = take (nat limit) s @ cut_mark else t = s" "length t \<le> nat limit + 15"
  using assms by (auto simp: truncate_text_def py_slice_to_def cut_mark_def nl_def split: if_splits)

lemma nth_map_enumerate: "i < length xs \<Longrightarrow> map (\<lambda>(r, c). f r c) (enumerate 0 xs) ! i = f i (xs ! i)"
  by (simp add: nth_enumerate_eq)

lemma map_chunks_nth:
  assumes "i < length (map_chunks ti d)"
  shows "i < length (dc_chunks d) \<and> int i < wt_max_chunks ti \<and> map_chunks ti d ! i = map_chunk ti i (dc_chunks d ! i)"
proof -
  let ?cs = "take (nat (max 0 (wt_max_chunks ti))) (dc_chunks d)"
  have "i < length ?cs" using assms by (simp add: map_chunks_def)
  then show ?thesis
    using nth_map_enumerate [of i ?cs "map_chunk ti"] by (auto simp: map_chunks_def)
qed

lemma truncate_text_parts:
  assumes "0 \<le> limit"
  shows "length (fst (truncate_text s limit)) \<le> nat limit + 15"
    "\<not> snd (truncate_text s limit) \<Longrightarrow> fst (truncate_text s limit) = s"
    "snd (truncate_text s limit) \<Longrightarrow> suffix cut_mark (fst (truncate_text s limit))"
  using assms by (auto simp: truncate_text_def py_slice_to_def cut_mark_def nl_def suffix_def)

text \<open>The three texts of a page's content, each bounded; the mark of the whole is set by the three together.\<close>

lemma map_content_texts:
  "wn_rendered_text (map_content ti b)
     = (if wants_text ti then Some (fst (truncate_text (or_text (cb_rendered b) (dc_text (cb_doc_clean b))) (wt_max_render_chars ti)))
        else None)"
  "wn_clean_text_preview (map_content ti b) = Some (fst (truncate_text (dc_text (cb_doc_clean b)) (wt_max_render_chars ti)))"
  "wn_raw_html_preview (map_content ti b)
     = (if wt_include_raw_html ti then map_option (\<lambda>h. fst (truncate_text h (wt_max_raw_html_chars ti))) (cb_raw_html b) else None)"
  "wn_truncated (map_content ti b) \<longleftrightarrow>
     wt_include_raw_html ti \<and> (\<exists>h. cb_raw_html b = Some h \<and> snd (truncate_text h (wt_max_raw_html_chars ti)))
     \<or> wants_text ti \<and> snd (truncate_text (or_text (cb_rendered b) (dc_text (cb_doc_clean b))) (wt_max_render_chars ti))
     \<or> snd (truncate_text (dc_text (cb_doc_clean b)) (wt_max_render_chars ti))"
  by (simp_all add: map_content_def wants_text_def truncate_opt_def Let_def split_def split: option.split)

text \<open>
  C35: a result carries no more than its input allows, when the limits on characters are not negative. Chunk \<open>i\<close> is the chunk
  of rank \<open>i\<close> of the page, its text unchanged or, marked as cut, a prefix followed by the note. Chunks and links are at most
  as many as the limits say; the rendered text, the preview of the text and the preview of the raw HTML are each at most as
  long as their limit and a note of 15 characters. A content not marked as cut carries all three whole; in one that is
  marked, one of the three ends with the note.
\<close>

theorem web_result_is_bounded:
  assumes "map_crawl_result nt ti b t = Inr r"
    "0 \<le> wt_max_chunk_chars ti" "0 \<le> wt_max_render_chars ti" "0 \<le> wt_max_raw_html_chars ti"
  shows "int (length (wn_chunks (wx_content r))) \<le> max 0 (wt_max_chunks ti)
    \<and> (\<forall>i < length (wn_chunks (wx_content r)).
         let w = wn_chunks (wx_content r) ! i; c = dc_chunks (cb_doc_clean b) ! i in
           wk_rank w = i \<and> wk_char_count w = length (wk_text w) \<and> length (wk_text w) \<le> nat (wt_max_chunk_chars ti) + 15
           \<and> wk_text w = (if wk_truncated w then take (nat (wt_max_chunk_chars ti)) (ck_text c) @ cut_mark else ck_text c))
    \<and> int (length (ws_links (wx_links r))) \<le> max 0 (wt_max_links ti)
    \<and> (\<forall>x. wn_rendered_text (wx_content r) = Some x \<or> wn_clean_text_preview (wx_content r) = Some x
          \<longrightarrow> length x \<le> nat (wt_max_render_chars ti) + 15)
    \<and> (\<forall>x. wn_raw_html_preview (wx_content r) = Some x \<longrightarrow> length x \<le> nat (wt_max_raw_html_chars ti) + 15)
    \<and> (\<not> wn_truncated (wx_content r) \<longrightarrow>
         wn_clean_text_preview (wx_content r) = Some (dc_text (cb_doc_clean b))
         \<and> wn_rendered_text (wx_content r)
             = (if wants_text ti then Some (or_text (cb_rendered b) (dc_text (cb_doc_clean b))) else None)
         \<and> wn_raw_html_preview (wx_content r) = (if wt_include_raw_html ti then cb_raw_html b else None))
    \<and> (wn_truncated (wx_content r) \<longrightarrow>
         (\<exists>x. Some x \<in> {wn_rendered_text (wx_content r), wn_clean_text_preview (wx_content r), wn_raw_html_preview (wx_content r)}
            \<and> suffix cut_mark x))"
proof -
  let ?d = "cb_doc_clean b" and ?m = "map_content ti b"
  let ?n = "wn_chunks ?m"
  note fields = map_crawl_result_fields [OF assms(1)]
  have chunks: "?n = map_chunks ti ?d \<or> ?n = []" by (simp add: map_content_def Let_def split: prod.split)
  have count: "int (length ?n) \<le> max 0 (wt_max_chunks ti)" using chunks by (auto simp: map_chunks_def)
  have each: "wk_rank (?n ! i) = i \<and> wk_char_count (?n ! i) = length (wk_text (?n ! i))
      \<and> length (wk_text (?n ! i)) \<le> nat (wt_max_chunk_chars ti) + 15
      \<and> wk_text (?n ! i) = (if wk_truncated (?n ! i) then take (nat (wt_max_chunk_chars ti)) (ck_text (dc_chunks ?d ! i)) @ cut_mark
                            else ck_text (dc_chunks ?d ! i))" if "i < length ?n" for i
  proof -
    have n: "?n ! i = map_chunk ti i (dc_chunks ?d ! i)" using chunks that map_chunks_nth [of i ti ?d] by auto
    obtain u short where "truncate_text (ck_text (dc_chunks ?d ! i)) (wt_max_chunk_chars ti) = (u, short)" by fastforce
    with truncate_text_bound [OF assms(2) this] show ?thesis by (cases short) (simp_all add: n map_chunk_def)
  qed
  have links: "int (length (ws_links (map_links ti b))) \<le> max 0 (wt_max_links ti)" by (auto simp: map_links_def Let_def)
  note cut = truncate_text_parts [OF assms(3)] truncate_text_parts [OF assms(4)]
  have "\<forall>x. wn_rendered_text ?m = Some x \<or> wn_clean_text_preview ?m = Some x \<longrightarrow> length x \<le> nat (wt_max_render_chars ti) + 15"
    "\<forall>x. wn_raw_html_preview ?m = Some x \<longrightarrow> length x \<le> nat (wt_max_raw_html_chars ti) + 15"
    using cut(1,4) by (auto simp: map_content_texts)
  moreover have "\<not> wn_truncated ?m \<longrightarrow> wn_clean_text_preview ?m = Some (dc_text ?d)
      \<and> wn_rendered_text ?m = (if wants_text ti then Some (or_text (cb_rendered b) (dc_text ?d)) else None)
      \<and> wn_raw_html_preview ?m = (if wt_include_raw_html ti then cb_raw_html b else None)"
    using cut(2,5) by (cases "cb_raw_html b") (auto simp: map_content_texts)
  moreover have "wn_truncated ?m \<longrightarrow>
      (\<exists>x. Some x \<in> {wn_rendered_text ?m, wn_clean_text_preview ?m, wn_raw_html_preview ?m} \<and> suffix cut_mark x)"
    unfolding map_content_texts by (intro impI, elim disjE conjE exE) (use cut(3,6) in \<open>auto intro: exI\<close>)
  ultimately show ?thesis unfolding fields(5,6) Let_def using count each links by blast
qed

section \<open>Witnesses\<close>

definition sample_numbers :: number_texts where
  "sample_numbers = \<lparr>nt_float = (\<lambda>s. Inl (Exc ''ValueError'' s)), nt_int = (\<lambda>s. Inl (Exc ''ValueError'' s))\<rparr>"

definition sample_input :: web_tool_input where
  "sample_input = new_web_tool_input ''http://a.org''"

definition web_document :: document where
  "web_document = (sample_document ''ab c'')\<lparr>dc_chunks :=
     [\<lparr>ck_text = ''ab c'', ck_order = 0, ck_source_url = [], ck_title = None, ck_meta = [], ck_score = 0, ck_features = []\<rparr>]\<rparr>"

definition web_bundle :: crawl_result_bundle where
  "web_bundle = sample_bundle\<lparr>cb_doc_clean := web_document,
     cb_quality := assess_quality (cr_thresholds sample_runner) web_document\<rparr>"

definition web_state :: "nat crawl_state" where
  "web_state = cached_state\<lparr>cw_bundles := [web_bundle]\<rparr>"

lemma sample_to_crawl_request: "to_crawl_request sample_input
  = Inr ((crawl_request_of ''http://a.org'')\<lparr>rq_render := True, rq_options := request_options sample_input\<rparr>)"
  by (simp add: to_crawl_request_def sample_input_def new_web_tool_input_def transport_hints_def crawl_request_of_def)

lemma sample_tool_crawl:
  "\<exists>s'. crawl_run (sample_services True) sample_runner
       ((crawl_request_of ''http://a.org'')\<lparr>rq_render := True, rq_options := request_options sample_input\<rparr>) web_state
     = (Inr (Crawled 0), s') \<and> cw_bundles s' = [web_bundle\<lparr>cb_trace := 0\<rparr>]"
proof -
  let ?rq = "(crawl_request_of ''http://a.org'')\<lparr>rq_render := True, rq_options := request_options sample_input\<rparr>"
  let ?plan = "plan_of_policy sample_request (policy_of_domain ''*'')"
  let ?e = "\<lparr>ce_bundle = 0, ce_expires_at = 600\<rparr> :: nat cache_entry"
  have same: "plan_of_policy ?rq dp = plan_of_policy sample_request dp" for dp
    by (simp add: plan_of_policy_def sample_request_def crawl_request_of_def Let_def)
  have "\<exists>s'. crawl_run (sample_services True) sample_runner ?rq web_state = (Inr (Crawled (ce_bundle ?e)), s')
    \<and> handed_out web_state (ce_bundle ?e) s'"
  proof (rule cached_crawl [OF sample_emits, of _ ?plan])
    show "build_crawl_plan (cr_policies sample_runner) ?rq = Inr ?plan"
      using sample_plan same by (simp add: build_crawl_plan_def sample_request_def crawl_request_of_def)
    show "dget (rc_items (cw_cache web_state)) (make_key ?rq ?plan) = Some ?e"
      by (simp add: web_state_def cached_state_def make_key_def sample_request_def crawl_request_of_def)
  qed (simp_all add: plan_of_policy_def Let_def cache_mode_is_def sample_request_def crawl_request_of_def web_state_def cached_state_def
      web_bundle_def sample_bundle_def sample_services_def request_options_def sample_input_def new_web_tool_input_def)
  then show ?thesis by (auto simp: handed_out_def web_state_def cached_state_def sample_state_def)
qed

lemma web_bundle_good: "bundle_good sample_runner web_bundle"
proof -
  have "qs_ok (assess_quality (cr_thresholds sample_runner) web_document)" by code_simp
  moreover have "render_document (cr_show4 sample_runner) (cr_renderer sample_runner) web_document PLAIN = Inr ''ab c''"
    by code_simp
  ultimately show ?thesis by (auto simp: bundle_good_def web_bundle_def sample_bundle_def)
qed

lemma web_state_good: "store_good sample_runner web_state"
  by (simp add: store_good_def web_state_def cached_state_def web_bundle_good new_result_cache_def)

lemma sample_tool_run:
  "\<exists>r s'. tool_run sample_numbers (sample_services True) sample_runner sample_input web_state = (Inr r, s')
     \<and> wn_rendered_text (wx_content r) = Some ''ab c''"
proof -
  obtain s' where run: "crawl_run (sample_services True) sample_runner
       ((crawl_request_of ''http://a.org'')\<lparr>rq_render := True, rq_options := request_options sample_input\<rparr>) web_state
     = (Inr (Crawled 0), s')" "cw_bundles s' = [web_bundle\<lparr>cb_trace := 0\<rparr>]"
    using sample_tool_crawl by blast
  have "bundle_good sample_runner (cw_bundles s' ! 0)" using web_bundle_good by (auto simp: run bundle_good_def)
  moreover have "convertible sample_numbers (fm_extra (cb_fetched (cw_bundles s' ! 0)))"
    by (simp add: run web_bundle_def sample_bundle_def convertible_def py_or_def)
  ultimately obtain r where made: "map_crawl_result sample_numbers sample_input (cw_bundles s' ! 0)
      (cw_traces s' ! cb_trace (cw_bundles s' ! 0)) = Inr r"
    using convertible_maps by blast
  have "wn_rendered_text (map_content sample_input (cw_bundles s' ! 0)) = Some ''ab c''"
    by (simp add: run sample_input_def new_web_tool_input_def map_content_def web_bundle_def sample_bundle_def truncate_text_def or_text_def
        web_document_def sample_document_def Let_def)
  with made run(1) show ?thesis
    by (simp add: tool_run_def sample_to_crawl_request sx_bind_def sx_simps map_crawl_result_fields(5) [OF made])
qed

theorem web_results_are_good_witness:
  "\<exists>r s'. tool_run sample_numbers (sample_services True) sample_runner sample_input web_state = (Inr r, s')
     \<and> wq_score (wx_quality r) = 1 \<and> wn_rendered_text (wx_content r) = Some ''ab c''"
proof -
  obtain r s' where run: "tool_run sample_numbers (sample_services True) sample_runner sample_input web_state = (Inr r, s')"
    "wn_rendered_text (wx_content r) = Some ''ab c''" using sample_tool_run by blast
  with web_results_are_good [OF web_state_good run(1)] show ?thesis by blast
qed

theorem tool_failures_witness:
  "\<exists>e s'. tool_run sample_numbers (sample_services True) sample_runner (sample_input\<lparr>wt_transport := ''ftp''\<rparr>) web_state = (Inl e, s')
     \<and> exc_class e = ''KeyError'' \<and> s' = web_state"
proof -
  let ?ti = "sample_input\<lparr>wt_transport := ''ftp''\<rparr>"
  have refused: "to_crawl_request ?ti = Inl (Exc ''KeyError'' ''ftp'')"
    by (simp add: to_crawl_request_def transport_hints_def)
  have run: "tool_run sample_numbers (sample_services True) sample_runner ?ti web_state = (Inl (Exc ''KeyError'' ''ftp''), web_state)"
    by (simp add: tool_run_def refused sx_bind_def sx_simps)
  have "wt_transport ?ti \<notin> {''auto'', ''http'', ''browser''} \<and> exc_class (Exc ''KeyError'' ''ftp'') = ''KeyError'' \<and> web_state = web_state
    \<or> exc_class (Exc ''KeyError'' ''ftp'') = ''CrawlFailedError''
    \<or> (\<exists>n < length (cw_bundles web_state). bundle_good sample_runner (cw_bundles web_state ! n)
         \<and> \<not> convertible sample_numbers (fm_extra (cb_fetched (cw_bundles web_state ! n))))"
    by (rule tool_failures [OF web_state_good _ sample_emits _ _ run])
      (simp_all add: web_state_def cached_state_def sample_state_def new_result_cache_def sample_input_def new_web_tool_input_def sample_netloc
        to_crawl_request_def transport_hints_def)
  with run show ?thesis by auto
qed

theorem web_result_is_bounded_witness:
  "\<exists>r. map_crawl_result sample_numbers sample_input web_bundle \<lparr>ti_run_id = [], ti_started_at = [], ti_fallback_count = 0, ti_steps = []\<rparr> = Inr r
     \<and> int (length (wn_chunks (wx_content r))) \<le> 8"
proof -
  let ?t = "\<lparr>ti_run_id = [], ti_started_at = [], ti_fallback_count = 0, ti_steps = []\<rparr>"
  have "convertible sample_numbers (fm_extra (cb_fetched web_bundle))"
    by (simp add: web_bundle_def sample_bundle_def convertible_def py_or_def)
  then obtain r where made: "map_crawl_result sample_numbers sample_input web_bundle ?t = Inr r"
    using convertible_maps [OF web_bundle_good] by blast
  with web_result_is_bounded [OF made] show ?thesis by (simp add: sample_input_def new_web_tool_input_def)
qed

section \<open>Where the result misleads\<close>

text \<open>The first chunk of a page (order 0) is reported with its rank as its order.\<close>

lemma first_chunk_loses_order: "ck_order c = 0 \<Longrightarrow> wk_order (map_chunk ti rank c) = rank"
  by (simp add: map_chunk_def split: prod.split)

text \<open>Attempts counts the steps of the trace.\<close>

lemma attempts_are_steps: "ti_steps t \<noteq> [] \<Longrightarrow> wr_attempts (map_trace t) = length (ti_steps t)"
  by (cases "ti_steps t") (auto simp: map_trace_def)

text \<open>No transport sets \<open>cache_hit\<close>, and a result served from the cache is the bundle of the first fetch.\<close>

lemma cache_hit_is_never_reported: "flag (extra_fields a) ''cache_hit'' = False" "flag [] ''cache_hit'' = False"
  by (simp_all add: flag_def extra_fields_def)

text \<open>A negative limit removes from the end.\<close>

lemma negative_limit_keeps_text: "truncate_text ''abcd'' (- 1) = (''abc'' @ cut_mark, True)"
  by (simp add: truncate_text_def py_slice_to_def cut_mark_def)

end
