(* ===== verification/FunctionTools.thy ===== *)
theory FunctionTools
  imports Interfaces StateExc "HOL-Library.List_Lexorder" "HOL-Library.Char_ord" "HOL-Library.Multiset"
begin

text \<open>
  The function tools \<open>mcped_function_tools/\<close>: the registry of tools, the adapter that answers like an MCP server, and
  the sandbox that runs a script in a subprocess. Handlers, the file system and the subprocess are operations on a
  world; the limits set in the child process before it starts are not modelled.
\<close>

section \<open>Tools and their registry\<close>

record 'w tool_spec =
  fs_name :: string
  fs_description :: string
  fs_input_schema :: "pyval dict"
  fs_handler :: "pyval dict \<Rightarrow> ('w, pyval) sx"
  fs_tags :: "string list"

record tool_result =
  fo_ok :: bool
  fo_content :: pyval
  fo_error :: "string option"

type_synonym 'w tool_registry = "'w tool_spec dict"

definition register_tool :: "'w tool_spec \<Rightarrow> 'w tool_registry \<Rightarrow> 'w tool_registry res" where
  "register_tool spec reg =
     (if dhas reg (fs_name spec)
      then Inl (Exc ''ValueError'' (''Tool '' @ [CHR 0x27] @ fs_name spec @ [CHR 0x27] @ '' is already registered''))
      else Inr (dput (fs_name spec) spec reg))"

definition list_tools :: "string option \<Rightarrow> 'w tool_registry \<Rightarrow> 'w tool_spec list" where
  "list_tools tag reg =
     (let tools = dvalues reg;
          tools = (case tag of None \<Rightarrow> tools | Some t \<Rightarrow> if t = [] then tools else filter (\<lambda>s. t \<in> set (fs_tags s)) tools)
      in sort_key fs_name tools)"

definition openai_function_schemas :: "'w tool_registry \<Rightarrow> pyval list" where
  "openai_function_schemas reg =
     map (\<lambda>t. PDict [(''type'', PStr ''function''),
                     (''function'', PDict [(''name'', PStr (fs_name t)), (''description'', PStr (fs_description t)),
                                          (''parameters'', PDict (fs_input_schema t))])]) (list_tools None reg)"

definition registry_call :: "'w tool_registry \<Rightarrow> string \<Rightarrow> pyval dict \<Rightarrow> ('w, tool_result) sx" where
  "registry_call reg name args =
     (case dget reg name of
        None \<Rightarrow> sx_return \<lparr>fo_ok = False, fo_content = PNone,
                          fo_error = Some (''Unknown tool '' @ [CHR 0x27] @ name @ [CHR 0x27])\<rparr>
      | Some spec \<Rightarrow>
          sx_try (sx_bind (fs_handler spec args) (\<lambda>v. sx_return \<lparr>fo_ok = True, fo_content = v, fo_error = None\<rparr>))
            (\<lambda>_. True) (\<lambda>e. sx_return \<lparr>fo_ok = False, fo_content = PNone, fo_error = Some (exc_text e)\<rparr>))"

section \<open>The adapter\<close>

definition adapter_list_tools :: "'w tool_registry \<Rightarrow> pyval" where
  "adapter_list_tools reg =
     PDict [(''tools'', PList (map (\<lambda>t. PDict [(''name'', PStr (fs_name t)), (''description'', PStr (fs_description t)),
                                             (''inputSchema'', PDict (fs_input_schema t))]) (list_tools None reg)))]"

definition tool_answer :: "tool_result \<Rightarrow> pyval" where
  "tool_answer r =
     (if fo_ok r
      then PDict [(''isError'', PBool False),
                  (''content'', PList [PDict [(''type'', PStr ''json''), (''json'', fo_content r)]])]
      else PDict [(''isError'', PBool True),
                  (''content'', PList [PDict [(''type'', PStr ''text''),
                     (''text'', PStr (case fo_error r of None \<Rightarrow> ''Unknown error''
                                      | Some m \<Rightarrow> if m = [] then ''Unknown error'' else m))]])])"

definition adapter_call_tool :: "'w tool_registry \<Rightarrow> string \<Rightarrow> pyval dict \<Rightarrow> ('w, pyval) sx" where
  "adapter_call_tool reg name args = sx_bind (registry_call reg name args) (\<lambda>r. sx_return (tool_answer r))"

section \<open>The Python sandbox\<close>

record sandbox_limits =
  li_timeout_seconds :: rat
  li_memory_mb :: int
  li_max_output_chars :: int

definition default_sandbox_limits :: sandbox_limits where
  "default_sandbox_limits = \<lparr>li_timeout_seconds = 2, li_memory_mb = 256, li_max_output_chars = 8000\<rparr>"

text \<open>
  What a process has written is text when it ends, and bytes when it is stopped at the timeout (so the documentation of
  \<open>TimeoutExpired.stdout\<close>).
\<close>

datatype captured = Text string | Bytes string

fun output_chars :: "captured \<Rightarrow> string" where
  "output_chars (Text s) = s"
| "output_chars (Bytes b) = b"

record sandbox_result =
  sr_ok :: bool
  sr_exit_code :: "int option"
  sr_stdout :: captured
  sr_stderr :: captured
  sr_timed_out :: bool

text \<open>How a subprocess ends: with a return code, or killed at the timeout with what it had written, if anything.\<close>

datatype process_end = Completed int string string | TimedOut "string option" "string option"

text \<open>
  \<open>py_tempdir\<close> makes a directory, \<open>py_cleanup\<close> removes it; \<open>py_run\<close> runs a command line in a directory with an
  environment and a timeout.
\<close>

record 'w python_services =
  py_tempdir :: "('w, string) sx"
  py_cleanup :: "string \<Rightarrow> ('w, unit) sx"
  py_write_text :: "string \<Rightarrow> string \<Rightarrow> ('w, unit) sx"
  py_dumps :: "pyval \<Rightarrow> string res"
  py_run :: "string list \<Rightarrow> string \<Rightarrow> string dict \<Rightarrow> rat \<Rightarrow> int \<Rightarrow> ('w, process_end) sx"

record python_sandbox =
  ps_python_bin :: string
  ps_limits :: sandbox_limits

definition new_python_sandbox :: "string \<Rightarrow> string option \<Rightarrow> sandbox_limits option \<Rightarrow> python_sandbox" where
  "new_python_sandbox sys_executable python_bin limits =
     \<lparr>ps_python_bin = (case python_bin of None \<Rightarrow> sys_executable | Some b \<Rightarrow> if b = [] then sys_executable else b),
      ps_limits = (case limits of None \<Rightarrow> default_sandbox_limits | Some l \<Rightarrow> l)\<rparr>"

text \<open>A text cannot be appended to bytes.\<close>

definition trim_output :: "captured \<Rightarrow> int \<Rightarrow> captured res" where
  "trim_output value max_chars =
     (if int (length (output_chars value)) \<le> max_chars then Inr value
      else (case value of
              Text s \<Rightarrow> Inr (Text (py_slice_to max_chars s @ nl @ ''...<truncated>''))
            | Bytes b \<Rightarrow> Inl (Exc ''TypeError'' (''can'' @ [CHR 0x27] @ ''t concat str to bytes''))))"

definition written :: "string option \<Rightarrow> captured" where
  "written out = (case out of None \<Rightarrow> Text [] | Some b \<Rightarrow> if b = [] then Text [] else Bytes b)"

definition script_prelude :: string where
  "script_prelude =
     nl @ ''import json'' @ nl @ ''import os'' @ nl @ nl @
     ''INPUT = json.loads(os.environ.get('' @ [CHR 0x22] @ ''PY_SANDBOX_INPUT'' @ [CHR 0x22] @ '', '' @ [CHR 0x22] @ ''null'' @ [CHR 0x22] @ ''))'' @ nl"

definition sandbox_result_of :: "sandbox_limits \<Rightarrow> process_end \<Rightarrow> sandbox_result res" where
  "sandbox_result_of li p =
     (case p of
        TimedOut out err \<Rightarrow>
          res_bind (trim_output (written out) (li_max_output_chars li)) (\<lambda>out.
          res_bind (trim_output (written err) (li_max_output_chars li)) (\<lambda>err. Inr
            \<lparr>sr_ok = False, sr_exit_code = None, sr_stdout = out, sr_stderr = err, sr_timed_out = True\<rparr>))
      | Completed code out err \<Rightarrow>
          res_bind (trim_output (Text out) (li_max_output_chars li)) (\<lambda>out.
          res_bind (trim_output (Text err) (li_max_output_chars li)) (\<lambda>err. Inr
            \<lparr>sr_ok = (code = 0), sr_exit_code = Some code, sr_stdout = out, sr_stderr = err, sr_timed_out = False\<rparr>)))"

text \<open>The body of the \<open>with\<close> block over the temporary directory.\<close>

definition run_script ::
  "'w python_services \<Rightarrow> python_sandbox \<Rightarrow> string \<Rightarrow> pyval dict option \<Rightarrow> string \<Rightarrow> ('w, sandbox_result) sx" where
  "run_script sv sb code input_data tmpdir =
     (let script = tmpdir @ ''/main.py'' in
      sx_bind (py_write_text sv script (script_prelude @ nl @ code @ nl)) (\<lambda>_.
      sx_bind (sx_lift (py_dumps sv (case input_data of None \<Rightarrow> PNone | Some d \<Rightarrow> PDict d))) (\<lambda>input_text.
      sx_bind (py_run sv [ps_python_bin sb, ''-I'', ''-B'', script] tmpdir
                 [(''PYTHONUNBUFFERED'', ''1''), (''PY_SANDBOX_INPUT'', input_text)]
                 (li_timeout_seconds (ps_limits sb)) (li_memory_mb (ps_limits sb))) (\<lambda>p.
        sx_lift (sandbox_result_of (ps_limits sb) p)))))"

text \<open>Leaving the block removes the directory, on an exception too.\<close>

definition with_tempdir :: "'w python_services \<Rightarrow> (string \<Rightarrow> ('w, 'a) sx) \<Rightarrow> ('w, 'a) sx" where
  "with_tempdir sv body =
     sx_bind (py_tempdir sv) (\<lambda>d.
     sx_bind (sx_try (body d) (\<lambda>_. True) (\<lambda>e. sx_bind (py_cleanup sv d) (\<lambda>_. sx_raise e))) (\<lambda>a.
     sx_bind (py_cleanup sv d) (\<lambda>_. sx_return a)))"

definition run_sandbox ::
  "'w python_services \<Rightarrow> python_sandbox \<Rightarrow> string \<Rightarrow> pyval dict option \<Rightarrow> ('w, sandbox_result) sx" where
  "run_sandbox sv sb code input_data = with_tempdir sv (run_script sv sb code input_data)"

section \<open>The registry is a registry\<close>

lemma register_tool_keyed:
  "register_tool spec reg = Inr reg' \<Longrightarrow> \<not> dhas reg (fs_name spec) \<and> reg' = reg @ [(fs_name spec, spec)]"
  by (auto simp: register_tool_def dput_keys_new split: if_splits)

interpretation function_tools: once_registry
  "dget :: 'w tool_registry \<Rightarrow> string \<Rightarrow> 'w tool_spec option" register_tool fs_name
  "\<lambda>reg. \<forall>(k, s) \<in> set reg. fs_name s = k"
proof unfold_locales
  fix reg reg' :: "'w tool_registry" and spec :: "'w tool_spec" and k
  assume "register_tool spec reg = Inr reg'"
  then show "dget reg' k = (if k = fs_name spec then Some spec else dget reg k)" "dget reg (fs_name spec) = None"
    by (auto simp: register_tool_def dhas_dget split: if_splits)
  assume "\<forall>(k, s) \<in> set reg. fs_name s = k"
  with \<open>register_tool spec reg = Inr reg'\<close> show "\<forall>(k, s) \<in> set reg'. fs_name s = k"
    by (auto dest!: register_tool_keyed)
qed

lemma register_tools_values:
  "register_all register_tool specs reg = Inr reg' \<Longrightarrow> reg' = reg @ map (\<lambda>s. (fs_name s, s)) specs"
proof (induction specs arbitrary: reg)
  case (Cons s specs)
  then obtain t where "register_tool s reg = Inr t" "register_all register_tool specs t = Inr reg'"
    by (auto simp: res_bind_Inr_iff)
  with Cons.IH [of t] register_tool_keyed [of s reg t] show ?case by simp
qed simp

text \<open>
  After tools have been registered, which succeeds exactly for distinct names, the list of tools, also the one given
  to a model or an MCP client, has every tool once, in the order of the names; a tag selects the tools that carry it.
\<close>

theorem tools_are_listed_in_order:
  "(\<exists>reg. register_all register_tool specs [] = Inr reg) = distinct (map fs_name specs)
   \<and> (register_all register_tool specs [] = Inr reg \<longrightarrow>
        mset (list_tools None reg) = mset specs \<and> sorted (map fs_name (list_tools None reg))
        \<and> distinct (map fs_name (list_tools None reg))
        \<and> (t \<noteq> [] \<longrightarrow> list_tools (Some t) reg = filter (\<lambda>s. t \<in> set (fs_tags s)) (list_tools None reg))
        \<and> (\<forall>s \<in> set specs. dget reg (fs_name s) = Some s))"
proof -
  have ok: "distinct (map fs_name specs)" if "register_all register_tool specs [] = Inr reg" for reg :: "'a tool_registry"
    using function_tools.register_all_fresh [OF _ that] by simp
  have succeeds: "\<exists>reg. register_all register_tool specs reg0 = Inr reg"
    if "distinct (map fs_name specs)" "\<forall>s \<in> set specs. \<not> dhas reg0 (fs_name s)" for reg0 :: "'a tool_registry"
    using that
  proof (induction specs arbitrary: reg0)
    case (Cons s specs)
    then have "\<forall>x \<in> set specs. \<not> dhas (dput (fs_name s) s reg0) (fs_name x)" by (auto simp: image_iff)
    from Cons.IH [OF _ this] Cons.prems show ?case by (simp add: register_tool_def)
  qed simp
  have listed: "mset (list_tools None reg) = mset specs \<and> sorted (map fs_name (list_tools None reg))
      \<and> distinct (map fs_name (list_tools None reg))
      \<and> (t \<noteq> [] \<longrightarrow> list_tools (Some t) reg = filter (\<lambda>s. t \<in> set (fs_tags s)) (list_tools None reg))
      \<and> (\<forall>s \<in> set specs. dget reg (fs_name s) = Some s)"
    if run: "register_all register_tool specs [] = Inr reg"
  proof -
    have vs: "dvalues reg = specs" using register_tools_values [OF run] by (simp add: dvalues_def o_def)
    have "mset (map fs_name (list_tools None reg)) = mset (map fs_name specs)" by (simp add: list_tools_def vs)
    then have "distinct (map fs_name (list_tools None reg))"
      using ok [OF run] mset_eq_imp_distinct_iff by blast
    then show ?thesis
      using function_tools.register_all_lookup [OF _ run] by (simp add: list_tools_def vs filter_sort)
  qed
  show ?thesis using ok succeeds [of "[]"] listed by auto
qed

text \<open>
  C36: a call through the adapter never raises, whatever the handlers do. In a registry of registered tools, a name that none
  of them has is answered by an error that names it, and nothing runs; a tool's handler is run exactly once on the arguments:
  the value it returns is answered as JSON content with \<open>isError\<close> false, its exception as a text with \<open>isError\<close> true,
  which is the text of the exception or, when that is empty, \<open>Unknown error\<close>.
\<close>

theorem tool_calls_are_answered:
  assumes "register_all register_tool specs [] = Inr reg"
  shows "(name \<notin> fs_name ` set specs \<longrightarrow>
      adapter_call_tool reg name args w =
        (Inr (PDict [(''isError'', PBool True),
           (''content'', PList [PDict [(''type'', PStr ''text''),
              (''text'', PStr (''Unknown tool '' @ [CHR 0x27] @ name @ [CHR 0x27]))]])]), w))
   \<and> (\<forall>spec \<in> set specs. fs_name spec = name \<longrightarrow>
      adapter_call_tool reg name args w =
        (case fs_handler spec args w of
           (Inr v, w') \<Rightarrow>
             (Inr (PDict [(''isError'', PBool False),
                (''content'', PList [PDict [(''type'', PStr ''json''), (''json'', v)]])]), w')
         | (Inl e, w') \<Rightarrow>
             (Inr (PDict [(''isError'', PBool True),
                (''content'', PList [PDict [(''type'', PStr ''text''),
                   (''text'', PStr (if exc_text e = [] then ''Unknown error'' else exc_text e))]])]), w')))"
proof -
  have "dget reg name = None" if "name \<notin> fs_name ` set specs"
    using register_tools_values [OF assms] that by (simp add: dget_def map_of_eq_None_iff image_image)
  moreover have "dget reg name = Some spec" if "spec \<in> set specs" "fs_name spec = name" for spec
    using function_tools.register_all_lookup [OF _ assms that(1)] that(2) by simp
  ultimately show ?thesis
    by (auto simp: adapter_call_tool_def registry_call_def sx_bind_def sx_try_def sx_simps tool_answer_def
      split: option.split prod.split sum.split)
qed

section \<open>The sandbox cleans up and bounds its output\<close>

lemma trim_output_bound:
  "0 \<le> m \<Longrightarrow> trim_output v m = Inr u \<Longrightarrow> length (output_chars u) \<le> nat m + 15"
  by (cases v) (auto simp: trim_output_def py_slice_to_def nl_def split: if_splits)

text \<open>
  \<open>dirs\<close> gives the temporary directories there are: a new one is added, a removal takes it away, nothing else changes
  them.
\<close>

definition tracks_dirs :: "'w python_services \<Rightarrow> ('w \<Rightarrow> string set) \<Rightarrow> bool" where
  "tracks_dirs sv dirs \<longleftrightarrow>
     (\<forall>w. case py_tempdir sv w of
            (Inr d, w') \<Rightarrow> d \<notin> dirs w \<and> dirs w' = insert d (dirs w) | (Inl e, w') \<Rightarrow> dirs w' = dirs w)
     \<and> (\<forall>d w. \<exists>w'. py_cleanup sv d w = (Inr (), w') \<and> dirs w' = dirs w - {d})
     \<and> (\<forall>p t w. dirs (snd (py_write_text sv p t w)) = dirs w)
     \<and> (\<forall>c d e t m w. dirs (snd (py_run sv c d e t m w)) = dirs w)"

lemma tracks_tempdir:
  "tracks_dirs sv dirs \<Longrightarrow> py_tempdir sv w = (Inl e, w') \<Longrightarrow> dirs w' = dirs w"
  "tracks_dirs sv dirs \<Longrightarrow> py_tempdir sv w = (Inr d, w') \<Longrightarrow> d \<notin> dirs w \<and> dirs w' = insert d (dirs w)"
  unfolding tracks_dirs_def by (drule conjunct1, drule spec [of _ w], simp)+

lemma same_dirs:
  assumes "\<And>w. dirs (snd (m w)) = dirs w"
  shows "sx_valid (\<lambda>w. dirs w = D) m (\<lambda>_ w. dirs w = D) (\<lambda>_ w. dirs w = D)"
  unfolding sx_valid_def
proof (intro allI impI)
  fix w assume "dirs w = D"
  then have "dirs (snd (m w)) = D" using assms by simp
  then show "case m w of (Inl e, t) \<Rightarrow> dirs t = D | (Inr a, t) \<Rightarrow> dirs t = D" by (auto split: prod.split sum.split)
qed

lemma run_script_dirs:
  assumes "tracks_dirs sv dirs"
  shows "sx_valid (\<lambda>w. dirs w = D) (run_script sv sb code i d) (\<lambda>_ w. dirs w = D) (\<lambda>_ w. dirs w = D)"
  unfolding run_script_def Let_def
  by (rule sx_valid_seq [OF same_dirs], use assms in \<open>simp add: tracks_dirs_def\<close>,
      rule sx_valid_seq [OF same_dirs], simp add: sx_simps,
      rule sx_valid_seq [OF same_dirs], use assms in \<open>simp add: tracks_dirs_def\<close>)
    (rule same_dirs, simp add: sx_simps)

lemma run_script_result:
  "run_script sv sb code i d w = (Inr x, w') \<Longrightarrow> \<exists>p. sandbox_result_of (ps_limits sb) p = Inr x"
  by (auto simp: run_script_def Let_def sx_simps dest!: sx_bind_result)

lemma sandbox_result_bounds:
  assumes "0 \<le> li_max_output_chars li" "sandbox_result_of li p = Inr x"
  shows "sr_ok x = (sr_exit_code x = Some 0)" "sr_timed_out x = (sr_exit_code x = None)"
    "length (output_chars (sr_stdout x)) \<le> nat (li_max_output_chars li) + 15"
    "length (output_chars (sr_stderr x)) \<le> nat (li_max_output_chars li) + 15"
  using assms(2) trim_output_bound [OF assms(1)]
  by (cases p; auto simp: sandbox_result_of_def res_bind_Inr_iff)+

text \<open>
  C37: a run of the sandbox leaves no temporary directory behind, also when writing the script, encoding the input or
  starting the process raises. A result is \<open>ok\<close> exactly when the process ended by itself with code 0, and neither
  output is longer than the limit and the note that it was cut.
\<close>

theorem sandbox_runs_are_clean:
  assumes "tracks_dirs sv dirs" "run_sandbox sv sb code input_data w = (r, w')"
    and limit: "0 \<le> li_max_output_chars (ps_limits sb)"
  shows "dirs w' = dirs w
    \<and> (case r of Inl e \<Rightarrow> True
        | Inr x \<Rightarrow> sr_ok x = (sr_exit_code x = Some 0) \<and> sr_timed_out x = (sr_exit_code x = None)
            \<and> length (output_chars (sr_stdout x)) \<le> nat (li_max_output_chars (ps_limits sb)) + 15
            \<and> length (output_chars (sr_stderr x)) \<le> nat (li_max_output_chars (ps_limits sb)) + 15)"
proof (cases "py_tempdir sv w")
  case (Pair d0 w1)
  show ?thesis
  proof (cases d0)
    case (Inl e)
    then have "dirs w1 = dirs w" using tracks_tempdir(1) [OF assms(1)] Pair by blast
    with assms(2) Pair Inl show ?thesis by (auto simp: run_sandbox_def with_tempdir_def sx_bind_def)
  next
    case (Inr d)
    have new: "d \<notin> dirs w" "dirs w1 = insert d (dirs w)"
      using tracks_tempdir(2) [OF assms(1)] Pair Inr by blast+
    obtain res w2 where body: "run_script sv sb code input_data d w1 = (res, w2)" by fastforce
    then have "dirs w2 = insert d (dirs w)"
      using sx_validD [OF run_script_dirs [OF assms(1), of "insert d (dirs w)" sb code input_data d], of w1 _ w2] new
      by (cases res) auto
    moreover obtain w3 where w3: "py_cleanup sv d w2 = (Inr (), w3)" "dirs w3 = dirs w2 - {d}"
      using assms(1) unfolding tracks_dirs_def by blast
    ultimately have "dirs w3 = dirs w" using new by auto
    moreover have "(r, w') = (res, w3)"
      using assms(2) Pair Inr body w3(1)
      by (cases res) (simp_all add: run_sandbox_def with_tempdir_def sx_bind_def sx_try_def sx_simps)
    ultimately show ?thesis
      using run_script_result [of sv sb code input_data d w1 _ w2] body sandbox_result_bounds [OF limit] by (cases res) auto
  qed
qed

section \<open>Witnesses\<close>

text \<open>A world of directories whose processes time out after some output.\<close>

definition sample_python :: "string set python_services" where
  "sample_python =
     \<lparr>py_tempdir = (\<lambda>w. if ''d'' \<in> w then (Inl (Exc ''OSError'' []), w) else (Inr ''d'', insert ''d'' w)),
      py_cleanup = (\<lambda>d w. (Inr (), w - {d})), py_write_text = (\<lambda>p t. sx_return ()), py_dumps = (\<lambda>v. Inr ''null''),
      py_run = (\<lambda>c d e t m. sx_return (TimedOut (Some ''ab'') None))\<rparr>"

theorem sandbox_runs_are_clean_witness:
  "\<exists>x. run_sandbox sample_python (new_python_sandbox ''python'' None (Some \<lparr>li_timeout_seconds = 2, li_memory_mb = 256, li_max_output_chars = 2\<rparr>))
     ''pass'' None {} = (Inr x, {}) \<and> sr_timed_out x \<and> \<not> sr_ok x"
proof -
  let ?sb = "new_python_sandbox ''python'' None (Some \<lparr>li_timeout_seconds = 2, li_memory_mb = 256, li_max_output_chars = 2\<rparr>)"
  have "tracks_dirs sample_python id" by (auto simp: tracks_dirs_def sample_python_def sx_simps)
  moreover have "run_sandbox sample_python ?sb ''pass'' None {} = (sandbox_result_of (ps_limits ?sb) (TimedOut (Some ''ab'') None), {})"
    by (simp add: run_sandbox_def with_tempdir_def run_script_def sample_python_def sx_bind_def sx_try_def sx_simps Let_def
        split: sum.split)
  moreover have "0 \<le> li_max_output_chars (ps_limits ?sb)" by (simp add: new_python_sandbox_def)
  ultimately show ?thesis
    using sandbox_runs_are_clean [of sample_python id ?sb "''pass''" None "{}"] 
    by (auto simp: sandbox_result_of_def new_python_sandbox_def trim_output_def written_def)
qed

text \<open>More output than the limit before a timeout makes the run raise instead of reporting the timeout.\<close>

lemma long_output_hides_timeout:
  "li_max_output_chars li < int (length b) \<Longrightarrow> b \<noteq> [] \<Longrightarrow> \<exists>t. sandbox_result_of li (TimedOut (Some b) err) = Inl (Exc ''TypeError'' t)"
  by (simp add: sandbox_result_of_def trim_output_def written_def)

text \<open>What was written before a timeout is given out as bytes.\<close>

lemma timeout_output_is_bytes:
  "int (length b) \<le> li_max_output_chars li \<Longrightarrow> b \<noteq> [] \<Longrightarrow> 0 \<le> li_max_output_chars li \<Longrightarrow>
   \<exists>x. sandbox_result_of li (TimedOut (Some b) None) = Inr x \<and> sr_stdout x = Bytes b"
  by (simp add: sandbox_result_of_def trim_output_def written_def)

definition sample_tool :: "string \<Rightarrow> nat tool_spec" where
  "sample_tool n =
     \<lparr>fs_name = n, fs_description = [], fs_input_schema = [], fs_handler = (\<lambda>args. sx_return PNone), fs_tags = [''t'']\<rparr>"

theorem tools_are_listed_in_order_witness:
  "\<exists>reg. register_all register_tool [sample_tool ''b'', sample_tool ''a''] [] = Inr reg
     \<and> sorted (map fs_name (list_tools None reg)) \<and> distinct (map fs_name (list_tools None reg))"
  using tools_are_listed_in_order [of "[sample_tool ''b'', sample_tool ''a'']" _ "''t''"]
  by (auto simp: sample_tool_def register_tool_def)

theorem tool_calls_are_answered_witness:
  "\<exists>reg. register_all register_tool [sample_tool ''b'', sample_tool ''a''] [] = Inr reg
     \<and> adapter_call_tool reg ''a'' [] 0 = (Inr (PDict [(''isError'', PBool False),
         (''content'', PList [PDict [(''type'', PStr ''json''), (''json'', PNone)]])]), 0)
     \<and> adapter_call_tool reg ''c'' [] 0 = (Inr (PDict [(''isError'', PBool True),
         (''content'', PList [PDict [(''type'', PStr ''text''), (''text'', PStr (''Unknown tool '' @ [CHR 0x27] @ ''c'' @ [CHR 0x27]))]])]), 0)"
proof -
  obtain reg where reg: "register_all register_tool [sample_tool ''b'', sample_tool ''a''] [] = Inr reg"
    by (simp add: sample_tool_def register_tool_def)
  show ?thesis
    using tool_calls_are_answered [OF reg, of "''a''" "[]" 0] tool_calls_are_answered [OF reg, of "''c''" "[]" 0] reg
    by (simp add: sample_tool_def sx_simps)
qed

end
