(* ===== verification/AsyncApi.thy ===== *)
theory AsyncApi
  imports SchemaValidation StateExc
begin

text \<open>
  The asynchronous client of OpenAI-like services, \<open>SchedulingModuleWroteBefore/async_interface.py\<close>: the request, the
  reader of streamed answers with its growing buffers, the parser of answers, and the call that ties them together. The
  HTTP client is a record of operations on a world; \<open>json.loads\<close> and the decoding of bytes are parameters; a streamed
  answer is the list of its lines and what reading on after them raises. Logging is left out.
\<close>

section \<open>Payloads\<close>

record chat_payload =
  hp_reason :: pyval
  hp_result :: pyval

record api_payload =
  ay_chat :: chat_payload
  ay_health :: bool
  ay_load :: int
  ay_ping :: bool
  ay_version :: string
  ay_success :: bool

definition new_api_payload :: api_payload where
  "new_api_payload =
     \<lparr>ay_chat = \<lparr>hp_reason = PStr ''null'', hp_result = PStr ''null''\<rparr>, ay_health = False, ay_load = -1, ay_ping = False,
      ay_version = ''null'', ay_success = False\<rparr>"

record api_response =
  rp_status :: int
  rp_lines :: "string list"
  rp_broken :: "exc option"

text \<open>Sessions are numbers.\<close>

record 'w api_services =
  as_new_session :: "'w \<Rightarrow> nat \<times> 'w"
  as_close_session :: "nat \<Rightarrow> 'w \<Rightarrow> 'w"
  as_request :: "nat \<Rightarrow> string \<Rightarrow> string \<Rightarrow> pyval \<Rightarrow> pyval \<Rightarrow> pyval dict \<Rightarrow> int \<Rightarrow> pyval dict \<Rightarrow> ('w, api_response) sx"
  as_json :: "api_response \<Rightarrow> ('w, pyval) sx"
  as_loads :: "string \<Rightarrow> pyval res"
  as_decode :: "string \<Rightarrow> string res"

section \<open>Reading a stream\<close>

text \<open>\<open>v[0]\<close>\<close>

fun first_item :: "pyval \<Rightarrow> pyval res" where
  "first_item (PList (x # xs)) = Inr x"
| "first_item (PTuple (x # xs)) = Inr x"
| "first_item (PStr (c # cs)) = Inr (PStr [c])"
| "first_item (PList []) = Inl (Exc ''IndexError'' ''list index out of range'')"
| "first_item (PTuple []) = Inl (Exc ''IndexError'' ''tuple index out of range'')"
| "first_item (PStr []) = Inl (Exc ''IndexError'' ''string index out of range'')"
| "first_item (PDict d) = Inl (Exc ''KeyError'' ''0'')"
| "first_item v = Inl (Exc ''TypeError'' ''object is not subscriptable'')"

definition first_choice :: "pyval \<Rightarrow> pyval res" where
  "first_choice v = res_bind (py_item v ''choices'') first_item"

record piece_buffer =
  bf_cache :: "pyval list"
  bf_size :: nat
  bf_point :: nat

definition block_size :: nat where
  "block_size = 1024"

definition new_buffer :: piece_buffer where
  "new_buffer = \<lparr>bf_cache = replicate block_size (PStr []), bf_size = block_size, bf_point = 0\<rparr>"

text \<open>A full buffer grows by a block; a position outside the list is an \<open>IndexError\<close>.\<close>

definition buffer_put :: "pyval \<Rightarrow> piece_buffer \<Rightarrow> piece_buffer res" where
  "buffer_put x b =
     (let b = (if bf_point b = bf_size b
               then b\<lparr>bf_cache := bf_cache b @ replicate block_size (PStr []), bf_size := bf_size b + block_size\<rparr> else b)
      in if bf_point b < length (bf_cache b)
         then Inr (b\<lparr>bf_cache := (bf_cache b)[bf_point b := x], bf_point := bf_point b + 1\<rparr>)
         else Inl (Exc ''IndexError'' ''list assignment index out of range''))"

definition put_piece :: "pyval \<Rightarrow> piece_buffer \<Rightarrow> piece_buffer res" where
  "put_piece x b = (if x = PNone then Inr b else buffer_put x b)"

text \<open>\<open>''''.join(xs)\<close>\<close>

fun join_texts :: "pyval list \<Rightarrow> string res" where
  "join_texts [] = Inr []"
| "join_texts (PStr s # xs) = res_bind (join_texts xs) (\<lambda>t. Inr (s @ t))"
| "join_texts (x # xs) = Inl (Exc ''TypeError'' ''sequence item: expected str instance'')"

definition buffer_text :: "piece_buffer \<Rightarrow> string res" where
  "buffer_text b = join_texts (take (bf_point b) (bf_cache b))"

definition remove_prefix :: "string \<Rightarrow> string \<Rightarrow> string" where
  "remove_prefix p s = (if py_startswith s p then drop (length p) s else s)"

text \<open>What one line of the stream means.\<close>

datatype line_event = Ignored | Finish | Delta pyval pyval

definition event_of :: "pyval \<Rightarrow> line_event res" where
  "event_of v =
     res_bind (res_bind (first_choice v) (\<lambda>c. py_get c ''finish_reason'' PNone)) (\<lambda>finish_reason.
       if py_eq finish_reason (PStr ''stop'') then Inr Finish
       else res_bind (res_bind (res_bind (first_choice v) (\<lambda>c. py_item c ''delta'')) (\<lambda>d. py_get d ''reasoning_content'' PNone)) (\<lambda>reason.
            res_bind (res_bind (res_bind (first_choice v) (\<lambda>c. py_item c ''delta'')) (\<lambda>d. py_get d ''content'' PNone)) (\<lambda>result.
              Inr (Delta reason result))))"

definition read_line :: "'w api_services \<Rightarrow> string \<Rightarrow> line_event res" where
  "read_line sv line =
     res_bind (as_decode sv line) (\<lambda>t.
       let decode_line = py_strip (remove_prefix ''data: '' t) in
       if decode_line = [] then Inr Ignored
       else (case as_loads sv decode_line of
               Inl e \<Rightarrow> if exc_class e = ''JSONDecodeError'' then Inr Ignored else Inl e
             | Inr v \<Rightarrow> event_of v))"

fun stream_loop ::
  "'w api_services \<Rightarrow> exc option \<Rightarrow> string list \<Rightarrow> piece_buffer \<Rightarrow> piece_buffer \<Rightarrow> (piece_buffer \<times> piece_buffer) res" where
  "stream_loop sv broken [] reasons results = (case broken of None \<Rightarrow> Inr (reasons, results) | Some e \<Rightarrow> Inl e)"
| "stream_loop sv broken (line # lines) reasons results =
     res_bind (read_line sv line) (\<lambda>ev.
       case ev of
         Ignored \<Rightarrow> stream_loop sv broken lines reasons results
       | Finish \<Rightarrow> Inr (reasons, results)
       | Delta reason result \<Rightarrow>
           res_bind (put_piece reason reasons) (\<lambda>reasons.
           res_bind (put_piece result results) (\<lambda>results. stream_loop sv broken lines reasons results)))"

text \<open>\<open>__openai_stream_chat_response_async_processor\<close>\<close>

definition stream_chat :: "'w api_services \<Rightarrow> api_response \<Rightarrow> chat_payload res" where
  "stream_chat sv resp =
     res_bind (stream_loop sv (rp_broken resp) (rp_lines resp) new_buffer new_buffer) (\<lambda>(reasons, results).
     res_bind (buffer_text reasons) (\<lambda>reason.
     res_bind (buffer_text results) (\<lambda>result. Inr \<lparr>hp_reason = PStr reason, hp_result = PStr result\<rparr>)))"

section \<open>The call\<close>

definition request_headers :: "string \<Rightarrow> pyval dict option \<Rightarrow> pyval dict" where
  "request_headers access_token headers =
     dupdate
       ([(''Accept'', PStr ''*/*''), (''Content-Type'', PStr ''application/json'')]
        @ (if access_token = [] then [] else [(''Authorization'', PStr access_token)]))
       (case headers of None \<Rightarrow> [] | Some h \<Rightarrow> h)"

text \<open>What a caller asks for.\<close>

record invoke_args =
  iv_url :: string
  iv_model_id :: string
  iv_context :: string
  iv_access_token :: string
  iv_method :: string
  iv_stream_pattern :: bool
  iv_headers :: "pyval dict option"
  iv_param :: pyval
  iv_json_data :: "pyval dict option"
  iv_messages :: "pyval list option"
  iv_thinking :: bool
  iv_tools :: "pyval list option"
  iv_temperature :: rat
  iv_timeout :: int
  iv_aiohttp_kwargs :: "pyval dict option"
  iv_llm_kwargs :: "pyval dict option"

definition list_or_empty :: "'a list option \<Rightarrow> 'a list" where
  "list_or_empty xs = (case xs of None \<Rightarrow> [] | Some ys \<Rightarrow> ys)"

definition request_body :: "invoke_args \<Rightarrow> pyval dict" where
  "request_body a =
     (if list_or_empty (iv_json_data a) \<noteq> [] then list_or_empty (iv_json_data a)
      else dupdate
        [(''model'', PStr (iv_model_id a)),
         (''messages'', PList (if list_or_empty (iv_messages a) \<noteq> [] then list_or_empty (iv_messages a)
            else [PDict [(''role'', PStr ''user''), (''content'', PStr (iv_context a))]])),
         (''tools'', PList (list_or_empty (iv_tools a))), (''temperature'', PFloat (iv_temperature a)),
         (''stream'', PBool (iv_stream_pattern a)),
         (''chat_template_kwargs'', PDict [(''enable_thinking'', PBool (iv_thinking a))])]
        (list_or_empty (iv_llm_kwargs a)))"

definition as_op :: "('w \<Rightarrow> 'a \<times> 'w) \<Rightarrow> ('w, 'a) sx" where
  "as_op f = (\<lambda>w. case f w of (a, w') \<Rightarrow> (Inr a, w'))"

definition close_http :: "'w api_services \<Rightarrow> nat \<Rightarrow> ('w, unit) sx" where
  "close_http sv s = sx_modify (as_close_session sv s)"

definition open_or_given :: "'w api_services \<Rightarrow> nat option \<Rightarrow> ('w, nat) sx" where
  "open_or_given sv session = (case session of None \<Rightarrow> as_op (as_new_session sv) | Some s \<Rightarrow> sx_return s)"

definition close_if_owned :: "'w api_services \<Rightarrow> nat option \<Rightarrow> nat \<Rightarrow> ('w, unit) sx" where
  "close_if_owned sv session s = (if session = None then close_http sv s else sx_return ())"

text \<open>\<open>async_request_openai\<close>\<close>

definition request_openai :: "'w api_services \<Rightarrow> nat option \<Rightarrow> invoke_args \<Rightarrow> ('w, api_response) sx" where
  "request_openai sv session a =
     sx_bind (open_or_given sv session) (\<lambda>s.
       sx_finally
         (sx_bind (as_request sv s (iv_method a) (iv_url a) (iv_param a) (PDict (request_body a))
                     (request_headers (iv_access_token a) (iv_headers a)) (iv_timeout a) (list_or_empty (iv_aiohttp_kwargs a))) (\<lambda>resp.
            if iv_stream_pattern a then sx_return resp
            else sx_bind (close_http sv s) (\<lambda>_. sx_return resp)))
         (close_if_owned sv session s))"

text \<open>\<open>__openai_chat_response_async_phaser\<close>\<close>

definition plain_chat :: "pyval \<Rightarrow> chat_payload res" where
  "plain_chat v =
     res_bind (res_bind (res_bind (py_get v ''choices'' PNone) first_item) (\<lambda>c. py_get c ''reason'' PNone)) (\<lambda>reason.
     res_bind (res_bind (res_bind (first_choice v) (\<lambda>c. py_item c ''message'')) (\<lambda>m. py_get m ''content'' PNone)) (\<lambda>result.
       Inr \<lparr>hp_reason = reason, hp_result = result\<rparr>))"

definition read_chat :: "'w api_services \<Rightarrow> api_response \<Rightarrow> nat option \<Rightarrow> bool \<Rightarrow> ('w, chat_payload) sx" where
  "read_chat sv resp session stream_pattern =
     (if \<not> stream_pattern then sx_bind (as_json sv resp) (\<lambda>v. sx_lift (plain_chat v))
      else (case session of
              None \<Rightarrow> sx_raise (Exc ''RuntimeError'' ''Streaming-Pattern must be used with param <session>, got None'')
            | Some s \<Rightarrow>
                sx_bind (sx_lift (stream_chat sv resp)) (\<lambda>chat.
                sx_bind (close_http sv s) (\<lambda>_. sx_return chat))))"

definition parse_chat :: "'w api_services \<Rightarrow> api_response \<Rightarrow> nat option \<Rightarrow> bool \<Rightarrow> ('w, chat_payload) sx" where
  "parse_chat sv resp session stream_pattern =
     sx_try (read_chat sv resp session stream_pattern) (\<lambda>_. True)
       (\<lambda>e. sx_return \<lparr>hp_reason = PStr ''ERROR'', hp_result = PStr (exc_text e)\<rparr>)"

text \<open>The end point is a text: members of the enumeration are equal to their values.\<close>

definition answer_endpoint :: "'w api_services \<Rightarrow> string \<Rightarrow> nat \<Rightarrow> bool \<Rightarrow> api_response \<Rightarrow> ('w, api_payload) sx" where
  "answer_endpoint sv endpoint s stream_pattern resp =
     (if endpoint = ''chat''
      then sx_bind (parse_chat sv resp (Some s) stream_pattern) (\<lambda>chat.
           sx_return (new_api_payload\<lparr>ay_chat := chat, ay_success := rp_status resp = 200\<rparr>))
      else if endpoint = ''health''
      then sx_return (new_api_payload\<lparr>ay_health := rp_status resp = 200, ay_success := True\<rparr>)
      else if endpoint = ''ping''
      then sx_return (new_api_payload\<lparr>ay_ping := rp_status resp = 200, ay_success := True\<rparr>)
      else sx_raise (Exc ''NotImplementedError'' ''This feature is not implemented yet.''))"

text \<open>\<open>async_invoke_openai\<close>: the request is made before the \<open>try\<close> block.\<close>

definition invoke_openai :: "'w api_services \<Rightarrow> string \<Rightarrow> nat option \<Rightarrow> invoke_args \<Rightarrow> ('w, api_payload) sx" where
  "invoke_openai sv endpoint session a =
     sx_bind (open_or_given sv session) (\<lambda>s.
     sx_bind (request_openai sv (Some s) a) (\<lambda>resp.
       sx_finally (answer_endpoint sv endpoint s (iv_stream_pattern a) resp) (close_if_owned sv session s)))"

section \<open>The buffers are lists\<close>

definition buffer_ok :: "piece_buffer \<Rightarrow> bool" where
  "buffer_ok b \<longleftrightarrow> bf_size b = length (bf_cache b) \<and> bf_point b \<le> bf_size b"

definition buffer_pieces :: "piece_buffer \<Rightarrow> pyval list" where
  "buffer_pieces b = take (bf_point b) (bf_cache b)"

lemma new_buffer_ok: "buffer_ok new_buffer" "buffer_pieces new_buffer = []"
  by (simp_all add: buffer_ok_def buffer_pieces_def new_buffer_def)

lemma buffer_put_ok:
  assumes "buffer_ok b"
  shows "\<exists>b'. buffer_put x b = Inr b' \<and> buffer_ok b' \<and> buffer_pieces b' = buffer_pieces b @ [x]"
proof -
  have "0 < block_size" by (simp add: block_size_def)
  with assms show ?thesis
    by (cases "bf_point b = bf_size b")
      (auto simp: buffer_put_def buffer_ok_def buffer_pieces_def Let_def take_Suc_conv_app_nth nth_append list_update_append)
qed

definition given :: "pyval \<Rightarrow> pyval list" where
  "given x = (if x = PNone then [] else [x])"

lemma put_piece_ok:
  assumes "buffer_ok b"
  shows "\<exists>b'. put_piece x b = Inr b' \<and> buffer_ok b' \<and> buffer_pieces b' = buffer_pieces b @ given x"
  using buffer_put_ok [OF assms, of x] assms by (auto simp: put_piece_def given_def)

text \<open>The pieces of a stream, without buffers.\<close>

fun collect_pieces :: "'w api_services \<Rightarrow> exc option \<Rightarrow> string list \<Rightarrow> (pyval list \<times> pyval list) res" where
  "collect_pieces sv broken [] = (case broken of None \<Rightarrow> Inr ([], []) | Some e \<Rightarrow> Inl e)"
| "collect_pieces sv broken (line # lines) =
     res_bind (read_line sv line) (\<lambda>ev.
       case ev of
         Ignored \<Rightarrow> collect_pieces sv broken lines
       | Finish \<Rightarrow> Inr ([], [])
       | Delta reason result \<Rightarrow>
           res_bind (collect_pieces sv broken lines) (\<lambda>(rs, cs). Inr (given reason @ rs, given result @ cs)))"

lemma stream_loop_collects:
  assumes "buffer_ok reasons" "buffer_ok results"
  shows "case collect_pieces sv broken lines of
      Inl e \<Rightarrow> stream_loop sv broken lines reasons results = Inl e
    | Inr (rs, cs) \<Rightarrow> \<exists>b c. stream_loop sv broken lines reasons results = Inr (b, c)
        \<and> buffer_pieces b = buffer_pieces reasons @ rs \<and> buffer_pieces c = buffer_pieces results @ cs"
  using assms
proof (induction lines arbitrary: reasons results)
  case Nil
  then show ?case by (simp split: option.split)
next
  case (Cons line lines)
  show ?case
  proof (cases "read_line sv line")
    case (Inr ev)
    show ?thesis
    proof (cases ev)
      case Ignored
      from Cons.IH [OF Cons.prems] show ?thesis
        by (cases "collect_pieces sv broken lines") (auto simp: Inr Ignored)
    next
      case (Delta reason result)
      obtain b where b: "put_piece reason reasons = Inr b" "buffer_ok b" "buffer_pieces b = buffer_pieces reasons @ given reason"
        using put_piece_ok [OF Cons.prems(1)] by blast
      obtain c where c: "put_piece result results = Inr c" "buffer_ok c" "buffer_pieces c = buffer_pieces results @ given result"
        using put_piece_ok [OF Cons.prems(2)] by blast
      from Cons.IH [OF b(2) c(2)] show ?thesis
        by (cases "collect_pieces sv broken lines") (auto simp: Inr Delta b c)
    qed (simp add: Inr)
  qed simp
qed

text \<open>
  C38: the reader of streams gives what the stream says: for every stream, however long, the growing buffers never run
  over, and the result is the concatenation of the reasoning and of the content pieces of the lines before the one that
  says \<open>stop\<close>; lines that are empty or not JSON are skipped, and the exceptions are those of the lines, in their order.
\<close>

theorem stream_is_concatenation:
  "stream_chat sv resp =
     res_bind (collect_pieces sv (rp_broken resp) (rp_lines resp)) (\<lambda>(rs, cs).
     res_bind (join_texts rs) (\<lambda>reason.
     res_bind (join_texts cs) (\<lambda>result. Inr \<lparr>hp_reason = PStr reason, hp_result = PStr result\<rparr>)))"
  using stream_loop_collects [OF new_buffer_ok(1) new_buffer_ok(1), of sv "rp_broken resp" "rp_lines resp"]
  by (cases "collect_pieces sv (rp_broken resp) (rp_lines resp)")
    (auto simp: stream_chat_def buffer_text_def buffer_pieces_def [symmetric] new_buffer_ok)

section \<open>Sessions\<close>

text \<open>\<open>opened\<close> gives the sessions that are open; only making and closing a session changes them.\<close>

definition tracks_sessions :: "'w api_services \<Rightarrow> ('w \<Rightarrow> nat set) \<Rightarrow> bool" where
  "tracks_sessions sv opened \<longleftrightarrow>
     (\<forall>w. fst (as_new_session sv w) \<notin> opened w
        \<and> opened (snd (as_new_session sv w)) = insert (fst (as_new_session sv w)) (opened w))
     \<and> (\<forall>s w. opened (as_close_session sv s w) = opened w - {s})
     \<and> (\<forall>s m u p b h t k w. opened (snd (as_request sv s m u p b h t k w)) = opened w)
     \<and> (\<forall>r w. opened (snd (as_json sv r w)) = opened w)"

lemma close_if_owned_runs:
  "close_if_owned sv session s w = (Inr (), if session = None then as_close_session sv s w else w)"
  by (simp add: close_if_owned_def close_http_def sx_simps)

definition send_request :: "'w api_services \<Rightarrow> nat \<Rightarrow> invoke_args \<Rightarrow> ('w, api_response) sx" where
  "send_request sv s a =
     as_request sv s (iv_method a) (iv_url a) (iv_param a) (PDict (request_body a))
       (request_headers (iv_access_token a) (iv_headers a)) (iv_timeout a) (list_or_empty (iv_aiohttp_kwargs a))"

lemma request_given_session:
  assumes "send_request sv s a w = (r, w1)"
  shows "request_openai sv (Some s) a w
    = (r, if is_ret r \<and> \<not> iv_stream_pattern a then as_close_session sv s w1 else w1)"
proof -
  let ?m = "sx_bind (send_request sv s a) (\<lambda>resp.
    if iv_stream_pattern a then sx_return resp else sx_bind (close_http sv s) (\<lambda>_. sx_return resp))"
  have "?m w = (r, if is_ret r \<and> \<not> iv_stream_pattern a then as_close_session sv s w1 else w1)"
    using assms by (cases r) (simp_all add: sx_bind_def sx_simps close_http_def)
  from sx_finally_runs [of ?m, OF this, of "close_if_owned sv (Some s) s"] show ?thesis
    by (simp add: request_openai_def open_or_given_def send_request_def sx_bind_step close_if_owned_runs)
qed

lemma parse_chat_runs:
  assumes "tracks_sessions sv opened"
  shows "\<exists>chat w'. parse_chat sv resp (Some s) stream w = (Inr chat, w')
    \<and> (opened w' = opened w \<or> opened w' = opened w - {s})
    \<and> (\<forall>e. stream \<longrightarrow> stream_chat sv resp = Inl e \<longrightarrow> chat = \<lparr>hp_reason = PStr ''ERROR'', hp_result = PStr (exc_text e)\<rparr>)"
proof -
  have json: "opened (snd (as_json sv resp w)) = opened w" and close: "opened (as_close_session sv s w) = opened w - {s}"
    using assms by (simp_all add: tracks_sessions_def)
  show ?thesis
  proof (cases stream)
    case True
    with close show ?thesis
      by (cases "stream_chat sv resp") (auto simp: parse_chat_def read_chat_def sx_try_def sx_bind_def sx_simps close_http_def)
  next
    case False
    obtain r w1 where "as_json sv resp w = (r, w1)" by fastforce
    with json False show ?thesis
      by (cases r) (auto simp: parse_chat_def read_chat_def sx_try_def sx_bind_def sx_simps split: sum.split)
  qed
qed

lemma answer_endpoint_runs:
  assumes "tracks_sessions sv opened" "answer_endpoint sv endpoint s stream resp w = (r, w')"
  shows "opened w' = opened w \<or> opened w' = opened w - {s}"
    "endpoint = ''chat'' \<Longrightarrow> \<exists>p. r = Inr p \<and> ay_success p = (rp_status resp = 200)
       \<and> (\<forall>e. stream \<longrightarrow> stream_chat sv resp = Inl e \<longrightarrow> ay_chat p = \<lparr>hp_reason = PStr ''ERROR'', hp_result = PStr (exc_text e)\<rparr>)"
proof -
  obtain chat w1 where chat: "parse_chat sv resp (Some s) stream w = (Inr chat, w1)"
    "opened w1 = opened w \<or> opened w1 = opened w - {s}"
    "\<forall>e. stream \<longrightarrow> stream_chat sv resp = Inl e \<longrightarrow> chat = \<lparr>hp_reason = PStr ''ERROR'', hp_result = PStr (exc_text e)\<rparr>"
    using parse_chat_runs [OF assms(1), of resp s stream w] by (elim exE conjE) (rule that)
  show "opened w' = opened w \<or> opened w' = opened w - {s}"
    using assms(2) chat(1,2) by (cases "endpoint = ''chat''"; simp add: answer_endpoint_def sx_bind_def sx_simps split: if_splits; blast)
  show "\<exists>p. r = Inr p \<and> ay_success p = (rp_status resp = 200)
       \<and> (\<forall>e. stream \<longrightarrow> stream_chat sv resp = Inl e \<longrightarrow> ay_chat p = \<lparr>hp_reason = PStr ''ERROR'', hp_result = PStr (exc_text e)\<rparr>)"
    if "endpoint = ''chat''"
  proof -
    from assms(2) chat(1) that have "r = Inr (new_api_payload\<lparr>ay_chat := chat, ay_success := rp_status resp = 200\<rparr>)"
      by (simp add: answer_endpoint_def sx_bind_def sx_simps)
    with chat(3) show ?thesis by simp
  qed
qed

lemma open_or_given_runs:
  "open_or_given sv session w = (case session of
     None \<Rightarrow> (Inr (fst (as_new_session sv w)), snd (as_new_session sv w)) | Some s \<Rightarrow> (Inr s, w))"
  by (simp add: open_or_given_def as_op_def sx_simps split: option.split prod.split)

text \<open>A call on the session \<open>s\<close>, given or made.\<close>

lemma invoke_openai_steps:
  assumes "invoke_openai sv endpoint session a w = (r, w')"
  obtains s w0 resp w1 where "open_or_given sv session w = (Inr s, w0)" "send_request sv s a w0 = (resp, w1)"
    "\<And>e. resp = Inl e \<Longrightarrow> r = Inl e \<and> w' = w1"
    "\<And>x. resp = Inr x \<Longrightarrow> \<exists>w2. answer_endpoint sv endpoint s (iv_stream_pattern a) x
        (if iv_stream_pattern a then w1 else as_close_session sv s w1) = (r, w2)
      \<and> w' = (if session = None then as_close_session sv s w2 else w2)"
proof -
  obtain s w0 where s: "open_or_given sv session w = (Inr s, w0)"
    by (cases session) (simp_all add: open_or_given_runs)
  obtain resp w1 where resp: "send_request sv s a w0 = (resp, w1)" by fastforce
  note request = request_given_session [OF resp]
  show ?thesis
  proof (cases resp)
    case (Inl e)
    with s request assms show ?thesis by (intro that [OF s resp]) (simp_all add: invoke_openai_def sx_bind_def)
  next
    case (Inr x)
    obtain q w2 where answer: "answer_endpoint sv endpoint s (iv_stream_pattern a) x
      (if iv_stream_pattern a then w1 else as_close_session sv s w1) = (q, w2)" by fastforce
    have "(r, w') = (q, if session = None then as_close_session sv s w2 else w2)"
      using assms s request Inr sx_finally_runs [of "answer_endpoint sv endpoint s (iv_stream_pattern a) x" _ q w2 "close_if_owned sv session s",
        OF answer close_if_owned_runs]
      by (cases "iv_stream_pattern a") (simp_all add: invoke_openai_def sx_bind_def)
    with Inr answer show ?thesis by (intro that [OF s resp]) auto
  qed
qed

text \<open>
  C39: what happens to sessions in a call. A call that makes its own session has closed it when it returns, and when it
  raises, unless the request itself failed, after which that session stays open for good. A session given by the caller
  is not the caller's to close any more: without streaming every answered call has closed it.
\<close>

theorem sessions_of_a_call:
  assumes "tracks_sessions sv opened" "invoke_openai sv endpoint session a w = (r, w')"
  shows "case session of
      None \<Rightarrow> opened w' = opened w \<or> (\<exists>e s. r = Inl e \<and> s \<notin> opened w \<and> opened w' = insert s (opened w)
                \<and> (\<exists>w0 w1. send_request sv s a w0 = (Inl e, w1)))
    | Some s \<Rightarrow> (opened w' = opened w \<or> opened w' = opened w - {s})
        \<and> (is_ret r \<and> \<not> iv_stream_pattern a \<longrightarrow> opened w' = opened w - {s})"
proof -
  note T = assms(1) [unfolded tracks_sessions_def]
  obtain s w0 resp w1 where steps: "open_or_given sv session w = (Inr s, w0)" "send_request sv s a w0 = (resp, w1)"
    "\<And>e. resp = Inl e \<Longrightarrow> r = Inl e \<and> w' = w1"
    "\<And>x. resp = Inr x \<Longrightarrow> \<exists>w2. answer_endpoint sv endpoint s (iv_stream_pattern a) x
        (if iv_stream_pattern a then w1 else as_close_session sv s w1) = (r, w2)
      \<and> w' = (if session = None then as_close_session sv s w2 else w2)"
    using invoke_openai_steps [OF assms(2)] by blast
  have w0: "opened w0 = (if session = None then insert s (opened w) else opened w)" "session = None \<Longrightarrow> s \<notin> opened w"
    "session = None \<or> session = Some s"
    using steps(1) T by (auto simp: open_or_given_runs split: option.splits)
  have w1: "opened w1 = opened w0" using steps(2) T unfolding send_request_def by (metis snd_conv)
  show ?thesis
  proof (cases resp)
    case (Inl e)
    with steps(2,3) w0 w1 have "r = Inl e" "send_request sv s a w0 = (Inl e, w1)" "opened w' = opened w0" by simp_all
    with w0 show ?thesis by (cases session) (simp_all, blast)
  next
    case (Inr x)
    then obtain w2 where w2: "answer_endpoint sv endpoint s (iv_stream_pattern a) x
        (if iv_stream_pattern a then w1 else as_close_session sv s w1) = (r, w2)"
      "w' = (if session = None then as_close_session sv s w2 else w2)" using steps(4) by blast
    have close: "opened (as_close_session sv s u) = opened u - {s}" for u using T by blast
    from answer_endpoint_runs(1) [OF assms(1) w2(1)]
    have "opened w2 = opened w1 \<and> iv_stream_pattern a \<or> opened w2 = opened w1 - {s}"
      by (auto simp: close split: if_splits)
    then show ?thesis using w0 w1 w2(2) by (cases session) (auto simp: close)
  qed
qed

text \<open>
  An answered chat call always returns. It reports success by the status alone: when the stream cannot be read, for a
  status 200 the payload says \<open>success\<close> and has the text of the exception as the model's answer.
\<close>

theorem chat_calls_return:
  assumes "tracks_sessions sv opened" "send_request sv s a w = (Inr resp, w1)"
  shows "\<exists>p w'. invoke_openai sv ''chat'' (Some s) a w = (Inr p, w') \<and> ay_success p = (rp_status resp = 200)
    \<and> (\<forall>e. iv_stream_pattern a \<longrightarrow> stream_chat sv resp = Inl e \<longrightarrow>
          ay_chat p = \<lparr>hp_reason = PStr ''ERROR'', hp_result = PStr (exc_text e)\<rparr>)"
proof -
  obtain r w' where run: "invoke_openai sv ''chat'' (Some s) a w = (r, w')" by fastforce
  have given: "open_or_given sv (Some s) w = (Inr t, w0) \<Longrightarrow> t = s \<and> w0 = w" for t w0
    by (simp add: open_or_given_runs)
  from invoke_openai_steps [OF run] obtain w2 where
    "answer_endpoint sv ''chat'' s (iv_stream_pattern a) resp (if iv_stream_pattern a then w1 else as_close_session sv s w1) = (r, w2)"
    using assms(2) given by (metis prod.inject)
  from answer_endpoint_runs(2) [OF assms(1) this] run show ?thesis by auto
qed

text \<open>The request that fails is the one case in which a session is lost.\<close>

lemma failed_request_leaks_session:
  assumes "tracks_sessions sv opened" "\<And>s w. \<exists>w'. send_request sv s a w = (Inl e, w')"
  shows "\<exists>s w'. invoke_openai sv endpoint None a w = (Inl e, w') \<and> s \<notin> opened w \<and> opened w' = insert s (opened w)"
proof -
  note T = assms(1) [unfolded tracks_sessions_def]
  let ?s = "fst (as_new_session sv w)" and ?w = "snd (as_new_session sv w)"
  obtain w' where send: "send_request sv ?s a ?w = (Inl e, w')" using assms(2) by blast
  then have "opened w' = insert ?s (opened w)" using T unfolding send_request_def by (metis snd_conv)
  moreover have "invoke_openai sv endpoint None a w = (Inl e, w')"
    using request_given_session [OF send] by (simp add: invoke_openai_def open_or_given_runs sx_bind_def)
  moreover have "?s \<notin> opened w" using T by (elim conjE allE [of _ w])
  ultimately show ?thesis by (intro exI conjI)
qed

section \<open>Witnesses\<close>

text \<open>A server that answers 200 and breaks off the stream; the world holds the sessions made and the open ones.\<close>

definition sample_args :: invoke_args where
  "sample_args =
     \<lparr>iv_url = ''u'', iv_model_id = ''m'', iv_context = ''c'', iv_access_token = [], iv_method = ''POST'', iv_stream_pattern = True,
      iv_headers = None, iv_param = PNone, iv_json_data = None, iv_messages = None, iv_thinking = False, iv_tools = None,
      iv_temperature = 0, iv_timeout = 300, iv_aiohttp_kwargs = None, iv_llm_kwargs = None\<rparr>"

definition broken_response :: api_response where
  "broken_response = \<lparr>rp_status = 200, rp_lines = [], rp_broken = Some (Exc ''ClientPayloadError'' ''cut'')\<rparr>"

definition sample_api :: "(nat \<times> nat set) api_services" where
  "sample_api =
     \<lparr>as_new_session = (\<lambda>(n, o'). (n, (Suc n, insert n o'))), as_close_session = (\<lambda>s (n, o'). (n, o' - {s})),
      as_request = (\<lambda>s m u p b h t k. sx_return broken_response), as_json = (\<lambda>r. sx_return PNone),
      as_loads = (\<lambda>t. Inr PNone), as_decode = Inr\<rparr>"

lemma sample_api_tracks: "tracks_sessions sample_api (\<lambda>(n, o'). o' \<inter> {..<n})"
  by (auto simp: tracks_sessions_def sample_api_def sx_simps split: prod.split)

theorem chat_calls_return_witness:
  "\<exists>p w'. invoke_openai sample_api ''chat'' (Some 0) sample_args (1, {0}) = (Inr p, w') \<and> ay_success p
     \<and> ay_chat p = \<lparr>hp_reason = PStr ''ERROR'', hp_result = PStr ''cut''\<rparr>"
proof -
  have sent: "send_request sample_api 0 sample_args (1, {0}) = (Inr broken_response, (1, {0}))"
    by (simp add: send_request_def sample_api_def sx_simps)
  have "stream_chat sample_api broken_response = Inl (Exc ''ClientPayloadError'' ''cut'')"
    by (simp add: stream_chat_def broken_response_def)
  with chat_calls_return [OF sample_api_tracks sent] show ?thesis
    by (auto simp: sample_args_def broken_response_def)
qed

theorem sessions_of_a_call_witness:
  "\<exists>r w'. invoke_openai sample_api ''chat'' None sample_args (1, {0}) = (r, w') \<and> snd w' \<inter> {..<fst w'} = {0}"
proof -
  obtain r w' where run: "invoke_openai sample_api ''chat'' None sample_args (1, {0}) = (r, w')"
    by (rule prod.exhaust)
  have "send_request sample_api s sample_args w = (Inr broken_response, w)" for s w
    by (simp add: send_request_def sample_api_def sx_simps)
  with sessions_of_a_call [OF sample_api_tracks run] run show ?thesis by (auto simp: case_prod_beta)
qed

end
