(* ===== verification/Spec2Isabelle.thy ===== *)
theory Spec2Isabelle
  imports StepExecutors CmdCtrl LlmClient BuiltinCapabilities CapabilityValidator PlanValidation Execution Paths
    AgentLoop ApiScheduler PageText CrawlCache CrawlRunner Deployment HttpFetch BrowserPages
    BrowserFetch AuthGate WebTool FunctionTools AsyncApi
begin

text \<open>
  A verification library for the Python repository \<open>sth_boring\<close>. Paths are relative to
  \<open>src/src/\<close>; those of the first group are below \<open>sdk_test_agent/\<close>.

  The program. \<open>sdk_test_agent\<close> is an agent that tests software development kits. An agent loop
  (\<open>agent_loop/\<close>) asks an LLM what kind of request it has (\<open>interaction_decision.py\<close>), lets a
  capability panel (\<open>capability/\<close>) publish the steps that are available now, lets a planner
  (\<open>plan/planners/\<close>) write a plan over these steps, checks the plan (\<open>plan/plan_validation.py\<close>,
  \<open>agent_loop/preflight.py\<close>), runs it with a serial engine (\<open>execution/\<close>) whose step executors work in a
  container (\<open>sandbox/\<close>, \<open>cmd_ctrl/\<close>), and asks an LLM again whether the task is done
  (\<open>task_check.py\<close>); the LLM is reached through a registry of models and a client
  (\<open>llm/\<close>). \<open>AgentCrawler\<close> reads web pages for an agent: a policy per domain chooses transport and
  extractor, the page is cleaned, cut into chunks, ranked, judged and rendered, and results are
  cached. \<open>SchedulingModuleWroteBefore\<close> shares a pool of LLM interfaces by weighted round robin with
  circuit breakers, and has an asynchronous client for them. \<open>mcped_function_tools\<close> offers functions and a script sandbox
  as tools.

  Theories, in the order they build on one another.

  \<^item> \<open>Prelude\<close>, \<open>PyValue\<close>, \<open>Interfaces\<close>, \<open>StateExc\<close>: what the components share. Exceptions are values
    (\<open>exc\<close> holds the class name and the text, \<open>'a res\<close> is an exception or a value), dictionaries
    are association lists in insertion order, dynamic values are the datatype \<open>pyval\<close>, the string
    methods are functions on character lists. A stateful call is an \<open>sx\<close> computation, which keeps
    the changes made before an exception. The locales \<open>keyed_registry\<close>, \<open>once_registry\<close> and
    \<open>overwriting_registry\<close> state the contract of a registry; the capability, executor, provider,
    model, route and policy registries are its interpretations.
  \<^item> \<open>SchemaValidation\<close> (\<open>capability/schema_validation.py\<close>): the payload checker, and that on a
    schema of the supported shape it agrees with the meaning of the keywords.
  \<^item> \<open>PydanticCompat\<close> (\<open>capability/_pydantic_compat.py\<close>): the fallback of pydantic. What it accepts
    satisfies the schema it emits.
  \<^item> \<open>Capability\<close>, \<open>BuiltinCapabilities\<close>, \<open>CapabilityValidator\<close> (\<open>capability/\<close>): descriptors, registry,
    panel, snapshot, resolution record, the builtin registry, and their validators. What the
    panel makes available, with which reason, and that its outputs validate.
  \<^item> \<open>Plan\<close>, \<open>LlmPlanner\<close> (\<open>plan/\<close>): plans, drafts, finalizer, plan memory and the planners.
  \<^item> \<open>PlanValidation\<close> (\<open>plan/plan_validation.py\<close>): the plan validator, and a direct description of the
    plans it accepts.
  \<^item> \<open>Execution\<close> (\<open>execution/execution_engine.py\<close> with its models and policies): the engine over
    executors that may change a world and raise. Its runs refine an inductive trace relation.
  \<^item> \<open>StepExecutors\<close> (\<open>execution/step_executors/\<close>): each executor and the default registry.
  \<^item> \<open>Paths\<close>, \<open>Sandbox\<close> (\<open>sandbox/\<close>, \<open>docker_driver/base.py\<close>): the container life cycle as a state
    machine, and where files are written.
  \<^item> \<open>CmdCtrl\<close> (\<open>cmd_ctrl/\<close>): policies, operators and the controller around the sandbox.
  \<^item> \<open>LlmClient\<close> (\<open>llm/\<close>): model registry, request building, response normalisation, error mapping.
  \<^item> \<open>Decisions\<close>, \<open>AgentNodes\<close>, \<open>AgentLoop\<close> (\<open>agent_loop/\<close>): the decisions taken by an LLM, the nodes of the
    graph, its routes, and the single pass, which is a path of the graph that updates its state. Steps of the
    graph have the way of combining states as a parameter: checked plans are a matter of both ways, updating and
    replacing; the graph that replaces, as \<open>StateGraph(dict)\<close> does, never comes to a plan.
  \<^item> \<open>ApiScheduler\<close> (\<open>SchedulingModuleWroteBefore/abc_cls.py\<close>, \<open>scheduler.py\<close>): interfaces, circuit
    breaker, acquisition and redistribution of weights.
  \<^item> \<open>CrawlPolicy\<close> (\<open>AgentCrawler/src/agent_crawler/models/\<close>, \<open>policy/\<close>): requests, plans, domain
    policies, and the fallback after a failure.
  \<^item> \<open>PageText\<close> (\<open>AgentCrawler/src/webkit/\<close>, \<open>agent_crawler/assess/\<close>, \<open>render/\<close>): cleaning, chunking, ranking,
    quality and rendering of a page.
  \<^item> \<open>CrawlCache\<close> (\<open>agent_crawler/fetch/result_cache.py\<close>, \<open>session/session_store.py\<close>): the result cache and
    the session store.
  \<^item> \<open>CrawlRunner\<close> (\<open>agent_crawler/loop/runner.py\<close> with the results, events, fetch, adapter and emit modules it
    calls): a crawl from request to result. Its contract is proved part by part as triples over
    \<open>sx\<close> computations (\<open>sx_valid\<close> in \<open>StateExc\<close>).
  \<^item> \<open>JsonText\<close>: UTF-8 and the printing of JSON values, and that the text determines the value.
  \<^item> \<open>DockerDriver\<close> (\<open>docker_driver/\<close>): the driver over the docker package, which errors it raises; the locale
    \<open>build_driver_contract\<close> states what its clients rely on.
  \<^item> \<open>Inspectors\<close> (\<open>inspection/\<close>): the inspectors of containers and of Java packages, and their verdicts.
  \<^item> \<open>RuntimeRegistry\<close> (\<open>artifact_manager/\<close>, \<open>control_plane/\<close>): tables, artifact and runtime services. Tables are
    interpretations of \<open>once_registry\<close>; each service operation has a triple over the well-formed stores.
  \<^item> \<open>Deployment\<close> (\<open>loop/\<close>): the deployment of a Java package over all of these, what a run records.
  \<^item> \<open>HttpFetch\<close> (\<open>webkit/fetchers/http.py\<close>): the fetcher with its retries, limiter and disk cache. The guard of
    \<open>HostLimiter\<close> raises (name mangling), so with it no page is requested; with any limiter, what stays true of
    the cache and how many requests a fetch makes.
  \<^item> \<open>BrowserPages\<close> (\<open>agent_crawler/fetch/browser_registry.py\<close>): the registry of open browser pages, whose pages and
    contexts are accounted for as multisets: each is open or was closed once.
  \<^item> \<open>BrowserFetch\<close> (\<open>agent_crawler/fetch/browser_fetcher.py\<close>): the fetcher that drives a browser. Pages and contexts
    are accounted for through every fetch, failing or not; the wait for a login has a number of rounds as fuel, of which
    those that fit into the time-out, and one more, are enough.
  \<^item> \<open>AuthGate\<close> (\<open>agent_crawler/fetch/auth_gate.py\<close>): the detection of login pages, with scores as sums of
    doubles; where its threshold lies is decided in integers, in units of \<open>2^-56\<close>.
  \<^item> \<open>WebTool\<close> (\<open>agent_crawler/tools/\<close>): the tool around the crawler and the mapping of its results; its contract
    rests on that of the crawl.
  \<^item> \<open>FunctionTools\<close> (\<open>mcped_function_tools/\<close>): the registry of function tools (an interpretation of
    \<open>once_registry\<close>), the adapter and the sandbox for scripts.
  \<^item> \<open>AsyncApi\<close> (\<open>SchedulingModuleWroteBefore/async_interface.py\<close>): the asynchronous client, its reader of streams and
    what becomes of its sessions.

  Within a theory the definitions follow the code, one per function or branch of a function, with
  the name of the function; then come its lemmas, the properties and, for a property with
  hypotheses, a theorem that applies it to a concrete input.

  Bounds. Recursion that the code does not bound is given a number of frames (\<open>Prelude\<close>); the
  result \<open>None\<close> means that the frames did not suffice. \<open>schema_check_exact\<close> and \<open>validate_plan\<close> say how
  many are enough: as many as the schema has nodes. \<open>hard_split\<close> in \<open>PageText\<close> is a partial function
  whose undefinedness is the endless loop of the code. The wait for a login in \<open>BrowserFetch\<close> has a number of rounds,
  and \<open>login_wait_ends\<close> says how many are enough. Other recursion is structural or has a measure.

  Parameters. Code that is not in the repository is an argument: the JSON printer and reader,
  SHA-256, the docker package, the vendor SDK of the LLM client, the clock, generated identifiers,
  the logarithm of the ranking, the format of floats in rendered text, the way the graph library
  combines what a node returns with the state, web transports and HTML extraction, HTTP clients, the browser,
  files and subprocesses. What a theorem needs of
  them stands among its hypotheses.

  Reading the model. Characters are those of Isabelle (code points below 256); the string methods
  agree with Python there. Floats are rational numbers, so rounding errors of the source are not
  modelled, except in \<open>AuthGate\<close>, where every operation rounds to a double. Records hold values of the
  types their classes declare: reading a plan back from a dictionary (\<open>plan_from_dict\<close>) fails with the marker
  \<open>Untyped\<close> on field values of other types, which \<open>PlanStep(**step)\<close> accepts; such plans are outside the model. Locks and threads are not modelled: operations run one after another. Resource errors
  (memory, recursion depth beyond the frames) and \<open>BaseException\<close> are not modelled.

  Not modelled. The configuration loader and the HTML
  extractors and spiders over third-party parsers: mostly calls of libraries and services. Demos and tests are not part
  of the program.
\<close>

end
